(* ===== verification/Prelude.thy ===== *)
theory Prelude
  imports Main "HOL-Library.AList" "HOL-Library.Char_ord" "HOL-Library.List_Lexorder"
    "HOL-Library.Product_Lexorder"
begin

text \<open>
  Shared ground of the development: the exceptions the Python raises and the result type
  that carries them, the parts of Python's \<open>str\<close> and \<open>dict\<close> the program uses, and the
  state-and-exception monad in which the effectful code is written, with a small
  Hoare-style calculus (\<open>triple\<close>) for it.

  Strings are \<open>char\<close> lists, so a Python code point above 255 has no counterpart here. A
  \<open>dict\<close> is an association list in insertion order, as Python 3.7 and later guarantee.
\<close>

named_theorems triple_rules \<open>rules that compute what an effectful operation guarantees\<close>

section \<open>Exceptions and results\<close>

datatype py_error =
    ValueError string
  | RuntimeError string
  | KeyError string
  | TypeError string
  | AttributeError string
  | PermissionError string
  | ModuleNotFoundError string
  | FileExistsError string
  | FileNotFoundError string
  | OSError int
  | OSErrorText string
  | TimeoutExpired string
  | SSHException string
  | AuthenticationException string
  | SshNotReadyError string
  | SystemExit int

type_synonym 'a res = "py_error + 'a"

definition res_bind :: "'a res \<Rightarrow> ('a \<Rightarrow> 'b res) \<Rightarrow> 'b res" where
  "res_bind r f = (case r of Inl e \<Rightarrow> Inl e | Inr a \<Rightarrow> f a)"

lemma res_bind_simps [simp]:
  "res_bind (Inl e) f = Inl e"
  "res_bind (Inr a) f = f a"
  by (simp_all add: res_bind_def)

lemma res_bind_eq_Inr: "res_bind r f = Inr b \<longleftrightarrow> (\<exists>a. r = Inr a \<and> f a = Inr b)"
  by (cases r) auto

lemma res_bind_assoc: "res_bind (res_bind r f) g = res_bind r (\<lambda>x. res_bind (f x) g)"
  by (cases r) simp_all

text \<open>A comprehension or a loop that appends one result per element and stops at the first
  exception.\<close>

fun res_map :: "('a \<Rightarrow> 'b res) \<Rightarrow> 'a list \<Rightarrow> 'b list res" where
  "res_map f [] = Inr []"
| "res_map f (x # xs) =
     res_bind (f x) (\<lambda>y. res_bind (res_map f xs) (\<lambda>ys. Inr (y # ys)))"

lemma res_map_eq_Inr:
  "res_map f xs = Inr ys \<longleftrightarrow> list_all2 (\<lambda>x y. f x = Inr y) xs ys"
  by (induction xs arbitrary: ys) (auto simp: res_bind_eq_Inr list_all2_Cons1)

lemma res_map_Inr_map: "(\<And>x. x \<in> set xs \<Longrightarrow> f x = Inr (g x)) \<Longrightarrow> res_map f xs = Inr (map g xs)"
  by (induction xs) auto

lemma res_map_guard:
  "res_map (\<lambda>x. res_bind (v x) (\<lambda>_. Inr (f x))) xs = Inr ys \<longleftrightarrow>
   (\<forall>x \<in> set xs. \<exists>u. v x = Inr u) \<and> ys = map f xs"
  by (induction xs arbitrary: ys) (auto simp: res_bind_eq_Inr)

lemma res_map_guard_Inl:
  "res_map (\<lambda>x. res_bind (v x) (\<lambda>_. Inr (f x))) xs = Inl e \<Longrightarrow> \<exists>x \<in> set xs. v x = Inl e"
  by (induction xs) (auto simp: res_bind_def split: sum.splits)

section \<open>Strings\<close>

definition starts_with :: "string \<Rightarrow> string \<Rightarrow> bool" where
  "starts_with s p \<longleftrightarrow> take (length p) s = p"

definition ends_with :: "string \<Rightarrow> string \<Rightarrow> bool" where
  "ends_with s suffix \<longleftrightarrow> starts_with (rev s) (rev suffix)"

fun contains :: "string \<Rightarrow> string \<Rightarrow> bool" where
  "contains needle [] = (needle = [])"
| "contains needle (c # cs) = (starts_with (c # cs) needle \<or> contains needle cs)"

definition strip_by :: "(char \<Rightarrow> bool) \<Rightarrow> string \<Rightarrow> string" where
  "strip_by P s = rev (dropWhile P (rev (dropWhile P s)))"

definition rstrip_by :: "(char \<Rightarrow> bool) \<Rightarrow> string \<Rightarrow> string" where
  "rstrip_by P s = rev (dropWhile P (rev s))"

definition code :: "char \<Rightarrow> int" where
  "code c = of_char c"

definition is_space :: "char \<Rightarrow> bool" where
  "is_space c \<longleftrightarrow> code c \<in> {9, 10, 11, 12, 13, 28, 29, 30, 31, 32, 133, 160}"

definition py_strip :: "string \<Rightarrow> string" where
  "py_strip = strip_by is_space"

definition is_upper :: "char \<Rightarrow> bool" where
  "is_upper c \<longleftrightarrow> 65 \<le> code c \<and> code c \<le> 90"

definition is_lower :: "char \<Rightarrow> bool" where
  "is_lower c \<longleftrightarrow> 97 \<le> code c \<and> code c \<le> 122"

definition is_digit :: "char \<Rightarrow> bool" where
  "is_digit c \<longleftrightarrow> 48 \<le> code c \<and> code c \<le> 57"

text \<open>\<open>str.lower\<close> on the 8-bit range: ASCII and the Latin-1 capitals.\<close>

definition lower_char :: "char \<Rightarrow> char" where
  "lower_char c = (if is_upper c \<or> (192 \<le> code c \<and> code c \<le> 222 \<and> code c \<noteq> 215)
     then char_of (code c + 32) else c)"

definition py_lower :: "string \<Rightarrow> string" where
  "py_lower = map lower_char"

definition replace_char :: "char \<Rightarrow> string \<Rightarrow> string \<Rightarrow> string" where
  "replace_char c r s = concat (map (\<lambda>x. if x = c then r else [x]) s)"

text \<open>\<open>str.splitlines\<close> on the 8-bit range.\<close>

definition is_line_end :: "char \<Rightarrow> bool" where
  "is_line_end c \<longleftrightarrow> code c \<in> {10, 11, 12, 13, 28, 29, 30, 133}"

fun splitlines_from :: "string \<Rightarrow> string \<Rightarrow> string list" where
  "splitlines_from line [] = (if line = [] then [] else [line])"
| "splitlines_from line [c] = (if is_line_end c then [line] else [line @ [c]])"
| "splitlines_from line (c # d # cs) =
     (if code c = 13 \<and> code d = 10 then line # splitlines_from [] cs
      else if is_line_end c then line # splitlines_from [] (d # cs)
      else splitlines_from (line @ [c]) (d # cs))"

fun py_join :: "string \<Rightarrow> string list \<Rightarrow> string" where
  "py_join sep [] = []"
| "py_join sep [x] = x"
| "py_join sep (x # y # zs) = x @ sep @ py_join sep (y # zs)"

fun split_on :: "char \<Rightarrow> string \<Rightarrow> string list" where
  "split_on d [] = [[]]"
| "split_on d (c # cs) =
     (if c = d then [] # split_on d cs
      else case split_on d cs of [] \<Rightarrow> [[c]] | w # ws \<Rightarrow> (c # w) # ws)"

fun str_nat :: "nat \<Rightarrow> string" where
  "str_nat n = (if n < 10 then [char_of (48 + n)]
                else str_nat (n div 10) @ [char_of (48 + n mod 10)])"

declare str_nat.simps [simp del]

definition str_int :: "int \<Rightarrow> string" where
  "str_int i = (if i < 0 then ''-'' @ str_nat (nat (- i)) else str_nat (nat i))"

definition hex_char :: "int \<Rightarrow> char" where
  "hex_char d = (if d < 10 then char_of (48 + d) else char_of (87 + d))"

text \<open>\<open>repr\<close> of a string: single quotes unless the text holds a single and no double quote.\<close>

definition repr_char :: "char \<Rightarrow> char \<Rightarrow> string" where
  "repr_char quote c =
     (let n = code c
      in if c = quote \<or> n = 92 then [CHR 0x5C, c]
         else if n = 10 then [CHR 0x5C, CHR ''n'']
         else if n = 13 then [CHR 0x5C, CHR ''r'']
         else if n = 9 then [CHR 0x5C, CHR ''t'']
         else if n < 32 \<or> (127 \<le> n \<and> n \<le> 160) \<or> n = 173
         then [CHR 0x5C, CHR ''x'', hex_char (n div 16), hex_char (n mod 16)]
         else [c])"

definition py_repr :: "string \<Rightarrow> string" where
  "py_repr s =
     (let quote = (if CHR 0x27 \<in> set s \<and> CHR 0x22 \<notin> set s then CHR 0x22 else CHR 0x27)
      in [quote] @ concat (map (repr_char quote) s) @ [quote])"

lemma starts_with_iff: "starts_with s p \<longleftrightarrow> (\<exists>r. s = p @ r)"
proof
  assume "starts_with s p"
  then have "s = p @ drop (length p) s"
    unfolding starts_with_def by (metis append_take_drop_id)
  then show "\<exists>r. s = p @ r" by blast
qed (auto simp: starts_with_def)

lemma starts_with_append [simp]: "starts_with (p @ r) p"
  by (simp add: starts_with_def)

lemma contains_iff: "contains n s \<longleftrightarrow> (\<exists>a b. s = a @ n @ b)"
proof (induction s)
  case Nil
  show ?case by auto
next
  case (Cons c cs)
  note IH = Cons.IH
  show ?case
  proof
    assume "contains n (c # cs)"
    with IH show "\<exists>a b. c # cs = a @ n @ b"
      by (metis append_Cons append_Nil contains.simps(2) starts_with_iff)
  next
    assume "\<exists>a b. c # cs = a @ n @ b"
    then obtain a b where eq: "c # cs = a @ n @ b" by blast
    show "contains n (c # cs)"
    proof (cases a)
      case Nil
      with eq have "starts_with (c # cs) n" by (simp only: append_Nil starts_with_append)
      then show ?thesis by simp
    next
      case (Cons x a')
      with eq have "cs = a' @ n @ b" by simp
      with IH show ?thesis by auto
    qed
  qed
qed

lemma contains_mono: "contains n s \<Longrightarrow> contains n (p @ s @ q)"
  unfolding contains_iff by (metis append.assoc)

lemma split_on_nonempty [simp]: "split_on d s \<noteq> []"
  by (induction s) (auto split: list.splits)

lemma split_on_no_delim: "w \<in> set (split_on d s) \<Longrightarrow> d \<notin> set w"
  by (induction s arbitrary: w) (auto split: list.splits if_splits)

lemma split_on_single: "d \<notin> set s \<Longrightarrow> split_on d s = [s]"
  by (induction s) auto

lemma split_on_append: "d \<notin> set a \<Longrightarrow> split_on d (a @ d # b) = a # split_on d b"
  by (induction a) (auto split: list.splits)

lemma split_on_py_join:
  "ws \<noteq> [] \<Longrightarrow> (\<forall>w \<in> set ws. d \<notin> set w) \<Longrightarrow> split_on d (py_join [d] ws) = ws"
  by (induction "[d]" ws rule: py_join.induct) (auto simp: split_on_append split_on_single)

lemma py_join_Cons: "ws \<noteq> [] \<Longrightarrow> py_join sep (w # ws) = w @ sep @ py_join sep ws"
  by (cases ws) auto

section \<open>Ordered dictionaries\<close>

type_synonym ('k, 'v) dict = "('k \<times> 'v) list"

abbreviation dict_get :: "('k, 'v) dict \<Rightarrow> 'k \<Rightarrow> 'v option" where
  "dict_get \<equiv> map_of"

abbreviation dict_set :: "'k \<Rightarrow> 'v \<Rightarrow> ('k, 'v) dict \<Rightarrow> ('k, 'v) dict" where
  "dict_set \<equiv> AList.update"

abbreviation dict_pop :: "'k \<Rightarrow> ('k, 'v) dict \<Rightarrow> ('k, 'v) dict" where
  "dict_pop \<equiv> AList.delete"

abbreviation dict_ok :: "('k, 'v) dict \<Rightarrow> bool" where
  "dict_ok d \<equiv> distinct (map fst d)"

text \<open>\<open>dict.fromkeys(xs)\<close> used as an ordered set: the first occurrence of each key stays.\<close>

fun fromkeys_into :: "'a list \<Rightarrow> 'a list \<Rightarrow> 'a list" where
  "fromkeys_into ks [] = ks"
| "fromkeys_into ks (x # xs) = fromkeys_into (if x \<in> set ks then ks else ks @ [x]) xs"

definition dict_fromkeys :: "'a list \<Rightarrow> 'a list" where
  "dict_fromkeys xs = fromkeys_into [] xs"

lemma set_fromkeys_into: "set (fromkeys_into ks xs) = set ks \<union> set xs"
  by (induction ks xs rule: fromkeys_into.induct) auto

lemma distinct_fromkeys_into: "distinct ks \<Longrightarrow> distinct (fromkeys_into ks xs)"
  by (induction ks xs rule: fromkeys_into.induct) auto

lemma fromkeys_into_distinct: "distinct (ks @ xs) \<Longrightarrow> fromkeys_into ks xs = ks @ xs"
  by (induction ks xs rule: fromkeys_into.induct) auto

lemma set_dict_fromkeys [simp]: "set (dict_fromkeys xs) = set xs"
  by (simp add: dict_fromkeys_def set_fromkeys_into)

lemma distinct_dict_fromkeys [simp]: "distinct (dict_fromkeys xs)"
  by (simp add: dict_fromkeys_def distinct_fromkeys_into)

lemma dict_fromkeys_distinct: "distinct xs \<Longrightarrow> dict_fromkeys xs = xs"
  by (simp add: dict_fromkeys_def fromkeys_into_distinct)

lemma dict_ok_set [simp]: "dict_ok d \<Longrightarrow> dict_ok (dict_set k v d)"
  by (rule distinct_update)

lemma dict_ok_pop [simp]: "dict_ok d \<Longrightarrow> dict_ok (dict_pop k d)"
  by (rule distinct_delete)

lemma dict_get_set [simp]: "dict_get (dict_set k v d) k' = (if k' = k then Some v else dict_get d k')"
  by (simp add: update_conv')

lemma dict_get_pop [simp]: "dict_get (dict_pop k d) k' = (if k' = k then None else dict_get d k')"
  by (simp add: delete_conv')

lemma dict_get_set_all:
  "dict_get (fold (\<lambda>(k, v). dict_set k v) kvs d) k =
     (case map_of (rev kvs) k of Some v \<Rightarrow> Some v | None \<Rightarrow> dict_get d k)"
  by (induction kvs arbitrary: d) (auto simp: map_add_def split: option.splits)

section \<open>State and exceptions\<close>

type_synonym ('s, 'a) py = "'s \<Rightarrow> 'a res \<times> 's"

definition ret :: "'a \<Rightarrow> ('s, 'a) py" where
  "ret a = (\<lambda>s. (Inr a, s))"

definition raise :: "py_error \<Rightarrow> ('s, 'a) py" where
  "raise e = (\<lambda>s. (Inl e, s))"

definition lift_res :: "'a res \<Rightarrow> ('s, 'a) py" where
  "lift_res r = (\<lambda>s. (r, s))"

definition bind :: "('s, 'a) py \<Rightarrow> ('a \<Rightarrow> ('s, 'b) py) \<Rightarrow> ('s, 'b) py" where
  "bind m f = (\<lambda>s. case m s of (Inl e, s') \<Rightarrow> (Inl e, s') | (Inr a, s') \<Rightarrow> f a s')"

definition andthen :: "('s, 'a) py \<Rightarrow> ('s, 'b) py \<Rightarrow> ('s, 'b) py" where
  "andthen m n = bind m (\<lambda>_. n)"

fun steps :: "('s, unit) py list \<Rightarrow> ('s, unit) py" where
  "steps [] = ret ()"
| "steps (m # ms) = andthen m (steps ms)"

text \<open>\<open>try: m finally: fin\<close>: the final block runs on both exits, and an exception of its own
  replaces the pending one.\<close>

definition try_finally :: "('s, 'a) py \<Rightarrow> ('s, unit) py \<Rightarrow> ('s, 'a) py" where
  "try_finally m fin = (\<lambda>s. case m s of (r, s') \<Rightarrow>
     (case fin s' of (Inl e, s'') \<Rightarrow> (Inl e, s'') | (Inr _, s'') \<Rightarrow> (r, s'')))"

text \<open>\<open>try: m except ...\<close>: the handler chooses the branch by the exception; \<open>None\<close> means that no
  branch catches it. \<open>SystemExit\<close> is not an \<open>Exception\<close>.\<close>

definition catch :: "('s, 'a) py \<Rightarrow> (py_error \<Rightarrow> ('s, 'a) py option) \<Rightarrow> ('s, 'a) py" where
  "catch m handler = (\<lambda>s. case m s of
     (Inl e, s') \<Rightarrow> (case handler e of None \<Rightarrow> (Inl e, s') | Some h \<Rightarrow> h s')
   | (Inr a, s') \<Rightarrow> (Inr a, s'))"

fun is_exception :: "py_error \<Rightarrow> bool" where
  "is_exception (SystemExit _) = False"
| "is_exception _ = True"

fun is_permission_error :: "py_error \<Rightarrow> bool" where
  "is_permission_error (PermissionError _) = True"
| "is_permission_error _ = False"

fun is_os_error :: "py_error \<Rightarrow> bool" where
  "is_os_error (PermissionError _) = True"
| "is_os_error (FileExistsError _) = True"
| "is_os_error (FileNotFoundError _) = True"
| "is_os_error (OSError _) = True"
| "is_os_error (OSErrorText _) = True"
| "is_os_error _ = False"

fun is_timeout :: "py_error \<Rightarrow> bool" where
  "is_timeout (TimeoutExpired _) = True"
| "is_timeout _ = False"

fun for_each :: "'x list \<Rightarrow> ('x \<Rightarrow> ('s, unit) py) \<Rightarrow> ('s, unit) py" where
  "for_each [] f = ret ()"
| "for_each (x # xs) f = andthen (f x) (for_each xs f)"

text \<open>\<open>triple P m Q E\<close>: started in a state satisfying \<open>P\<close>, a normal return satisfies \<open>Q\<close> and
  an exceptional one satisfies \<open>E\<close>. Every operation of this monad is total, so this is
  total correctness.\<close>

definition triple ::
    "('s \<Rightarrow> bool) \<Rightarrow> ('s, 'a) py \<Rightarrow> ('a \<Rightarrow> 's \<Rightarrow> bool) \<Rightarrow> (py_error \<Rightarrow> 's \<Rightarrow> bool) \<Rightarrow> bool" where
  "triple P m Q E \<longleftrightarrow>
     (\<forall>s. P s \<longrightarrow> (case m s of (Inr a, s') \<Rightarrow> Q a s' | (Inl e, s') \<Rightarrow> E e s'))"

lemma triple_Inr: "triple P m Q E \<Longrightarrow> P s \<Longrightarrow> m s = (Inr a, s') \<Longrightarrow> Q a s'"
  by (fastforce simp: triple_def)

lemma triple_Inl: "triple P m Q E \<Longrightarrow> P s \<Longrightarrow> m s = (Inl e, s') \<Longrightarrow> E e s'"
  by (fastforce simp: triple_def)

lemma triple_ret [triple_rules]: "(\<And>s. P s \<Longrightarrow> Q a s) \<Longrightarrow> triple P (ret a) Q E"
  by (simp add: triple_def ret_def)

lemma triple_raise [triple_rules]: "(\<And>s. P s \<Longrightarrow> E e s) \<Longrightarrow> triple P (raise e) Q E"
  by (simp add: triple_def raise_def)

lemma triple_lift_res [triple_rules]:
  "(\<And>s a. P s \<Longrightarrow> r = Inr a \<Longrightarrow> Q a s) \<Longrightarrow> (\<And>s e. P s \<Longrightarrow> r = Inl e \<Longrightarrow> E e s) \<Longrightarrow>
   triple P (lift_res r) Q E"
  by (cases r) (auto simp: triple_def lift_res_def)

lemma triple_bind [triple_rules]:
  "triple P m R E \<Longrightarrow> (\<And>a. triple (R a) (f a) Q E) \<Longrightarrow> triple P (bind m f) Q E"
  unfolding triple_def bind_def by (fastforce split: prod.splits sum.splits)

lemma triple_andthen [triple_rules]:
  "triple P m (\<lambda>_. R) E \<Longrightarrow> triple R n Q E \<Longrightarrow> triple P (andthen m n) Q E"
  unfolding andthen_def by (rule triple_bind)

lemma triple_finally [triple_rules]:
  assumes "triple P m R F"
    and "\<And>a. triple (R a) fin (\<lambda>_. Q a) E"
    and "\<And>e. triple (F e) fin (\<lambda>_. E e) E"
  shows "triple P (try_finally m fin) Q E"
  unfolding triple_def
proof (intro allI impI)
  fix s
  assume "P s"
  obtain r s' where m: "m s = (r, s')" by (cases "m s")
  obtain q s'' where fin: "fin s' = (q, s'')" by (cases "fin s'")
  show "case try_finally m fin s of (Inl e, t) \<Rightarrow> E e t | (Inr a, t) \<Rightarrow> Q a t"
  proof (cases r)
    case (Inl e)
    with assms(1) \<open>P s\<close> m have "F e s'" by (auto intro: triple_Inl)
    with assms(3) have "case fin s' of (Inl e', t) \<Rightarrow> E e' t | (Inr _, t) \<Rightarrow> E e t"
      by (simp add: triple_def)
    with m fin Inl show ?thesis by (cases q) (simp_all add: try_finally_def)
  next
    case (Inr a)
    with assms(1) \<open>P s\<close> m have "R a s'" by (auto intro: triple_Inr)
    with assms(2) have "case fin s' of (Inl e', t) \<Rightarrow> E e' t | (Inr _, t) \<Rightarrow> Q a t"
      by (simp add: triple_def)
    with m fin Inr show ?thesis by (cases q) (simp_all add: try_finally_def)
  qed
qed

lemma triple_for_each:
  "(\<And>x. x \<in> set xs \<Longrightarrow> triple I (f x) (\<lambda>_. I) E) \<Longrightarrow> triple I (for_each xs f) (\<lambda>_. I) E"
proof (induction xs)
  case Nil
  show ?case by (simp add: triple_ret)
next
  case (Cons x xs)
  then show ?case by (auto intro!: triple_andthen [where R = I])
qed

lemma triple_weaken:
  "triple P m Q E \<Longrightarrow> (\<And>s. P' s \<Longrightarrow> P s) \<Longrightarrow> (\<And>a s. Q a s \<Longrightarrow> Q' a s) \<Longrightarrow>
   (\<And>e s. E e s \<Longrightarrow> E' e s) \<Longrightarrow> triple P' m Q' E'"
  unfolding triple_def by (fastforce split: prod.splits sum.splits)

lemma monad_simps:
  "bind (ret a) f = f a"
  "andthen (ret a) n = n"
  "bind (raise e) f = raise e"
  "andthen (raise e) n = raise e"
  "bind (lift_res (Inr a)) f = f a"
  "lift_res (Inl e) = raise e"
  by (simp_all add: bind_def andthen_def ret_def raise_def lift_res_def)

lemma bind_assoc: "bind (bind m f) g = bind m (\<lambda>a. bind (f a) g)"
  by (auto simp: bind_def fun_eq_iff split: prod.split sum.split)

text \<open>When a composed operation returns normally.\<close>

lemma bind_Inr:
  "bind m f s = (Inr b, s'') \<longleftrightarrow> (\<exists>a s'. m s = (Inr a, s') \<and> f a s' = (Inr b, s''))"
  by (auto simp: bind_def split: prod.split sum.split)

lemma andthen_Inr:
  "andthen m n s = (Inr b, s'') \<longleftrightarrow> (\<exists>a s'. m s = (Inr a, s') \<and> n s' = (Inr b, s''))"
  by (simp add: andthen_def bind_Inr)

lemma ret_Inr: "ret a s = (Inr b, s') \<longleftrightarrow> b = a \<and> s' = s"
  by (auto simp: ret_def)

lemma raise_Inr: "raise e s \<noteq> (Inr b, s')"
  by (simp add: raise_def)

lemma lift_res_Inr: "lift_res r s = (Inr b, s') \<longleftrightarrow> r = Inr b \<and> s' = s"
  by (auto simp: lift_res_def)

lemma try_finally_Inr:
  "try_finally m fin s = (Inr a, s') \<longleftrightarrow> (\<exists>t. m s = (Inr a, t) \<and> fin t = (Inr (), s'))"
  by (auto simp: try_finally_def split: prod.splits sum.splits)

end
