(* ===== verification/Posix_Path.thy ===== *)
theory Posix_Path
  imports Prelude
begin

text \<open>
  The part of \<open>pathlib.PurePosixPath\<close> the program uses: parsing, printing, \<open>/\<close>, \<open>name\<close>,
  \<open>parent\<close>, \<open>parents\<close>, \<open>suffix\<close>, \<open>with_suffix\<close>, \<open>is_absolute\<close> and \<open>relative_to\<close>. It is
  the standard library's behaviour, so no definition here has an entry in the map; the
  components call it where the source calls \<open>Path\<close>. Host paths are read as POSIX paths too
  (the Windows flavour of \<open>Path\<close> is not modelled).
\<close>

record path =
  path_root :: string
  path_parts :: "string list"

definition path_of :: "string \<Rightarrow> path" where
  "path_of s = \<lparr>
     path_root = (if starts_with s ''//'' \<and> \<not> starts_with s ''///'' then ''//''
                  else if starts_with s ''/'' then ''/'' else ''''),
     path_parts = filter (\<lambda>w. w \<noteq> '''' \<and> w \<noteq> ''.'') (split_on CHR ''/'' s)\<rparr>"

definition path_str :: "path \<Rightarrow> string" where
  "path_str p = (if path_root p = '''' \<and> path_parts p = [] then ''.''
                 else path_root p @ py_join ''/'' (path_parts p))"

definition is_absolute :: "path \<Rightarrow> bool" where
  "is_absolute p \<longleftrightarrow> path_root p \<noteq> ''''"

definition path_name :: "path \<Rightarrow> string" where
  "path_name p = (if path_parts p = [] then '''' else last (path_parts p))"

definition path_join :: "path \<Rightarrow> path \<Rightarrow> path" where
  "path_join p q = (if is_absolute q then q
                    else \<lparr>path_root = path_root p, path_parts = path_parts p @ path_parts q\<rparr>)"

definition path_div :: "path \<Rightarrow> string \<Rightarrow> path" where
  "path_div p s = path_join p (path_of s)"

definition path_parent :: "path \<Rightarrow> path" where
  "path_parent p = (if path_parts p = [] then p else p\<lparr>path_parts := butlast (path_parts p)\<rparr>)"

text \<open>\<open>q in p.parents\<close>: \<open>q\<close> is a proper ancestor of \<open>p\<close>.\<close>

definition in_parents :: "path \<Rightarrow> path \<Rightarrow> bool" where
  "in_parents q p \<longleftrightarrow> path_root q = path_root p \<and>
     length (path_parts q) < length (path_parts p) \<and>
     take (length (path_parts q)) (path_parts p) = path_parts q"

text \<open>\<open>p.relative_to(root)\<close> succeeds: \<open>root\<close> is \<open>p\<close> or one of its ancestors.\<close>

definition is_relative :: "path \<Rightarrow> path \<Rightarrow> bool" where
  "is_relative p root \<longleftrightarrow> path_root root = path_root p \<and>
     take (length (path_parts root)) (path_parts p) = path_parts root"

definition path_suffix :: "path \<Rightarrow> string" where
  "path_suffix p =
     (let n = path_name p; stem = rev (tl (dropWhile (\<lambda>c. c \<noteq> CHR ''.'') (rev n)));
          ext = rev (takeWhile (\<lambda>c. c \<noteq> CHR ''.'') (rev n))
      in if CHR ''.'' \<in> set n \<and> stem \<noteq> [] \<and> ext \<noteq> [] then CHR ''.'' # ext else [])"

definition with_suffix :: "path \<Rightarrow> string \<Rightarrow> path" where
  "with_suffix p suf =
     (let n = path_name p; old = path_suffix p
      in p\<lparr>path_parts := butlast (path_parts p) @ [take (length n - length old) n @ suf]\<rparr>)"

definition path_wf :: "path \<Rightarrow> bool" where
  "path_wf p \<longleftrightarrow> path_root p \<in> {'''', ''/'', ''//''} \<and>
     (\<forall>w \<in> set (path_parts p). w \<noteq> '''' \<and> w \<noteq> ''.'' \<and> CHR ''/'' \<notin> set w)"

lemma path_wf_path_of [simp, intro]: "path_wf (path_of s)"
  by (auto simp: path_wf_def path_of_def dest: split_on_no_delim)

lemma path_wf_join [intro]: "path_wf p \<Longrightarrow> path_wf q \<Longrightarrow> path_wf (path_join p q)"
  by (auto simp: path_wf_def path_join_def)

lemma path_wf_div [intro]: "path_wf p \<Longrightarrow> path_wf (path_div p s)"
  by (auto simp: path_div_def)

lemma path_wf_parent [intro]: "path_wf p \<Longrightarrow> path_wf (path_parent p)"
  by (auto simp: path_wf_def path_parent_def dest: in_set_butlastD)

lemma py_join_hd:
  "ws \<noteq> [] \<Longrightarrow> (\<forall>w \<in> set ws. w \<noteq> [] \<and> CHR ''/'' \<notin> set w) \<Longrightarrow>
   \<exists>c r. py_join ''/'' ws = c # r \<and> c \<noteq> CHR ''/''"
  by (induction "''/''" ws rule: py_join.induct) (auto simp: neq_Nil_conv)

lemma split_on_slash: "split_on CHR ''/'' (CHR ''/'' # s) = [] # split_on CHR ''/'' s"
  by simp

text \<open>Printing a well-formed path and parsing it back is the identity: \<open>Path(str(p)) == p\<close>.\<close>

lemma path_of_path_str: "path_wf p \<Longrightarrow> path_of (path_str p) = p"
proof -
  assume wf: "path_wf p"
  then have parts: "\<forall>w \<in> set (path_parts p). w \<noteq> [] \<and> w \<noteq> ''.'' \<and> CHR ''/'' \<notin> set w"
    and root: "path_root p = '''' \<or> path_root p = ''/'' \<or> path_root p = ''//''"
    by (auto simp: path_wf_def)
  show ?thesis
  proof (cases "path_parts p = []")
    case True
    with root show ?thesis
      by (cases p) (auto simp: path_of_def path_str_def starts_with_def)
  next
    case False
    with parts obtain c r where cr: "py_join ''/'' (path_parts p) = c # r" "c \<noteq> CHR ''/''"
      using py_join_hd [of "path_parts p"] by auto
    have "split_on CHR ''/'' (c # r) = path_parts p"
      using split_on_py_join [of "path_parts p" "CHR ''/''"] False parts cr by simp
    moreover have "filter (\<lambda>w. w \<noteq> [] \<and> w \<noteq> ''.'') (path_parts p) = path_parts p"
      using parts by (simp add: filter_id_conv)
    ultimately show ?thesis
      using root False cr
      by (cases p) (auto simp: path_of_def path_str_def starts_with_def split_on_slash
          simp del: split_on.simps(2))
  qed
qed

lemma path_str_inj: "path_wf p \<Longrightarrow> path_wf q \<Longrightarrow> path_str p = path_str q \<Longrightarrow> p = q"
  by (metis path_of_path_str)

lemma in_parents_is_relative: "in_parents q p \<Longrightarrow> is_relative p q"
  by (simp add: in_parents_def is_relative_def)

lemma in_parents_irrefl [simp]: "\<not> in_parents p p"
  by (simp add: in_parents_def)

lemma in_parents_parent: "in_parents q p \<Longrightarrow> is_relative (path_parent p) q"
  by (auto simp: in_parents_def is_relative_def path_parent_def take_butlast)

lemma path_div_single:
  "w \<noteq> [] \<Longrightarrow> w \<noteq> ''.'' \<Longrightarrow> CHR ''/'' \<notin> set w \<Longrightarrow>
   path_div p w = \<lparr>path_root = path_root p, path_parts = path_parts p @ [w]\<rparr>"
  by (cases w) (auto simp: path_div_def path_join_def path_of_def is_absolute_def
      starts_with_def split_on_single)

lemma is_absolute_path_of: "is_absolute (path_of s) \<longleftrightarrow> starts_with s ''/''"
  by (auto simp: is_absolute_def path_of_def starts_with_iff)

lemma is_relative_refl [simp]: "is_relative p p"
  by (simp add: is_relative_def)

lemma is_relative_trans: "is_relative p q \<Longrightarrow> is_relative q r \<Longrightarrow> is_relative p r"
  unfolding is_relative_def
  by (metis append_take_drop_id append_eq_conv_conj take_all_iff append.assoc nle_le take_append)

lemma is_relative_comparable:
  assumes "is_relative p a" and "is_relative p b"
  shows "is_relative a b \<or> is_relative b a"
proof (cases "length (path_parts a) \<le> length (path_parts b)")
  case True
  have "take (length (path_parts a)) (path_parts b) =
      take (length (path_parts a)) (take (length (path_parts b)) (path_parts p))"
    using assms(2) by (simp add: is_relative_def)
  also have "\<dots> = path_parts a"
    using True assms(1) by (simp add: is_relative_def)
  finally show ?thesis using assms by (simp add: is_relative_def)
next
  case False
  then have le: "length (path_parts b) \<le> length (path_parts a)" by simp
  have "take (length (path_parts b)) (path_parts a) =
      take (length (path_parts b)) (take (length (path_parts a)) (path_parts p))"
    using assms(1) by (simp add: is_relative_def)
  also have "\<dots> = path_parts b"
    using le assms(2) by (simp add: is_relative_def)
  finally show ?thesis using assms by (simp add: is_relative_def)
qed

end
