(* ===== verification/Json.thy ===== *)
theory Json
  imports Prelude
begin

text \<open>
  JSON documents as Python sees them between \<open>json.loads\<close> and \<open>json.dumps\<close>: a document is a
  value of type \<open>json\<close>, an object is an ordered dictionary. The textual form is the standard
  library's business; where the program writes a document to a file and another part reads it
  back, the models exchange the \<open>json\<close> value.
\<close>

datatype json =
    JNull
  | JBool bool
  | JInt int
  | JStr string
  | JList "json list"
  | JObj "(string \<times> json) list"

text \<open>\<open>data.get(key)\<close> on a parsed document: \<open>None\<close> where the key is absent, and an
  \<open>AttributeError\<close> where the document is not an object.\<close>

definition json_get :: "json \<Rightarrow> string \<Rightarrow> json res" where
  "json_get d k = (case d of
       JObj kvs \<Rightarrow> Inr (case dict_get kvs k of None \<Rightarrow> JNull | Some v \<Rightarrow> v)
     | _ \<Rightarrow> Inl (AttributeError ''get''))"

definition json_get_default :: "json \<Rightarrow> string \<Rightarrow> json \<Rightarrow> json res" where
  "json_get_default d k def = (case d of
       JObj kvs \<Rightarrow> Inr (case dict_get kvs k of None \<Rightarrow> def | Some v \<Rightarrow> v)
     | _ \<Rightarrow> Inl (AttributeError ''get''))"

text \<open>\<open>data[key]\<close>.\<close>

definition json_index :: "json \<Rightarrow> string \<Rightarrow> json res" where
  "json_index d k = (case d of
       JObj kvs \<Rightarrow> (case dict_get kvs k of None \<Rightarrow> Inl (KeyError k) | Some v \<Rightarrow> Inr v)
     | _ \<Rightarrow> Inl (TypeError k))"

fun json_opt_str :: "string option \<Rightarrow> json" where
  "json_opt_str None = JNull"
| "json_opt_str (Some s) = JStr s"

text \<open>The bool() of a parsed value.\<close>

fun json_truthy :: "json \<Rightarrow> bool" where
  "json_truthy JNull = False"
| "json_truthy (JBool b) = b"
| "json_truthy (JInt i) = (i \<noteq> 0)"
| "json_truthy (JStr s) = (s \<noteq> [])"
| "json_truthy (JList xs) = (xs \<noteq> [])"
| "json_truthy (JObj kvs) = (kvs \<noteq> [])"

text \<open>Python's \<open>repr\<close> and \<open>str\<close> of a parsed value.\<close>

fun json_repr :: "json \<Rightarrow> string" where
  "json_repr JNull = ''None''"
| "json_repr (JBool b) = (if b then ''True'' else ''False'')"
| "json_repr (JInt i) = str_int i"
| "json_repr (JStr s) = py_repr s"
| "json_repr (JList xs) = ''['' @ py_join '', '' (map json_repr xs) @ '']''"
| "json_repr (JObj kvs) =
     ''{'' @ py_join '', '' (map (\<lambda>(k, v). py_repr k @ '': '' @ json_repr v) kvs) @ ''}''"

fun json_str :: "json \<Rightarrow> string" where
  "json_str (JStr s) = s"
| "json_str v = json_repr v"

text \<open>\<open>iter(value)\<close>: the elements of a list, the characters of a string, the keys of an object.\<close>

fun json_iter :: "json \<Rightarrow> json list res" where
  "json_iter (JList xs) = Inr xs"
| "json_iter (JStr s) = Inr (map (\<lambda>c. JStr [c]) s)"
| "json_iter (JObj kvs) = Inr (map (JStr \<circ> fst) kvs)"
| "json_iter v = Inl (TypeError (json_repr v))"

end
