(* ===== verification/Host.thy ===== *)
theory Host
  imports Posix_Path Json
begin

text \<open>
  What the Docker runner does to its host: it makes directories, writes files, resolves paths,
  removes trees and runs commands. The host itself (its disk, its links, the \<open>docker\<close>
  command) is code outside the repository, so it is a parameter: a \<open>host\<close> answers each
  operation as a function of everything attempted before, so it may fail anywhere, answer the
  same question differently later, and hold any symbolic links. The state of the runner is the
  log of what it attempted, and the properties are about that log for every host.
\<close>

record completed =
  cp_returncode :: int
  cp_stdout :: string
  cp_stderr :: string

text \<open>A file is written either from a text or as \<open>json.dumps(value, indent=2)\<close> and a newline.\<close>

datatype file_content = Plain_Text string | Json_Text json

datatype event =
    Mkdir path
  | Write_Text path file_content
  | Chmod path int
  | Resolved path path
  | Rmtree path
  | Exec "string list"
  | Exec_In path "string list"
  | Print string

record host =
  effect_error :: "event list \<Rightarrow> event \<Rightarrow> py_error option"
  resolve_answer :: "event list \<Rightarrow> path \<Rightarrow> path res"
  exec_answer :: "event list \<Rightarrow> event \<Rightarrow> completed res"
  exists_answer :: "event list \<Rightarrow> path \<Rightarrow> bool"
  which_answer :: "event list \<Rightarrow> string \<Rightarrow> bool"
  cwd_answer :: path
  expanduser_answer :: "path \<Rightarrow> path res"

type_synonym 'a run = "(event list, 'a) py"

text \<open>\<open>mkdir(parents=True, exist_ok=True)\<close>, \<open>write_text\<close> and \<open>chmod\<close> may raise.\<close>

definition attempt :: "host \<Rightarrow> event \<Rightarrow> unit run" where
  "attempt h e = (\<lambda>log. (case effect_error h log e of None \<Rightarrow> Inr () | Some x \<Rightarrow> Inl x, log @ [e]))"

definition mkdir :: "host \<Rightarrow> path \<Rightarrow> unit run" where
  "mkdir h p = attempt h (Mkdir p)"

definition write_text :: "host \<Rightarrow> path \<Rightarrow> file_content \<Rightarrow> unit run" where
  "write_text h p content = attempt h (Write_Text p content)"

definition chmod :: "host \<Rightarrow> path \<Rightarrow> int \<Rightarrow> unit run" where
  "chmod h p mode = attempt h (Chmod p mode)"

definition resolve_path :: "host \<Rightarrow> path \<Rightarrow> path run" where
  "resolve_path h p = (\<lambda>log. case resolve_answer h log p of
     Inl e \<Rightarrow> (Inl e, log) | Inr q \<Rightarrow> (Inr q, log @ [Resolved p q]))"

text \<open>\<open>shutil.rmtree(p, ignore_errors=True)\<close> never raises.\<close>

definition rmtree :: "path \<Rightarrow> unit run" where
  "rmtree p = (\<lambda>log. (Inr (), log @ [Rmtree p]))"

text \<open>\<open>subprocess.run(command, check=False, capture_output=True, text=True)\<close> raises only when the
  command cannot be started.\<close>

definition exec :: "host \<Rightarrow> string list \<Rightarrow> completed run" where
  "exec h command = (\<lambda>log. (exec_answer h log (Exec command), log @ [Exec command]))"

definition exec_in :: "host \<Rightarrow> path \<Rightarrow> string list \<Rightarrow> completed run" where
  "exec_in h cwd command =
     (\<lambda>log. (exec_answer h log (Exec_In cwd command), log @ [Exec_In cwd command]))"

definition py_print :: "string \<Rightarrow> unit run" where
  "py_print line = (\<lambda>log. (Inr (), log @ [Print line]))"

text \<open>Questions to the host that change nothing are not logged.\<close>

definition ask :: "('s \<Rightarrow> 'a) \<Rightarrow> ('s, 'a) py" where
  "ask q = (\<lambda>log. (Inr (q log), log))"

fun collect_each :: "'x list \<Rightarrow> ('x \<Rightarrow> ('s, 'a) py) \<Rightarrow> ('s, 'a list) py" where
  "collect_each [] f = ret []"
| "collect_each (x # xs) f = bind (f x) (\<lambda>a. bind (collect_each xs f) (\<lambda>as. ret (a # as)))"

section \<open>What an operation appends\<close>

text \<open>Every operation only appends to the log. \<open>appends Q m\<close> says so and that what it appends
  satisfies \<open>Q\<close>, whether it returns or raises. The properties \<open>Q\<close> of interest hold of nothing
  and are kept by concatenation, and then they go through every way operations are composed.\<close>

definition appends :: "('e list \<Rightarrow> bool) \<Rightarrow> ('e list, 'a) py \<Rightarrow> bool" where
  "appends Q m \<longleftrightarrow> (\<forall>log. \<exists>new. snd (m log) = log @ new \<and> Q new)"

lemma appendsD:
  assumes "appends Q m" and "m log = (r, log')"
  obtains new where "log' = log @ new" and "Q new"
  using assms by (metis appends_def snd_conv)

lemma appends_mono: "appends Q m \<Longrightarrow> (\<And>new. Q new \<Longrightarrow> R new) \<Longrightarrow> appends R m"
  unfolding appends_def by meson

locale log_property =
  fixes Q :: "'e list \<Rightarrow> bool"
  assumes nil_closed: "Q []"
    and concat_closed: "Q xs \<Longrightarrow> Q ys \<Longrightarrow> Q (xs @ ys)"
begin

lemma ret: "appends Q (ret a)"
  by (simp add: appends_def ret_def nil_closed)

lemma raise: "appends Q (raise e)"
  by (simp add: appends_def raise_def nil_closed)

lemma lift_res: "appends Q (lift_res r)"
  by (simp add: appends_def lift_res_def nil_closed)

lemma ask: "appends Q (ask q)"
  by (simp add: appends_def ask_def nil_closed)

lemma bind:
  assumes "appends Q m" and "\<And>a. appends Q (f a)"
  shows "appends Q (bind m f)"
  unfolding appends_def
proof
  fix log
  obtain r log' where m: "m log = (r, log')" by (cases "m log")
  with assms(1) obtain new where new: "log' = log @ new" "Q new" by (rule appendsD)
  show "\<exists>new. snd (Prelude.bind m f log) = log @ new \<and> Q new"
  proof (cases r)
    case (Inl e)
    with m new show ?thesis by (simp add: bind_def)
  next
    case (Inr a)
    obtain s log'' where f: "f a log' = (s, log'')" by (cases "f a log'")
    from assms(2) f obtain rest where "log'' = log' @ rest" "Q rest" by (rule appendsD)
    with m f new Inr show ?thesis by (simp add: bind_def concat_closed)
  qed
qed

lemma andthen: "appends Q m \<Longrightarrow> appends Q n \<Longrightarrow> appends Q (andthen m n)"
  by (simp add: andthen_def bind)

lemma steps: "list_all (appends Q) ms \<Longrightarrow> appends Q (steps ms)"
  by (induction ms) (simp_all add: ret andthen)

lemma for_each: "(\<And>x. x \<in> set xs \<Longrightarrow> appends Q (f x)) \<Longrightarrow> appends Q (for_each xs f)"
  by (induction xs) (simp_all add: ret andthen)

lemma collect_each: "(\<And>x. x \<in> set xs \<Longrightarrow> appends Q (f x)) \<Longrightarrow> appends Q (collect_each xs f)"
  by (induction xs) (auto intro!: ret bind)

lemma try_finally:
  assumes "appends Q m" and "appends Q fin"
  shows "appends Q (try_finally m fin)"
  unfolding appends_def
proof
  fix log
  obtain r log1 where m: "m log = (r, log1)" by (cases "m log")
  obtain q log2 where f: "fin log1 = (q, log2)" by (cases "fin log1")
  from assms(1) m obtain a where "log1 = log @ a" "Q a" by (rule appendsD)
  moreover from assms(2) f obtain b where "log2 = log1 @ b" "Q b" by (rule appendsD)
  ultimately show "\<exists>new. snd (Prelude.try_finally m fin log) = log @ new \<and> Q new"
    using m f by (cases q) (simp_all add: try_finally_def concat_closed)
qed

lemma catch:
  assumes "appends Q m" and "\<And>e n. handler e = Some n \<Longrightarrow> appends Q n"
  shows "appends Q (catch m handler)"
  unfolding appends_def
proof
  fix log
  obtain r log1 where m: "m log = (r, log1)" by (cases "m log")
  from assms(1) m obtain a where a: "log1 = log @ a" "Q a" by (rule appendsD)
  show "\<exists>new. snd (Prelude.catch m handler log) = log @ new \<and> Q new"
  proof (cases "\<exists>e n. r = Inl e \<and> handler e = Some n")
    case True
    then obtain e n where e: "r = Inl e" "handler e = Some n" by blast
    obtain q log2 where n: "n log1 = (q, log2)" by (cases "n log1")
    from assms(2) [OF e(2)] n obtain b where "log2 = log1 @ b" "Q b" by (rule appendsD)
    with m e a n show ?thesis by (simp add: catch_def concat_closed)
  next
    case False
    with m a show ?thesis by (auto simp: catch_def split: sum.split option.split)
  qed
qed

lemmas intros = ret raise lift_res ask bind andthen steps for_each collect_each

end

text \<open>The first such property: every event appended satisfies a predicate.\<close>

abbreviation emits :: "('e \<Rightarrow> bool) \<Rightarrow> ('e list, 'a) py \<Rightarrow> bool" where
  "emits P \<equiv> appends (list_all P)"

interpretation each_event: log_property "list_all P" for P
  by unfold_locales simp_all

named_theorems emits_intros \<open>the events an operation may append\<close>

lemmas [emits_intros] = each_event.intros

lemma emits_mono: "emits P m \<Longrightarrow> (\<And>e. P e \<Longrightarrow> Q e) \<Longrightarrow> emits Q m"
  by (erule appends_mono) (auto intro: list.pred_mono_strong)

lemma emits_mkdir [emits_intros]: "P (Mkdir p) \<Longrightarrow> emits P (mkdir h p)"
  by (simp add: appends_def mkdir_def attempt_def)

lemma emits_write_text [emits_intros]: "P (Write_Text p content) \<Longrightarrow> emits P (write_text h p content)"
  by (simp add: appends_def write_text_def attempt_def)

lemma emits_chmod [emits_intros]: "P (Chmod p mode) \<Longrightarrow> emits P (chmod h p mode)"
  by (simp add: appends_def chmod_def attempt_def)

lemma emits_resolve_path [emits_intros]: "(\<And>q. P (Resolved p q)) \<Longrightarrow> emits P (resolve_path h p)"
  by (simp add: appends_def resolve_path_def split: sum.split)

lemma emits_rmtree [emits_intros]: "P (Rmtree p) \<Longrightarrow> emits P (rmtree p)"
  by (simp add: appends_def rmtree_def)

lemma emits_exec [emits_intros]: "P (Exec command) \<Longrightarrow> emits P (exec h command)"
  by (simp add: appends_def exec_def)

lemma emits_exec_in [emits_intros]: "P (Exec_In cwd command) \<Longrightarrow> emits P (exec_in h cwd command)"
  by (simp add: appends_def exec_in_def)

lemma emits_py_print [emits_intros]: "P (Print line) \<Longrightarrow> emits P (py_print line)"
  by (simp add: appends_def py_print_def)

lemma emits_grows: "emits P m \<Longrightarrow> m log = (r, log') \<Longrightarrow> set log \<subseteq> set log'"
  by (auto elim: appendsD)

section \<open>Successful operations\<close>

lemma attempt_Inr: "attempt h e log = (Inr u, log') \<longleftrightarrow> effect_error h log e = None \<and> log' = log @ [e]"
  by (auto simp: attempt_def split: option.split)

lemma exec_Inr:
  "exec h command log = (Inr r, log') \<longleftrightarrow>
   exec_answer h log (Exec command) = Inr r \<and> log' = log @ [Exec command]"
  by (auto simp: exec_def)

lemma rmtree_Inr: "rmtree p log = (Inr u, log') \<longleftrightarrow> log' = log @ [Rmtree p]"
  by (auto simp: rmtree_def)

lemma py_print_Inr: "py_print line log = (Inr u, log') \<longleftrightarrow> log' = log @ [Print line]"
  by (auto simp: py_print_def)

lemma resolve_path_Inr:
  "resolve_path h p log = (Inr q, log') \<longleftrightarrow>
   resolve_answer h log p = Inr q \<and> log' = log @ [Resolved p q]"
  by (auto simp: resolve_path_def split: sum.split)

lemmas success_simps =
  bind_Inr andthen_Inr ret_Inr raise_Inr lift_res_Inr attempt_Inr exec_Inr rmtree_Inr py_print_Inr
  resolve_path_Inr mkdir_def write_text_def chmod_def

lemma for_each_Inr:
  assumes "for_each xs f log = (Inr u, log')" and "\<And>x. emits P (f x)"
    and "\<And>x log log'. x \<in> set xs \<Longrightarrow> f x log = (Inr (), log') \<Longrightarrow> Q x (set log')"
    and "\<And>x S T. Q x S \<Longrightarrow> S \<subseteq> T \<Longrightarrow> Q x T"
  shows "\<forall>x \<in> set xs. Q x (set log')"
  using assms(1,3)
proof (induction xs arbitrary: log)
  case Nil
  then show ?case by simp
next
  case (Cons x xs)
  then obtain log1 where x: "f x log = (Inr (), log1)" and xs: "for_each xs f log1 = (Inr u, log')"
    by (auto simp: andthen_Inr)
  have "set log1 \<subseteq> set log'"
    by (rule emits_grows [OF each_event.for_each xs]) (rule assms(2))
  with Cons.prems(2) [OF _ x] assms(4) have "Q x (set log')" by auto
  with Cons.IH [OF xs] Cons.prems(2) show ?case by auto
qed

text \<open>A host on which nothing fails, and one on which also no path is a link.\<close>

definition obliging :: "host \<Rightarrow> bool" where
  "obliging h \<longleftrightarrow> (\<forall>log e. effect_error h log e = None) \<and> (\<forall>log e. \<exists>r. exec_answer h log e = Inr r)"

definition smooth :: "host \<Rightarrow> bool" where
  "smooth h \<longleftrightarrow> obliging h \<and> (\<forall>log p. resolve_answer h log p = Inr p)"

definition returns :: "('s, 'a) py \<Rightarrow> bool" where
  "returns m \<longleftrightarrow> (\<forall>log. \<exists>a log'. m log = (Inr a, log'))"

named_theorems returns_intros \<open>operations that return on a smooth host\<close>

lemma returns_ret [returns_intros]: "returns (ret a)"
  by (simp add: returns_def ret_def)

lemma returns_lift_res [returns_intros]: "r = Inr a \<Longrightarrow> returns (lift_res r)"
  by (simp add: returns_def lift_res_def)

lemma returns_ask [returns_intros]: "returns (ask q)"
  by (simp add: returns_def ask_def)

lemma returns_mkdir [returns_intros]: "obliging h \<Longrightarrow> returns (mkdir h p)"
  by (simp add: returns_def mkdir_def attempt_def obliging_def)

lemma returns_write_text [returns_intros]: "obliging h \<Longrightarrow> returns (write_text h p content)"
  by (simp add: returns_def write_text_def attempt_def obliging_def)

lemma returns_chmod [returns_intros]: "obliging h \<Longrightarrow> returns (chmod h p mode)"
  by (simp add: returns_def chmod_def attempt_def obliging_def)

lemma returns_resolve_path [returns_intros]: "smooth h \<Longrightarrow> returns (resolve_path h p)"
  by (simp add: returns_def resolve_path_def smooth_def)

lemma returns_rmtree [returns_intros]: "returns (rmtree p)"
  by (simp add: returns_def rmtree_def)

lemma returns_exec [returns_intros]: "obliging h \<Longrightarrow> returns (exec h command)"
  by (fastforce simp: returns_def exec_def obliging_def)

lemma returns_py_print [returns_intros]: "returns (py_print line)"
  by (simp add: returns_def py_print_def)

lemma returns_bind [returns_intros]: "returns m \<Longrightarrow> (\<And>a. returns (f a)) \<Longrightarrow> returns (bind m f)"
  unfolding returns_def bind_Inr by meson

lemma returns_bind_lift [returns_intros]: "r = Inr a \<Longrightarrow> returns (f a) \<Longrightarrow> returns (bind (lift_res r) f)"
  by (simp add: monad_simps)

lemma returns_andthen [returns_intros]: "returns m \<Longrightarrow> returns n \<Longrightarrow> returns (andthen m n)"
  by (simp add: andthen_def returns_bind)

lemma returns_steps [returns_intros]: "list_all returns ms \<Longrightarrow> returns (steps ms)"
  by (induction ms) (auto intro: returns_intros)

lemma returns_for_each [returns_intros]:
  "(\<And>x. x \<in> set xs \<Longrightarrow> returns (f x)) \<Longrightarrow> returns (for_each xs f)"
  by (induction xs) (auto intro: returns_intros)

lemma returns_collect_each [returns_intros]:
  "(\<And>x. x \<in> set xs \<Longrightarrow> returns (f x)) \<Longrightarrow> returns (collect_each xs f)"
  by (induction xs) (auto intro!: returns_ret returns_bind)

end
