(* ===== verification/Ip_Address.thy ===== *)
theory Ip_Address
  imports Prelude "HOL-Library.Word"
begin

unbundle bit_operations_syntax

text \<open>
  The part of Python's \<open>ipaddress\<close> module the program uses: \<open>ip_address\<close> on a string and the
  test \<open>address in network\<close>. It is the standard library's behaviour (CPython 3.11), so no
  definition here has an entry in the map. An address is its integer, a 32-bit or a 128-bit
  word; \<open>None\<close> stands for the \<open>ValueError\<close> of a string that is no address.
\<close>

datatype ip = V4 "32 word" | V6 "128 word"

record ip_network =
  net_address :: ip
  net_prefix :: nat

fun dec_digits :: "int \<Rightarrow> string \<Rightarrow> int option" where
  "dec_digits n [] = Some n"
| "dec_digits n (c # cs) = (if is_digit c then dec_digits (10 * n + (code c - 48)) cs else None)"

definition parse_octet :: "string \<Rightarrow> int option" where
  "parse_octet s =
     (if s = [] \<or> 3 < length s \<or> (s \<noteq> ''0'' \<and> hd s = CHR ''0'') then None
      else case dec_digits 0 s of None \<Rightarrow> None | Some n \<Rightarrow> if n \<le> 255 then Some n else None)"

definition parse_ipv4 :: "string \<Rightarrow> (32 word) option" where
  "parse_ipv4 s =
     (case map parse_octet (split_on CHR ''.'' s) of
        [Some a, Some b, Some c, Some d] \<Rightarrow>
          Some (word_of_int (((a * 256 + b) * 256 + c) * 256 + d))
      | _ \<Rightarrow> None)"

definition hex_digit :: "char \<Rightarrow> int option" where
  "hex_digit c =
     (if is_digit c then Some (code c - 48)
      else if 97 \<le> code c \<and> code c \<le> 102 then Some (code c - 87)
      else if 65 \<le> code c \<and> code c \<le> 70 then Some (code c - 55)
      else None)"

fun hex_digits :: "int \<Rightarrow> string \<Rightarrow> int option" where
  "hex_digits n [] = Some n"
| "hex_digits n (c # cs) =
     (case hex_digit c of None \<Rightarrow> None | Some d \<Rightarrow> hex_digits (16 * n + d) cs)"

definition parse_hextet :: "string \<Rightarrow> int option" where
  "parse_hextet s = (if s = [] \<or> 4 < length s then None else hex_digits 0 s)"

fun parse_hextets :: "string list \<Rightarrow> int list option" where
  "parse_hextets [] = Some []"
| "parse_hextets (s # ss) =
     (case (parse_hextet s, parse_hextets ss) of
        (Some n, Some ns) \<Rightarrow> Some (n # ns)
      | _ \<Rightarrow> None)"

definition of_hextets :: "int list \<Rightarrow> 128 word" where
  "of_hextets ns = word_of_int (foldl (\<lambda>a n. a * 65536 + n) 0 ns)"

text \<open>A dotted quad in the last position counts as two hextets.\<close>

definition ipv6_parts :: "string \<Rightarrow> string list \<times> int list option" where
  "ipv6_parts s =
     (let parts = split_on CHR '':'' s
      in if CHR ''.'' \<in> set (last parts)
         then (butlast parts,
               map_option (\<lambda>w. [uint w div 65536, uint w mod 65536]) (parse_ipv4 (last parts)))
         else (parts, Some []))"

definition parse_ipv6_parts :: "string list \<Rightarrow> int list \<Rightarrow> (128 word) option" where
  "parse_ipv6_parts parts tail =
     (let n = length parts + length tail;
          inner = filter (\<lambda>i. parts ! i = []) [1..<(if tail = [] then length parts - 1 else length parts)]
      in if n < 3 \<or> 9 < n then None
         else case inner of
           [] \<Rightarrow>
             if n \<noteq> 8 then None
             else map_option (\<lambda>hs. of_hextets (hs @ tail)) (parse_hextets parts)
         | [k] \<Rightarrow>
             (let hi = take k parts; lo = drop (k + 1) parts;
                  hi' = (if hd parts = [] then tl hi else hi);
                  lo' = (if tail = [] \<and> last parts = [] then butlast lo else lo);
                  skipped = 8 - int (length hi' + length lo' + length tail)
              in if (hd parts = [] \<and> hi' \<noteq> []) \<or>
                    (tail = [] \<and> last parts = [] \<and> lo' \<noteq> []) \<or> skipped < 1 then None
                 else case (parse_hextets hi', parse_hextets lo') of
                   (Some hs, Some ls) \<Rightarrow>
                     Some (of_hextets (hs @ replicate (nat skipped) 0 @ ls @ tail))
                 | _ \<Rightarrow> None)
         | _ \<Rightarrow> None)"

text \<open>The scope after \<open>%\<close> must be non-empty and hold no further \<open>%\<close>; it is not part of the
  number.\<close>

definition parse_ipv6 :: "string \<Rightarrow> (128 word) option" where
  "parse_ipv6 s =
     (let addr = takeWhile (\<lambda>c. c \<noteq> CHR ''%'') s; scope = drop (length addr) s
      in if CHR ''/'' \<in> set s \<or> (scope \<noteq> [] \<and> (tl scope = [] \<or> CHR ''%'' \<in> set (tl scope)))
         then None
         else case ipv6_parts addr of
           (parts, Some tail) \<Rightarrow> if addr = [] then None else parse_ipv6_parts parts tail
         | (_, None) \<Rightarrow> None)"

definition ip_address :: "string \<Rightarrow> ip option" where
  "ip_address s =
     (case parse_ipv4 s of
        Some w \<Rightarrow> Some (V4 w)
      | None \<Rightarrow> map_option V6 (parse_ipv6 s))"

definition netmask :: "nat \<Rightarrow> 'a::len word" where
  "netmask p = NOT (mask (LENGTH('a) - p))"

fun ip_in_network :: "ip \<Rightarrow> ip_network \<Rightarrow> bool" where
  "ip_in_network (V4 a) n = (case net_address n of
     V4 b \<Rightarrow> a AND netmask (net_prefix n) = b | V6 _ \<Rightarrow> False)"
| "ip_in_network (V6 a) n = (case net_address n of
     V6 b \<Rightarrow> a AND netmask (net_prefix n) = b | V4 _ \<Rightarrow> False)"

lemma ip_examples:
  "ip_address ''169.254.169.254'' = Some (V4 0xA9FEA9FE)"
  "ip_address ''fe80::1'' = Some (V6 0xFE800000000000000000000000000001)"
  "ip_address ''::'' = Some (V6 0)"
  "ip_address ''::ffff:169.254.169.254'' = Some (V6 0xFFFFA9FEA9FE)"
  "ip_address ''01.2.3.4'' = None"
  "ip_address ''metadata'' = None"
  "ip_address ''1:2:3:4:5:6:7:8'' = Some (V6 0x00010002000300040005000600070008)"
  "ip_address ''1::2::3'' = None"
  by code_simp+

section \<open>Networks and their text\<close>

text \<open>\<open>str(ip_network(s, strict=False))\<close>: the host bits are cleared, a dotted mask (net mask or
  host mask) becomes a prefix length, and the address is printed in the shortest form.\<close>

definition prefix_of_digits :: "nat \<Rightarrow> string \<Rightarrow> nat option" where
  "prefix_of_digits longest s =
     (if s = [] then None
      else case dec_digits 0 s of
        None \<Rightarrow> None
      | Some n \<Rightarrow> if n \<le> int longest then Some (nat n) else None)"

definition prefix_of_mask :: "32 word \<Rightarrow> nat option" where
  "prefix_of_mask w = List.find (\<lambda>p. netmask p = w) [0..<33]"

definition v4_prefix :: "string \<Rightarrow> nat option" where
  "v4_prefix s =
     (case prefix_of_digits 32 s of
        Some p \<Rightarrow> Some p
      | None \<Rightarrow>
          (case parse_ipv4 s of
             None \<Rightarrow> None
           | Some w \<Rightarrow>
               (case prefix_of_mask w of
                  Some p \<Rightarrow> Some p
                | None \<Rightarrow> prefix_of_mask (NOT w))))"

definition ipv4_str :: "32 word \<Rightarrow> string" where
  "ipv4_str w =
     py_join ''.'' (map (\<lambda>k. str_int (uint w div 256 ^ k mod 256)) [3, 2, 1, 0])"

definition hextet_str :: "int \<Rightarrow> string" where
  "hextet_str n =
     (if n < 16 then [hex_char n]
      else if n < 256 then [hex_char (n div 16), hex_char (n mod 16)]
      else if n < 4096
      then [hex_char (n div 256), hex_char (n div 16 mod 16), hex_char (n mod 16)]
      else [hex_char (n div 4096), hex_char (n div 256 mod 16), hex_char (n div 16 mod 16),
            hex_char (n mod 16)])"

definition hextets_of :: "128 word \<Rightarrow> int list" where
  "hextets_of w = map (\<lambda>k. uint w div 65536 ^ k mod 65536) [7, 6, 5, 4, 3, 2, 1, 0]"

text \<open>The first longest run of zero hextets, as (start, length).\<close>

fun best_zero_run :: "nat \<Rightarrow> nat \<Rightarrow> nat \<times> nat \<Rightarrow> int list \<Rightarrow> nat \<times> nat" where
  "best_zero_run i len best [] = best"
| "best_zero_run i len best (h # hs) =
     (if h = 0
      then best_zero_run (i + 1) (len + 1)
             (if snd best < len + 1 then (i - len, len + 1) else best) hs
      else best_zero_run (i + 1) 0 best hs)"

definition ipv6_str :: "128 word \<Rightarrow> string" where
  "ipv6_str w =
     (let hs = hextets_of w; best = best_zero_run 0 0 (0, 0) hs; words = map hextet_str hs
      in if snd best \<le> 1 then py_join '':'' words
         else py_join '':'' (take (fst best) words) @ ''::'' @
              py_join '':'' (drop (fst best + snd best) words))"

definition ipv6_scope :: "string \<Rightarrow> string" where
  "ipv6_scope s = dropWhile (\<lambda>c. c \<noteq> CHR ''%'') s"

definition ip_network_str :: "string \<Rightarrow> string option" where
  "ip_network_str s =
     (let parts = split_on CHR ''/'' s;
          addr = hd parts
      in if 2 < length parts then None
         else
           let p4 = (if tl parts = [] then Some 32 else v4_prefix (parts ! 1));
               p6 = (if tl parts = [] then Some 128 else prefix_of_digits 128 (parts ! 1))
           in case (parse_ipv4 addr, p4) of
             (Some w, Some p) \<Rightarrow> Some (ipv4_str (w AND netmask p) @ ''/'' @ str_nat p)
           | _ \<Rightarrow>
             (case (parse_ipv6 addr, p6) of
                (Some w, Some p) \<Rightarrow>
                  Some (ipv6_str (w AND netmask p) @
                        (if w AND netmask p = w then ipv6_scope addr else []) @
                        ''/'' @ str_nat p)
              | _ \<Rightarrow> None))"

lemma ip_network_examples:
  "ip_network_str ''10.0.0.1/0.0.255.255'' = Some ''10.0.0.0/16''"
  "ip_network_str ''a:0:0:b:0:0:0:c'' = Some ''a:0:0:b::c/128''"
  "ip_network_str ''fe80::1%eth0/64'' = Some ''fe80::/64''"
  "ip_network_str ''1.2.3.4/255.0.255.0'' = None"
  by code_simp+

end
