(* ===== verification/Url.thy ===== *)
theory Url
  imports Ip_Address
begin

text \<open>
  \<open>urllib.parse.urlparse(url).hostname\<close> (CPython 3.11), the only part of URL parsing the
  modelled code uses. Standard library, so no definition here has an entry in the map. The
  check of the host under Unicode normalisation never fails on 8-bit characters and is left
  out.
\<close>

definition before :: "char \<Rightarrow> string \<Rightarrow> string" where
  "before d = takeWhile (\<lambda>c. c \<noteq> d)"

definition after :: "char \<Rightarrow> string \<Rightarrow> string" where
  "after d s = tl (dropWhile (\<lambda>c. c \<noteq> d) s)"

definition after_last :: "char \<Rightarrow> string \<Rightarrow> string" where
  "after_last d s = rev (takeWhile (\<lambda>c. c \<noteq> d) (rev s))"

definition is_scheme_char :: "char \<Rightarrow> bool" where
  "is_scheme_char c \<longleftrightarrow> is_upper c \<or> is_lower c \<or> is_digit c \<or> c \<in> set ''+-.''"

definition without_scheme :: "string \<Rightarrow> string" where
  "without_scheme s =
     (if CHR '':'' \<in> set s \<and> s \<noteq> [] \<and> (is_upper (hd s) \<or> is_lower (hd s)) \<and>
         list_all is_scheme_char (before CHR '':'' s)
      then after CHR '':'' s else s)"

definition is_hex_char :: "char \<Rightarrow> bool" where
  "is_hex_char c \<longleftrightarrow> hex_digit c \<noteq> None"

definition check_bracketed_host :: "string \<Rightarrow> unit res" where
  "check_bracketed_host h =
     (if starts_with h ''v''
      then
        let rest = tl h; digits = takeWhile is_hex_char rest; more = drop (length digits) rest
        in if digits \<noteq> [] \<and> starts_with more ''.'' \<and> tl more \<noteq> [] \<and>
              CHR 0x0A \<notin> set (tl more)
           then Inr () else Inl (ValueError ''IPvFuture address is invalid'')
      else case ip_address h of
        None \<Rightarrow> Inl (ValueError (h @ '' does not appear to be an IPv4 or IPv6 address''))
      | Some (V4 _) \<Rightarrow> Inl (ValueError ''An IPv4 address cannot be in brackets'')
      | Some (V6 _) \<Rightarrow> Inr ())"

definition url_netloc :: "string \<Rightarrow> string res" where
  "url_netloc url =
     (let s = filter (\<lambda>c. code c \<notin> {9, 10, 13}) (dropWhile (\<lambda>c. code c \<le> 32) url);
          rest = without_scheme s;
          netloc = takeWhile (\<lambda>c. c \<notin> set ''/?#'') (drop 2 rest)
      in if \<not> starts_with rest ''//'' then Inr []
         else if (CHR ''['' \<in> set netloc) \<noteq> (CHR '']'' \<in> set netloc)
         then Inl (ValueError ''Invalid IPv6 URL'')
         else if CHR ''['' \<in> set netloc
         then res_bind (check_bracketed_host (before CHR '']'' (after CHR ''['' netloc)))
                (\<lambda>_. Inr netloc)
         else Inr netloc)"

definition url_hostname :: "string \<Rightarrow> string option res" where
  "url_hostname url = res_bind (url_netloc url) (\<lambda>netloc.
     let info = after_last CHR ''@'' netloc;
         h = (if CHR ''['' \<in> set info then before CHR '']'' (after CHR ''['' info)
              else before CHR '':'' info);
         name = before CHR ''%'' h
     in Inr (if h = [] then None else Some (py_lower name @ drop (length name) h)))"

lemma url_hostname_examples:
  "url_hostname ''https://github.com/SomeNewKid/ScratchpadOne.git'' = Inr (Some ''github.com'')"
  "url_hostname ''https://user:pw@Example.COM:8443/a?b#c'' = Inr (Some ''example.com'')"
  "url_hostname ''git@github.com:a/b.git'' = Inr None"
  "url_hostname ''http://[::1]:80/'' = Inr (Some ''::1'')"
  by code_simp+

end
