(* ===== verification/Docker_Models.thy ===== *)
theory Docker_Models
  imports Posix_Path
begin

text \<open>
  The data of \<open>src/docker_sandbox/models.py\<close>: one record per dataclass, its fields in the
  source's order with a prefix per class (Isabelle's field selectors are global names), and
  the defaults of the dataclass fields as the constants \<open>default_...\<close>. Tuples are lists.
\<close>

record landlock_path_rule =
  lr_path :: string
  lr_access :: string

record network_gateway_profile =
  gw_image_name :: string
  gw_proxy_host :: string
  gw_proxy_port :: int
  gw_allowed_domains :: "string list"
  gw_allowed_ip_addresses :: "string list"
  gw_no_proxy_hosts :: "string list"

record network_dns_policy =
  dns_use_gateway_as_dns :: bool
  dns_fallback_dns_address :: string
  dns_options :: "string list"
  dns_blocked_hostnames :: "string list"
  dns_blocked_hostname_address :: string

definition default_network_dns_policy :: network_dns_policy where
  "default_network_dns_policy = \<lparr>
     dns_use_gateway_as_dns = True,
     dns_fallback_dns_address = ''127.0.0.1'',
     dns_options = [''attempts:1'', ''timeout:1''],
     dns_blocked_hostnames =
       [''host.docker.internal'', ''gateway.docker.internal'', ''kubernetes.docker.internal''],
     dns_blocked_hostname_address = ''0.0.0.0''\<rparr>"

record socket_mount =
  sm_source_path :: path
  sm_target_path :: string
  sm_readonly :: bool

record agent_socket_forward =
  ag_source_path :: path
  ag_target_path :: string

record browser_debugging_profile =
  bd_debugging_url :: "string option"
  bd_browser_executable :: "string option"
  bd_existing_browser_profile :: "string option"

record browser_surface_profile =
  bs_chromium_arguments :: "string list"
  bs_allow_camera_capture :: bool
  bs_allow_microphone_capture :: bool

definition default_browser_surface :: browser_surface_profile where
  "default_browser_surface = \<lparr>
     bs_chromium_arguments =
       [''--disable-background-networking'',
        ''--disable-breakpad'',
        ''--disable-component-extensions-with-background-pages'',
        ''--disable-component-update'',
        ''--disable-default-apps'',
        ''--disable-dev-shm-usage'',
        ''--disable-extensions'',
        ''--disable-features=AutofillServerCommunication,MediaRouter,OptimizationHints'',
        ''--disable-gpu'',
        ''--disable-hang-monitor'',
        ''--disable-popup-blocking'',
        ''--disable-prompt-on-repost'',
        ''--disable-sync'',
        ''--disable-translate'',
        ''--metrics-recording-only'',
        ''--mute-audio'',
        ''--no-default-browser-check'',
        ''--no-first-run'',
        ''--password-store=basic'',
        ''--use-mock-keychain''],
     bs_allow_camera_capture = False,
     bs_allow_microphone_capture = False\<rparr>"

record environment_variable_policy =
  ev_name :: string
  ev_value :: "string option"

record seccomp_profile =
  sc_denied_syscalls :: "string list"
  sc_action :: string
  sc_default_action :: string

definition default_seccomp_profile :: seccomp_profile where
  "default_seccomp_profile = \<lparr>
     sc_denied_syscalls =
       [''acct'', ''add_key'', ''bpf'', ''delete_module'', ''finit_module'', ''get_mempolicy'',
        ''init_module'', ''ioperm'', ''iopl'', ''keyctl'', ''kcmp'', ''lookup_dcookie'', ''mbind'',
        ''mount'', ''move_mount'', ''name_to_handle_at'', ''nfsservctl'', ''open_by_handle_at'',
        ''open_tree'', ''perf_event_open'', ''personality'', ''pidfd_getfd'', ''pivot_root'',
        ''process_vm_readv'', ''process_vm_writev'', ''ptrace'', ''quotactl'', ''reboot'',
        ''request_key'', ''set_mempolicy'', ''setns'', ''syslog'', ''umount'', ''umount2'',
        ''unshare''],
     sc_action = ''SCMP_ACT_ERRNO'',
     sc_default_action = ''SCMP_ACT_ALLOW''\<rparr>"

record docker_ulimit =
  ul_name :: string
  ul_soft :: int
  ul_hard :: int

record docker_sysctl =
  sy_name :: string
  sy_value :: string

record docker_profile =
  dp_name :: string
  dp_description :: string
  dp_image_name :: string
  dp_image_build_arguments :: "string list"
  dp_ipc_mode :: "string option"
  dp_shm_size :: "string option"
  dp_cgroupns_mode :: "string option"
  dp_pids_limit :: "int option"
  dp_memory :: "string option"
  dp_memory_swap :: "string option"
  dp_cpus :: "string option"
  dp_ulimits :: "docker_ulimit list"
  dp_sysctls :: "docker_sysctl list"
  dp_cap_drop :: "string list"
  dp_cap_add :: "string list"
  dp_security_options :: "string list"
  dp_seccomp_profile :: "seccomp_profile option"
  dp_container_run_options :: "string list"
  dp_remote_run_root :: string
  dp_allowed_directory_template :: string
  dp_denied_directory_template :: string
  dp_readonly_denied_mount_target :: "string option"
  dp_landlock_rules :: "landlock_path_rule list"
  dp_network_gateway :: "network_gateway_profile option"
  dp_network_dns_policy :: "network_dns_policy option"
  dp_socket_mounts :: "socket_mount list"
  dp_ssh_agent_socket :: "agent_socket_forward option"
  dp_gpg_agent_socket :: "agent_socket_forward option"
  dp_allow_desktop_automation_channel :: bool
  dp_remove_desktop_automation_tools :: bool
  dp_readonly_persistence_directories :: "string list"
  dp_browser_debugging :: "browser_debugging_profile option"
  dp_browser_surface :: "browser_surface_profile option"
  dp_environment :: "environment_variable_policy list"
  dp_denied_executables :: "string list"
  dp_denied_executable_paths :: "string list"

definition default_denied_executable_paths :: "string list" where
  "default_denied_executable_paths =
     [''/opt/sandbox-tester/.venv/bin/pip'',
      ''/opt/sandbox-tester/.venv/bin/pip3'',
      ''/usr/local/bin/pip'',
      ''/usr/local/bin/pip3'',
      ''/usr/bin/apt'',
      ''/usr/bin/apt-get'',
      ''/usr/bin/bash'',
      ''/usr/bin/busctl'',
      ''/usr/bin/dbus-send'',
      ''/usr/bin/dpkg'',
      ''/usr/bin/dpkg-query'',
      ''/usr/bin/findmnt'',
      ''/usr/bin/git'',
      ''/usr/bin/gpg'',
      ''/usr/bin/gpg-connect-agent'',
      ''/usr/bin/gpgconf'',
      ''/usr/bin/journalctl'',
      ''/usr/bin/loginctl'',
      ''/usr/bin/mount'',
      ''/usr/bin/nice'',
      ''/usr/bin/nohup'',
      ''/usr/bin/nsenter'',
      ''/usr/bin/perl'',
      ''/usr/bin/renice'',
      ''/usr/bin/scp'',
      ''/usr/bin/sftp'',
      ''/usr/bin/setsid'',
      ''/usr/bin/ssh'',
      ''/usr/bin/ssh-add'',
      ''/usr/bin/su'',
      ''/usr/bin/systemd-run'',
      ''/usr/bin/systemctl'',
      ''/usr/bin/umount'',
      ''/usr/bin/unshare'',
      ''/usr/sbin/service'']"

text \<open>\<open>DockerProfile(name=..., description=..., image_name=...)\<close> with every other field at its
  default; a profile of the table is this with the keyword arguments as field updates.\<close>

definition new_docker_profile :: "string \<Rightarrow> string \<Rightarrow> string \<Rightarrow> docker_profile" where
  "new_docker_profile nm descr img = \<lparr>
     dp_name = nm,
     dp_description = descr,
     dp_image_name = img,
     dp_image_build_arguments = [],
     dp_ipc_mode = Some ''host'',
     dp_shm_size = None,
     dp_cgroupns_mode = Some ''private'',
     dp_pids_limit = Some 512,
     dp_memory = Some ''2g'',
     dp_memory_swap = Some ''2g'',
     dp_cpus = Some ''2'',
     dp_ulimits =
       [\<lparr>ul_name = ''nofile'', ul_soft = 4096, ul_hard = 4096\<rparr>,
        \<lparr>ul_name = ''nproc'', ul_soft = 512, ul_hard = 512\<rparr>],
     dp_sysctls = [],
     dp_cap_drop = [''ALL''],
     dp_cap_add = [],
     dp_security_options = [''no-new-privileges''],
     dp_seccomp_profile = Some default_seccomp_profile,
     dp_container_run_options = [],
     dp_remote_run_root = ''/tmp/sandbox-tester'',
     dp_allowed_directory_template = ''{remote_run_directory}/allowed'',
     dp_denied_directory_template = ''{remote_run_directory}/denied'',
     dp_readonly_denied_mount_target = None,
     dp_landlock_rules = [],
     dp_network_gateway = None,
     dp_network_dns_policy = Some default_network_dns_policy,
     dp_socket_mounts = [],
     dp_ssh_agent_socket = None,
     dp_gpg_agent_socket = None,
     dp_allow_desktop_automation_channel = False,
     dp_remove_desktop_automation_tools = False,
     dp_readonly_persistence_directories = [],
     dp_browser_debugging = None,
     dp_browser_surface = Some default_browser_surface,
     dp_environment = [],
     dp_denied_executables = [],
     dp_denied_executable_paths = default_denied_executable_paths\<rparr>"

lemma new_docker_profile_sel [simp]:
  "dp_name (new_docker_profile nm descr img) = nm"
  "dp_description (new_docker_profile nm descr img) = descr"
  "dp_image_name (new_docker_profile nm descr img) = img"
  "dp_image_build_arguments (new_docker_profile nm descr img) = []"
  "dp_ipc_mode (new_docker_profile nm descr img) = Some ''host''"
  "dp_shm_size (new_docker_profile nm descr img) = None"
  "dp_cgroupns_mode (new_docker_profile nm descr img) = Some ''private''"
  "dp_pids_limit (new_docker_profile nm descr img) = Some 512"
  "dp_memory (new_docker_profile nm descr img) = Some ''2g''"
  "dp_memory_swap (new_docker_profile nm descr img) = Some ''2g''"
  "dp_cpus (new_docker_profile nm descr img) = Some ''2''"
  "dp_ulimits (new_docker_profile nm descr img) =
     [\<lparr>ul_name = ''nofile'', ul_soft = 4096, ul_hard = 4096\<rparr>,
      \<lparr>ul_name = ''nproc'', ul_soft = 512, ul_hard = 512\<rparr>]"
  "dp_sysctls (new_docker_profile nm descr img) = []"
  "dp_cap_drop (new_docker_profile nm descr img) = [''ALL'']"
  "dp_cap_add (new_docker_profile nm descr img) = []"
  "dp_security_options (new_docker_profile nm descr img) = [''no-new-privileges'']"
  "dp_seccomp_profile (new_docker_profile nm descr img) = Some default_seccomp_profile"
  "dp_container_run_options (new_docker_profile nm descr img) = []"
  "dp_remote_run_root (new_docker_profile nm descr img) = ''/tmp/sandbox-tester''"
  "dp_allowed_directory_template (new_docker_profile nm descr img) = ''{remote_run_directory}/allowed''"
  "dp_denied_directory_template (new_docker_profile nm descr img) = ''{remote_run_directory}/denied''"
  "dp_readonly_denied_mount_target (new_docker_profile nm descr img) = None"
  "dp_landlock_rules (new_docker_profile nm descr img) = []"
  "dp_network_gateway (new_docker_profile nm descr img) = None"
  "dp_network_dns_policy (new_docker_profile nm descr img) = Some default_network_dns_policy"
  "dp_socket_mounts (new_docker_profile nm descr img) = []"
  "dp_ssh_agent_socket (new_docker_profile nm descr img) = None"
  "dp_gpg_agent_socket (new_docker_profile nm descr img) = None"
  "dp_allow_desktop_automation_channel (new_docker_profile nm descr img) = False"
  "dp_remove_desktop_automation_tools (new_docker_profile nm descr img) = False"
  "dp_readonly_persistence_directories (new_docker_profile nm descr img) = []"
  "dp_browser_debugging (new_docker_profile nm descr img) = None"
  "dp_browser_surface (new_docker_profile nm descr img) = Some default_browser_surface"
  "dp_environment (new_docker_profile nm descr img) = []"
  "dp_denied_executables (new_docker_profile nm descr img) = []"
  "dp_denied_executable_paths (new_docker_profile nm descr img) = default_denied_executable_paths"
  by (simp_all add: new_docker_profile_def)

datatype docker_image_status =
  EXISTS | CREATED | BUILD_FAILED | DOCKER_MISSING | DOCKERFILE_MISSING

record docker_configuration =
  dc_base_directory :: path
  dc_dockerfile_path :: path
  dc_build_context :: path
  dc_guest_user :: string
  dc_profile :: docker_profile

record docker_image_result =
  ir_status :: docker_image_status
  ir_image_name :: string
  ir_dockerfile_path :: path
  ir_command :: "string list option"

record docker_run_result =
  rr_image_name :: string
  rr_profile_name :: string
  rr_container_name :: string
  rr_run_directory :: path
  rr_command :: "string list"
  rr_remove_command :: "string list"
  rr_exit_code :: int
  rr_stdout :: string
  rr_stderr :: string
  rr_network_name :: "string option"
  rr_gateway_container_name :: "string option"
  rr_gateway_ip_address :: "string option"
  rr_gateway_commands :: "string list list option"
  rr_gateway_cleanup_commands :: "string list list option"

end
