(* ===== verification/Gateway.thy ===== *)
theory Gateway
  imports Host Url Docker_Models
begin

text \<open>
  The egress gateway of \<open>src/docker_sandbox/sandbox_container.py\<close>: the domains and addresses
  the Squid sidecar allows, its configuration text, the commands that start, inspect and remove
  it, and the effects of starting it and of saving its log.
\<close>

section \<open>Names\<close>

definition DOCKER_EXECUTABLE :: string where
  "DOCKER_EXECUTABLE = ''docker''"

definition GATEWAY_CONTAINER_NAME_PREFIX :: string where
  "GATEWAY_CONTAINER_NAME_PREFIX = ''sandbox-tester-gateway''"

definition NETWORK_NAME_PREFIX :: string where
  "NETWORK_NAME_PREFIX = ''sandbox-tester-net''"

definition SQUID_CONFIGURATION_FILE_NAME :: string where
  "SQUID_CONFIGURATION_FILE_NAME = ''squid.conf''"

definition GATEWAY_START_RESULTS_FILE_NAME :: string where
  "GATEWAY_START_RESULTS_FILE_NAME = ''gateway-start-results.json''"

definition GATEWAY_LOG_FILE_NAME :: string where
  "GATEWAY_LOG_FILE_NAME = ''gateway-logs.json''"

definition build_gateway_container_name :: "docker_configuration \<Rightarrow> string \<Rightarrow> string option" where
  "build_gateway_container_name c timestamp =
     (case dp_network_gateway (dc_profile c) of
        None \<Rightarrow> None
      | Some _ \<Rightarrow> Some (GATEWAY_CONTAINER_NAME_PREFIX @ ''-'' @ timestamp))"

definition build_network_name :: "docker_configuration \<Rightarrow> string \<Rightarrow> string option" where
  "build_network_name c timestamp =
     (case dp_network_gateway (dc_profile c) of
        None \<Rightarrow> None
      | Some _ \<Rightarrow> Some (NETWORK_NAME_PREFIX @ ''-'' @ timestamp))"

section \<open>Allowed destinations\<close>

text \<open>\<open>config_data.get(key)\<close> on the configuration dictionary.\<close>

type_synonym config_data = "(string, json) dict"

definition append_optional_domain :: "string list \<Rightarrow> json option \<Rightarrow> string list" where
  "append_optional_domain domains value = (case value of
       Some (JStr s) \<Rightarrow> if s \<noteq> [] then domains @ [s] else domains
     | _ \<Rightarrow> domains)"

definition append_git_remote_domain :: "string list \<Rightarrow> json option \<Rightarrow> string list res" where
  "append_git_remote_domain domains value = (case value of
       Some (JStr s) \<Rightarrow>
         if s = [] then Inr domains
         else res_bind (url_hostname s) (\<lambda>hostname. Inr (case hostname of
             None \<Rightarrow> domains | Some h \<Rightarrow> if h = [] then domains else domains @ [h]))
     | _ \<Rightarrow> Inr domains)"

definition normalize_gateway_domain :: "string \<Rightarrow> string" where
  "normalize_gateway_domain domain =
     (let stripped = py_lower (py_strip domain)
      in if starts_with stripped ''*.'' then CHR ''.'' # drop 2 stripped else stripped)"

definition remove_redundant_gateway_domain_suffixes :: "string list \<Rightarrow> string list" where
  "remove_redundant_gateway_domain_suffixes domains =
     (let exact_domains = filter (\<lambda>d. \<not> starts_with d ''.'') domains
      in filter (\<lambda>d. \<not> (starts_with d ''.'' \<and> tl d \<in> set exact_domains)) domains)"

definition build_allowed_gateway_domains :: "string list \<Rightarrow> config_data \<Rightarrow> string list res" where
  "build_allowed_gateway_domains configured config_data =
     res_bind (append_git_remote_domain
         (append_optional_domain configured (dict_get config_data ''allowed_domain''))
         (dict_get config_data ''git_remote_url''))
       (\<lambda>domains. Inr (remove_redundant_gateway_domain_suffixes
          (dict_fromkeys (map normalize_gateway_domain domains))))"

definition normalize_gateway_ip_address :: "string \<Rightarrow> string res" where
  "normalize_gateway_ip_address address =
     (let normalized = strip_by (\<lambda>c. c \<in> set ''[]'') (py_strip address)
      in case ip_network_str normalized of
           None \<Rightarrow> Inl (ValueError (normalized @ '' does not appear to be an IPv4 or IPv6 network''))
         | Some network \<Rightarrow> Inr network)"

definition build_allowed_gateway_ip_addresses :: "string list \<Rightarrow> string list res" where
  "build_allowed_gateway_ip_addresses configured =
     res_bind (res_map normalize_gateway_ip_address configured) (\<lambda>xs. Inr (dict_fromkeys xs))"

section \<open>The Squid configuration\<close>

abbreviation backslash :: string where
  "backslash \<equiv> [CHR 0x5C]"

definition squid_lines :: "string list \<Rightarrow> int \<Rightarrow> string list \<Rightarrow> string list" where
  "squid_lines allowed_domains proxy_port allowed_ip_addresses =
     [''http_port '' @ str_int proxy_port,
      ''acl SSL_ports port 443'',
      ''acl Safe_ports port 80'',
      ''acl Safe_ports port 443'',
      ''acl CONNECT method CONNECT'',
      ''acl allowed_sites dstdomain '' @ py_join '' '' allowed_domains,
      ''acl ipv4_literal_url url_regex -i '' @
        ''^[a-z][a-z0-9+.-]*://[0-9]+('' @ backslash @ ''.[0-9]+){3}([:/]|$)'',
      ''acl ipv4_literal_connect url_regex -i ^[0-9]+('' @ backslash @ ''.[0-9]+){3}:'',
      ''acl ipv6_literal_url url_regex -i '' @
        ''^[a-z][a-z0-9+.-]*://'' @ backslash @ ''[[0-9a-f:.]+'' @ backslash @ '']([:/]|$)'',
      ''acl ipv6_literal_connect url_regex -i ^'' @ backslash @ ''[[0-9a-f:.]+'' @ backslash @ '']:'',
      ''http_access deny !Safe_ports'',
      ''http_access deny CONNECT !SSL_ports''] @
     (if allowed_ip_addresses \<noteq> []
      then [''acl allowed_ip_addresses dst '' @ py_join '' '' allowed_ip_addresses,
            ''http_access allow allowed_ip_addresses'']
      else []) @
     [''http_access deny ipv4_literal_url'',
      ''http_access deny ipv4_literal_connect'',
      ''http_access deny ipv6_literal_url'',
      ''http_access deny ipv6_literal_connect'',
      ''http_access allow allowed_sites'',
      ''http_access deny all'',
      ''access_log none'',
      ''cache_log /tmp/squid-cache.log'',
      '''']"

definition build_squid_configuration_text :: "string list \<Rightarrow> int \<Rightarrow> string list \<Rightarrow> string" where
  "build_squid_configuration_text allowed_domains proxy_port allowed_ip_addresses =
     py_join ''\<newline>'' (squid_lines allowed_domains proxy_port allowed_ip_addresses)"

definition write_squid_configuration ::
    "host \<Rightarrow> docker_configuration \<Rightarrow> path \<Rightarrow> config_data \<Rightarrow> unit run" where
  "write_squid_configuration h c run_directory config_data =
     (case dp_network_gateway (dc_profile c) of
        None \<Rightarrow> ret ()
      | Some gateway \<Rightarrow>
          bind (lift_res (build_allowed_gateway_domains (gw_allowed_domains gateway) config_data))
            (\<lambda>domains.
          bind (lift_res (build_allowed_gateway_ip_addresses (gw_allowed_ip_addresses gateway)))
            (\<lambda>addresses.
          write_text h (path_div run_directory SQUID_CONFIGURATION_FILE_NAME)
            (Plain_Text (build_squid_configuration_text domains (gw_proxy_port gateway) addresses)))))"

section \<open>Commands\<close>

definition build_gateway_start_commands ::
    "string \<Rightarrow> string \<Rightarrow> string \<Rightarrow> path \<Rightarrow> string list list" where
  "build_gateway_start_commands gateway_image_name gateway_container_name network_name
     squid_config_path =
     [[DOCKER_EXECUTABLE, ''network'', ''create'', ''--internal'', network_name],
      [DOCKER_EXECUTABLE, ''run'', ''--detach'', ''--name'', gateway_container_name,
       ''--network'', ''bridge'', ''--mount'',
       ''type=bind,source='' @ path_str squid_config_path @
         '',target=/etc/squid/squid.conf,readonly'',
       gateway_image_name],
      [DOCKER_EXECUTABLE, ''network'', ''connect'', ''--alias'', ''egress-gateway'',
       network_name, gateway_container_name],
      [DOCKER_EXECUTABLE, ''exec'', gateway_container_name, ''/bin/sh'', ''-c'',
       ''for attempt in 1 2 3 4 5; do '' @
       ''squid -k check -f /etc/squid/squid.conf >/dev/null 2>&1 '' @
       ''&& exit 0; '' @
       ''sleep 1; '' @
       ''done; '' @
       ''squid -k check -f /etc/squid/squid.conf'']]"

text \<open>\<open>json.dumps\<close> of a string, with its default \<open>ensure_ascii\<close>.\<close>

definition json_escape_char :: "char \<Rightarrow> string" where
  "json_escape_char c =
     (let n = code c
      in if n = 34 then backslash @ [CHR 0x22]
         else if n = 92 then backslash @ backslash
         else if n = 10 then backslash @ ''n''
         else if n = 13 then backslash @ ''r''
         else if n = 9 then backslash @ ''t''
         else if n = 12 then backslash @ ''f''
         else if n = 8 then backslash @ ''b''
         else if 32 \<le> n \<and> n \<le> 126 then [c]
         else backslash @ ''u00'' @ [hex_char (n div 16), hex_char (n mod 16)])"

definition json_dumps_str :: "string \<Rightarrow> string" where
  "json_dumps_str s = [CHR 0x22] @ concat (map json_escape_char s) @ [CHR 0x22]"

definition build_gateway_inspect_command :: "string \<Rightarrow> string \<Rightarrow> string list" where
  "build_gateway_inspect_command gateway_container_name network_name =
     [DOCKER_EXECUTABLE, ''inspect'', ''--format'',
      ''{{(index (index .NetworkSettings.Networks '' @ json_dumps_str network_name @
        '') '' @ [CHR 0x22] @ ''IPAddress'' @ [CHR 0x22] @ '')}}'',
      gateway_container_name]"

definition build_gateway_cleanup_commands ::
    "docker_configuration \<Rightarrow> string option \<Rightarrow> string option \<Rightarrow> string list list option" where
  "build_gateway_cleanup_commands c network_name gateway_container_name =
     (case dp_network_gateway (dc_profile c) of
        None \<Rightarrow> None
      | Some _ \<Rightarrow>
          (case (network_name, gateway_container_name) of
             (Some network, Some gateway) \<Rightarrow>
               Some [[DOCKER_EXECUTABLE, ''rm'', ''--force'', gateway],
                     [DOCKER_EXECUTABLE, ''network'', ''rm'', network]]
           | _ \<Rightarrow> None))"

section \<open>Starting and inspecting\<close>

definition build_gateway_command_result :: "string list \<Rightarrow> completed \<Rightarrow> json" where
  "build_gateway_command_result command completed =
     JObj [(''command'', JList (map JStr command)),
           (''returncode'', JInt (cp_returncode completed)),
           (''stdout'', JStr (cp_stdout completed)),
           (''stderr'', JStr (cp_stderr completed))]"

definition inspect_gateway_ip_address :: "host \<Rightarrow> string \<Rightarrow> string \<Rightarrow> string option run" where
  "inspect_gateway_ip_address h gateway_container_name network_name =
     bind (exec h (build_gateway_inspect_command gateway_container_name network_name))
       (\<lambda>completed.
          if cp_returncode completed \<noteq> 0 then ret None
          else let ip_address = py_strip (cp_stdout completed)
               in if ip_address = [] \<or> ip_address = ''<no value>'' then ret None
                  else ret (Some ip_address))"

definition write_gateway_start_results :: "host \<Rightarrow> path \<Rightarrow> json list \<Rightarrow> unit run" where
  "write_gateway_start_results h run_directory results =
     write_text h (path_div run_directory GATEWAY_START_RESULTS_FILE_NAME) (Json_Text (JList results))"

definition start_network_gateway ::
    "host \<Rightarrow> docker_configuration \<Rightarrow> path \<Rightarrow> string option \<Rightarrow> string option \<Rightarrow>
     (string list list option \<times> string option) run" where
  "start_network_gateway h c run_directory network_name gateway_container_name =
     (case dp_network_gateway (dc_profile c) of
        None \<Rightarrow> ret (None, None)
      | Some gateway \<Rightarrow>
          (case (network_name, gateway_container_name) of
             (Some network, Some container) \<Rightarrow>
               (let commands = build_gateway_start_commands (gw_image_name gateway) container network
                      (path_div run_directory SQUID_CONFIGURATION_FILE_NAME)
                in bind (collect_each commands (\<lambda>command.
                       bind (exec h command) (\<lambda>completed.
                         ret (build_gateway_command_result command completed))))
                     (\<lambda>results.
                   bind (inspect_gateway_ip_address h container network) (\<lambda>ip_address.
                   andthen (write_gateway_start_results h run_directory
                       (results @ [JObj
                          [(''command'', JList (map JStr (build_gateway_inspect_command container network))),
                           (''gateway_ip_address'', json_opt_str ip_address)]]))
                     (ret (Some commands, ip_address)))))
           | _ \<Rightarrow> raise (RuntimeError
               ''Network gateway profile requires network and container names.'')))"

definition write_gateway_logs ::
    "host \<Rightarrow> docker_configuration \<Rightarrow> path \<Rightarrow> string option \<Rightarrow> unit run" where
  "write_gateway_logs h c run_directory gateway_container_name =
     (case (dp_network_gateway (dc_profile c), gateway_container_name) of
        (Some _, Some container) \<Rightarrow>
          bind (exec h [DOCKER_EXECUTABLE, ''logs'', container]) (\<lambda>completed.
            write_text h (path_div run_directory GATEWAY_LOG_FILE_NAME)
              (Json_Text (JObj [(''returncode'', JInt (cp_returncode completed)),
                 (''stdout'', JStr (cp_stdout completed)),
                 (''stderr'', JStr (cp_stderr completed))])))
      | _ \<Rightarrow> ret ())"

section \<open>Which hosts the allow list admits\<close>

text \<open>Squid's documented reading of a \<open>dstdomain\<close> entry: with a leading dot it stands for the
  domain and everything beneath it, without one for that host only.\<close>

definition dstdomain_matches :: "string \<Rightarrow> string \<Rightarrow> bool" where
  "dstdomain_matches entry host =
     (if starts_with entry ''.'' then host = tl entry \<or> ends_with host entry else host = entry)"

text \<open>A wildcard entry whose own domain is also listed as a host: the code drops it.\<close>

definition shadowed :: "string list \<Rightarrow> string \<Rightarrow> bool" where
  "shadowed domains entry \<longleftrightarrow>
     starts_with entry ''.'' \<and> tl entry \<in> set domains \<and> \<not> starts_with (tl entry) ''.''"

lemma remove_redundant_filter:
  "remove_redundant_gateway_domain_suffixes ds = filter (\<lambda>d. \<not> shadowed ds d) ds"
  by (auto simp: remove_redundant_gateway_domain_suffixes_def shadowed_def Let_def
      intro!: filter_cong)

lemma remaining_matches:
  "(\<exists>e \<in> set (remove_redundant_gateway_domain_suffixes ds). dstdomain_matches e host) \<longleftrightarrow>
   (\<exists>e \<in> set ds. dstdomain_matches e host \<and> (shadowed ds e \<longrightarrow> host = tl e))"
proof
  assume "\<exists>e \<in> set ds. dstdomain_matches e host \<and> (shadowed ds e \<longrightarrow> host = tl e)"
  then obtain e where e: "e \<in> set ds" "dstdomain_matches e host" "shadowed ds e \<longrightarrow> host = tl e"
    by blast
  show "\<exists>e \<in> set (remove_redundant_gateway_domain_suffixes ds). dstdomain_matches e host"
  proof (cases "shadowed ds e")
    case True
    with e have "host \<in> set ds" "\<not> starts_with host ''.''" by (auto simp: shadowed_def)
    then show ?thesis
      unfolding remove_redundant_filter
      by (intro bexI [of _ host]) (auto simp: shadowed_def dstdomain_matches_def)
  next
    case False
    with e show ?thesis unfolding remove_redundant_filter by auto
  qed
qed (auto simp: remove_redundant_filter)

text \<open>C20. The domains the gateway allows: the list has no repetition, and a host is admitted exactly
  when a normalised requested entry admits it, except that a wildcard whose own domain is also
  requested as a host admits that host only and none of its subdomains.\<close>

theorem gateway_admits:
  assumes "append_git_remote_domain
      (append_optional_domain configured (dict_get config ''allowed_domain''))
      (dict_get config ''git_remote_url'') = Inr requested"
  shows "\<exists>out. build_allowed_gateway_domains configured config = Inr out \<and> distinct out \<and>
    (\<forall>host. (\<exists>e \<in> set out. dstdomain_matches e host) \<longleftrightarrow>
       (\<exists>e \<in> set (map normalize_gateway_domain requested). dstdomain_matches e host \<and>
          (shadowed (map normalize_gateway_domain requested) e \<longrightarrow> host = tl e)))"
proof (intro exI conjI allI)
  let ?ds = "map normalize_gateway_domain requested"
  let ?out = "remove_redundant_gateway_domain_suffixes (dict_fromkeys ?ds)"
  show "build_allowed_gateway_domains configured config = Inr ?out"
    using assms by (simp add: build_allowed_gateway_domains_def)
  show "distinct ?out" by (simp add: remove_redundant_filter)
  have "shadowed (dict_fromkeys ?ds) = shadowed ?ds"
    by (auto simp: shadowed_def fun_eq_iff)
  then show "(\<exists>e \<in> set ?out. dstdomain_matches e host) \<longleftrightarrow>
      (\<exists>e \<in> set ?ds. dstdomain_matches e host \<and> (shadowed ?ds e \<longrightarrow> host = tl e))" for host
    by (simp only: remaining_matches set_dict_fromkeys)
qed

theorem gateway_admits_witness:
  "\<exists>out. build_allowed_gateway_domains [''.github.com'']
       [(''allowed_domain'', JStr ''github.com'')] = Inr out \<and>
     (\<exists>e \<in> set out. dstdomain_matches e ''github.com'') \<and>
     \<not> (\<exists>e \<in> set out. dstdomain_matches e ''api.github.com'')"
proof -
  have requested: "append_git_remote_domain
      (append_optional_domain [''.github.com'']
        (dict_get [(''allowed_domain'', JStr ''github.com'')] ''allowed_domain''))
      (dict_get [(''allowed_domain'', JStr ''github.com'')] ''git_remote_url'') =
    Inr [''.github.com'', ''github.com'']"
    by (simp add: append_optional_domain_def append_git_remote_domain_def)
  have normal: "map normalize_gateway_domain [''.github.com'', ''github.com''] =
      [''.github.com'', ''github.com'']"
    by code_simp
  from gateway_admits [OF requested, unfolded normal] obtain out where
    out: "build_allowed_gateway_domains [''.github.com'']
      [(''allowed_domain'', JStr ''github.com'')] = Inr out" and
    host: "\<And>host. (\<exists>e \<in> set out. dstdomain_matches e host) \<longleftrightarrow>
      (\<exists>e \<in> set [''.github.com'', ''github.com'']. dstdomain_matches e host \<and>
        (shadowed [''.github.com'', ''github.com''] e \<longrightarrow> host = tl e))"
    by blast
  have "\<exists>e \<in> set out. dstdomain_matches e ''github.com''"
    unfolding host by (simp add: dstdomain_matches_def shadowed_def starts_with_def)
  moreover have "\<not> (\<exists>e \<in> set out. dstdomain_matches e ''api.github.com'')"
    unfolding host by (simp add: dstdomain_matches_def shadowed_def starts_with_def)
  ultimately show ?thesis using out by blast
qed

section \<open>The access rules\<close>

lemma str_nat_digits: "c \<in> set (str_nat n) \<Longrightarrow> is_digit c"
proof (induction n rule: str_nat.induct)
  case (1 n)
  have digit: "is_digit (char_of (48 + k))" if "k < 10" for k :: nat
  proof -
    have "list_all (\<lambda>k. is_digit (char_of (48 + k))) [0, 1, 2, 3, 4, 5, 6, 7, 8, 9 :: nat]"
      by code_simp
    moreover have "k \<in> set [0, 1, 2, 3, 4, 5, 6, 7, 8, 9]" using that by auto
    ultimately show ?thesis unfolding list_all_iff by blast
  qed
  show ?case
  proof (cases "n < 10")
    case True
    with 1 digit show ?thesis by (auto simp: str_nat.simps [of n])
  next
    case False
    with 1 digit [of "n mod 10"] show ?thesis by (auto simp: str_nat.simps [of n])
  qed
qed

lemma newline_not_digit: "\<not> is_digit (CHR ''\<newline>'')"
  by code_simp

lemma str_int_newline_free: "CHR ''\<newline>'' \<notin> set (str_int i)"
  using str_nat_digits [of "CHR ''\<newline>''"] newline_not_digit by (auto simp: str_int_def)

lemma py_join_space_newline_free:
  "(\<forall>w \<in> set ws. CHR ''\<newline>'' \<notin> set w) \<Longrightarrow> CHR ''\<newline>'' \<notin> set (py_join '' '' ws)"
  by (induction "'' ''" ws rule: py_join.induct) auto

definition access_rules :: "string \<Rightarrow> string list" where
  "access_rules text =
     map (drop 12) (filter (\<lambda>line. starts_with line ''http_access '') (split_on CHR ''\<newline>'' text))"

text \<open>The access rules Squid reads in the generated text, in order, when no listed entry holds a
  line break: unsafe ports and non-443 tunnels are denied first, listed addresses are the only
  thing allowed before address literals are denied, then the listed domains are allowed and
  everything else is denied. The entries cannot add, remove or reorder a rule.\<close>

theorem squid_access_rules:
  assumes "\<forall>d \<in> set domains. CHR ''\<newline>'' \<notin> set d" and "\<forall>a \<in> set addresses. CHR ''\<newline>'' \<notin> set a"
  shows "access_rules (build_squid_configuration_text domains port addresses) =
    [''deny !Safe_ports'', ''deny CONNECT !SSL_ports''] @
    (if addresses = [] then [] else [''allow allowed_ip_addresses'']) @
    [''deny ipv4_literal_url'', ''deny ipv4_literal_connect'', ''deny ipv6_literal_url'',
     ''deny ipv6_literal_connect'', ''allow allowed_sites'', ''deny all'']"
proof -
  have "\<forall>line \<in> set (squid_lines domains port addresses). CHR ''\<newline>'' \<notin> set line"
    using assms str_int_newline_free [of port] py_join_space_newline_free
    by (cases "addresses = []") (simp_all add: squid_lines_def)
  then have "split_on CHR ''\<newline>'' (build_squid_configuration_text domains port addresses) =
      squid_lines domains port addresses"
    unfolding build_squid_configuration_text_def
    by (intro split_on_py_join) (simp_all add: squid_lines_def)
  then show ?thesis
    by (simp add: access_rules_def squid_lines_def starts_with_def)
qed

theorem squid_access_rules_witness:
  "''deny all'' \<in> set (access_rules (build_squid_configuration_text [''.openai.com''] 3128 []))"
  using squid_access_rules [of "[''.openai.com'']" "[]" 3128] by simp

end
