(* ===== verification/Environment.thy ===== *)
theory Environment
  imports Gateway
begin

text \<open>
  The environment of the sandbox container, from \<open>src/docker_sandbox/sandbox_container.py\<close>:
  which host variables are passed on, what the profile sets and removes, the proxy settings,
  and the \<open>--env\<close> options. A Python \<open>dict\<close> is an ordered dictionary; the names that are passed
  by name only (a Python set) are a list whose order is not observed.
\<close>

definition REMOTE_SOURCE_DIRECTORY :: string where
  "REMOTE_SOURCE_DIRECTORY = ''/sandbox-source/src''"

definition LOCAL_ENVIRONMENT_VALUE :: string where
  "LOCAL_ENVIRONMENT_VALUE = ''[local]''"

definition DESKTOP_AUTOMATION_ENVIRONMENT_NAMES :: "string list" where
  "DESKTOP_AUTOMATION_ENVIRONMENT_NAMES =
     [''DBUS_SESSION_BUS_ADDRESS'', ''DISPLAY'', ''WAYLAND_DISPLAY'', ''XAUTHORITY'']"

definition SANDBOX_TESTER_ENVIRONMENT_VARIABLES :: "(string, string) dict" where
  "SANDBOX_TESTER_ENVIRONMENT_VARIABLES = [(''OPENAI_API_KEY'', LOCAL_ENVIRONMENT_VALUE)]"

text \<open>The loop of \<open>_resolve_environment_variables\<close>, with the dictionary built so far.\<close>

fun resolve_environment_variables_into ::
    "(string \<Rightarrow> string option) \<Rightarrow> (string, string) dict \<Rightarrow> (string, string) dict \<Rightarrow>
     (string, string) dict" where
  "resolve_environment_variables_into source env [] = env"
| "resolve_environment_variables_into source env ((name, value) # rest) =
     (if value = LOCAL_ENVIRONMENT_VALUE
      then (case source name of
              None \<Rightarrow> resolve_environment_variables_into source env rest
            | Some v \<Rightarrow> resolve_environment_variables_into source (dict_set name v env) rest)
      else resolve_environment_variables_into source (dict_set name value env) rest)"

definition resolve_environment_variables ::
    "(string \<Rightarrow> string option) \<Rightarrow> (string, string) dict \<Rightarrow> (string, string) dict" where
  "resolve_environment_variables source configured =
     resolve_environment_variables_into source [] configured"

definition get_local_environment_variable_names :: "(string, string) dict \<Rightarrow> string list" where
  "get_local_environment_variable_names configured =
     map fst (filter (\<lambda>(name, value). value = LOCAL_ENVIRONMENT_VALUE) configured)"

definition get_container_ssh_agent_socket :: "docker_configuration \<Rightarrow> string option" where
  "get_container_ssh_agent_socket c =
     map_option ag_target_path (dp_ssh_agent_socket (dc_profile c))"

definition get_container_gpg_home :: "docker_configuration \<Rightarrow> string option" where
  "get_container_gpg_home c =
     map_option (\<lambda>socket. path_str (path_parent (path_of (ag_target_path socket))))
       (dp_gpg_agent_socket (dc_profile c))"

definition apply_environment_policy ::
    "environment_variable_policy \<Rightarrow> (string, string) dict \<Rightarrow> (string, string) dict" where
  "apply_environment_policy policy env =
     (case ev_value policy of
        None \<Rightarrow> dict_pop (ev_name policy) env
      | Some v \<Rightarrow> dict_set (ev_name policy) v env)"

definition apply_environment_policies ::
    "environment_variable_policy list \<Rightarrow> (string, string) dict \<Rightarrow> (string, string) dict" where
  "apply_environment_policies policies env = fold apply_environment_policy policies env"

definition apply_desktop_automation_policy ::
    "bool \<Rightarrow> (string, string) dict \<Rightarrow> (string, string) dict" where
  "apply_desktop_automation_policy allow env =
     (if allow then env else fold dict_pop DESKTOP_AUTOMATION_ENVIRONMENT_NAMES env)"

definition proxy_url :: "network_gateway_profile \<Rightarrow> string option \<Rightarrow> string" where
  "proxy_url gateway gateway_ip_address =
     ''http://'' @
     (case gateway_ip_address of
        Some ip \<Rightarrow> if ip \<noteq> [] then ip else gw_proxy_host gateway
      | None \<Rightarrow> gw_proxy_host gateway) @
     '':'' @ str_int (gw_proxy_port gateway)"

definition no_proxy :: "network_gateway_profile \<Rightarrow> string" where
  "no_proxy gateway =
     py_join '','' (dict_fromkeys ([''localhost'', ''127.0.0.1''] @ gw_no_proxy_hosts gateway))"

definition proxy_settings ::
    "network_gateway_profile \<Rightarrow> string option \<Rightarrow> (string \<times> string) list" where
  "proxy_settings gateway gateway_ip_address =
     [(''HTTP_PROXY'', proxy_url gateway gateway_ip_address),
      (''HTTPS_PROXY'', proxy_url gateway gateway_ip_address),
      (''NO_PROXY'', no_proxy gateway),
      (''http_proxy'', proxy_url gateway gateway_ip_address),
      (''https_proxy'', proxy_url gateway gateway_ip_address),
      (''no_proxy'', no_proxy gateway)]"

definition set_optional ::
    "string \<Rightarrow> string option \<Rightarrow> (string, string) dict \<Rightarrow> (string, string) dict" where
  "set_optional name value env = (case value of None \<Rightarrow> env | Some v \<Rightarrow> dict_set name v env)"

definition build_container_environment ::
    "docker_configuration \<Rightarrow> (string, string) dict \<Rightarrow> string option \<Rightarrow> (string, string) dict" where
  "build_container_environment c environment_variables gateway_ip_address =
     (let env = dict_set ''PYTHONPATH'' REMOTE_SOURCE_DIRECTORY environment_variables;
          env = set_optional ''SSH_AUTH_SOCK'' (get_container_ssh_agent_socket c) env;
          env = set_optional ''GNUPGHOME'' (get_container_gpg_home c) env;
          env = apply_environment_policies (dp_environment (dc_profile c)) env;
          env = apply_desktop_automation_policy
                  (dp_allow_desktop_automation_channel (dc_profile c)) env
      in case dp_network_gateway (dc_profile c) of
           None \<Rightarrow> env
         | Some gateway \<Rightarrow>
             fold (\<lambda>(name, value). dict_set name value) (proxy_settings gateway gateway_ip_address) env)"

definition environment_option :: "string list \<Rightarrow> string \<times> string \<Rightarrow> string list" where
  "environment_option local_names = (\<lambda>(name, value).
     if name \<in> set local_names then [''--env'', name]
     else [''--env'', name @ ''='' @ value])"

definition build_environment_options :: "(string, string) dict \<Rightarrow> string list \<Rightarrow> string list" where
  "build_environment_options environment_variables local_names =
     concat (map (environment_option local_names) (sort environment_variables))"

section \<open>Lookup\<close>

text \<open>Two dictionaries agree outside a set of names: same keys in the same order, and the same
  value wherever the key is not one of the names. Every step of the construction keeps it.\<close>

definition agree_outside ::
    "string set \<Rightarrow> (string, string) dict \<Rightarrow> (string, string) dict \<Rightarrow> bool" where
  "agree_outside names =
     list_all2 (\<lambda>(k, v) (k', v'). k = k' \<and> (k \<notin> names \<longrightarrow> v = v'))"

named_theorems agree_intros \<open>operations on the environment that keep the agreement\<close>

lemma agree_outside_refl [agree_intros]: "agree_outside names d d"
  by (auto simp: agree_outside_def intro!: list_all2_refl)

lemma agree_outside_set [agree_intros]:
  "agree_outside names d d' \<Longrightarrow> agree_outside names (dict_set k v d) (dict_set k v d')"
  unfolding agree_outside_def by (induction d d' rule: list_all2_induct) auto

lemma agree_outside_pop [agree_intros]:
  "agree_outside names d d' \<Longrightarrow> agree_outside names (dict_pop k d) (dict_pop k d')"
  unfolding agree_outside_def AList.delete_eq by (induction d d' rule: list_all2_induct) auto

lemma agree_outside_fold [agree_intros]:
  "(\<And>x d d'. agree_outside names d d' \<Longrightarrow> agree_outside names (f x d) (f x d')) \<Longrightarrow>
   agree_outside names d d' \<Longrightarrow> agree_outside names (fold f xs d) (fold f xs d')"
  by (induction xs arbitrary: d d') auto

lemma agree_outside_set_optional [agree_intros]:
  "agree_outside names d d' \<Longrightarrow> agree_outside names (set_optional k v d) (set_optional k v d')"
  by (simp add: set_optional_def agree_intros split: option.split)

lemma agree_outside_policies [agree_intros]:
  "agree_outside names d d' \<Longrightarrow>
   agree_outside names (apply_environment_policies ps d) (apply_environment_policies ps d')"
  unfolding apply_environment_policies_def
  by (rule agree_outside_fold) (auto simp: apply_environment_policy_def agree_intros split: option.split)

lemma agree_outside_desktop [agree_intros]:
  "agree_outside names d d' \<Longrightarrow>
   agree_outside names (apply_desktop_automation_policy b d) (apply_desktop_automation_policy b d')"
  by (auto simp: apply_desktop_automation_policy_def intro!: agree_outside_fold agree_outside_pop)

lemma agree_outside_environment:
  assumes "agree_outside names d d'"
  shows "agree_outside names (build_container_environment c d ip) (build_container_environment c d' ip)"
  using assms
  by (auto simp: build_container_environment_def Let_def agree_intros
      intro!: agree_outside_fold split: option.split prod.split)

lemma dict_ok_environment:
  assumes "dict_ok d"
  shows "dict_ok (build_container_environment c d ip)"
proof -
  have fold_ok: "dict_ok (fold f xs e)" if "\<And>x e. dict_ok e \<Longrightarrow> dict_ok (f x e)" and "dict_ok e"
    for f :: "'x \<Rightarrow> (string, string) dict \<Rightarrow> (string, string) dict" and xs e
    using that(2) by (induction xs arbitrary: e) (auto intro: that(1))
  have policy: "dict_ok (apply_environment_policy p e)" if "dict_ok e" for p e
    using that by (simp add: apply_environment_policy_def split: option.split)
  show ?thesis
    using assms
    by (auto simp: build_container_environment_def set_optional_def apply_environment_policies_def
        apply_desktop_automation_policy_def Let_def split: option.split prod.split
        intro!: fold_ok policy)
qed

text \<open>Distinct names decide the order of the sorted items, so sorting keeps the agreement too.\<close>

lemma pair_le_by_name:
  fixes k :: string and v :: string
  shows "k \<noteq> k' \<Longrightarrow> ((k, v) \<le> (k', v')) = (k < k')"
  by (auto simp: less_eq_prod_def order.strict_iff_order)

lemma agree_outside_insort:
  assumes "agree_outside names d d'" and "k \<notin> fst ` set d" and "k \<notin> names \<longrightarrow> v = v'"
  shows "agree_outside names (insort (k, v) d) (insort (k, v') d')"
  using assms unfolding agree_outside_def
  by (induction d d' rule: list_all2_induct) (auto simp: pair_le_by_name)

lemma agree_outside_sort:
  "agree_outside names d d' \<Longrightarrow> dict_ok d \<Longrightarrow> agree_outside names (sort d) (sort d')"
proof (induction d arbitrary: d')
  case Nil
  then show ?case by (simp add: agree_outside_def)
next
  case (Cons x d)
  from Cons.prems(1) obtain y e where d': "d' = y # e" and "agree_outside names d e"
    and y: "fst y = fst x" "fst x \<notin> names \<longrightarrow> snd x = snd y"
    unfolding agree_outside_def by (auto simp: list_all2_Cons1)
  with Cons have "agree_outside names (sort d) (sort e)" and "fst x \<notin> fst ` set (sort d)"
    by auto
  with agree_outside_insort [of names "sort d" "sort e" "fst x" "snd x" "snd y"] y d'
  show ?case by (cases x, cases y) simp
qed

lemma options_of_agreeing:
  assumes "agree_outside (set names) d d'"
  shows "map (environment_option names) d = map (environment_option names) d'"
  using assms unfolding agree_outside_def
  by (induction d d' rule: list_all2_induct) (auto simp: environment_option_def)

lemma environment_options_hide_values:
  assumes "agree_outside (set names) d d'" and "dict_ok d"
  shows "build_environment_options (build_container_environment c d ip) names =
         build_environment_options (build_container_environment c d' ip) names"
  unfolding build_environment_options_def
  by (simp only: options_of_agreeing [OF agree_outside_sort
        [OF agree_outside_environment [OF assms(1)] dict_ok_environment [OF assms(2)]]])

text \<open>The value of a name, from the last operation that decides it back to the first.\<close>

definition last_policy :: "environment_variable_policy list \<Rightarrow> string \<Rightarrow> string option option" where
  "last_policy policies = map_of (rev (map (\<lambda>p. (ev_name p, ev_value p)) policies))"

lemma dict_get_policies:
  "dict_get (apply_environment_policies ps d) n =
     (case last_policy ps n of Some v \<Rightarrow> v | None \<Rightarrow> dict_get d n)"
  unfolding apply_environment_policies_def last_policy_def
  by (induction ps arbitrary: d)
    (auto simp: apply_environment_policy_def map_add_def split: option.splits)

lemma dict_get_pop_all: "dict_get (fold dict_pop ns d) n = (if n \<in> set ns then None else dict_get d n)"
  by (induction ns arbitrary: d) auto

lemma dict_get_set_optional:
  "dict_get (set_optional k v d) n = (if n = k \<and> v \<noteq> None then v else dict_get d n)"
  by (auto simp: set_optional_def split: option.split)

lemma map_of_rev_proxy_settings:
  "map_of (rev (proxy_settings gateway ip)) n = map_of (proxy_settings gateway ip) n"
proof -
  have "distinct (map fst (proxy_settings gateway ip))" by (simp add: proxy_settings_def)
  then show ?thesis
    by (metis distinct_rev map_of_inject_set rev_map set_rev)
qed

lemma container_environment_get:
  "dict_get (build_container_environment c vars ip) n =
    (case (case dp_network_gateway (dc_profile c) of
             None \<Rightarrow> None | Some gateway \<Rightarrow> map_of (proxy_settings gateway ip) n) of
       Some v \<Rightarrow> Some v
     | None \<Rightarrow>
         if \<not> dp_allow_desktop_automation_channel (dc_profile c) \<and>
            n \<in> set DESKTOP_AUTOMATION_ENVIRONMENT_NAMES then None
         else (case last_policy (dp_environment (dc_profile c)) n of
             Some v \<Rightarrow> v
           | None \<Rightarrow>
               if n = ''GNUPGHOME'' \<and> get_container_gpg_home c \<noteq> None then get_container_gpg_home c
               else if n = ''SSH_AUTH_SOCK'' \<and> get_container_ssh_agent_socket c \<noteq> None
               then get_container_ssh_agent_socket c
               else if n = ''PYTHONPATH'' then Some REMOTE_SOURCE_DIRECTORY
               else dict_get vars n))"
proof -
  let ?p = "dc_profile c"
  define base where "base = apply_desktop_automation_policy (dp_allow_desktop_automation_channel ?p)
    (apply_environment_policies (dp_environment ?p)
      (set_optional ''GNUPGHOME'' (get_container_gpg_home c)
        (set_optional ''SSH_AUTH_SOCK'' (get_container_ssh_agent_socket c)
          (dict_set ''PYTHONPATH'' REMOTE_SOURCE_DIRECTORY vars))))"
  have all: "dict_get (build_container_environment c vars ip) n =
      (case (case dp_network_gateway ?p of
             None \<Rightarrow> None | Some gateway \<Rightarrow> map_of (proxy_settings gateway ip) n) of
         Some v \<Rightarrow> Some v | None \<Rightarrow> dict_get base n)"
    by (simp only: build_container_environment_def Let_def base_def [symmetric])
      (simp add: dict_get_set_all map_of_rev_proxy_settings split: option.split)
  have base: "dict_get base n =
      (if \<not> dp_allow_desktop_automation_channel ?p \<and> n \<in> set DESKTOP_AUTOMATION_ENVIRONMENT_NAMES
       then None
       else dict_get (apply_environment_policies (dp_environment ?p)
         (set_optional ''GNUPGHOME'' (get_container_gpg_home c)
           (set_optional ''SSH_AUTH_SOCK'' (get_container_ssh_agent_socket c)
             (dict_set ''PYTHONPATH'' REMOTE_SOURCE_DIRECTORY vars)))) n)"
    by (simp add: base_def apply_desktop_automation_policy_def dict_get_pop_all)
  show ?thesis
    by (simp only: all base dict_get_policies dict_get_set_optional dict_get_set)
qed

text \<open>C26. What a name is in the container, as the construction decides it: the proxy settings of a
  gateway win, then the desktop-channel names are gone unless the profile allows the channel,
  then the last policy on the name decides (a policy without value removes it), then the agent
  settings and \<open>PYTHONPATH\<close>, and only what none of these names keeps the passed-on value.\<close>

theorem container_environment_lookup:
  "dict_get (build_container_environment c vars ip) n =
    (case (case dp_network_gateway (dc_profile c) of
             None \<Rightarrow> None | Some gateway \<Rightarrow> map_of (proxy_settings gateway ip) n) of
       Some v \<Rightarrow> Some v
     | None \<Rightarrow>
         if \<not> dp_allow_desktop_automation_channel (dc_profile c) \<and>
            n \<in> set DESKTOP_AUTOMATION_ENVIRONMENT_NAMES then None
         else (case last_policy (dp_environment (dc_profile c)) n of
             Some v \<Rightarrow> v
           | None \<Rightarrow>
               if n = ''GNUPGHOME'' \<and> get_container_gpg_home c \<noteq> None then get_container_gpg_home c
               else if n = ''SSH_AUTH_SOCK'' \<and> get_container_ssh_agent_socket c \<noteq> None
               then get_container_ssh_agent_socket c
               else if n = ''PYTHONPATH'' then Some REMOTE_SOURCE_DIRECTORY
               else dict_get vars n))"
  by (rule container_environment_get)

section \<open>Secrets\<close>

lemma resolve_into_agree:
  assumes "\<And>n. (source n = None) = (source' n = None)"
    and "set (get_local_environment_variable_names configured) \<subseteq> names"
    and "agree_outside names d d'"
  shows "agree_outside names (resolve_environment_variables_into source d configured)
           (resolve_environment_variables_into source' d' configured)"
  using assms(2,3)
proof (induction configured arbitrary: d d')
  case Nil
  then show ?case by simp
next
  case (Cons x configured)
  obtain n v where x: "x = (n, v)" by (cases x)
  have hidden: "agree_outside names (dict_set n a e) (dict_set n b e')"
    if "agree_outside names e e'" and "n \<in> names" for a b e e'
    using that unfolding agree_outside_def by (induction e e' rule: list_all2_induct) auto
  from Cons.prems(1) x have names: "set (get_local_environment_variable_names configured) \<subseteq> names"
    "v = LOCAL_ENVIRONMENT_VALUE \<Longrightarrow> n \<in> names"
    by (auto simp: get_local_environment_variable_names_def split: if_splits)
  show ?case
  proof (cases "v = LOCAL_ENVIRONMENT_VALUE")
    case False
    with x Cons.IH [OF names(1) agree_outside_set [OF Cons.prems(2)]] show ?thesis by simp
  next
    case True
    with x names assms(1) [of n] Cons.prems(2) show ?thesis
      by (cases "source n"; cases "source' n") (auto intro!: Cons.IH hidden)
  qed
qed

lemma dict_ok_resolve_into: "dict_ok d \<Longrightarrow> dict_ok (resolve_environment_variables_into source d configured)"
  by (induction source d configured rule: resolve_environment_variables_into.induct)
    (auto split: option.splits)

lemma resolved_options_hide_values:
  fixes configured :: "(string, string) dict"
  assumes "\<And>n. (source n = None) = (source' n = None)"
  defines "names \<equiv> get_local_environment_variable_names configured"
  shows "build_environment_options (build_container_environment c
           (resolve_environment_variables source configured) ip) names =
         build_environment_options (build_container_environment c
           (resolve_environment_variables source' configured) ip) names"
proof (rule environment_options_hide_values)
  show "agree_outside (set names) (resolve_environment_variables source configured)
          (resolve_environment_variables source' configured)"
    unfolding resolve_environment_variables_def
    by (rule resolve_into_agree [OF assms(1)]) (simp_all add: names_def agree_intros)
  show "dict_ok (resolve_environment_variables source configured)"
    by (simp add: resolve_environment_variables_def dict_ok_resolve_into)
qed

end
