(* ===== verification/Shell_Words.thy ===== *)
theory Shell_Words
  imports Prelude
begin

text \<open>
  The meaning the generated \<open>/bin/sh\<close> text must have. \<open>shell_quote\<close> is \<open>shlex.quote\<close>, and
  \<open>sh_tokens\<close> is the specification side: the token recognition of a POSIX shell on a line
  made of plain characters, quotes, blanks and the \<open>>\<close> operator. Any character a shell would
  expand or treat as control in that position (\<open>$\<close>, a backquote, \<open>;\<close>, an unquoted newline,
  \<dots>) makes it answer \<open>None\<close>, so a \<open>Some\<close> result says that the shell reads exactly these
  words.
\<close>

definition is_shell_safe :: "char \<Rightarrow> bool" where
  "is_shell_safe c \<longleftrightarrow> is_upper c \<or> is_lower c \<or> is_digit c \<or> c \<in> set ''_@%+=:,./-''"

definition shell_quote :: "string \<Rightarrow> string" where
  "shell_quote s =
     (if s = [] then [CHR 0x27, CHR 0x27]
      else if list_all is_shell_safe s then s
      else CHR 0x27 # replace_char (CHR 0x27) [CHR 0x27, CHR 0x22, CHR 0x27, CHR 0x22, CHR 0x27] s
           @ [CHR 0x27])"

datatype sh_token = Word string | Redirect

datatype sh_mode = Between | Plain string | Single string | Double string

definition sh_emit :: "sh_token \<Rightarrow> sh_token list option \<Rightarrow> sh_token list option" where
  "sh_emit t r = map_option (\<lambda>ts. t # ts) r"

text \<open>The accumulated word is kept in the mode, in reading order.\<close>

fun sh_scan :: "sh_mode \<Rightarrow> string \<Rightarrow> sh_token list option" where
  "sh_scan Between [] = Some []"
| "sh_scan (Plain w) [] = Some [Word w]"
| "sh_scan (Single w) [] = None"
| "sh_scan (Double w) [] = None"
| "sh_scan Between (c # cs) =
     (if c = CHR '' '' then sh_scan Between cs
      else if c = CHR 0x27 then sh_scan (Single []) cs
      else if c = CHR 0x22 then sh_scan (Double []) cs
      else if c = CHR ''>'' then sh_emit Redirect (sh_scan Between cs)
      else if is_shell_safe c then sh_scan (Plain [c]) cs
      else None)"
| "sh_scan (Plain w) (c # cs) =
     (if c = CHR '' '' then sh_emit (Word w) (sh_scan Between cs)
      else if c = CHR 0x27 then sh_scan (Single w) cs
      else if c = CHR 0x22 then sh_scan (Double w) cs
      else if c = CHR ''>'' then None
      else if is_shell_safe c then sh_scan (Plain (w @ [c])) cs
      else None)"
| "sh_scan (Single w) (c # cs) =
     (if c = CHR 0x27 then sh_scan (Plain w) cs else sh_scan (Single (w @ [c])) cs)"
| "sh_scan (Double w) (c # cs) =
     (if c = CHR 0x22 then sh_scan (Plain w) cs
      else if c \<in> {CHR ''$'', CHR 0x60, CHR 0x5C} then None
      else sh_scan (Double (w @ [c])) cs)"

definition sh_tokens :: "string \<Rightarrow> sh_token list option" where
  "sh_tokens s = sh_scan Between s"

lemma shell_safe_not_special [simp]:
  "is_shell_safe c \<Longrightarrow> c \<noteq> CHR '' '' \<and> c \<noteq> CHR 0x27 \<and> c \<noteq> CHR 0x22 \<and> c \<noteq> CHR ''>''"
  by (auto simp: is_shell_safe_def is_upper_def is_lower_def is_digit_def code_def)

lemma scan_plain_safe:
  "list_all is_shell_safe s \<Longrightarrow> sh_scan (Plain w) (s @ r) = sh_scan (Plain (w @ s)) r"
  by (induction s arbitrary: w) simp_all

lemma scan_single_quoted:
  "sh_scan (Single w)
     (replace_char (CHR 0x27) [CHR 0x27, CHR 0x22, CHR 0x27, CHR 0x22, CHR 0x27] s @ CHR 0x27 # r)
   = sh_scan (Plain (w @ s)) r"
  by (induction s arbitrary: w) (simp_all add: replace_char_def)

text \<open>Quoting, read back in word position, is a word in progress holding exactly the string.\<close>

lemma scan_quote [simp]: "sh_scan Between (shell_quote s @ r) = sh_scan (Plain s) r"
proof (cases s)
  case Nil
  then show ?thesis by (simp add: shell_quote_def)
next
  case (Cons c cs)
  show ?thesis
  proof (cases "list_all is_shell_safe s")
    case True
    with Cons show ?thesis
      using scan_plain_safe [of cs "[c]" r] by (simp add: shell_quote_def)
  next
    case False
    with Cons show ?thesis
      using scan_single_quoted [of "[]" s r] by (auto simp: shell_quote_def)
  qed
qed

lemma scan_quote_end [simp]: "sh_scan Between (shell_quote s) = Some [Word s]"
  using scan_quote [of s "[]"] by simp

lemma scan_quote_space [simp]:
  "sh_scan Between (shell_quote s @ CHR '' '' # r) = sh_emit (Word s) (sh_scan Between r)"
  using scan_quote [of s "CHR '' '' # r"] by simp

lemma scan_word_space:
  "w \<noteq> [] \<Longrightarrow> list_all is_shell_safe w \<Longrightarrow>
   sh_scan Between (w @ CHR '' '' # r) = sh_emit (Word w) (sh_scan Between r)"
  using scan_quote_space [of w r] by (simp add: shell_quote_def del: scan_quote_space)

lemma scan_quoted_words:
  "sh_scan Between (py_join '' '' (map shell_quote ws)) = Some (map Word ws)"
proof (induction ws)
  case Nil
  show ?case by simp
next
  case (Cons w ws)
  show ?case
  proof (cases "ws = []")
    case True
    then show ?thesis by simp
  next
    case False
    with Cons.IH show ?thesis by (simp add: py_join_Cons sh_emit_def)
  qed
qed

end
