(* ===== verification/Container_Options.thy ===== *)
theory Container_Options
  imports Environment Shell_Words
begin

text \<open>
  What \<open>src/docker_sandbox/sandbox_container.py\<close> puts on the \<open>docker run\<close> command line: the
  validation and the list of denied executables, the mounts, the security, IPC and DNS options,
  the script \<open>/bin/sh\<close> runs in the container, the configuration document of the tester, and the
  command as a whole. Everything here is a pure function of the configuration.
\<close>

section \<open>Constants\<close>

definition REMOTE_OUTPUT_DIRECTORY :: string where
  "REMOTE_OUTPUT_DIRECTORY = ''/sandbox-output''"

definition REMOTE_LANDLOCK_POLICY_PATH :: string where
  "REMOTE_LANDLOCK_POLICY_PATH = REMOTE_OUTPUT_DIRECTORY @ ''/landlock-policy.json''"

definition CONTAINER_NAME_PREFIX :: string where
  "CONTAINER_NAME_PREFIX = ''sandbox-tester-run''"

definition READONLY_DENIED_SOURCE_DIRECTORY :: string where
  "READONLY_DENIED_SOURCE_DIRECTORY = ''readonly-denied''"

definition SECCOMP_PROFILE_FILE_NAME :: string where
  "SECCOMP_PROFILE_FILE_NAME = ''seccomp-profile.json''"

definition DENIED_EXECUTABLE_SOURCE_DIRECTORY :: string where
  "DENIED_EXECUTABLE_SOURCE_DIRECTORY = ''denied-executables''"

definition READONLY_PERSISTENCE_SOURCE_DIRECTORY :: string where
  "READONLY_PERSISTENCE_SOURCE_DIRECTORY = ''readonly-persistence''"

definition DESKTOP_AUTOMATION_EXECUTABLE_PATHS :: "string list" where
  "DESKTOP_AUTOMATION_EXECUTABLE_PATHS =
     [''/usr/bin/busctl'', ''/usr/bin/dbus-send'', ''/usr/bin/gdbus'', ''/usr/bin/qdbus'',
      ''/usr/bin/wmctrl'', ''/usr/bin/xdotool'']"

definition ALLOWED_FILE_CONTENT :: string where
  "ALLOWED_FILE_CONTENT = ''This is a test file for the allowed directory.''"

definition DENIED_FILE_CONTENT :: string where
  "DENIED_FILE_CONTENT = ''This is a test file for the denied directory.''"

definition HIDDEN_ALLOWED_FILE_CONTENT :: string where
  "HIDDEN_ALLOWED_FILE_CONTENT = ''This is a hidden file.''"

definition HIDDEN_DENIED_FILE_CONTENT :: string where
  "HIDDEN_DENIED_FILE_CONTENT = ''This is a hidden file in the denied directory.''"

definition GIT_REMOTE_URL :: string where
  "GIT_REMOTE_URL = ''https://github.com/SomeNewKid/ScratchpadOne.git''"

section \<open>Directories\<close>

definition build_remote_run_directory :: "docker_configuration \<Rightarrow> string \<Rightarrow> string" where
  "build_remote_run_directory c run_id =
     rstrip_by (\<lambda>x. x = CHR ''/'') (dp_remote_run_root (dc_profile c)) @ ''/'' @ run_id"

text \<open>\<open>template.format(remote_run_directory=...)\<close>: doubled braces stand for themselves and a
  field is replaced. Only a plain name is modelled inside the braces; any other field (a
  position, a conversion, a format specification), which no template of the program has, gives
  the \<open>KeyError\<close> of an unknown name.\<close>

function format_template :: "string \<Rightarrow> string \<Rightarrow> string \<Rightarrow> string res" where
  "format_template name value [] = Inr []"
| "format_template name value (c # cs) =
     (let field = takeWhile (\<lambda>x. x \<noteq> CHR ''}'') cs; rest = dropWhile (\<lambda>x. x \<noteq> CHR ''}'') cs
      in if c \<noteq> CHR ''{'' \<and> c \<noteq> CHR ''}''
         then res_bind (format_template name value cs) (\<lambda>r. Inr (c # r))
         else if starts_with cs [c]
         then res_bind (format_template name value (tl cs)) (\<lambda>r. Inr (c # r))
         else if c = CHR ''}''
         then Inl (ValueError (''Single '' @ py_repr ''}'' @ '' encountered in format string''))
         else if cs = []
         then Inl (ValueError (''Single '' @ py_repr ''{'' @ '' encountered in format string''))
         else if rest = []
         then Inl (ValueError (''expected '' @ py_repr ''}'' @ '' before end of string''))
         else if field = name
         then res_bind (format_template name value (tl rest)) (\<lambda>r. Inr (value @ r))
         else Inl (KeyError field))"
  by pat_completeness auto
termination
  by (relation "measure (\<lambda>(_, _, s). length s)")
    (auto simp: le_imp_less_Suc length_dropWhile_le order.trans [OF diff_le_self])

definition format_directory_template :: "string \<Rightarrow> string \<Rightarrow> string res" where
  "format_directory_template template remote_run_directory =
     format_template ''remote_run_directory'' remote_run_directory template"

definition build_allowed_directory :: "docker_configuration \<Rightarrow> string \<Rightarrow> string res" where
  "build_allowed_directory c remote_run_directory =
     format_directory_template (dp_allowed_directory_template (dc_profile c)) remote_run_directory"

definition build_denied_directory :: "docker_configuration \<Rightarrow> string \<Rightarrow> string res" where
  "build_denied_directory c remote_run_directory =
     format_directory_template (dp_denied_directory_template (dc_profile c)) remote_run_directory"

section \<open>Denied executables\<close>

definition validate_executable_name :: "string \<Rightarrow> unit res" where
  "validate_executable_name name =
     (if name = [] \<or> CHR ''/'' \<in> set name \<or> CHR 0x5C \<in> set name
      then Inl (ValueError (''Invalid executable name: '' @ py_repr name)) else Inr ())"

definition validate_executable_path :: "string \<Rightarrow> unit res" where
  "validate_executable_path p =
     (let path = path_of p
      in if \<not> is_absolute path \<or> path_name path \<in> {'''', ''.'', ''..''}
         then Inl (ValueError (''Invalid executable path: '' @ py_repr p)) else Inr ())"

definition validate_container_directory :: "string \<Rightarrow> unit res" where
  "validate_container_directory d =
     (let path = path_of d
      in if \<not> is_absolute path \<or> path_name path \<in> {'''', ''.'', ''..''}
         then Inl (ValueError (''Invalid container directory: '' @ py_repr d)) else Inr ())"

definition mangle_path :: "string \<Rightarrow> string" where
  "mangle_path p = replace_char (CHR ''/'') ''__'' (strip_by (\<lambda>c. c = CHR ''/'') p)"

definition build_denied_executable_stub_name :: "string \<Rightarrow> string res" where
  "build_denied_executable_stub_name target =
     res_bind (validate_executable_path target) (\<lambda>_. Inr (mangle_path target))"

definition build_denied_executable_stub_text :: "string \<Rightarrow> string" where
  "build_denied_executable_stub_text name =
     ''#!/bin/sh\<newline>'' @
     ''echo '' @ shell_quote name @ '': denied by sandbox profile >&2\<newline>'' @
     ''exit 127\<newline>''"

definition usr_bin :: "string \<Rightarrow> string" where
  "usr_bin name = ''/usr/bin/'' @ name"

definition get_denied_executable_targets :: "docker_configuration \<Rightarrow> string list res" where
  "get_denied_executable_targets c =
     (let p = dc_profile c
      in res_bind (res_map (\<lambda>name. res_bind (validate_executable_name name)
                     (\<lambda>_. Inr (usr_bin name))) (dp_denied_executables p)) (\<lambda>named.
         res_bind (res_map (\<lambda>path. res_bind (validate_executable_path path)
                     (\<lambda>_. Inr path)) (dp_denied_executable_paths p)) (\<lambda>paths.
         Inr (dict_fromkeys
           (if dp_remove_desktop_automation_tools p
            then filter (\<lambda>t. t \<notin> set DESKTOP_AUTOMATION_EXECUTABLE_PATHS) (named @ paths)
            else named @ paths)))))"

section \<open>Mounts\<close>

definition bind_mount :: "path \<Rightarrow> string \<Rightarrow> string" where
  "bind_mount source target = ''type=bind,source='' @ path_str source @ '',target='' @ target"

definition readonly_mount_options :: "path \<times> string \<Rightarrow> string list" where
  "readonly_mount_options = (\<lambda>(source, target).
     [''--mount'', bind_mount source target @ '',readonly''])"

definition build_source_mount :: "docker_configuration \<Rightarrow> string" where
  "build_source_mount c =
     bind_mount (path_div (dc_build_context c) ''src'') REMOTE_SOURCE_DIRECTORY @ '',readonly''"

definition build_readonly_persistence_source_directory :: "path \<Rightarrow> string \<Rightarrow> path" where
  "build_readonly_persistence_source_directory run_directory target =
     path_div (path_div run_directory READONLY_PERSISTENCE_SOURCE_DIRECTORY) (mangle_path target)"

definition build_readonly_denied_mount_options ::
    "docker_configuration \<Rightarrow> path \<Rightarrow> string list" where
  "build_readonly_denied_mount_options c run_directory =
     (case dp_readonly_denied_mount_target (dc_profile c) of
        None \<Rightarrow> []
      | Some target \<Rightarrow> readonly_mount_options
          (path_div run_directory READONLY_DENIED_SOURCE_DIRECTORY, target))"

definition build_readonly_persistence_mount_options ::
    "docker_configuration \<Rightarrow> path \<Rightarrow> string list res" where
  "build_readonly_persistence_mount_options c run_directory =
     res_bind (res_map (\<lambda>target. res_bind (validate_container_directory target) (\<lambda>_.
         Inr (readonly_mount_options
           (build_readonly_persistence_source_directory run_directory target, target))))
         (dp_readonly_persistence_directories (dc_profile c)))
       (\<lambda>options. Inr (concat options))"

definition build_socket_mount_option :: "socket_mount \<Rightarrow> string" where
  "build_socket_mount_option m =
     (let mount = bind_mount (sm_source_path m) (sm_target_path m)
      in if sm_readonly m then mount @ '',readonly'' else mount)"

definition build_socket_mount_options :: "docker_configuration \<Rightarrow> string list" where
  "build_socket_mount_options c =
     concat (map (\<lambda>m. [''--mount'', build_socket_mount_option m]) (dp_socket_mounts (dc_profile c)))"

definition get_agent_socket_forwards :: "docker_configuration \<Rightarrow> agent_socket_forward list" where
  "get_agent_socket_forwards c =
     (case dp_ssh_agent_socket (dc_profile c) of None \<Rightarrow> [] | Some s \<Rightarrow> [s]) @
     (case dp_gpg_agent_socket (dc_profile c) of None \<Rightarrow> [] | Some s \<Rightarrow> [s])"

definition build_agent_socket_mount_option :: "agent_socket_forward \<Rightarrow> string" where
  "build_agent_socket_mount_option s = bind_mount (ag_source_path s) (ag_target_path s)"

definition build_agent_socket_mount_options :: "docker_configuration \<Rightarrow> string list" where
  "build_agent_socket_mount_options c =
     concat (map (\<lambda>s. [''--mount'', build_agent_socket_mount_option s])
       (get_agent_socket_forwards c))"

definition build_denied_executable_mount_options ::
    "docker_configuration \<Rightarrow> path \<Rightarrow> string list res" where
  "build_denied_executable_mount_options c run_directory =
     res_bind (get_denied_executable_targets c) (\<lambda>targets.
     res_bind (res_map (\<lambda>target.
         res_bind (build_denied_executable_stub_name target) (\<lambda>stub_name.
           Inr (readonly_mount_options
             (path_div (path_div run_directory DENIED_EXECUTABLE_SOURCE_DIRECTORY) stub_name,
              target)))) targets)
       (\<lambda>options. Inr (concat options)))"

section \<open>Isolation options\<close>

definition build_ipc_options :: "docker_configuration \<Rightarrow> string list" where
  "build_ipc_options c =
     (case dp_ipc_mode (dc_profile c) of None \<Rightarrow> [] | Some m \<Rightarrow> [''--ipc='' @ m]) @
     (case dp_shm_size (dc_profile c) of None \<Rightarrow> [] | Some s \<Rightarrow> [''--shm-size'', s])"

definition build_security_options :: "docker_configuration \<Rightarrow> path \<Rightarrow> string list" where
  "build_security_options c run_directory =
     (let p = dc_profile c
      in (case dp_cgroupns_mode p of None \<Rightarrow> [] | Some m \<Rightarrow> [''--cgroupns='' @ m]) @
         (case dp_pids_limit p of None \<Rightarrow> [] | Some n \<Rightarrow> [''--pids-limit'', str_int n]) @
         (case dp_memory p of None \<Rightarrow> [] | Some m \<Rightarrow> [''--memory'', m]) @
         (case dp_memory_swap p of None \<Rightarrow> [] | Some m \<Rightarrow> [''--memory-swap'', m]) @
         (case dp_cpus p of None \<Rightarrow> [] | Some n \<Rightarrow> [''--cpus'', n]) @
         concat (map (\<lambda>u. [''--ulimit'',
           ul_name u @ ''='' @ str_int (ul_soft u) @ '':'' @ str_int (ul_hard u)]) (dp_ulimits p)) @
         concat (map (\<lambda>s. [''--sysctl'', sy_name s @ ''='' @ sy_value s]) (dp_sysctls p)) @
         map (\<lambda>cap. ''--cap-drop='' @ cap) (dp_cap_drop p) @
         map (\<lambda>cap. ''--cap-add='' @ cap) (dp_cap_add p) @
         concat (map (\<lambda>opt. [''--security-opt'', opt]) (dp_security_options p)) @
         (case dp_seccomp_profile p of
            None \<Rightarrow> []
          | Some _ \<Rightarrow> [''--security-opt'',
              ''seccomp='' @ path_str (path_div run_directory SECCOMP_PROFILE_FILE_NAME)]))"

definition get_dns_policy_address :: "network_dns_policy \<Rightarrow> string option \<Rightarrow> string" where
  "get_dns_policy_address policy gateway_ip_address =
     (case gateway_ip_address of
        Some ip \<Rightarrow> if dns_use_gateway_as_dns policy then ip else dns_fallback_dns_address policy
      | None \<Rightarrow> dns_fallback_dns_address policy)"

definition build_dns_policy_options ::
    "docker_configuration \<Rightarrow> string option \<Rightarrow> string list" where
  "build_dns_policy_options c gateway_ip_address =
     (case dp_network_dns_policy (dc_profile c) of
        None \<Rightarrow> []
      | Some policy \<Rightarrow>
          [''--dns'', get_dns_policy_address policy gateway_ip_address] @
          concat (map (\<lambda>opt. [''--dns-option'', opt]) (dns_options policy)) @
          concat (map (\<lambda>host. [''--add-host'',
            host @ '':'' @ dns_blocked_hostname_address policy]) (dns_blocked_hostnames policy)))"

section \<open>The container script\<close>

definition build_sandbox_command_arguments :: "string option \<Rightarrow> string list" where
  "build_sandbox_command_arguments landlock_policy_path =
     (case landlock_policy_path of
        None \<Rightarrow> [''python'', ''-m'', ''sandbox_tester'', ''--config'',
                  REMOTE_OUTPUT_DIRECTORY @ ''/config.json'']
      | Some p \<Rightarrow> [''python'', ''-m'', ''docker_sandbox.landlock_runner'', ''--config'',
                  REMOTE_OUTPUT_DIRECTORY @ ''/config.json'', ''--policy'', p])"

definition build_write_text_command :: "string \<Rightarrow> string \<Rightarrow> string" where
  "build_write_text_command path content =
     ''printf '' @ [CHR 0x27] @ ''%s'' @ [CHR 0x27] @ '' '' @ shell_quote content @ '' > '' @
     shell_quote path"

abbreviation in_quotes :: "string \<Rightarrow> string" where
  "in_quotes s \<equiv> [CHR 0x22] @ s @ [CHR 0x22]"

definition make_directory_of :: "string \<Rightarrow> string" where
  "make_directory_of name =
     ''if [ -n '' @ in_quotes (''${'' @ name @ '':-}'') @ '' ]; then mkdir -p '' @
     in_quotes (''$'' @ name)"

definition script_preamble :: "string list" where
  "script_preamble =
     [''set -eu'',
      make_directory_of ''HOME'' @ ''; fi'',
      make_directory_of ''XDG_CACHE_HOME'' @ ''; fi'',
      make_directory_of ''XDG_CONFIG_HOME'' @ ''; fi'',
      make_directory_of ''GNUPGHOME'' @ ''; chmod 700 '' @ in_quotes ''$GNUPGHOME'' @ ''; fi'',
      make_directory_of ''XDG_RUNTIME_DIR'' @ ''; chmod 700 '' @ in_quotes ''$XDG_RUNTIME_DIR'' @
        ''; fi'']"

definition script_commands ::
    "string \<Rightarrow> string \<Rightarrow> bool \<Rightarrow> bool \<Rightarrow> bool \<Rightarrow> string option \<Rightarrow> string list" where
  "script_commands allowed_directory denied_directory create_denied_fixture verbose
     serialize_evidence landlock_policy_path =
     (let allowed_child = allowed_directory @ ''/allowed'';
          denied_child = denied_directory @ ''/denied'';
          arguments = build_sandbox_command_arguments landlock_policy_path @
            (if verbose then [''--verbose''] else []) @
            (if serialize_evidence then [''--serialize-evidence''] else [])
      in [''mkdir -p '' @ shell_quote allowed_child,
          build_write_text_command (allowed_child @ ''/allowed.txt'') ALLOWED_FILE_CONTENT,
          build_write_text_command (allowed_child @ ''/.hidden'') HIDDEN_ALLOWED_FILE_CONTENT] @
         (if create_denied_fixture
          then [''mkdir -p '' @ shell_quote denied_child,
                build_write_text_command (denied_child @ ''/denied.txt'') DENIED_FILE_CONTENT,
                build_write_text_command (denied_child @ ''/.hidden'') HIDDEN_DENIED_FILE_CONTENT]
          else []) @
         [py_join '' '' (map shell_quote arguments)])"

definition build_container_script ::
    "string \<Rightarrow> string option \<Rightarrow> string option \<Rightarrow> bool \<Rightarrow> bool \<Rightarrow> bool \<Rightarrow> string option \<Rightarrow> string" where
  "build_container_script remote_run_directory allowed_directory denied_directory
     create_denied_fixture verbose serialize_evidence landlock_policy_path =
     (let allowed = (case allowed_directory of
            None \<Rightarrow> remote_run_directory @ ''/allowed'' | Some d \<Rightarrow> d);
          denied = (case denied_directory of
            None \<Rightarrow> remote_run_directory @ ''/denied'' | Some d \<Rightarrow> d)
      in py_join ''\<newline>'' (script_preamble @ script_commands allowed denied create_denied_fixture
           verbose serialize_evidence landlock_policy_path))"

section \<open>The configuration of the tester\<close>

definition get_browser_debugging_url :: "browser_debugging_profile option \<Rightarrow> string option" where
  "get_browser_debugging_url b = (case b of None \<Rightarrow> None | Some p \<Rightarrow> bd_debugging_url p)"

definition get_browser_executable :: "browser_debugging_profile option \<Rightarrow> string option" where
  "get_browser_executable b = (case b of None \<Rightarrow> None | Some p \<Rightarrow> bd_browser_executable p)"

definition get_existing_browser_profile :: "browser_debugging_profile option \<Rightarrow> string option" where
  "get_existing_browser_profile b =
     (case b of None \<Rightarrow> None | Some p \<Rightarrow> bd_existing_browser_profile p)"

definition get_browser_chromium_arguments :: "browser_surface_profile option \<Rightarrow> string list" where
  "get_browser_chromium_arguments b = (case b of None \<Rightarrow> [] | Some p \<Rightarrow> bs_chromium_arguments p)"

definition get_allow_camera_capture :: "browser_surface_profile option \<Rightarrow> bool" where
  "get_allow_camera_capture b = (case b of None \<Rightarrow> True | Some p \<Rightarrow> bs_allow_camera_capture p)"

definition get_allow_microphone_capture :: "browser_surface_profile option \<Rightarrow> bool" where
  "get_allow_microphone_capture b =
     (case b of None \<Rightarrow> True | Some p \<Rightarrow> bs_allow_microphone_capture p)"

definition build_config_data ::
    "string \<Rightarrow> string \<Rightarrow> string \<Rightarrow> string \<Rightarrow> string option \<Rightarrow> browser_debugging_profile option \<Rightarrow>
     browser_surface_profile option \<Rightarrow> config_data" where
  "build_config_data remote_run_directory allowed_directory denied_directory guest_user
     ssh_agent_socket browser_debugging browser_surface =
     [(''working_directory'', JStr remote_run_directory),
      (''allowed_directory'', JStr allowed_directory),
      (''denied_directory'', JStr denied_directory),
      (''runtime_user_directory'', JStr (''/home/'' @ guest_user)),
      (''runtime_temp_directory'', JStr ''/tmp''),
      (''mounted_shared_directory'', JNull),
      (''operating_system'', JStr ''Linux''),
      (''allowed_domain'', JStr ''example.com''),
      (''denied_domain'', JStr ''example.net''),
      (''allowed_local_address'', JNull),
      (''denied_local_address'', JNull),
      (''allowed_localnet_address'', JNull),
      (''denied_localnet_address'', JNull),
      (''allowed_intranet_target'', JNull),
      (''denied_intranet_target'', JStr ''192.168.86.28''),
      (''allowed_database_address'', JNull),
      (''denied_database_address'', JNull),
      (''container_runtime_socket'', JNull),
      (''local_dev_server_url'', JNull),
      (''local_model_server_url'', JNull),
      (''metadata_endpoint_url'', JNull),
      (''dns_exfiltration_domain'', JStr ''c2FuZGJveC10ZXN0ZXI.example.com''),
      (''http_exfiltration_domain'', JStr ''example.com''),
      (''http_exfiltration_header'', JStr ''exfiltration=example''),
      (''websocket_exfiltration_url'', JStr ''wss://echo.websocket.org''),
      (''smtp_exfiltration_url'', JNull),
      (''ssh_agent_socket'', json_opt_str ssh_agent_socket),
      (''browser_debugging_url'', json_opt_str (get_browser_debugging_url browser_debugging)),
      (''browser_executable'', json_opt_str (get_browser_executable browser_debugging)),
      (''existing_browser_profile'',
        json_opt_str (get_existing_browser_profile browser_debugging)),
      (''browser_chromium_arguments'',
        JList (map JStr (get_browser_chromium_arguments browser_surface))),
      (''allowed_git_repository'', JNull),
      (''denied_git_repository'', JNull),
      (''git_remote_url'', JStr GIT_REMOTE_URL),
      (''allow_camera_capture'', JBool (get_allow_camera_capture browser_surface)),
      (''allow_microphone_capture'', JBool (get_allow_microphone_capture browser_surface)),
      (''output_directory'', JStr REMOTE_OUTPUT_DIRECTORY)]"

definition build_seccomp_profile_data :: "seccomp_profile \<Rightarrow> json" where
  "build_seccomp_profile_data p =
     JObj [(''defaultAction'', JStr (sc_default_action p)),
           (''syscalls'', JList [JObj
              [(''names'', JList (map JStr (sc_denied_syscalls p))),
               (''action'', JStr (sc_action p))]])]"

definition landlock_policy_data :: "docker_configuration \<Rightarrow> json" where
  "landlock_policy_data c =
     JObj [(''rules'', JList (map (\<lambda>rule. JObj [(''path'', JStr (lr_path rule)),
        (''access'', JStr (lr_access rule))]) (dp_landlock_rules (dc_profile c))))]"

section \<open>The command\<close>

definition build_docker_remove_command :: "string \<Rightarrow> string list" where
  "build_docker_remove_command container_name =
     [DOCKER_EXECUTABLE, ''rm'', ''--force'', container_name]"

text \<open>The arguments of \<open>_build_docker_run_command\<close> that vary from run to run.\<close>

record run_arguments =
  ra_run_directory :: path
  ra_container_name :: string
  ra_remote_run_directory :: string
  ra_network_name :: "string option"
  ra_allowed_directory :: "string option"
  ra_denied_directory :: "string option"
  ra_environment_variables :: "(string, string) dict"
  ra_gateway_ip_address :: "string option"
  ra_local_names :: "string list"
  ra_verbose :: bool
  ra_serialize_evidence :: bool

text \<open>The options between \<open>docker run\<close> and the image name, given the mounts that validation may
  refuse.\<close>

definition docker_run_options ::
    "docker_configuration \<Rightarrow> run_arguments \<Rightarrow> string list \<Rightarrow> string list \<Rightarrow> string list" where
  "docker_run_options c a persistence_mounts executable_mounts =
     [''--name'', ra_container_name a, ''--init''] @
     build_ipc_options c @
     build_security_options c (ra_run_directory a) @
     [''--mount'', bind_mount (ra_run_directory a) REMOTE_OUTPUT_DIRECTORY,
      ''--mount'', build_source_mount c,
      ''--user'', dc_guest_user c] @
     (case ra_network_name a of None \<Rightarrow> [] | Some n \<Rightarrow> [''--network'', n]) @
     build_dns_policy_options c (ra_gateway_ip_address a) @
     dp_container_run_options (dc_profile c) @
     build_readonly_denied_mount_options c (ra_run_directory a) @
     persistence_mounts @
     build_socket_mount_options c @
     build_agent_socket_mount_options c @
     executable_mounts @
     build_environment_options
       (build_container_environment c (ra_environment_variables a) (ra_gateway_ip_address a))
       (ra_local_names a)"

definition optional_directory :: "string option \<Rightarrow> string res \<Rightarrow> string res" where
  "optional_directory given computed = (case given of Some d \<Rightarrow> Inr d | None \<Rightarrow> computed)"

definition build_docker_run_command ::
    "docker_configuration \<Rightarrow> run_arguments \<Rightarrow> string list res" where
  "build_docker_run_command c a =
     res_bind (build_readonly_persistence_mount_options c (ra_run_directory a))
       (\<lambda>persistence_mounts.
     res_bind (build_denied_executable_mount_options c (ra_run_directory a))
       (\<lambda>executable_mounts.
     res_bind (optional_directory (ra_allowed_directory a)
         (build_allowed_directory c (ra_remote_run_directory a))) (\<lambda>allowed.
     res_bind (optional_directory (ra_denied_directory a)
         (build_denied_directory c (ra_remote_run_directory a))) (\<lambda>denied.
     Inr ([DOCKER_EXECUTABLE, ''run''] @
       docker_run_options c a persistence_mounts executable_mounts @
       [dp_image_name (dc_profile c), ''/bin/sh'', ''-c'',
        build_container_script (ra_remote_run_directory a) (Some allowed) (Some denied)
          (dp_readonly_denied_mount_target (dc_profile c) = None)
          (ra_verbose a) (ra_serialize_evidence a)
          (if dp_landlock_rules (dc_profile c) \<noteq> [] then Some REMOTE_LANDLOCK_POLICY_PATH
           else None)])))))"

section \<open>Validation and targets\<close>

lemma validate_executable_name_Inr:
  "validate_executable_name n = Inr u \<longleftrightarrow> n \<noteq> [] \<and> CHR ''/'' \<notin> set n \<and> CHR 0x5C \<notin> set n"
  by (auto simp: validate_executable_name_def)

lemma path_name_not_dot: "path_name (path_of s) \<noteq> ''.''"
proof
  assume "path_name (path_of s) = ''.''"
  then have "''.'' \<in> set (path_parts (path_of s))"
    by (auto simp: path_name_def split: if_splits dest: last_in_set)
  then show False by (simp add: path_of_def)
qed

definition names_a_file :: "string \<Rightarrow> bool" where
  "names_a_file s \<longleftrightarrow> starts_with s ''/'' \<and> path_name (path_of s) \<notin> {'''', ''..''}"

lemma validate_path_Inr:
  "validate_executable_path s = Inr u \<longleftrightarrow> names_a_file s"
  "validate_container_directory s = Inr u \<longleftrightarrow> names_a_file s"
  by (auto simp: validate_executable_path_def validate_container_directory_def names_a_file_def
      is_absolute_path_of path_name_not_dot Let_def)

definition denied_candidates :: "docker_profile \<Rightarrow> string list" where
  "denied_candidates p =
     map usr_bin (dp_denied_executables p) @ dp_denied_executable_paths p"

definition denied_lists_valid :: "docker_profile \<Rightarrow> bool" where
  "denied_lists_valid p \<longleftrightarrow>
     (\<forall>n \<in> set (dp_denied_executables p). n \<noteq> [] \<and> CHR ''/'' \<notin> set n \<and> CHR 0x5C \<notin> set n) \<and>
     (\<forall>s \<in> set (dp_denied_executable_paths p). names_a_file s)"

definition denied_targets :: "docker_profile \<Rightarrow> string list" where
  "denied_targets p =
     dict_fromkeys (filter (\<lambda>t. \<not> (dp_remove_desktop_automation_tools p \<and>
       t \<in> set DESKTOP_AUTOMATION_EXECUTABLE_PATHS)) (denied_candidates p))"

lemma get_denied_executable_targets_Inr:
  "get_denied_executable_targets c = Inr ts \<longleftrightarrow>
   denied_lists_valid (dc_profile c) \<and> ts = denied_targets (dc_profile c)"
  unfolding get_denied_executable_targets_def Let_def res_bind_eq_Inr res_map_guard
    validate_executable_name_Inr validate_path_Inr denied_lists_valid_def denied_targets_def
    denied_candidates_def
  by (cases "dp_remove_desktop_automation_tools (dc_profile c)") auto

lemma get_denied_executable_targets_Inl:
  assumes "get_denied_executable_targets c = Inl e"
  shows "\<not> denied_lists_valid (dc_profile c) \<and> (\<exists>m. e = ValueError m)"
proof
  have "get_denied_executable_targets c \<noteq> Inr (denied_targets (dc_profile c))"
    using assms by simp
  then show "\<not> denied_lists_valid (dc_profile c)"
    by (simp add: get_denied_executable_targets_Inr)
  have name: "validate_executable_name n = Inl e \<Longrightarrow> \<exists>m. e = ValueError m" for n
    by (auto simp: validate_executable_name_def split: if_splits)
  have path: "validate_executable_path s = Inl e \<Longrightarrow> \<exists>m. e = ValueError m" for s
    by (auto simp: validate_executable_path_def Let_def split: if_splits)
  from assms show "\<exists>m. e = ValueError m"
    unfolding get_denied_executable_targets_def Let_def
    by (auto simp: res_bind_def [of "res_map f xs" for f xs] split: sum.splits
        dest!: res_map_guard_Inl name path)
qed

section \<open>Stub names\<close>

lemma mangle_inj:
  assumes "replace_char (CHR ''/'') ''__'' s = replace_char (CHR ''/'') ''__'' t"
    and "CHR ''_'' \<notin> set s" and "CHR ''_'' \<notin> set t"
  shows "s = t"
  using assms
proof (induction s arbitrary: t)
  case Nil
  then show ?case by (cases t) (auto simp: replace_char_def split: if_splits)
next
  case (Cons c s)
  then show ?case by (cases t) (auto simp: replace_char_def split: if_splits)
qed

text \<open>A target in plain form: one leading slash, no trailing one and no underscore.\<close>

definition plain_target :: "string \<Rightarrow> bool" where
  "plain_target s \<longleftrightarrow> CHR ''_'' \<notin> set s \<and> starts_with s ''/'' \<and> \<not> starts_with (tl s) ''/'' \<and>
     tl s \<noteq> [] \<and> last s \<noteq> CHR ''/''"

lemma strip_plain_target: "plain_target s \<Longrightarrow> strip_by (\<lambda>c. c = CHR ''/'') s = tl s"
proof -
  assume "plain_target s"
  then obtain c r where s: "s = CHR ''/'' # c # r" "c \<noteq> CHR ''/''" "last (c # r) \<noteq> CHR ''/''"
    by (auto simp: plain_target_def starts_with_iff neq_Nil_conv)
  then have "dropWhile (\<lambda>x. x = CHR ''/'') (rev (c # r)) = rev (c # r)"
    by (metis dropWhile_eq_self_iff hd_rev)
  with s show ?thesis by (simp add: strip_by_def)
qed

lemma mangle_path_inj: "inj_on mangle_path {s. plain_target s}"
proof (rule inj_onI)
  fix s t
  assume *: "s \<in> {s. plain_target s}" "t \<in> {s. plain_target s}" "mangle_path s = mangle_path t"
  then have "replace_char (CHR ''/'') ''__'' (tl s) = replace_char (CHR ''/'') ''__'' (tl t)"
    by (simp add: mangle_path_def strip_plain_target)
  moreover have "CHR ''_'' \<notin> set (tl s)" "CHR ''_'' \<notin> set (tl t)"
    using * by (auto simp: plain_target_def dest: list.set_sel(2) split: list.splits)
      (metis list.sel(2) list.set_sel(2))+
  ultimately have "tl s = tl t" by (rule mangle_inj)
  with * show "s = t" by (auto simp: plain_target_def starts_with_iff)
qed

section \<open>Mounts as pairs\<close>

text \<open>The read-only fixtures a configuration mounts, as pairs of a host path and a target.\<close>

definition readonly_denied_mounts :: "docker_configuration \<Rightarrow> path \<Rightarrow> (path \<times> string) list" where
  "readonly_denied_mounts c run_directory =
     (case dp_readonly_denied_mount_target (dc_profile c) of
        None \<Rightarrow> []
      | Some target \<Rightarrow> [(path_div run_directory READONLY_DENIED_SOURCE_DIRECTORY, target)])"

definition persistence_mounts :: "docker_configuration \<Rightarrow> path \<Rightarrow> (path \<times> string) list" where
  "persistence_mounts c run_directory =
     map (\<lambda>t. (build_readonly_persistence_source_directory run_directory t, t))
       (dp_readonly_persistence_directories (dc_profile c))"

definition stub_source :: "path \<Rightarrow> string \<Rightarrow> path" where
  "stub_source run_directory target =
     path_div (path_div run_directory DENIED_EXECUTABLE_SOURCE_DIRECTORY) (mangle_path target)"

definition executable_mounts :: "docker_configuration \<Rightarrow> path \<Rightarrow> (path \<times> string) list" where
  "executable_mounts c run_directory =
     map (\<lambda>t. (stub_source run_directory t, t)) (denied_targets (dc_profile c))"

lemma readonly_denied_options:
  "build_readonly_denied_mount_options c run_directory =
     concat (map readonly_mount_options (readonly_denied_mounts c run_directory))"
  by (simp add: build_readonly_denied_mount_options_def readonly_denied_mounts_def
      split: option.split)

lemma persistence_options_Inr:
  "build_readonly_persistence_mount_options c run_directory = Inr options \<longleftrightarrow>
     (\<forall>t \<in> set (dp_readonly_persistence_directories (dc_profile c)). names_a_file t) \<and>
     options = concat (map readonly_mount_options (persistence_mounts c run_directory))"
  by (auto simp: build_readonly_persistence_mount_options_def res_bind_eq_Inr res_map_guard
      validate_path_Inr persistence_mounts_def comp_def)

lemma executable_options_Inr:
  "build_denied_executable_mount_options c run_directory = Inr options \<longleftrightarrow>
     denied_lists_valid (dc_profile c) \<and>
     (\<forall>t \<in> set (denied_targets (dc_profile c)). names_a_file t) \<and>
     options = concat (map readonly_mount_options (executable_mounts c run_directory))"
  unfolding build_denied_executable_mount_options_def build_denied_executable_stub_name_def
  by (auto simp: res_bind_eq_Inr res_map_guard get_denied_executable_targets_Inr
      validate_path_Inr executable_mounts_def stub_source_def comp_def res_bind_assoc)

section \<open>The script, read by a shell\<close>

definition write_words :: "string \<Rightarrow> string \<Rightarrow> sh_token list" where
  "write_words path content =
     [Word ''printf'', Word ''%s'', Word content, Redirect, Word path]"

lemma scan_write_text:
  "sh_tokens (build_write_text_command path content) = Some (write_words path content)"
  by (simp add: sh_tokens_def build_write_text_command_def write_words_def sh_emit_def
      is_shell_safe_def is_upper_def is_lower_def is_digit_def code_def)

lemma scan_mkdir:
  "sh_tokens (''mkdir -p '' @ shell_quote path) = Some [Word ''mkdir'', Word ''-p'', Word path]"
  by (simp add: sh_tokens_def sh_emit_def is_shell_safe_def is_upper_def is_lower_def
      is_digit_def code_def)

lemma scan_words: "sh_tokens (py_join '' '' (map shell_quote ws)) = Some (map Word ws)"
  by (simp add: sh_tokens_def scan_quoted_words)

text \<open>C24. Quoting in the container script: whatever the run directories are called, a POSIX shell
  reads the lines after the fixed preamble as exactly these commands and words, and no
  expansion, substitution or extra command can come from a path or a file content. The denied
  fixture is written only if it is not mounted, and the last line runs the tester.\<close>

theorem container_script_words:
  "\<exists>lines.
     build_container_script remote (Some allowed) (Some denied) create verbose serialize policy =
       py_join ''\<newline>'' (script_preamble @ lines) \<and>
     map sh_tokens lines = map Some (
       [[Word ''mkdir'', Word ''-p'', Word (allowed @ ''/allowed'')],
        write_words (allowed @ ''/allowed/allowed.txt'') ALLOWED_FILE_CONTENT,
        write_words (allowed @ ''/allowed/.hidden'') HIDDEN_ALLOWED_FILE_CONTENT] @
       (if create then
         [[Word ''mkdir'', Word ''-p'', Word (denied @ ''/denied'')],
          write_words (denied @ ''/denied/denied.txt'') DENIED_FILE_CONTENT,
          write_words (denied @ ''/denied/.hidden'') HIDDEN_DENIED_FILE_CONTENT]
        else []) @
       [map Word (build_sandbox_command_arguments policy @
          (if verbose then [''--verbose''] else []) @
          (if serialize then [''--serialize-evidence''] else []))])"
proof -
  have paths:
    "(d @ ''/allowed'') @ ''/allowed.txt'' = d @ ''/allowed/allowed.txt''"
    "(d @ ''/allowed'') @ ''/.hidden'' = d @ ''/allowed/.hidden''"
    "(d @ ''/denied'') @ ''/denied.txt'' = d @ ''/denied/denied.txt''"
    "(d @ ''/denied'') @ ''/.hidden'' = d @ ''/denied/.hidden''" for d
    by simp_all
  show ?thesis
    unfolding build_container_script_def Let_def option.case
    by (intro exI conjI, rule refl, unfold script_commands_def Let_def paths, cases create)
      (simp_all only: if_True if_False list.map map_append [where f = sh_tokens]
        map_append [where f = Some] scan_write_text scan_mkdir scan_words append_Nil)
qed

text \<open>The denied executables: an invalid entry in either list is a \<open>ValueError\<close>; otherwise the
  result holds, without repetition, exactly the named executables under \<open>/usr/bin\<close> and the
  listed paths, except the desktop-automation tools where the image has them removed.\<close>

theorem denied_targets_decided:
  "(if denied_lists_valid (dc_profile c)
    then get_denied_executable_targets c = Inr (denied_targets (dc_profile c))
    else \<exists>m. get_denied_executable_targets c = Inl (ValueError m)) \<and>
   distinct (denied_targets (dc_profile c)) \<and>
   set (denied_targets (dc_profile c)) =
     (usr_bin ` set (dp_denied_executables (dc_profile c)) \<union>
      set (dp_denied_executable_paths (dc_profile c))) -
     (if dp_remove_desktop_automation_tools (dc_profile c)
      then set DESKTOP_AUTOMATION_EXECUTABLE_PATHS else {})"
proof (intro conjI)
  show "if denied_lists_valid (dc_profile c)
    then get_denied_executable_targets c = Inr (denied_targets (dc_profile c))
    else \<exists>m. get_denied_executable_targets c = Inl (ValueError m)"
    using get_denied_executable_targets_Inr [of c] get_denied_executable_targets_Inl [of c]
    by (cases "get_denied_executable_targets c") auto
qed (auto simp: denied_targets_def denied_candidates_def)

text \<open>C21. No secret reaches the command line: two host environments that define the same names give
  the same \<open>docker run\<close> command, whatever the values of the variables taken from the host are.\<close>

theorem secrets_not_on_command_line:
  assumes "\<And>n. (source n = None) = (source' n = None)"
  shows "build_docker_run_command c (a
           \<lparr>ra_environment_variables := resolve_environment_variables source configured,
            ra_local_names := get_local_environment_variable_names configured\<rparr>) =
         build_docker_run_command c (a
           \<lparr>ra_environment_variables := resolve_environment_variables source' configured,
            ra_local_names := get_local_environment_variable_names configured\<rparr>)"
  by (simp add: build_docker_run_command_def docker_run_options_def
      resolved_options_hide_values [OF assms])

definition sample_arguments :: run_arguments where
  "sample_arguments =
     \<lparr>ra_run_directory = path_of ''/base/runs/run-1'',
      ra_container_name = ''sandbox-tester-run-1'',
      ra_remote_run_directory = ''/tmp/sandbox-tester/run-1'',
      ra_network_name = None,
      ra_allowed_directory = None,
      ra_denied_directory = None,
      ra_environment_variables = [],
      ra_gateway_ip_address = None,
      ra_local_names = [],
      ra_verbose = False,
      ra_serialize_evidence = False\<rparr>"

definition sample_configuration :: docker_configuration where
  "sample_configuration =
     \<lparr>dc_base_directory = path_of ''/base'',
      dc_dockerfile_path = path_of ''/repo/Dockerfile'',
      dc_build_context = path_of ''/repo'',
      dc_guest_user = ''sandbox'',
      dc_profile = new_docker_profile ''sample'' ''A sample.'' ''image''\<rparr>"

theorem secrets_not_on_command_line_witness:
  "build_docker_run_command sample_configuration (sample_arguments
     \<lparr>ra_environment_variables := resolve_environment_variables (\<lambda>_. Some ''sk-one'')
        SANDBOX_TESTER_ENVIRONMENT_VARIABLES,
      ra_local_names :=
        get_local_environment_variable_names SANDBOX_TESTER_ENVIRONMENT_VARIABLES\<rparr>) =
   build_docker_run_command sample_configuration (sample_arguments
     \<lparr>ra_environment_variables := resolve_environment_variables (\<lambda>_. Some ''sk-two'')
        SANDBOX_TESTER_ENVIRONMENT_VARIABLES,
      ra_local_names :=
        get_local_environment_variable_names SANDBOX_TESTER_ENVIRONMENT_VARIABLES\<rparr>)"
  by (rule secrets_not_on_command_line) simp

end
