(* ===== verification/Container_Run.thy ===== *)
theory Container_Run
  imports Container_Options
begin

text \<open>
  The effectful half of \<open>src/docker_sandbox/sandbox_container.py\<close>: the fixtures that are
  prepared in the run directory, the files written there, the run itself
  (\<open>run_sandbox_container\<close>) and the guarded removal of the fixtures. The clock is an argument
  (the formatted time stamp) and so is the host's environment; the host answers as in the
  theory Host.
\<close>

section \<open>Fixtures\<close>

definition prepare_readonly_denied_directory ::
    "host \<Rightarrow> docker_configuration \<Rightarrow> path \<Rightarrow> unit run" where
  "prepare_readonly_denied_directory h c run_directory =
     (case dp_readonly_denied_mount_target (dc_profile c) of
        None \<Rightarrow> ret ()
      | Some _ \<Rightarrow>
          let child = path_div (path_div run_directory READONLY_DENIED_SOURCE_DIRECTORY) ''denied''
          in andthen (mkdir h child)
             (andthen (write_text h (path_div child ''denied.txt'') (Plain_Text DENIED_FILE_CONTENT))
                (write_text h (path_div child ''.hidden'') (Plain_Text HIDDEN_DENIED_FILE_CONTENT))))"

definition prepare_readonly_persistence_directories ::
    "host \<Rightarrow> docker_configuration \<Rightarrow> path \<Rightarrow> unit run" where
  "prepare_readonly_persistence_directories h c run_directory =
     for_each (dp_readonly_persistence_directories (dc_profile c)) (\<lambda>target.
       bind (lift_res (validate_container_directory target)) (\<lambda>_.
         mkdir h (build_readonly_persistence_source_directory run_directory target)))"

definition prepare_denied_executable_stubs ::
    "host \<Rightarrow> docker_configuration \<Rightarrow> path \<Rightarrow> unit run" where
  "prepare_denied_executable_stubs h c run_directory =
     bind (lift_res (get_denied_executable_targets c)) (\<lambda>targets.
       if targets = [] then ret ()
       else
         let stub_directory = path_div run_directory DENIED_EXECUTABLE_SOURCE_DIRECTORY
         in andthen (mkdir h stub_directory)
            (for_each targets (\<lambda>target.
               bind (lift_res (build_denied_executable_stub_name target)) (\<lambda>stub_name.
                 let stub_path = path_div stub_directory stub_name
                 in andthen (write_text h stub_path (Plain_Text
                        (build_denied_executable_stub_text (path_name (path_of target)))))
                      (chmod h stub_path 493)))))"

definition guarded_rmtree :: "host \<Rightarrow> string \<Rightarrow> path \<Rightarrow> path \<Rightarrow> unit run" where
  "guarded_rmtree h what run_directory source =
     bind (resolve_path h run_directory) (\<lambda>resolved_run_directory.
     bind (resolve_path h source) (\<lambda>resolved_source.
       if \<not> in_parents resolved_run_directory resolved_source
       then raise (RuntimeError (''Refusing to remove '' @ what @ '' outside the run directory: '' @
              path_str resolved_source))
       else rmtree source))"

definition delete_readonly_denied_directory ::
    "host \<Rightarrow> docker_configuration \<Rightarrow> path \<Rightarrow> unit run" where
  "delete_readonly_denied_directory h c run_directory =
     (case dp_readonly_denied_mount_target (dc_profile c) of
        None \<Rightarrow> ret ()
      | Some _ \<Rightarrow> guarded_rmtree h ''readonly denied fixture'' run_directory
          (path_div run_directory READONLY_DENIED_SOURCE_DIRECTORY))"

definition delete_readonly_persistence_directory ::
    "host \<Rightarrow> docker_configuration \<Rightarrow> path \<Rightarrow> unit run" where
  "delete_readonly_persistence_directory h c run_directory =
     (if dp_readonly_persistence_directories (dc_profile c) = [] then ret ()
      else guarded_rmtree h ''readonly persistence fixture'' run_directory
        (path_div run_directory READONLY_PERSISTENCE_SOURCE_DIRECTORY))"

definition delete_denied_executable_directory ::
    "host \<Rightarrow> docker_configuration \<Rightarrow> path \<Rightarrow> unit run" where
  "delete_denied_executable_directory h c run_directory =
     bind (lift_res (get_denied_executable_targets c)) (\<lambda>targets.
       if targets = [] then ret ()
       else guarded_rmtree h ''denied executable stubs'' run_directory
         (path_div run_directory DENIED_EXECUTABLE_SOURCE_DIRECTORY))"

section \<open>Files\<close>

definition write_landlock_policy :: "host \<Rightarrow> docker_configuration \<Rightarrow> path \<Rightarrow> unit run" where
  "write_landlock_policy h c run_directory =
     (if dp_landlock_rules (dc_profile c) = [] then ret ()
      else write_text h (path_div run_directory ''landlock-policy.json'')
        (Json_Text (landlock_policy_data c)))"

definition write_seccomp_profile :: "host \<Rightarrow> docker_configuration \<Rightarrow> path \<Rightarrow> unit run" where
  "write_seccomp_profile h c run_directory =
     (case dp_seccomp_profile (dc_profile c) of
        None \<Rightarrow> ret ()
      | Some p \<Rightarrow> write_text h (path_div run_directory SECCOMP_PROFILE_FILE_NAME)
          (Json_Text (build_seccomp_profile_data p)))"

definition build_config_json ::
    "string \<Rightarrow> string \<Rightarrow> string \<Rightarrow> string \<Rightarrow> string option \<Rightarrow> browser_debugging_profile option \<Rightarrow>
     browser_surface_profile option \<Rightarrow> file_content" where
  "build_config_json remote_run_directory allowed_directory denied_directory guest_user
     ssh_agent_socket browser_debugging browser_surface =
     Json_Text (JObj (build_config_data remote_run_directory allowed_directory denied_directory
       guest_user ssh_agent_socket browser_debugging browser_surface))"

section \<open>The run\<close>

definition run_directory_of :: "docker_configuration \<Rightarrow> string \<Rightarrow> path" where
  "run_directory_of c timestamp =
     path_div (path_div (dc_base_directory c) ''runs'') (''run-'' @ timestamp)"

text \<open>Everything before the container starts: the fixtures and files are in place and the gateway
  is up. The result is what the command is built from.\<close>

definition prepare_run ::
    "host \<Rightarrow> docker_configuration \<Rightarrow> string \<Rightarrow>
     (string \<times> string \<times> string \<times> string list list option \<times> string option) run" where
  "prepare_run h c timestamp =
     (let run_directory = run_directory_of c timestamp;
          gateway_container_name = build_gateway_container_name c timestamp;
          network_name = build_network_name c timestamp;
          remote_run_directory = build_remote_run_directory c (''run-'' @ timestamp)
      in andthen (mkdir h run_directory)
        (bind (lift_res (build_allowed_directory c remote_run_directory)) (\<lambda>allowed.
         bind (lift_res (build_denied_directory c remote_run_directory)) (\<lambda>denied.
         let config_data = build_config_data remote_run_directory allowed denied (dc_guest_user c)
               (get_container_ssh_agent_socket c) (dp_browser_debugging (dc_profile c))
               (dp_browser_surface (dc_profile c))
         in andthen (steps
              [prepare_readonly_denied_directory h c run_directory,
               prepare_readonly_persistence_directories h c run_directory,
               prepare_denied_executable_stubs h c run_directory,
               write_landlock_policy h c run_directory,
               write_seccomp_profile h c run_directory,
               write_squid_configuration h c run_directory config_data,
               write_text h (path_div run_directory ''config.json'')
                 (Json_Text (JObj config_data))])
            (bind (start_network_gateway h c run_directory network_name gateway_container_name)
              (\<lambda>(gateway_commands, gateway_ip_address).
                ret (remote_run_directory, allowed, denied, gateway_commands,
                     gateway_ip_address)))))))"

definition cleanup_run ::
    "host \<Rightarrow> docker_configuration \<Rightarrow> string \<Rightarrow> unit run" where
  "cleanup_run h c timestamp =
     (let run_directory = run_directory_of c timestamp
      in steps
        [write_gateway_logs h c run_directory (build_gateway_container_name c timestamp),
         delete_readonly_denied_directory h c run_directory,
         delete_readonly_persistence_directory h c run_directory,
         delete_denied_executable_directory h c run_directory])"

definition run_sandbox_container ::
    "host \<Rightarrow> docker_configuration \<Rightarrow> string \<Rightarrow> (string \<Rightarrow> string option) \<Rightarrow> bool \<Rightarrow> bool \<Rightarrow>
     docker_run_result run" where
  "run_sandbox_container h c timestamp host_environment verbose serialize_evidence =
     (let run_directory = run_directory_of c timestamp;
          container_name = CONTAINER_NAME_PREFIX @ ''-'' @ timestamp;
          gateway_container_name = build_gateway_container_name c timestamp;
          network_name = build_network_name c timestamp
      in bind (prepare_run h c timestamp)
        (\<lambda>(remote_run_directory, allowed, denied, gateway_commands, gateway_ip_address).
         bind (lift_res (build_docker_run_command c
             \<lparr>ra_run_directory = run_directory,
              ra_container_name = container_name,
              ra_remote_run_directory = remote_run_directory,
              ra_network_name = network_name,
              ra_allowed_directory = Some allowed,
              ra_denied_directory = Some denied,
              ra_environment_variables = resolve_environment_variables host_environment
                SANDBOX_TESTER_ENVIRONMENT_VARIABLES,
              ra_gateway_ip_address = gateway_ip_address,
              ra_local_names =
                get_local_environment_variable_names SANDBOX_TESTER_ENVIRONMENT_VARIABLES,
              ra_verbose = verbose,
              ra_serialize_evidence = serialize_evidence\<rparr>)) (\<lambda>command.
         bind (exec h command) (\<lambda>completed.
         andthen (cleanup_run h c timestamp)
         (ret \<lparr>rr_image_name = dp_image_name (dc_profile c),
               rr_profile_name = dp_name (dc_profile c),
               rr_container_name = container_name,
               rr_run_directory = run_directory,
               rr_command = command,
               rr_remove_command = build_docker_remove_command container_name,
               rr_exit_code = cp_returncode completed,
               rr_stdout = cp_stdout completed,
               rr_stderr = cp_stderr completed,
               rr_network_name = network_name,
               rr_gateway_container_name = gateway_container_name,
               rr_gateway_ip_address = gateway_ip_address,
               rr_gateway_commands = gateway_commands,
               rr_gateway_cleanup_commands =
                 build_gateway_cleanup_commands c network_name gateway_container_name\<rparr>)))))"

section \<open>Guarded removal\<close>

text \<open>A removal in a log is guarded if the two events before it resolved the run directory and the
  removed path and the first resolved path is a proper ancestor of the second; the removed path
  itself is spelled beneath the run directory.\<close>

definition removal_ok :: "path \<Rightarrow> event list \<Rightarrow> nat \<Rightarrow> bool" where
  "removal_ok run_directory log i \<longleftrightarrow>
     (\<forall>s. log ! i = Rmtree s \<longrightarrow>
        2 \<le> i \<and> in_parents run_directory s \<and>
        (\<exists>r q. log ! (i - 2) = Resolved run_directory r \<and> log ! (i - 1) = Resolved s q \<and>
           in_parents r q))"

definition removals_guarded :: "path \<Rightarrow> event list \<Rightarrow> bool" where
  "removals_guarded run_directory log \<longleftrightarrow> (\<forall>i < length log. removal_ok run_directory log i)"

fun is_removal :: "event \<Rightarrow> bool" where
  "is_removal (Rmtree p) = True"
| "is_removal _ = False"

lemma is_removal_iff: "is_removal e \<longleftrightarrow> (\<exists>p. e = Rmtree p)"
  by (cases e) auto

lemma removals_guarded_append:
  assumes "removals_guarded run_directory xs" and "removals_guarded run_directory ys"
  shows "removals_guarded run_directory (xs @ ys)"
  unfolding removals_guarded_def
proof (intro allI impI)
  fix i
  assume "i < length (xs @ ys)"
  show "removal_ok run_directory (xs @ ys) i"
  proof (cases "i < length xs")
    case True
    with assms(1) have "removal_ok run_directory xs i" by (simp add: removals_guarded_def)
    with True show ?thesis by (auto simp: removal_ok_def nth_append)
  next
    case False
    then obtain k where k: "i = length xs + k" by (metis le_iff_add not_less)
    with \<open>i < length (xs @ ys)\<close> assms(2) have "removal_ok run_directory ys k"
      by (simp add: removals_guarded_def)
    with k show ?thesis by (auto simp: removal_ok_def nth_append)
  qed
qed

interpretation removals: log_property "removals_guarded run_directory" for run_directory
  by unfold_locales (simp add: removals_guarded_def, rule removals_guarded_append)

lemma no_removal_guarded:
  "list_all (\<lambda>e. \<not> is_removal e) new \<Longrightarrow> removals_guarded run_directory new"
  by (auto simp: removals_guarded_def removal_ok_def list_all_length is_removal_iff)

lemma guarded_rmtree_appends:
  assumes "in_parents run_directory source"
  shows "appends (removals_guarded run_directory) (guarded_rmtree h what run_directory source)"
  unfolding appends_def
proof
  fix log
  have "removals_guarded run_directory [Resolved run_directory r, Resolved source q, Rmtree source]"
    if "in_parents r q" for r q
    using that assms by (auto simp: removals_guarded_def removal_ok_def less_Suc_eq)
  then show "\<exists>new. snd (guarded_rmtree h what run_directory source log) = log @ new \<and>
      removals_guarded run_directory new"
    by (auto simp: guarded_rmtree_def bind_def resolve_path_def raise_def rmtree_def
        removals.nil_closed no_removal_guarded split: sum.split)
qed

lemma in_parents_div:
  "w \<noteq> [] \<Longrightarrow> w \<noteq> ''.'' \<Longrightarrow> CHR ''/'' \<notin> set w \<Longrightarrow> in_parents p (path_div p w)"
  by (simp add: path_div_single in_parents_def)

section \<open>The contract of a fixture\<close>

text \<open>\<open>creates e p\<close>: after the event \<open>e\<close> the path \<open>p\<close> exists (\<open>mkdir\<close> makes the parents too).\<close>

fun creates :: "event \<Rightarrow> path \<Rightarrow> bool" where
  "creates (Mkdir p) q = is_relative p q"
| "creates (Write_Text p _) q = (p = q)"
| "creates _ q = False"

text \<open>Three pairs of functions prepare something in the run directory, mount it read-only, and
  remove it afterwards. What the run relies on is the same for all three.\<close>

locale run_fixture =
  fixes prepare :: "host \<Rightarrow> docker_configuration \<Rightarrow> path \<Rightarrow> unit run"
    and mounts :: "docker_configuration \<Rightarrow> path \<Rightarrow> string list res"
    and delete :: "host \<Rightarrow> docker_configuration \<Rightarrow> path \<Rightarrow> unit run"
    and pairs :: "docker_configuration \<Rightarrow> path \<Rightarrow> (path \<times> string) list"
  assumes prepare_emits: "emits (\<lambda>e. \<not> is_removal e) (prepare h c d)"
    and prepare_creates:
      "prepare h c d log = (Inr u, log') \<Longrightarrow> x \<in> set (pairs c d) \<Longrightarrow>
       \<exists>e \<in> set log'. creates e (fst x)"
    and mounts_pairs:
      "mounts c d = Inr options \<Longrightarrow> options = concat (map readonly_mount_options (pairs c d))"
    and mounts_defined: "prepare h c d log = (Inr u, log') \<Longrightarrow> \<exists>options. mounts c d = Inr options"
    and delete_guarded: "appends (removals_guarded d) (delete h c d)"
begin

lemma prepare_guarded: "appends (removals_guarded d) (prepare h c d)"
  using prepare_emits by (rule appends_mono) (rule no_removal_guarded)

lemma mounts_after_prepare:
  assumes "prepare h c d log = (Inr u, log')"
  shows "mounts c d = Inr (concat (map readonly_mount_options (pairs c d))) \<and>
    (\<forall>x \<in> set (pairs c d). \<exists>e \<in> set log'. creates e (fst x))"
  using mounts_defined [OF assms] mounts_pairs prepare_creates [OF assms] by blast

end

lemmas fixture_names = READONLY_DENIED_SOURCE_DIRECTORY_def
  READONLY_PERSISTENCE_SOURCE_DIRECTORY_def DENIED_EXECUTABLE_SOURCE_DIRECTORY_def

lemma is_relative_div: "is_relative (path_div p ''denied'') p"
  by (rule in_parents_is_relative [OF in_parents_div]) simp_all

interpretation denied: run_fixture prepare_readonly_denied_directory
  "\<lambda>c d. Inr (build_readonly_denied_mount_options c d)" delete_readonly_denied_directory
  readonly_denied_mounts
proof
  fix h c d log log' u x options
  show "emits (\<lambda>e. \<not> is_removal e) (prepare_readonly_denied_directory h c d)"
    by (auto simp: prepare_readonly_denied_directory_def Let_def split: option.split
        intro!: emits_intros)
  show "\<exists>e \<in> set log'. creates e (fst x)"
    if "prepare_readonly_denied_directory h c d log = (Inr u, log')"
      and "x \<in> set (readonly_denied_mounts c d)"
    using that
    by (auto simp: prepare_readonly_denied_directory_def readonly_denied_mounts_def Let_def
        success_simps is_relative_div split: option.splits)
  show "options = concat (map readonly_mount_options (readonly_denied_mounts c d))"
    if "Inr (build_readonly_denied_mount_options c d) = Inr options"
    using that by (simp add: readonly_denied_options)
  show "appends (removals_guarded d) (delete_readonly_denied_directory h c d)"
    by (auto simp: delete_readonly_denied_directory_def fixture_names split: option.split
        intro!: removals.ret guarded_rmtree_appends in_parents_div)
qed simp

interpretation persistence: run_fixture prepare_readonly_persistence_directories
  build_readonly_persistence_mount_options delete_readonly_persistence_directory
  persistence_mounts
proof
  fix h c d log log' u x options
  let ?f = "\<lambda>target. bind (lift_res (validate_container_directory target))
    (\<lambda>_. mkdir h (build_readonly_persistence_source_directory d target))"
  have emits: "emits P (?f t)" if "\<And>p. P (Mkdir p)" for P t
    by (auto intro!: emits_intros that)
  show "emits (\<lambda>e. \<not> is_removal e) (prepare_readonly_persistence_directories h c d)"
    unfolding prepare_readonly_persistence_directories_def
    by (intro each_event.for_each emits) simp
  have ready: "\<forall>t \<in> set (dp_readonly_persistence_directories (dc_profile c)). names_a_file t \<and>
      (\<exists>e \<in> set log'. creates e (build_readonly_persistence_source_directory d t))"
    if "prepare_readonly_persistence_directories h c d log = (Inr u, log')"
  proof (rule for_each_Inr)
    show "for_each (dp_readonly_persistence_directories (dc_profile c)) ?f log = (Inr u, log')"
      using that by (simp add: prepare_readonly_persistence_directories_def)
    show "emits (\<lambda>_. True) (?f t)" for t by (rule emits) simp
  qed (auto simp: success_simps validate_path_Inr)
  show "\<exists>e \<in> set log'. creates e (fst x)"
    if "prepare_readonly_persistence_directories h c d log = (Inr u, log')"
      and "x \<in> set (persistence_mounts c d)"
    using ready [OF that(1)] that(2) by (auto simp: persistence_mounts_def)
  show "\<exists>options. build_readonly_persistence_mount_options c d = Inr options"
    if "prepare_readonly_persistence_directories h c d log = (Inr u, log')"
    using ready [OF that] by (auto simp: persistence_options_Inr)
  show "appends (removals_guarded d) (delete_readonly_persistence_directory h c d)"
    by (auto simp: delete_readonly_persistence_directory_def fixture_names
        intro!: removals.ret guarded_rmtree_appends in_parents_div)
qed (simp add: persistence_options_Inr)

interpretation executables: run_fixture prepare_denied_executable_stubs
  build_denied_executable_mount_options delete_denied_executable_directory executable_mounts
proof
  fix h c d log log' u x options
  define stubs where "stubs = path_div d DENIED_EXECUTABLE_SOURCE_DIRECTORY"
  let ?f = "\<lambda>target. bind (lift_res (build_denied_executable_stub_name target)) (\<lambda>stub_name.
    let stub_path = path_div stubs stub_name
    in andthen (write_text h stub_path (Plain_Text
         (build_denied_executable_stub_text (path_name (path_of target))))) (chmod h stub_path 493))"
  have emits: "emits P (?f t)" if "\<And>p c. P (Write_Text p c)" "\<And>p m. P (Chmod p m)" for P t
    by (auto simp: Let_def intro!: emits_intros that)
  have prepare: "prepare_denied_executable_stubs h c d =
      bind (lift_res (get_denied_executable_targets c)) (\<lambda>targets.
        if targets = [] then ret () else andthen (mkdir h stubs) (for_each targets ?f))"
    by (simp only: prepare_denied_executable_stubs_def stubs_def Let_def)
  show "emits (\<lambda>e. \<not> is_removal e) (prepare_denied_executable_stubs h c d)"
    unfolding prepare
    by (auto intro!: each_event.intros emits_mkdir emits)
  have ready: "denied_lists_valid (dc_profile c) \<and> (\<forall>t \<in> set (denied_targets (dc_profile c)).
      names_a_file t \<and> (\<exists>e \<in> set log'. creates e (stub_source d t)))"
    if *: "prepare_denied_executable_stubs h c d log = (Inr u, log')"
  proof -
    from * have valid: "denied_lists_valid (dc_profile c)"
      and rest: "denied_targets (dc_profile c) \<noteq> [] \<Longrightarrow>
        \<exists>log1. for_each (denied_targets (dc_profile c)) ?f log1 = (Inr u, log')"
      unfolding prepare by (auto simp: success_simps get_denied_executable_targets_Inr)
    have "\<forall>t \<in> set (denied_targets (dc_profile c)).
        names_a_file t \<and> (\<exists>e \<in> set log'. creates e (stub_source d t))"
    proof (cases "denied_targets (dc_profile c) = []")
      case False
      with rest obtain log1
        where "for_each (denied_targets (dc_profile c)) ?f log1 = (Inr u, log')" by blast
      then show ?thesis
      proof (rule for_each_Inr)
        show "emits (\<lambda>_. True) (?f t)" for t by (rule emits) simp_all
      qed (auto simp: success_simps Let_def validate_path_Inr build_denied_executable_stub_name_def
          res_bind_eq_Inr stub_source_def stubs_def)
    qed simp
    with valid show ?thesis by simp
  qed
  show "\<exists>e \<in> set log'. creates e (fst x)"
    if "prepare_denied_executable_stubs h c d log = (Inr u, log')"
      and "x \<in> set (executable_mounts c d)"
    using ready [OF that(1)] that(2) by (auto simp: executable_mounts_def)
  show "\<exists>options. build_denied_executable_mount_options c d = Inr options"
    if "prepare_denied_executable_stubs h c d log = (Inr u, log')"
    using ready [OF that] by (auto simp: executable_options_Inr)
  show "appends (removals_guarded d) (delete_denied_executable_directory h c d)"
    by (auto simp: delete_denied_executable_directory_def fixture_names
        intro!: removals.intros guarded_rmtree_appends in_parents_div)
qed (simp add: executable_options_Inr)

section \<open>The whole run\<close>

lemma files_emit:
  "emits (\<lambda>e. \<not> is_removal e) (write_landlock_policy h c d)"
  "emits (\<lambda>e. \<not> is_removal e) (write_seccomp_profile h c d)"
  "emits (\<lambda>e. \<not> is_removal e) (write_squid_configuration h c d config)"
  "emits (\<lambda>e. \<not> is_removal e) (write_gateway_logs h c d name)"
  by (auto simp: write_landlock_policy_def write_seccomp_profile_def write_squid_configuration_def
      write_gateway_logs_def split: option.split intro!: emits_intros)

lemma start_network_gateway_emits:
  "emits (\<lambda>e. \<not> is_removal e) (start_network_gateway h c d network name)"
  by (auto simp: start_network_gateway_def inspect_gateway_ip_address_def
      write_gateway_start_results_def Let_def split: option.split intro!: emits_intros)

lemmas guarded_files = files_emit [THEN appends_mono, OF no_removal_guarded]
  start_network_gateway_emits [THEN appends_mono, OF no_removal_guarded]

lemma guarded_simple:
  "appends (removals_guarded d) (mkdir h p)"
  "appends (removals_guarded d) (write_text h p content)"
  "appends (removals_guarded d) (exec h command)"
  by (rule appends_mono [where Q = "list_all (\<lambda>e. \<not> is_removal e)"];
      simp add: emits_intros no_removal_guarded)+

text \<open>C2. Whatever the host does (failing calls, changing answers, symbolic links), every directory
  tree a run removes is spelled beneath the run directory and, as resolved just before, lies
  strictly inside the resolved run directory.\<close>

theorem run_removals_guarded:
  "\<exists>new. snd (run_sandbox_container h c timestamp env verbose serialize log) = log @ new \<and>
     removals_guarded (run_directory_of c timestamp) new"
proof -
  let ?d = "run_directory_of c timestamp"
  have "appends (removals_guarded ?d) (prepare_run h c timestamp)"
    unfolding prepare_run_def Let_def
    by (auto intro!: removals.intros guarded_simple guarded_files denied.prepare_guarded
        persistence.prepare_guarded executables.prepare_guarded split: prod.split)
  moreover have "appends (removals_guarded ?d) (cleanup_run h c timestamp)"
    unfolding cleanup_run_def Let_def
    by (auto intro!: removals.intros guarded_files denied.delete_guarded
        persistence.delete_guarded executables.delete_guarded)
  ultimately have "appends (removals_guarded ?d)
      (run_sandbox_container h c timestamp env verbose serialize)"
    unfolding run_sandbox_container_def Let_def
    by (auto intro!: removals.intros guarded_simple split: prod.split)
  then show ?thesis by (simp add: appends_def)
qed

text \<open>The read-only fixtures of a configuration, in the order of the command line.\<close>

definition fixture_mounts :: "docker_configuration \<Rightarrow> path \<Rightarrow> (path \<times> string) list" where
  "fixture_mounts c d = readonly_denied_mounts c d @ persistence_mounts c d @ executable_mounts c d"

lemma concat_map_split:
  "x \<in> set xs \<Longrightarrow> \<exists>pre post. concat (map f xs) = pre @ f x @ post"
  by (drule split_list) (metis concat.simps(2) concat_append list.simps(9) map_append)

lemma docker_run_options_split:
  obtains A B C where
    "docker_run_options c a persistence executables =
       A @ build_readonly_denied_mount_options c (ra_run_directory a) @ persistence @ B @
       executables @ C"
proof
  show "docker_run_options c a persistence executables =
     ([''--name'', ra_container_name a, ''--init''] @
     build_ipc_options c @
     build_security_options c (ra_run_directory a) @
     [''--mount'', bind_mount (ra_run_directory a) REMOTE_OUTPUT_DIRECTORY,
      ''--mount'', build_source_mount c,
      ''--user'', dc_guest_user c] @
     (case ra_network_name a of None \<Rightarrow> [] | Some n \<Rightarrow> [''--network'', n]) @
     build_dns_policy_options c (ra_gateway_ip_address a) @
     dp_container_run_options (dc_profile c)) @
     build_readonly_denied_mount_options c (ra_run_directory a) @
     persistence @
     (build_socket_mount_options c @ build_agent_socket_mount_options c) @
     executables @
     build_environment_options
       (build_container_environment c (ra_environment_variables a) (ra_gateway_ip_address a))
       (ra_local_names a)"
    by (simp only: docker_run_options_def append.assoc)
qed

lemma command_mounts_fixtures:
  assumes "build_docker_run_command c a = Inr command"
    and "x \<in> set (fixture_mounts c (ra_run_directory a))"
  shows "\<exists>pre post. command = pre @ readonly_mount_options x @ post"
proof -
  let ?d = "ra_run_directory a" and ?mounts = "\<lambda>xs. concat (map readonly_mount_options xs)"
  from assms(1) obtain front tail where "command = front @ docker_run_options c a
      (?mounts (persistence_mounts c ?d)) (?mounts (executable_mounts c ?d)) @ tail"
    unfolding build_docker_run_command_def
    by (auto simp only: res_bind_eq_Inr persistence_options_Inr executable_options_Inr sum.inject)
  then obtain A B C where command: "command = A @ ?mounts (readonly_denied_mounts c ?d) @
      ?mounts (persistence_mounts c ?d) @ B @ ?mounts (executable_mounts c ?d) @ C"
    by (rule_tac docker_run_options_split [of c a "?mounts (persistence_mounts c ?d)"
          "?mounts (executable_mounts c ?d)"]) (metis append.assoc readonly_denied_options)
  have "x \<in> set (readonly_denied_mounts c ?d) \<or> x \<in> set (persistence_mounts c ?d) \<or>
      x \<in> set (executable_mounts c ?d)"
    using assms(2) by (auto simp: fixture_mounts_def)
  then show ?thesis
  proof (elim disjE)
    assume "x \<in> set (readonly_denied_mounts c ?d)"
    from concat_map_split [OF this, of readonly_mount_options] show ?thesis
      unfolding command by (metis append.assoc)
  next
    assume "x \<in> set (persistence_mounts c ?d)"
    from concat_map_split [OF this, of readonly_mount_options] show ?thesis
      unfolding command by (metis append.assoc)
  next
    assume "x \<in> set (executable_mounts c ?d)"
    from concat_map_split [OF this, of readonly_mount_options] show ?thesis
      unfolding command by (metis append.assoc)
  qed
qed

lemma prepare_run_Inr:
  assumes "prepare_run h c timestamp log = (Inr r, log')"
  defines "d \<equiv> run_directory_of c timestamp"
  shows "\<forall>x \<in> set (fixture_mounts c d). \<exists>e \<in> set log'. creates e (fst x)"
    and "dp_landlock_rules (dc_profile c) \<noteq> [] \<Longrightarrow>
      Write_Text (path_div d ''landlock-policy.json'') (Json_Text (landlock_policy_data c)) \<in> set log'"
    and "dp_seccomp_profile (dc_profile c) = Some p \<Longrightarrow>
      Write_Text (path_div d SECCOMP_PROFILE_FILE_NAME) (Json_Text (build_seccomp_profile_data p))
        \<in> set log'"
proof -
  obtain allowed denied config log0 log1 log2 log3 log4 log5 log6 log7 r' where
    denied: "prepare_readonly_denied_directory h c d log0 = (Inr (), log1)" and
    persistence: "prepare_readonly_persistence_directories h c d log1 = (Inr (), log2)" and
    executables: "prepare_denied_executable_stubs h c d log2 = (Inr (), log3)" and
    landlock: "write_landlock_policy h c d log3 = (Inr (), log4)" and
    seccomp: "write_seccomp_profile h c d log4 = (Inr (), log5)" and
    squid: "write_squid_configuration h c d config log5 = (Inr (), log6)" and
    json: "write_text h (path_div d ''config.json'') (Json_Text (JObj config)) log6 = (Inr (), log7)" and
    gateway: "start_network_gateway h c d (build_network_name c timestamp)
        (build_gateway_container_name c timestamp) log7 = (Inr r', log')"
    using assms(1) unfolding prepare_run_def Let_def d_def
    by (auto simp: bind_Inr andthen_Inr ret_Inr lift_res_Inr)
  have 7: "set log7 \<subseteq> set log'"
    by (rule emits_grows [OF start_network_gateway_emits gateway])
  have 6: "set log6 \<subseteq> set log7"
    using json by (auto simp: success_simps)
  have 5: "set log5 \<subseteq> set log6"
    by (rule emits_grows [OF files_emit(3) squid])
  have 4: "set log4 \<subseteq> set log5"
    by (rule emits_grows [OF files_emit(2) seccomp])
  have 3: "set log3 \<subseteq> set log4"
    by (rule emits_grows [OF files_emit(1) landlock])
  have 2: "set log2 \<subseteq> set log3"
    by (rule emits_grows [OF executables.prepare_emits executables])
  have 1: "set log1 \<subseteq> set log2"
    by (rule emits_grows [OF persistence.prepare_emits persistence])
  show "\<forall>x \<in> set (fixture_mounts c d). \<exists>e \<in> set log'. creates e (fst x)"
    using denied.prepare_creates [OF denied] persistence.prepare_creates [OF persistence]
      executables.prepare_creates [OF executables] 1 2 3 4 5 6 7
    unfolding fixture_mounts_def by auto blast+
  show "Write_Text (path_div d ''landlock-policy.json'') (Json_Text (landlock_policy_data c)) \<in> set log'"
    if "dp_landlock_rules (dc_profile c) \<noteq> []"
    using landlock that 4 5 6 7 by (auto simp: write_landlock_policy_def success_simps)
  show "Write_Text (path_div d SECCOMP_PROFILE_FILE_NAME) (Json_Text (build_seccomp_profile_data p))
        \<in> set log'" if "dp_seccomp_profile (dc_profile c) = Some p"
    using seccomp that 5 6 7 by (auto simp: write_seccomp_profile_def success_simps)
qed


section \<open>When a run returns\<close>

definition gateway_valid :: "docker_configuration \<Rightarrow> bool" where
  "gateway_valid c \<longleftrightarrow>
     (case dp_network_gateway (dc_profile c) of
        None \<Rightarrow> True
      | Some gateway \<Rightarrow> \<exists>xs. build_allowed_gateway_ip_addresses (gw_allowed_ip_addresses gateway) = Inr xs)"

definition configuration_valid :: "docker_configuration \<Rightarrow> bool" where
  "configuration_valid c \<longleftrightarrow>
     denied_lists_valid (dc_profile c) \<and>
     (\<forall>t \<in> set (denied_targets (dc_profile c)). names_a_file t) \<and>
     (\<forall>t \<in> set (dp_readonly_persistence_directories (dc_profile c)). names_a_file t) \<and>
     (\<forall>dir. \<exists>x y. build_allowed_directory c dir = Inr x \<and> build_denied_directory c dir = Inr y) \<and>
     gateway_valid c"

lemma git_remote_hostname: "url_hostname GIT_REMOTE_URL = Inr (Some ''github.com'')"
  by code_simp

lemma config_data_domains:
  "append_git_remote_domain (append_optional_domain ds
       (dict_get (build_config_data r a d u s b f) ''allowed_domain''))
     (dict_get (build_config_data r a d u s b f) ''git_remote_url'') =
   Inr (ds @ [''example.com'', ''github.com''])"
  by (simp add: build_config_data_def append_optional_domain_def append_git_remote_domain_def
      git_remote_hostname) (simp add: GIT_REMOTE_URL_def)

lemma command_defined:
  assumes "configuration_valid c" and "ra_allowed_directory a = Some x"
    and "ra_denied_directory a = Some y"
  shows "\<exists>command. build_docker_run_command c a = Inr command"
  using assms
  by (simp add: build_docker_run_command_def optional_directory_def configuration_valid_def
      res_bind_eq_Inr persistence_options_Inr executable_options_Inr)

lemma squid_returns:
  assumes "obliging h" and "configuration_valid c"
  shows "returns (write_squid_configuration h c d (build_config_data r a e u s b f))"
proof (cases "dp_network_gateway (dc_profile c)")
  case None
  then show ?thesis by (simp add: write_squid_configuration_def returns_ret)
next
  case (Some gateway)
  with assms(2) obtain xs
    where xs: "build_allowed_gateway_ip_addresses (gw_allowed_ip_addresses gateway) = Inr xs"
    by (auto simp: configuration_valid_def gateway_valid_def)
  show ?thesis
    using Some
    by (simp add: write_squid_configuration_def build_allowed_gateway_domains_def
        config_data_domains xs monad_simps returns_write_text [OF assms(1)])
qed

lemma gateway_returns:
  assumes "obliging h"
  shows "returns (start_network_gateway h c d (build_network_name c t)
           (build_gateway_container_name c t))"
  by (cases "dp_network_gateway (dc_profile c)")
    (auto simp: start_network_gateway_def build_network_name_def build_gateway_container_name_def
      inspect_gateway_ip_address_def write_gateway_start_results_def Let_def assms
      intro!: returns_intros)

lemma fixtures_return:
  assumes h: "obliging h" and c: "configuration_valid c"
  shows "returns (prepare_readonly_denied_directory h c d)"
    and "returns (prepare_readonly_persistence_directories h c d)"
    and "returns (prepare_denied_executable_stubs h c d)"
    and "returns (write_landlock_policy h c d)"
    and "returns (write_seccomp_profile h c d)"
    and "returns (write_gateway_logs h c d name)"
proof -
  have persistence: "validate_container_directory t = Inr ()"
    if "t \<in> set (dp_readonly_persistence_directories (dc_profile c))" for t
    using c that by (simp add: configuration_valid_def validate_path_Inr)
  have stub: "build_denied_executable_stub_name t = Inr (mangle_path t)"
    if "t \<in> set (denied_targets (dc_profile c))" for t
    using c that
    by (simp add: configuration_valid_def build_denied_executable_stub_name_def res_bind_eq_Inr
        validate_path_Inr)
  have targets: "get_denied_executable_targets c = Inr (denied_targets (dc_profile c))"
    using c by (simp add: configuration_valid_def get_denied_executable_targets_Inr)
  show "returns (prepare_readonly_denied_directory h c d)"
    by (auto simp: prepare_readonly_denied_directory_def Let_def h split: option.split
        intro!: returns_intros)
  show "returns (prepare_readonly_persistence_directories h c d)"
    by (auto simp: prepare_readonly_persistence_directories_def persistence monad_simps h
        intro!: returns_for_each returns_mkdir)
  show "returns (prepare_denied_executable_stubs h c d)"
    by (auto simp: prepare_denied_executable_stubs_def targets stub monad_simps Let_def h
        intro!: returns_intros)
  show "returns (write_landlock_policy h c d)" "returns (write_seccomp_profile h c d)"
    "returns (write_gateway_logs h c d name)"
    by (auto simp: write_landlock_policy_def write_seccomp_profile_def write_gateway_logs_def h
        split: option.split intro!: returns_intros)
qed

lemma guarded_rmtree_returns:
  assumes "smooth h" and "in_parents d s"
  shows "returns (guarded_rmtree h what d s)"
  using assms
  by (auto simp: returns_def guarded_rmtree_def bind_def resolve_path_def rmtree_def smooth_def)

lemma deletes_return:
  assumes h: "smooth h" and c: "configuration_valid c"
  shows "returns (delete_readonly_denied_directory h c d)"
    and "returns (delete_readonly_persistence_directory h c d)"
    and "returns (delete_denied_executable_directory h c d)"
proof -
  have targets: "get_denied_executable_targets c = Inr (denied_targets (dc_profile c))"
    using c by (simp add: configuration_valid_def get_denied_executable_targets_Inr)
  show "returns (delete_readonly_denied_directory h c d)"
    "returns (delete_readonly_persistence_directory h c d)"
    by (auto simp: delete_readonly_denied_directory_def delete_readonly_persistence_directory_def
        fixture_names h split: option.split
        intro!: returns_ret guarded_rmtree_returns in_parents_div)
  show "returns (delete_denied_executable_directory h c d)"
    by (auto simp: delete_denied_executable_directory_def targets monad_simps fixture_names h
        intro!: returns_ret guarded_rmtree_returns in_parents_div)
qed

lemma prepare_run_returns:
  assumes h: "obliging h" and c: "configuration_valid c"
  shows "returns (prepare_run h c timestamp)"
proof -
  let ?r = "build_remote_run_directory c (''run-'' @ timestamp)"
  obtain x y where dirs: "build_allowed_directory c ?r = Inr x" "build_denied_directory c ?r = Inr y"
    using c unfolding configuration_valid_def by blast
  show ?thesis
    unfolding prepare_run_def Let_def dirs monad_simps
    by (auto intro!: returns_andthen returns_bind returns_steps returns_ret fixtures_return
        squid_returns gateway_returns returns_mkdir returns_write_text h c split: prod.split)
qed

lemma run_returns_if_valid:
  assumes smooth: "smooth h" and c: "configuration_valid c"
  shows "returns (run_sandbox_container h c timestamp env verbose serialize)"
proof -
  have h: "obliging h" using smooth by (simp add: smooth_def)
  have cleanup: "returns (cleanup_run h c timestamp)"
    unfolding cleanup_run_def Let_def
    by (auto intro!: returns_andthen returns_ret fixtures_return deletes_return h smooth c)
  have command: "\<exists>command. build_docker_run_command c
      \<lparr>ra_run_directory = a1, ra_container_name = a2, ra_remote_run_directory = a3,
       ra_network_name = a4, ra_allowed_directory = Some a5, ra_denied_directory = Some a6,
       ra_environment_variables = a7, ra_gateway_ip_address = a8, ra_local_names = a9,
       ra_verbose = b1, ra_serialize_evidence = b2\<rparr> = Inr command"
    for a1 a2 a3 a4 a5 a6 a7 a8 a9 b1 b2
    by (rule command_defined [OF c]) simp_all
  have lift: "\<exists>b. r = Inr b \<Longrightarrow> (\<And>b. returns (f b)) \<Longrightarrow> returns (bind (lift_res r) f)"
    for r and f :: "string list \<Rightarrow> docker_run_result run"
    by (auto simp: monad_simps)
  show ?thesis
    unfolding run_sandbox_container_def Let_def
  proof (rule returns_bind, goal_cases)
    case 1
    show ?case by (rule prepare_run_returns [OF h c])
  next
    case (2 x)
    obtain x1 x2 x3 x4 x5 where x: "x = (x1, x2, x3, x4, x5)" by (cases x) auto
    show ?case
      unfolding x prod.case
      by (intro lift [OF command] returns_bind returns_exec h returns_andthen cleanup returns_ret)
  qed
qed

lemma default_templates:
  "format_directory_template ''{remote_run_directory}/allowed'' d = Inr (d @ ''/allowed'')"
  "format_directory_template ''{remote_run_directory}/denied'' d = Inr (d @ ''/denied'')"
  "format_directory_template ''/sandbox-denied'' d = Inr ''/sandbox-denied''"
  by (simp_all add: format_directory_template_def starts_with_def Let_def)

definition calm_host :: host where
  "calm_host =
     \<lparr>effect_error = (\<lambda>_ _. None),
      resolve_answer = (\<lambda>_. Inr),
      exec_answer = (\<lambda>_ _. Inr \<lparr>cp_returncode = 0, cp_stdout = ''172.20.0.2\<newline>'', cp_stderr = []\<rparr>),
      exists_answer = (\<lambda>_ _. True),
      which_answer = (\<lambda>_ _. True),
      cwd_answer = path_of ''/repo'',
      expanduser_answer = Inr\<rparr>"

lemma smooth_calm_host: "smooth calm_host"
  by (simp add: smooth_def obliging_def calm_host_def)

definition small_configuration :: docker_configuration where
  "small_configuration = sample_configuration\<lparr>dc_profile :=
     (new_docker_profile ''small'' ''A small profile.'' ''image'')
       \<lparr>dp_denied_executable_paths := [''/usr/bin/git''],
        dp_readonly_denied_mount_target := Some ''/sandbox-denied'',
        dp_denied_directory_template := ''/sandbox-denied'',
        dp_landlock_rules := [\<lparr>lr_path = ''/usr'', lr_access = ''rx''\<rparr>]\<rparr>\<rparr>"

lemma names_a_file_git: "names_a_file ''/usr/bin/git''"
  by code_simp

lemma small_targets: "denied_targets (dc_profile small_configuration) = [''/usr/bin/git'']"
  by (simp add: denied_targets_def denied_candidates_def small_configuration_def
      dict_fromkeys_distinct)

lemma small_configuration_valid: "configuration_valid small_configuration"
  using names_a_file_git
  by (simp add: configuration_valid_def small_targets denied_lists_valid_def gateway_valid_def
      build_allowed_directory_def build_denied_directory_def default_templates)
    (simp add: small_configuration_def default_templates)


section \<open>Losing the result\<close>

lemma cleanup_emits:
  assumes "\<And>p q. P (Resolved p q)" and "\<And>p. P (Rmtree p)" and "\<And>p content. P (Write_Text p content)"
    and "\<And>name. P (Exec [DOCKER_EXECUTABLE, ''logs'', name])"
  shows "emits P (cleanup_run h c timestamp)"
proof -
  have rm: "emits P (guarded_rmtree h what d s)" for what d s
    by (auto simp: guarded_rmtree_def intro!: emits_intros assms)
  show ?thesis
    unfolding cleanup_run_def Let_def write_gateway_logs_def delete_readonly_denied_directory_def
      delete_readonly_persistence_directory_def delete_denied_executable_directory_def
    by (auto intro!: each_event.intros emits_exec emits_write_text rm assms split: option.split)
qed

text \<open>C28. The cleanup is not protected: if it raises after the container has run (a removal is
  refused, or the gateway's log cannot be written), the run raises that exception, the exit
  code and the output are lost, and no command removes the container.\<close>

theorem cleanup_failure_loses_result:
  assumes "prepare_run h c timestamp log = (Inr (remote, allowed, denied, commands, ip), log1)"
    and "build_docker_run_command c
           \<lparr>ra_run_directory = run_directory_of c timestamp,
            ra_container_name = CONTAINER_NAME_PREFIX @ ''-'' @ timestamp,
            ra_remote_run_directory = remote,
            ra_network_name = build_network_name c timestamp,
            ra_allowed_directory = Some allowed,
            ra_denied_directory = Some denied,
            ra_environment_variables =
              resolve_environment_variables env SANDBOX_TESTER_ENVIRONMENT_VARIABLES,
            ra_gateway_ip_address = ip,
            ra_local_names = get_local_environment_variable_names SANDBOX_TESTER_ENVIRONMENT_VARIABLES,
            ra_verbose = verbose,
            ra_serialize_evidence = serialize\<rparr> = Inr command"
    and "exec_answer h log1 (Exec command) = Inr completed"
    and "cleanup_run h c timestamp (log1 @ [Exec command]) = (Inl e, log2)"
  shows "run_sandbox_container h c timestamp env verbose serialize log = (Inl e, log2) \<and>
    (\<exists>new. log2 = log1 @ [Exec command] @ new \<and>
       Exec (build_docker_remove_command (CONTAINER_NAME_PREFIX @ ''-'' @ timestamp)) \<notin> set new)"
proof
  show "run_sandbox_container h c timestamp env verbose serialize log = (Inl e, log2)"
    using assms unfolding run_sandbox_container_def Let_def
    by (simp add: bind_def andthen_def exec_def lift_res_def)
  let ?kept = "\<lambda>e. e \<noteq> Exec (build_docker_remove_command (CONTAINER_NAME_PREFIX @ ''-'' @ timestamp))"
  have "emits ?kept (cleanup_run h c timestamp)"
    by (rule cleanup_emits) (simp_all add: build_docker_remove_command_def)
  with assms(4) obtain new where "log2 = (log1 @ [Exec command]) @ new" "list_all ?kept new"
    by (auto elim: appendsD)
  then show "\<exists>new. log2 = log1 @ [Exec command] @ new \<and>
      Exec (build_docker_remove_command (CONTAINER_NAME_PREFIX @ ''-'' @ timestamp)) \<notin> set new"
    by (auto simp: list_all_iff)
qed

definition linked_host :: host where
  "linked_host = calm_host\<lparr>resolve_answer := \<lambda>_ _. Inr (path_of ''/elsewhere'')\<rparr>"

theorem cleanup_failure_loses_result_witness:
  "\<exists>e started command new.
     run_sandbox_container linked_host small_configuration ''t'' (\<lambda>_. None) False False [] =
       (Inl (RuntimeError e), started @ [Exec command] @ new) \<and>
     Exec (build_docker_remove_command ''sandbox-tester-run-t'') \<notin> set new"
proof -
  let ?c = small_configuration and ?h = linked_host
  have h: "obliging ?h"
    by (simp add: obliging_def linked_host_def calm_host_def)
  have gateway: "dp_network_gateway (dc_profile ?c) = None"
    and target: "dp_readonly_denied_mount_target (dc_profile ?c) = Some ''/sandbox-denied''"
    by (simp_all add: small_configuration_def)
  obtain remote allowed denied commands ip log1 where
    prepare: "prepare_run ?h ?c ''t'' [] = (Inr (remote, allowed, denied, commands, ip), log1)"
    using prepare_run_returns [OF h small_configuration_valid]
    unfolding returns_def by (metis surj_pair)
  let ?arguments = "\<lparr>ra_run_directory = run_directory_of ?c ''t'',
    ra_container_name = CONTAINER_NAME_PREFIX @ ''-'' @ ''t'',
    ra_remote_run_directory = remote,
    ra_network_name = build_network_name ?c ''t'',
    ra_allowed_directory = Some allowed,
    ra_denied_directory = Some denied,
    ra_environment_variables =
      resolve_environment_variables (\<lambda>_. None) SANDBOX_TESTER_ENVIRONMENT_VARIABLES,
    ra_gateway_ip_address = ip,
    ra_local_names = get_local_environment_variable_names SANDBOX_TESTER_ENVIRONMENT_VARIABLES,
    ra_verbose = False,
    ra_serialize_evidence = False\<rparr>"
  obtain command where command: "build_docker_run_command ?c ?arguments = Inr command"
    using command_defined [OF small_configuration_valid, of ?arguments allowed denied] by auto
  obtain completed where exec: "exec_answer ?h log1 (Exec command) = Inr completed"
    using h unfolding obliging_def by blast
  obtain e log2 where
    cleanup: "cleanup_run ?h ?c ''t'' (log1 @ [Exec command]) = (Inl (RuntimeError e), log2)"
    by (simp add: cleanup_run_def Let_def write_gateway_logs_def gateway
        delete_readonly_denied_directory_def target guarded_rmtree_def resolve_path_def
        linked_host_def bind_def andthen_def ret_def raise_def)
  show ?thesis
    using cleanup_failure_loses_result [OF prepare command exec cleanup]
    by (auto simp: CONTAINER_NAME_PREFIX_def)
qed

end
