(* ===== verification/Profiles.thy ===== *)
theory Profiles
  imports Docker_Models
begin

text \<open>
  \<open>src/docker_sandbox/profiles.py\<close>: the eighteen Docker hardening profiles. A literal
  \<open>DockerProfile(...)\<close> is \<^const>\<open>new_docker_profile\<close> with the keyword arguments as
  field updates, \<open>dataclasses.replace\<close> is a record update, and a tuple the source repeats
  word for word in several profiles is one constant here. The theory ends with the order in
  which the profiles claim to build on one another (\<open>hardening_chain\<close>, read from the
  descriptions) and what \<open>at least as hard\<close> means field by field.
\<close>

named_theorems profile_names \<open>the name field of each profile\<close>

section \<open>The table\<close>

definition BASELINE_PROFILE_NAME :: string where
  "BASELINE_PROFILE_NAME = ''baseline''"

definition BASELINE_IMAGE_NAME :: string where
  "BASELINE_IMAGE_NAME = ''sandbox-tester/docker-sandbox:baseline''"

definition READONLY_FS_PROFILE_NAME :: string where
  "READONLY_FS_PROFILE_NAME = ''readonly-fs''"

definition READONLY_FS_IMAGE_NAME :: string where
  "READONLY_FS_IMAGE_NAME = ''sandbox-tester/docker-sandbox:readonly-fs''"

definition NETWORK_EGRESS_PROFILE_NAME :: string where
  "NETWORK_EGRESS_PROFILE_NAME = ''network-egress''"

definition NETWORK_EGRESS_IMAGE_NAME :: string where
  "NETWORK_EGRESS_IMAGE_NAME = ''sandbox-tester/docker-sandbox:network-egress''"

definition AMBIENT_SERVICES_PROFILE_NAME :: string where
  "AMBIENT_SERVICES_PROFILE_NAME = ''ambient-services''"

definition AMBIENT_SERVICES_IMAGE_NAME :: string where
  "AMBIENT_SERVICES_IMAGE_NAME = ''sandbox-tester/docker-sandbox:ambient-services''"

definition EXECUTION_CONTROL_PROFILE_NAME :: string where
  "EXECUTION_CONTROL_PROFILE_NAME = ''execution-control''"

definition EXECUTION_CONTROL_IMAGE_NAME :: string where
  "EXECUTION_CONTROL_IMAGE_NAME = ''sandbox-tester/docker-sandbox:execution-control''"

definition SYSCALL_CONTROL_PROFILE_NAME :: string where
  "SYSCALL_CONTROL_PROFILE_NAME = ''syscall-control''"

definition SYSCALL_CONTROL_IMAGE_NAME :: string where
  "SYSCALL_CONTROL_IMAGE_NAME = ''sandbox-tester/docker-sandbox:syscall-control''"

definition RESOURCE_LIMITS_PROFILE_NAME :: string where
  "RESOURCE_LIMITS_PROFILE_NAME = ''resource-limits''"

definition RESOURCE_LIMITS_IMAGE_NAME :: string where
  "RESOURCE_LIMITS_IMAGE_NAME = ''sandbox-tester/docker-sandbox:resource-limits''"

definition BROWSER_SURFACE_PROFILE_NAME :: string where
  "BROWSER_SURFACE_PROFILE_NAME = ''browser-surface''"

definition BROWSER_SURFACE_IMAGE_NAME :: string where
  "BROWSER_SURFACE_IMAGE_NAME = ''sandbox-tester/docker-sandbox:browser-surface''"

definition DNS_PROXY_CONTROL_PROFILE_NAME :: string where
  "DNS_PROXY_CONTROL_PROFILE_NAME = ''dns-proxy-control''"

definition DNS_PROXY_CONTROL_IMAGE_NAME :: string where
  "DNS_PROXY_CONTROL_IMAGE_NAME = ''sandbox-tester/docker-sandbox:dns-proxy-control''"

definition MINIMIZED_IMAGE_PROFILE_NAME :: string where
  "MINIMIZED_IMAGE_PROFILE_NAME = ''minimized-image''"

definition MINIMIZED_IMAGE_IMAGE_NAME :: string where
  "MINIMIZED_IMAGE_IMAGE_NAME = ''sandbox-tester/docker-sandbox:minimized-image''"

definition FILESYSTEM_VISIBILITY_PROFILE_NAME :: string where
  "FILESYSTEM_VISIBILITY_PROFILE_NAME = ''filesystem-visibility''"

definition FILESYSTEM_VISIBILITY_IMAGE_NAME :: string where
  "FILESYSTEM_VISIBILITY_IMAGE_NAME = ''sandbox-tester/docker-sandbox:filesystem-visibility''"

definition RUNTIME_CONTROL_PROFILE_NAME :: string where
  "RUNTIME_CONTROL_PROFILE_NAME = ''runtime-control''"

definition RUNTIME_CONTROL_IMAGE_NAME :: string where
  "RUNTIME_CONTROL_IMAGE_NAME = ''sandbox-tester/docker-sandbox:runtime-control''"

definition NETWORK_SOCKET_CONTROL_PROFILE_NAME :: string where
  "NETWORK_SOCKET_CONTROL_PROFILE_NAME = ''network-socket-control''"

definition NETWORK_SOCKET_CONTROL_IMAGE_NAME :: string where
  "NETWORK_SOCKET_CONTROL_IMAGE_NAME = ''sandbox-tester/docker-sandbox:network-socket-control''"

definition DESKTOP_CHANNEL_CONTROL_PROFILE_NAME :: string where
  "DESKTOP_CHANNEL_CONTROL_PROFILE_NAME = ''desktop-channel-control''"

definition DESKTOP_CHANNEL_CONTROL_IMAGE_NAME :: string where
  "DESKTOP_CHANNEL_CONTROL_IMAGE_NAME = ''sandbox-tester/docker-sandbox:desktop-channel-control''"

definition SYSTEM_CONFIG_CONTROL_PROFILE_NAME :: string where
  "SYSTEM_CONFIG_CONTROL_PROFILE_NAME = ''system-config-control''"

definition SYSTEM_CONFIG_CONTROL_IMAGE_NAME :: string where
  "SYSTEM_CONFIG_CONTROL_IMAGE_NAME = ''sandbox-tester/docker-sandbox:system-config-control''"

definition HARDWARE_DEVICE_CONTROL_PROFILE_NAME :: string where
  "HARDWARE_DEVICE_CONTROL_PROFILE_NAME = ''hardware-device-control''"

definition HARDWARE_DEVICE_CONTROL_IMAGE_NAME :: string where
  "HARDWARE_DEVICE_CONTROL_IMAGE_NAME = ''sandbox-tester/docker-sandbox:hardware-device-control''"

definition PERSISTENCE_CONTROL_PROFILE_NAME :: string where
  "PERSISTENCE_CONTROL_PROFILE_NAME = ''persistence-control''"

definition PERSISTENCE_CONTROL_IMAGE_NAME :: string where
  "PERSISTENCE_CONTROL_IMAGE_NAME = ''sandbox-tester/docker-sandbox:persistence-control''"

definition NO_SHELL_ACCESS_PROFILE_NAME :: string where
  "NO_SHELL_ACCESS_PROFILE_NAME = ''no-shell-access''"

definition NO_SHELL_ACCESS_IMAGE_NAME :: string where
  "NO_SHELL_ACCESS_IMAGE_NAME = ''sandbox-tester/docker-sandbox:no-shell-access''"

definition baseline_profile :: docker_profile where
  "baseline_profile =
   (new_docker_profile BASELINE_PROFILE_NAME
      ''Current Docker sandbox behavior with no additional image or container hardening.''
      BASELINE_IMAGE_NAME)\<lparr>
     dp_cgroupns_mode := None,
     dp_pids_limit := None,
     dp_memory := None,
     dp_memory_swap := None,
     dp_cpus := None,
     dp_ulimits := [],
     dp_cap_drop := [],
     dp_security_options := [],
     dp_seccomp_profile := None,
     dp_browser_surface := None,
     dp_network_dns_policy := None,
     dp_denied_executable_paths := []\<rparr>"

definition run_options_tmp_2g :: "string list" where
  "run_options_tmp_2g = [''--read-only'',
      ''--tmpfs'',
      ''/tmp:rw,nosuid,nodev,noexec,size=2g'',
      ''--tmpfs'',
      ''/sandbox-work:rw,nosuid,nodev,noexec,size=256m'',
      ''--env'',
      ''HOME=/tmp/sandbox-home'',
      ''--env'',
      ''XDG_CACHE_HOME=/tmp/sandbox-cache'',
      ''--env'',
      ''XDG_CONFIG_HOME=/tmp/sandbox-config'',
      ''--env'',
      ''XDG_RUNTIME_DIR=/tmp/sandbox-runtime'']"

definition landlock_rules_with_sys :: "landlock_path_rule list" where
  "landlock_rules_with_sys = [\<lparr>lr_path = ''/bin'', lr_access = ''rx''\<rparr>,
      \<lparr>lr_path = ''/etc'', lr_access = ''r''\<rparr>,
      \<lparr>lr_path = ''/lib'', lr_access = ''rx''\<rparr>,
      \<lparr>lr_path = ''/lib64'', lr_access = ''rx''\<rparr>,
      \<lparr>lr_path = ''/ms-playwright'', lr_access = ''rx''\<rparr>,
      \<lparr>lr_path = ''/opt/sandbox-tester'', lr_access = ''rx''\<rparr>,
      \<lparr>lr_path = ''/sbin'', lr_access = ''rx''\<rparr>,
      \<lparr>lr_path = ''/usr'', lr_access = ''rx''\<rparr>,
      \<lparr>lr_path = ''/var'', lr_access = ''r''\<rparr>,
      \<lparr>lr_path = ''/dev'', lr_access = ''rw''\<rparr>,
      \<lparr>lr_path = ''/proc'', lr_access = ''r''\<rparr>,
      \<lparr>lr_path = ''/sys'', lr_access = ''r''\<rparr>,
      \<lparr>lr_path = ''/sandbox-source'', lr_access = ''r''\<rparr>,
      \<lparr>lr_path = ''/sandbox-output'', lr_access = ''rw''\<rparr>,
      \<lparr>lr_path = ''/sandbox-work'', lr_access = ''rw''\<rparr>,
      \<lparr>lr_path = ''/tmp'', lr_access = ''rw''\<rparr>]"

definition readonly_fs_profile :: docker_profile where
  "readonly_fs_profile =
   (new_docker_profile READONLY_FS_PROFILE_NAME
      ''Run Sandbox Tester with a read-only root filesystem, writable output mount, and tmpfs-backed runtime directories.''
      READONLY_FS_IMAGE_NAME)\<lparr>
     dp_cgroupns_mode := None,
     dp_pids_limit := None,
     dp_memory := None,
     dp_memory_swap := None,
     dp_cpus := None,
     dp_ulimits := [],
     dp_cap_drop := [],
     dp_security_options := [],
     dp_seccomp_profile := None,
     dp_browser_surface := None,
     dp_network_dns_policy := None,
     dp_denied_executable_paths := [],
     dp_container_run_options := run_options_tmp_2g,
     dp_remote_run_root := ''/sandbox-work'',
     dp_allowed_directory_template := ''{remote_run_directory}/allowed'',
     dp_denied_directory_template := ''/sandbox-denied'',
     dp_readonly_denied_mount_target := Some ''/sandbox-denied'',
     dp_landlock_rules := landlock_rules_with_sys\<rparr>"

definition egress_gateway :: network_gateway_profile where
  "egress_gateway = \<lparr>
     gw_image_name = ''ubuntu/squid:latest'',
     gw_proxy_host = ''egress-gateway'',
     gw_proxy_port = 3128,
     gw_allowed_domains = [''.openai.com'',
      ''.example.com'',
      ''.github.com'',
      ''.gov.uk''],
     gw_allowed_ip_addresses = [],
     gw_no_proxy_hosts = []\<rparr>"

definition network_egress_profile :: docker_profile where
  "network_egress_profile =
   (new_docker_profile NETWORK_EGRESS_PROFILE_NAME
      ''Start from the readonly-fs hardening profile so network egress controls can be added and measured independently.''
      NETWORK_EGRESS_IMAGE_NAME)\<lparr>
     dp_cgroupns_mode := None,
     dp_pids_limit := None,
     dp_memory := None,
     dp_memory_swap := None,
     dp_cpus := None,
     dp_ulimits := [],
     dp_cap_drop := [],
     dp_security_options := [],
     dp_seccomp_profile := None,
     dp_browser_surface := None,
     dp_network_dns_policy := None,
     dp_denied_executable_paths := [],
     dp_container_run_options := run_options_tmp_2g,
     dp_remote_run_root := ''/sandbox-work'',
     dp_allowed_directory_template := ''{remote_run_directory}/allowed'',
     dp_denied_directory_template := ''/sandbox-denied'',
     dp_readonly_denied_mount_target := Some ''/sandbox-denied'',
     dp_landlock_rules := landlock_rules_with_sys,
     dp_network_gateway := Some egress_gateway\<rparr>"

definition ambient_environment :: "environment_variable_policy list" where
  "ambient_environment = [\<lparr>ev_name = ''SSH_AUTH_SOCK'', ev_value = None\<rparr>,
      \<lparr>ev_name = ''GPG_AGENT_INFO'', ev_value = None\<rparr>,
      \<lparr>ev_name = ''DBUS_SESSION_BUS_ADDRESS'', ev_value = None\<rparr>,
      \<lparr>ev_name = ''DISPLAY'', ev_value = None\<rparr>,
      \<lparr>ev_name = ''WAYLAND_DISPLAY'', ev_value = None\<rparr>,
      \<lparr>ev_name = ''GNUPGHOME'', ev_value = Some ''/tmp/sandbox-gnupg-empty''\<rparr>]"

definition ambient_denied_executable_paths :: "string list" where
  "ambient_denied_executable_paths = [''/usr/bin/busctl'',
      ''/usr/bin/dbus-send'',
      ''/usr/bin/gpg'',
      ''/usr/bin/gpg-connect-agent'',
      ''/usr/bin/gpgconf'',
      ''/usr/bin/journalctl'',
      ''/usr/bin/loginctl'',
      ''/usr/bin/scp'',
      ''/usr/bin/sftp'',
      ''/usr/bin/ssh'',
      ''/usr/bin/ssh-add'',
      ''/usr/bin/systemctl'',
      ''/usr/sbin/service'']"

definition ambient_services_profile :: docker_profile where
  "ambient_services_profile =
   (new_docker_profile AMBIENT_SERVICES_PROFILE_NAME
      ''Start from the network-egress hardening profile so ambient service and IPC controls can be added and measured independently.''
      AMBIENT_SERVICES_IMAGE_NAME)\<lparr>
     dp_ipc_mode := Some ''private'',
     dp_shm_size := Some ''1g'',
     dp_memory := None,
     dp_memory_swap := None,
     dp_cpus := None,
     dp_ulimits := [],
     dp_container_run_options := run_options_tmp_2g,
     dp_remote_run_root := ''/sandbox-work'',
     dp_allowed_directory_template := ''{remote_run_directory}/allowed'',
     dp_denied_directory_template := ''/sandbox-denied'',
     dp_readonly_denied_mount_target := Some ''/sandbox-denied'',
     dp_landlock_rules := landlock_rules_with_sys,
     dp_network_gateway := Some egress_gateway,
     dp_environment := ambient_environment,
     dp_seccomp_profile := None,
     dp_browser_surface := None,
     dp_network_dns_policy := None,
     dp_denied_executable_paths := ambient_denied_executable_paths\<rparr>"

definition execution_control_profile :: docker_profile where
  "execution_control_profile =
   (new_docker_profile EXECUTION_CONTROL_PROFILE_NAME
      ''Start from the ambient-services hardening profile so process and executable controls can be added and measured independently.''
      EXECUTION_CONTROL_IMAGE_NAME)\<lparr>
     dp_ipc_mode := Some ''private'',
     dp_shm_size := Some ''1g'',
     dp_memory := None,
     dp_memory_swap := None,
     dp_cpus := None,
     dp_ulimits := [],
     dp_container_run_options := run_options_tmp_2g,
     dp_remote_run_root := ''/sandbox-work'',
     dp_allowed_directory_template := ''{remote_run_directory}/allowed'',
     dp_denied_directory_template := ''/sandbox-denied'',
     dp_readonly_denied_mount_target := Some ''/sandbox-denied'',
     dp_landlock_rules := landlock_rules_with_sys,
     dp_network_gateway := Some egress_gateway,
     dp_environment := ambient_environment,
     dp_seccomp_profile := None,
     dp_browser_surface := None,
     dp_network_dns_policy := None\<rparr>"

definition syscall_control_profile :: docker_profile where
  "syscall_control_profile =
   (new_docker_profile SYSCALL_CONTROL_PROFILE_NAME
      ''Start from the execution-control hardening profile so syscall controls can be added and measured independently.''
      SYSCALL_CONTROL_IMAGE_NAME)\<lparr>
     dp_ipc_mode := Some ''private'',
     dp_shm_size := Some ''1g'',
     dp_memory := None,
     dp_memory_swap := None,
     dp_cpus := None,
     dp_ulimits := [],
     dp_container_run_options := run_options_tmp_2g,
     dp_remote_run_root := ''/sandbox-work'',
     dp_allowed_directory_template := ''{remote_run_directory}/allowed'',
     dp_denied_directory_template := ''/sandbox-denied'',
     dp_readonly_denied_mount_target := Some ''/sandbox-denied'',
     dp_landlock_rules := landlock_rules_with_sys,
     dp_network_gateway := Some egress_gateway,
     dp_environment := ambient_environment,
     dp_browser_surface := None,
     dp_network_dns_policy := None\<rparr>"

definition resource_limits_profile :: docker_profile where
  "resource_limits_profile =
   (new_docker_profile RESOURCE_LIMITS_PROFILE_NAME
      ''Start from the syscall-control hardening profile so explicit CPU, memory, and process resource limits can be added and measured independently.''
      RESOURCE_LIMITS_IMAGE_NAME)\<lparr>
     dp_ipc_mode := Some ''private'',
     dp_shm_size := Some ''1g'',
     dp_container_run_options := run_options_tmp_2g,
     dp_remote_run_root := ''/sandbox-work'',
     dp_allowed_directory_template := ''{remote_run_directory}/allowed'',
     dp_denied_directory_template := ''/sandbox-denied'',
     dp_readonly_denied_mount_target := Some ''/sandbox-denied'',
     dp_landlock_rules := landlock_rules_with_sys,
     dp_network_gateway := Some egress_gateway,
     dp_environment := ambient_environment,
     dp_browser_surface := None,
     dp_network_dns_policy := None\<rparr>"

definition browser_surface_profile :: docker_profile where
  "browser_surface_profile =
   (new_docker_profile BROWSER_SURFACE_PROFILE_NAME
      ''Start from the resource-limits hardening profile so browser surface controls can be added and measured independently.''
      BROWSER_SURFACE_IMAGE_NAME)\<lparr>
     dp_ipc_mode := Some ''private'',
     dp_shm_size := Some ''1g'',
     dp_container_run_options := run_options_tmp_2g,
     dp_remote_run_root := ''/sandbox-work'',
     dp_allowed_directory_template := ''{remote_run_directory}/allowed'',
     dp_denied_directory_template := ''/sandbox-denied'',
     dp_readonly_denied_mount_target := Some ''/sandbox-denied'',
     dp_landlock_rules := landlock_rules_with_sys,
     dp_network_gateway := Some egress_gateway,
     dp_environment := ambient_environment,
     dp_browser_surface := Some default_browser_surface,
     dp_network_dns_policy := None\<rparr>"

definition dns_proxy_control_profile :: docker_profile where
  "dns_proxy_control_profile =
   (new_docker_profile DNS_PROXY_CONTROL_PROFILE_NAME
      ''Start from the browser-surface hardening profile so DNS and proxy-bypass controls can be added and measured independently.''
      DNS_PROXY_CONTROL_IMAGE_NAME)\<lparr>
     dp_ipc_mode := Some ''private'',
     dp_shm_size := Some ''1g'',
     dp_container_run_options := run_options_tmp_2g,
     dp_remote_run_root := ''/sandbox-work'',
     dp_allowed_directory_template := ''{remote_run_directory}/allowed'',
     dp_denied_directory_template := ''/sandbox-denied'',
     dp_readonly_denied_mount_target := Some ''/sandbox-denied'',
     dp_landlock_rules := landlock_rules_with_sys,
     dp_network_gateway := Some egress_gateway,
     dp_environment := ambient_environment,
     dp_browser_surface := Some default_browser_surface,
     dp_network_dns_policy := Some default_network_dns_policy\<rparr>"

definition minimized_image_profile :: docker_profile where
  "minimized_image_profile =
   (new_docker_profile MINIMIZED_IMAGE_PROFILE_NAME
      ''Start from the dns-proxy-control hardening profile so image minimization can be added and measured independently.''
      MINIMIZED_IMAGE_IMAGE_NAME)\<lparr>
     dp_image_build_arguments := [''--build-arg'',
         ''SANDBOX_MINIMIZE_IMAGE=true''],
     dp_ipc_mode := Some ''private'',
     dp_shm_size := Some ''1g'',
     dp_container_run_options := run_options_tmp_2g,
     dp_remote_run_root := ''/sandbox-work'',
     dp_allowed_directory_template := ''{remote_run_directory}/allowed'',
     dp_denied_directory_template := ''/sandbox-denied'',
     dp_readonly_denied_mount_target := Some ''/sandbox-denied'',
     dp_landlock_rules := landlock_rules_with_sys,
     dp_network_gateway := Some egress_gateway,
     dp_environment := ambient_environment,
     dp_browser_surface := Some default_browser_surface,
     dp_network_dns_policy := Some default_network_dns_policy\<rparr>"

definition ulimits_with_fsize :: "docker_ulimit list" where
  "ulimits_with_fsize = [\<lparr>ul_name = ''nofile'', ul_soft = 4096, ul_hard = 4096\<rparr>,
      \<lparr>ul_name = ''nproc'', ul_soft = 512, ul_hard = 512\<rparr>,
      \<lparr>ul_name = ''fsize'', ul_soft = 104857600, ul_hard = 104857600\<rparr>]"

definition run_options_tmp_1g :: "string list" where
  "run_options_tmp_1g = [''--read-only'',
      ''--tmpfs'',
      ''/tmp:rw,nosuid,nodev,noexec,size=1g'',
      ''--tmpfs'',
      ''/sandbox-work:rw,nosuid,nodev,noexec,size=256m'',
      ''--tmpfs'',
      ''/proc/acpi:rw,nosuid,nodev,noexec,size=1k'',
      ''--tmpfs'',
      ''/sys/firmware:rw,nosuid,nodev,noexec,size=1k'',
      ''--env'',
      ''HOME=/tmp/sandbox-home'',
      ''--env'',
      ''XDG_CACHE_HOME=/tmp/sandbox-cache'',
      ''--env'',
      ''XDG_CONFIG_HOME=/tmp/sandbox-config'',
      ''--env'',
      ''XDG_RUNTIME_DIR=/tmp/sandbox-runtime'']"

definition landlock_rules_without_sys :: "landlock_path_rule list" where
  "landlock_rules_without_sys = [\<lparr>lr_path = ''/bin'', lr_access = ''rx''\<rparr>,
      \<lparr>lr_path = ''/etc'', lr_access = ''r''\<rparr>,
      \<lparr>lr_path = ''/lib'', lr_access = ''rx''\<rparr>,
      \<lparr>lr_path = ''/lib64'', lr_access = ''rx''\<rparr>,
      \<lparr>lr_path = ''/ms-playwright'', lr_access = ''rx''\<rparr>,
      \<lparr>lr_path = ''/opt/sandbox-tester'', lr_access = ''rx''\<rparr>,
      \<lparr>lr_path = ''/sbin'', lr_access = ''rx''\<rparr>,
      \<lparr>lr_path = ''/usr'', lr_access = ''rx''\<rparr>,
      \<lparr>lr_path = ''/var'', lr_access = ''r''\<rparr>,
      \<lparr>lr_path = ''/dev'', lr_access = ''rw''\<rparr>,
      \<lparr>lr_path = ''/proc'', lr_access = ''r''\<rparr>,
      \<lparr>lr_path = ''/sandbox-source'', lr_access = ''r''\<rparr>,
      \<lparr>lr_path = ''/sandbox-output'', lr_access = ''rw''\<rparr>,
      \<lparr>lr_path = ''/sandbox-work'', lr_access = ''rw''\<rparr>,
      \<lparr>lr_path = ''/tmp'', lr_access = ''rw''\<rparr>]"

definition filesystem_visibility_profile :: docker_profile where
  "filesystem_visibility_profile =
   (new_docker_profile FILESYSTEM_VISIBILITY_PROFILE_NAME
      ''Start from the minimized-image hardening profile so filesystem and runtime visibility controls can be added and measured independently.''
      FILESYSTEM_VISIBILITY_IMAGE_NAME)\<lparr>
     dp_image_build_arguments := [''--build-arg'',
         ''SANDBOX_MINIMIZE_IMAGE=true''],
     dp_ipc_mode := Some ''private'',
     dp_shm_size := Some ''1g'',
     dp_ulimits := ulimits_with_fsize,
     dp_container_run_options := run_options_tmp_1g,
     dp_remote_run_root := ''/sandbox-work'',
     dp_allowed_directory_template := ''{remote_run_directory}/allowed'',
     dp_denied_directory_template := ''/sandbox-denied'',
     dp_readonly_denied_mount_target := Some ''/sandbox-denied'',
     dp_landlock_rules := landlock_rules_without_sys,
     dp_network_gateway := Some egress_gateway,
     dp_environment := ambient_environment,
     dp_browser_surface := Some default_browser_surface,
     dp_network_dns_policy := Some default_network_dns_policy\<rparr>"

definition minimized_build_arguments :: "string list" where
  "minimized_build_arguments = [''--build-arg'',
      ''SANDBOX_MINIMIZE_IMAGE=true'',
      ''--build-arg'',
      ''SANDBOX_REMOVE_PYTHON_PACKAGING=true'']"

definition runtime_control_profile :: docker_profile where
  "runtime_control_profile =
   (new_docker_profile RUNTIME_CONTROL_PROFILE_NAME
      ''Start from the filesystem-visibility hardening profile so Python runtime controls can be added and measured independently.''
      RUNTIME_CONTROL_IMAGE_NAME)\<lparr>
     dp_image_build_arguments := minimized_build_arguments,
     dp_ipc_mode := Some ''private'',
     dp_shm_size := Some ''1g'',
     dp_ulimits := ulimits_with_fsize,
     dp_container_run_options := run_options_tmp_1g,
     dp_remote_run_root := ''/sandbox-work'',
     dp_allowed_directory_template := ''{remote_run_directory}/allowed'',
     dp_denied_directory_template := ''/sandbox-denied'',
     dp_readonly_denied_mount_target := Some ''/sandbox-denied'',
     dp_landlock_rules := landlock_rules_without_sys,
     dp_network_gateway := Some egress_gateway,
     dp_environment := ambient_environment,
     dp_browser_surface := Some default_browser_surface,
     dp_network_dns_policy := Some default_network_dns_policy\<rparr>"

definition socket_control_gateway :: network_gateway_profile where
  "socket_control_gateway = \<lparr>
     gw_image_name = ''ubuntu/squid:latest'',
     gw_proxy_host = ''egress-gateway'',
     gw_proxy_port = 3128,
     gw_allowed_domains = [''.openai.com'',
      ''.example.com'',
      ''.github.com'',
      ''.gov.uk''],
     gw_allowed_ip_addresses = [],
     gw_no_proxy_hosts = [''169.254.169.254'',
      ''metadata.google.internal'']\<rparr>"

definition socket_control_environment :: "environment_variable_policy list" where
  "socket_control_environment = [\<lparr>ev_name = ''SSH_AUTH_SOCK'', ev_value = None\<rparr>,
      \<lparr>ev_name = ''GPG_AGENT_INFO'', ev_value = None\<rparr>,
      \<lparr>ev_name = ''DBUS_SESSION_BUS_ADDRESS'', ev_value = None\<rparr>,
      \<lparr>ev_name = ''DISPLAY'', ev_value = None\<rparr>,
      \<lparr>ev_name = ''WAYLAND_DISPLAY'', ev_value = None\<rparr>,
      \<lparr>ev_name = ''GNUPGHOME'', ev_value = Some ''/tmp/sandbox-gnupg-empty''\<rparr>,
      \<lparr>ev_name = ''SANDBOX_DENY_UDP'', ev_value = Some ''1''\<rparr>,
      \<lparr>ev_name = ''SANDBOX_DENY_METADATA_ENDPOINTS'', ev_value = Some ''1''\<rparr>,
      \<lparr>ev_name = ''SANDBOX_DENY_ALL_INTERFACE_BIND'', ev_value = Some ''1''\<rparr>]"

definition socket_control_dns_policy :: network_dns_policy where
  "socket_control_dns_policy = default_network_dns_policy\<lparr>dns_blocked_hostnames := [''host.docker.internal'',
      ''gateway.docker.internal'',
      ''kubernetes.docker.internal'',
      ''metadata.google.internal'']\<rparr>"

definition network_socket_control_profile :: docker_profile where
  "network_socket_control_profile =
   (new_docker_profile NETWORK_SOCKET_CONTROL_PROFILE_NAME
      ''Start from the runtime-control hardening profile so socket-level network controls can be added and measured independently.''
      NETWORK_SOCKET_CONTROL_IMAGE_NAME)\<lparr>
     dp_image_build_arguments := minimized_build_arguments,
     dp_ipc_mode := Some ''private'',
     dp_shm_size := Some ''1g'',
     dp_ulimits := ulimits_with_fsize,
     dp_sysctls := [\<lparr>sy_name = ''net.ipv4.ip_unprivileged_port_start'', sy_value = ''1024''\<rparr>],
     dp_container_run_options := run_options_tmp_1g,
     dp_remote_run_root := ''/sandbox-work'',
     dp_allowed_directory_template := ''{remote_run_directory}/allowed'',
     dp_denied_directory_template := ''/sandbox-denied'',
     dp_readonly_denied_mount_target := Some ''/sandbox-denied'',
     dp_landlock_rules := landlock_rules_without_sys,
     dp_network_gateway := Some socket_control_gateway,
     dp_environment := socket_control_environment,
     dp_browser_surface := Some default_browser_surface,
     dp_network_dns_policy := Some socket_control_dns_policy\<rparr>"

definition desktop_channel_control_profile :: docker_profile where
  "desktop_channel_control_profile = network_socket_control_profile\<lparr>
     dp_name := DESKTOP_CHANNEL_CONTROL_PROFILE_NAME,
     dp_description := ''Start from the network-socket-control hardening profile so desktop automation channel controls can be added and measured independently.'',
     dp_image_name := DESKTOP_CHANNEL_CONTROL_IMAGE_NAME,
     dp_image_build_arguments :=
       [''--build-arg'', ''SANDBOX_MINIMIZE_IMAGE=true'',
        ''--build-arg'', ''SANDBOX_REMOVE_PYTHON_PACKAGING=true'',
        ''--build-arg'', ''SANDBOX_REMOVE_DESKTOP_AUTOMATION=true''],
     dp_remove_desktop_automation_tools := True\<rparr>"

definition system_config_control_profile :: docker_profile where
  "system_config_control_profile = desktop_channel_control_profile\<lparr>
     dp_name := SYSTEM_CONFIG_CONTROL_PROFILE_NAME,
     dp_description := ''Start from the desktop-channel-control hardening profile so system configuration and startup-item controls can be added and measured independently.'',
     dp_image_name := SYSTEM_CONFIG_CONTROL_IMAGE_NAME,
     dp_image_build_arguments :=
       [''--build-arg'', ''SANDBOX_MINIMIZE_IMAGE=true'',
        ''--build-arg'', ''SANDBOX_REMOVE_PYTHON_PACKAGING=true'',
        ''--build-arg'', ''SANDBOX_REMOVE_DESKTOP_AUTOMATION=true'',
        ''--build-arg'', ''SANDBOX_REMOVE_PACKAGE_METADATA=true''],
     dp_readonly_persistence_directories :=
       [''/tmp/sandbox-home/.config/autostart'', ''/tmp/sandbox-config/autostart'']\<rparr>"

definition hardware_device_control_profile :: docker_profile where
  "hardware_device_control_profile = system_config_control_profile\<lparr>
     dp_name := HARDWARE_DEVICE_CONTROL_PROFILE_NAME,
     dp_description := ''Start from the system-config-control hardening profile so hardware and peripheral device enumeration controls can be added and measured independently.'',
     dp_image_name := HARDWARE_DEVICE_CONTROL_IMAGE_NAME,
     dp_environment := dp_environment system_config_control_profile @
       [\<lparr>ev_name = ''SANDBOX_DENY_HARDWARE_DEVICE_ENUMERATION'', ev_value = Some ''1''\<rparr>]\<rparr>"

definition persistence_control_profile :: docker_profile where
  "persistence_control_profile = hardware_device_control_profile\<lparr>
     dp_name := PERSISTENCE_CONTROL_PROFILE_NAME,
     dp_description := ''Start from the hardware-device-control hardening profile so user persistence configuration paths can be narrowed and measured independently.'',
     dp_image_name := PERSISTENCE_CONTROL_IMAGE_NAME,
     dp_readonly_persistence_directories :=
       dp_readonly_persistence_directories hardware_device_control_profile @
       [''/tmp/sandbox-home/.config/systemd/user'', ''/tmp/sandbox-config/systemd/user'']\<rparr>"

definition no_shell_access_profile :: docker_profile where
  "no_shell_access_profile = persistence_control_profile\<lparr>
     dp_name := NO_SHELL_ACCESS_PROFILE_NAME,
     dp_description := ''Start from the persistence-control hardening profile so general Python process and shell spawning can be denied while preserving the narrow browser-driver launches needed by Playwright.'',
     dp_image_name := NO_SHELL_ACCESS_IMAGE_NAME,
     dp_environment := dp_environment persistence_control_profile @
       [\<lparr>ev_name = ''SANDBOX_DENY_PROCESS_SPAWN'', ev_value = Some ''1''\<rparr>]\<rparr>"

text \<open>The module-level dictionary after the five assignments that follow its literal.\<close>

definition docker_profiles :: "(string, docker_profile) dict" where
  "docker_profiles =
     fold (\<lambda>(k, p). dict_set k p)
       [(DESKTOP_CHANNEL_CONTROL_PROFILE_NAME, desktop_channel_control_profile),
        (SYSTEM_CONFIG_CONTROL_PROFILE_NAME, system_config_control_profile),
        (HARDWARE_DEVICE_CONTROL_PROFILE_NAME, hardware_device_control_profile),
        (PERSISTENCE_CONTROL_PROFILE_NAME, persistence_control_profile),
        (NO_SHELL_ACCESS_PROFILE_NAME, no_shell_access_profile)]
       [(BASELINE_PROFILE_NAME, baseline_profile),
        (READONLY_FS_PROFILE_NAME, readonly_fs_profile),
        (NETWORK_EGRESS_PROFILE_NAME, network_egress_profile),
        (AMBIENT_SERVICES_PROFILE_NAME, ambient_services_profile),
        (EXECUTION_CONTROL_PROFILE_NAME, execution_control_profile),
        (SYSCALL_CONTROL_PROFILE_NAME, syscall_control_profile),
        (RESOURCE_LIMITS_PROFILE_NAME, resource_limits_profile),
        (BROWSER_SURFACE_PROFILE_NAME, browser_surface_profile),
        (DNS_PROXY_CONTROL_PROFILE_NAME, dns_proxy_control_profile),
        (MINIMIZED_IMAGE_PROFILE_NAME, minimized_image_profile),
        (FILESYSTEM_VISIBILITY_PROFILE_NAME, filesystem_visibility_profile),
        (RUNTIME_CONTROL_PROFILE_NAME, runtime_control_profile),
        (NETWORK_SOCKET_CONTROL_PROFILE_NAME, network_socket_control_profile)]"

definition SUPPORTED_PROFILE_NAMES :: "string list" where
  "SUPPORTED_PROFILE_NAMES = sort (map fst docker_profiles)"

definition get_docker_profile :: "string \<Rightarrow> docker_profile res" where
  "get_docker_profile name =
     (case dict_get docker_profiles name of
        Some p \<Rightarrow> Inr p
      | None \<Rightarrow> Inl (ValueError (''Unsupported Docker sandbox profile: '' @ name)))"

section \<open>The facts of the table\<close>

lemmas profile_name_defs =
  BASELINE_PROFILE_NAME_def BASELINE_IMAGE_NAME_def READONLY_FS_PROFILE_NAME_def
  READONLY_FS_IMAGE_NAME_def NETWORK_EGRESS_PROFILE_NAME_def NETWORK_EGRESS_IMAGE_NAME_def
  AMBIENT_SERVICES_PROFILE_NAME_def AMBIENT_SERVICES_IMAGE_NAME_def
  EXECUTION_CONTROL_PROFILE_NAME_def EXECUTION_CONTROL_IMAGE_NAME_def
  SYSCALL_CONTROL_PROFILE_NAME_def SYSCALL_CONTROL_IMAGE_NAME_def
  RESOURCE_LIMITS_PROFILE_NAME_def RESOURCE_LIMITS_IMAGE_NAME_def
  BROWSER_SURFACE_PROFILE_NAME_def BROWSER_SURFACE_IMAGE_NAME_def
  DNS_PROXY_CONTROL_PROFILE_NAME_def DNS_PROXY_CONTROL_IMAGE_NAME_def
  MINIMIZED_IMAGE_PROFILE_NAME_def MINIMIZED_IMAGE_IMAGE_NAME_def
  FILESYSTEM_VISIBILITY_PROFILE_NAME_def FILESYSTEM_VISIBILITY_IMAGE_NAME_def
  RUNTIME_CONTROL_PROFILE_NAME_def RUNTIME_CONTROL_IMAGE_NAME_def
  NETWORK_SOCKET_CONTROL_PROFILE_NAME_def NETWORK_SOCKET_CONTROL_IMAGE_NAME_def
  DESKTOP_CHANNEL_CONTROL_PROFILE_NAME_def DESKTOP_CHANNEL_CONTROL_IMAGE_NAME_def
  SYSTEM_CONFIG_CONTROL_PROFILE_NAME_def SYSTEM_CONFIG_CONTROL_IMAGE_NAME_def
  HARDWARE_DEVICE_CONTROL_PROFILE_NAME_def HARDWARE_DEVICE_CONTROL_IMAGE_NAME_def
  PERSISTENCE_CONTROL_PROFILE_NAME_def PERSISTENCE_CONTROL_IMAGE_NAME_def
  NO_SHELL_ACCESS_PROFILE_NAME_def NO_SHELL_ACCESS_IMAGE_NAME_def

lemmas profile_value_defs =
  run_options_tmp_2g_def landlock_rules_with_sys_def egress_gateway_def ambient_environment_def
  ambient_denied_executable_paths_def ulimits_with_fsize_def run_options_tmp_1g_def
  landlock_rules_without_sys_def minimized_build_arguments_def socket_control_gateway_def
  socket_control_environment_def socket_control_dns_policy_def default_network_dns_policy_def
  default_seccomp_profile_def default_browser_surface_def default_denied_executable_paths_def

lemmas profile_defs =
  baseline_profile_def readonly_fs_profile_def
  network_egress_profile_def ambient_services_profile_def execution_control_profile_def
  syscall_control_profile_def resource_limits_profile_def browser_surface_profile_def
  dns_proxy_control_profile_def minimized_image_profile_def filesystem_visibility_profile_def
  runtime_control_profile_def network_socket_control_profile_def
  desktop_channel_control_profile_def system_config_control_profile_def
  hardware_device_control_profile_def persistence_control_profile_def
  no_shell_access_profile_def

text \<open>The profiles in the order in which their descriptions say they start from one another.\<close>

definition hardening_chain :: "docker_profile list" where
  "hardening_chain =
     [baseline_profile,
      readonly_fs_profile,
      network_egress_profile,
      ambient_services_profile,
      execution_control_profile,
      syscall_control_profile,
      resource_limits_profile,
      browser_surface_profile,
      dns_proxy_control_profile,
      minimized_image_profile,
      filesystem_visibility_profile,
      runtime_control_profile,
      network_socket_control_profile,
      desktop_channel_control_profile,
      system_config_control_profile,
      hardware_device_control_profile,
      persistence_control_profile,
      no_shell_access_profile]"

lemma baseline_profile_name [profile_names]: "dp_name baseline_profile = BASELINE_PROFILE_NAME"
  unfolding baseline_profile_def by simp

lemma readonly_fs_profile_name [profile_names]: "dp_name readonly_fs_profile = READONLY_FS_PROFILE_NAME"
  unfolding readonly_fs_profile_def by simp

lemma network_egress_profile_name [profile_names]: "dp_name network_egress_profile = NETWORK_EGRESS_PROFILE_NAME"
  unfolding network_egress_profile_def by simp

lemma ambient_services_profile_name [profile_names]: "dp_name ambient_services_profile = AMBIENT_SERVICES_PROFILE_NAME"
  unfolding ambient_services_profile_def by simp

lemma execution_control_profile_name [profile_names]: "dp_name execution_control_profile = EXECUTION_CONTROL_PROFILE_NAME"
  unfolding execution_control_profile_def by simp

lemma syscall_control_profile_name [profile_names]: "dp_name syscall_control_profile = SYSCALL_CONTROL_PROFILE_NAME"
  unfolding syscall_control_profile_def by simp

lemma resource_limits_profile_name [profile_names]: "dp_name resource_limits_profile = RESOURCE_LIMITS_PROFILE_NAME"
  unfolding resource_limits_profile_def by simp

lemma browser_surface_profile_name [profile_names]: "dp_name browser_surface_profile = BROWSER_SURFACE_PROFILE_NAME"
  unfolding browser_surface_profile_def by simp

lemma dns_proxy_control_profile_name [profile_names]: "dp_name dns_proxy_control_profile = DNS_PROXY_CONTROL_PROFILE_NAME"
  unfolding dns_proxy_control_profile_def by simp

lemma minimized_image_profile_name [profile_names]: "dp_name minimized_image_profile = MINIMIZED_IMAGE_PROFILE_NAME"
  unfolding minimized_image_profile_def by simp

lemma filesystem_visibility_profile_name [profile_names]: "dp_name filesystem_visibility_profile = FILESYSTEM_VISIBILITY_PROFILE_NAME"
  unfolding filesystem_visibility_profile_def by simp

lemma runtime_control_profile_name [profile_names]: "dp_name runtime_control_profile = RUNTIME_CONTROL_PROFILE_NAME"
  unfolding runtime_control_profile_def by simp

lemma network_socket_control_profile_name [profile_names]: "dp_name network_socket_control_profile = NETWORK_SOCKET_CONTROL_PROFILE_NAME"
  unfolding network_socket_control_profile_def by simp

lemma desktop_channel_control_profile_name [profile_names]: "dp_name desktop_channel_control_profile = DESKTOP_CHANNEL_CONTROL_PROFILE_NAME"
  unfolding desktop_channel_control_profile_def by simp

lemma system_config_control_profile_name [profile_names]: "dp_name system_config_control_profile = SYSTEM_CONFIG_CONTROL_PROFILE_NAME"
  unfolding system_config_control_profile_def by simp

lemma hardware_device_control_profile_name [profile_names]: "dp_name hardware_device_control_profile = HARDWARE_DEVICE_CONTROL_PROFILE_NAME"
  unfolding hardware_device_control_profile_def by simp

lemma persistence_control_profile_name [profile_names]: "dp_name persistence_control_profile = PERSISTENCE_CONTROL_PROFILE_NAME"
  unfolding persistence_control_profile_def by simp

lemma no_shell_access_profile_name [profile_names]: "dp_name no_shell_access_profile = NO_SHELL_ACCESS_PROFILE_NAME"
  unfolding no_shell_access_profile_def by simp

lemma docker_profiles_zip:
  "docker_profiles = map (\<lambda>p. (dp_name p, p)) hardening_chain"
  by (simp add: docker_profiles_def hardening_chain_def profile_names profile_name_defs)

lemma dict_ok_docker_profiles: "dict_ok docker_profiles"
  by (simp add: docker_profiles_zip comp_def hardening_chain_def profile_names profile_name_defs)

lemma docker_profiles_keys: "map fst docker_profiles = map dp_name hardening_chain"
  by (simp add: docker_profiles_zip comp_def)

lemma dict_get_docker_profiles:
  "dict_get docker_profiles n = Some p \<longleftrightarrow> p \<in> set hardening_chain \<and> dp_name p = n"
  using dict_ok_docker_profiles
  by (auto simp: docker_profiles_zip map_of_eq_Some_iff comp_def)

lemma set_SUPPORTED_PROFILE_NAMES: "set SUPPORTED_PROFILE_NAMES = dp_name ` set hardening_chain"
  by (simp add: SUPPORTED_PROFILE_NAMES_def docker_profiles_keys)

lemma get_docker_profile_Inr:
  "get_docker_profile n = Inr p \<longleftrightarrow> p \<in> set hardening_chain \<and> dp_name p = n"
  by (auto simp: get_docker_profile_def dict_get_docker_profiles [symmetric] split: option.splits)

text \<open>A statement about every supported profile is a statement about each of the eighteen.\<close>

lemma all_profiles: "(\<And>p. p \<in> set hardening_chain \<Longrightarrow> P p) \<Longrightarrow> get_docker_profile n = Inr p \<Longrightarrow> P p"
  by (simp add: get_docker_profile_Inr)

section \<open>What hardening keeps\<close>

text \<open>
  The order \<open>at least as hard as\<close> compares two profiles aspect by aspect. Every aspect is a
  preorder built from one of four shapes: a list of restrictions that may only grow, a list
  of permissions that may only shrink, a switch that stays on, and an optional limit that,
  once set, stays set and in a given relation to the old one.
\<close>

definition grows :: "('p \<Rightarrow> 'a list) \<Rightarrow> 'p \<Rightarrow> 'p \<Rightarrow> bool" where
  "grows f p q \<longleftrightarrow> set (f p) \<subseteq> set (f q)"

definition shrinks :: "('p \<Rightarrow> 'a list) \<Rightarrow> 'p \<Rightarrow> 'p \<Rightarrow> bool" where
  "shrinks f p q \<longleftrightarrow> set (f q) \<subseteq> set (f p)"

definition stays_on :: "('p \<Rightarrow> bool) \<Rightarrow> 'p \<Rightarrow> 'p \<Rightarrow> bool" where
  "stays_on f p q \<longleftrightarrow> (f p \<longrightarrow> f q)"

definition stays_set :: "('p \<Rightarrow> 'a option) \<Rightarrow> ('a \<Rightarrow> 'a \<Rightarrow> bool) \<Rightarrow> 'p \<Rightarrow> 'p \<Rightarrow> bool" where
  "stays_set f r p q \<longleftrightarrow>
     (case f p of None \<Rightarrow> True | Some a \<Rightarrow> (case f q of None \<Rightarrow> False | Some b \<Rightarrow> r a b))"

definition seccomp_keeps :: "seccomp_profile \<Rightarrow> seccomp_profile \<Rightarrow> bool" where
  "seccomp_keeps a b \<longleftrightarrow> grows sc_denied_syscalls a b \<and>
     sc_action a = sc_action b \<and> sc_default_action a = sc_default_action b"

definition gateway_keeps :: "network_gateway_profile \<Rightarrow> network_gateway_profile \<Rightarrow> bool" where
  "gateway_keeps a b \<longleftrightarrow> shrinks gw_allowed_domains a b \<and> shrinks gw_allowed_ip_addresses a b"

definition browser_keeps :: "browser_surface_profile \<Rightarrow> browser_surface_profile \<Rightarrow> bool" where
  "browser_keeps a b \<longleftrightarrow> grows bs_chromium_arguments a b \<and>
     stays_on (\<lambda>s. \<not> bs_allow_camera_capture s) a b \<and>
     stays_on (\<lambda>s. \<not> bs_allow_microphone_capture s) a b"

definition landlock_keeps :: "docker_profile \<Rightarrow> docker_profile \<Rightarrow> bool" where
  "landlock_keeps p q \<longleftrightarrow> dp_landlock_rules p = [] \<or>
     (dp_landlock_rules q \<noteq> [] \<and> shrinks dp_landlock_rules p q)"

definition hardening_aspects :: "(docker_profile \<Rightarrow> docker_profile \<Rightarrow> bool) list" where
  "hardening_aspects =
     [stays_on (\<lambda>p. ''--read-only'' \<in> set (dp_container_run_options p)),
      stays_on (\<lambda>p. dp_ipc_mode p = Some ''private''),
      stays_set dp_cgroupns_mode (=),
      stays_set dp_pids_limit (\<ge>),
      stays_set dp_memory (=),
      stays_set dp_memory_swap (=),
      stays_set dp_cpus (=),
      grows dp_ulimits,
      grows dp_sysctls,
      grows dp_cap_drop,
      shrinks dp_cap_add,
      grows dp_security_options,
      stays_set dp_seccomp_profile seccomp_keeps,
      stays_set dp_readonly_denied_mount_target (=),
      landlock_keeps,
      stays_set dp_network_gateway gateway_keeps,
      stays_set dp_network_dns_policy (grows dns_blocked_hostnames),
      shrinks dp_socket_mounts,
      stays_on (\<lambda>p. \<not> dp_allow_desktop_automation_channel p),
      stays_on dp_remove_desktop_automation_tools,
      grows dp_readonly_persistence_directories,
      stays_set dp_browser_surface browser_keeps,
      grows dp_environment,
      grows dp_denied_executables,
      grows dp_denied_executable_paths]"

definition at_least_as_hard :: "docker_profile \<Rightarrow> docker_profile \<Rightarrow> bool" where
  "at_least_as_hard p q \<longleftrightarrow> list_all (\<lambda>aspect. aspect p q) hardening_aspects"

lemmas aspect_shape_defs = grows_def shrinks_def stays_on_def stays_set_def

lemma transp_shapes [intro]:
  "transp (grows f)" "transp (shrinks f)" "transp (stays_on b)"
  "transp r \<Longrightarrow> transp (stays_set g r)"
  by (auto simp: transp_def aspect_shape_defs split: option.splits)

lemma transp_keeps [intro]:
  "transp seccomp_keeps" "transp gateway_keeps" "transp browser_keeps" "transp landlock_keeps"
  by (auto simp: transp_def seccomp_keeps_def gateway_keeps_def browser_keeps_def
      landlock_keeps_def aspect_shape_defs)

lemma transp_hardening_aspects: "list_all transp hardening_aspects"
  unfolding hardening_aspects_def list.pred_inject(2)
  by (intro conjI TrueI transp_shapes transp_keeps transp_on_equality transp_on_ge) simp_all

lemma transp_at_least_as_hard: "transp at_least_as_hard"
proof (rule transpI)
  fix p q r
  assume "at_least_as_hard p q" and "at_least_as_hard q r"
  then show "at_least_as_hard p r"
    using transp_hardening_aspects unfolding at_least_as_hard_def list_all_iff
    by (meson transpD)
qed

lemmas hardening_step_simps = at_least_as_hard_def hardening_aspects_def aspect_shape_defs
  seccomp_keeps_def gateway_keeps_def browser_keeps_def landlock_keeps_def

text \<open>A profile made by \<open>replace\<close> leaves most aspects as they are.\<close>

lemma unchanged_aspect [intro]:
  "f p = f q \<Longrightarrow> grows f p q"
  "f p = f q \<Longrightarrow> shrinks f p q"
  "b p = b q \<Longrightarrow> stays_on b p q"
  "g p = g q \<Longrightarrow> reflp r \<Longrightarrow> stays_set g r p q"
  "dp_landlock_rules x = dp_landlock_rules y \<Longrightarrow> landlock_keeps x y"
  by (auto simp: aspect_shape_defs landlock_keeps_def reflp_def split: option.splits)

lemma reflp_keeps [simp]:
  "reflp seccomp_keeps" "reflp gateway_keeps" "reflp browser_keeps"
  "reflp (grows dns_blocked_hostnames)" "reflp (\<lambda>a b. b \<le> (a :: int))"
  by (auto simp: reflp_def seccomp_keeps_def gateway_keeps_def browser_keeps_def aspect_shape_defs)

lemma desktop_channel_persistence:
  "dp_readonly_persistence_directories desktop_channel_control_profile = []"
  unfolding desktop_channel_control_profile_def network_socket_control_profile_def by simp

lemma step_readonly_fs: "at_least_as_hard baseline_profile readonly_fs_profile"
  unfolding baseline_profile_def readonly_fs_profile_def
  by (simp add: hardening_step_simps profile_value_defs)

lemma step_network_egress: "at_least_as_hard readonly_fs_profile network_egress_profile"
  unfolding readonly_fs_profile_def network_egress_profile_def
  by (simp add: hardening_step_simps profile_value_defs)

lemma step_ambient_services: "at_least_as_hard network_egress_profile ambient_services_profile"
  unfolding network_egress_profile_def ambient_services_profile_def
  by (simp add: hardening_step_simps profile_value_defs)

lemma step_execution_control: "at_least_as_hard ambient_services_profile execution_control_profile"
  unfolding ambient_services_profile_def execution_control_profile_def
  by (simp add: hardening_step_simps profile_value_defs)

lemma step_syscall_control: "at_least_as_hard execution_control_profile syscall_control_profile"
  unfolding execution_control_profile_def syscall_control_profile_def
  by (simp add: hardening_step_simps profile_value_defs)

lemma step_resource_limits: "at_least_as_hard syscall_control_profile resource_limits_profile"
  unfolding syscall_control_profile_def resource_limits_profile_def
  by (simp add: hardening_step_simps profile_value_defs)

lemma step_browser_surface: "at_least_as_hard resource_limits_profile browser_surface_profile"
  unfolding resource_limits_profile_def browser_surface_profile_def
  by (simp add: hardening_step_simps profile_value_defs)

lemma step_dns_proxy_control: "at_least_as_hard browser_surface_profile dns_proxy_control_profile"
  unfolding browser_surface_profile_def dns_proxy_control_profile_def
  by (simp add: hardening_step_simps profile_value_defs)

lemma step_minimized_image: "at_least_as_hard dns_proxy_control_profile minimized_image_profile"
  unfolding dns_proxy_control_profile_def minimized_image_profile_def
  by (simp add: hardening_step_simps profile_value_defs)

lemma step_filesystem_visibility: "at_least_as_hard minimized_image_profile filesystem_visibility_profile"
  unfolding minimized_image_profile_def filesystem_visibility_profile_def
  by (simp add: hardening_step_simps profile_value_defs)

lemma step_runtime_control: "at_least_as_hard filesystem_visibility_profile runtime_control_profile"
  unfolding filesystem_visibility_profile_def runtime_control_profile_def
  by (simp add: hardening_step_simps profile_value_defs)

lemma step_network_socket_control: "at_least_as_hard runtime_control_profile network_socket_control_profile"
  unfolding runtime_control_profile_def network_socket_control_profile_def
  by (simp add: hardening_step_simps profile_value_defs)

lemma step_desktop_channel_control: "at_least_as_hard network_socket_control_profile desktop_channel_control_profile"
  unfolding at_least_as_hard_def hardening_aspects_def desktop_channel_control_profile_def
  by (simp add: unchanged_aspect stays_on_def)

lemma step_system_config_control: "at_least_as_hard desktop_channel_control_profile system_config_control_profile"
  unfolding at_least_as_hard_def hardening_aspects_def system_config_control_profile_def
  by (simp add: unchanged_aspect grows_def desktop_channel_persistence)

lemma step_hardware_device_control: "at_least_as_hard system_config_control_profile hardware_device_control_profile"
  unfolding at_least_as_hard_def hardening_aspects_def hardware_device_control_profile_def
  by (auto simp: unchanged_aspect grows_def)

lemma step_persistence_control: "at_least_as_hard hardware_device_control_profile persistence_control_profile"
  unfolding at_least_as_hard_def hardening_aspects_def persistence_control_profile_def
  by (auto simp: unchanged_aspect grows_def)

lemma step_no_shell_access: "at_least_as_hard persistence_control_profile no_shell_access_profile"
  unfolding at_least_as_hard_def hardening_aspects_def no_shell_access_profile_def
  by (auto simp: unchanged_aspect grows_def)

lemmas hardening_steps =
  step_readonly_fs
  step_network_egress
  step_ambient_services
  step_execution_control
  step_syscall_control
  step_resource_limits
  step_browser_surface
  step_dns_proxy_control
  step_minimized_image
  step_filesystem_visibility
  step_runtime_control
  step_network_socket_control
  step_desktop_channel_control
  step_system_config_control
  step_hardware_device_control
  step_persistence_control
  step_no_shell_access

lemma sorted_hardening_chain: "sorted_wrt at_least_as_hard hardening_chain"
proof -
  have "successively at_least_as_hard hardening_chain"
    by (simp add: hardening_chain_def hardening_steps)
  then show ?thesis
    using transp_at_least_as_hard by (simp add: successively_conv_sorted_wrt)
qed

lemma image_names:
  "list_all (\<lambda>p. dp_image_name p = ''sandbox-tester/docker-sandbox:'' @ dp_name p) hardening_chain"
  unfolding hardening_chain_def list.pred_inject(2)
  by (intro conjI; (unfold profile_defs)?; simp add: profile_name_defs)

end
