(* ===== verification/Docker_Cli.thy ===== *)
theory Docker_Cli
  imports Container_Run Profiles
begin

text \<open>
  The command line of the Docker sandbox: making sure the image exists
  (\<open>container_factory.py\<close>), saving the results of a run (\<open>run_results.py\<close>), removing the
  container (\<open>DockerRunResult.remove_container\<close> in \<open>models.py\<close>) and \<open>main\<close> (\<open>cli.py\<close>).
  The parsed arguments are the input of \<open>main\<close>; \<open>argparse\<close> itself is not modelled.
\<close>

section \<open>The image\<close>

definition build_image_command :: "docker_configuration \<Rightarrow> string list" where
  "build_image_command c =
     [DOCKER_EXECUTABLE, ''build'', ''--file'', path_str (dc_dockerfile_path c),
      ''--tag'', dp_image_name (dc_profile c)] @
     dp_image_build_arguments (dc_profile c) @
     [path_str (dc_build_context c)]"

definition image_exists :: "host \<Rightarrow> string \<Rightarrow> bool run" where
  "image_exists h image_name =
     bind (exec h [DOCKER_EXECUTABLE, ''image'', ''inspect'', image_name])
       (\<lambda>completed. ret (cp_returncode completed = 0))"

definition image_result ::
    "docker_configuration \<Rightarrow> docker_image_status \<Rightarrow> string list option \<Rightarrow> docker_image_result" where
  "image_result c status command =
     \<lparr>ir_status = status, ir_image_name = dp_image_name (dc_profile c),
      ir_dockerfile_path = dc_dockerfile_path c, ir_command = command\<rparr>"

definition ensure_base_image :: "host \<Rightarrow> docker_configuration \<Rightarrow> docker_image_result run" where
  "ensure_base_image h c =
     bind (ask (\<lambda>log. exists_answer h log (dc_dockerfile_path c))) (\<lambda>found.
     if \<not> found then ret (image_result c DOCKERFILE_MISSING None)
     else
     bind (ask (\<lambda>log. which_answer h log DOCKER_EXECUTABLE)) (\<lambda>installed.
     if \<not> installed then ret (image_result c DOCKER_MISSING None)
     else
     bind (image_exists h (dp_image_name (dc_profile c))) (\<lambda>present.
     if present then ret (image_result c EXISTS None)
     else
     bind (exec_in h (dc_build_context c) (build_image_command c)) (\<lambda>build_result.
     if cp_returncode build_result \<noteq> 0
     then ret (image_result c BUILD_FAILED (Some (build_image_command c)))
     else ret (image_result c CREATED (Some (build_image_command c)))))))"

section \<open>Results\<close>

definition json_commands :: "string list list option \<Rightarrow> json" where
  "json_commands commands =
     (case commands of None \<Rightarrow> JNull | Some cs \<Rightarrow> JList (map (\<lambda>c. JList (map JStr c)) cs))"

definition create_metadata_data :: "string \<Rightarrow> docker_run_result \<Rightarrow> json" where
  "create_metadata_data now r =
     JObj [(''timestamp_utc'', JStr now),
           (''image_name'', JStr (rr_image_name r)),
           (''profile_name'', JStr (rr_profile_name r)),
           (''container_name'', JStr (rr_container_name r)),
           (''network_name'', json_opt_str (rr_network_name r)),
           (''gateway_container_name'', json_opt_str (rr_gateway_container_name r)),
           (''exit_code'', JInt (rr_exit_code r)),
           (''command'', JList (map JStr (rr_command r))),
           (''remove_command'', JList (map JStr (rr_remove_command r))),
           (''gateway_commands'', json_commands (rr_gateway_commands r)),
           (''gateway_ip_address'', json_opt_str (rr_gateway_ip_address r)),
           (''gateway_cleanup_commands'', json_commands (rr_gateway_cleanup_commands r))]"

definition save_run_results :: "host \<Rightarrow> string \<Rightarrow> docker_run_result \<Rightarrow> unit run" where
  "save_run_results h now r =
     steps
       [mkdir h (rr_run_directory r),
        write_text h (path_div (rr_run_directory r) ''stdout.txt'')
          (Plain_Text (rr_stdout r @ ''\<newline>'')),
        write_text h (path_div (rr_run_directory r) ''stderr.txt'')
          (Plain_Text (rr_stderr r @ ''\<newline>'')),
        write_text h (path_div (rr_run_directory r) ''run-metadata.json'')
          (Json_Text (create_metadata_data now r))]"

definition remove_container :: "host \<Rightarrow> docker_run_result \<Rightarrow> unit run" where
  "remove_container h r =
     bind (exec h (rr_remove_command r)) (\<lambda>_.
       case rr_gateway_cleanup_commands r of
         None \<Rightarrow> ret ()
       | Some commands \<Rightarrow> for_each commands (\<lambda>command. bind (exec h command) (\<lambda>_. ret ())))"

section \<open>The command line\<close>

record cli_arguments =
  ca_base_directory :: path
  ca_dockerfile :: path
  ca_guest_user :: string
  ca_profile :: string
  ca_keep_container :: bool
  ca_verbose :: bool
  ca_serialize_evidence :: bool

definition default_cli_arguments :: cli_arguments where
  "default_cli_arguments =
     \<lparr>ca_base_directory = path_of ''.docker_sandbox'',
      ca_dockerfile =
        path_div (path_div (path_div (path_of ''src'') ''docker_sandbox'') ''dockerfile'') ''Dockerfile'',
      ca_guest_user = ''sandbox'',
      ca_profile = BASELINE_PROFILE_NAME,
      ca_keep_container = False,
      ca_verbose = False,
      ca_serialize_evidence = False\<rparr>"

definition configuration_from_arguments :: "host \<Rightarrow> cli_arguments \<Rightarrow> docker_configuration run" where
  "configuration_from_arguments h a =
     bind (resolve_path h (cwd_answer h)) (\<lambda>repository_root.
     bind (lift_res (expanduser_answer h (ca_base_directory a))) (\<lambda>expanded.
     bind (resolve_path h expanded) (\<lambda>base_directory.
     bind (lift_res (expanduser_answer h (ca_dockerfile a))) (\<lambda>dockerfile.
     let dockerfile_path =
           (if is_absolute dockerfile then dockerfile else path_join repository_root dockerfile)
     in
     bind (lift_res (get_docker_profile (ca_profile a))) (\<lambda>profile.
     bind (resolve_path h dockerfile_path) (\<lambda>resolved_dockerfile.
     ret \<lparr>dc_base_directory = base_directory,
          dc_dockerfile_path = resolved_dockerfile,
          dc_build_context = repository_root,
          dc_guest_user = ca_guest_user a,
          dc_profile = profile\<rparr>))))))"

definition image_message :: "docker_image_result \<Rightarrow> string" where
  "image_message r =
     (case ir_status r of
        DOCKER_MISSING \<Rightarrow> ''Docker CLI was not found on PATH.''
      | DOCKERFILE_MISSING \<Rightarrow> ''Dockerfile was not found: '' @ path_str (ir_dockerfile_path r)
      | EXISTS \<Rightarrow> ''Docker sandbox base image already exists: '' @ ir_image_name r
      | CREATED \<Rightarrow> ''Docker sandbox base image created: '' @ ir_image_name r
      | BUILD_FAILED \<Rightarrow> ''Docker sandbox base image build failed: '' @ ir_image_name r)"

definition print_image_result :: "docker_image_result \<Rightarrow> unit run" where
  "print_image_result r = py_print (image_message r)"

text \<open>The clock is read twice, for the time stamp of the run and for the time in the metadata;
  both readings are arguments.\<close>

definition finish_run ::
    "host \<Rightarrow> string \<Rightarrow> bool \<Rightarrow> docker_run_result \<Rightarrow> int run" where
  "finish_run h now keep_container r =
     andthen (save_run_results h now r)
    (andthen (py_print (''Run results saved to: '' @ path_str (rr_run_directory r)))
    (andthen
      (if keep_container
       then py_print (''Kept disposable Docker container '' @ [CHR 0x27] @ rr_container_name r @
              [CHR 0x27] @ ''.'')
       else andthen (remove_container h r)
              (py_print (''Removed disposable Docker container '' @ [CHR 0x27] @
                 rr_container_name r @ [CHR 0x27] @ ''.'')))
      (ret (rr_exit_code r))))"

definition docker_main ::
    "host \<Rightarrow> cli_arguments \<Rightarrow> string \<Rightarrow> string \<Rightarrow> (string \<Rightarrow> string option) \<Rightarrow> int run" where
  "docker_main h a timestamp now host_environment =
     bind (configuration_from_arguments h a) (\<lambda>c.
     bind (ensure_base_image h c) (\<lambda>image.
     andthen (print_image_result image)
       (if ir_status image \<notin> {EXISTS, CREATED} then ret 1
        else
          bind (run_sandbox_container h c timestamp host_environment (ca_verbose a)
              (ca_serialize_evidence a)) (\<lambda>r.
            finish_run h now (ca_keep_container a) r))))"

section \<open>What an invocation leaves behind\<close>

text \<open>Starting a container is \<open>docker run ...\<close>.\<close>

definition starts_container :: "event \<Rightarrow> bool" where
  "starts_container e \<longleftrightarrow> (\<exists>arguments. e = Exec (DOCKER_EXECUTABLE # ''run'' # arguments))"

lemma for_each_exec_Inr:
  "for_each commands (\<lambda>command. bind (exec h command) (\<lambda>_. ret ())) log = (Inr u, log') \<Longrightarrow>
   log' = log @ map Exec commands"
  by (induction commands arbitrary: log) (fastforce simp: success_simps)+

lemma remove_container_Inr:
  "remove_container h r log = (Inr u, log') \<Longrightarrow>
   log' = log @ map Exec (rr_remove_command r #
     (case rr_gateway_cleanup_commands r of None \<Rightarrow> [] | Some commands \<Rightarrow> commands))"
  by (auto simp: remove_container_def success_simps split: option.splits dest: for_each_exec_Inr)

lemma run_result_removal:
  assumes "run_sandbox_container h c timestamp env verbose serialize log = (Inr r, log')"
  shows "rr_remove_command r = build_docker_remove_command (CONTAINER_NAME_PREFIX @ ''-'' @ timestamp)"
    and "rr_gateway_cleanup_commands r =
      map_option (\<lambda>_. [[DOCKER_EXECUTABLE, ''rm'', ''--force'', GATEWAY_CONTAINER_NAME_PREFIX @ ''-'' @ timestamp],
         [DOCKER_EXECUTABLE, ''network'', ''rm'', NETWORK_NAME_PREFIX @ ''-'' @ timestamp]])
        (dp_network_gateway (dc_profile c))"
  using assms unfolding run_sandbox_container_def Let_def
  by (auto simp: bind_Inr andthen_Inr ret_Inr build_gateway_cleanup_commands_def
      build_network_name_def build_gateway_container_name_def split: option.split prod.splits)

lemma image_emits: "emits (\<lambda>e. \<not> starts_container e) (ensure_base_image h c)"
  by (auto simp: ensure_base_image_def image_exists_def starts_container_def intro!: emits_intros)

lemma configuration_emits: "emits (\<lambda>e. \<not> starts_container e) (configuration_from_arguments h a)"
  by (auto simp: configuration_from_arguments_def starts_container_def Let_def intro!: emits_intros)

lemma configuration_profile:
  "configuration_from_arguments h a log = (Inr c, log') \<Longrightarrow>
   get_docker_profile (ca_profile a) = Inr (dc_profile c)"
  by (auto simp: configuration_from_arguments_def bind_Inr lift_res_Inr ret_Inr Let_def)

text \<open>The commands that remove what one invocation creates.\<close>

definition removal_commands :: "docker_profile \<Rightarrow> string \<Rightarrow> string list list" where
  "removal_commands p timestamp =
     [DOCKER_EXECUTABLE, ''rm'', ''--force'', CONTAINER_NAME_PREFIX @ ''-'' @ timestamp] #
     (if dp_network_gateway p = None then []
      else [[DOCKER_EXECUTABLE, ''rm'', ''--force'', GATEWAY_CONTAINER_NAME_PREFIX @ ''-'' @ timestamp],
            [DOCKER_EXECUTABLE, ''network'', ''rm'', NETWORK_NAME_PREFIX @ ''-'' @ timestamp]])"

lemma finish_run_Inr:
  assumes "finish_run h now keep r log = (Inr status, log')"
  shows "status = rr_exit_code r" and
    "\<not> keep \<Longrightarrow> \<exists>before message. log' = before @ map Exec (rr_remove_command r #
       (case rr_gateway_cleanup_commands r of None \<Rightarrow> [] | Some commands \<Rightarrow> commands)) @ [Print message]"
  using assms unfolding finish_run_def
  by (auto simp: andthen_Inr ret_Inr py_print_Inr dest!: remove_container_Inr split: if_splits)

text \<open>C4. An invocation that returns and was not told to keep the container either started no
  container at all (the image is missing and could not be built; exit code 1), or ended by
  removing, in this order, its container and, for a profile with a gateway, the gateway
  container and the network it had created.\<close>

theorem main_removes_container:
  assumes "docker_main h a timestamp now env log = (Inr status, log')"
    and "\<not> ca_keep_container a"
  shows "(status = 1 \<and> (\<exists>new. log' = log @ new \<and> list_all (\<lambda>e. \<not> starts_container e) new)) \<or>
    (\<exists>p before message. get_docker_profile (ca_profile a) = Inr p \<and>
       log' = before @ map Exec (removal_commands p timestamp) @ [Print message])"
proof -
  obtain c log1 image log2 where
    c: "configuration_from_arguments h a log = (Inr c, log1)" and
    image: "ensure_base_image h c log1 = (Inr image, log2)" and
    rest: "(if ir_status image \<notin> {EXISTS, CREATED} then ret 1
        else bind (run_sandbox_container h c timestamp env (ca_verbose a) (ca_serialize_evidence a))
          (finish_run h now (ca_keep_container a))) (log2 @ [Print (image_message image)]) =
      (Inr status, log')"
    using assms(1) unfolding docker_main_def
    by (auto simp: bind_Inr andthen_Inr print_image_result_def py_print_Inr)
  show ?thesis
  proof (cases "ir_status image \<in> {EXISTS, CREATED}")
    case True
    with rest obtain r log3 where
      run: "run_sandbox_container h c timestamp env (ca_verbose a) (ca_serialize_evidence a)
        (log2 @ [Print (image_message image)]) = (Inr r, log3)" and
      finish: "finish_run h now (ca_keep_container a) r log3 = (Inr status, log')"
      by (auto simp: bind_Inr)
    have "map Exec (rr_remove_command r #
        (case rr_gateway_cleanup_commands r of None \<Rightarrow> [] | Some commands \<Rightarrow> commands)) =
      map Exec (removal_commands (dc_profile c) timestamp)"
      using run_result_removal [OF run]
      by (cases "dp_network_gateway (dc_profile c)")
        (auto simp: removal_commands_def build_docker_remove_command_def)
    with finish_run_Inr(2) [OF finish assms(2)] configuration_profile [OF c] show ?thesis
      by metis
  next
    case False
    with rest have "status = 1" and "log' = log2 @ [Print (image_message image)]"
      by (auto simp: ret_Inr)
    moreover obtain new1 where "log1 = log @ new1" "list_all (\<lambda>e. \<not> starts_container e) new1"
      using configuration_emits c by (rule appendsD)
    moreover obtain new2 where "log2 = log1 @ new2" "list_all (\<lambda>e. \<not> starts_container e) new2"
      using image_emits image by (rule appendsD)
    ultimately show ?thesis by (auto simp: starts_container_def)
  qed
qed

text \<open>Whatever image status the factory returns, it is justified by the host's answers: the image
  is reported present only if \<open>docker image inspect\<close> succeeded, created only if that failed
  and the build with the profile's arguments succeeded, and a missing Docker or Dockerfile is
  reported without running any command.\<close>

theorem image_status_justified:
  assumes "ensure_base_image h c log = (Inr r, log')"
  defines "inspect \<equiv> Exec [DOCKER_EXECUTABLE, ''image'', ''inspect'', dp_image_name (dc_profile c)]"
    and "build \<equiv> Exec_In (dc_build_context c) (build_image_command c)"
  shows "case ir_status r of
      DOCKERFILE_MISSING \<Rightarrow> \<not> exists_answer h log (dc_dockerfile_path c) \<and> log' = log
    | DOCKER_MISSING \<Rightarrow> \<not> which_answer h log DOCKER_EXECUTABLE \<and> log' = log
    | EXISTS \<Rightarrow> log' = log @ [inspect] \<and>
        (\<exists>x. exec_answer h log inspect = Inr x \<and> cp_returncode x = 0)
    | CREATED \<Rightarrow> log' = log @ [inspect, build] \<and>
        (\<exists>x. exec_answer h log inspect = Inr x \<and> cp_returncode x \<noteq> 0) \<and>
        (\<exists>x. exec_answer h (log @ [inspect]) build = Inr x \<and> cp_returncode x = 0)
    | BUILD_FAILED \<Rightarrow> log' = log @ [inspect, build] \<and>
        (\<exists>x. exec_answer h (log @ [inspect]) build = Inr x \<and> cp_returncode x \<noteq> 0)"
  using assms(1) unfolding ensure_base_image_def image_exists_def image_result_def inspect_def build_def
  by (auto simp: bind_Inr ret_Inr exec_Inr ask_def exec_in_def split: if_splits)

end
