(* ===== verification/Landlock.thy ===== *)
theory Landlock
  imports Profiles Json "HOL-Library.Word"
begin

unbundle bit_operations_syntax

text \<open>
  \<open>src/docker_sandbox/landlock_runner.py\<close>: reading the path policy, turning access letters
  into Landlock rights, and the sequence of system calls that restricts the process before
  Sandbox Tester runs. Right masks are \<open>64 word\<close>, the width of the \<open>c_uint64\<close> fields they are
  stored in. The kernel is the \<open>k_answer\<close> component of the state: it may answer every call in
  any way, depending on all earlier calls.
\<close>

section \<open>Rights\<close>

type_synonym rights = "64 word"

definition ACCESS_FS_EXECUTE :: rights where "ACCESS_FS_EXECUTE = push_bit 0 1"
definition ACCESS_FS_WRITE_FILE :: rights where "ACCESS_FS_WRITE_FILE = push_bit 1 1"
definition ACCESS_FS_READ_FILE :: rights where "ACCESS_FS_READ_FILE = push_bit 2 1"
definition ACCESS_FS_READ_DIR :: rights where "ACCESS_FS_READ_DIR = push_bit 3 1"
definition ACCESS_FS_REMOVE_DIR :: rights where "ACCESS_FS_REMOVE_DIR = push_bit 4 1"
definition ACCESS_FS_REMOVE_FILE :: rights where "ACCESS_FS_REMOVE_FILE = push_bit 5 1"
definition ACCESS_FS_MAKE_CHAR :: rights where "ACCESS_FS_MAKE_CHAR = push_bit 6 1"
definition ACCESS_FS_MAKE_DIR :: rights where "ACCESS_FS_MAKE_DIR = push_bit 7 1"
definition ACCESS_FS_MAKE_REG :: rights where "ACCESS_FS_MAKE_REG = push_bit 8 1"
definition ACCESS_FS_MAKE_SOCK :: rights where "ACCESS_FS_MAKE_SOCK = push_bit 9 1"
definition ACCESS_FS_MAKE_FIFO :: rights where "ACCESS_FS_MAKE_FIFO = push_bit 10 1"
definition ACCESS_FS_MAKE_BLOCK :: rights where "ACCESS_FS_MAKE_BLOCK = push_bit 11 1"
definition ACCESS_FS_MAKE_SYM :: rights where "ACCESS_FS_MAKE_SYM = push_bit 12 1"
definition ACCESS_FS_REFER :: rights where "ACCESS_FS_REFER = push_bit 13 1"
definition ACCESS_FS_TRUNCATE :: rights where "ACCESS_FS_TRUNCATE = push_bit 14 1"

lemmas access_fs_defs = ACCESS_FS_EXECUTE_def ACCESS_FS_WRITE_FILE_def ACCESS_FS_READ_FILE_def
  ACCESS_FS_READ_DIR_def ACCESS_FS_REMOVE_DIR_def ACCESS_FS_REMOVE_FILE_def
  ACCESS_FS_MAKE_CHAR_def ACCESS_FS_MAKE_DIR_def ACCESS_FS_MAKE_REG_def ACCESS_FS_MAKE_SOCK_def
  ACCESS_FS_MAKE_FIFO_def ACCESS_FS_MAKE_BLOCK_def ACCESS_FS_MAKE_SYM_def ACCESS_FS_REFER_def
  ACCESS_FS_TRUNCATE_def

definition READ_RIGHTS :: rights where
  "READ_RIGHTS = ACCESS_FS_READ_FILE OR ACCESS_FS_READ_DIR"

definition EXECUTE_RIGHTS :: rights where
  "EXECUTE_RIGHTS = ACCESS_FS_EXECUTE"

definition WRITE_RIGHTS :: rights where
  "WRITE_RIGHTS = ACCESS_FS_WRITE_FILE OR ACCESS_FS_REMOVE_DIR OR ACCESS_FS_REMOVE_FILE
     OR ACCESS_FS_MAKE_CHAR OR ACCESS_FS_MAKE_DIR OR ACCESS_FS_MAKE_REG OR ACCESS_FS_MAKE_SOCK
     OR ACCESS_FS_MAKE_FIFO OR ACCESS_FS_MAKE_BLOCK OR ACCESS_FS_MAKE_SYM"

definition ACCESS_BY_NAME :: "(char, rights) dict" where
  "ACCESS_BY_NAME =
     [(CHR ''r'', READ_RIGHTS), (CHR ''w'', WRITE_RIGHTS), (CHR ''x'', EXECUTE_RIGHTS)]"

fun parse_access_from :: "rights \<Rightarrow> string \<Rightarrow> rights res" where
  "parse_access_from rights [] = Inr (rights OR (ACCESS_FS_REFER OR ACCESS_FS_TRUNCATE))"
| "parse_access_from rights (name # names) =
     (case dict_get ACCESS_BY_NAME name of
        None \<Rightarrow> Inl (ValueError (''Unknown Landlock access right: '' @ [name]))
      | Some r \<Rightarrow> parse_access_from (rights OR r) names)"

definition parse_access :: "string \<Rightarrow> rights res" where
  "parse_access access = parse_access_from 0 access"

definition supported_access_mask :: "int \<Rightarrow> rights" where
  "supported_access_mask abi_version =
     (let access = READ_RIGHTS OR EXECUTE_RIGHTS OR WRITE_RIGHTS;
          access = (if abi_version \<ge> 2 then access OR ACCESS_FS_REFER else access);
          access = (if abi_version \<ge> 3 then access OR ACCESS_FS_TRUNCATE else access)
      in access)"

section \<open>Policy\<close>

record path_rule =
  pr_path :: path
  pr_access :: string

definition path_rule_from_json :: "json \<Rightarrow> path_rule res" where
  "path_rule_from_json data = (case data of
       JObj kvs \<Rightarrow>
         (case (dict_get kvs ''path'', dict_get kvs ''access'') of
            (Some (JStr p), Some (JStr a)) \<Rightarrow> Inr \<lparr>pr_path = path_of p, pr_access = a\<rparr>
          | _ \<Rightarrow> Inl (ValueError ''Landlock path rule requires string path and access values.''))
     | _ \<Rightarrow> Inl (ValueError ''Landlock path rule must be an object.''))"

definition read_policy :: "json \<Rightarrow> path_rule list res" where
  "read_policy data =
     res_bind (json_get_default data ''rules'' (JList []))
       (\<lambda>rules. case rules of
          JList rs \<Rightarrow> res_map path_rule_from_json rs
        | _ \<Rightarrow> Inl (ValueError ''Landlock policy must contain a list named 'rules'.''))"

section \<open>System calls\<close>

datatype ll_call =
    AbiVersion
  | CreateRuleset rights
  | OpenPath path
  | AddRule int int rights
  | SetNoNewPrivs
  | RestrictSelf int
  | CloseFd int

text \<open>\<open>k_answer\<close> gives the return value and the \<open>errno\<close> of a call after the calls made so far;
  \<open>k_log\<close> records each call with its return value.\<close>

record kernel =
  k_answer :: "(ll_call \<times> int) list \<Rightarrow> ll_call \<Rightarrow> int \<times> int"
  k_log :: "(ll_call \<times> int) list"

definition kcall :: "(int \<Rightarrow> bool) \<Rightarrow> ll_call \<Rightarrow> (kernel, int) py" where
  "kcall ok c = (\<lambda>k. case k_answer k (k_log k) c of (r, errno) \<Rightarrow>
     (if ok r then Inr r else Inl (OSError errno), k\<lparr>k_log := k_log k @ [(c, r)]\<rparr>))"

text \<open>\<open>_syscall\<close> and \<open>os.open\<close> raise on a negative result, \<open>_prctl\<close> and \<open>os.close\<close> on a
  non-zero one.\<close>

definition syscall :: "ll_call \<Rightarrow> (kernel, int) py" where
  "syscall c = kcall (\<lambda>r. 0 \<le> r) c"

definition prctl :: "ll_call \<Rightarrow> (kernel, unit) py" where
  "prctl c = bind (kcall (\<lambda>r. r = 0) c) (\<lambda>_. ret ())"

definition os_close :: "int \<Rightarrow> (kernel, unit) py" where
  "os_close fd = bind (kcall (\<lambda>r. r = 0) (CloseFd fd)) (\<lambda>_. ret ())"

definition get_landlock_abi_version :: "(kernel, int) py" where
  "get_landlock_abi_version = syscall AbiVersion"

definition create_ruleset :: "rights \<Rightarrow> (kernel, int) py" where
  "create_ruleset handled_access = syscall (CreateRuleset handled_access)"

definition add_path_rule :: "int \<Rightarrow> path_rule \<Rightarrow> rights \<Rightarrow> (kernel, unit) py" where
  "add_path_rule ruleset_fd rule handled_access =
     bind (lift_res (parse_access (pr_access rule))) (\<lambda>access.
     bind (syscall (OpenPath (pr_path rule))) (\<lambda>parent_fd.
       try_finally
         (bind (syscall (AddRule ruleset_fd parent_fd (access AND handled_access))) (\<lambda>_. ret ()))
         (os_close parent_fd)))"

definition set_no_new_privileges :: "(kernel, unit) py" where
  "set_no_new_privileges = prctl SetNoNewPrivs"

definition restrict_self :: "int \<Rightarrow> (kernel, unit) py" where
  "restrict_self ruleset_fd = bind (syscall (RestrictSelf ruleset_fd)) (\<lambda>_. ret ())"

definition apply_landlock_rules :: "path_rule list \<Rightarrow> (kernel, unit) py" where
  "apply_landlock_rules rules =
     bind get_landlock_abi_version (\<lambda>abi_version.
     bind (create_ruleset (supported_access_mask abi_version)) (\<lambda>ruleset_fd.
       try_finally
         (andthen (for_each rules (\<lambda>rule.
            add_path_rule ruleset_fd rule (supported_access_mask abi_version)))
          (andthen set_no_new_privileges (restrict_self ruleset_fd)))
         (os_close ruleset_fd)))"

section \<open>The entry point\<close>

text \<open>What the entry point touches besides the kernel: \<open>sys.modules\<close>, with the attributes of
  each loaded module, and the calls of Sandbox Tester's own \<open>main\<close>, each with the system calls
  that had been made before it.\<close>

datatype module_attr = Original | DeniedLoader | DeniedLibrary

type_synonym modules = "(string, (string, module_attr) dict) dict"

record runner_state =
  rs_kernel :: kernel
  rs_modules :: modules
  rs_tester_runs :: "((ll_call \<times> int) list \<times> string list) list"

definition on_kernel :: "(kernel, 'a) py \<Rightarrow> (runner_state, 'a) py" where
  "on_kernel m = (\<lambda>s. case m (rs_kernel s) of (r, k) \<Rightarrow> (r, s\<lparr>rs_kernel := k\<rparr>))"

definition on_modules :: "(modules \<Rightarrow> modules) \<Rightarrow> (runner_state, unit) py" where
  "on_modules f = (\<lambda>s. (Inr (), s\<lparr>rs_modules := f (rs_modules s)\<rparr>))"

definition drop_bootstrap_ctypes_modules :: "modules \<Rightarrow> modules" where
  "drop_bootstrap_ctypes_modules ms = dict_pop ''_ctypes'' (dict_pop ''ctypes'' ms)"

definition set_present :: "module_attr \<Rightarrow> string \<Rightarrow> (string, module_attr) dict \<Rightarrow> (string, module_attr) dict" where
  "set_present a name m = (if dict_get m name = None then m else dict_set name a m)"

definition disable_runtime_ctypes_access :: "modules \<Rightarrow> modules" where
  "disable_runtime_ctypes_access ms =
     (case dict_get ms ''ctypes'' of
        None \<Rightarrow> ms
      | Some m \<Rightarrow>
          dict_set ''ctypes''
            (fold (set_present DeniedLibrary) [''cdll'', ''pydll'', ''windll'', ''oledll'']
              (fold (set_present DeniedLoader) [''CDLL'', ''PyDLL'', ''WinDLL'', ''OleDLL''] m))
            ms)"

definition runner_sandbox_arguments :: "path \<Rightarrow> bool \<Rightarrow> bool \<Rightarrow> string list" where
  "runner_sandbox_arguments config verbose serialize_evidence =
     [''--config'', path_str config] @ (if verbose then [''--verbose''] else [])
       @ (if serialize_evidence then [''--serialize-evidence''] else [])"

text \<open>\<open>imports\<close> is what importing \<open>sandbox_tester.cli\<close> does to \<open>sys.modules\<close>, \<open>tester\<close> the exit
  code of its \<open>main\<close>; \<open>policy\<close> is the parsed policy file.\<close>

definition run_tester :: "(string list \<Rightarrow> int res) \<Rightarrow> string list \<Rightarrow> (runner_state, int) py" where
  "run_tester tester args =
  (\<lambda>s. (tester args,
     s\<lparr>rs_tester_runs := rs_tester_runs s @ [(k_log (rs_kernel s), args)]\<rparr>))"

definition landlock_main ::
    "(modules \<Rightarrow> modules) \<Rightarrow> (string list \<Rightarrow> int res) \<Rightarrow> json \<Rightarrow> path \<Rightarrow> bool \<Rightarrow> bool \<Rightarrow>
     (runner_state, int) py" where
  "landlock_main imports tester policy config verbose serialize_evidence =
     bind (lift_res (read_policy policy)) (\<lambda>rules.
     andthen (on_kernel (apply_landlock_rules rules))
     (andthen (on_modules drop_bootstrap_ctypes_modules)
     (andthen (on_modules imports)
     (andthen (on_modules disable_runtime_ctypes_access)
       (run_tester tester (runner_sandbox_arguments config verbose serialize_evidence))))))"

section \<open>Access letters and masks\<close>

lemma parse_access_from_valid:
  "set a \<subseteq> set ''rwx'' \<Longrightarrow> parse_access_from z a = Inr (z OR
     ((if CHR ''r'' \<in> set a then READ_RIGHTS else 0) OR
      (if CHR ''w'' \<in> set a then WRITE_RIGHTS else 0) OR
      (if CHR ''x'' \<in> set a then EXECUTE_RIGHTS else 0) OR
      (ACCESS_FS_REFER OR ACCESS_FS_TRUNCATE)))"
proof (induction a arbitrary: z)
  case Nil
  show ?case by simp
next
  case (Cons c a)
  then show ?case
    by (auto simp: ACCESS_BY_NAME_def ac_simps)
qed

lemma parse_access_from_invalid:
  "\<not> set a \<subseteq> set ''rwx'' \<Longrightarrow> parse_access_from z a =
     Inl (ValueError (''Unknown Landlock access right: '' @
       [hd (dropWhile (\<lambda>c. c \<in> set ''rwx'') a)]))"
  by (induction a arbitrary: z) (auto simp: ACCESS_BY_NAME_def)

lemmas rights_defs = READ_RIGHTS_def WRITE_RIGHTS_def EXECUTE_RIGHTS_def access_fs_defs

lemma parse_access_Inr_letters: "parse_access a = Inr m \<Longrightarrow> set a \<subseteq> set ''rwx''"
  by (metis Inl_Inr_False parse_access_def parse_access_from_invalid)

lemma parse_access_rights:
  assumes "parse_access a = Inr m"
  shows "m AND READ_RIGHTS = (if CHR ''r'' \<in> set a then READ_RIGHTS else 0)"
    and "m AND WRITE_RIGHTS = (if CHR ''w'' \<in> set a then WRITE_RIGHTS else 0)"
    and "m AND EXECUTE_RIGHTS = (if CHR ''x'' \<in> set a then EXECUTE_RIGHTS else 0)"
    and "m AND (ACCESS_FS_REFER OR ACCESS_FS_TRUNCATE) = ACCESS_FS_REFER OR ACCESS_FS_TRUNCATE"
  using parse_access_from_valid [of a 0] parse_access_Inr_letters [OF assms] assms
  by (auto simp: parse_access_def rights_defs)

section \<open>What the system calls guarantee\<close>

lemma triple_kcall [triple_rules]:
  assumes "\<And>k r. P k \<Longrightarrow> ok r \<Longrightarrow> Q r (k\<lparr>k_log := k_log k @ [(c, r)]\<rparr>)"
    and "\<And>k r e. P k \<Longrightarrow> \<not> ok r \<Longrightarrow> E (OSError e) (k\<lparr>k_log := k_log k @ [(c, r)]\<rparr>)"
  shows "triple P (kcall ok c) Q E"
  using assms by (auto simp: triple_def kcall_def split: prod.splits)

text \<open>The descriptors the calls of a log have opened and not closed.\<close>

fun track_fd :: "ll_call \<times> int \<Rightarrow> int set \<Rightarrow> int set" where
  "track_fd (CreateRuleset m, r) fds = (if 0 \<le> r then insert r fds else fds)"
| "track_fd (OpenPath p, r) fds = (if 0 \<le> r then insert r fds else fds)"
| "track_fd (CloseFd fd, r) fds = fds - {fd}"
| "track_fd (_, r) fds = fds"

definition open_fds :: "(ll_call \<times> int) list \<Rightarrow> int set" where
  "open_fds log = fold track_fd log {}"

lemma open_fds_snoc [simp]: "open_fds (log @ [e]) = track_fd e (open_fds log)"
  by (simp add: open_fds_def)

lemmas kernel_op_defs = get_landlock_abi_version_def create_ruleset_def syscall_def prctl_def
  os_close_def set_no_new_privileges_def restrict_self_def

abbreviation fds_within :: "int set \<Rightarrow> kernel \<Rightarrow> bool" where
  "fds_within F k \<equiv> open_fds (k_log k) \<subseteq> F"

lemma os_close_fds:
  "triple (fds_within (insert fd F)) (os_close fd) (\<lambda>_. fds_within F) (\<lambda>_. fds_within F)"
  by (auto simp: triple_def os_close_def bind_def kcall_def ret_def split: prod.splits)

lemma syscall_fds:
  "\<forall>m. c \<noteq> CreateRuleset m \<Longrightarrow> \<forall>p. c \<noteq> OpenPath p \<Longrightarrow>
   triple (fds_within F) (syscall c) (\<lambda>_. fds_within F) (\<lambda>_. fds_within F)"
  by (cases c) (auto simp: triple_def syscall_def kcall_def split: prod.splits)

lemma opening_syscall_fds:
  "(\<exists>m. c = CreateRuleset m) \<or> (\<exists>p. c = OpenPath p) \<Longrightarrow>
   triple (fds_within F) (syscall c) (\<lambda>fd. fds_within (insert fd F)) (\<lambda>_. fds_within F)"
  by (auto simp: triple_def syscall_def kcall_def split: prod.splits)

lemma unit_syscall_fds:
  "\<forall>m. c \<noteq> CreateRuleset m \<Longrightarrow> \<forall>p. c \<noteq> OpenPath p \<Longrightarrow>
   triple (fds_within F) (bind (syscall c) (\<lambda>_. ret ())) (\<lambda>_. fds_within F) (\<lambda>_. fds_within F)"
  by (rule triple_bind [OF syscall_fds]) (simp_all add: triple_ret)

lemma prctl_fds:
  "triple (fds_within F) set_no_new_privileges (\<lambda>_. fds_within F) (\<lambda>_. fds_within F)"
  by (auto simp: triple_def set_no_new_privileges_def prctl_def bind_def kcall_def ret_def
      split: prod.splits)

lemma add_path_rule_fds:
  "triple (fds_within F) (add_path_rule fd r h) (\<lambda>_. fds_within F) (\<lambda>_. fds_within F)"
proof -
  have fin: "triple (fds_within (insert p F))
      (try_finally (bind (syscall (AddRule fd p a)) (\<lambda>_. ret ())) (os_close p))
      (\<lambda>_. fds_within F) (\<lambda>_. fds_within F)" for p a
    by (rule triple_finally [OF unit_syscall_fds]) (simp_all add: os_close_fds)
  have "triple (fds_within F)
      (bind (syscall (OpenPath (pr_path r))) (\<lambda>p. try_finally
        (bind (syscall (AddRule fd p a)) (\<lambda>_. ret ())) (os_close p)))
      (\<lambda>_. fds_within F) (\<lambda>_. fds_within F)" for a
    by (rule triple_bind [OF opening_syscall_fds fin]) simp
  then show ?thesis
    unfolding add_path_rule_def
    by (rule triple_bind [OF triple_lift_res, rotated 2]) simp_all
qed

lemma apply_landlock_rules_fds:
  "triple (fds_within F) (apply_landlock_rules rules) (\<lambda>_. fds_within F) (\<lambda>_. fds_within F)"
proof -
  have "triple (fds_within F') (andthen (for_each rules (\<lambda>r. add_path_rule fd r h))
      (andthen set_no_new_privileges (restrict_self fd)))
      (\<lambda>_. fds_within F') (\<lambda>_. fds_within F')" for F' fd h
    unfolding restrict_self_def
    by (intro triple_andthen [where R = "fds_within F'"] triple_for_each add_path_rule_fds
        prctl_fds unit_syscall_fds) simp_all
  then have fin: "triple (fds_within (insert fd F)) (try_finally
      (andthen (for_each rules (\<lambda>r. add_path_rule fd r h))
        (andthen set_no_new_privileges (restrict_self fd))) (os_close fd))
      (\<lambda>_. fds_within F) (\<lambda>_. fds_within F)" for fd h
    by (rule triple_finally) (simp_all add: os_close_fds)
  show ?thesis
    unfolding apply_landlock_rules_def get_landlock_abi_version_def create_ruleset_def
    by (rule triple_bind [OF syscall_fds triple_bind [OF opening_syscall_fds fin]]) simp_all
qed

text \<open>When is the process restricted? \<open>RestrictSelf\<close> has to have succeeded, and the kernel only
  takes it after \<open>SetNoNewPrivs\<close>.\<close>

definition restricted :: "(ll_call \<times> int) list \<Rightarrow> bool" where
  "restricted log \<longleftrightarrow> (\<exists>pre post fd r. log = pre @ (RestrictSelf fd, r) # post \<and> 0 \<le> r \<and>
     (SetNoNewPrivs, 0) \<in> set pre)"

lemma restricted_append: "restricted log \<Longrightarrow> restricted (log @ rest)"
  unfolding restricted_def by (metis append.assoc append_Cons)

lemma restricted_snoc:
  "(SetNoNewPrivs, 0) \<in> set log \<Longrightarrow> 0 \<le> r \<Longrightarrow> restricted (log @ [(RestrictSelf fd, r)])"
  unfolding restricted_def by blast

lemma kcall_restricted:
  "triple (\<lambda>k. restricted (k_log k)) (kcall ok c) (\<lambda>_ k. restricted (k_log k)) (\<lambda>_ k. True)"
  by (rule triple_kcall) (simp_all add: restricted_append)

lemma restricted_pair:
  "0 \<le> r \<Longrightarrow> restricted (log @ [(SetNoNewPrivs, 0), (RestrictSelf fd, r)])"
  using restricted_snoc [of "log @ [(SetNoNewPrivs, 0)]" r fd] by simp

lemma restrict_sequence:
  "triple (\<lambda>_. True) (andthen set_no_new_privileges (restrict_self fd))
     (\<lambda>_ k. restricted (k_log k)) (\<lambda>_ _. True)"
  by (auto simp: triple_def andthen_def set_no_new_privileges_def prctl_def restrict_self_def
      syscall_def bind_def kcall_def ret_def restricted_pair split: prod.splits)

lemma os_close_restricted:
  "triple (\<lambda>k. restricted (k_log k)) (os_close fd) (\<lambda>_ k. restricted (k_log k)) (\<lambda>_ _. True)"
  unfolding os_close_def by (rule triple_bind [OF kcall_restricted]) (simp add: triple_ret)

lemma triple_trivial: "triple (\<lambda>_. True) m (\<lambda>_ _. True) (\<lambda>_ _. True)"
  by (auto simp: triple_def split: prod.splits sum.splits)

lemma apply_landlock_rules_restricts:
  "triple (\<lambda>_. True) (apply_landlock_rules rules) (\<lambda>_ k. restricted (k_log k)) (\<lambda>_ _. True)"
proof -
  have fin: "triple (\<lambda>_. True) (try_finally
      (andthen (for_each rules (\<lambda>r. add_path_rule fd r h))
        (andthen set_no_new_privileges (restrict_self fd))) (os_close fd))
      (\<lambda>_ k. restricted (k_log k)) (\<lambda>_ _. True)" for fd h
    by (rule triple_finally [OF triple_andthen [OF triple_trivial restrict_sequence]])
      (simp_all add: os_close_restricted triple_trivial)
  show ?thesis
    unfolding apply_landlock_rules_def
    by (rule triple_bind [OF triple_trivial triple_bind [OF triple_trivial fin]])
qed

section \<open>The calls of a successful run\<close>

definition calls :: "kernel \<Rightarrow> ll_call list" where
  "calls k = map fst (k_log k)"

definition rule_calls :: "int \<Rightarrow> rights \<Rightarrow> path_rule \<Rightarrow> int \<Rightarrow> ll_call list" where
  "rule_calls ruleset_fd handled r parent_fd =
     [OpenPath (pr_path r),
      AddRule ruleset_fd parent_fd
        ((case parse_access (pr_access r) of Inr a \<Rightarrow> a | Inl _ \<Rightarrow> 0) AND handled),
      CloseFd parent_fd]"

lemma kcall_Inr:
  "kcall ok c k = (Inr r, k') \<Longrightarrow> ok r \<and> calls k' = calls k @ [c]"
  by (auto simp: kcall_def calls_def split: prod.splits if_splits)

lemma simple_calls:
  "syscall c k = (Inr r, k') \<Longrightarrow> calls k' = calls k @ [c]"
  "prctl c k = (Inr u, k') \<Longrightarrow> calls k' = calls k @ [c]"
  "os_close fd k = (Inr u, k') \<Longrightarrow> calls k' = calls k @ [CloseFd fd]"
  by (auto simp: syscall_def prctl_def os_close_def bind_Inr ret_def dest: kcall_Inr)

lemma add_path_rule_calls:
  assumes "add_path_rule fd r h k = (Inr u, k')"
  shows "\<exists>p. calls k' = calls k @ rule_calls fd h r p"
proof -
  from assms obtain a p t t' t'' where
    "parse_access (pr_access r) = Inr a" "syscall (OpenPath (pr_path r)) k = (Inr p, t)"
    "syscall (AddRule fd p (a AND h)) t = (Inr t'', t')" "os_close p t' = (Inr (), k')"
    by (auto simp: add_path_rule_def bind_Inr try_finally_Inr lift_res_def ret_def)
  then show ?thesis by (auto simp: rule_calls_def dest!: simple_calls)
qed

lemma for_each_rules_calls:
  "for_each rules (\<lambda>r. add_path_rule fd r h) k = (Inr u, k') \<Longrightarrow>
   \<exists>ps. length ps = length rules \<and>
     calls k' = calls k @ concat (map2 (rule_calls fd h) rules ps)"
proof (induction rules arbitrary: k)
  case Nil
  then show ?case by (simp add: ret_def)
next
  case (Cons r rules)
  then obtain u' t where t: "add_path_rule fd r h k = (Inr u', t)"
      "for_each rules (\<lambda>r. add_path_rule fd r h) t = (Inr u, k')"
    by (auto simp: andthen_Inr)
  from add_path_rule_calls [OF t(1)] obtain p where p: "calls t = calls k @ rule_calls fd h r p" ..
  from Cons.IH [OF t(2)] obtain ps where "length ps = length rules"
    "calls k' = calls t @ concat (map2 (rule_calls fd h) rules ps)" by blast
  with p show ?case by (intro exI [of _ "p # ps"]) simp
qed

lemma apply_landlock_rules_calls:
  assumes "apply_landlock_rules rules k = (Inr (), k')"
  obtains abi fd ps where "length ps = length rules"
    and "calls k' = calls k @ [AbiVersion, CreateRuleset (supported_access_mask abi)] @
       concat (map2 (rule_calls fd (supported_access_mask abi)) rules ps) @
       [SetNoNewPrivs, RestrictSelf fd, CloseFd fd]"
proof -
  from assms obtain abi fd u t1 t2 t3 t4 x t5 where
    c: "syscall AbiVersion k = (Inr abi, t1)"
      "syscall (CreateRuleset (supported_access_mask abi)) t1 = (Inr fd, t2)"
      "for_each rules (\<lambda>r. add_path_rule fd r (supported_access_mask abi)) t2 = (Inr u, t3)"
      "prctl SetNoNewPrivs t3 = (Inr (), t4)" "syscall (RestrictSelf fd) t4 = (Inr x, t5)"
      "os_close fd t5 = (Inr (), k')"
    by (auto simp: apply_landlock_rules_def get_landlock_abi_version_def create_ruleset_def
        set_no_new_privileges_def restrict_self_def bind_Inr andthen_Inr try_finally_Inr ret_def)
  from for_each_rules_calls [OF c(3)] obtain ps where "length ps = length rules"
    "calls t3 = calls t2 @ concat (map2 (rule_calls fd (supported_access_mask abi)) rules ps)"
    by blast
  with c show ?thesis by (intro that [of ps abi fd]) (auto dest!: simple_calls)
qed

section \<open>The entry point restricts before it runs\<close>

definition tester_only_restricted :: "string list \<Rightarrow> runner_state \<Rightarrow> bool" where
  "tester_only_restricted args s \<longleftrightarrow>
     rs_tester_runs s = [] \<or> (\<exists>log. restricted log \<and> rs_tester_runs s = [(log, args)])"

abbreviation ready_to_run :: "runner_state \<Rightarrow> bool" where
  "ready_to_run s \<equiv> rs_tester_runs s = [] \<and> restricted (k_log (rs_kernel s))"

lemma on_kernel_restricts:
  "triple (\<lambda>s. rs_tester_runs s = []) (on_kernel (apply_landlock_rules rules))
     (\<lambda>_. ready_to_run) (\<lambda>_ s. rs_tester_runs s = [])"
  using apply_landlock_rules_restricts [of rules]
  by (fastforce simp: triple_def on_kernel_def split: prod.splits sum.splits)

lemma on_modules_restricted: "triple ready_to_run (on_modules f) (\<lambda>_. ready_to_run) E"
  by (simp add: triple_def on_modules_def)

lemma run_tester_restricted:
  "triple ready_to_run (run_tester tester args)
     (\<lambda>_. tester_only_restricted args) (\<lambda>_. tester_only_restricted args)"
  by (auto simp: triple_def run_tester_def tester_only_restricted_def split: sum.splits)

lemma landlock_main_triple:
  "triple (\<lambda>s. rs_tester_runs s = []) (landlock_main imports tester policy config v e)
     (\<lambda>_. tester_only_restricted (runner_sandbox_arguments config v e))
     (\<lambda>_. tester_only_restricted (runner_sandbox_arguments config v e))"
proof -
  let ?args = "runner_sandbox_arguments config v e" and ?none = "\<lambda>s. rs_tester_runs s = []"
  let ?E = "\<lambda>_. tester_only_restricted ?args"
  have kernel: "triple ?none (on_kernel (apply_landlock_rules rules)) (\<lambda>_. ready_to_run) ?E" for rules
    by (rule triple_weaken [OF on_kernel_restricts]) (auto simp: tester_only_restricted_def)
  show ?thesis
    unfolding landlock_main_def
    by (rule triple_bind [where R = "\<lambda>_. ?none", OF triple_lift_res],
        simp, simp add: tester_only_restricted_def)
      (intro triple_andthen [OF kernel] triple_andthen [OF on_modules_restricted]
        run_tester_restricted)
qed

section \<open>Properties\<close>

text \<open>C27. Access letters are parsed exactly: a string over \<open>r\<close>, \<open>w\<close>, \<open>x\<close> gives the union of its
  letters' rights with the refer and truncate rights; any other string is refused, naming its
  first unknown letter.\<close>

theorem parse_access_spec:
  "parse_access a =
     (if set a \<subseteq> set ''rwx''
      then Inr ((if CHR ''r'' \<in> set a then READ_RIGHTS else 0) OR
                (if CHR ''w'' \<in> set a then WRITE_RIGHTS else 0) OR
                (if CHR ''x'' \<in> set a then EXECUTE_RIGHTS else 0) OR
                (ACCESS_FS_REFER OR ACCESS_FS_TRUNCATE))
      else Inl (ValueError (''Unknown Landlock access right: '' @
             [hd (dropWhile (\<lambda>c. c \<in> set ''rwx'') a)])))"
proof (cases "set a \<subseteq> set ''rwx''")
  case True
  from parse_access_from_valid [OF True, of 0] show ?thesis
    by (simp only: parse_access_def True if_True or.left_neutral)
next
  case False
  from parse_access_from_invalid [OF False, of 0] show ?thesis
    by (simp only: parse_access_def False if_False)
qed

lemma mask_refer_truncate:
  "supported_access_mask abi AND ACCESS_FS_REFER = (if 2 \<le> abi then ACCESS_FS_REFER else 0)"
  "supported_access_mask abi AND ACCESS_FS_TRUNCATE = (if 3 \<le> abi then ACCESS_FS_TRUNCATE else 0)"
  by (simp_all add: supported_access_mask_def rights_defs Let_def)

text \<open>The rights a rule hands to the kernel hold the truncate right whenever the kernel knows it
  (ABI 3) and the refer right from ABI 2 on, whatever the letters of the rule: a rule declared
  read-only lets the tester truncate.\<close>

theorem every_rule_may_truncate:
  assumes "parse_access a = Inr m"
  shows "(m AND supported_access_mask abi) AND ACCESS_FS_REFER =
      (if 2 \<le> abi then ACCESS_FS_REFER else 0) \<and>
    (m AND supported_access_mask abi) AND ACCESS_FS_TRUNCATE =
      (if 3 \<le> abi then ACCESS_FS_TRUNCATE else 0)"
proof -
  have "(ACCESS_FS_REFER OR ACCESS_FS_TRUNCATE) AND ACCESS_FS_REFER = ACCESS_FS_REFER"
    and "(ACCESS_FS_REFER OR ACCESS_FS_TRUNCATE) AND ACCESS_FS_TRUNCATE = ACCESS_FS_TRUNCATE"
    by (simp_all add: access_fs_defs)
  with parse_access_rights(4) [OF assms]
  have "m AND ACCESS_FS_REFER = ACCESS_FS_REFER" and "m AND ACCESS_FS_TRUNCATE = ACCESS_FS_TRUNCATE"
    by (metis and.assoc)+
  with mask_refer_truncate [of abi]
  have "(m AND supported_access_mask abi) AND ACCESS_FS_REFER =
      (if 2 \<le> abi then ACCESS_FS_REFER else 0)"
    and "(m AND supported_access_mask abi) AND ACCESS_FS_TRUNCATE =
      (if 3 \<le> abi then ACCESS_FS_TRUNCATE else 0)"
    by (metis and.assoc and.commute)+
  then show ?thesis by (rule conjI)
qed

theorem every_rule_may_truncate_witness:
  "\<exists>m. parse_access ''r'' = Inr m \<and> m AND WRITE_RIGHTS = 0 \<and>
     (m AND supported_access_mask 3) AND ACCESS_FS_TRUNCATE = ACCESS_FS_TRUNCATE"
proof -
  obtain m where m: "parse_access ''r'' = Inr m"
    by (simp add: parse_access_def ACCESS_BY_NAME_def)
  from every_rule_may_truncate [OF m, of 3] parse_access_rights(2) [OF m] m
  show ?thesis by simp
qed

text \<open>C13. A successful restriction makes exactly these system calls, in this order: the ABI query,
  one ruleset for the rights that ABI knows, for every rule of the policy an open, one
  \<open>add_rule\<close> with the parsed rights cut down to the handled ones and a close, then
  \<open>no_new_privs\<close>, \<open>restrict_self\<close> and the close of the ruleset.\<close>

theorem landlock_call_sequence:
  assumes "apply_landlock_rules rules k = (Inr (), k')"
  shows "\<exists>abi fd ps. length ps = length rules \<and>
    calls k' = calls k @ [AbiVersion, CreateRuleset (supported_access_mask abi)] @
      concat (map2 (rule_calls fd (supported_access_mask abi)) rules ps) @
      [SetNoNewPrivs, RestrictSelf fd, CloseFd fd]"
  using assms by (rule apply_landlock_rules_calls) blast

definition willing_kernel :: kernel where
  "willing_kernel = \<lparr>k_answer = (\<lambda>log c. case c of
       AbiVersion \<Rightarrow> (3, 0) | CreateRuleset _ \<Rightarrow> (5, 0) | OpenPath _ \<Rightarrow> (6, 0) | _ \<Rightarrow> (0, 0)),
     k_log = []\<rparr>"

lemma willing_kernel_run:
  "apply_landlock_rules [\<lparr>pr_path = path_of ''/usr'', pr_access = ''rx''\<rparr>] willing_kernel =
     (Inr (), willing_kernel\<lparr>k_log :=
       [(AbiVersion, 3), (CreateRuleset (supported_access_mask 3), 5),
        (OpenPath (path_of ''/usr''), 6),
        (AddRule 5 6 (READ_RIGHTS OR EXECUTE_RIGHTS OR ACCESS_FS_REFER OR ACCESS_FS_TRUNCATE), 0),
        (CloseFd 6, 0), (SetNoNewPrivs, 0), (RestrictSelf 5, 0), (CloseFd 5, 0)]\<rparr>)"
  by (simp add: willing_kernel_def apply_landlock_rules_def add_path_rule_def kernel_op_defs
      kcall_def bind_def andthen_def ret_def try_finally_def lift_res_def parse_access_def
      ACCESS_BY_NAME_def supported_access_mask_def rights_defs)

theorem landlock_call_sequence_witness:
  "\<exists>fd. [SetNoNewPrivs, RestrictSelf fd, CloseFd fd] =
     drop 5 (calls (snd (apply_landlock_rules
       [\<lparr>pr_path = path_of ''/usr'', pr_access = ''rx''\<rparr>] willing_kernel)))"
proof -
  obtain abi fd ps where "length ps = Suc 0" and
    "calls (willing_kernel\<lparr>k_log :=
       [(AbiVersion, 3), (CreateRuleset (supported_access_mask 3), 5),
        (OpenPath (path_of ''/usr''), 6),
        (AddRule 5 6 (READ_RIGHTS OR EXECUTE_RIGHTS OR ACCESS_FS_REFER OR ACCESS_FS_TRUNCATE), 0),
        (CloseFd 6, 0), (SetNoNewPrivs, 0), (RestrictSelf 5, 0), (CloseFd 5, 0)]\<rparr>) =
      calls willing_kernel @ [AbiVersion, CreateRuleset (supported_access_mask abi)] @
      concat (map2 (rule_calls fd (supported_access_mask abi))
        [\<lparr>pr_path = path_of ''/usr'', pr_access = ''rx''\<rparr>] ps) @
      [SetNoNewPrivs, RestrictSelf fd, CloseFd fd]"
    using landlock_call_sequence [OF willing_kernel_run] by auto
  then show ?thesis
    unfolding willing_kernel_run by (auto simp: calls_def willing_kernel_def)
qed

text \<open>C18. However the kernel answers, and whether the restriction succeeds or raises, it leaves no
  descriptor open that was not open before.\<close>

theorem landlock_no_descriptor_leak:
  "open_fds (k_log (snd (apply_landlock_rules rules k))) \<subseteq> open_fds (k_log k)"
proof -
  note fds = apply_landlock_rules_fds [of "open_fds (k_log k)" rules]
  obtain r k' where run: "apply_landlock_rules rules k = (r, k')" by fastforce
  show ?thesis
  proof (cases r)
    case (Inl e)
    with run triple_Inl [OF fds, of k e k'] show ?thesis by simp
  next
    case (Inr u)
    with run triple_Inr [OF fds, of k u k'] show ?thesis by simp
  qed
qed

text \<open>C1. The bootstrapper never starts Sandbox Tester in an unrestricted process: for every policy,
  every kernel and every outcome, the tester's \<open>main\<close> is called at most once, with the options
  the bootstrapper was given, and before the call \<open>restrict_self\<close> succeeded, and before that
  \<open>no_new_privs\<close>.\<close>

theorem tester_runs_only_restricted:
  assumes "rs_tester_runs s = []"
    and "landlock_main imports tester policy config verbose serialize_evidence s = (r, s')"
  shows "rs_tester_runs s' = [] \<or>
    (\<exists>log. restricted log \<and>
       rs_tester_runs s' = [(log, runner_sandbox_arguments config verbose serialize_evidence)])"
proof (cases r)
  case (Inl e)
  with assms triple_Inl [OF landlock_main_triple, of s "imports" tester policy config verbose
      serialize_evidence e s'] show ?thesis
    by (simp add: tester_only_restricted_def)
next
  case (Inr status)
  with assms triple_Inr [OF landlock_main_triple, of s "imports" tester policy config verbose
      serialize_evidence status s'] show ?thesis
    by (simp add: tester_only_restricted_def)
qed

theorem tester_runs_only_restricted_witness:
  "\<exists>log. restricted log \<and> rs_tester_runs (snd (landlock_main id (\<lambda>_. Inr 0)
     (JObj [(''rules'', JList [JObj [(''path'', JStr ''/usr''), (''access'', JStr ''rx'')]])])
     (path_of ''/c.json'') False False
     \<lparr>rs_kernel = willing_kernel, rs_modules = [], rs_tester_runs = []\<rparr>)) =
     [(log, [''--config'', ''/c.json''])]"
proof -
  let ?s = "\<lparr>rs_kernel = willing_kernel, rs_modules = [], rs_tester_runs = []\<rparr>"
  let ?policy = "JObj [(''rules'', JList [JObj [(''path'', JStr ''/usr''), (''access'', JStr ''rx'')]])]"
  have policy: "read_policy ?policy = Inr [\<lparr>pr_path = path_of ''/usr'', pr_access = ''rx''\<rparr>]"
    by (simp add: read_policy_def json_get_default_def path_rule_from_json_def)
  obtain r s' where main: "landlock_main id (\<lambda>_. Inr 0) ?policy (path_of ''/c.json'') False False ?s = (r, s')"
    by (cases "landlock_main id (\<lambda>_. Inr 0) ?policy (path_of ''/c.json'') False False ?s")
  then have "rs_tester_runs s' \<noteq> []"
    by (auto simp: landlock_main_def policy lift_res_def andthen_def bind_def on_kernel_def
        willing_kernel_run on_modules_def run_tester_def)
  moreover have "path_str (path_of ''/c.json'') = ''/c.json''" by code_simp
  ultimately show ?thesis
    using main tester_runs_only_restricted [OF _ main] by (simp add: runner_sandbox_arguments_def)
qed

end
