(* ===== verification/Runtime_Guards.thy ===== *)
theory Runtime_Guards
  imports Posix_Path Ip_Address
begin

text \<open>
  \<open>src/docker_sandbox/dockerfile/runtime_sitecustomize.py\<close>: the guards a hardened image puts
  into every Python process before user code runs. \<open>environ\<close> is the process environment as a
  map, \<open>resolve\<close> is \<open>Path.resolve(strict=False)\<close> on the process's file system (it may raise),
  and a dynamically typed argument is a \<open>pyobj\<close>. A guarded function takes the original it
  wraps as its first argument. Decoding \<open>bytes\<close> keeps the characters: every marker compared
  with is ASCII, which \<open>os.fsdecode\<close> never creates or removes.
\<close>

section \<open>Dynamic values\<close>

datatype pyobj =
    PNone
  | PInt int
  | PStr string
  | PBytes string
  | PPath path
  | PList "pyobj list"
  | PTuple "pyobj list"

type_synonym environ = "string \<Rightarrow> string option"

text \<open>\<open>os.fsdecode\<close> and \<open>str\<close> on these values.\<close>

fun fsdecode :: "pyobj \<Rightarrow> string res" where
  "fsdecode (PStr s) = Inr s"
| "fsdecode (PBytes s) = Inr s"
| "fsdecode (PPath p) = Inr (path_str p)"
| "fsdecode _ = Inl (TypeError ''expected str, bytes or os.PathLike object'')"

section \<open>Denied imports\<close>

definition DENIED_IMPORT_MODULES :: "string set" where
  "DENIED_IMPORT_MODULES =
     {''_ctypes'', ''ctypes'', ''ensurepip'', ''pip'', ''setuptools'', ''wheel''}"

definition is_landlock_bootstrap_import :: "string list \<Rightarrow> string \<Rightarrow> bool" where
  "is_landlock_bootstrap_import stack module_name \<longleftrightarrow>
     module_name \<in> {''_ctypes'', ''ctypes''} \<and>
     list_ex (\<lambda>file. starts_with (rev file) (rev ''/docker_sandbox/landlock_runner.py'')) stack"

text \<open>\<open>_DeniedModuleFinder.find_spec\<close>; a normal return is \<open>None\<close>, "not mine". \<open>stack\<close> holds the
  file names of the calling frames.\<close>

definition denied_module_find_spec :: "string list \<Rightarrow> string \<Rightarrow> unit res" where
  "denied_module_find_spec stack fullname =
     (let module_name = takeWhile (\<lambda>c. c \<noteq> CHR ''.'') fullname
      in if module_name \<in> DENIED_IMPORT_MODULES
         then if is_landlock_bootstrap_import stack module_name then Inr ()
              else Inl (ModuleNotFoundError (py_repr fullname @ '' is denied by sandbox profile''))
         else Inr ())"

section \<open>Writable code\<close>

definition denied_code_roots :: "(path \<Rightarrow> path res) \<Rightarrow> path list res" where
  "denied_code_roots resolve =
     res_map (\<lambda>s. resolve (path_of s)) [''/sandbox-output'', ''/sandbox-work'', ''/tmp'']"

definition path_is_under_denied_code_root ::
    "(path \<Rightarrow> path res) \<Rightarrow> path list \<Rightarrow> pyobj \<Rightarrow> bool res" where
  "path_is_under_denied_code_root resolve roots path =
     (let check = (\<lambda>text.
        if text = [] then Inr False
        else case resolve (path_of text) of
            Inl (OSError n) \<Rightarrow> Inr False
          | Inl (PermissionError m) \<Rightarrow> Inr False
          | Inl (FileNotFoundError m) \<Rightarrow> Inr False
          | Inl (FileExistsError m) \<Rightarrow> Inr False
          | Inl e \<Rightarrow> Inl e
          | Inr resolved_path \<Rightarrow> Inr (list_ex (is_relative resolved_path) roots))
      in case path of
          PStr s \<Rightarrow> check s
        | PPath p \<Rightarrow> check (path_str p)
        | _ \<Rightarrow> Inr False)"

text \<open>\<open>_DeniedWritableCodeFinder.find_spec\<close>.\<close>

text \<open>The refusal shows the \<open>repr\<close> of the path; only strings and paths are ever refused.\<close>

fun path_repr :: "pyobj \<Rightarrow> string" where
  "path_repr (PStr s) = py_repr s"
| "path_repr (PPath p) = ''PosixPath('' @ py_repr (path_str p) @ '')''"
| "path_repr _ = []"

definition writable_refusal :: "string \<Rightarrow> pyobj \<Rightarrow> py_error" where
  "writable_refusal name v = ModuleNotFoundError (''Importing '' @ py_repr name @
     '' from writable path '' @ path_repr v @ '' is denied by sandbox profile'')"

fun deny_writable_search ::
    "(path \<Rightarrow> path res) \<Rightarrow> path list \<Rightarrow> string \<Rightarrow> pyobj list \<Rightarrow> unit res" where
  "deny_writable_search resolve roots fullname [] = Inr ()"
| "deny_writable_search resolve roots fullname (p # ps) =
     res_bind (path_is_under_denied_code_root resolve roots p) (\<lambda>denied.
       if denied then Inl (writable_refusal fullname p)
       else deny_writable_search resolve roots fullname ps)"

definition denied_writable_find_spec ::
    "(path \<Rightarrow> path res) \<Rightarrow> path list \<Rightarrow> pyobj list \<Rightarrow> string \<Rightarrow> pyobj list option \<Rightarrow> unit res" where
  "denied_writable_find_spec resolve roots sys_path fullname path =
     deny_writable_search resolve roots fullname
       (case path of Some search_paths \<Rightarrow> search_paths | None \<Rightarrow> sys_path)"

definition get_script_path ::
    "(path \<Rightarrow> path res) \<Rightarrow> path \<Rightarrow> string list \<Rightarrow> path option res" where
  "get_script_path resolve cwd argv =
     (case argv of
        [] \<Rightarrow> Inr None
      | script_name # _ \<Rightarrow>
          if script_name = [] \<or> script_name \<in> {''-c'', ''-m''} then Inr None
          else let script_path = path_of script_name;
                   script_path = (if is_absolute script_path then script_path
                                  else path_join cwd script_path)
               in res_bind (resolve script_path) (\<lambda>p. Inr (Some p)))"

definition deny_writable_script_execution ::
    "(path \<Rightarrow> path res) \<Rightarrow> path list \<Rightarrow> path \<Rightarrow> string list \<Rightarrow> unit res" where
  "deny_writable_script_execution resolve roots cwd argv =
     res_bind (get_script_path resolve cwd argv) (\<lambda>script_path.
       case script_path of
         None \<Rightarrow> Inr ()
       | Some p \<Rightarrow> res_bind (path_is_under_denied_code_root resolve roots (PPath p)) (\<lambda>denied.
           if denied then Inl (SystemExit 126) else Inr ()))"

definition guarded_spec_from_file_location ::
    "(string \<Rightarrow> pyobj \<Rightarrow> 'r res) \<Rightarrow> (path \<Rightarrow> path res) \<Rightarrow> path list \<Rightarrow> string \<Rightarrow> pyobj \<Rightarrow> 'r res" where
  "guarded_spec_from_file_location original resolve roots name location =
     res_bind (path_is_under_denied_code_root resolve roots location) (\<lambda>denied.
       if denied then Inl (writable_refusal name location) else original name location)"

section \<open>Switches\<close>

definition enabled :: "environ \<Rightarrow> string \<Rightarrow> bool" where
  "enabled environ name \<longleftrightarrow>
     py_lower (case environ name of None \<Rightarrow> [] | Some v \<Rightarrow> v) \<in> {''1'', ''true'', ''yes''}"

definition udp_denied :: "environ \<Rightarrow> bool" where
  "udp_denied environ = enabled environ ''SANDBOX_DENY_UDP''"

definition all_interface_bind_denied :: "environ \<Rightarrow> bool" where
  "all_interface_bind_denied environ = enabled environ ''SANDBOX_DENY_ALL_INTERFACE_BIND''"

definition metadata_denied :: "environ \<Rightarrow> bool" where
  "metadata_denied environ = enabled environ ''SANDBOX_DENY_METADATA_ENDPOINTS''"

definition socket_guards_enabled :: "environ \<Rightarrow> bool" where
  "socket_guards_enabled environ \<longleftrightarrow>
     udp_denied environ \<or> all_interface_bind_denied environ \<or> metadata_denied environ"

definition hardware_device_enumeration_denied :: "environ \<Rightarrow> bool" where
  "hardware_device_enumeration_denied environ =
     enabled environ ''SANDBOX_DENY_HARDWARE_DEVICE_ENUMERATION''"

definition process_spawn_denied :: "environ \<Rightarrow> bool" where
  "process_spawn_denied environ = enabled environ ''SANDBOX_DENY_PROCESS_SPAWN''"

section \<open>Sockets\<close>

text \<open>The values of the \<open>socket\<close> module on Linux, where the image runs.\<close>

definition AF_INET :: int where "AF_INET = 2"
definition AF_INET6 :: int where "AF_INET6 = 10"
definition SOCK_STREAM :: int where "SOCK_STREAM = 1"
definition SOCK_DGRAM :: int where "SOCK_DGRAM = 2"
definition SOCK_RAW :: int where "SOCK_RAW = 3"

definition is_udp_socket :: "int \<Rightarrow> int \<Rightarrow> bool" where
  "is_udp_socket family socket_type =
     (if socket_type AND SOCK_DGRAM \<noteq> SOCK_DGRAM then False
      else family \<in> {AF_INET, AF_INET6, -1})"

text \<open>Membership in a set hashes the element first, which a list refuses.\<close>

fun hashable :: "pyobj \<Rightarrow> bool" where
  "hashable (PList xs) = False"
| "hashable (PTuple xs) = list_all hashable xs"
| "hashable _ = True"

definition is_all_interface_bind :: "pyobj \<Rightarrow> bool res" where
  "is_all_interface_bind address =
     (case address of
        PTuple (host # _) \<Rightarrow>
          (if hashable host then Inr (host \<in> {PStr '''', PStr ''0.0.0.0'', PStr ''::''})
           else Inl (TypeError ''unhashable type''))
      | _ \<Rightarrow> Inr False)"

definition DENIED_METADATA_HOSTS :: "string set" where
  "DENIED_METADATA_HOSTS = {''169.254.169.254'', ''metadata.google.internal''}"

definition DENIED_METADATA_NETWORKS :: "ip_network list" where
  "DENIED_METADATA_NETWORKS =
     [\<lparr>net_address = V4 0xA9FE0000, net_prefix = 16\<rparr>,
      \<lparr>net_address = V6 0xFE800000000000000000000000000000, net_prefix = 10\<rparr>]"

text \<open>\<open>str(address[0])\<close> is the string itself for a string; \<open>str_of\<close> stands for \<open>str\<close> on every
  other object, which is that object's own code.\<close>

definition py_str :: "(pyobj \<Rightarrow> string) \<Rightarrow> pyobj \<Rightarrow> string" where
  "py_str str_of v = (case v of PStr s \<Rightarrow> s | _ \<Rightarrow> str_of v)"

definition raise_if_metadata_address :: "(pyobj \<Rightarrow> string) \<Rightarrow> environ \<Rightarrow> pyobj \<Rightarrow> unit res" where
  "raise_if_metadata_address str_of environ address =
     (if \<not> metadata_denied environ then Inr ()
      else case address of
          PTuple (h # _) \<Rightarrow>
            (let host = py_lower (strip_by (\<lambda>c. c \<in> set ''[]'') (py_str str_of h))
             in if host \<in> DENIED_METADATA_HOSTS
                then Inl (PermissionError ''Metadata endpoint access is denied by sandbox profile'')
                else case ip_address host of
                    None \<Rightarrow> Inr ()
                  | Some ip \<Rightarrow>
                      if list_ex (ip_in_network ip) DENIED_METADATA_NETWORKS
                      then Inl (PermissionError
                             ''Metadata endpoint access is denied by sandbox profile'')
                      else Inr ())
        | _ \<Rightarrow> Inr ())"

text \<open>\<open>_GuardedSocket\<close> and \<open>guarded_create_connection\<close>, as installed when any switch is on.\<close>

definition guarded_socket_init :: "(int \<Rightarrow> int \<Rightarrow> 'r res) \<Rightarrow> environ \<Rightarrow> int \<Rightarrow> int \<Rightarrow> 'r res" where
  "guarded_socket_init original environ family socket_type =
     (if udp_denied environ \<and> is_udp_socket family socket_type
      then Inl (PermissionError ''UDP sockets are denied by sandbox profile'')
      else original family socket_type)"

definition guarded_bind :: "(pyobj \<Rightarrow> 'r res) \<Rightarrow> environ \<Rightarrow> pyobj \<Rightarrow> 'r res" where
  "guarded_bind original environ address =
     (if \<not> all_interface_bind_denied environ then original address
      else res_bind (is_all_interface_bind address) (\<lambda>denied.
        if denied
        then Inl (PermissionError ''All-interface binds are denied by sandbox profile'')
        else original address))"

definition guarded_connect ::
    "(pyobj \<Rightarrow> 'r res) \<Rightarrow> (pyobj \<Rightarrow> string) \<Rightarrow> environ \<Rightarrow> pyobj \<Rightarrow> 'r res" where
  "guarded_connect original str_of environ address =
     res_bind (raise_if_metadata_address str_of environ address) (\<lambda>_. original address)"

section \<open>Commands, devices, processes\<close>

definition DENIED_HARDWARE_COMMAND_MARKERS :: "string list" where
  "DENIED_HARDWARE_COMMAND_MARKERS =
     [''/dev/snd'', ''/sys/bus/usb'', ''/sys/class/bluetooth'', ''arecord'', ''bluetoothctl'',
      ''lpstat'', ''lsusb'', ''ttyACM'', ''ttyS'', ''ttyUSB'', ''video*'', ''video4linux2'']"

definition ALLOWED_PROCESS_SPAWN_MARKERS :: "string list" where
  "ALLOWED_PROCESS_SPAWN_MARKERS = [''/ms-playwright/'', ''/playwright/driver/'']"

fun command_text :: "pyobj \<Rightarrow> string res" where
  "command_text (PStr s) = Inr s"
| "command_text (PBytes s) = Inr s"
| "command_text (PPath p) = Inr (path_str p)"
| "command_text (PList items) = res_bind (res_map fsdecode items) (\<lambda>ws. Inr (py_join '' '' ws))"
| "command_text (PTuple items) = res_bind (res_map fsdecode items) (\<lambda>ws. Inr (py_join '' '' ws))"
| "command_text _ = Inr []"

definition is_denied_hardware_command :: "pyobj \<Rightarrow> bool res" where
  "is_denied_hardware_command args =
     res_bind (command_text args) (\<lambda>text.
       Inr (text \<noteq> [] \<and> list_ex (\<lambda>marker. contains marker text) DENIED_HARDWARE_COMMAND_MARKERS))"

definition is_allowed_process_spawn :: "pyobj \<Rightarrow> bool res" where
  "is_allowed_process_spawn args =
     res_bind (command_text args) (\<lambda>text.
       if text = [] then Inr False
       else let normalized_text = replace_char (CHR 0x5C) ''/'' text
            in Inr (list_ex (\<lambda>marker. contains marker normalized_text)
                 ALLOWED_PROCESS_SPAWN_MARKERS))"

definition path_text :: "pyobj \<Rightarrow> string option" where
  "path_text path = (case fsdecode path of Inr s \<Rightarrow> Some s | Inl _ \<Rightarrow> None)"

definition is_denied_hardware_path :: "pyobj \<Rightarrow> bool" where
  "is_denied_hardware_path path =
     (case path_text path of
        None \<Rightarrow> False
      | Some text \<Rightarrow> text \<in> {''/dev/snd'', ''/sys/bus/usb'', ''/sys/class/bluetooth''})"

definition is_denied_hardware_glob :: "pyobj \<Rightarrow> pyobj \<Rightarrow> bool" where
  "is_denied_hardware_glob path pattern =
     (if path_text path \<noteq> Some ''/dev'' then False
      else path_text pattern \<in> Some ` {''video*'', ''ttyS*'', ''ttyUSB*'', ''ttyACM*''})"

definition raise_if_process_spawn_denied :: "pyobj \<Rightarrow> unit res" where
  "raise_if_process_spawn_denied args =
     res_bind (is_allowed_process_spawn args) (\<lambda>allowed.
       if allowed then Inr ()
       else Inl (PermissionError ''Process spawning is denied by sandbox profile''))"

section \<open>Installation\<close>

text \<open>What the names the module patches are bound to. Every wrapper calls the original that was
  captured when the module was imported, not what the name was bound to before it.\<close>

datatype impl =
    OriginalFunction
  | GuardedSpecFromFileLocation
  | GuardedSocketClass
  | GuardedCreateConnection
  | HardwareGuardedRun
  | HardwareGuardedExists
  | HardwareGuardedGlob
  | HardwareGuardedIterdir
  | SpawnGuardedPopen
  | SpawnGuardedRun
  | DeniedSpawn

type_synonym bindings = "(string, impl) dict"

definition deny_writable_spec_from_file_location :: "bindings \<Rightarrow> bindings" where
  "deny_writable_spec_from_file_location b =
     dict_set ''importlib.util.spec_from_file_location'' GuardedSpecFromFileLocation b"

definition apply_socket_guards :: "environ \<Rightarrow> bindings \<Rightarrow> bindings" where
  "apply_socket_guards environ b =
     (if \<not> socket_guards_enabled environ then b
      else dict_set ''socket.create_connection'' GuardedCreateConnection
             (dict_set ''socket.socket'' GuardedSocketClass b))"

definition apply_hardware_device_guards :: "environ \<Rightarrow> bindings \<Rightarrow> bindings" where
  "apply_hardware_device_guards environ b =
     (if \<not> hardware_device_enumeration_denied environ then b
      else fold (\<lambda>(name, f). dict_set name f)
             [(''subprocess.run'', HardwareGuardedRun),
              (''Path.exists'', HardwareGuardedExists),
              (''Path.glob'', HardwareGuardedGlob),
              (''Path.iterdir'', HardwareGuardedIterdir)] b)"

definition OS_SPAWN_NAMES :: "string list" where
  "OS_SPAWN_NAMES =
     [''os.spawnl'', ''os.spawnle'', ''os.spawnlp'', ''os.spawnlpe'',
      ''os.spawnv'', ''os.spawnve'', ''os.spawnvp'', ''os.spawnvpe'']"

definition set_if_present :: "impl \<Rightarrow> string \<Rightarrow> bindings \<Rightarrow> bindings" where
  "set_if_present f name b = (if dict_get b name = None then b else dict_set name f b)"

definition spawn_assignments :: "(string \<times> impl) list" where
  "spawn_assignments =
     [(''subprocess.Popen'', SpawnGuardedPopen),
      (''subprocess.run'', SpawnGuardedRun),
      (''subprocess.call'', SpawnGuardedRun),
      (''subprocess.check_call'', SpawnGuardedRun),
      (''subprocess.check_output'', SpawnGuardedRun),
      (''os.system'', DeniedSpawn),
      (''os.popen'', DeniedSpawn)]"

definition apply_process_spawn_guards :: "environ \<Rightarrow> bindings \<Rightarrow> bindings" where
  "apply_process_spawn_guards environ b =
     (if \<not> process_spawn_denied environ then b
      else set_if_present DeniedSpawn ''pty.spawn''
        (fold (set_if_present DeniedSpawn) OS_SPAWN_NAMES
          (fold (\<lambda>(name, f). dict_set name f) spawn_assignments b)))"

datatype finder = DeniedModuleFinder | DeniedWritableCodeFinder | OtherFinder string

record runtime =
  rt_bindings :: bindings
  rt_meta_path :: "finder list"

text \<open>The module body: the seven statements at the end of the file, in their order.\<close>

definition install_guards ::
    "(path \<Rightarrow> path res) \<Rightarrow> environ \<Rightarrow> path \<Rightarrow> string list \<Rightarrow> runtime \<Rightarrow> runtime res" where
  "install_guards resolve environ cwd argv rt =
     res_bind (denied_code_roots resolve) (\<lambda>roots.
     res_bind (deny_writable_script_execution resolve roots cwd argv) (\<lambda>_.
       Inr \<lparr>rt_bindings =
              apply_process_spawn_guards environ
                (apply_hardware_device_guards environ
                  (apply_socket_guards environ
                    (deny_writable_spec_from_file_location (rt_bindings rt)))),
            rt_meta_path =
              DeniedModuleFinder # DeniedWritableCodeFinder # rt_meta_path rt\<rparr>))"

text \<open>A call of a command-running name with the given arguments, through what it is bound to.\<close>

definition run_command :: "(pyobj \<Rightarrow> 'r res) \<Rightarrow> impl \<Rightarrow> pyobj \<Rightarrow> 'r res" where
  "run_command original f args =
     (case f of
        HardwareGuardedRun \<Rightarrow>
          res_bind (is_denied_hardware_command args) (\<lambda>denied.
            if denied
            then Inl (PermissionError ''Hardware device enumeration is denied by sandbox profile'')
            else original args)
      | SpawnGuardedPopen \<Rightarrow> res_bind (raise_if_process_spawn_denied args) (\<lambda>_. original args)
      | SpawnGuardedRun \<Rightarrow> res_bind (raise_if_process_spawn_denied args) (\<lambda>_. original args)
      | DeniedSpawn \<Rightarrow> Inl (PermissionError ''Process spawning is denied by sandbox profile'')
      | _ \<Rightarrow> original args)"

text \<open>\<open>Path.exists\<close>, \<open>Path.iterdir\<close> and \<open>Path.glob\<close> through their bindings.\<close>

definition query_path :: "(pyobj \<Rightarrow> 'r res) \<Rightarrow> impl \<Rightarrow> pyobj \<Rightarrow> 'r res" where
  "query_path original f p =
     (if f \<in> {HardwareGuardedExists, HardwareGuardedIterdir} \<and> is_denied_hardware_path p
      then Inl (PermissionError ''Hardware device enumeration is denied by sandbox profile'')
      else original p)"

definition glob_path :: "(pyobj \<Rightarrow> pyobj \<Rightarrow> 'r res) \<Rightarrow> impl \<Rightarrow> pyobj \<Rightarrow> pyobj \<Rightarrow> 'r res" where
  "glob_path original f p pattern =
     (if f = HardwareGuardedGlob \<and> is_denied_hardware_glob p pattern
      then Inl (PermissionError ''Hardware device enumeration is denied by sandbox profile'')
      else original p pattern)"

section \<open>What the guards decide\<close>

lemma enabled_one [simp]: "environ name = Some ''1'' \<Longrightarrow> enabled environ name"
  by (simp add: enabled_def py_lower_def lower_char_def is_upper_def code_def)

lemma udp_bit: "t AND SOCK_DGRAM = SOCK_DGRAM \<longleftrightarrow> bit t 1" for t :: int
proof -
  have two: "bit SOCK_DGRAM n \<longleftrightarrow> n = 1" for n
    using bit_exp_iff [of 1 n, where ?'a = int] by (simp add: SOCK_DGRAM_def)
  show ?thesis
  proof
    assume "t AND SOCK_DGRAM = SOCK_DGRAM"
    with two [of 1] show "bit t 1" by (metis bit_and_iff)
  next
    assume "bit t 1"
    with two show "t AND SOCK_DGRAM = SOCK_DGRAM" by (intro bit_eqI) (auto simp: bit_and_iff)
  qed
qed

text \<open>The UDP guard decides by one bit: with the switch on, a socket is refused exactly when
  the family is IPv4, IPv6 or the default and bit 1 of the type is set; every other socket is
  created by the original constructor.\<close>

theorem udp_guard_decides:
  "guarded_socket_init original environ family socket_type =
     (if udp_denied environ \<and> family \<in> {AF_INET, AF_INET6, -1} \<and> bit socket_type 1
      then Inl (PermissionError ''UDP sockets are denied by sandbox profile'')
      else original family socket_type)"
  by (auto simp: guarded_socket_init_def is_udp_socket_def udp_bit)

text \<open>The guard refuses more than UDP: \<open>socket.socket()\<close> with its default arguments, which
  makes a TCP socket, and raw sockets are refused as UDP.\<close>

theorem default_tcp_socket_refused:
  "udp_denied environ \<Longrightarrow>
   guarded_socket_init original environ (-1) (-1) =
     Inl (PermissionError ''UDP sockets are denied by sandbox profile'') \<and>
   guarded_socket_init original environ AF_INET SOCK_RAW =
     Inl (PermissionError ''UDP sockets are denied by sandbox profile'')"
  by (simp add: guarded_socket_init_def is_udp_socket_def SOCK_DGRAM_def SOCK_RAW_def AF_INET_def
      AF_INET6_def)

definition deny_all_environ :: environ where
  "deny_all_environ = (\<lambda>_. Some ''1'')"

lemma deny_all_environ [simp]: "enabled deny_all_environ name"
  by (simp add: deny_all_environ_def)

theorem default_tcp_socket_refused_witness:
  "guarded_socket_init (\<lambda>f t. Inr (f, t)) deny_all_environ (-1) (-1) =
     Inl (PermissionError ''UDP sockets are denied by sandbox profile'')"
  using default_tcp_socket_refused [of deny_all_environ "\<lambda>f t. Inr (f, t)"]
  by (simp add: udp_denied_def)

section \<open>Metadata endpoints\<close>

abbreviation metadata_refusal :: "'r res" where
  "metadata_refusal \<equiv>
     Inl (PermissionError ''Metadata endpoint access is denied by sandbox profile'')"

definition metadata_host :: "string \<Rightarrow> string" where
  "metadata_host h = py_lower (strip_by (\<lambda>c. c \<in> set ''[]'') h)"

lemma metadata_guard_cases:
  assumes "metadata_denied environ"
  shows "guarded_connect original str_of environ (PTuple (PStr h # rest)) =
    (if metadata_host h \<in> DENIED_METADATA_HOSTS then metadata_refusal
     else case ip_address (metadata_host h) of
        None \<Rightarrow> original (PTuple (PStr h # rest))
      | Some (V4 a) \<Rightarrow> if a AND 0xFFFF0000 = 0xA9FE0000 then metadata_refusal
          else original (PTuple (PStr h # rest))
      | Some (V6 a) \<Rightarrow>
          if a AND 0xFFC00000000000000000000000000000 = 0xFE800000000000000000000000000000
          then metadata_refusal else original (PTuple (PStr h # rest)))"
proof -
  have "(netmask 16 :: 32 word) = 0xFFFF0000"
    and "(netmask 10 :: 128 word) = 0xFFC00000000000000000000000000000"
    by (simp_all add: netmask_def mask_eq_exp_minus_1)
  with assms show ?thesis
    by (auto simp: guarded_connect_def raise_if_metadata_address_def metadata_host_def py_str_def
        DENIED_METADATA_NETWORKS_def Let_def split: option.split ip.split)
qed

text \<open>C25. With the metadata switch on, a connection to a host is refused exactly when the host,
  without brackets and in lower case, is one of the two metadata names, an IPv4 address in
  169.254.0.0/16 or an IPv6 address in fe80::/10; every other connection reaches the original.\<close>

theorem metadata_guard_decides:
  assumes "metadata_denied environ"
  shows "guarded_connect original str_of environ (PTuple (PStr h # rest)) =
    (if metadata_host h \<in> DENIED_METADATA_HOSTS \<or>
        (\<exists>a. ip_address (metadata_host h) = Some (V4 a) \<and> a AND 0xFFFF0000 = 0xA9FE0000) \<or>
        (\<exists>a. ip_address (metadata_host h) = Some (V6 a) \<and>
           a AND 0xFFC00000000000000000000000000000 = 0xFE800000000000000000000000000000)
     then metadata_refusal else original (PTuple (PStr h # rest)))"
  using metadata_guard_cases [OF assms, of original str_of h rest]
  by (auto split: option.splits ip.splits)

theorem metadata_guard_decides_witness:
  "guarded_connect Inr (\<lambda>_. []) deny_all_environ (PTuple [PStr ''169.254.169.253'', PInt 80]) =
     metadata_refusal"
proof -
  have "metadata_denied deny_all_environ" by (simp add: metadata_denied_def)
  moreover have "metadata_host ''169.254.169.253'' \<notin> DENIED_METADATA_HOSTS"
    and "ip_address (metadata_host ''169.254.169.253'') = Some (V4 0xA9FEA9FD)"
    by code_simp+
  ultimately show ?thesis
    using metadata_guard_decides [of deny_all_environ Inr "\<lambda>_. []" "''169.254.169.253''" "[PInt 80]"]
    by simp
qed

text \<open>The guard misses the IPv4-mapped spelling of the metadata address: the connection to
  \<open>::ffff:169.254.169.254\<close>, which an IPv6 socket sends to 169.254.169.254, is made.\<close>

theorem ipv4_mapped_metadata_reached:
  "guarded_connect original str_of environ (PTuple [PStr ''::ffff:169.254.169.254'', port]) =
     original (PTuple [PStr ''::ffff:169.254.169.254'', port])"
proof (cases "metadata_denied environ")
  case True
  have "metadata_host ''::ffff:169.254.169.254'' \<notin> DENIED_METADATA_HOSTS"
    and "ip_address (metadata_host ''::ffff:169.254.169.254'') = Some (V6 0xFFFFA9FEA9FE)"
    by code_simp+
  with True show ?thesis by (simp add: metadata_guard_cases)
next
  case False
  then show ?thesis by (simp add: guarded_connect_def raise_if_metadata_address_def)
qed

section \<open>Spawning processes\<close>

definition SPAWN_NAMES :: "string list" where
  "SPAWN_NAMES =
     [''subprocess.Popen'', ''subprocess.run'', ''subprocess.call'', ''subprocess.check_call'',
      ''subprocess.check_output'', ''os.system'', ''os.popen'', ''pty.spawn''] @ OS_SPAWN_NAMES"

definition has_spawn_marker :: "string \<Rightarrow> bool" where
  "has_spawn_marker text \<longleftrightarrow>
     list_ex (\<lambda>marker. contains marker (replace_char (CHR 0x5C) ''/'' text))
       ALLOWED_PROCESS_SPAWN_MARKERS"

lemma dict_get_set_if_present:
  "dict_get (set_if_present f n b) m =
     (if m = n \<and> dict_get b n \<noteq> None then Some f else dict_get b m)"
  by (simp add: set_if_present_def)

lemma dict_get_set_if_present_all:
  "dict_get (fold (set_if_present f) names b) m =
     (if m \<in> set names \<and> dict_get b m \<noteq> None then Some f else dict_get b m)"
  by (induction names arbitrary: b) (auto simp: dict_get_set_if_present)

lemma spawn_assignments_disjoint:
  "name \<in> set (''pty.spawn'' # OS_SPAWN_NAMES) \<Longrightarrow> map_of spawn_assignments name = None"
  by (auto simp: spawn_assignments_def OS_SPAWN_NAMES_def)

lemma map_of_rev_spawn_assignments: "map_of (rev spawn_assignments) = map_of spawn_assignments"
proof -
  have "distinct (map fst spawn_assignments)" by (simp add: spawn_assignments_def)
  then show ?thesis by (intro map_of_inject_set [THEN iffD2]) (auto simp: rev_map [symmetric])
qed

lemma dict_get_apply_process_spawn_guards:
  assumes "process_spawn_denied environ"
  shows "dict_get (apply_process_spawn_guards environ b) name =
    (case map_of spawn_assignments name of Some f \<Rightarrow> Some f
     | None \<Rightarrow> if name \<in> set (''pty.spawn'' # OS_SPAWN_NAMES) \<and> dict_get b name \<noteq> None
         then Some DeniedSpawn else dict_get b name)"
proof -
  let ?b = "fold (\<lambda>(name, f). dict_set name f) spawn_assignments b"
  have b: "dict_get ?b n = (case map_of spawn_assignments n of Some f \<Rightarrow> Some f | None \<Rightarrow> dict_get b n)"
    for n by (simp only: dict_get_set_all map_of_rev_spawn_assignments)
  have "dict_get (apply_process_spawn_guards environ b) name =
      (if name \<in> set (''pty.spawn'' # OS_SPAWN_NAMES) \<and> dict_get ?b name \<noteq> None
       then Some DeniedSpawn else dict_get ?b name)"
    using assms
    by (auto simp add: apply_process_spawn_guards_def dict_get_set_if_present
        dict_get_set_if_present_all simp del: fold_simps)
  then show ?thesis
    using spawn_assignments_disjoint [of name]
    by (cases "map_of spawn_assignments name") (auto simp add: b simp del: set_simps fold_simps)
qed

lemma dict_get_apply_process_spawn_guards_run:
  "process_spawn_denied environ \<Longrightarrow>
   dict_get (apply_process_spawn_guards environ b) ''subprocess.run'' = Some SpawnGuardedRun"
  by (simp only: dict_get_apply_process_spawn_guards) (simp add: spawn_assignments_def)

lemma spawn_guard_bindings:
  assumes "process_spawn_denied environ" and "name \<in> set SPAWN_NAMES"
    and "dict_get (apply_process_spawn_guards environ b) name = Some f"
  shows "f \<in> {SpawnGuardedPopen, SpawnGuardedRun, DeniedSpawn}"
proof (cases "map_of spawn_assignments name")
  case None
  then have "name \<in> set (''pty.spawn'' # OS_SPAWN_NAMES)"
    using assms(2) by (auto simp: SPAWN_NAMES_def spawn_assignments_def split: if_splits)
  with None assms(3) show ?thesis
    by (simp only: dict_get_apply_process_spawn_guards [OF assms(1)] option.simps) (auto split: if_splits)
next
  case (Some g)
  then have "g \<in> snd ` set spawn_assignments" by (force dest: map_of_SomeD)
  with Some assms(3) show ?thesis
    by (auto simp: dict_get_apply_process_spawn_guards [OF assms(1)] spawn_assignments_def)
qed

lemma is_allowed_process_spawn_text:
  "command_text args = Inr text \<Longrightarrow>
   is_allowed_process_spawn args = Inr (text \<noteq> [] \<and> has_spawn_marker text)"
  by (simp add: is_allowed_process_spawn_def has_spawn_marker_def Let_def)

lemma run_spawn_guarded:
  "f \<in> {SpawnGuardedPopen, SpawnGuardedRun} \<Longrightarrow> command_text args = Inr text \<Longrightarrow>
   run_command original f args =
     (if text \<noteq> [] \<and> has_spawn_marker text then original args
      else Inl (PermissionError ''Process spawning is denied by sandbox profile''))"
  by (auto simp: run_command_def raise_if_process_spawn_denied_def is_allowed_process_spawn_text)

text \<open>C11. With the spawn switch on, whichever of the patched names a program calls, a command
  whose text holds neither browser marker is refused and the original is not called: the
  installation leaves no patched name bound to a function that would run it.\<close>

theorem spawn_guard_refuses:
  assumes "process_spawn_denied environ"
    and "install_guards resolve environ cwd argv rt = Inr rt'"
    and "name \<in> set SPAWN_NAMES" and "dict_get (rt_bindings rt') name = Some f"
    and "command_text args = Inr text" and "\<not> has_spawn_marker text"
  shows "run_command original f args =
     Inl (PermissionError ''Process spawning is denied by sandbox profile'')"
proof -
  from assms(2) obtain b where "rt_bindings rt' = apply_process_spawn_guards environ b"
    by (auto simp: install_guards_def res_bind_eq_Inr)
  with assms spawn_guard_bindings have "f \<in> {SpawnGuardedPopen, SpawnGuardedRun, DeniedSpawn}"
    by metis
  then consider "f \<in> {SpawnGuardedPopen, SpawnGuardedRun}" | "f = DeniedSpawn" by blast
  then show ?thesis
    using assms(5,6) by cases (auto simp: run_spawn_guarded, auto simp: run_command_def)
qed

definition plain_runtime :: runtime where
  "plain_runtime = \<lparr>rt_bindings = map (\<lambda>n. (n, OriginalFunction)) SPAWN_NAMES,
     rt_meta_path = [OtherFinder ''PathFinder'']\<rparr>"

lemma install_guards_interactive:
  "install_guards Inr environ cwd [] rt = Inr \<lparr>rt_bindings =
     apply_process_spawn_guards environ (apply_hardware_device_guards environ
       (apply_socket_guards environ (deny_writable_spec_from_file_location (rt_bindings rt)))),
     rt_meta_path = DeniedModuleFinder # DeniedWritableCodeFinder # rt_meta_path rt\<rparr>"
  by (simp add: install_guards_def denied_code_roots_def deny_writable_script_execution_def
      get_script_path_def)

theorem spawn_guard_refuses_witness:
  "\<exists>rt' f. install_guards Inr deny_all_environ (path_of ''/'') [] plain_runtime = Inr rt' \<and>
     dict_get (rt_bindings rt') ''os.spawnv'' = Some f \<and>
     run_command Inr f (PStr ''id'') =
       Inl (PermissionError ''Process spawning is denied by sandbox profile'')"
proof -
  obtain rt' where rt': "install_guards Inr deny_all_environ (path_of ''/'') [] plain_runtime = Inr rt'"
    by (simp add: install_guards_interactive)
  have on: "process_spawn_denied deny_all_environ" by (simp add: process_spawn_denied_def)
  have "dict_get (deny_writable_spec_from_file_location (rt_bindings plain_runtime)) ''os.spawnv'' =
      Some OriginalFunction"
    by (simp add: deny_writable_spec_from_file_location_def plain_runtime_def SPAWN_NAMES_def
        OS_SPAWN_NAMES_def)
  then have "dict_get (apply_hardware_device_guards deny_all_environ
      (apply_socket_guards deny_all_environ
        (deny_writable_spec_from_file_location (rt_bindings plain_runtime)))) ''os.spawnv'' =
      Some OriginalFunction"
    by (simp add: apply_hardware_device_guards_def apply_socket_guards_def)
  with rt' on have "dict_get (rt_bindings rt') ''os.spawnv'' = Some DeniedSpawn"
    by (auto simp: install_guards_interactive dict_get_apply_process_spawn_guards OS_SPAWN_NAMES_def
        spawn_assignments_def)
  moreover have "\<not> has_spawn_marker ''id''"
    by (simp add: has_spawn_marker_def ALLOWED_PROCESS_SPAWN_MARKERS_def replace_char_def
        starts_with_def)
  ultimately show ?thesis
    using on rt' spawn_guard_refuses [of deny_all_environ Inr "path_of ''/''" "[]" plain_runtime rt'
        "''os.spawnv''" DeniedSpawn "PStr ''id''" "''id''" Inr]
    by (simp add: SPAWN_NAMES_def OS_SPAWN_NAMES_def)
qed

lemma res_map_fsdecode_strs: "res_map fsdecode (map PStr ws) = Inr ws"
  by (induction ws) auto

lemma replace_char_append: "replace_char c r (a @ b) = replace_char c r a @ replace_char c r b"
  by (simp add: replace_char_def)

lemma has_spawn_marker_suffix: "has_spawn_marker (a @ ''/ms-playwright/'')"
proof -
  have "contains ''/ms-playwright/'' (x @ ''/ms-playwright/'')" for x
    unfolding contains_iff by (intro exI [of _ x] exI [of _ "[]"]) simp
  moreover have "replace_char (CHR 0x5C) ''/'' ''/ms-playwright/'' = ''/ms-playwright/''"
    by (simp add: replace_char_def)
  ultimately show ?thesis
    by (simp only: has_spawn_marker_def ALLOWED_PROCESS_SPAWN_MARKERS_def replace_char_append
        list_ex_iff list.set insert_iff) blast
qed

text \<open>The marker test is a substring test on the joined arguments, so it does not confine
  what is run: any command at all passes the guard with one more argument.\<close>

theorem spawn_guard_bypassed:
  "ws \<noteq> [] \<Longrightarrow>
   run_command original SpawnGuardedRun (PList (map PStr (ws @ [''/ms-playwright/'']))) =
     original (PList (map PStr (ws @ [''/ms-playwright/''])))"
proof -
  assume "ws \<noteq> []"
  have join: "py_join '' '' (ws @ [m]) = (py_join '' '' ws @ '' '') @ m" if "ws \<noteq> []" for ws m
    using that by (induction "'' ''" ws rule: py_join.induct) (auto simp: py_join_Cons)
  have "command_text (PList (map PStr (ws @ [''/ms-playwright/'']))) =
      Inr ((py_join '' '' ws @ '' '') @ ''/ms-playwright/'')"
    by (simp only: command_text.simps res_map_fsdecode_strs res_bind_simps join [OF \<open>ws \<noteq> []\<close>])
  moreover have "(py_join '' '' ws @ '' '') @ ''/ms-playwright/'' \<noteq> []" by simp
  ultimately show ?thesis
    by (simp only: run_spawn_guarded [of SpawnGuardedRun, OF insertI2 [OF singletonI]]
        has_spawn_marker_suffix simp_thms if_True not_False_eq_True)
qed

theorem spawn_guard_bypassed_witness:
  "run_command Inr SpawnGuardedRun
     (PList [PStr ''sh'', PStr ''-c'', PStr ''id'', PStr ''/ms-playwright/'']) =
   Inr (PList [PStr ''sh'', PStr ''-c'', PStr ''id'', PStr ''/ms-playwright/''])"
  using spawn_guard_bypassed [of "[''sh'', ''-c'', ''id'']" Inr] by simp

text \<open>The spawn guard replaces the hardware guard on \<open>subprocess.run\<close> instead of adding to
  it: with both switches on, a command that names a hardware tool and holds a browser marker is
  run, although the hardware guard alone refuses it.\<close>

theorem spawn_guard_drops_hardware_guard:
  assumes "process_spawn_denied environ" and "hardware_device_enumeration_denied environ"
    and "install_guards resolve environ cwd argv rt = Inr rt'"
    and "command_text args = Inr text" and "text \<noteq> []" and "has_spawn_marker text"
    and "is_denied_hardware_command args = Inr True"
  shows "(\<exists>f. dict_get (rt_bindings rt') ''subprocess.run'' = Some f \<and>
           run_command original f args = original args) \<and>
         run_command original HardwareGuardedRun args =
           Inl (PermissionError ''Hardware device enumeration is denied by sandbox profile'')"
proof
  from assms(1,3) have "dict_get (rt_bindings rt') ''subprocess.run'' = Some SpawnGuardedRun"
    by (auto simp: install_guards_def res_bind_eq_Inr dict_get_apply_process_spawn_guards_run)
  with assms(4-6) show "\<exists>f. dict_get (rt_bindings rt') ''subprocess.run'' = Some f \<and>
      run_command original f args = original args"
    by (simp add: run_spawn_guarded)
  from assms(7) show "run_command original HardwareGuardedRun args =
      Inl (PermissionError ''Hardware device enumeration is denied by sandbox profile'')"
    by (simp add: run_command_def)
qed

theorem spawn_guard_drops_hardware_guard_witness:
  "\<exists>rt' f. install_guards Inr deny_all_environ (path_of ''/'') [] plain_runtime = Inr rt' \<and>
     dict_get (rt_bindings rt') ''subprocess.run'' = Some f \<and>
     run_command Inr f (PStr ''lsusb /ms-playwright/'') = Inr (PStr ''lsusb /ms-playwright/'')"
proof -
  obtain rt' where rt': "install_guards Inr deny_all_environ (path_of ''/'') [] plain_runtime = Inr rt'"
    by (simp add: install_guards_interactive)
  have "has_spawn_marker ''lsusb /ms-playwright/''"
    using has_spawn_marker_suffix [of "''lsusb ''"] by simp
  moreover have "is_denied_hardware_command (PStr ''lsusb /ms-playwright/'') = Inr True"
    by (simp add: is_denied_hardware_command_def DENIED_HARDWARE_COMMAND_MARKERS_def
        starts_with_def)
  ultimately show ?thesis
    using rt' spawn_guard_drops_hardware_guard [of deny_all_environ Inr "path_of ''/''" "[]"
        plain_runtime rt' "PStr ''lsusb /ms-playwright/''" "''lsusb /ms-playwright/''" Inr]
    by (auto simp: process_spawn_denied_def hardware_device_enumeration_denied_def)
qed

section \<open>Importing code\<close>

lemma path_is_under_denied_code_root_str:
  "resolve (path_of s) = Inr p \<Longrightarrow> s \<noteq> [] \<Longrightarrow>
   path_is_under_denied_code_root resolve roots (PStr s) =
     Inr (list_ex (is_relative p) roots)"
  by (simp add: path_is_under_denied_code_root_def)

lemma deny_writable_search_result:
  "(\<And>p. p \<in> set ps \<Longrightarrow> path_is_under_denied_code_root resolve roots p = Inr (bad p)) \<Longrightarrow>
   deny_writable_search resolve roots fullname ps =
     (case find bad ps of Some p \<Rightarrow> Inl (writable_refusal fullname p) | None \<Rightarrow> Inr ())"
  by (induction ps) auto

lemma find_map: "find P (map f xs) = map_option f (find (\<lambda>x. P (f x)) xs)"
  by (induction xs) auto

text \<open>While the search path can be resolved, an import is refused exactly when some non-empty
  entry of the search path (the package path, or \<open>sys.path\<close>) resolves to a denied code root or
  to something beneath one, and the refusal names the first such entry; otherwise the finder
  passes the import on.\<close>

theorem writable_import_refused_iff:
  assumes "\<And>s. s \<in> set entries \<Longrightarrow> s \<noteq> [] \<Longrightarrow> resolve (path_of s) = Inr (target s)"
  shows "denied_writable_find_spec resolve roots sys_path fullname (Some (map PStr entries)) =
    (case find (\<lambda>s. s \<noteq> [] \<and> (\<exists>root \<in> set roots. is_relative (target s) root)) entries of
       Some s \<Rightarrow> Inl (writable_refusal fullname (PStr s))
     | None \<Rightarrow> Inr ())"
proof -
  define bad where "bad v = (case v of PStr s \<Rightarrow> s \<noteq> [] \<and> list_ex (is_relative (target s)) roots
    | _ \<Rightarrow> False)" for v
  have "path_is_under_denied_code_root resolve roots p = Inr (bad p)"
    if "p \<in> set (map PStr entries)" for p
  proof -
    from that obtain s where s: "p = PStr s" "s \<in> set entries" by auto
    show ?thesis
    proof (cases "s = []")
      case True
      with s show ?thesis by (simp add: bad_def path_is_under_denied_code_root_def)
    next
      case False
      with s assms [of s] show ?thesis
        by (simp add: bad_def path_is_under_denied_code_root_str)
    qed
  qed
  from deny_writable_search_result [of "map PStr entries", OF this, of fullname]
  show ?thesis
    by (simp add: denied_writable_find_spec_def bad_def list_ex_iff find_map option.case_eq_if
        map_option_case split: option.split)
qed

theorem writable_import_refused_iff_witness:
  "denied_writable_find_spec Inr [path_of ''/tmp''] [] ''evil''
     (Some [PStr ''/usr/lib'', PStr ''/tmp/x'']) =
   Inl (writable_refusal ''evil'' (PStr ''/tmp/x''))"
  using writable_import_refused_iff [of "[''/usr/lib'', ''/tmp/x'']" Inr path_of "[path_of ''/tmp'']" "[]" "''evil''"]
  by (simp add: is_relative_def path_of_def starts_with_def)

text \<open>The empty entry, which \<open>sys.path\<close> holds under \<open>python -c\<close> and which Python's own finder
  reads as the current directory, is never looked at: with it alone in the search path every
  import passes, even when the current directory is a denied code root.\<close>

theorem empty_search_entry_passes:
  "denied_writable_find_spec resolve roots [PStr []] fullname None = Inr ()"
  by (simp add: denied_writable_find_spec_def path_is_under_denied_code_root_def)

end
