(* ===== verification/Supported.thy ===== *)
theory Supported
  imports Docker_Cli Landlock Runtime_Guards
begin

text \<open>
  What holds of every supported profile when it meets the runner, the Landlock bootstrapper and
  the runtime guards: properties that span \<open>profiles.py\<close>, \<open>sandbox_container.py\<close>,
  \<open>landlock_runner.py\<close> and \<open>runtime_sitecustomize.py\<close>.
\<close>

section \<open>The strictest profile bounds the others\<close>

lemma sorted_wrt_last: "sorted_wrt r (xs @ [x]) \<Longrightarrow> p \<in> set (xs @ [x]) \<Longrightarrow> p = x \<or> r p x"
  by (auto simp: sorted_wrt_append)

lemma chain_end: "hardening_chain = butlast hardening_chain @ [no_shell_access_profile]"
  by (simp add: hardening_chain_def)

lemma harder_end:
  "p \<in> set hardening_chain \<Longrightarrow> p = no_shell_access_profile \<or> at_least_as_hard p no_shell_access_profile"
  by (rule sorted_wrt_last [of _ "butlast hardening_chain"])
    (simp_all only: chain_end [symmetric] sorted_hardening_chain)

lemma grows_to_end:
  assumes "p \<in> set hardening_chain" and "grows f \<in> set hardening_aspects"
  shows "set (f p) \<subseteq> set (f no_shell_access_profile)"
proof (cases "p = no_shell_access_profile")
  case False
  with harder_end [OF assms(1)] have "\<forall>aspect \<in> set hardening_aspects. aspect p no_shell_access_profile"
    by (simp only: at_least_as_hard_def list_all_iff simp_thms)
  with assms(2) have "grows f p no_shell_access_profile" by blast
  then show ?thesis by (simp only: grows_def)
qed simp

lemma last_denied_paths:
  "dp_denied_executable_paths no_shell_access_profile = default_denied_executable_paths"
  "dp_denied_executables no_shell_access_profile = []"
  "dp_readonly_persistence_directories no_shell_access_profile =
     [''/tmp/sandbox-home/.config/autostart'', ''/tmp/sandbox-config/autostart'',
      ''/tmp/sandbox-home/.config/systemd/user'', ''/tmp/sandbox-config/systemd/user'']"
  unfolding no_shell_access_profile_def persistence_control_profile_def
    hardware_device_control_profile_def system_config_control_profile_def
    desktop_channel_control_profile_def network_socket_control_profile_def
  by simp_all

lemma supported_denied_paths:
  assumes "p \<in> set hardening_chain"
  shows "set (dp_denied_executable_paths p) \<subseteq> set default_denied_executable_paths"
    and "dp_denied_executables p = []"
    and "set (dp_readonly_persistence_directories p) \<subseteq>
      set (dp_readonly_persistence_directories no_shell_access_profile)"
  using grows_to_end [OF assms, of dp_denied_executable_paths]
    grows_to_end [OF assms, of dp_denied_executables]
    grows_to_end [OF assms, of dp_readonly_persistence_directories]
  by (simp_all add: hardening_aspects_def last_denied_paths)

lemma default_paths_plain:
  "list_all (\<lambda>s. plain_target s \<and> names_a_file s) default_denied_executable_paths"
  by code_simp

lemma persistence_paths_valid:
  "list_all names_a_file (dp_readonly_persistence_directories no_shell_access_profile)"
  unfolding last_denied_paths by code_simp

lemma supported_targets:
  assumes "p \<in> set hardening_chain"
  shows "denied_lists_valid p" and "t \<in> set (denied_targets p) \<Longrightarrow> t \<in> set default_denied_executable_paths"
    and "t \<in> set (denied_targets p) \<Longrightarrow> plain_target t \<and> names_a_file t"
    and "t \<in> set (dp_readonly_persistence_directories p) \<Longrightarrow> names_a_file t"
proof -
  show *: "t \<in> set (denied_targets p) \<Longrightarrow> t \<in> set default_denied_executable_paths"
    using supported_denied_paths [OF assms] by (auto simp: denied_targets_def denied_candidates_def)
  then show "t \<in> set (denied_targets p) \<Longrightarrow> plain_target t \<and> names_a_file t"
    using default_paths_plain by (simp add: list_all_iff)
  show "denied_lists_valid p"
    using supported_denied_paths [OF assms] default_paths_plain
    by (auto simp: denied_lists_valid_def list_all_iff)
  show "t \<in> set (dp_readonly_persistence_directories p) \<Longrightarrow> names_a_file t"
    using supported_denied_paths(3) [OF assms] persistence_paths_valid by (auto simp: list_all_iff)
qed

section \<open>Templates, gateways and Landlock rules of the table\<close>

text \<open>What the profiles have in the fields that are not bounded by the chain.\<close>

definition table_shape :: "docker_profile \<Rightarrow> bool" where
  "table_shape p \<longleftrightarrow>
     dp_allowed_directory_template p = ''{remote_run_directory}/allowed'' \<and>
     dp_landlock_rules p \<in> {[], landlock_rules_with_sys, landlock_rules_without_sys} \<and>
     (dp_landlock_rules p = [] \<longrightarrow>
        dp_denied_directory_template p = ''{remote_run_directory}/denied'') \<and>
     (dp_landlock_rules p \<noteq> [] \<longrightarrow> dp_remote_run_root p = ''/sandbox-work'' \<and>
        dp_denied_directory_template p = ''/sandbox-denied'' \<and>
        dp_readonly_denied_mount_target p = Some ''/sandbox-denied'') \<and>
     dp_network_gateway p \<in> {None, Some egress_gateway, Some socket_control_gateway}"

lemma landlock_rules_nonempty:
  "landlock_rules_with_sys \<noteq> []" "landlock_rules_without_sys \<noteq> []"
  by (simp_all add: landlock_rules_with_sys_def landlock_rules_without_sys_def)

lemma supported_shape: "list_all table_shape hardening_chain"
  unfolding hardening_chain_def list.pred_inject(2)
  by (intro conjI; (unfold profile_defs table_shape_def)?; simp add: landlock_rules_nonempty)

lemma shape_of_supported: "p \<in> set hardening_chain \<Longrightarrow> table_shape p"
  using supported_shape by (simp add: list_all_iff)

lemma supported_configuration_valid:
  assumes "dc_profile c \<in> set hardening_chain"
  shows "configuration_valid c"
proof -
  have shape: "table_shape (dc_profile c)" by (rule shape_of_supported [OF assms])
  then have "\<exists>x y. build_allowed_directory c d = Inr x \<and> build_denied_directory c d = Inr y" for d
    by (cases "dp_landlock_rules (dc_profile c) = []")
      (auto simp: table_shape_def build_allowed_directory_def build_denied_directory_def
        default_templates)
  moreover have "gateway_valid c"
    using shape
    by (auto simp: table_shape_def gateway_valid_def build_allowed_gateway_ip_addresses_def
        egress_gateway_def socket_control_gateway_def)
  ultimately show ?thesis
    using supported_targets [OF assms] by (simp add: configuration_valid_def)
qed

section \<open>Runs\<close>

text \<open>With a supported profile a run always completes on a host where no call fails and no path
  is a link: no validation, template or gateway setting of the table can stop it, for any time
  stamp, host environment and options.\<close>

theorem supported_run_returns:
  assumes "get_docker_profile name = Inr (dc_profile c)" and "smooth h"
  shows "\<exists>result log'. run_sandbox_container h c timestamp env verbose serialize log = (Inr result, log')"
  using run_returns_if_valid [OF assms(2) supported_configuration_valid] assms(1)
  by (simp add: get_docker_profile_Inr returns_def)

definition strict_configuration :: docker_configuration where
  "strict_configuration = sample_configuration\<lparr>dc_profile := no_shell_access_profile\<rparr>"

lemma strict_profile: "get_docker_profile ''no-shell-access'' = Inr no_shell_access_profile"
  by (simp add: get_docker_profile_Inr hardening_chain_def profile_names profile_name_defs)

lemma dc_profile_strict [simp]: "dc_profile strict_configuration = no_shell_access_profile"
  by (simp add: strict_configuration_def)

theorem supported_run_returns_witness:
  "\<exists>result log'. run_sandbox_container calm_host strict_configuration ''2026-01-01-00-00-00''
     (\<lambda>_. None) True True [] = (Inr result, log')"
  using supported_run_returns [of "''no-shell-access''" strict_configuration calm_host] strict_profile
    smooth_calm_host by simp

definition script_programs :: "string list" where
  "script_programs =
     [''/bin/sh'', ''/usr/bin/sh'', ''/usr/bin/dash'', ''/usr/bin/mkdir'', ''/usr/bin/chmod'',
      ''/usr/bin/printf'', ''/usr/local/bin/python'', ''/usr/bin/python3'',
      ''/opt/sandbox-tester/.venv/bin/python'']"

lemma script_programs_not_default:
  "list_all (\<lambda>t. t \<notin> set default_denied_executable_paths) script_programs"
  by code_simp

text \<open>The stubs that stand in for the denied executables of a supported profile: every target is
  an absolute path that names a file, no two targets share a stub file, and none of them is a
  program the container script itself runs (the shell, \<open>mkdir\<close>, \<open>chmod\<close>, \<open>printf\<close> and the
  Python of the image).\<close>

theorem supported_stubs:
  assumes "get_docker_profile name = Inr p"
  shows "(\<forall>t \<in> set (denied_targets p). names_a_file t) \<and>
    distinct (map mangle_path (denied_targets p)) \<and>
    set (denied_targets p) \<inter> set script_programs = {}"
proof -
  from assms have p: "p \<in> set hardening_chain" by (simp add: get_docker_profile_Inr)
  have "set (denied_targets p) \<subseteq> {s. plain_target s}"
    using supported_targets(3) [OF p] by blast
  then have "inj_on mangle_path (set (denied_targets p))"
    by (rule inj_on_subset [OF mangle_path_inj])
  moreover have "distinct (denied_targets p)" by (simp add: denied_targets_def)
  moreover have "set (denied_targets p) \<inter> set script_programs = {}"
    using supported_targets(2) [OF p] script_programs_not_default by (auto simp: list_all_iff)
  ultimately show ?thesis
    using supported_targets(3) [OF p] by (simp add: distinct_map)
qed

theorem supported_stubs_witness:
  "distinct (map mangle_path (denied_targets no_shell_access_profile)) \<and>
   ''/usr/bin/git'' \<in> set (denied_targets no_shell_access_profile)"
  using supported_stubs [OF strict_profile]
  by (simp add: denied_targets_def denied_candidates_def last_denied_paths
      default_denied_executable_paths_def DESKTOP_AUTOMATION_EXECUTABLE_PATHS_def)

text \<open>Outside the table two targets can share a stub file: the name is not injective.\<close>

lemma stub_names_collide:
  "build_denied_executable_stub_name ''/usr/bin/a__b'' = build_denied_executable_stub_name ''/usr/bin/a/b''"
  by code_simp

section \<open>The Landlock policy\<close>

lemma res_map_json_rules:
  "res_map path_rule_from_json (map (\<lambda>rule. JObj [(''path'', JStr (lr_path rule)),
     (''access'', JStr (lr_access rule))]) rules) =
   Inr (map (\<lambda>rule. \<lparr>pr_path = path_of (lr_path rule), pr_access = lr_access rule\<rparr>) rules)"
  by (induction rules) (simp_all add: path_rule_from_json_def)

text \<open>The policy document the runner writes is read back by the bootstrapper in the container as
  exactly the rules of the profile, in order.\<close>

theorem landlock_policy_round_trip:
  "read_policy (landlock_policy_data c) =
     Inr (map (\<lambda>rule. \<lparr>pr_path = path_of (lr_path rule), pr_access = lr_access rule\<rparr>)
       (dp_landlock_rules (dc_profile c)))"
  unfolding read_policy_def landlock_policy_data_def json_get_default_def
  by (simp add: res_map_json_rules)

definition granted :: "landlock_path_rule list \<Rightarrow> char \<Rightarrow> path \<Rightarrow> bool" where
  "granted rules letter p \<longleftrightarrow>
     (\<exists>rule \<in> set rules. letter \<in> set (lr_access rule) \<and> is_relative p (path_of (lr_path rule)))"

text \<open>No rule lies at, above or beneath a directory.\<close>

definition separate :: "path \<Rightarrow> landlock_path_rule \<Rightarrow> bool" where
  "separate d rule \<longleftrightarrow>
     \<not> is_relative d (path_of (lr_path rule)) \<and> \<not> is_relative (path_of (lr_path rule)) d"

lemma separate_not_granted:
  assumes "is_relative p d" and "\<forall>rule \<in> set rules. letter \<in> set (lr_access rule) \<longrightarrow> separate d rule"
  shows "\<not> granted rules letter p"
  using assms is_relative_comparable by (fastforce simp: granted_def separate_def)

lemma landlock_tables:
  "list_all (\<lambda>rules.
      list_all (\<lambda>rule.
         set (lr_access rule) \<subseteq> set ''rwx'' \<and>
         \<not> (CHR ''w'' \<in> set (lr_access rule) \<and> CHR ''x'' \<in> set (lr_access rule)) \<and>
         separate (path_of ''/sandbox-denied'') rule \<and>
         (CHR ''x'' \<in> set (lr_access rule) \<longrightarrow> separate (path_of ''/sandbox-work'') rule)) rules \<and>
      list_ex (\<lambda>rule. lr_path rule = ''/sandbox-work'' \<and> lr_access rule = ''rw'') rules)
     [landlock_rules_with_sys, landlock_rules_without_sys]"
  by code_simp

lemma path_of_rooted:
  "c \<noteq> CHR ''/'' \<Longrightarrow> path_of (CHR ''/'' # c # s) =
     \<lparr>path_root = ''/'', path_parts = filter (\<lambda>w. w \<noteq> [] \<and> w \<noteq> ''.'') (split_on CHR ''/'' (c # s))\<rparr>"
  by (simp add: path_of_def starts_with_def split_on_slash del: split_on.simps)

lemma path_of_beneath:
  assumes "CHR ''/'' \<notin> set d" and "d \<noteq> []" and "d \<noteq> ''.''"
  shows "is_relative (path_of (''/'' @ d @ ''/'' @ rest)) (path_of (''/'' @ d))"
proof -
  from assms obtain c d' where d: "d = c # d'" "c \<noteq> CHR ''/''" by (cases d) auto
  have "split_on CHR ''/'' (c # d' @ CHR ''/'' # rest) = d # split_on CHR ''/'' rest"
    "split_on CHR ''/'' (c # d') = [d]"
    using split_on_append [OF assms(1), of rest] split_on_single [OF assms(1)] d
    by (simp_all del: split_on.simps)
  then show ?thesis
    using assms(2,3) path_of_rooted [OF d(2), of d'] path_of_rooted [OF d(2), of "d' @ CHR ''/'' # rest"]
    by (simp add: d(1) is_relative_def del: split_on.simps)
qed

text \<open>C10. The Landlock policy fits the fixtures of a run: for every supported profile that has one,
  whatever is beneath the allowed directory can be read and written but not executed, nothing
  at or beneath the denied directory is granted any right, and every rule is accepted by the
  bootstrapper and grants write or execute rights, never both.\<close>

theorem landlock_policy_fits_fixtures:
  assumes "get_docker_profile name = Inr (dc_profile c)"
    and "dp_landlock_rules (dc_profile c) \<noteq> []"
    and "build_allowed_directory c (build_remote_run_directory c run_id) = Inr allowed"
    and "build_denied_directory c (build_remote_run_directory c run_id) = Inr denied"
  defines "rules \<equiv> dp_landlock_rules (dc_profile c)"
  shows "(is_relative p (path_of allowed) \<longrightarrow>
       granted rules CHR ''r'' p \<and> granted rules CHR ''w'' p \<and> \<not> granted rules CHR ''x'' p) \<and>
    (is_relative p (path_of denied) \<longrightarrow> \<not> granted rules letter p) \<and>
    (\<forall>rule \<in> set rules. \<exists>m. parse_access (lr_access rule) = Inr m \<and>
       (m AND WRITE_RIGHTS = 0 \<or> m AND EXECUTE_RIGHTS = 0))"
proof -
  have shape: "table_shape (dc_profile c)"
    using assms(1) by (intro shape_of_supported) (simp add: get_docker_profile_Inr)
  with assms(2) have "rules \<in> set [landlock_rules_with_sys, landlock_rules_without_sys]"
    by (auto simp: table_shape_def rules_def)
  with landlock_tables have
    letters: "\<forall>rule \<in> set rules. set (lr_access rule) \<subseteq> set ''rwx'' \<and>
      \<not> (CHR ''w'' \<in> set (lr_access rule) \<and> CHR ''x'' \<in> set (lr_access rule))" and
    denied_sep: "\<forall>rule \<in> set rules. separate (path_of ''/sandbox-denied'') rule" and
    work_sep: "\<forall>rule \<in> set rules. CHR ''x'' \<in> set (lr_access rule) \<longrightarrow>
      separate (path_of ''/sandbox-work'') rule" and
    work: "\<exists>rule \<in> set rules. lr_path rule = ''/sandbox-work'' \<and> lr_access rule = ''rw''"
    by (auto simp only: list_all_iff list_ex_iff)
  have remote: "build_remote_run_directory c run_id = ''/sandbox-work'' @ ''/'' @ run_id"
    using shape assms(2)
    by (simp add: table_shape_def build_remote_run_directory_def rstrip_by_def)
  have allowed: "allowed = ''/'' @ ''sandbox-work'' @ ''/'' @ run_id @ ''/allowed''"
    using assms(3) shape unfolding remote
    by (simp add: table_shape_def build_allowed_directory_def default_templates)
  have denied: "denied = ''/sandbox-denied''"
    using assms(2,4) shape
    by (simp add: table_shape_def build_denied_directory_def default_templates)
  have "granted rules CHR ''r'' p \<and> granted rules CHR ''w'' p \<and> \<not> granted rules CHR ''x'' p"
    if "is_relative p (path_of allowed)"
  proof -
    have "is_relative (path_of allowed) (path_of ''/sandbox-work'')"
      unfolding allowed using path_of_beneath [of "''sandbox-work''" "run_id @ ''/allowed''"] by simp
    with that have p: "is_relative p (path_of ''/sandbox-work'')" by (rule is_relative_trans)
    with work have "granted rules CHR ''r'' p" "granted rules CHR ''w'' p"
      by (force simp: granted_def)+
    with separate_not_granted [OF p work_sep] show ?thesis by simp
  qed
  moreover have "\<not> granted rules letter p" if "is_relative p (path_of denied)"
    using separate_not_granted [of p "path_of ''/sandbox-denied''"] denied_sep that denied by blast
  moreover have "\<exists>m. parse_access (lr_access rule) = Inr m \<and>
      (m AND WRITE_RIGHTS = 0 \<or> m AND EXECUTE_RIGHTS = 0)" if "rule \<in> set rules" for rule
  proof -
    have "set (lr_access rule) \<subseteq> set ''rwx''" using letters that by blast
    from parse_access_from_valid [OF this, of 0]
    obtain m where m: "parse_access (lr_access rule) = Inr m"
      unfolding parse_access_def by blast
    have "CHR ''w'' \<notin> set (lr_access rule) \<or> CHR ''x'' \<notin> set (lr_access rule)"
      using letters that by blast
    then have "m AND WRITE_RIGHTS = 0 \<or> m AND EXECUTE_RIGHTS = 0"
      using parse_access_rights(2,3) [OF m] by argo
    with m show ?thesis by blast
  qed
  ultimately show ?thesis by blast
qed

lemma strict_directories:
  "build_allowed_directory strict_configuration
     (build_remote_run_directory strict_configuration ''run-1'') = Inr ''/sandbox-work/run-1/allowed''"
  "build_denied_directory strict_configuration d = Inr ''/sandbox-denied''"
  "dp_landlock_rules no_shell_access_profile = landlock_rules_without_sys"
  unfolding build_allowed_directory_def build_denied_directory_def build_remote_run_directory_def
    dc_profile_strict no_shell_access_profile_def persistence_control_profile_def
    hardware_device_control_profile_def system_config_control_profile_def
    desktop_channel_control_profile_def network_socket_control_profile_def
  by (simp_all add: default_templates rstrip_by_def)

theorem landlock_policy_fits_fixtures_witness:
  "granted landlock_rules_without_sys CHR ''w'' (path_of ''/sandbox-work/run-1/allowed/allowed'') \<and>
   \<not> granted landlock_rules_without_sys CHR ''r'' (path_of ''/sandbox-denied/denied/denied.txt'')"
proof -
  have profile: "get_docker_profile ''no-shell-access'' = Inr (dc_profile strict_configuration)"
    by (simp add: strict_profile)
  have rules: "dp_landlock_rules (dc_profile strict_configuration) \<noteq> []"
    by (simp add: strict_directories landlock_rules_nonempty)
  have "is_relative (path_of ''/sandbox-work/run-1/allowed/allowed'')
      (path_of ''/sandbox-work/run-1/allowed'')"
    and "is_relative (path_of ''/sandbox-denied/denied/denied.txt'') (path_of ''/sandbox-denied'')"
    by code_simp+
  then show ?thesis
    using landlock_policy_fits_fixtures [OF profile rules strict_directories(1,2),
        of "path_of ''/sandbox-work/run-1/allowed/allowed''"]
      landlock_policy_fits_fixtures [OF profile rules strict_directories(1,2),
        of "path_of ''/sandbox-denied/denied/denied.txt''" "CHR ''r''"]
    by (simp only: dc_profile_strict strict_directories) blast
qed

section \<open>Invocations\<close>

lemma bind_step: "m s = (Inr a, s') \<Longrightarrow> bind m f s = f a s'"
  by (simp add: bind_def)

lemma returns_exec_in: "obliging h \<Longrightarrow> returns (exec_in h cwd command)"
  by (fastforce simp: returns_def exec_in_def obliging_def)

lemma ensure_base_image_returns: "obliging h \<Longrightarrow> returns (ensure_base_image h c)"
  by (auto simp: ensure_base_image_def image_exists_def intro!: returns_intros returns_ask returns_exec_in)

lemma finish_run_returns: "obliging h \<Longrightarrow> returns (finish_run h now keep r)"
  by (auto simp: finish_run_def save_run_results_def remove_container_def
      intro!: returns_intros split: option.split)

lemma main_returns_if_supported:
  assumes "smooth h" and "\<And>p. \<exists>q. expanduser_answer h p = Inr q"
    and "get_docker_profile (ca_profile a) = Inr p"
  shows "\<exists>status log'. docker_main h a timestamp now env log = (Inr status, log')"
proof -
  have h: "obliging h" using assms(1) by (simp add: smooth_def)
  have "returns (configuration_from_arguments h a)"
    using assms(2) [of "ca_base_directory a"] assms(2) [of "ca_dockerfile a"]
    by (auto simp: configuration_from_arguments_def assms(1,3) monad_simps Let_def
        intro!: returns_bind returns_resolve_path returns_ret returns_lift_res [OF refl])
  then obtain c log1 where c: "configuration_from_arguments h a log = (Inr c, log1)"
    unfolding returns_def by blast
  then have valid: "configuration_valid c"
    using configuration_profile [OF c] assms(3)
    by (intro supported_configuration_valid) (simp add: get_docker_profile_Inr)
  have "returns (bind (ensure_base_image h c) (\<lambda>image.
       andthen (print_image_result image)
         (if ir_status image \<notin> {EXISTS, CREATED} then ret 1
          else bind (run_sandbox_container h c timestamp env (ca_verbose a) (ca_serialize_evidence a))
            (\<lambda>r. finish_run h now (ca_keep_container a) r))))"
    by (auto simp: print_image_result_def intro!: returns_bind returns_andthen returns_py_print returns_ret
        ensure_base_image_returns finish_run_returns run_returns_if_valid h assms(1) valid)
  then obtain status log' where "bind (ensure_base_image h c) (\<lambda>image.
       andthen (print_image_result image)
         (if ir_status image \<notin> {EXISTS, CREATED} then ret 1
          else bind (run_sandbox_container h c timestamp env (ca_verbose a) (ca_serialize_evidence a))
            (\<lambda>r. finish_run h now (ca_keep_container a) r))) log1 = (Inr status, log')"
    unfolding returns_def by blast
  then have "docker_main h a timestamp now env log = (Inr status, log')"
    by (simp only: docker_main_def bind_step [where m = "configuration_from_arguments h a", OF c])
  then show ?thesis by blast
qed

lemma default_profile: "get_docker_profile (ca_profile default_cli_arguments) = Inr baseline_profile"
  by (simp add: default_cli_arguments_def get_docker_profile_Inr hardening_chain_def profile_names profile_name_defs)


lemma calm_expanduser: "\<exists>q. expanduser_answer calm_host p = Inr q"
  by (simp add: calm_host_def)


theorem main_removes_container_witness:
  "\<exists>status log'. docker_main calm_host default_cli_arguments ''t'' ''now'' (\<lambda>_. None) [] =
     (Inr status, log') \<and>
     ((status = 1 \<and> list_all (\<lambda>e. \<not> starts_container e) log') \<or>
      (\<exists>before message. log' = before @
         map Exec (removal_commands baseline_profile ''t'') @ [Print message]))"
proof -
  obtain status log' where main:
    "docker_main calm_host default_cli_arguments ''t'' ''now'' (\<lambda>_. None) [] = (Inr status, log')"
    using main_returns_if_supported [OF smooth_calm_host calm_expanduser default_profile] by blast
  have "\<not> ca_keep_container default_cli_arguments" by (simp add: default_cli_arguments_def)
  from main_removes_container [OF main this] main default_profile show ?thesis by auto
qed

theorem image_status_justified_witness:
  "\<exists>x. exec_answer calm_host [] (Exec [DOCKER_EXECUTABLE, ''image'', ''inspect'',
     dp_image_name (dc_profile small_configuration)]) = Inr x \<and> cp_returncode x = 0"
proof -
  have "ensure_base_image calm_host small_configuration [] =
      (Inr (image_result small_configuration EXISTS None), [Exec [DOCKER_EXECUTABLE, ''image'',
        ''inspect'', dp_image_name (dc_profile small_configuration)]])"
    by (simp add: ensure_base_image_def image_exists_def bind_def ask_def exec_def ret_def
        calm_host_def)
  from image_status_justified [OF this] show ?thesis by (simp add: image_result_def)
qed

end
