(* ===== verification/Hardening.thy ===== *)
theory Hardening
  imports Supported
begin

text \<open>
  The profile table as a whole: the profiles in the order in which they build on one another,
  what that order never gives up, which guard switches each profile turns on in its container,
  and which domains its gateway ends up allowing.
\<close>

section \<open>The order of the table\<close>

definition hardening_names :: "string list" where
  "hardening_names =
     [''baseline'', ''readonly-fs'', ''network-egress'', ''ambient-services'', ''execution-control'',
      ''syscall-control'', ''resource-limits'', ''browser-surface'', ''dns-proxy-control'',
      ''minimized-image'', ''filesystem-visibility'', ''runtime-control'',
      ''network-socket-control'', ''desktop-channel-control'', ''system-config-control'',
      ''hardware-device-control'', ''persistence-control'', ''no-shell-access'']"

lemma length_hardening_names [simp]: "length hardening_names = 18"
  by (simp add: hardening_names_def)

lemma length_hardening_chain [simp]: "length hardening_chain = 18"
  by (simp add: hardening_chain_def)

lemma hardening_names_chain: "map dp_name hardening_chain = hardening_names"
  by (simp add: hardening_chain_def hardening_names_def profile_names profile_name_defs)

lemma distinct_hardening_names: "distinct hardening_names"
  by code_simp

lemma get_docker_profile_nth:
  assumes "i < 18"
  shows "get_docker_profile (hardening_names ! i) = Inr p \<longleftrightarrow> p = hardening_chain ! i"
proof -
  have name: "dp_name (hardening_chain ! j) = hardening_names ! j" if "j < 18" for j
    using that by (metis hardening_names_chain length_hardening_chain nth_map)
  show ?thesis
  proof
    assume "get_docker_profile (hardening_names ! i) = Inr p"
    then obtain j where "j < 18" "p = hardening_chain ! j" "hardening_names ! j = hardening_names ! i"
      using name by (metis get_docker_profile_Inr in_set_conv_nth length_hardening_chain)
    then show "p = hardening_chain ! i"
      using assms distinct_hardening_names by (simp add: nth_eq_iff_index_eq)
  next
    assume "p = hardening_chain ! i"
    with assms name show "get_docker_profile (hardening_names ! i) = Inr p"
      by (simp add: get_docker_profile_Inr)
  qed
qed

text \<open>The profile table answers exactly the supported names: each gives the profile of that name,
  tagged with that name's image, and every other name is a \<open>ValueError\<close>.\<close>

theorem get_docker_profile_spec:
  "if name \<in> set SUPPORTED_PROFILE_NAMES
   then \<exists>p. get_docker_profile name = Inr p \<and> dp_name p = name \<and>
     dp_image_name p = ''sandbox-tester/docker-sandbox:'' @ name
   else get_docker_profile name = Inl (ValueError (''Unsupported Docker sandbox profile: '' @ name))"
proof (cases "dict_get docker_profiles name")
  case None
  then have "name \<notin> fst ` set docker_profiles" by (simp add: map_of_eq_None_iff)
  with None show ?thesis
    by (simp add: SUPPORTED_PROFILE_NAMES_def get_docker_profile_def)
next
  case (Some p)
  then have "p \<in> set hardening_chain" "dp_name p = name" by (simp_all add: dict_get_docker_profiles)
  with image_names Some show ?thesis
    by (auto simp: set_SUPPORTED_PROFILE_NAMES get_docker_profile_def list_all_iff)
qed



section \<open>Guard switches\<close>

lemma chain_environments:
  "map dp_environment hardening_chain =
     replicate 3 [] @ replicate 9 ambient_environment @ replicate 3 socket_control_environment @
     replicate 2 (socket_control_environment @
       [\<lparr>ev_name = ''SANDBOX_DENY_HARDWARE_DEVICE_ENUMERATION'', ev_value = Some ''1''\<rparr>]) @
     [(socket_control_environment @
       [\<lparr>ev_name = ''SANDBOX_DENY_HARDWARE_DEVICE_ENUMERATION'', ev_value = Some ''1''\<rparr>]) @
       [\<lparr>ev_name = ''SANDBOX_DENY_PROCESS_SPAWN'', ev_value = Some ''1''\<rparr>]]"
  unfolding hardening_chain_def list.map
  by (simp add: profile_defs numeral_eq_Suc)

lemma environment_of_nth: "i < 18 \<Longrightarrow> dp_environment (hardening_chain ! i) = map dp_environment hardening_chain ! i"
  by simp

definition switch_names :: "string list" where
  "switch_names =
     [''SANDBOX_DENY_UDP'', ''SANDBOX_DENY_ALL_INTERFACE_BIND'', ''SANDBOX_DENY_METADATA_ENDPOINTS'',
      ''SANDBOX_DENY_HARDWARE_DEVICE_ENUMERATION'', ''SANDBOX_DENY_PROCESS_SPAWN'']"

text \<open>From which place in the order on a switch is set.\<close>

definition switch_from :: "string \<Rightarrow> nat" where
  "switch_from s =
     (if s = ''SANDBOX_DENY_HARDWARE_DEVICE_ENUMERATION'' then 15
      else if s = ''SANDBOX_DENY_PROCESS_SPAWN'' then 17 else 12)"

lemma switch_policies:
  assumes "s \<in> set switch_names" and "i < 18"
  shows "last_policy (dp_environment (hardening_chain ! i)) s =
    (if switch_from s \<le> i then Some (Some ''1'') else None)"
proof -
  have "\<forall>i < 18. \<forall>s \<in> set switch_names. last_policy (map dp_environment hardening_chain ! i) s =
      (if switch_from s \<le> i then Some (Some ''1'') else None)"
    unfolding chain_environments by code_simp
  with assms environment_of_nth show ?thesis by simp
qed

lemma proxy_names:
  "map fst (proxy_settings gateway ip) =
     [''HTTP_PROXY'', ''HTTPS_PROXY'', ''NO_PROXY'', ''http_proxy'', ''https_proxy'', ''no_proxy'']"
  by (simp add: proxy_settings_def)

lemma switch_names_apart:
  assumes "s \<in> set switch_names"
  shows "s \<notin> set DESKTOP_AUTOMATION_ENVIRONMENT_NAMES"
    and "s \<notin> set [''GNUPGHOME'', ''SSH_AUTH_SOCK'', ''PYTHONPATH'', ''OPENAI_API_KEY'']"
    and "map_of (proxy_settings gateway ip) s = None"
proof -
  have "list_all (\<lambda>s. s \<notin> set DESKTOP_AUTOMATION_ENVIRONMENT_NAMES \<and>
      s \<notin> set [''GNUPGHOME'', ''SSH_AUTH_SOCK'', ''PYTHONPATH'', ''OPENAI_API_KEY''] \<and>
      s \<notin> set [''HTTP_PROXY'', ''HTTPS_PROXY'', ''NO_PROXY'', ''http_proxy'', ''https_proxy'', ''no_proxy''])
    switch_names"
    by code_simp
  with assms show "s \<notin> set DESKTOP_AUTOMATION_ENVIRONMENT_NAMES"
    and "s \<notin> set [''GNUPGHOME'', ''SSH_AUTH_SOCK'', ''PYTHONPATH'', ''OPENAI_API_KEY'']"
    and "map_of (proxy_settings gateway ip) s = None"
    unfolding map_of_eq_None_iff set_map [symmetric] proxy_names list_all_iff by blast+
qed

lemma tester_variables_get:
  "n \<noteq> ''OPENAI_API_KEY'' \<Longrightarrow>
   dict_get (resolve_environment_variables source SANDBOX_TESTER_ENVIRONMENT_VARIABLES) n = None"
  by (simp add: resolve_environment_variables_def SANDBOX_TESTER_ENVIRONMENT_VARIABLES_def
      split: option.split)

lemma container_switch:
  assumes "s \<in> set switch_names" and "i < 18" and "dc_profile c = hardening_chain ! i"
  shows "dict_get (build_container_environment c
      (resolve_environment_variables source SANDBOX_TESTER_ENVIRONMENT_VARIABLES) ip) s =
    (if switch_from s \<le> i then Some ''1'' else None)"
proof -
  have proxies: "(case dp_network_gateway p of
      None \<Rightarrow> None | Some gateway \<Rightarrow> map_of (proxy_settings gateway ip) s) = None" for p
    using switch_names_apart [OF assms(1)] by (simp split: option.split)
  have "(s \<in> set DESKTOP_AUTOMATION_ENVIRONMENT_NAMES) = False" "(s = ''GNUPGHOME'') = False"
    "(s = ''SSH_AUTH_SOCK'') = False" "(s = ''PYTHONPATH'') = False"
    and absent: "dict_get (resolve_environment_variables source
      SANDBOX_TESTER_ENVIRONMENT_VARIABLES) s = None"
    using switch_names_apart [OF assms(1)] by (simp_all add: tester_variables_get)
  then have "dict_get (build_container_environment c
      (resolve_environment_variables source SANDBOX_TESTER_ENVIRONMENT_VARIABLES) ip) s =
    (case last_policy (dp_environment (dc_profile c)) s of Some v \<Rightarrow> v | None \<Rightarrow> None)"
    by (simp only: container_environment_get proxies absent option.case simp_thms if_False)
  then show ?thesis
    by (simp add: assms(3) switch_policies [OF assms(1,2)])
qed

lemma container_switch_enabled:
  assumes "s \<in> set switch_names" and "i < 18" and "dc_profile c = hardening_chain ! i"
  shows "enabled (dict_get (build_container_environment c
      (resolve_environment_variables source SANDBOX_TESTER_ENVIRONMENT_VARIABLES) ip)) s \<longleftrightarrow>
    switch_from s \<le> i"
proof (cases "switch_from s \<le> i")
  case True
  with container_switch [OF assms] show ?thesis by simp
next
  case False
  with container_switch [OF assms, of source ip] show ?thesis
    by (simp add: enabled_def py_lower_def)
qed

text \<open>Which runtime guards are on in the container of each profile, whatever the host's
  environment and the gateway: the socket guards from \<open>network-socket-control\<close> on, the hardware
  guard from \<open>hardware-device-control\<close> on, the spawn guard only in \<open>no-shell-access\<close>. No host
  variable can turn one off or on.\<close>

theorem guard_switches_by_profile:
  fixes source :: "string \<Rightarrow> string option" and ip :: "string option"
  assumes "i < 18" and "get_docker_profile (hardening_names ! i) = Inr (dc_profile c)"
  defines "environ \<equiv> dict_get (build_container_environment c
    (resolve_environment_variables source SANDBOX_TESTER_ENVIRONMENT_VARIABLES) ip)"
  shows "(udp_denied environ \<longleftrightarrow> 12 \<le> i) \<and> (all_interface_bind_denied environ \<longleftrightarrow> 12 \<le> i) \<and>
    (metadata_denied environ \<longleftrightarrow> 12 \<le> i) \<and>
    (hardware_device_enumeration_denied environ \<longleftrightarrow> 15 \<le> i) \<and>
    (process_spawn_denied environ \<longleftrightarrow> 17 \<le> i)"
  using container_switch_enabled [OF _ assms(1)] assms(2) get_docker_profile_nth [OF assms(1)]
  by (simp add: udp_denied_def all_interface_bind_denied_def metadata_denied_def
      hardware_device_enumeration_denied_def process_spawn_denied_def environ_def switch_names_def
      switch_from_def)

theorem guard_switches_by_profile_witness:
  "process_spawn_denied (dict_get (build_container_environment strict_configuration
     (resolve_environment_variables (\<lambda>_. Some ''0'') SANDBOX_TESTER_ENVIRONMENT_VARIABLES) None))"
proof -
  have "get_docker_profile (hardening_names ! 17) = Inr (dc_profile strict_configuration)"
    by (simp add: get_docker_profile_nth hardening_chain_def)
  from guard_switches_by_profile [OF _ this] show ?thesis by simp
qed

section \<open>What the gateway of a supported profile allows\<close>

lemma supported_domains:
  "p \<in> set hardening_chain \<Longrightarrow> dp_network_gateway p = Some gateway \<Longrightarrow>
   gw_allowed_domains gateway = [''.openai.com'', ''.example.com'', ''.github.com'', ''.gov.uk'']"
  using shape_of_supported [of p]
  by (auto simp: table_shape_def egress_gateway_def socket_control_gateway_def)

text \<open>Every supported profile with a gateway lists \<open>.example.com\<close> and \<open>.github.com\<close>, but the
  gateway of its runs admits neither domain's subdomains: the configuration always adds the two
  hosts themselves, and then the wildcards are dropped.\<close>

theorem supported_gateway_domains:
  assumes "get_docker_profile name = Inr (dc_profile c)"
    and "dp_network_gateway (dc_profile c) = Some gateway"
  shows "''.github.com'' \<in> set (gw_allowed_domains gateway) \<and>
    build_allowed_gateway_domains (gw_allowed_domains gateway)
      (build_config_data remote allowed denied user agent debugging surface) =
    Inr [''.openai.com'', ''.gov.uk'', ''example.com'', ''github.com'']"
proof -
  have domains: "gw_allowed_domains gateway =
      [''.openai.com'', ''.example.com'', ''.github.com'', ''.gov.uk'']"
    using assms by (intro supported_domains) (simp_all add: get_docker_profile_Inr)
  have "remove_redundant_gateway_domain_suffixes (dict_fromkeys (map normalize_gateway_domain
      ([''.openai.com'', ''.example.com'', ''.github.com'', ''.gov.uk''] @
       [''example.com'', ''github.com'']))) =
      [''.openai.com'', ''.gov.uk'', ''example.com'', ''github.com'']"
    by code_simp
  then show ?thesis
    by (simp only: build_allowed_gateway_domains_def config_data_domains domains res_bind_simps
        list.set insert_iff simp_thms)
qed

theorem supported_gateway_domains_witness:
  "build_allowed_gateway_domains
     (gw_allowed_domains socket_control_gateway)
     (build_config_data [] [] [] [] None None None) =
   Inr [''.openai.com'', ''.gov.uk'', ''example.com'', ''github.com''] \<and>
   list_all (\<lambda>e. \<not> dstdomain_matches e ''api.github.com'')
     [''.openai.com'', ''.gov.uk'', ''example.com'', ''github.com'']"
proof -
  have "dp_network_gateway (dc_profile strict_configuration) = Some socket_control_gateway"
    unfolding dc_profile_strict no_shell_access_profile_def persistence_control_profile_def
      hardware_device_control_profile_def system_config_control_profile_def
      desktop_channel_control_profile_def network_socket_control_profile_def
    by simp
  with supported_gateway_domains [of "''no-shell-access''" strict_configuration] strict_profile
  show ?thesis by (simp add: dstdomain_matches_def ends_with_def starts_with_def)
qed

end
