(* ===== verification/Tester_World.thy ===== *)
theory Tester_World
  imports Host
begin

text \<open>
  The machine Sandbox Tester runs on, as the program under \<open>src/sandbox_tester\<close> meets it. As for the
  Docker runner the machine is a parameter and the state is a log, but here the files matter: a
  log says what is on the disk (\<open>disk\<close>), a write may fail and leave a part behind, and a file is
  a list of chunks, because the status file grows line by line. The definitions stand for
  \<open>pathlib\<close>, \<open>subprocess\<close> and \<open>print\<close> and have no entry in the map.
\<close>

datatype chunk = Document json | Json_Line json | Fragment string

datatype tester_event =
    Made_Directory path
  | Written path "chunk list"
  | Appended path chunk
  | Moved path path
  | Deleted path
  | Set_Mode path nat
  | Linked_To path path
  | Printed string
  | Ran "string list"
  | Ran_In path "string list"

text \<open>What the machine answers, given everything that happened before: a fault of a write comes
  with the chunks that are left in the file; \<open>json_file\<close> is what \<open>json.loads\<close> makes of a file.\<close>

record machine =
  directory_fault :: "tester_event list \<Rightarrow> path \<Rightarrow> py_error option"
  write_fault :: "tester_event list \<Rightarrow> path \<Rightarrow> json \<Rightarrow> (py_error \<times> chunk list) option"
  append_fault :: "tester_event list \<Rightarrow> path \<Rightarrow> json \<Rightarrow> (py_error \<times> string) option"
  move_fault :: "tester_event list \<Rightarrow> path \<Rightarrow> path \<Rightarrow> py_error option"
  json_file :: "tester_event list \<Rightarrow> path \<Rightarrow> json res"
  clock :: "tester_event list \<Rightarrow> string"
  run_answer :: "tester_event list \<Rightarrow> string list \<Rightarrow> completed res"
  cpu_count :: "int option res"
  error_repr :: "py_error \<Rightarrow> string"
  expand :: "path \<Rightarrow> path res"
  resolve :: "path \<Rightarrow> path res"

type_synonym 'a act = "(tester_event list, 'a) py"

definition make_directory :: "machine \<Rightarrow> path \<Rightarrow> unit act" where
  "make_directory m p = (\<lambda>log. case directory_fault m log p of
     Some e \<Rightarrow> (Inl e, log) | None \<Rightarrow> (Inr (), log @ [Made_Directory p]))"

text \<open>\<open>write_text(json.dumps(data) + newline)\<close> replaces the content; what a failing write leaves is
  arbitrary.\<close>

definition write_document :: "machine \<Rightarrow> path \<Rightarrow> json \<Rightarrow> unit act" where
  "write_document m p data = (\<lambda>log. case write_fault m log p data of
     Some (e, left) \<Rightarrow> (Inl e, log @ [Written p left])
   | None \<Rightarrow> (Inr (), log @ [Written p [Document data]]))"

definition append_line :: "machine \<Rightarrow> path \<Rightarrow> json \<Rightarrow> unit act" where
  "append_line m p data = (\<lambda>log. case append_fault m log p data of
     Some (e, left) \<Rightarrow> (Inl e, log @ [Appended p (Fragment left)])
   | None \<Rightarrow> (Inr (), log @ [Appended p (Json_Line data)]))"

text \<open>\<open>Path.replace\<close> is a rename: it happens or it does not.\<close>

definition move_file :: "machine \<Rightarrow> path \<Rightarrow> path \<Rightarrow> unit act" where
  "move_file m p q = (\<lambda>log. case move_fault m log p q of
     Some e \<Rightarrow> (Inl e, log) | None \<Rightarrow> (Inr (), log @ [Moved p q]))"

definition read_json :: "machine \<Rightarrow> path \<Rightarrow> json act" where
  "read_json m p = (\<lambda>log. (json_file m log p, log))"

definition print_line :: "string \<Rightarrow> unit act" where
  "print_line line = (\<lambda>log. (Inr (), log @ [Printed line]))"

definition run_program :: "machine \<Rightarrow> string list \<Rightarrow> completed act" where
  "run_program m command = (\<lambda>log. (run_answer m log command, log @ [Ran command]))"

section \<open>The disk\<close>

text \<open>What a log leaves of the files the program writes; a link holds what its target held when it was made.
  What other programs do to the disk is not seen here: the probes that start them answer from the world.\<close>

type_synonym disk = "path \<Rightarrow> chunk list option"

fun disk_step :: "disk \<Rightarrow> tester_event \<Rightarrow> disk" where
  "disk_step d (Written p content) = d(p := Some content)"
| "disk_step d (Appended p chunk) = d(p := Some (case d p of None \<Rightarrow> [chunk] | Some old \<Rightarrow> old @ [chunk]))"
| "disk_step d (Moved p q) = (if p = q then d else d(q := d p, p := None))"
| "disk_step d (Deleted p) = d(p := None)"
| "disk_step d (Linked_To p q) = d(p := d q)"
| "disk_step d _ = d"

definition disk_after :: "disk \<Rightarrow> tester_event list \<Rightarrow> disk" where
  "disk_after d log = foldl disk_step d log"

lemma disk_after_simps [simp]:
  "disk_after d [] = d"
  "disk_after d (e # log) = disk_after (disk_step d e) log"
  "disk_after d (log @ log') = disk_after (disk_after d log) log'"
  by (simp_all add: disk_after_def)

text \<open>An event leaves a path alone.\<close>

fun spares :: "path \<Rightarrow> tester_event \<Rightarrow> bool" where
  "spares p (Written q _) = (q \<noteq> p)"
| "spares p (Appended q _) = (q \<noteq> p)"
| "spares p (Moved q r) = (q \<noteq> p \<and> r \<noteq> p)"
| "spares p (Deleted q) = (q \<noteq> p)"
| "spares p (Linked_To q _) = (q \<noteq> p)"
| "spares p _ = True"

lemma disk_step_spared [simp]: "spares p e \<Longrightarrow> disk_step d e p = d p"
  by (cases e) auto

lemma disk_after_spared: "list_all (spares p) log \<Longrightarrow> disk_after d log p = d p"
  by (induction log arbitrary: d) auto

section \<open>What is appended\<close>

lemma emits_make_directory [emits_intros]: "P (Made_Directory p) \<Longrightarrow> emits P (make_directory m p)"
  by (simp add: appends_def make_directory_def split: option.split)

lemma emits_append_line [emits_intros]:
  "(\<And>chunk. P (Appended p chunk)) \<Longrightarrow> emits P (append_line m p data)"
  by (simp add: appends_def append_line_def split: option.split)

lemma emits_write_document [emits_intros]:
  "(\<And>content. P (Written p content)) \<Longrightarrow> emits P (write_document m p data)"
  by (simp add: appends_def write_document_def split: option.split)

lemma emits_move_file [emits_intros]: "P (Moved p q) \<Longrightarrow> emits P (move_file m p q)"
  by (simp add: appends_def move_file_def split: option.split)

lemma emits_read_json [emits_intros]: "emits P (read_json m p)"
  by (simp add: appends_def read_json_def)

lemma emits_print_line [emits_intros]: "P (Printed line) \<Longrightarrow> emits P (print_line line)"
  by (simp add: appends_def print_line_def)

lemma emits_run_program [emits_intros]: "P (Ran command) \<Longrightarrow> emits P (run_program m command)"
  by (simp add: appends_def run_program_def)

lemma world_success:
  "make_directory m p log = (Inr u, log') \<longleftrightarrow> directory_fault m log p = None \<and> log' = log @ [Made_Directory p]"
  "write_document m p data log = (Inr u, log') \<longleftrightarrow>
     write_fault m log p data = None \<and> log' = log @ [Written p [Document data]]"
  "append_line m p data log = (Inr u, log') \<longleftrightarrow>
     append_fault m log p data = None \<and> log' = log @ [Appended p (Json_Line data)]"
  "move_file m p q log = (Inr u, log') \<longleftrightarrow> move_fault m log p q = None \<and> log' = log @ [Moved p q]"
  "read_json m p log = (Inr j, log') \<longleftrightarrow> json_file m log p = Inr j \<and> log' = log"
  "print_line line log = (Inr u, log') \<longleftrightarrow> log' = log @ [Printed line]"
  "run_program m command log = (Inr c, log') \<longleftrightarrow> run_answer m log command = Inr c \<and> log' = log @ [Ran command]"
  by (auto simp: make_directory_def write_document_def append_line_def move_file_def read_json_def
      print_line_def run_program_def split: option.splits)

text \<open>A machine on which nothing fails.\<close>

definition faultless :: "machine \<Rightarrow> bool" where
  "faultless m \<longleftrightarrow> (\<forall>log p. directory_fault m log p = None) \<and>
     (\<forall>log p data. write_fault m log p data = None) \<and>
     (\<forall>log p data. append_fault m log p data = None) \<and> (\<forall>log p q. move_fault m log p q = None)"

lemma faultless_returns [returns_intros]:
  "faultless m \<Longrightarrow> returns (make_directory m p)"
  "faultless m \<Longrightarrow> returns (write_document m p data)"
  "faultless m \<Longrightarrow> returns (append_line m p data)"
  "faultless m \<Longrightarrow> returns (move_file m p q)"
  "returns (print_line line)"
  by (simp_all add: returns_def faultless_def make_directory_def write_document_def append_line_def
      move_file_def print_line_def)

end
