(* ===== verification/Regex.thy ===== *)
theory Regex
  imports Prelude
begin

text \<open>
  The part of Python's \<open>re\<close> the program uses, as a backtracking matcher: \<open>results r p\<close> lists the
  positions a pattern can reach from a position in the order in which \<open>re\<close> tries them, so that
  the first is the match. A position is the text before it, reversed, and the text after it,
  which is what \<open>^\<close> and \<open>\b\<close> look at. It is the standard library's behaviour, so no definition
  here has an entry in the map. Only characters of the 8-bit range exist here, so neither
  the Kelvin sign nor the long s, which match \<open>k\<close> and \<open>s\<close> without case, can occur.
\<close>

type_synonym position = "string \<times> string"

datatype regex =
    Epsilon
  | Chars "char \<Rightarrow> bool"
  | Seq regex regex
  | Alt regex regex
  | Greedy regex
  | Lazily regex
  | Line_Start
  | Word_Boundary

definition is_alphabetic :: "char \<Rightarrow> bool" where
  "is_alphabetic c \<longleftrightarrow> is_upper c \<or> is_lower c"

text \<open>\<open>\w\<close>: letters, numerals and the underscore, of ASCII and of Latin-1.\<close>

definition is_word :: "char \<Rightarrow> bool" where
  "is_word c \<longleftrightarrow> is_alphabetic c \<or> is_digit c \<or> c = CHR ''_'' \<or>
     code c \<in> {170, 178, 179, 181, 185, 186, 188, 189, 190} \<or>
     (192 \<le> code c \<and> code c \<noteq> 215 \<and> code c \<noteq> 247)"

definition word_at :: "string \<Rightarrow> bool" where
  "word_at s = (case s of [] \<Rightarrow> False | c # _ \<Rightarrow> is_word c)"

definition line_start :: "position \<Rightarrow> bool" where
  "line_start p = (case fst p of [] \<Rightarrow> True | c # _ \<Rightarrow> c = CHR 0x0A)"

definition word_boundary :: "position \<Rightarrow> bool" where
  "word_boundary p \<longleftrightarrow> word_at (fst p) \<noteq> word_at (snd p)"

definition step_char :: "(char \<Rightarrow> bool) \<Rightarrow> position \<Rightarrow> position list" where
  "step_char P p = (case snd p of [] \<Rightarrow> [] | c # cs \<Rightarrow> if P c then [(c # fst p, cs)] else [])"

function results :: "regex \<Rightarrow> position \<Rightarrow> position list" where
  "results Epsilon p = [p]"
| "results (Chars P) p = step_char P p"
| "results (Seq a b) p = concat (map (results b) (results a p))"
| "results (Alt a b) p = results a p @ results b p"
| "results (Greedy a) p =
     concat (map (\<lambda>q. if length (snd q) < length (snd p) then results (Greedy a) q else [])
       (results a p)) @ [p]"
| "results (Lazily a) p =
     p # concat (map (\<lambda>q. if length (snd q) < length (snd p) then results (Lazily a) q else [])
       (results a p))"
| "results Line_Start p = (if line_start p then [p] else [])"
| "results Word_Boundary p = (if word_boundary p then [p] else [])"
  by pat_completeness auto
termination
  by (relation "measure size <*lex*> measure (\<lambda>p. length (snd p))") auto

declare results.simps(5,6) [simp del]

fun literal :: "string \<Rightarrow> regex" where
  "literal [] = Epsilon"
| "literal (c # cs) = Seq (Chars (\<lambda>x. x = c)) (literal cs)"

fun alternatives :: "regex list \<Rightarrow> regex" where
  "alternatives [] = Chars (\<lambda>_. False)"
| "alternatives [r] = r"
| "alternatives (r # s # rs) = Alt r (alternatives (s # rs))"

definition Many :: "(char \<Rightarrow> bool) \<Rightarrow> regex" where
  "Many P = Greedy (Chars P)"

definition Some_Of :: "(char \<Rightarrow> bool) \<Rightarrow> regex" where
  "Some_Of P = Seq (Chars P) (Many P)"

text \<open>\<open>re.sub\<close> for a pattern that is a kept part followed by a dropped part: the first match at
  each position keeps the text of the first part and puts the replacement for the second. The
  patterns of this program never match the empty string, so a match always moves on.\<close>

definition first_match :: "regex \<Rightarrow> regex \<Rightarrow> position \<Rightarrow> (position \<times> position) option" where
  "first_match kept dropped p =
     (case concat (map (\<lambda>q. map (\<lambda>r. (q, r)) (results dropped q)) (results kept p)) of
        [] \<Rightarrow> None
      | m # _ \<Rightarrow> Some m)"

definition text_between :: "position \<Rightarrow> position \<Rightarrow> string" where
  "text_between p q = take (length (snd p) - length (snd q)) (snd p)"

function sub_from :: "regex \<Rightarrow> regex \<Rightarrow> string \<Rightarrow> position \<Rightarrow> string" where
  "sub_from kept dropped replacement p =
     (case snd p of
        [] \<Rightarrow> []
      | c # cs \<Rightarrow>
          (case first_match kept dropped p of
             Some (q, r) \<Rightarrow>
               if length (snd r) < length (snd p)
               then text_between p q @ replacement @ sub_from kept dropped replacement r
               else c # sub_from kept dropped replacement (c # fst p, cs)
           | None \<Rightarrow> c # sub_from kept dropped replacement (c # fst p, cs)))"
  by pat_completeness auto
termination
  by (relation "measure (\<lambda>(_, _, _, p). length (snd p))") auto

declare sub_from.simps [simp del]

definition re_sub :: "regex \<Rightarrow> regex \<Rightarrow> string \<Rightarrow> string \<Rightarrow> string" where
  "re_sub kept dropped replacement text = sub_from kept dropped replacement ([], text)"

section \<open>Moving on\<close>

text \<open>A position moves along one text.\<close>

definition advance :: "position \<Rightarrow> position \<Rightarrow> bool" where
  "advance p q \<longleftrightarrow> (\<exists>u. snd p = u @ snd q \<and> fst q = rev u @ fst p)"

lemma advance_refl [simp]: "advance p p"
  by (simp add: advance_def)

lemma advance_trans: "advance p q \<Longrightarrow> advance q r \<Longrightarrow> advance p r"
  unfolding advance_def by force

lemma advance_step_char: "q \<in> set (step_char P p) \<Longrightarrow> advance p q"
  by (auto simp: step_char_def advance_def split: list.splits if_splits)

lemma advance_results: "q \<in> set (results r p) \<Longrightarrow> advance p q"
proof (induction r p arbitrary: q rule: results.induct)
  case (2 P p)
  then show ?case by (simp add: advance_step_char)
next
  case (3 a b p)
  then obtain x where "x \<in> set (results a p)" "q \<in> set (results b x)" by auto
  with 3 show ?case by (blast intro: advance_trans)
next
  case (5 a p)
  then consider "q = p" | x where "x \<in> set (results a p)" "length (snd x) < length (snd p)"
      "q \<in> set (results (Greedy a) x)"
    by (auto simp: results.simps(5) [of a p] split: if_splits)
  then show ?case
    using 5 by cases (simp, blast intro: advance_trans)
next
  case (6 a p)
  then consider "q = p" | x where "x \<in> set (results a p)" "length (snd x) < length (snd p)"
      "q \<in> set (results (Lazily a) x)"
    by (auto simp: results.simps(6) [of a p] split: if_splits)
  then show ?case
    using 6 by cases (simp, blast intro: advance_trans)
qed (auto split: if_splits)

lemma text_between_append: "text_between p q = u" if "snd p = u @ snd q"
  using that by (simp add: text_between_def)

section \<open>The patterns without backtracking\<close>

lemma results_literal:
  "results (literal w) (b, s) =
     (if starts_with s w then [(rev w @ b, drop (length w) s)] else [])"
proof (induction w arbitrary: b s)
  case Nil
  show ?case by (simp add: starts_with_def)
next
  case (Cons c w)
  then show ?case
    by (cases s) (auto simp: step_char_def starts_with_def)
qed

lemma results_Many_Cons:
  "results (Many P) (b, c # s) =
     (if P c then results (Many P) (c # b, s) else []) @ [(b, c # s)]"
  by (simp add: Many_def step_char_def results.simps(5) [of "Chars P" "(b, c # s)"])

lemma results_Many_Nil: "results (Many P) (b, []) = [(b, [])]"
  by (simp add: Many_def step_char_def results.simps(5))

lemma hd_results_Many:
  "hd (results (Many P) (b, s)) = (rev (takeWhile P s) @ b, dropWhile P s)"
proof (induction s arbitrary: b)
  case Nil
  show ?case by (simp add: results_Many_Nil)
next
  case (Cons c s)
  have "results (Many P) (c # b, s) \<noteq> []"
    by (cases s) (simp_all add: results_Many_Nil results_Many_Cons)
  with Cons [of "c # b"] show ?case
    by (simp add: results_Many_Cons hd_append)
qed

lemma results_Many_ne [simp]: "results (Many P) p \<noteq> []"
  by (simp add: Many_def results.simps(5))

lemma set_results_Many:
  "q \<in> set (results (Many P) (b, s)) \<longleftrightarrow>
     (\<exists>u v. s = u @ v \<and> (\<forall>c \<in> set u. P c) \<and> q = (rev u @ b, v))"
proof (induction s arbitrary: b)
  case Nil
  show ?case by (auto simp: results_Many_Nil)
next
  case (Cons c s)
  note IH = Cons.IH
  show ?case
  proof
    assume "q \<in> set (results (Many P) (b, c # s))"
    then have "q = (b, c # s) \<or> P c \<and> q \<in> set (results (Many P) (c # b, s))"
      by (cases "P c") (auto simp: results_Many_Cons)
    then consider "q = (b, c # s)" | "P c" "q \<in> set (results (Many P) (c # b, s))"
      by blast
    then show "\<exists>u v. c # s = u @ v \<and> (\<forall>c \<in> set u. P c) \<and> q = (rev u @ b, v)"
    proof cases
      case 1
      then show ?thesis by (intro exI [of _ "[]"] exI [of _ "c # s"]) simp
    next
      case 2
      with IH obtain u v where "s = u @ v" "\<forall>c \<in> set u. P c" "q = (rev u @ c # b, v)" by blast
      with 2 show ?thesis by (intro exI [of _ "c # u"] exI [of _ v]) simp
    qed
  next
    assume "\<exists>u v. c # s = u @ v \<and> (\<forall>c \<in> set u. P c) \<and> q = (rev u @ b, v)"
    then obtain u v where u: "c # s = u @ v" "\<forall>c \<in> set u. P c" "q = (rev u @ b, v)" by blast
    show "q \<in> set (results (Many P) (b, c # s))"
    proof (cases u)
      case Nil
      with u have "q = (b, c # s)" by simp
      then show ?thesis by (simp only: results_Many_Cons set_append list.set) blast
    next
      case (Cons d w)
      with u have "P c" "s = w @ v" "\<forall>c \<in> set w. P c" "q = (rev w @ c # b, v)" by auto
      then have "P c" "q \<in> set (results (Many P) (c # b, s))"
        unfolding IH by blast+
      then show ?thesis by (simp add: results_Many_Cons)
    qed
  qed
qed

lemma set_results_Lazily:
  "q \<in> set (results (Lazily (Chars P)) (b, s)) \<longleftrightarrow>
     (\<exists>u v. s = u @ v \<and> (\<forall>c \<in> set u. P c) \<and> q = (rev u @ b, v))"
proof (induction s arbitrary: b)
  case Nil
  show ?case by (auto simp: results.simps(6) step_char_def)
next
  case (Cons c s)
  have "q \<in> set (results (Lazily (Chars P)) (b, c # s)) \<longleftrightarrow>
      q = (b, c # s) \<or> P c \<and> q \<in> set (results (Lazily (Chars P)) (c # b, s))"
    by (simp add: results.simps(6) [of _ "(b, c # s)"] step_char_def)
  also have "\<dots> \<longleftrightarrow> (\<exists>u v. c # s = u @ v \<and> (\<forall>c \<in> set u. P c) \<and> q = (rev u @ b, v))"
    unfolding Cons.IH by (auto simp: Cons_eq_append_conv) 
  finally show ?case .
qed

section \<open>The words of a pattern\<close>

text \<open>A pattern without anchors matches by its words alone, wherever it stands.\<close>

definition words :: "regex \<Rightarrow> string set \<Rightarrow> bool" where
  "words r L \<longleftrightarrow> (\<forall>b s q. q \<in> set (results r (b, s)) \<longleftrightarrow>
     (\<exists>w \<in> L. \<exists>v. s = w @ v \<and> q = (rev w @ b, v)))"

lemma words_iff:
  "words r L \<Longrightarrow> q \<in> set (results r (b, s)) \<longleftrightarrow> (\<exists>w \<in> L. \<exists>v. s = w @ v \<and> q = (rev w @ b, v))"
  unfolding words_def by blast

lemma words_cong: "words r A \<Longrightarrow> A = B \<Longrightarrow> words r B"
  by simp

lemma words_literal: "words (literal w) {w}"
  by (auto simp: words_def results_literal starts_with_iff)

lemma words_Chars: "words (Chars P) {w. \<exists>c. P c \<and> w = [c]}"
  by (auto simp: words_def step_char_def split: list.split)

lemma words_Many: "words (Many P) {w. list_all P w}"
  by (auto simp: words_def set_results_Many list_all_iff)

lemma words_Lazily: "words (Lazily (Chars P)) {w. list_all P w}"
  by (auto simp: words_def set_results_Lazily list_all_iff)

lemma words_Epsilon: "words Epsilon {[]}"
  by (simp add: words_def)

lemma words_Alt: "words r A \<Longrightarrow> words s B \<Longrightarrow> words (Alt r s) (A \<union> B)"
  by (simp add: words_def bex_Un)

lemma words_Seq:
  assumes "words r A" and "words s B"
  shows "words (Seq r s) {w. \<exists>x \<in> A. \<exists>y \<in> B. w = x @ y}"
  unfolding words_def
proof (intro allI iffI)
  fix b t q
  assume "q \<in> set (results (Seq r s) (b, t))"
  then obtain p where p: "p \<in> set (results r (b, t))" "q \<in> set (results s p)" by auto
  then obtain x v where x: "x \<in> A" "t = x @ v" "p = (rev x @ b, v)"
    using words_iff [OF assms(1)] by blast
  with p(2) obtain y u where "y \<in> B" "v = y @ u" "q = (rev y @ rev x @ b, u)"
    using words_iff [OF assms(2)] by blast
  with x show "\<exists>w \<in> {w. \<exists>x \<in> A. \<exists>y \<in> B. w = x @ y}. \<exists>v. t = w @ v \<and> q = (rev w @ b, v)"
    by auto
next
  fix b t q
  assume "\<exists>w \<in> {w. \<exists>x \<in> A. \<exists>y \<in> B. w = x @ y}. \<exists>v. t = w @ v \<and> q = (rev w @ b, v)"
  then obtain x y v where w: "x \<in> A" "y \<in> B" "t = x @ y @ v" "q = (rev y @ rev x @ b, v)"
    by auto
  then have "(rev x @ b, y @ v) \<in> set (results r (b, t))"
    using words_iff [OF assms(1)] by blast
  moreover have "q \<in> set (results s (rev x @ b, y @ v))"
    using w words_iff [OF assms(2)] by blast
  ultimately show "q \<in> set (results (Seq r s) (b, t))" by auto
qed

text \<open>The same for sequences, with the words described by what they are made of.\<close>

lemma words_part_Seq:
  "words s A \<Longrightarrow> words r {w. \<exists>x. w = f x \<and> Q x} \<Longrightarrow>
   words (Seq s r) {w. \<exists>x. w = fst x @ f (snd x) \<and> fst x \<in> A \<and> Q (snd x)}"
  by (rule words_cong [OF words_Seq]) auto

lemma words_literal_Seq:
  "words r {w. \<exists>x. w = f x \<and> Q x} \<Longrightarrow> words (Seq (literal a) r) {w. \<exists>x. w = a @ f x \<and> Q x}"
  by (rule words_cong [OF words_part_Seq [OF words_literal]]) auto

lemmas words_Many_Seq = words_part_Seq [OF words_Many]
lemmas words_Lazily_Seq = words_part_Seq [OF words_Lazily]

lemma words_last: "words r A \<Longrightarrow> words r {w. \<exists>x. w = x \<and> x \<in> A}"
  by simp

lemma words_alternatives:
  "list_all2 words rs Ls \<Longrightarrow> words (alternatives rs) (\<Union> (set Ls))"
proof (induction rs arbitrary: Ls rule: alternatives.induct)
  case 1
  then show ?case by (simp add: words_def step_char_def split: list.split)
next
  case (3 r s rs)
  then obtain L Ls' where "Ls = L # Ls'" "words r L" "list_all2 words (s # rs) Ls'"
    by (auto simp: list_all2_Cons1)
  with words_Alt 3 show ?case by simp
qed (auto simp: list_all2_Cons1)

lemma words_last_literal: "words (literal a) {w. \<exists>x :: unit. w = a \<and> True}"
  by (rule words_cong [OF words_literal]) auto

section \<open>Substitution of a whole pattern\<close>

lemma sub_from_Nil [simp]: "sub_from kept dropped replacement (b, []) = []"
  by (simp add: sub_from.simps)

lemma sub_from_no_match:
  "first_match kept dropped (b, c # cs) = None \<Longrightarrow>
   sub_from kept dropped replacement (b, c # cs) = c # sub_from kept dropped replacement (c # b, cs)"
  by (simp add: sub_from.simps [of _ _ _ "(b, c # cs)"])

lemma first_match_Epsilon:
  "first_match Epsilon dropped p = (case results dropped p of [] \<Rightarrow> None | r # _ \<Rightarrow> Some (p, r))"
  by (simp add: first_match_def split: list.split)

lemma first_match_None: "first_match kept dropped p = None \<longleftrightarrow>
    (\<forall>q \<in> set (results kept p). results dropped q = [])"
proof -
  have "first_match kept dropped p = None \<longleftrightarrow>
      concat (map (\<lambda>q. map (\<lambda>r. (q, r)) (results dropped q)) (results kept p)) = []"
    unfolding first_match_def by (simp split: list.split del: concat_eq_Nil_conv)
  then show ?thesis by simp
qed

text \<open>Where a pattern matches nowhere, nothing changes.\<close>

lemma sub_from_id:
  "(\<And>u v. s = u @ v \<Longrightarrow> first_match kept dropped (rev u @ b, v) = None) \<Longrightarrow>
   sub_from kept dropped replacement (b, s) = s"
proof (induction s arbitrary: b)
  case Nil
  show ?case by simp
next
  case (Cons c s)
  from Cons.prems [of "[]" "c # s"] have "first_match kept dropped (b, c # s) = None" by simp
  moreover have "sub_from kept dropped replacement (c # b, s) = s"
  proof (rule Cons.IH)
    fix u v
    assume "s = u @ v"
    with Cons.prems [of "c # u" v] show "first_match kept dropped (rev u @ c # b, v) = None" by simp
  qed
  ultimately show ?case by (simp add: sub_from_no_match)
qed

text \<open>If every way to match the kept part ends at one position, the first match is there.\<close>

lemma hd_concat_map: "xs \<noteq> [] \<Longrightarrow> (\<forall>x \<in> set xs. x = a) \<Longrightarrow> f a \<noteq> [] \<Longrightarrow>
  \<exists>rest. concat (map f xs) = hd (f a) # rest"
  by (cases xs) (auto simp: neq_Nil_conv)

lemma first_match_unique:
  assumes "results kept p \<noteq> []" and "\<And>q. q \<in> set (results kept p) \<Longrightarrow> q = q0"
    and "results dropped q0 \<noteq> []"
  shows "first_match kept dropped p = Some (q0, hd (results dropped q0))"
proof -
  have "\<exists>rest. concat (map (\<lambda>q. map (\<lambda>r. (q, r)) (results dropped q)) (results kept p)) =
      hd (map (\<lambda>r. (q0, r)) (results dropped q0)) # rest"
    using assms by (intro hd_concat_map) auto
  with assms(3) show ?thesis
    by (auto simp: first_match_def hd_map)
qed

lemma results_alternatives:
  "q \<in> set (results (alternatives rs) p) \<longleftrightarrow> (\<exists>r \<in> set rs. q \<in> set (results r p))"
  by (induction rs rule: alternatives.induct) (auto simp: step_char_def split: list.split)

text \<open>A replacement marked by a character of its own: what precedes the mark in the result was
  already in the text.\<close>

lemma starts_with_Cons: "starts_with (c # s) (x # w) \<longleftrightarrow> x = c \<and> starts_with s w"
  by (auto simp: starts_with_def)

lemma sub_from_prefix:
  assumes "starts_with (sub_from Epsilon dropped (m # rest) (b, s)) w" and "m \<notin> set w"
  shows "starts_with s w"
  using assms
proof (induction w arbitrary: b s)
  case Nil
  show ?case by (simp add: starts_with_def)
next
  case (Cons x w)
  show ?case
  proof (cases s)
    case Nil
    with Cons.prems show ?thesis by (simp add: starts_with_def)
  next
    case [simp]: (Cons c cs)
    have "sub_from Epsilon dropped (m # rest) (b, s) = c # sub_from Epsilon dropped (m # rest) (c # b, cs) \<or>
        (\<exists>t. sub_from Epsilon dropped (m # rest) (b, s) = m # t)"
      by (auto simp: sub_from.simps [of _ _ _ "(b, c # cs)"] first_match_Epsilon text_between_def
          split: list.split)
    with Cons.prems have eq: "sub_from Epsilon dropped (m # rest) (b, s) =
        c # sub_from Epsilon dropped (m # rest) (c # b, cs)"
      by (auto simp: starts_with_def)
    from Cons.prems(1) have "x = c" and "starts_with (sub_from Epsilon dropped (m # rest) (c # b, cs)) w"
      unfolding eq starts_with_Cons by simp_all
    with Cons.IH Cons.prems(2) have "starts_with cs w" by auto
    with \<open>x = c\<close> show ?thesis by (simp add: starts_with_def)
  qed
qed

end
