(* ===== verification/Tester_Models.thy ===== *)
theory Tester_Models
  imports Redaction Posix_Path Json
begin

text \<open>
  The data of Sandbox Tester: \<open>src/sandbox_tester/models.py\<close>, with the redaction its constructors
  perform, and the capability context of \<open>src/sandbox_tester/testing.py\<close> with its conversion to
  and from JSON.
\<close>

section \<open>Results\<close>

datatype outcome = ALLOWED | DENIED | ERROR | NOT_APPLICABLE

fun outcome_value :: "outcome \<Rightarrow> string" where
  "outcome_value ALLOWED = ''Allowed''"
| "outcome_value DENIED = ''Denied''"
| "outcome_value ERROR = ''Error''"
| "outcome_value NOT_APPLICABLE = ''N/A''"

lemma outcome_value_inj: "outcome_value a = outcome_value b \<longleftrightarrow> a = b"
  by (cases a; cases b) simp_all

text \<open>The records are what an object holds after \<open>__post_init__\<close>, the functions of the class's name
  are the constructors.\<close>

record invocation_result =
  iv_outcome :: outcome
  iv_summary :: string
  iv_evidence :: string

definition InvocationResult :: "outcome \<Rightarrow> string \<Rightarrow> string \<Rightarrow> invocation_result" where
  "InvocationResult outcome summary evidence =
     \<lparr>iv_outcome = outcome, iv_summary = summary, iv_evidence = redact_evidence evidence\<rparr>"

record alternate_attempt_result =
  aa_id :: string
  aa_title :: string
  aa_outcome :: outcome
  aa_bypass_class :: string
  aa_command_family :: string
  aa_evidence :: string

definition AlternateAttemptResult ::
    "string \<Rightarrow> string \<Rightarrow> outcome \<Rightarrow> string \<Rightarrow> string \<Rightarrow> string \<Rightarrow> alternate_attempt_result" where
  "AlternateAttemptResult identifier title outcome bypass_class command_family evidence =
     \<lparr>aa_id = identifier, aa_title = title, aa_outcome = outcome, aa_bypass_class = bypass_class,
      aa_command_family = command_family, aa_evidence = redact_evidence evidence\<rparr>"

record alternate_invocation_result =
  ai_outcome :: outcome
  ai_summary :: string
  ai_attempts :: "alternate_attempt_result list"

record capability_result =
  cr_id :: string
  cr_title :: string
  cr_shell :: invocation_result
  cr_tool :: invocation_result
  cr_alternates :: alternate_invocation_result

record capability_group_result =
  cg_id :: string
  cg_title :: string
  cg_capabilities :: "capability_result list"

section \<open>The capability context\<close>

datatype operating_system = WINDOWS | LINUX

fun operating_system_value :: "operating_system \<Rightarrow> string" where
  "operating_system_value WINDOWS = ''Windows''"
| "operating_system_value LINUX = ''Linux''"

text \<open>\<open>OperatingSystem(value)\<close>.\<close>

definition operating_system_of :: "json \<Rightarrow> operating_system res" where
  "operating_system_of v =
     (if v = JStr ''Windows'' then Inr WINDOWS
      else if v = JStr ''Linux'' then Inr LINUX
      else Inl (ValueError (json_repr v @ '' is not a valid OperatingSystem'')))"

text \<open>The fields declared \<open>str | None\<close> are taken from the document as they are, so they hold any
  JSON value.\<close>

record capability_context =
  cx_working_directory :: path
  cx_allowed_directory :: path
  cx_denied_directory :: path
  cx_runtime_user_directory :: path
  cx_runtime_temp_directory :: path
  cx_mounted_shared_directory :: "path option"
  cx_operating_system :: operating_system
  cx_allowed_domain :: json
  cx_denied_domain :: json
  cx_allowed_local_address :: json
  cx_denied_local_address :: json
  cx_allowed_localnet_address :: json
  cx_denied_localnet_address :: json
  cx_allowed_intranet_target :: json
  cx_denied_intranet_target :: json
  cx_allowed_database_address :: json
  cx_denied_database_address :: json
  cx_container_runtime_socket :: json
  cx_local_dev_server_url :: json
  cx_local_model_server_url :: json
  cx_metadata_endpoint_url :: json
  cx_dns_exfiltration_domain :: json
  cx_http_exfiltration_domain :: json
  cx_http_exfiltration_header :: json
  cx_websocket_exfiltration_url :: json
  cx_smtp_exfiltration_url :: json
  cx_ssh_agent_socket :: json
  cx_browser_debugging_url :: json
  cx_browser_executable :: "path option"
  cx_existing_browser_profile :: "path option"
  cx_browser_chromium_arguments :: "string list"
  cx_allowed_git_repository :: "path option"
  cx_denied_git_repository :: "path option"
  cx_git_remote_url :: json
  cx_output_directory :: "path option"
  cx_allow_camera_capture :: bool
  cx_allow_microphone_capture :: bool

fun path_to_json :: "path \<Rightarrow> json" where
  "path_to_json p = JStr (path_str p)"

fun optional_path_to_json :: "path option \<Rightarrow> json" where
  "optional_path_to_json None = JNull"
| "optional_path_to_json (Some p) = path_to_json p"

text \<open>\<open>Path(value)\<close> takes a string only.\<close>

fun path_from_json :: "json \<Rightarrow> path res" where
  "path_from_json (JStr s) = Inr (path_of s)"
| "path_from_json v = Inl (TypeError ''argument should be a str or an os.PathLike object'')"

fun optional_path_from_json :: "json \<Rightarrow> path option res" where
  "optional_path_from_json JNull = Inr None"
| "optional_path_from_json v = res_bind (path_from_json v) (\<lambda>p. Inr (Some p))"

definition context_fields :: "capability_context \<Rightarrow> (string \<times> json) list" where
  "context_fields c =
     [(''working_directory'', path_to_json (cx_working_directory c)),
      (''allowed_directory'', path_to_json (cx_allowed_directory c)),
      (''denied_directory'', path_to_json (cx_denied_directory c)),
      (''runtime_user_directory'', path_to_json (cx_runtime_user_directory c)),
      (''runtime_temp_directory'', path_to_json (cx_runtime_temp_directory c)),
      (''mounted_shared_directory'', optional_path_to_json (cx_mounted_shared_directory c)),
      (''operating_system'', JStr (operating_system_value (cx_operating_system c))),
      (''allowed_domain'', cx_allowed_domain c),
      (''denied_domain'', cx_denied_domain c),
      (''allowed_local_address'', cx_allowed_local_address c),
      (''denied_local_address'', cx_denied_local_address c),
      (''allowed_localnet_address'', cx_allowed_localnet_address c),
      (''denied_localnet_address'', cx_denied_localnet_address c),
      (''allowed_intranet_target'', cx_allowed_intranet_target c),
      (''denied_intranet_target'', cx_denied_intranet_target c),
      (''allowed_database_address'', cx_allowed_database_address c),
      (''denied_database_address'', cx_denied_database_address c),
      (''container_runtime_socket'', cx_container_runtime_socket c),
      (''local_dev_server_url'', cx_local_dev_server_url c),
      (''local_model_server_url'', cx_local_model_server_url c),
      (''metadata_endpoint_url'', cx_metadata_endpoint_url c),
      (''dns_exfiltration_domain'', cx_dns_exfiltration_domain c),
      (''http_exfiltration_domain'', cx_http_exfiltration_domain c),
      (''http_exfiltration_header'', cx_http_exfiltration_header c),
      (''websocket_exfiltration_url'', cx_websocket_exfiltration_url c),
      (''smtp_exfiltration_url'', cx_smtp_exfiltration_url c),
      (''ssh_agent_socket'', cx_ssh_agent_socket c),
      (''browser_debugging_url'', cx_browser_debugging_url c),
      (''browser_executable'', optional_path_to_json (cx_browser_executable c)),
      (''existing_browser_profile'', optional_path_to_json (cx_existing_browser_profile c)),
      (''browser_chromium_arguments'', JList (map JStr (cx_browser_chromium_arguments c))),
      (''allowed_git_repository'', optional_path_to_json (cx_allowed_git_repository c)),
      (''denied_git_repository'', optional_path_to_json (cx_denied_git_repository c)),
      (''git_remote_url'', cx_git_remote_url c),
      (''output_directory'', optional_path_to_json (cx_output_directory c)),
      (''allow_camera_capture'', JBool (cx_allow_camera_capture c)),
      (''allow_microphone_capture'', JBool (cx_allow_microphone_capture c))]"

definition to_json_data :: "capability_context \<Rightarrow> json" where
  "to_json_data c = JObj (context_fields c)"

text \<open>\<open>tuple(str(argument) for argument in value)\<close>.\<close>

definition string_tuple :: "json \<Rightarrow> string list res" where
  "string_tuple v = res_bind (json_iter v) (\<lambda>items. Inr (map json_str items))"

definition from_json_data :: "json \<Rightarrow> capability_context res" where
  "from_json_data data =
     res_bind (res_bind (json_index data ''working_directory'') path_from_json) (\<lambda>working_directory.
     res_bind (res_bind (json_index data ''allowed_directory'') path_from_json) (\<lambda>allowed_directory.
     res_bind (res_bind (json_index data ''denied_directory'') path_from_json) (\<lambda>denied_directory.
     res_bind (res_bind (json_index data ''runtime_user_directory'') path_from_json) (\<lambda>runtime_user_directory.
     res_bind (res_bind (json_index data ''runtime_temp_directory'') path_from_json) (\<lambda>runtime_temp_directory.
     res_bind (res_bind (json_get data ''mounted_shared_directory'') optional_path_from_json) (\<lambda>mounted_shared_directory.
     res_bind (res_bind (json_index data ''operating_system'') operating_system_of) (\<lambda>operating_system.
     res_bind (json_get data ''allowed_domain'') (\<lambda>allowed_domain.
     res_bind (json_get data ''denied_domain'') (\<lambda>denied_domain.
     res_bind (json_get data ''allowed_local_address'') (\<lambda>allowed_local_address.
     res_bind (json_get data ''denied_local_address'') (\<lambda>denied_local_address.
     res_bind (json_get data ''allowed_localnet_address'') (\<lambda>allowed_localnet_address.
     res_bind (json_get data ''denied_localnet_address'') (\<lambda>denied_localnet_address.
     res_bind (json_get data ''allowed_intranet_target'') (\<lambda>allowed_intranet_target.
     res_bind (json_get data ''denied_intranet_target'') (\<lambda>denied_intranet_target.
     res_bind (json_get data ''allowed_database_address'') (\<lambda>allowed_database_address.
     res_bind (json_get data ''denied_database_address'') (\<lambda>denied_database_address.
     res_bind (json_get data ''container_runtime_socket'') (\<lambda>container_runtime_socket.
     res_bind (json_get data ''local_dev_server_url'') (\<lambda>local_dev_server_url.
     res_bind (json_get data ''local_model_server_url'') (\<lambda>local_model_server_url.
     res_bind (json_get data ''metadata_endpoint_url'') (\<lambda>metadata_endpoint_url.
     res_bind (json_get data ''dns_exfiltration_domain'') (\<lambda>dns_exfiltration_domain.
     res_bind (json_get data ''http_exfiltration_domain'') (\<lambda>http_exfiltration_domain.
     res_bind (json_get data ''http_exfiltration_header'') (\<lambda>http_exfiltration_header.
     res_bind (json_get data ''websocket_exfiltration_url'') (\<lambda>websocket_exfiltration_url.
     res_bind (json_get data ''smtp_exfiltration_url'') (\<lambda>smtp_exfiltration_url.
     res_bind (json_get data ''ssh_agent_socket'') (\<lambda>ssh_agent_socket.
     res_bind (json_get data ''browser_debugging_url'') (\<lambda>browser_debugging_url.
     res_bind (res_bind (json_get data ''browser_executable'') optional_path_from_json) (\<lambda>browser_executable.
     res_bind (res_bind (json_get data ''existing_browser_profile'') optional_path_from_json) (\<lambda>existing_browser_profile.
     res_bind (res_bind (json_get_default data ''browser_chromium_arguments'' (JList [])) string_tuple) (\<lambda>browser_chromium_arguments.
     res_bind (res_bind (json_get data ''allowed_git_repository'') optional_path_from_json) (\<lambda>allowed_git_repository.
     res_bind (res_bind (json_get data ''denied_git_repository'') optional_path_from_json) (\<lambda>denied_git_repository.
     res_bind (json_get data ''git_remote_url'') (\<lambda>git_remote_url.
     res_bind (res_bind (json_get data ''output_directory'') optional_path_from_json) (\<lambda>output_directory.
     res_bind (res_bind (json_get data ''allow_camera_capture'') (\<lambda>v. Inr (json_truthy v))) (\<lambda>allow_camera_capture.
     res_bind (res_bind (json_get data ''allow_microphone_capture'') (\<lambda>v. Inr (json_truthy v))) (\<lambda>allow_microphone_capture.
     Inr \<lparr>cx_working_directory = working_directory,
       cx_allowed_directory = allowed_directory,
       cx_denied_directory = denied_directory,
       cx_runtime_user_directory = runtime_user_directory,
       cx_runtime_temp_directory = runtime_temp_directory,
       cx_mounted_shared_directory = mounted_shared_directory,
       cx_operating_system = operating_system,
       cx_allowed_domain = allowed_domain,
       cx_denied_domain = denied_domain,
       cx_allowed_local_address = allowed_local_address,
       cx_denied_local_address = denied_local_address,
       cx_allowed_localnet_address = allowed_localnet_address,
       cx_denied_localnet_address = denied_localnet_address,
       cx_allowed_intranet_target = allowed_intranet_target,
       cx_denied_intranet_target = denied_intranet_target,
       cx_allowed_database_address = allowed_database_address,
       cx_denied_database_address = denied_database_address,
       cx_container_runtime_socket = container_runtime_socket,
       cx_local_dev_server_url = local_dev_server_url,
       cx_local_model_server_url = local_model_server_url,
       cx_metadata_endpoint_url = metadata_endpoint_url,
       cx_dns_exfiltration_domain = dns_exfiltration_domain,
       cx_http_exfiltration_domain = http_exfiltration_domain,
       cx_http_exfiltration_header = http_exfiltration_header,
       cx_websocket_exfiltration_url = websocket_exfiltration_url,
       cx_smtp_exfiltration_url = smtp_exfiltration_url,
       cx_ssh_agent_socket = ssh_agent_socket,
       cx_browser_debugging_url = browser_debugging_url,
       cx_browser_executable = browser_executable,
       cx_existing_browser_profile = existing_browser_profile,
       cx_browser_chromium_arguments = browser_chromium_arguments,
       cx_allowed_git_repository = allowed_git_repository,
       cx_denied_git_repository = denied_git_repository,
       cx_git_remote_url = git_remote_url,
       cx_output_directory = output_directory,
       cx_allow_camera_capture = allow_camera_capture,
       cx_allow_microphone_capture = allow_microphone_capture\<rparr>)))))))))))))))))))))))))))))))))))))"

definition paths_well_formed :: "capability_context \<Rightarrow> bool" where
  "paths_well_formed c \<longleftrightarrow>
     list_all path_wf [cx_working_directory c, cx_allowed_directory c, cx_denied_directory c,
       cx_runtime_user_directory c, cx_runtime_temp_directory c] \<and>
     list_all (pred_option path_wf) [cx_mounted_shared_directory c, cx_browser_executable c,
       cx_existing_browser_profile c, cx_allowed_git_repository c, cx_denied_git_repository c,
       cx_output_directory c]"

lemma path_from_to_json: "path_wf p \<Longrightarrow> path_from_json (path_to_json p) = Inr p"
  by (simp add: path_of_path_str)

lemma optional_path_from_to_json:
  "pred_option path_wf p \<Longrightarrow> optional_path_from_json (optional_path_to_json p) = Inr p"
  by (cases p) (simp_all add: path_of_path_str)

lemma operating_system_of_value: "operating_system_of (JStr (operating_system_value s)) = Inr s"
  by (cases s) (simp_all add: operating_system_of_def)

lemma string_tuple_strings: "string_tuple (JList (map JStr xs)) = Inr xs"
  by (simp add: string_tuple_def comp_def)

lemma lookup_all: "distinct (map fst kvs) \<Longrightarrow> kvs = xs \<Longrightarrow> list_all (\<lambda>(k, v). dict_get kvs k = Some v) xs"
  by (auto simp: list_all_iff)

lemma context_keys_distinct: "distinct (map fst (context_fields c))"
proof -
  have "map fst (context_fields c) = map fst (context_fields undefined)"
    by (simp add: context_fields_def)
  also have "distinct \<dots>"
    unfolding context_fields_def list.map fst_conv by code_simp
  finally show ?thesis .
qed

text \<open>What is stored under each of the keys.\<close>

lemmas context_lookup =
  lookup_all [OF context_keys_distinct context_fields_def, unfolded list.pred_inject prod.case]

lemma from_to_json_data:
  assumes "paths_well_formed c"
  shows "from_json_data (to_json_data c) = Inr c"
proof -
  have "list_all (\<lambda>p. path_from_json (path_to_json p) = Inr p) [cx_working_directory c,
      cx_allowed_directory c, cx_denied_directory c, cx_runtime_user_directory c,
      cx_runtime_temp_directory c]"
    using assms by (simp add: paths_well_formed_def path_from_to_json del: path_from_json.simps path_to_json.simps)
  moreover have "list_all (\<lambda>p. optional_path_from_json (optional_path_to_json p) = Inr p)
      [cx_mounted_shared_directory c, cx_browser_executable c,
       cx_existing_browser_profile c, cx_allowed_git_repository c, cx_denied_git_repository c,
       cx_output_directory c]"
    using assms by (simp add: paths_well_formed_def optional_path_from_to_json)
  ultimately show ?thesis
    by (simp add: from_json_data_def to_json_data_def json_get_def json_index_def
        json_get_default_def context_lookup operating_system_of_value string_tuple_strings
        del: path_from_json.simps path_to_json.simps)
qed

text \<open>A capability context written to a document and read back is the same context, whatever
  its fields, provided its paths are paths (every \<open>Path\<close> object is one).\<close>

theorem context_round_trip:
  assumes "paths_well_formed c"
  shows "from_json_data (to_json_data c) = Inr c"
  by (rule from_to_json_data [OF assms])

definition sample_context :: capability_context where
  "sample_context = \<lparr>cx_working_directory = path_of ''/w'',
     cx_allowed_directory = path_of ''/w'',
     cx_denied_directory = path_of ''/w'',
     cx_runtime_user_directory = path_of ''/w'',
     cx_runtime_temp_directory = path_of ''/w'',
     cx_mounted_shared_directory = None,
     cx_operating_system = LINUX,
     cx_allowed_domain = JStr ''example.com'',
     cx_denied_domain = JNull,
     cx_allowed_local_address = JNull,
     cx_denied_local_address = JNull,
     cx_allowed_localnet_address = JNull,
     cx_denied_localnet_address = JNull,
     cx_allowed_intranet_target = JNull,
     cx_denied_intranet_target = JNull,
     cx_allowed_database_address = JNull,
     cx_denied_database_address = JNull,
     cx_container_runtime_socket = JNull,
     cx_local_dev_server_url = JNull,
     cx_local_model_server_url = JNull,
     cx_metadata_endpoint_url = JNull,
     cx_dns_exfiltration_domain = JNull,
     cx_http_exfiltration_domain = JNull,
     cx_http_exfiltration_header = JNull,
     cx_websocket_exfiltration_url = JNull,
     cx_smtp_exfiltration_url = JNull,
     cx_ssh_agent_socket = JNull,
     cx_browser_debugging_url = JNull,
     cx_browser_executable = None,
     cx_existing_browser_profile = None,
     cx_browser_chromium_arguments = [''--headless''],
     cx_allowed_git_repository = None,
     cx_denied_git_repository = None,
     cx_git_remote_url = JNull,
     cx_output_directory = Some (path_of ''out''),
     cx_allow_camera_capture = True,
     cx_allow_microphone_capture = True\<rparr>"

theorem context_round_trip_witness: "from_json_data (to_json_data sample_context) = Inr sample_context"
  by (rule context_round_trip) (simp add: paths_well_formed_def sample_context_def)

text \<open>The keys a document must have are read with an index, so a document without one of them is
  refused with the name of the first that is missing.\<close>

definition REQUIRED_KEYS :: "string list" where
  "REQUIRED_KEYS = [''working_directory'', ''allowed_directory'', ''denied_directory'',
     ''runtime_user_directory'', ''runtime_temp_directory'', ''operating_system'']"

lemma from_json_data_required:
  assumes "from_json_data (JObj kvs) = Inr c" and "k \<in> set REQUIRED_KEYS"
  shows "dict_get kvs k \<noteq> None"
  using assms by (auto simp: from_json_data_def REQUIRED_KEYS_def json_index_def res_bind_eq_Inr
      split: option.splits)

end
