(* ===== verification/Reporting.thy ===== *)
theory Reporting
  imports Tester_World Tester_Models
begin

text \<open>
  The reporters of \<open>src/sandbox_tester/reporter.py\<close> and the loop \<open>run_group\<close> of
  \<open>src/sandbox_tester/testing.py\<close> that tells them what happens. The protocol class
  \<open>TestReporter\<close> is a record of its six methods, each reporter class a value of it, and the
  locale \<open>reporter_contract\<close> says what a caller may rely on. The capability tests themselves
  are parameters here: actions that may do anything, but only by adding to the log.
\<close>

section \<open>Reporters\<close>

record test_reporter =
  group_started :: "string \<Rightarrow> string \<Rightarrow> unit act"
  group_skipped :: "string \<Rightarrow> string \<Rightarrow> unit act"
  capability_started :: "string \<Rightarrow> string \<Rightarrow> string \<Rightarrow> unit act"
  shell_completed :: "invocation_result \<Rightarrow> unit act"
  tool_completed :: "invocation_result \<Rightarrow> unit act"
  alternates_completed :: "alternate_invocation_result \<Rightarrow> unit act"

definition ruler :: string where
  "ruler = replicate 20 CHR ''-''"

definition ConsoleReporter :: test_reporter where
  "ConsoleReporter = \<lparr>
     group_started = (\<lambda>group_id group_title. steps
       [print_line '''', print_line (group_id @ '' '' @ group_title), print_line ruler]),
     group_skipped = (\<lambda>group_id group_title. steps
       [print_line '''', print_line (''`'' @ group_id @ '' `(skipped) '' @ group_title),
        print_line ruler]),
     capability_started = (\<lambda>group_id capability_id capability_title.
       print_line (''  '' @ group_id @ '' '' @ capability_id @ '' '' @ capability_title)),
     shell_completed = (\<lambda>result. print_line (''    shell: '' @ outcome_value (iv_outcome result))),
     tool_completed = (\<lambda>result. print_line (''    tool:  '' @ outcome_value (iv_outcome result))),
     alternates_completed =
       (\<lambda>result. print_line (''    alt:   '' @ outcome_value (ai_outcome result)))\<rparr>"

definition QuietReporter :: test_reporter where
  "QuietReporter = \<lparr>
     group_started = (\<lambda>group_id group_title. print_line (group_id @ '' '' @ group_title)),
     group_skipped = (\<lambda>group_id group_title.
       print_line (group_id @ '' (skipped) '' @ group_title @ '' '')),
     capability_started = (\<lambda>_ _ _. ret ()),
     shell_completed = (\<lambda>_. ret ()),
     tool_completed = (\<lambda>_. ret ()),
     alternates_completed = (\<lambda>_. ret ())\<rparr>"

text \<open>One event of the status file; the clock is the machine's.\<close>

definition status_event :: "string \<Rightarrow> string \<Rightarrow> (string \<times> string) list \<Rightarrow> json" where
  "status_event event_type timestamp event_fields =
     JObj ([(''event_type'', JStr event_type), (''timestamp_utc'', JStr timestamp)] @
       map (\<lambda>(k, v). (k, JStr v)) event_fields)"

definition write_event ::
    "machine \<Rightarrow> path \<Rightarrow> string \<Rightarrow> (string \<times> string) list \<Rightarrow> unit act" where
  "write_event m status_path event_type event_fields =
     bind (ask (clock m)) (\<lambda>timestamp.
       append_line m status_path (status_event event_type timestamp event_fields))"

text \<open>The object after \<open>__init__\<close>; the constructor makes the directory of the file.\<close>

definition status_file_reporter :: "machine \<Rightarrow> path \<Rightarrow> test_reporter" where
  "status_file_reporter m status_path = \<lparr>
     group_started = (\<lambda>group_id group_title. write_event m status_path ''group_started''
       [(''group_id'', group_id), (''group_title'', group_title),
        (''message'', group_id @ '' '' @ group_title)]),
     group_skipped = (\<lambda>group_id group_title. write_event m status_path ''group_skipped''
       [(''group_id'', group_id), (''group_title'', group_title),
        (''message'', group_id @ '' (skipped) '' @ group_title)]),
     capability_started = (\<lambda>group_id capability_id capability_title.
       write_event m status_path ''capability_started''
         [(''group_id'', group_id), (''capability_id'', capability_id),
          (''capability_title'', capability_title),
          (''message'', group_id @ '' '' @ capability_id @ '' '' @ capability_title)]),
     shell_completed = (\<lambda>result. write_event m status_path ''shell_completed''
       [(''outcome'', outcome_value (iv_outcome result)), (''summary'', iv_summary result)]),
     tool_completed = (\<lambda>result. write_event m status_path ''tool_completed''
       [(''outcome'', outcome_value (iv_outcome result)), (''summary'', iv_summary result)]),
     alternates_completed = (\<lambda>result. write_event m status_path ''alternates_completed''
       [(''outcome'', outcome_value (ai_outcome result)), (''summary'', ai_summary result)])\<rparr>"

definition StatusFileReporter :: "machine \<Rightarrow> path \<Rightarrow> test_reporter act" where
  "StatusFileReporter m status_path =
     andthen (make_directory m (path_parent status_path)) (ret (status_file_reporter m status_path))"

definition CompositeReporter :: "test_reporter list \<Rightarrow> test_reporter" where
  "CompositeReporter reporters = \<lparr>
     group_started = (\<lambda>group_id group_title.
       for_each reporters (\<lambda>reporter. group_started reporter group_id group_title)),
     group_skipped = (\<lambda>group_id group_title.
       for_each reporters (\<lambda>reporter. group_skipped reporter group_id group_title)),
     capability_started = (\<lambda>group_id capability_id capability_title.
       for_each reporters
         (\<lambda>reporter. capability_started reporter group_id capability_id capability_title)),
     shell_completed = (\<lambda>result. for_each reporters (\<lambda>reporter. shell_completed reporter result)),
     tool_completed = (\<lambda>result. for_each reporters (\<lambda>reporter. tool_completed reporter result)),
     alternates_completed =
       (\<lambda>result. for_each reporters (\<lambda>reporter. alternates_completed reporter result))\<rparr>"

section \<open>Running a group\<close>

record capability_test =
  ct_id :: string
  ct_title :: string
  run_shell :: "invocation_result act"
  run_tool :: "invocation_result act"
  run_alternates :: "alternate_invocation_result act"

record capability_group =
  gr_id :: string
  gr_title :: string
  gr_tests :: "capability_test list"

definition run_capability ::
    "string \<Rightarrow> test_reporter \<Rightarrow> capability_test \<Rightarrow> capability_result act" where
  "run_capability group_id reporter test =
     andthen (capability_started reporter group_id (ct_id test) (ct_title test))
     (bind (run_shell test) (\<lambda>shell_result. andthen (shell_completed reporter shell_result)
     (bind (run_tool test) (\<lambda>tool_result. andthen (tool_completed reporter tool_result)
     (bind (run_alternates test) (\<lambda>alternate_result.
        andthen (alternates_completed reporter alternate_result)
     (ret \<lparr>cr_id = ct_id test, cr_title = ct_title test, cr_shell = shell_result,
        cr_tool = tool_result, cr_alternates = alternate_result\<rparr>)))))))"

definition run_group :: "capability_group \<Rightarrow> test_reporter \<Rightarrow> capability_group_result act" where
  "run_group grp reporter =
     andthen (group_started reporter (gr_id grp) (gr_title grp))
     (bind (collect_each (gr_tests grp) (run_capability (gr_id grp) reporter)) (\<lambda>results.
        ret \<lparr>cg_id = gr_id grp, cg_title = gr_title grp, cg_capabilities = results\<rparr>))"

definition no_alternates :: "alternate_invocation_result act" where
  "no_alternates = ret
     \<lparr>ai_outcome = NOT_APPLICABLE,
      ai_summary = ''No alternate shell attempts are implemented for this capability.'',
      ai_attempts = []\<rparr>"

section \<open>What reporters promise\<close>

text \<open>The tests of a group add only events of a given kind.\<close>

definition group_emits :: "(tester_event \<Rightarrow> bool) \<Rightarrow> capability_group \<Rightarrow> bool" where
  "group_emits P grp \<longleftrightarrow> (\<forall>t \<in> set (gr_tests grp).
     emits P (run_shell t) \<and> emits P (run_tool t) \<and> emits P (run_alternates t))"

lemma group_emitsD:
  "group_emits P grp \<Longrightarrow> t \<in> set (gr_tests grp) \<Longrightarrow>
   emits P (run_shell t) \<and> emits P (run_tool t) \<and> emits P (run_alternates t)"
  by (auto simp: group_emits_def)

lemma group_emits_mono: "group_emits P grp \<Longrightarrow> (\<And>e. P e \<Longrightarrow> Q e) \<Longrightarrow> group_emits Q grp"
  unfolding group_emits_def by (meson emits_mono)

text \<open>A reporter only adds events of a given kind, whatever it is told.\<close>

locale reporter_contract =
  fixes reporter :: test_reporter and P :: "tester_event \<Rightarrow> bool"
  assumes started_emits: "emits P (group_started reporter g t)"
    and skipped_emits: "emits P (group_skipped reporter g t)"
    and capability_emits: "emits P (capability_started reporter g c t)"
    and shell_emits: "emits P (shell_completed reporter r)"
    and tool_emits: "emits P (tool_completed reporter r)"
    and alternates_emits: "emits P (alternates_completed reporter a)"
begin

lemmas reporter_emits = started_emits skipped_emits capability_emits shell_emits tool_emits
  alternates_emits

text \<open>So running tests through it adds only such events and those of the tests.\<close>

lemma run_capability_emits:
  "emits P (run_shell t) \<Longrightarrow> emits P (run_tool t) \<Longrightarrow> emits P (run_alternates t) \<Longrightarrow>
   emits P (run_capability g reporter t)"
  unfolding run_capability_def by (intro emits_intros reporter_emits)

lemma run_group_emits: "group_emits P grp \<Longrightarrow> emits P (run_group grp reporter)"
  unfolding run_group_def
  by (intro emits_intros reporter_emits run_capability_emits) (auto dest: group_emitsD)

end

fun prints :: "tester_event \<Rightarrow> bool" where
  "prints (Printed _) = True"
| "prints _ = False"

fun appends_to :: "path \<Rightarrow> tester_event \<Rightarrow> bool" where
  "appends_to p (Appended q _) = (q = p)"
| "appends_to p _ = False"

lemma emits_write_event [emits_intros]:
  "(\<And>chunk. P (Appended status_path chunk)) \<Longrightarrow> emits P (write_event m status_path event_type event_fields)"
  unfolding write_event_def by (intro emits_intros)

interpretation console: reporter_contract ConsoleReporter prints
  by unfold_locales (simp_all add: ConsoleReporter_def emits_intros)

interpretation quiet: reporter_contract QuietReporter prints
  by unfold_locales (simp_all add: QuietReporter_def emits_intros)

interpretation status_file: reporter_contract "status_file_reporter m status_path"
  "appends_to status_path" for m status_path
  by unfold_locales (simp_all add: status_file_reporter_def emits_intros)

text \<open>A composite keeps what all its parts keep.\<close>

lemma composite_contract:
  "(\<And>reporter. reporter \<in> set reporters \<Longrightarrow> reporter_contract reporter P) \<Longrightarrow>
   reporter_contract (CompositeReporter reporters) P"
  by unfold_locales
    (auto simp: CompositeReporter_def intro!: each_event.for_each dest: reporter_contract.reporter_emits)

section \<open>What the status file says\<close>

text \<open>The lines appended to a file, without their time stamps, and the protocol a run of a group
  should leave there.\<close>

definition untimed :: "json \<Rightarrow> json" where
  "untimed v = (case v of JObj kvs \<Rightarrow> JObj (filter (\<lambda>kv. fst kv \<noteq> ''timestamp_utc'') kvs) | _ \<Rightarrow> v)"

fun line_of :: "path \<Rightarrow> tester_event \<Rightarrow> json list" where
  "line_of p (Appended q (Json_Line v)) = (if q = p then [untimed v] else [])"
| "line_of p _ = []"

definition lines_of :: "path \<Rightarrow> tester_event list \<Rightarrow> json list" where
  "lines_of p log = concat (map (line_of p) log)"

lemma lines_of_simps [simp]:
  "lines_of p [] = []"
  "lines_of p (e # log) = line_of p e @ lines_of p log"
  "lines_of p (log @ log') = lines_of p log @ lines_of p log'"
  by (simp_all add: lines_of_def)

lemma lines_of_spared: "list_all (spares p) log \<Longrightarrow> lines_of p log = []"
proof (induction log)
  case (Cons e log)
  moreover have "spares p e \<Longrightarrow> line_of p e = []"
    by (cases "(p, e)" rule: line_of.cases) auto
  ultimately show ?case by simp
qed simp

definition status_line :: "string \<Rightarrow> (string \<times> string) list \<Rightarrow> json" where
  "status_line event_type event_fields =
     JObj ((''event_type'', JStr event_type) # map (\<lambda>(k, v). (k, JStr v)) event_fields)"

definition group_line :: "string \<Rightarrow> string \<Rightarrow> json" where
  "group_line g t = status_line ''group_started''
     [(''group_id'', g), (''group_title'', t), (''message'', g @ '' '' @ t)]"

definition skipped_line :: "string \<Rightarrow> string \<Rightarrow> json" where
  "skipped_line g t = status_line ''group_skipped''
     [(''group_id'', g), (''group_title'', t), (''message'', g @ '' (skipped) '' @ t)]"

definition capability_line :: "string \<Rightarrow> string \<Rightarrow> string \<Rightarrow> json" where
  "capability_line g c t = status_line ''capability_started''
     [(''group_id'', g), (''capability_id'', c), (''capability_title'', t),
      (''message'', g @ '' '' @ c @ '' '' @ t)]"

definition result_line :: "string \<Rightarrow> outcome \<Rightarrow> string \<Rightarrow> json" where
  "result_line event_type outcome summary = status_line event_type
     [(''outcome'', outcome_value outcome), (''summary'', summary)]"

definition capability_lines :: "string \<Rightarrow> capability_result \<Rightarrow> json list" where
  "capability_lines g r =
     [capability_line g (cr_id r) (cr_title r),
      result_line ''shell_completed'' (iv_outcome (cr_shell r)) (iv_summary (cr_shell r)),
      result_line ''tool_completed'' (iv_outcome (cr_tool r)) (iv_summary (cr_tool r)),
      result_line ''alternates_completed'' (ai_outcome (cr_alternates r)) (ai_summary (cr_alternates r))]"

definition group_lines :: "capability_group_result \<Rightarrow> json list" where
  "group_lines r = group_line (cg_id r) (cg_title r) #
     concat (map (capability_lines (cg_id r)) (cg_capabilities r))"

text \<open>An action that returns has added exactly these lines.\<close>

definition adds_lines :: "path \<Rightarrow> 'a act \<Rightarrow> ('a \<Rightarrow> json list) \<Rightarrow> bool" where
  "adds_lines p m ls \<longleftrightarrow>
     (\<forall>log a log'. m log = (Inr a, log') \<longrightarrow> (\<exists>new. log' = log @ new \<and> lines_of p new = ls a))"

lemma adds_lines_ret: "adds_lines p (ret a) (\<lambda>_. [])"
  by (simp add: adds_lines_def ret_Inr)

lemma adds_lines_bind:
  assumes "adds_lines p m ls" and "\<And>a. adds_lines p (f a) (\<lambda>b. rest a b)"
    and "\<And>a b log log' log''. m log = (Inr a, log') \<Longrightarrow> f a log' = (Inr b, log'') \<Longrightarrow> ls a @ rest a b = all b"
  shows "adds_lines p (bind m f) all"
  unfolding adds_lines_def bind_Inr
proof (intro allI impI, elim exE conjE)
  fix log b log'' a log'
  assume m: "m log = (Inr a, log')" and f: "f a log' = (Inr b, log'')"
  from assms(1) m obtain x where "log' = log @ x" "lines_of p x = ls a"
    unfolding adds_lines_def by blast
  moreover from assms(2) f obtain y where "log'' = log' @ y" "lines_of p y = rest a b"
    unfolding adds_lines_def by blast
  ultimately have "log'' = log @ x @ y" "lines_of p (x @ y) = all b"
    using assms(3) [OF m f] by simp_all
  then show "\<exists>new. log'' = log @ new \<and> lines_of p new = all b" by blast
qed

lemma adds_lines_quiet: "emits (spares p) m \<Longrightarrow> adds_lines p m (\<lambda>_. [])"
  unfolding adds_lines_def by (metis appendsD lines_of_spared)

lemma adds_lines_andthen:
  assumes "adds_lines p m (\<lambda>_. ls)" and "adds_lines p n rest"
  shows "adds_lines p (andthen m n) (\<lambda>b. ls @ rest b)"
  unfolding andthen_def by (rule adds_lines_bind [OF assms]) simp

text \<open>A reporter that keeps the protocol in a file.\<close>

locale status_keeper =
  fixes reporter :: test_reporter and p :: path
  assumes started_line: "adds_lines p (group_started reporter g t) (\<lambda>_. [group_line g t])"
    and skipped_group_line: "adds_lines p (group_skipped reporter g t) (\<lambda>_. [skipped_line g t])"
    and capability_started_line:
      "adds_lines p (capability_started reporter g c t) (\<lambda>_. [capability_line g c t])"
    and shell_line: "adds_lines p (shell_completed reporter r)
      (\<lambda>_. [result_line ''shell_completed'' (iv_outcome r) (iv_summary r)])"
    and tool_line: "adds_lines p (tool_completed reporter r)
      (\<lambda>_. [result_line ''tool_completed'' (iv_outcome r) (iv_summary r)])"
    and alternates_line: "adds_lines p (alternates_completed reporter a)
      (\<lambda>_. [result_line ''alternates_completed'' (ai_outcome a) (ai_summary a)])"
begin

lemma run_capability_lines:
  assumes "emits (spares p) (run_shell t)" "emits (spares p) (run_tool t)"
    "emits (spares p) (run_alternates t)"
  shows "adds_lines p (run_capability g reporter t) (capability_lines g)"
proof -
  note quiet = assms [THEN adds_lines_quiet]
  have alternates: "adds_lines p (bind (run_alternates t) (\<lambda>a. andthen (alternates_completed reporter a)
      (ret \<lparr>cr_id = ct_id t, cr_title = ct_title t, cr_shell = s, cr_tool = l, cr_alternates = a\<rparr>)))
    (\<lambda>r. drop 3 (capability_lines g r))" for s l
    by (rule adds_lines_bind [OF quiet(3) adds_lines_andthen [OF alternates_line adds_lines_ret]])
      (auto simp: andthen_Inr ret_Inr capability_lines_def)
  have tool: "adds_lines p (bind (run_tool t) (\<lambda>l. andthen (tool_completed reporter l)
      (bind (run_alternates t) (\<lambda>a. andthen (alternates_completed reporter a)
      (ret \<lparr>cr_id = ct_id t, cr_title = ct_title t, cr_shell = s, cr_tool = l, cr_alternates = a\<rparr>)))))
    (\<lambda>r. drop 2 (capability_lines g r))" for s
    by (rule adds_lines_bind [OF quiet(2) adds_lines_andthen [OF tool_line alternates]])
      (auto simp: andthen_Inr bind_Inr ret_Inr capability_lines_def)
  have shell: "adds_lines p (bind (run_shell t) (\<lambda>s. andthen (shell_completed reporter s)
      (bind (run_tool t) (\<lambda>l. andthen (tool_completed reporter l)
      (bind (run_alternates t) (\<lambda>a. andthen (alternates_completed reporter a)
      (ret \<lparr>cr_id = ct_id t, cr_title = ct_title t, cr_shell = s, cr_tool = l, cr_alternates = a\<rparr>)))))))
    (\<lambda>r. drop 1 (capability_lines g r))"
    by (rule adds_lines_bind [OF quiet(1) adds_lines_andthen [OF shell_line tool]])
      (auto simp: andthen_Inr bind_Inr ret_Inr capability_lines_def)
  show ?thesis
    unfolding run_capability_def andthen_def [of "capability_started _ _ _ _"]
    by (rule adds_lines_bind [OF capability_started_line shell])
      (auto simp: andthen_Inr bind_Inr ret_Inr capability_lines_def)
qed

end

lemma adds_lines_collect:
  "(\<And>x. x \<in> set xs \<Longrightarrow> adds_lines p (f x) ls) \<Longrightarrow>
   adds_lines p (collect_each xs f) (\<lambda>rs. concat (map ls rs))"
proof (induction xs)
  case Nil
  show ?case by (simp add: adds_lines_def ret_Inr)
next
  case (Cons x xs)
  have rest: "adds_lines p (bind (collect_each xs f) (\<lambda>rs. ret (r # rs)))
      (\<lambda>all. concat (map ls (tl all)))" for r
    by (rule adds_lines_bind [OF Cons.IH adds_lines_ret]) (use Cons.prems in \<open>auto simp: ret_Inr\<close>)
  show ?case
    unfolding collect_each.simps
    by (rule adds_lines_bind [OF Cons.prems [of x] rest]) (auto simp: bind_Inr ret_Inr)
qed

context status_keeper
begin

lemma run_group_lines:
  assumes "group_emits (spares p) grp"
  shows "adds_lines p (run_group grp reporter) group_lines"
proof -
  have "adds_lines p (collect_each (gr_tests grp) (run_capability (gr_id grp) reporter))
      (\<lambda>rs. concat (map (capability_lines (gr_id grp)) rs))"
    using group_emitsD [OF assms] by (auto intro!: adds_lines_collect run_capability_lines)
  then have "adds_lines p (bind (collect_each (gr_tests grp) (run_capability (gr_id grp) reporter))
      (\<lambda>results. ret \<lparr>cg_id = gr_id grp, cg_title = gr_title grp, cg_capabilities = results\<rparr>))
      (\<lambda>r. concat (map (capability_lines (cg_id r)) (cg_capabilities r)))"
    by (rule adds_lines_bind [OF _ adds_lines_ret]) (auto simp: ret_Inr)
  then show ?thesis
    unfolding run_group_def andthen_def
    by (rule adds_lines_bind [OF started_line])
      (auto simp: bind_Inr ret_Inr group_lines_def)
qed

end

lemma adds_lines_write_event:
  "''timestamp_utc'' \<notin> fst ` set event_fields \<Longrightarrow>
   adds_lines p (write_event m p event_type event_fields) (\<lambda>_. [status_line event_type event_fields])"
proof -
  assume "''timestamp_utc'' \<notin> fst ` set event_fields"
  then have "filter (\<lambda>kv. fst kv \<noteq> ''timestamp_utc'') event_fields = event_fields"
    by (intro filter_True) force
  then show ?thesis
    by (auto simp: adds_lines_def write_event_def bind_def ask_def world_success untimed_def
        status_event_def status_line_def filter_map comp_def case_prod_beta)
qed

interpretation status_file_lines: status_keeper "status_file_reporter m p" p for m p
  by unfold_locales
    (simp_all add: status_file_reporter_def adds_lines_write_event group_line_def skipped_line_def
      capability_line_def result_line_def)

text \<open>In a composite, the reporters before the status file only print.\<close>

lemma prints_spares: "prints e \<Longrightarrow> spares p e"
  by (cases e) auto

lemma adds_lines_pair:
  "emits prints (f a) \<Longrightarrow> adds_lines p (f b) ls \<Longrightarrow> adds_lines p (for_each [a, b] f) ls"
proof -
  assume "emits prints (f a)" and b: "adds_lines p (f b) ls"
  then have "adds_lines p (f a) (\<lambda>_. [])"
    by (blast intro: adds_lines_quiet emits_mono prints_spares)
  moreover have "adds_lines p (andthen (f b) (ret ())) ls"
    unfolding andthen_def by (rule adds_lines_bind [OF b adds_lines_ret]) simp
  ultimately show ?thesis
    unfolding for_each.simps andthen_def [of "f a"]
    by (rule adds_lines_bind) simp
qed

lemma composite_keeper:
  assumes "reporter_contract console prints" and "status_keeper keeper p"
  shows "status_keeper (CompositeReporter [console, keeper]) p"
  using reporter_contract.reporter_emits [OF assms(1)] assms(2) [unfolded status_keeper_def]
  by unfold_locales (auto simp: CompositeReporter_def status_keeper_def simp del: for_each.simps
      intro!: adds_lines_pair)

end
