(* ===== verification/Tester_Runner.thy ===== *)
theory Tester_Runner
  imports Reporting
begin

text \<open>
  \<open>src/sandbox_tester/manager.py\<close>, \<open>runner.py\<close>, \<open>utilities.py\<close> and \<open>cli.py\<close>: the order of the
  groups, the run from a configuration file to \<open>report.json\<close> and \<open>done.json\<close>, and the entry
  point from parsed arguments. The group factories, \<open>GROUP_FACTORIES\<close>, are a parameter: what a
  probe does is its group's business.
\<close>

type_synonym group_factory = "capability_context \<Rightarrow> capability_group"

section \<open>The manager\<close>

definition ENABLED_GROUPS :: "string list" where
  "ENABLED_GROUPS =
     [''G01'', ''G02'', ''G03'', ''G04'', ''G05'', ''G06'', ''G07'', ''G08'', ''G09'', ''G10'', ''G11'',
      ''G12'', ''G13'', ''G14'', ''G15'', ''G16'', ''G17'', ''G18'', ''G19'', ''G20'', ''G21'', ''G22'',
      ''G30'']"

fun run_all_groups ::
    "group_factory list \<Rightarrow> capability_context \<Rightarrow> test_reporter \<Rightarrow> capability_group_result list act" where
  "run_all_groups [] capability_context reporter = ret []"
| "run_all_groups (group_factory # factories) capability_context reporter =
     (let grp = group_factory capability_context
      in if gr_id grp \<notin> set ENABLED_GROUPS
         then andthen (group_skipped reporter (gr_id grp) (gr_title grp))
           (run_all_groups factories capability_context reporter)
         else bind (run_group grp reporter) (\<lambda>group_result.
           bind (run_all_groups factories capability_context reporter) (\<lambda>group_results.
             ret (group_result # group_results))))"

section \<open>The report\<close>

text \<open>\<open>dataclasses.asdict\<close> of a group result; an \<open>Outcome\<close> is a string.\<close>

definition invocation_data :: "invocation_result \<Rightarrow> json" where
  "invocation_data r = JObj
     [(''outcome'', JStr (outcome_value (iv_outcome r))), (''summary'', JStr (iv_summary r)),
      (''evidence'', JStr (iv_evidence r))]"

definition attempt_data :: "alternate_attempt_result \<Rightarrow> json" where
  "attempt_data r = JObj
     [(''id'', JStr (aa_id r)), (''title'', JStr (aa_title r)),
      (''outcome'', JStr (outcome_value (aa_outcome r))),
      (''bypass_class'', JStr (aa_bypass_class r)),
      (''command_family'', JStr (aa_command_family r)), (''evidence'', JStr (aa_evidence r))]"

definition alternates_data :: "alternate_invocation_result \<Rightarrow> json" where
  "alternates_data r = JObj
     [(''outcome'', JStr (outcome_value (ai_outcome r))), (''summary'', JStr (ai_summary r)),
      (''attempts'', JList (map attempt_data (ai_attempts r)))]"

definition capability_data :: "capability_result \<Rightarrow> json" where
  "capability_data r = JObj
     [(''id'', JStr (cr_id r)), (''title'', JStr (cr_title r)),
      (''shell'', invocation_data (cr_shell r)), (''tool'', invocation_data (cr_tool r)),
      (''alternates'', alternates_data (cr_alternates r))]"

definition group_data :: "capability_group_result \<Rightarrow> json" where
  "group_data r = JObj
     [(''id'', JStr (cg_id r)), (''title'', JStr (cg_title r)),
      (''capabilities'', JList (map capability_data (cg_capabilities r)))]"

fun remove_serialized_evidence :: "json \<Rightarrow> json" where
  "remove_serialized_evidence (JObj kvs) =
     JObj (map (\<lambda>(key, item). (key, if key = ''evidence'' then JStr ''[REMOVED]''
       else remove_serialized_evidence item)) kvs)"
| "remove_serialized_evidence (JList xs) = JList (map remove_serialized_evidence xs)"
| "remove_serialized_evidence value = value"

definition results_to_json_data :: "capability_group_result list \<Rightarrow> bool \<Rightarrow> json" where
  "results_to_json_data group_results serialize_evidence =
     (let data = map group_data group_results
      in JList (if serialize_evidence then data else map remove_serialized_evidence data))"

definition write_json_atomically :: "machine \<Rightarrow> path \<Rightarrow> json \<Rightarrow> unit act" where
  "write_json_atomically m p data =
     (let temporary_path = with_suffix p (path_suffix p @ ''.tmp'')
      in andthen (write_document m temporary_path data) (move_file m temporary_path p))"

definition done_data :: "path \<Rightarrow> json" where
  "done_data report_path =
     JObj [(''outcome'', JStr ''completed''), (''report_path'', JStr (path_str report_path))]"

definition read_capability_context :: "machine \<Rightarrow> path \<Rightarrow> capability_context act" where
  "read_capability_context m p = bind (read_json m p) (\<lambda>data. lift_res (from_json_data data))"

definition write_capability_context :: "machine \<Rightarrow> capability_context \<Rightarrow> path \<Rightarrow> unit act" where
  "write_capability_context m capability_context p =
     andthen (make_directory m (path_parent p)) (write_document m p (to_json_data capability_context))"

definition run_from_files ::
    "machine \<Rightarrow> group_factory list \<Rightarrow> path \<Rightarrow> path \<Rightarrow> test_reporter \<Rightarrow> bool \<Rightarrow>
     capability_group_result list act" where
  "run_from_files m factories context_path output_directory reporter serialize_evidence =
     andthen (make_directory m output_directory)
     (bind (read_capability_context m context_path) (\<lambda>capability_context.
      let capability_context =
        (if cx_output_directory capability_context \<noteq> Some output_directory
         then capability_context\<lparr>cx_output_directory := Some output_directory\<rparr>
         else capability_context)
      in bind (run_all_groups factories capability_context reporter) (\<lambda>group_results.
      let report_path = path_div output_directory ''report.json'';
          done_path = path_div output_directory ''done.json''
      in andthen (write_json_atomically m report_path (results_to_json_data group_results serialize_evidence))
        (andthen (write_json_atomically m done_path (done_data report_path))
        (ret group_results)))))"

section \<open>The Markdown report\<close>

definition capability_row :: "capability_result \<Rightarrow> string" where
  "capability_row capability =
     ''| '' @ outcome_value (iv_outcome (cr_shell capability)) @ '' | '' @
     outcome_value (iv_outcome (cr_tool capability)) @ '' | '' @
     outcome_value (ai_outcome (cr_alternates capability)) @ '' | '' @
     cr_id capability @ '' | '' @ cr_title capability @ '' |''"

definition markdown_group_lines :: "capability_group_result \<Rightarrow> string list" where
  "markdown_group_lines grp =
     [''## '' @ cg_id grp @ ''. '' @ cg_title grp, ''''] @
     (if cg_capabilities grp = [] then [''No capabilities were tested in this group.'']
      else [''| Shell | Tool | Alternate Shell | ID | Title |'', ''| --- | --- | --- | --- | --- |''] @
        map capability_row (cg_capabilities grp)) @
     ['''']"

definition render_markdown_report :: "capability_group_result list \<Rightarrow> string" where
  "render_markdown_report groups =
     py_join [CHR 0x0A]
       ([''# Sandbox Report'', ''''] @ concat (map markdown_group_lines groups))"

section \<open>The command line\<close>

record tester_arguments =
  ta_config :: path
  ta_output :: "path option"
  ta_verbose :: bool
  ta_serialize_evidence :: bool

definition expand_and_resolve :: "machine \<Rightarrow> path \<Rightarrow> path res" where
  "expand_and_resolve m p = res_bind (expand m p) (resolve m)"

definition get_output_directory :: "machine \<Rightarrow> path \<Rightarrow> path option \<Rightarrow> path act" where
  "get_output_directory m config_path output_directory =
     (case output_directory of
        Some p \<Rightarrow> lift_res (expand_and_resolve m p)
      | None \<Rightarrow>
          bind (read_json m config_path) (\<lambda>config.
          bind (lift_res (json_get config ''output_directory'')) (\<lambda>configured_output_directory.
            if \<not> json_truthy configured_output_directory
            then raise (ValueError (''No --output directory was provided, and config.json does not '' @
              ''include output_directory.''))
            else lift_res (path_from_json configured_output_directory))))"

definition create_reporter :: "machine \<Rightarrow> path \<Rightarrow> bool \<Rightarrow> test_reporter act" where
  "create_reporter m output_directory verbose =
     (let console_reporter = (if verbose then ConsoleReporter else QuietReporter);
          status_path = path_div output_directory ''status.ndjson''
      in bind (StatusFileReporter m status_path) (\<lambda>status_reporter.
           ret (CompositeReporter [console_reporter, status_reporter])))"

definition tester_main :: "machine \<Rightarrow> group_factory list \<Rightarrow> tester_arguments \<Rightarrow> int act" where
  "tester_main m factories parsed_arguments =
     bind (lift_res (expand_and_resolve m (ta_config parsed_arguments))) (\<lambda>config_path.
     bind (get_output_directory m config_path (ta_output parsed_arguments)) (\<lambda>output_directory.
     bind (create_reporter m output_directory (ta_verbose parsed_arguments)) (\<lambda>reporter.
     bind (run_from_files m factories config_path output_directory reporter
       (ta_serialize_evidence parsed_arguments)) (\<lambda>_.
     andthen (print_line (''Sandbox Tester report saved to: '' @
       path_str (path_div output_directory ''report.json'')))
     (ret 0)))))"

section \<open>The files at every moment\<close>

text \<open>A property of the disk that holds before, after and between the given events.\<close>

fun always :: "(disk \<Rightarrow> bool) \<Rightarrow> disk \<Rightarrow> tester_event list \<Rightarrow> bool" where
  "always J d [] = J d"
| "always J d (e # es) = (J d \<and> always J (disk_step d e) es)"

lemma always_append: "always J d (es @ es') \<longleftrightarrow> always J d es \<and> always J (disk_after d es) es'"
proof (induction es arbitrary: d)
  case Nil
  show ?case by (cases es') auto
qed simp

lemma always_last: "always J d es \<Longrightarrow> J (disk_after d es)"
  using always_append [of J d es "[]"] by simp

lemma always_iff: "always J d es \<longleftrightarrow> (\<forall>k \<le> length es. J (disk_after d (take k es)))"
proof (induction es arbitrary: d)
  case (Cons e es)
  have "(\<forall>k \<le> length (e # es). J (disk_after d (take k (e # es)))) \<longleftrightarrow>
      J d \<and> (\<forall>k \<le> length es. J (disk_after (disk_step d e) (take k es)))"
  proof (intro iffI conjI allI impI)
    fix k
    assume "J d \<and> (\<forall>k \<le> length es. J (disk_after (disk_step d e) (take k es)))"
      and "k \<le> length (e # es)"
    then show "J (disk_after d (take k (e # es)))" by (cases k) auto
  next
    assume all: "\<forall>k \<le> length (e # es). J (disk_after d (take k (e # es)))"
    from all [rule_format, of 0] show "J d" by simp
    fix k
    assume "k \<le> length es"
    with all [rule_format, of "Suc k"] show "J (disk_after (disk_step d e) (take k es))" by simp
  qed
  with Cons show ?case by simp
qed simp

text \<open>The state of a run that began with a given log and disk: so far \<open>J\<close> has always held, and now
  \<open>A\<close> does.\<close>

definition so_far ::
    "(disk \<Rightarrow> bool) \<Rightarrow> disk \<Rightarrow> tester_event list \<Rightarrow> (disk \<Rightarrow> bool) \<Rightarrow> tester_event list \<Rightarrow> bool" where
  "so_far J d0 log0 A log \<longleftrightarrow>
     (\<exists>new. log = log0 @ new \<and> always J (disk_after d0 log0) new \<and> A (disk_after d0 log))"

lemma so_far_weaken: "so_far J d0 log0 A log \<Longrightarrow> (\<And>d. A d \<Longrightarrow> B d) \<Longrightarrow> so_far J d0 log0 B log"
  by (auto simp: so_far_def)

lemma so_far_step:
  assumes "so_far J d0 log0 A log" and "\<And>d. A d \<Longrightarrow> J d \<Longrightarrow> always J d new \<and> B (disk_after d new)"
  shows "so_far J d0 log0 B (log @ new)"
proof -
  from assms(1) obtain old where old: "log = log0 @ old" "always J (disk_after d0 log0) old"
    "A (disk_after d0 log)"
    by (auto simp: so_far_def)
  then have "J (disk_after d0 log)" using always_last by fastforce
  with assms(2) old have "always J (disk_after d0 log) new" "B (disk_after d0 (log @ new))" by auto
  with old show ?thesis by (auto simp: so_far_def always_append)
qed

text \<open>Events that spare the files a property looks at keep it.\<close>

definition reads_only :: "path list \<Rightarrow> (disk \<Rightarrow> bool) \<Rightarrow> bool" where
  "reads_only ps A \<longleftrightarrow> (\<forall>d d'. (\<forall>p \<in> set ps. d p = d' p) \<longrightarrow> A d = A d')"

lemma always_spared:
  assumes "reads_only ps A" and "reads_only ps J"
  shows "list_all (\<lambda>e. \<forall>p \<in> set ps. spares p e) es \<Longrightarrow> A d \<Longrightarrow> J d \<Longrightarrow>
    always J d es \<and> A (disk_after d es)"
proof (induction es arbitrary: d)
  case (Cons e es)
  then have "\<forall>p \<in> set ps. disk_step d e p = d p" by simp
  with assms have "A (disk_step d e) = A d" "J (disk_step d e) = J d"
    unfolding reads_only_def by blast+
  with Cons show ?case by simp
qed simp

lemma triple_spared:
  assumes "emits (\<lambda>e. \<forall>p \<in> set ps. spares p e) m" and "reads_only ps A" and "reads_only ps J"
  shows "triple (so_far J d0 log0 A) m (\<lambda>_. so_far J d0 log0 A) (\<lambda>_. so_far J d0 log0 A)"
  unfolding triple_def
proof (intro allI impI)
  fix log
  assume so_far: "so_far J d0 log0 A log"
  obtain r log' where m: "m log = (r, log')" by (cases "m log")
  with assms(1) obtain new where new: "log' = log @ new" "list_all (\<lambda>e. \<forall>p \<in> set ps. spares p e) new"
    by (rule appendsD)
  with so_far_step [OF so_far] always_spared [OF assms(2,3) new(2)]
  have "so_far J d0 log0 A log'" by blast
  with m show "case m log of (Inl e, s') \<Rightarrow> so_far J d0 log0 A s' | (Inr a, s') \<Rightarrow> so_far J d0 log0 A s'"
    by (simp split: sum.split)
qed

text \<open>An atomic write: until the rename the file is as it was, after it the file is complete.\<close>

lemma triple_write_json_atomically:
  fixes p :: path
  defines "temporary \<equiv> with_suffix p (path_suffix p @ ''.tmp'')"
  assumes keep: "\<And>d content. A d \<Longrightarrow> J d \<Longrightarrow> A (d(temporary := content)) \<and> J (d(temporary := content))"
    and commit: "\<And>d. A d \<Longrightarrow> J d \<Longrightarrow> d temporary = Some [Document data] \<Longrightarrow>
      J (disk_step d (Moved temporary p)) \<and> B (disk_step d (Moved temporary p))"
  shows "triple (so_far J d0 log0 A) (write_json_atomically m p data)
    (\<lambda>_. so_far J d0 log0 B) (\<lambda>_. so_far J d0 log0 A)"
proof -
  let ?A' = "\<lambda>d. A d \<and> d temporary = Some [Document data]"
  have "triple (so_far J d0 log0 A) (write_document m temporary data)
      (\<lambda>_. so_far J d0 log0 ?A') (\<lambda>_. so_far J d0 log0 A)"
    unfolding triple_def
  proof (intro allI impI)
    fix log
    assume so_far: "so_far J d0 log0 A log"
    have "so_far J d0 log0 A (log @ [Written temporary content])" for content
      by (rule so_far_step [OF so_far]) (use keep in auto)
    moreover have "so_far J d0 log0 ?A' (log @ [Written temporary [Document data]])"
      by (rule so_far_step [OF so_far]) (use keep in auto)
    ultimately show "case write_document m temporary data log of
        (Inl e, s') \<Rightarrow> so_far J d0 log0 A s' | (Inr a, s') \<Rightarrow> so_far J d0 log0 ?A' s'"
      by (simp add: write_document_def split: option.split prod.split)
  qed
  moreover have "triple (so_far J d0 log0 ?A') (move_file m temporary p)
      (\<lambda>_. so_far J d0 log0 B) (\<lambda>_. so_far J d0 log0 A)"
    unfolding triple_def
  proof (intro allI impI)
    fix log
    assume so_far: "so_far J d0 log0 ?A' log"
    then have "so_far J d0 log0 A log" by (rule so_far_weaken) simp
    moreover have "so_far J d0 log0 B (log @ [Moved temporary p])"
      by (rule so_far_step [OF so_far]) (use commit in auto)
    ultimately show "case move_file m temporary p log of
        (Inl e, s') \<Rightarrow> so_far J d0 log0 A s' | (Inr a, s') \<Rightarrow> so_far J d0 log0 B s'"
      by (simp add: move_file_def split: option.split)
  qed
  ultimately show ?thesis
    unfolding write_json_atomically_def Let_def temporary_def [symmetric] by (rule triple_andthen)
qed

section \<open>A run\<close>

context reporter_contract
begin

lemma run_all_groups_emits:
  "(\<And>f. f \<in> set factories \<Longrightarrow> group_emits P (f capability_context)) \<Longrightarrow>
   emits P (run_all_groups factories capability_context reporter)"
  by (induction factories)
    (auto simp: Let_def intro!: emits_intros reporter_emits run_group_emits)

end

text \<open>The reporter of the command line.\<close>

definition main_reporter :: "machine \<Rightarrow> path \<Rightarrow> bool \<Rightarrow> test_reporter" where
  "main_reporter m output_directory verbose =
     CompositeReporter [if verbose then ConsoleReporter else QuietReporter,
       status_file_reporter m (path_div output_directory ''status.ndjson'')]"

lemma create_reporter_main:
  "create_reporter m output_directory verbose =
     bind (make_directory m (path_parent (path_div output_directory ''status.ndjson'')))
       (\<lambda>_. ret (main_reporter m output_directory verbose))"
  by (auto simp: create_reporter_def StatusFileReporter_def main_reporter_def bind_def andthen_def
      ret_def Let_def fun_eq_iff split: prod.split sum.split)

fun prints_or_appends :: "path \<Rightarrow> tester_event \<Rightarrow> bool" where
  "prints_or_appends p (Printed _) = True"
| "prints_or_appends p (Appended q _) = (q = p)"
| "prints_or_appends p _ = False"

lemma reporter_contract_mono:
  "reporter_contract reporter P \<Longrightarrow> (\<And>e. P e \<Longrightarrow> Q e) \<Longrightarrow> reporter_contract reporter Q"
  unfolding reporter_contract_def by (meson emits_mono)

lemma main_reporter_contract:
  "reporter_contract (main_reporter m od verbose) (prints_or_appends (path_div od ''status.ndjson''))"
proof -
  let ?P = "prints_or_appends (path_div od ''status.ndjson'')"
  have mono: "prints e \<Longrightarrow> ?P e" "appends_to (path_div od ''status.ndjson'') e \<Longrightarrow> ?P e" for e
    by (cases e; simp)+
  have "reporter_contract ConsoleReporter ?P" "reporter_contract QuietReporter ?P"
    "reporter_contract (status_file_reporter m (path_div od ''status.ndjson'')) ?P"
    using mono console.reporter_contract_axioms quiet.reporter_contract_axioms
      status_file.reporter_contract_axioms
    by (blast intro: reporter_contract_mono)+
  then show ?thesis
    unfolding main_reporter_def by (intro composite_contract) auto
qed

interpretation main: reporter_contract "main_reporter m od verbose"
  "prints_or_appends (path_div od ''status.ndjson'')" for m od verbose
  by (rule main_reporter_contract)

interpretation main_lines: status_keeper "main_reporter m od verbose"
  "path_div od ''status.ndjson''" for m od verbose
  unfolding main_reporter_def
  by (rule composite_keeper)
    (simp_all add: console.reporter_contract_axioms quiet.reporter_contract_axioms
      status_file_lines.status_keeper_axioms)

text \<open>The files of a run have different names.\<close>

lemma run_files:
  "with_suffix (path_div od ''report.json'') (path_suffix (path_div od ''report.json'') @ ''.tmp'') =
     path_div od ''report.json.tmp''"
  "with_suffix (path_div od ''done.json'') (path_suffix (path_div od ''done.json'') @ ''.tmp'') =
     path_div od ''done.json.tmp''"
  by (simp_all add: path_div_single with_suffix_def path_suffix_def path_name_def)

lemma path_div_eq:
  "a \<noteq> [] \<Longrightarrow> a \<noteq> ''.'' \<Longrightarrow> CHR ''/'' \<notin> set a \<Longrightarrow> b \<noteq> [] \<Longrightarrow> b \<noteq> ''.'' \<Longrightarrow> CHR ''/'' \<notin> set b \<Longrightarrow>
   path_div p a = path_div p b \<longleftrightarrow> a = b"
  by (simp add: path_div_single)

definition run_file :: "path \<Rightarrow> tester_event \<Rightarrow> bool" where
  "run_file od e \<longleftrightarrow> spares (path_div od ''report.json'') e \<and> spares (path_div od ''done.json'') e"

lemma reporter_spares_run_files: "prints_or_appends (path_div od ''status.ndjson'') e \<Longrightarrow> run_file od e"
  by (cases e) (auto simp: run_file_def path_div_eq)

text \<open>The states of the two result files.\<close>

definition report_complete :: "path \<Rightarrow> bool \<Rightarrow> capability_group_result list \<Rightarrow> disk \<Rightarrow> bool" where
  "report_complete od serialize_evidence rs d \<longleftrightarrow>
     d (path_div od ''report.json'') = Some [Document (results_to_json_data rs serialize_evidence)]"

definition files_consistent :: "path \<Rightarrow> bool \<Rightarrow> disk \<Rightarrow> disk \<Rightarrow> bool" where
  "files_consistent od serialize_evidence d0 d \<longleftrightarrow>
     (d (path_div od ''report.json'') = d0 (path_div od ''report.json'') \<or>
      (\<exists>rs. report_complete od serialize_evidence rs d)) \<and>
     (d (path_div od ''done.json'') = d0 (path_div od ''done.json'') \<or>
      d (path_div od ''done.json'') = Some [Document (done_data (path_div od ''report.json''))] \<and>
      (\<exists>rs. report_complete od serialize_evidence rs d))"

definition untouched :: "path \<Rightarrow> disk \<Rightarrow> disk \<Rightarrow> bool" where
  "untouched od d0 d \<longleftrightarrow> d (path_div od ''report.json'') = d0 (path_div od ''report.json'') \<and>
     d (path_div od ''done.json'') = d0 (path_div od ''done.json'')"

definition reported :: "path \<Rightarrow> bool \<Rightarrow> capability_group_result list \<Rightarrow> disk \<Rightarrow> disk \<Rightarrow> bool" where
  "reported od se rs d0 d \<longleftrightarrow> report_complete od se rs d \<and>
     d (path_div od ''done.json'') = d0 (path_div od ''done.json'')"

definition finished :: "path \<Rightarrow> bool \<Rightarrow> capability_group_result list \<Rightarrow> disk \<Rightarrow> bool" where
  "finished od se rs d \<longleftrightarrow> report_complete od se rs d \<and>
     d (path_div od ''done.json'') = Some [Document (done_data (path_div od ''report.json''))]"

lemma reads_run_files:
  "reads_only [path_div od ''report.json'', path_div od ''done.json''] (untouched od d0)"
  "reads_only [path_div od ''report.json'', path_div od ''done.json''] (files_consistent od se d0)"
  by (simp_all add: reads_only_def untouched_def files_consistent_def report_complete_def)

lemma triple_run_spared:
  "emits (run_file od) m \<Longrightarrow>
   triple (so_far (files_consistent od se d) d0 log0 (untouched od d)) m
     (\<lambda>_. so_far (files_consistent od se d) d0 log0 (untouched od d))
     (\<lambda>_. so_far (files_consistent od se d) d0 log0 (\<lambda>_. True))"
  by (rule triple_weaken [OF triple_spared [OF _ reads_run_files]])
    (auto simp: run_file_def [abs_def] elim: so_far_weaken)

lemma triple_write_report:
  "triple (so_far (files_consistent od se d) d0 log0 (untouched od d))
     (write_json_atomically m (path_div od ''report.json'') (results_to_json_data rs se))
     (\<lambda>_. so_far (files_consistent od se d) d0 log0 (reported od se rs d))
     (\<lambda>_. so_far (files_consistent od se d) d0 log0 (\<lambda>_. True))"
  by (rule triple_weaken [OF triple_write_json_atomically
        [where A = "untouched od d" and B = "reported od se rs d"]])
    (auto simp: run_files path_div_eq untouched_def reported_def files_consistent_def
      report_complete_def elim: so_far_weaken)

lemma triple_write_done:
  "triple (so_far (files_consistent od se d) d0 log0 (reported od se rs d))
     (write_json_atomically m (path_div od ''done.json'') (done_data (path_div od ''report.json'')))
     (\<lambda>_. so_far (files_consistent od se d) d0 log0 (finished od se rs))
     (\<lambda>_. so_far (files_consistent od se d) d0 log0 (\<lambda>_. True))"
  by (rule triple_weaken [OF triple_write_json_atomically
        [where A = "reported od se rs d" and B = "finished od se rs"]])
    (auto simp: run_files path_div_eq finished_def reported_def files_consistent_def
      report_complete_def elim: so_far_weaken)

lemma triple_run_from_files:
  assumes groups: "\<forall>f \<in> set factories. \<forall>c. group_emits (run_file od) (f c)"
  shows "triple (so_far (files_consistent od se d) d0 log0 (untouched od d))
     (run_from_files m factories config od (main_reporter m od verbose) se)
     (\<lambda>rs. so_far (files_consistent od se d) d0 log0 (finished od se rs))
     (\<lambda>_. so_far (files_consistent od se d) d0 log0 (\<lambda>_. True))"
proof -
  have reporter: "reporter_contract (main_reporter m od verbose) (run_file od)"
    by (rule reporter_contract_mono [OF main_reporter_contract reporter_spares_run_files])
  have "emits (run_file od) (make_directory m od)"
    "emits (run_file od) (bind (read_json m config) (\<lambda>data. lift_res (from_json_data data)))"
    "emits (run_file od) (run_all_groups factories c (main_reporter m od verbose))" for c
    using groups by (auto intro!: emits_intros reporter_contract.run_all_groups_emits [OF reporter]
        simp: run_file_def)
  note spared = this [THEN triple_run_spared]
  show ?thesis
    unfolding run_from_files_def read_capability_context_def Let_def
    by (rule triple_andthen [OF spared(1) triple_bind [OF spared(2) triple_bind [OF spared(3)
          triple_andthen [OF triple_write_report triple_andthen [OF triple_write_done triple_ret]]]]])
qed

text \<open>The rest of the command line, once the output directory is known.\<close>

definition main_from :: "machine \<Rightarrow> group_factory list \<Rightarrow> tester_arguments \<Rightarrow> path \<Rightarrow> path \<Rightarrow> int act" where
  "main_from m factories arguments config od =
     bind (create_reporter m od (ta_verbose arguments)) (\<lambda>reporter.
     bind (run_from_files m factories config od reporter (ta_serialize_evidence arguments)) (\<lambda>_.
     andthen (print_line (''Sandbox Tester report saved to: '' @
       path_str (path_div od ''report.json''))) (ret 0)))"

lemma tester_main_from:
  "expand_and_resolve m (ta_config arguments) = Inr config \<Longrightarrow>
   get_output_directory m config (ta_output arguments) log = (Inr od, log) \<Longrightarrow>
   tester_main m factories arguments log = main_from m factories arguments config od log"
  by (simp add: tester_main_def main_from_def monad_simps bind_def [of "get_output_directory _ _ _"])

lemma triple_end_spared:
  "emits (run_file od) m \<Longrightarrow>
   triple (so_far (files_consistent od se d) d0 log0 A) m
     (\<lambda>_. so_far (files_consistent od se d) d0 log0 (\<lambda>_. True))
     (\<lambda>_. so_far (files_consistent od se d) d0 log0 (\<lambda>_. True))"
  by (rule triple_weaken [OF triple_spared [OF _ _ reads_run_files(2), where A = "\<lambda>_. True"]])
    (auto simp: run_file_def [abs_def] reads_only_def elim: so_far_weaken)

lemma triple_main_from:
  assumes groups: "\<forall>f \<in> set factories. \<forall>c. group_emits (run_file od) (f c)"
  shows "triple (so_far (files_consistent od (ta_serialize_evidence arguments) d) d0 log0 (untouched od d))
     (main_from m factories arguments config od)
     (\<lambda>_. so_far (files_consistent od (ta_serialize_evidence arguments) d) d0 log0 (\<lambda>_. True))
     (\<lambda>_. so_far (files_consistent od (ta_serialize_evidence arguments) d) d0 log0 (\<lambda>_. True))"
proof -
  have "emits (run_file od) (make_directory m p)"
    and "emits (run_file od) (andthen (print_line line) (ret (0 :: int)))" for p line
    by (auto intro!: emits_intros simp: run_file_def)
  note start = this(1) [THEN triple_run_spared] and finish = this(2) [THEN triple_end_spared]
  show ?thesis
    unfolding main_from_def create_reporter_main bind_assoc monad_simps
    by (rule triple_bind [OF start triple_bind [OF triple_run_from_files [OF groups]
          finish]])
qed

text \<open>C9. Whatever the machine does, at every moment of a run of the command line, also of one that
  is cut short by an error, \<open>report.json\<close> is either what it was before or a complete report, and
  \<open>done.json\<close> is what it was before until it says \<open>completed\<close>, and then the report is
  complete. The only condition is that no probe writes these two files itself.\<close>

theorem results_never_partial:
  assumes config: "expand_and_resolve m (ta_config arguments) = Inr config"
    and od: "get_output_directory m config (ta_output arguments) log = (Inr od, log)"
    and groups: "\<forall>f \<in> set factories. \<forall>c. group_emits (run_file od) (f c)"
    and run: "tester_main m factories arguments log = (r, log @ new)"
    and k: "k \<le> length new"
  shows "files_consistent od (ta_serialize_evidence arguments) (disk_after d log)
    (disk_after d (log @ take k new))"
proof -
  let ?J = "files_consistent od (ta_serialize_evidence arguments) (disk_after d log)"
  have "so_far ?J d log (untouched od (disk_after d log)) log"
    by (simp add: so_far_def untouched_def files_consistent_def)
  with triple_main_from [OF groups] have "so_far ?J d log (\<lambda>_. True) (log @ new)"
    using run unfolding tester_main_from [OF config od] triple_def
    by (fastforce split: sum.splits prod.splits)
  then have "always ?J (disk_after d log) new" by (auto simp: so_far_def)
  with k show ?thesis by (simp add: always_iff)
qed

section \<open>A finished run\<close>

text \<open>A group result lists every test of its group, in order.\<close>

definition reports_group :: "capability_group \<Rightarrow> capability_group_result \<Rightarrow> bool" where
  "reports_group grp r \<longleftrightarrow> cg_id r = gr_id grp \<and> cg_title r = gr_title grp \<and>
     map (\<lambda>c. (cr_id c, cr_title c)) (cg_capabilities r) = map (\<lambda>t. (ct_id t, ct_title t)) (gr_tests grp)"

lemma collect_each_Inr:
  assumes "collect_each xs f log = (Inr rs, log')"
    and "\<And>x r log log'. f x log = (Inr r, log') \<Longrightarrow> R x r"
  shows "list_all2 R xs rs"
  using assms(1)
proof (induction xs arbitrary: rs log)
  case Nil
  then show ?case by (simp add: ret_Inr)
next
  case (Cons x xs)
  then show ?case using assms(2) by (auto simp: bind_Inr ret_Inr)
qed

lemma run_group_reports:
  assumes "run_group grp reporter log = (Inr r, log')"
  shows "reports_group grp r"
proof -
  have "(cr_id c, cr_title c) = (ct_id t, ct_title t)"
    if "run_capability g reporter t log = (Inr c, log')" for g t c log log'
    using that by (auto simp: run_capability_def andthen_Inr bind_Inr ret_Inr)
  note each = collect_each_Inr [where R = "\<lambda>t c. (cr_id c, cr_title c) = (ct_id t, ct_title t)", OF _ this]
  from assms obtain rs log1 log2 where r: "r = \<lparr>cg_id = gr_id grp, cg_title = gr_title grp, cg_capabilities = rs\<rparr>"
    and rs: "collect_each (gr_tests grp) (run_capability (gr_id grp) reporter) log1 = (Inr rs, log2)"
    by (auto simp: run_group_def andthen_Inr bind_Inr ret_Inr)
  from each [OF rs] have "map (\<lambda>c. (cr_id c, cr_title c)) rs = map (\<lambda>t. (ct_id t, ct_title t)) (gr_tests grp)"
    by (induction rule: list_all2_induct) simp_all
  with r show ?thesis by (simp add: reports_group_def)
qed

definition all_enabled :: "group_factory list \<Rightarrow> bool" where
  "all_enabled factories \<longleftrightarrow> (\<forall>f \<in> set factories. \<forall>c. gr_id (f c) \<in> set ENABLED_GROUPS)"

lemma run_all_groups_reports:
  "all_enabled factories \<Longrightarrow> run_all_groups factories c reporter log = (Inr rs, log') \<Longrightarrow>
   list_all2 reports_group (map (\<lambda>f. f c) factories) rs"
proof (induction factories arbitrary: rs log)
  case Nil
  then show ?case by (simp add: ret_Inr)
next
  case (Cons f factories)
  then show ?case
    by (auto simp: all_enabled_def Let_def bind_Inr ret_Inr intro: run_group_reports)
qed

context status_keeper
begin

lemma run_all_groups_lines:
  "all_enabled factories \<Longrightarrow> \<forall>f \<in> set factories. \<forall>c. group_emits (spares p) (f c) \<Longrightarrow>
   adds_lines p (run_all_groups factories c reporter) (\<lambda>rs. concat (map group_lines rs))"
proof (induction factories)
  case Nil
  show ?case by (simp add: adds_lines_def ret_Inr)
next
  case (Cons f factories)
  then have IH: "adds_lines p (run_all_groups factories c reporter) (\<lambda>rs. concat (map group_lines rs))"
    and group: "adds_lines p (run_group (f c) reporter) group_lines"
    by (auto simp: all_enabled_def intro: run_group_lines)
  have rest: "adds_lines p (bind (run_all_groups factories c reporter) (\<lambda>rs. ret (r # rs)))
      (\<lambda>all. concat (map group_lines (tl all)))" for r
    by (rule adds_lines_bind [OF IH adds_lines_ret]) (auto simp: ret_Inr)
  have "adds_lines p (bind (run_group (f c) reporter) (\<lambda>r.
      bind (run_all_groups factories c reporter) (\<lambda>rs. ret (r # rs)))) (\<lambda>rs. concat (map group_lines rs))"
    by (rule adds_lines_bind [OF group rest]) (auto simp: bind_Inr ret_Inr)
  with Cons.prems show ?case by (simp add: all_enabled_def Let_def)
qed

end

definition run_status_file :: "path \<Rightarrow> tester_event \<Rightarrow> bool" where
  "run_status_file od e \<longleftrightarrow> run_file od e \<and> spares (path_div od ''status.ndjson'') e"

lemma adds_lines_write_json:
  "p \<noteq> q \<Longrightarrow> with_suffix q (path_suffix q @ ''.tmp'') \<noteq> p \<Longrightarrow>
   adds_lines p (write_json_atomically m q data) (\<lambda>_. [])"
  unfolding write_json_atomically_def Let_def
  by (intro adds_lines_quiet emits_intros) auto

lemma run_from_files_lines:
  assumes "all_enabled factories"
    and "\<forall>f \<in> set factories. \<forall>c. group_emits (spares (path_div od ''status.ndjson'')) (f c)"
  shows "adds_lines (path_div od ''status.ndjson'')
    (run_from_files m factories config od (main_reporter m od verbose) se)
    (\<lambda>rs. concat (map group_lines rs))"
proof -
  let ?p = "path_div od ''status.ndjson''"
  have report: "adds_lines ?p (write_json_atomically m (path_div od ''report.json'') data) (\<lambda>_. [])"
    and finished: "adds_lines ?p (write_json_atomically m (path_div od ''done.json'') data) (\<lambda>_. [])" for data
    by (rule adds_lines_write_json; simp add: run_files path_div_eq)+
  have writes: "adds_lines ?p (andthen (write_json_atomically m (path_div od ''report.json'') data)
      (andthen (write_json_atomically m (path_div od ''done.json'') data') (ret rs))) (\<lambda>_. [])" for data data' rs
    using adds_lines_andthen [OF report adds_lines_andthen [OF finished adds_lines_ret]] by simp
  have groups: "adds_lines ?p (bind (run_all_groups factories c (main_reporter m od verbose)) (\<lambda>rs.
      andthen (write_json_atomically m (path_div od ''report.json'') (results_to_json_data rs se))
      (andthen (write_json_atomically m (path_div od ''done.json'') (done_data (path_div od ''report.json'')))
        (ret rs)))) (\<lambda>rs. concat (map group_lines rs))" for c
    by (rule adds_lines_bind [OF main_lines.run_all_groups_lines [OF assms] writes])
      (auto simp: andthen_Inr ret_Inr)
  have "adds_lines ?p (make_directory m od) (\<lambda>_. [])"
    "adds_lines ?p (bind (read_json m config) (\<lambda>data. lift_res (from_json_data data))) (\<lambda>_. [])"
    by (auto intro!: adds_lines_quiet emits_intros)
  from adds_lines_andthen [OF this(1) adds_lines_bind [OF this(2) groups]] show ?thesis
    unfolding run_from_files_def read_capability_context_def Let_def by simp
qed

text \<open>C16. A run of the command line that returns has exit code 0 and leaves a complete
  \<open>report.json\<close>, with one entry for every group and every test in their order, a
  \<open>done.json\<close> that says so, and a status file that tells the same results in the same order
  - for every group its start, for every test its start and its three outcomes - whether or not
  the run was verbose.\<close>

theorem finished_run_reports_all:
  assumes config: "expand_and_resolve m (ta_config arguments) = Inr config"
    and od: "get_output_directory m config (ta_output arguments) log = (Inr od, log)"
    and groups: "\<forall>f \<in> set factories. \<forall>c. group_emits (run_status_file od) (f c)"
    and enabled: "all_enabled factories"
    and run: "tester_main m factories arguments log = (Inr exit, log @ new)"
  shows "exit = 0 \<and> (\<exists>rs c. list_all2 reports_group (map (\<lambda>f. f c) factories) rs \<and>
    finished od (ta_serialize_evidence arguments) rs (disk_after d (log @ new)) \<and>
    lines_of (path_div od ''status.ndjson'') new = concat (map group_lines rs))"
proof -
  let ?se = "ta_serialize_evidence arguments" and ?p = "path_div od ''status.ndjson''"
  from run obtain log1 log2 rs where
    mkdir: "make_directory m (path_parent ?p) log = (Inr (), log1)" and
    body: "run_from_files m factories config od (main_reporter m od (ta_verbose arguments)) ?se log1 = (Inr rs, log2)" and
    end_log: "exit = 0" "log @ new = log2 @ [Printed (''Sandbox Tester report saved to: '' @ path_str (path_div od ''report.json''))]"
    unfolding tester_main_from [OF config od] main_from_def create_reporter_main
    by (auto simp: bind_Inr andthen_Inr ret_Inr world_success)
  from mkdir have log1: "log1 = log @ [Made_Directory (path_parent ?p)]" by (simp add: world_success)
  have "\<forall>f \<in> set factories. \<forall>c. group_emits (spares ?p) (f c)"
    "\<forall>f \<in> set factories. \<forall>c. group_emits (run_file od) (f c)"
    using groups by (auto simp: run_status_file_def [abs_def] intro: group_emits_mono)
  note kept = triple_run_from_files [OF this(2)] and lines = run_from_files_lines [OF enabled this(1)]
  have "so_far (files_consistent od ?se (disk_after d log1)) d log1 (untouched od (disk_after d log1)) log1"
    by (simp add: so_far_def untouched_def files_consistent_def)
  from triple_Inr [OF kept this body] have "finished od ?se rs (disk_after d log2)"
    by (auto simp: so_far_def)
  then have files: "finished od ?se rs (disk_after d (log @ new))" by (simp add: end_log)
  from lines body obtain mid where "log2 = log1 @ mid" "lines_of ?p mid = concat (map group_lines rs)"
    unfolding adds_lines_def by blast
  then have "lines_of ?p new = concat (map group_lines rs)"
    using end_log(2) log1 by simp
  moreover from body obtain c log3 log4 where
    "run_all_groups factories c (main_reporter m od (ta_verbose arguments)) log3 = (Inr rs, log4)"
    unfolding run_from_files_def by (auto simp: bind_Inr andthen_Inr ret_Inr Let_def)
  then have "list_all2 reports_group (map (\<lambda>f. f c) factories) rs"
    by (rule run_all_groups_reports [OF enabled])
  ultimately show ?thesis using end_log(1) files by blast
qed

section \<open>Evidence\<close>

text \<open>Every value stored under the key \<open>evidence\<close>, at any depth.\<close>

fun evidence_in :: "json \<Rightarrow> json list" where
  "evidence_in (JObj kvs) =
     concat (map (\<lambda>(key, item). if key = ''evidence'' then [item] else evidence_in item) kvs)"
| "evidence_in (JList xs) = concat (map evidence_in xs)"
| "evidence_in value = []"

lemma evidence_in_removed: "list_all (\<lambda>v. v = JStr ''[REMOVED]'') (evidence_in (remove_serialized_evidence v))"
  by (induction v rule: remove_serialized_evidence.induct) (auto simp: list_all_iff)

definition without_evidence :: "capability_group_result \<Rightarrow> capability_group_result" where
  "without_evidence r = r\<lparr>cg_capabilities := map (\<lambda>c. c\<lparr>
     cr_shell := (cr_shell c)\<lparr>iv_evidence := []\<rparr>,
     cr_tool := (cr_tool c)\<lparr>iv_evidence := []\<rparr>,
     cr_alternates := (cr_alternates c)\<lparr>
       ai_attempts := map (\<lambda>a. a\<lparr>aa_evidence := []\<rparr>) (ai_attempts (cr_alternates c))\<rparr>\<rparr>)
     (cg_capabilities r)\<rparr>"

lemma remove_without_evidence:
  "remove_serialized_evidence (group_data (without_evidence r)) = remove_serialized_evidence (group_data r)"
  by (simp add: group_data_def without_evidence_def capability_data_def alternates_data_def
      attempt_data_def invocation_data_def comp_def)

text \<open>C19. Without \<open>--serialize-evidence\<close> the report holds no evidence: every value under that key,
  at any depth, is the placeholder, and the document does not depend on what the probes
  captured: results that differ in their evidence only give the same report.\<close>

theorem report_independent_of_evidence:
  "list_all (\<lambda>v. v = JStr ''[REMOVED]'') (evidence_in (results_to_json_data group_results False)) \<and>
   results_to_json_data (map without_evidence group_results) False = results_to_json_data group_results False"
proof
  show "list_all (\<lambda>v. v = JStr ''[REMOVED]'') (evidence_in (results_to_json_data group_results False))"
    using evidence_in_removed by (auto simp: results_to_json_data_def list_all_iff)
  show "results_to_json_data (map without_evidence group_results) False = results_to_json_data group_results False"
    by (simp add: results_to_json_data_def comp_def remove_without_evidence)
qed

section \<open>A run that returns\<close>

definition reporter_returns :: "test_reporter \<Rightarrow> bool" where
  "reporter_returns r \<longleftrightarrow> (\<forall>g t. returns (group_started r g t)) \<and> (\<forall>g t. returns (group_skipped r g t)) \<and>
     (\<forall>g c t. returns (capability_started r g c t)) \<and> (\<forall>x. returns (shell_completed r x)) \<and>
     (\<forall>x. returns (tool_completed r x)) \<and> (\<forall>x. returns (alternates_completed r x))"

definition group_returns :: "capability_group \<Rightarrow> bool" where
  "group_returns grp \<longleftrightarrow> (\<forall>t \<in> set (gr_tests grp).
     returns (run_shell t) \<and> returns (run_tool t) \<and> returns (run_alternates t))"

lemma main_reporter_returns:
  assumes "faultless m"
  shows "reporter_returns (main_reporter m od verbose)"
  unfolding reporter_returns_def main_reporter_def CompositeReporter_def ConsoleReporter_def
    QuietReporter_def status_file_reporter_def write_event_def test_reporter.simps
  by (auto intro!: returns_intros assms simp: list_all_iff split: if_splits)

lemma run_all_groups_returns:
  assumes "reporter_returns reporter" and "\<forall>f \<in> set factories. group_returns (f c)"
  shows "returns (run_all_groups factories c reporter)"
  using assms(2)
proof (induction factories)
  case Nil
  show ?case by (simp add: returns_ret)
next
  case (Cons f factories)
  have "returns (run_capability g reporter t)" if "t \<in> set (gr_tests (f c))" for g t
    unfolding run_capability_def using that assms(1) Cons.prems
    by (auto simp: reporter_returns_def group_returns_def intro!: returns_intros)
  then have "returns (run_group (f c) reporter)"
    unfolding run_group_def using assms(1)
    by (auto simp: reporter_returns_def intro!: returns_intros)
  with Cons assms(1) show ?case
    by (auto simp: Let_def reporter_returns_def intro!: returns_intros)
qed

lemma main_run_returns:
  assumes machine: "faultless m"
    and config: "expand_and_resolve m (ta_config arguments) = Inr config"
    and od: "get_output_directory m config (ta_output arguments) log = (Inr od, log)"
    and data: "\<forall>log. json_file m log config = Inr data" "from_json_data data = Inr capability_context"
    and groups: "\<forall>f \<in> set factories. \<forall>c. group_returns (f c)"
  shows "\<exists>log'. tester_main m factories arguments log = (Inr 0, log')"
proof -
  have "returns (read_capability_context m config)"
    using data by (simp add: read_capability_context_def returns_def read_json_def bind_def lift_res_def)
  moreover have "returns (run_all_groups factories c (main_reporter m od verbose))" for c verbose
    using groups by (intro run_all_groups_returns main_reporter_returns machine) auto
  ultimately have "returns (run_from_files m factories config od (main_reporter m od verbose) se)" for verbose se
    unfolding run_from_files_def write_json_atomically_def Let_def
    by (intro returns_intros machine)
  then have "returns (main_from m factories arguments config od)"
    unfolding main_from_def create_reporter_main bind_assoc monad_simps by (intro returns_intros machine)
  then obtain exit log' where run: "main_from m factories arguments config od log = (Inr exit, log')"
    unfolding returns_def by blast
  then have "exit = 0" by (auto simp: main_from_def bind_Inr andthen_Inr ret_Inr)
  with run show ?thesis by (simp add: tester_main_from [OF config od])
qed

text \<open>The command line returns 0 on every machine whose writes succeed, as soon as the
  configuration is accepted and the probes themselves return.\<close>

theorem tester_main_returns:
  assumes machine: "faultless m"
    and config: "expand_and_resolve m (ta_config arguments) = Inr config"
    and od: "get_output_directory m config (ta_output arguments) log = (Inr od, log)"
    and data: "\<forall>log. json_file m log config = Inr data" "from_json_data data = Inr capability_context"
    and groups: "\<forall>f \<in> set factories. \<forall>c. group_returns (f c)"
  shows "\<exists>log'. tester_main m factories arguments log = (Inr 0, log')"
  by (rule main_run_returns [OF machine config od data groups])

end
