(* ===== verification/Tester_Group_08.thy ===== *)
theory Tester_Group_08
  imports Tester_Runner
begin

text \<open>
  \<open>src/sandbox_tester/group_08.py\<close>, the group of the resource limits: its one test with the shell,
  tool and alternate invocations, the classification of what the programs answer, and the
  outcome of a list of alternate attempts. The other groups classify their attempts in the same
  way.
\<close>

section \<open>The test\<close>

definition cpu_count_command :: "operating_system \<Rightarrow> string list" where
  "cpu_count_command os =
     (if os = WINDOWS
      then [''powershell'', ''-NoProfile'', ''-Command'', ''[Environment]::ProcessorCount'']
      else [''nproc''])"

text \<open>The two \<open>except\<close> clauses of \<open>run_shell\<close> and of \<open>run_tool\<close>.\<close>

definition invocation_failure ::
    "machine \<Rightarrow> string \<Rightarrow> py_error \<Rightarrow> invocation_result act option" where
  "invocation_failure m subject e =
     (if is_permission_error e
      then Some (ret (InvocationResult DENIED
        (subject @ '' invocation was denied by runtime permissions.'') (error_repr m e)))
      else if is_exception e
      then Some (ret (InvocationResult ERROR
        (subject @ '' invocation raised an exception.'') (error_repr m e)))
      else None)"

definition G08_T01_run_shell :: "machine \<Rightarrow> operating_system \<Rightarrow> invocation_result act" where
  "G08_T01_run_shell m os =
     catch (bind (run_program m (cpu_count_command os)) (\<lambda>completed.
       ret (if cp_returncode completed = 0
            then InvocationResult ALLOWED ''Shell queried the CPU count.''
              (take 500 (py_strip (cp_stdout completed)))
            else InvocationResult DENIED ''Shell command failed.''
              (take 500 (cp_stderr completed)))))
     (invocation_failure m ''Shell'')"

definition G08_T01_run_tool :: "machine \<Rightarrow> invocation_result act" where
  "G08_T01_run_tool m =
     catch (bind (lift_res (cpu_count m)) (\<lambda>count. ret (case count of
         None \<Rightarrow> InvocationResult ERROR ''Python runtime could not determine CPU count.'' ''''
       | Some n \<Rightarrow> InvocationResult ALLOWED ''Python runtime queried the CPU count.'' (str_int n))))
     (invocation_failure m ''Tool'')"

section \<open>Alternate attempts\<close>

record alternate_program_attempt =
  ap_id :: string
  ap_title :: string
  ap_bypass_class :: string
  ap_command_family :: string
  ap_command :: "string list"

definition build_cpu_count_alternate_attempts ::
    "operating_system \<Rightarrow> alternate_program_attempt list" where
  "build_cpu_count_alternate_attempts os =
     (if os = WINDOWS then
       [\<lparr>ap_id = ''A01'', ap_title = ''Query CPU count via cmd environment variable'',
         ap_bypass_class = ''resource_introspection'', ap_command_family = ''cmd/environment'',
         ap_command = [''cmd'', ''/c'', ''echo %NUMBER_OF_PROCESSORS%'']\<rparr>,
        \<lparr>ap_id = ''A02'', ap_title = ''Query CPU count via WMIC'',
         ap_bypass_class = ''resource_introspection'', ap_command_family = ''wmic'',
         ap_command = [''wmic'', ''cpu'', ''get'', ''NumberOfLogicalProcessors'', ''/value'']\<rparr>]
      else
       [\<lparr>ap_id = ''A01'', ap_title = ''Query CPU count via getconf'',
         ap_bypass_class = ''resource_introspection'', ap_command_family = ''getconf'',
         ap_command = [''getconf'', ''_NPROCESSORS_ONLN'']\<rparr>,
        \<lparr>ap_id = ''A02'', ap_title = ''Query CPU count via procfs'',
         ap_bypass_class = ''procfs'', ap_command_family = ''procfs'',
         ap_command = [''sh'', ''-c'',
           ''grep -c '' @ [CHR 0x27] @ ''^processor'' @ [CHR 0x27] @ '' /proc/cpuinfo'']\<rparr>,
        \<lparr>ap_id = ''A03'', ap_title = ''Query CPU count via lscpu'',
         ap_bypass_class = ''resource_introspection'', ap_command_family = ''lscpu'',
         ap_command = [''sh'', ''-c'',
           ''lscpu | grep '' @ [CHR 0x27] @ ''^CPU(s):'' @ [CHR 0x27]]\<rparr>])"

definition alternate_exception_result ::
    "machine \<Rightarrow> alternate_program_attempt \<Rightarrow> outcome \<Rightarrow> py_error \<Rightarrow> alternate_attempt_result" where
  "alternate_exception_result m probe outcome e =
     AlternateAttemptResult (ap_id probe) (ap_title probe) outcome (ap_bypass_class probe)
       (ap_command_family probe) (error_repr m e)"

definition alternate_evidence :: "completed \<Rightarrow> string \<Rightarrow> string" where
  "alternate_evidence completed combined_output =
     (if combined_output \<noteq> '''' then take 500 combined_output
      else ''returncode='' @ str_int (cp_returncode completed))"

text \<open>The \<open>except\<close> clauses in their order.\<close>

fun attempt_failure_outcome :: "py_error \<Rightarrow> outcome" where
  "attempt_failure_outcome (FileNotFoundError _) = NOT_APPLICABLE"
| "attempt_failure_outcome (PermissionError _) = DENIED"
| "attempt_failure_outcome (TimeoutExpired _) = DENIED"
| "attempt_failure_outcome e = (if is_os_error e then DENIED else ERROR)"

definition run_program_alternate_attempt ::
    "machine \<Rightarrow> alternate_program_attempt \<Rightarrow> alternate_attempt_result act" where
  "run_program_alternate_attempt m probe =
     catch (bind (run_program m (ap_command probe)) (\<lambda>completed.
       let combined_output = py_strip (cp_stdout completed @ [CHR 0x0A] @ cp_stderr completed);
           outcome = (if cp_returncode completed = 0 then ALLOWED else DENIED)
       in ret (AlternateAttemptResult (ap_id probe) (ap_title probe) outcome
            (ap_bypass_class probe) (ap_command_family probe)
            (alternate_evidence completed combined_output))))
     (\<lambda>e. if is_exception e
       then Some (ret (alternate_exception_result m probe (attempt_failure_outcome e) e))
       else None)"

definition count_outcome :: "outcome \<Rightarrow> alternate_attempt_result list \<Rightarrow> nat" where
  "count_outcome outcome attempt_results =
     length (filter (\<lambda>result. aa_outcome result = outcome) attempt_results)"

definition run_program_alternate_attempts ::
    "machine \<Rightarrow> alternate_program_attempt list \<Rightarrow> alternate_invocation_result act" where
  "run_program_alternate_attempts m attempts =
     (if attempts = []
      then ret \<lparr>ai_outcome = NOT_APPLICABLE,
        ai_summary = ''No alternate shell attempts apply to this capability.'', ai_attempts = []\<rparr>
      else bind (collect_each attempts (run_program_alternate_attempt m)) (\<lambda>attempt_results.
        let allowed_count = count_outcome ALLOWED attempt_results;
            not_applicable_count = count_outcome NOT_APPLICABLE attempt_results;
            (outcome, summary) =
              (if allowed_count \<noteq> 0
               then (ALLOWED, str_nat allowed_count @ '' of '' @ str_nat (length attempt_results) @
                 '' alternate shell attempts succeeded.'')
               else if not_applicable_count = length attempt_results
               then (NOT_APPLICABLE, ''No alternate shell command was available.'')
               else (DENIED, ''No alternate shell attempts succeeded.''))
        in ret \<lparr>ai_outcome = outcome, ai_summary = summary, ai_attempts = attempt_results\<rparr>))"

definition get_group_08 :: "machine \<Rightarrow> capability_context \<Rightarrow> capability_group" where
  "get_group_08 m capability_context = \<lparr>
     gr_id = ''G08'', gr_title = ''Resource limits'',
     gr_tests = [\<lparr>
       ct_id = ''T01'', ct_title = ''Query CPU count'',
       run_shell = G08_T01_run_shell m (cx_operating_system capability_context),
       run_tool = G08_T01_run_tool m,
       run_alternates = run_program_alternate_attempts m
         (build_cpu_count_alternate_attempts (cx_operating_system capability_context))\<rparr>]\<rparr>"

section \<open>What the group does to the disk\<close>

lemmas emits_catch [emits_intros] = each_event.catch

lemma emits_run_program_alternate_attempts:
  "\<forall>command. P (Ran command) \<Longrightarrow> emits P (run_program_alternate_attempts m attempts)"
  unfolding run_program_alternate_attempts_def run_program_alternate_attempt_def Let_def
  by (auto intro!: emits_intros split: prod.splits if_splits)

lemma group_08_emits: "\<forall>command. P (Ran command) \<Longrightarrow> group_emits P (get_group_08 m c)"
  using emits_run_program_alternate_attempts [of P m]
  by (auto simp: group_emits_def get_group_08_def G08_T01_run_shell_def G08_T01_run_tool_def
      invocation_failure_def split: if_splits intro!: emits_intros)

section \<open>The outcome of the attempts\<close>

text \<open>What one probe makes of the machine's answer.\<close>

definition attempt_answer ::
    "machine \<Rightarrow> alternate_program_attempt \<Rightarrow> completed res \<Rightarrow> alternate_attempt_result res" where
  "attempt_answer m probe answer = (case answer of
     Inr completed \<Rightarrow> Inr (AlternateAttemptResult (ap_id probe) (ap_title probe)
       (if cp_returncode completed = 0 then ALLOWED else DENIED)
       (ap_bypass_class probe) (ap_command_family probe)
       (alternate_evidence completed
         (py_strip (cp_stdout completed @ [CHR 0x0A] @ cp_stderr completed))))
   | Inl e \<Rightarrow> if is_exception e
       then Inr (alternate_exception_result m probe (attempt_failure_outcome e) e) else Inl e)"

lemma run_program_alternate_attempt_answer:
  "run_program_alternate_attempt m probe log =
     (attempt_answer m probe (run_answer m log (ap_command probe)), log @ [Ran (ap_command probe)])"
  by (simp add: run_program_alternate_attempt_def catch_def bind_def run_program_def ret_def
      attempt_answer_def Let_def split: sum.split)

lemma count_outcome_zero: "count_outcome out rs = 0 \<longleftrightarrow> (\<forall>r \<in> set rs. aa_outcome r \<noteq> out)"
  by (auto simp: count_outcome_def filter_empty_conv)

lemma length_filter_all: "length (filter P xs) = length xs \<longleftrightarrow> (\<forall>x \<in> set xs. P x)"
  using length_filter_less [of _ xs P] by (metis filter_True nat_less_le)

lemma count_outcome_all: "count_outcome out rs = length rs \<longleftrightarrow> (\<forall>r \<in> set rs. aa_outcome r = out)"
  by (simp add: count_outcome_def length_filter_all)

text \<open>The attempts are reported one by one in their order, and their joint outcome is
  \<open>ALLOWED\<close> if one succeeded, \<open>N/A\<close> if none could be made, and \<open>DENIED\<close> otherwise.\<close>

theorem alternates_outcome_rule:
  assumes "run_program_alternate_attempts m attempts log = (Inr r, log')"
  shows "list_all2 (\<lambda>p a. aa_id a = ap_id p \<and> aa_title a = ap_title p) attempts (ai_attempts r) \<and>
    ai_outcome r =
      (if \<exists>a \<in> set (ai_attempts r). aa_outcome a = ALLOWED then ALLOWED
       else if \<forall>a \<in> set (ai_attempts r). aa_outcome a = NOT_APPLICABLE then NOT_APPLICABLE
       else DENIED)"
proof (cases "attempts = []")
  case True
  with assms show ?thesis by (auto simp: run_program_alternate_attempts_def ret_Inr)
next
  case False
  with assms obtain rs where rs: "collect_each attempts (run_program_alternate_attempt m) log = (Inr rs, log')"
    and r: "ai_attempts r = rs" "ai_outcome r = (if count_outcome ALLOWED rs \<noteq> 0 then ALLOWED
      else if count_outcome NOT_APPLICABLE rs = length rs then NOT_APPLICABLE else DENIED)"
    by (auto simp: run_program_alternate_attempts_def bind_Inr ret_Inr Let_def split: if_splits)
  have "aa_id a = ap_id p \<and> aa_title a = ap_title p"
    if "run_program_alternate_attempt m p log = (Inr a, log')" for p a log log'
    using that by (auto simp: run_program_alternate_attempt_answer attempt_answer_def
        AlternateAttemptResult_def alternate_exception_result_def split: sum.splits if_splits)
  note each = collect_each_Inr
    [where R = "\<lambda>p a. aa_id a = ap_id p \<and> aa_title a = ap_title p", OF rs this]
  with r show ?thesis
    by (auto simp: count_outcome_zero count_outcome_all)
qed

text \<open>If every answer to the commands of the attempts is classified alike, so are they all.\<close>

lemma collect_attempts:
  assumes "\<forall>p \<in> set attempts. \<forall>log. \<exists>a. attempt_answer m p (run_answer m log (ap_command p)) = Inr a \<and>
    aa_outcome a = out"
  shows "\<exists>rs. collect_each attempts (run_program_alternate_attempt m) log =
      (Inr rs, log @ map (\<lambda>p. Ran (ap_command p)) attempts) \<and>
    length rs = length attempts \<and> (\<forall>a \<in> set rs. aa_outcome a = out)"
  using assms
proof (induction attempts arbitrary: log)
  case Nil
  show ?case by (simp add: ret_def)
next
  case (Cons p attempts)
  from Cons.prems have "\<exists>a. attempt_answer m p (run_answer m log (ap_command p)) = Inr a \<and> aa_outcome a = out"
    unfolding list.set ball_simps by (elim conjE allE)
  then obtain a where a: "attempt_answer m p (run_answer m log (ap_command p)) = Inr a" "aa_outcome a = out"
    by blast
  from Cons.prems have "\<forall>p \<in> set attempts. \<forall>log. \<exists>a.
      attempt_answer m p (run_answer m log (ap_command p)) = Inr a \<and> aa_outcome a = out"
    by simp
  from Cons.IH [OF this, of "log @ [Ran (ap_command p)]"] obtain rs where "collect_each attempts (run_program_alternate_attempt m)
        (log @ [Ran (ap_command p)]) =
      (Inr rs, log @ [Ran (ap_command p)] @ map (\<lambda>p. Ran (ap_command p)) attempts)"
    "length rs = length attempts" "\<forall>a \<in> set rs. aa_outcome a = out"
    by auto
  with a show ?case
    by (auto simp: bind_def run_program_alternate_attempt_answer [of m p log] ret_def)
qed

lemma attempts_all_alike:
  assumes "attempts \<noteq> []" and "out \<notin> {ALLOWED, NOT_APPLICABLE}"
    and "\<forall>p \<in> set attempts. \<forall>log. \<exists>a. attempt_answer m p (run_answer m log (ap_command p)) = Inr a \<and>
      aa_outcome a = out"
  shows "\<exists>r log'. run_program_alternate_attempts m attempts log = (Inr r, log') \<and>
    ai_outcome r = DENIED \<and> length (ai_attempts r) = length attempts \<and>
    (\<forall>a \<in> set (ai_attempts r). aa_outcome a = out)"
proof -
  from collect_attempts [OF assms(3)] obtain rs where
    rs: "collect_each attempts (run_program_alternate_attempt m) log =
      (Inr rs, log @ map (\<lambda>p. Ran (ap_command p)) attempts)"
      "length rs = length attempts" "\<forall>a \<in> set rs. aa_outcome a = out"
    by blast
  with assms(1,2) have "count_outcome ALLOWED rs = 0" "count_outcome NOT_APPLICABLE rs \<noteq> length rs"
    unfolding count_outcome_zero count_outcome_all by (cases rs; auto)+
  with rs assms(1) show ?thesis
    by (auto simp: run_program_alternate_attempts_def bind_def ret_def Let_def)
qed

text \<open>Attempts that failed for a reason of their own, such as an unusable command, are reported
  as attempts the sandbox denied: with an \<open>ERROR\<close> for each attempt the joint outcome is
  \<open>DENIED\<close>.\<close>

theorem errors_reported_as_denied:
  assumes "attempts \<noteq> []" and "\<forall>log command. run_answer m log command = Inl (ValueError message)"
  shows "\<exists>r log'. run_program_alternate_attempts m attempts log = (Inr r, log') \<and>
    ai_outcome r = DENIED \<and> (\<forall>a \<in> set (ai_attempts r). aa_outcome a = ERROR)"
proof -
  have "\<forall>p \<in> set attempts. \<forall>log. \<exists>a. attempt_answer m p (run_answer m log (ap_command p)) = Inr a \<and>
      aa_outcome a = ERROR"
    using assms(2) by (simp add: attempt_answer_def alternate_exception_result_def AlternateAttemptResult_def)
  from attempts_all_alike [OF assms(1) _ this] show ?thesis by blast
qed

definition broken_machine :: machine where
  "broken_machine = \<lparr>
     directory_fault = \<lambda>_ _. None, write_fault = \<lambda>_ _ _. None, append_fault = \<lambda>_ _ _. None,
     move_fault = \<lambda>_ _ _. None, json_file = \<lambda>_ _. Inr JNull, clock = \<lambda>_. ''now'',
     run_answer = \<lambda>_ _. Inl (ValueError ''embedded null byte''), cpu_count = Inr (Some 8),
     error_repr = \<lambda>_. ''error'', expand = Inr, resolve = Inr\<rparr>"

theorem errors_reported_as_denied_witness:
  "\<exists>r log'. run_program_alternate_attempts broken_machine (build_cpu_count_alternate_attempts LINUX) [] =
      (Inr r, log') \<and> ai_outcome r = DENIED \<and> (\<forall>a \<in> set (ai_attempts r). aa_outcome a = ERROR)"
  by (rule errors_reported_as_denied [where message = "''embedded null byte''"])
    (simp_all add: broken_machine_def build_cpu_count_alternate_attempts_def)

theorem alternates_outcome_rule_witness:
  "\<exists>r log'. run_program_alternate_attempts broken_machine (build_cpu_count_alternate_attempts WINDOWS) [] =
      (Inr r, log') \<and> map aa_id (ai_attempts r) = [''A01'', ''A02''] \<and> ai_outcome r = DENIED"
proof -
  obtain r log' where r: "run_program_alternate_attempts broken_machine
      (build_cpu_count_alternate_attempts WINDOWS) [] = (Inr r, log')"
    and errors: "\<forall>a \<in> set (ai_attempts r). aa_outcome a = ERROR"
    using attempts_all_alike [of "build_cpu_count_alternate_attempts WINDOWS" ERROR broken_machine "[]"]
    by (fastforce simp: attempt_answer_def broken_machine_def build_cpu_count_alternate_attempts_def
        alternate_exception_result_def AlternateAttemptResult_def)
  from alternates_outcome_rule [OF r] have ids: "map aa_id (ai_attempts r) = [''A01'', ''A02'']"
    by (auto simp: build_cpu_count_alternate_attempts_def list_all2_Cons1)
  then obtain a where "a \<in> set (ai_attempts r)" by (cases "ai_attempts r") auto
  with errors alternates_outcome_rule [OF r] have "ai_outcome r = DENIED" by auto
  with r ids show ?thesis by (intro exI conjI)
qed

section \<open>A machine whose programs run\<close>

lemma returns_catch [returns_intros]: "returns m \<Longrightarrow> returns (catch m handler)"
  unfolding returns_def catch_def by (metis (no_types, lifting) case_prod_conv sum.simps(6))

lemma group_08_returns:
  assumes "\<forall>log command. \<exists>answer. run_answer m log command = Inr answer" and "cpu_count m = Inr n"
  shows "group_returns (get_group_08 m c)"
proof -
  have run: "returns (run_program m command)" for command
    using assms(1) by (simp add: returns_def run_program_def)
  have "returns (G08_T01_run_shell m os)" for os
    unfolding G08_T01_run_shell_def by (intro returns_intros run)
  moreover have "returns (G08_T01_run_tool m)"
    unfolding G08_T01_run_tool_def using assms(2) by (auto intro!: returns_intros)
  moreover have "returns (run_program_alternate_attempts m attempts)" for attempts
    unfolding run_program_alternate_attempts_def run_program_alternate_attempt_def Let_def
    by (auto intro!: returns_intros run split: prod.split)
  ultimately show ?thesis by (simp add: group_returns_def get_group_08_def)
qed

end
