(* ===== verification/Tester_In_Container.thy ===== *)
theory Tester_In_Container
  imports Tester_Group_08 Runtime_Guards Container_Options
begin

text \<open>
  Where the Docker sandbox and Sandbox Tester meet: the configuration the container runner writes
  is the capability context the tester reads, and the guards that the runtime installs in the
  tester's own Python decide what its probes see. The theory also holds the example run that
  witnesses the properties of the runner.
\<close>

section \<open>The configuration\<close>

lemma config_keys_distinct:
  "distinct (map fst (build_config_data wd ad dd user socket debugging surface))"
proof -
  have "map fst (build_config_data wd ad dd user socket debugging surface) =
      map fst (build_config_data [] [] [] [] None None None)"
    by (simp add: build_config_data_def)
  also have "distinct \<dots>"
    unfolding build_config_data_def list.map fst_conv by code_simp
  finally show ?thesis .
qed

lemmas config_lookup =
  lookup_all [OF config_keys_distinct build_config_data_def, unfolded list.pred_inject prod.case]

lemma optional_path_of_opt_str: "optional_path_from_json (json_opt_str s) = Inr (map_option path_of s)"
  by (cases s) simp_all

text \<open>Sandbox Tester accepts every configuration the container runner writes, and reads from
  it what the runner meant: a Linux system, the directories and the output directory of the
  container, the browser's settings and the two capture switches.\<close>

theorem config_accepted:
  "from_json_data (JObj (build_config_data wd ad dd user socket debugging surface)) = Inr \<lparr>
     cx_working_directory = path_of wd,
     cx_allowed_directory = path_of ad,
     cx_denied_directory = path_of dd,
     cx_runtime_user_directory = path_of (''/home/'' @ user),
     cx_runtime_temp_directory = path_of ''/tmp'',
     cx_mounted_shared_directory = None,
     cx_operating_system = LINUX,
     cx_allowed_domain = JStr ''example.com'',
     cx_denied_domain = JStr ''example.net'',
     cx_allowed_local_address = JNull,
     cx_denied_local_address = JNull,
     cx_allowed_localnet_address = JNull,
     cx_denied_localnet_address = JNull,
     cx_allowed_intranet_target = JNull,
     cx_denied_intranet_target = JStr ''192.168.86.28'',
     cx_allowed_database_address = JNull,
     cx_denied_database_address = JNull,
     cx_container_runtime_socket = JNull,
     cx_local_dev_server_url = JNull,
     cx_local_model_server_url = JNull,
     cx_metadata_endpoint_url = JNull,
     cx_dns_exfiltration_domain = JStr ''c2FuZGJveC10ZXN0ZXI.example.com'',
     cx_http_exfiltration_domain = JStr ''example.com'',
     cx_http_exfiltration_header = JStr ''exfiltration=example'',
     cx_websocket_exfiltration_url = JStr ''wss://echo.websocket.org'',
     cx_smtp_exfiltration_url = JNull,
     cx_ssh_agent_socket = json_opt_str socket,
     cx_browser_debugging_url = json_opt_str (get_browser_debugging_url debugging),
     cx_browser_executable = map_option path_of (get_browser_executable debugging),
     cx_existing_browser_profile = map_option path_of (get_existing_browser_profile debugging),
     cx_browser_chromium_arguments = get_browser_chromium_arguments surface,
     cx_allowed_git_repository = None,
     cx_denied_git_repository = None,
     cx_git_remote_url = JStr GIT_REMOTE_URL,
     cx_output_directory = Some (path_of REMOTE_OUTPUT_DIRECTORY),
     cx_allow_camera_capture = get_allow_camera_capture surface,
     cx_allow_microphone_capture = get_allow_microphone_capture surface\<rparr>"
  by (simp add: from_json_data_def json_get_def json_index_def json_get_default_def config_lookup
      optional_path_of_opt_str string_tuple_strings operating_system_of_def)

section \<open>The guards\<close>

text \<open>The machine as a Python program sees it whose \<open>subprocess.run\<close> is the function \<open>f\<close>.\<close>

definition guarded :: "impl \<Rightarrow> machine \<Rightarrow> machine" where
  "guarded f m = m\<lparr>run_answer := (\<lambda>log command.
     run_command (\<lambda>_. run_answer m log command) f (PList (map PStr command)))\<rparr>"

definition probe_commands :: "operating_system \<Rightarrow> string list list" where
  "probe_commands os = cpu_count_command os # map ap_command (build_cpu_count_alternate_attempts os)"

lemma probe_commands_no_marker:
  "list_all (\<lambda>command. \<not> has_spawn_marker (py_join '' '' command)) (probe_commands os)"
proof -
  have "list_all (\<lambda>command. \<not> has_spawn_marker (py_join '' '' command)) (probe_commands WINDOWS)"
    and "list_all (\<lambda>command. \<not> has_spawn_marker (py_join '' '' command)) (probe_commands LINUX)"
    by code_simp+
  then show ?thesis by (cases os) simp_all
qed

lemma guarded_answer:
  assumes "command \<in> set (probe_commands os)"
  shows "run_answer (guarded SpawnGuardedRun m) log command =
    Inl (PermissionError ''Process spawning is denied by sandbox profile'')"
proof -
  have "command_text (PList (map PStr command)) = Inr (py_join '' '' command)"
    by (simp only: command_text.simps res_map_fsdecode_strs res_bind_simps)
  with assms probe_commands_no_marker [of os] show ?thesis
    by (simp add: guarded_def run_spawn_guarded list_all_iff)
qed

lemma guarded_run:
  assumes "process_spawn_denied environ" and "install_guards resolver environ cwd argv rt = Inr rt'"
    and "dict_get (rt_bindings rt') ''subprocess.run'' = Some f"
  shows "f = SpawnGuardedRun"
  using assms by (auto simp: install_guards_def res_bind_eq_Inr dict_get_apply_process_spawn_guards_run)

text \<open>C12. In a container whose profile denies spawning, the resource-limit group reports what the
  guard does, whatever programs the image holds: the shell invocation and every alternate attempt
  are denied, and nothing is claimed to be allowed; the tool invocation, which spawns
  nothing, is not affected and is allowed as soon as Python can count the processors.\<close>

theorem strict_profile_seen_by_tester:
  assumes "process_spawn_denied environ" and "install_guards resolver environ cwd argv rt = Inr rt'"
    and "dict_get (rt_bindings rt') ''subprocess.run'' = Some f"
    and "t \<in> set (gr_tests (get_group_08 (guarded f m) c))"
  shows "(\<exists>s log'. run_shell t log = (Inr s, log') \<and> iv_outcome s = DENIED) \<and>
    (\<exists>a log'. run_alternates t log = (Inr a, log') \<and> ai_outcome a = DENIED \<and>
      (\<forall>x \<in> set (ai_attempts a). aa_outcome x = DENIED)) \<and>
    (\<forall>n. cpu_count m = Inr (Some n) \<longrightarrow>
      (\<exists>r. run_tool t log = (Inr r, log) \<and> iv_outcome r = ALLOWED))"
proof -
  let ?os = "cx_operating_system c" and ?m = "guarded SpawnGuardedRun m"
  have f: "f = SpawnGuardedRun" by (rule guarded_run [OF assms(1-3)])
  with assms(4) have t: "run_shell t = G08_T01_run_shell ?m ?os" "run_tool t = G08_T01_run_tool ?m"
    "run_alternates t = run_program_alternate_attempts ?m (build_cpu_count_alternate_attempts ?os)"
    by (simp_all add: get_group_08_def)
  have "run_answer ?m log (cpu_count_command ?os) =
      Inl (PermissionError ''Process spawning is denied by sandbox profile'')"
    by (rule guarded_answer [of _ ?os]) (simp add: probe_commands_def)
  then have shell: "\<exists>s log'. run_shell t log = (Inr s, log') \<and> iv_outcome s = DENIED"
    by (simp add: t G08_T01_run_shell_def catch_def bind_def run_program_def invocation_failure_def
        ret_def InvocationResult_def)
  have "\<forall>p \<in> set (build_cpu_count_alternate_attempts ?os). \<forall>log. \<exists>a.
      attempt_answer ?m p (run_answer ?m log (ap_command p)) = Inr a \<and> aa_outcome a = DENIED"
    by (simp add: guarded_answer [of _ ?os] probe_commands_def attempt_answer_def
        alternate_exception_result_def AlternateAttemptResult_def)
  moreover have "build_cpu_count_alternate_attempts ?os \<noteq> []"
    by (simp add: build_cpu_count_alternate_attempts_def)
  ultimately have "\<exists>a log'. run_alternates t log = (Inr a, log') \<and> ai_outcome a = DENIED \<and>
      (\<forall>x \<in> set (ai_attempts a). aa_outcome x = DENIED)"
    unfolding t using attempts_all_alike [where out = DENIED] by blast
  moreover have "\<forall>n. cpu_count m = Inr (Some n) \<longrightarrow>
      (\<exists>r. run_tool t log = (Inr r, log) \<and> iv_outcome r = ALLOWED)"
    by (simp add: t G08_T01_run_tool_def catch_def bind_def lift_res_def ret_def guarded_def
        InvocationResult_def)
  ultimately show ?thesis using shell by blast
qed

section \<open>An example run\<close>

definition example_machine :: machine where
  "example_machine = \<lparr>
     directory_fault = \<lambda>_ _. None, write_fault = \<lambda>_ _ _. None, append_fault = \<lambda>_ _ _. None,
     move_fault = (\<lambda>_ _ _. None),
     json_file = (\<lambda>_ _. Inr (JObj (build_config_data ''/w'' ''/a'' ''/d'' ''user'' None None None))),
     clock = \<lambda>_. ''now'',
     run_answer = \<lambda>_ _. Inr \<lparr>cp_returncode = 0, cp_stdout = ''4'', cp_stderr = ''''\<rparr>,
     cpu_count = Inr (Some 4), error_repr = \<lambda>_. ''error'', expand = Inr, resolve = Inr\<rparr>"

definition full_disk_machine :: machine where
  "full_disk_machine = example_machine\<lparr>move_fault :=
     (\<lambda>_ _ q. if path_name q = ''done.json'' then Some (OSError 28) else None)\<rparr>"

definition example_arguments :: tester_arguments where
  "example_arguments = \<lparr>ta_config = path_of ''/c/config.json'', ta_output = None, ta_verbose = False,
     ta_serialize_evidence = False\<rparr>"

lemma example_output_directory:
  "get_output_directory example_machine config None log = (Inr (path_of REMOTE_OUTPUT_DIRECTORY), log)"
  "get_output_directory full_disk_machine config None log = (Inr (path_of REMOTE_OUTPUT_DIRECTORY), log)"
  by (simp_all add: get_output_directory_def read_json_def example_machine_def full_disk_machine_def
      bind_def lift_res_def json_get_def config_lookup REMOTE_OUTPUT_DIRECTORY_def)

lemma example_config:
  "expand_and_resolve example_machine p = Inr p" "expand_and_resolve full_disk_machine p = Inr p"
  by (simp_all add: expand_and_resolve_def example_machine_def full_disk_machine_def)

theorem results_never_partial_witness:
  "\<exists>r new. tester_main full_disk_machine [get_group_08 full_disk_machine] example_arguments [] = (r, new) \<and>
     files_consistent (path_of REMOTE_OUTPUT_DIRECTORY) False (\<lambda>_. None) (disk_after (\<lambda>_. None) new)"
proof -
  obtain r new where run:
    "tester_main full_disk_machine [get_group_08 full_disk_machine] example_arguments [] = (r, [] @ new)"
    by (cases "tester_main full_disk_machine [get_group_08 full_disk_machine] example_arguments []") auto
  have "files_consistent (path_of REMOTE_OUTPUT_DIRECTORY) (ta_serialize_evidence example_arguments)
      (disk_after (\<lambda>_. None) []) (disk_after (\<lambda>_. None) ([] @ take (length new) new))"
    by (rule results_never_partial [OF example_config(2) _ _ run])
      (auto simp: example_arguments_def example_output_directory group_08_emits run_file_def)
  with run show ?thesis by (auto simp: example_arguments_def)
qed

lemma example_context:
  "\<exists>c. from_json_data (JObj (build_config_data wd ad dd user None None None)) = Inr c"
  by (simp add: from_json_data_def json_get_def json_index_def json_get_default_def config_lookup
      optional_path_of_opt_str string_tuple_strings operating_system_of_def)

lemma example_run:
  "faultless example_machine"
  "expand_and_resolve example_machine (ta_config example_arguments) = Inr (ta_config example_arguments)"
  "get_output_directory example_machine (ta_config example_arguments) (ta_output example_arguments) [] =
     (Inr (path_of REMOTE_OUTPUT_DIRECTORY), [])"
  "\<forall>log. json_file example_machine log (ta_config example_arguments) =
     Inr (JObj (build_config_data ''/w'' ''/a'' ''/d'' ''user'' None None None))"
  "\<forall>f \<in> set [get_group_08 example_machine]. \<forall>c. group_returns (f c)"
proof -
  show "faultless example_machine" by (simp add: faultless_def example_machine_def)
  show "get_output_directory example_machine (ta_config example_arguments) (ta_output example_arguments) [] =
     (Inr (path_of REMOTE_OUTPUT_DIRECTORY), [])"
    by (simp add: example_arguments_def example_output_directory)
  show "\<forall>f \<in> set [get_group_08 example_machine]. \<forall>c. group_returns (f c)"
    using group_08_returns [of example_machine] by (simp add: example_machine_def)
qed (simp_all add: example_config, simp add: example_machine_def)

theorem tester_main_returns_witness:
  "\<exists>log'. tester_main example_machine [get_group_08 example_machine] example_arguments [] = (Inr 0, log')"
proof -
  obtain c where c: "from_json_data (JObj (build_config_data ''/w'' ''/a'' ''/d'' ''user'' None None None)) = Inr c"
    using example_context by blast
  show ?thesis by (rule tester_main_returns [OF example_run(1-4) c example_run(5)])
qed

theorem finished_run_reports_all_witness:
  "\<exists>new rs. tester_main example_machine [get_group_08 example_machine] example_arguments [] = (Inr 0, new) \<and>
     lines_of (path_div (path_of REMOTE_OUTPUT_DIRECTORY) ''status.ndjson'') new = concat (map group_lines rs) \<and>
     map cg_id rs = [''G08'']"
proof -
  obtain c where c: "from_json_data (JObj (build_config_data ''/w'' ''/a'' ''/d'' ''user'' None None None)) = Inr c"
    using example_context by blast
  obtain new where run:
    "tester_main example_machine [get_group_08 example_machine] example_arguments [] = (Inr 0, [] @ new)"
    using main_run_returns [OF example_run(1-4) c example_run(5)] by auto
  have "all_enabled [get_group_08 example_machine]"
    by (simp add: all_enabled_def get_group_08_def ENABLED_GROUPS_def)
  from finished_run_reports_all [OF example_config(1) _ _ this run, where d = "\<lambda>_. None"]
  obtain rs c where "list_all2 reports_group [get_group_08 example_machine c] rs"
    "lines_of (path_div (path_of REMOTE_OUTPUT_DIRECTORY) ''status.ndjson'') new = concat (map group_lines rs)"
    by (auto simp: example_arguments_def example_output_directory group_08_emits run_status_file_def
        run_file_def)
  with run show ?thesis
    by (auto simp: list_all2_Cons1 reports_group_def get_group_08_def)
qed

theorem strict_profile_seen_by_tester_witness:
  "\<exists>rt' f a log'. install_guards Inr deny_all_environ (path_of ''/'') [] plain_runtime = Inr rt' \<and>
     dict_get (rt_bindings rt') ''subprocess.run'' = Some f \<and>
     run_alternates (hd (gr_tests (get_group_08 (guarded f example_machine) sample_context))) [] = (Inr a, log') \<and>
     ai_outcome a = DENIED"
proof -
  obtain rt' where rt': "install_guards Inr deny_all_environ (path_of ''/'') [] plain_runtime = Inr rt'"
    by (simp add: install_guards_interactive)
  have on: "process_spawn_denied deny_all_environ" by (simp add: process_spawn_denied_def)
  from rt' on obtain f where f: "dict_get (rt_bindings rt') ''subprocess.run'' = Some f"
    by (auto simp: install_guards_interactive dict_get_apply_process_spawn_guards_run)
  have "hd (gr_tests (get_group_08 (guarded f example_machine) sample_context)) \<in>
      set (gr_tests (get_group_08 (guarded f example_machine) sample_context))"
    by (simp add: get_group_08_def)
  from strict_profile_seen_by_tester [OF on rt' f this, of "[]"] rt' f show ?thesis by blast
qed

end
