(* ===== verification/Tester_Directories.thy ===== *)
theory Tester_Directories
  imports Prelude
begin

text \<open>
  The removal of the test directories in \<open>src/sandbox_tester/testing.py\<close>. A directory tree is a
  value that says of each entry whether the system lets it be removed; a removal that is refused
  with a \<open>PermissionError\<close> is passed over, any other error ends the removal.
\<close>

datatype node =
    File "py_error option"
  | Symlink "py_error option"
  | Special
  | Directory "py_error option" bool "(string \<times> node) list"

text \<open>A file or link is removed, kept, or the reason why the removal ends. A directory tells whether
  it can be listed, and whether it may be removed once it is empty; the \<open>OSError\<close> of a
  directory that is not empty is passed over too.\<close>

definition unlink :: "py_error option \<Rightarrow> node \<Rightarrow> unit res \<times> node option" where
  "unlink answer n = (case answer of
     None \<Rightarrow> (Inr (), None)
   | Some (PermissionError _) \<Rightarrow> (Inr (), Some n)
   | Some e \<Rightarrow> (Inl e, Some n))"

definition entry :: "string \<Rightarrow> node option \<Rightarrow> (string \<times> node) list" where
  "entry name left = (case left of None \<Rightarrow> [] | Some n \<Rightarrow> [(name, n)])"

fun delete_directory :: "node \<Rightarrow> unit res \<times> node option"
  and delete_child :: "node \<Rightarrow> unit res \<times> node option"
  and delete_children :: "(string \<times> node) list \<Rightarrow> unit res \<times> (string \<times> node) list" where
  "delete_directory (Directory listing removable children) =
     (case listing of
        Some e \<Rightarrow> (Inl e, Some (Directory listing removable children))
      | None \<Rightarrow>
          (case delete_children children of
             (Inl e, rest) \<Rightarrow> (Inl e, Some (Directory listing removable rest))
           | (Inr _, rest) \<Rightarrow>
               (Inr (), if rest = [] \<and> removable then None else Some (Directory listing removable rest))))"
| "delete_directory n = (Inr (), Some n)"
| "delete_child (File answer) = unlink answer (File answer)"
| "delete_child (Symlink answer) = unlink answer (Symlink answer)"
| "delete_child (Directory listing removable children) =
     delete_directory (Directory listing removable children)"
| "delete_child Special = (Inr (), Some Special)"
| "delete_children [] = (Inr (), [])"
| "delete_children ((name, child) # children) =
     (case delete_child child of
        (Inl e, left) \<Rightarrow> (Inl e, entry name left @ children)
      | (Inr _, left) \<Rightarrow>
          (case delete_children children of (r, rest) \<Rightarrow> (r, entry name left @ rest)))"

text \<open>The specification: what a tree must keep, and the trees on which no other error occurs.\<close>

fun kept :: "node \<Rightarrow> node option" where
  "kept (File answer) = (if answer = None then None else Some (File answer))"
| "kept (Symlink answer) = (if answer = None then None else Some (Symlink answer))"
| "kept Special = Some Special"
| "kept (Directory listing removable children) =
     (let rest = concat (map (\<lambda>(name, child). entry name (kept child)) children)
      in if rest = [] \<and> removable then None else Some (Directory listing removable rest))"

fun is_permission_refusal :: "py_error option \<Rightarrow> bool" where
  "is_permission_refusal None = True"
| "is_permission_refusal (Some (PermissionError _)) = True"
| "is_permission_refusal _ = False"

fun only_permission_errors :: "node \<Rightarrow> bool" where
  "only_permission_errors (File answer) = is_permission_refusal answer"
| "only_permission_errors (Symlink answer) = is_permission_refusal answer"
| "only_permission_errors Special = True"
| "only_permission_errors (Directory listing removable children) =
     (listing = None \<and> list_all (\<lambda>(_, child). only_permission_errors child) children)"

lemma unlink_refusal:
  "is_permission_refusal answer \<Longrightarrow> unlink answer n = (Inr (), if answer = None then None else Some n)"
  by (cases answer rule: is_permission_refusal.cases) (auto simp: unlink_def)

lemma delete_keeps:
  "only_permission_errors n \<Longrightarrow> n = Directory listing removable children \<Longrightarrow>
     delete_directory n = (Inr (), kept n)"
  "only_permission_errors n \<Longrightarrow> delete_child n = (Inr (), kept n)"
  "list_all (\<lambda>(_, child). only_permission_errors child) ns \<Longrightarrow>
     delete_children ns = (Inr (), concat (map (\<lambda>(name, child). entry name (kept child)) ns))"
  by (induction n and n and ns arbitrary: listing removable children and and
      rule: delete_directory_delete_child_delete_children.induct)
    (auto simp: unlink_refusal Let_def)

text \<open>Where the system refuses removals with permission errors only, the removal of a directory
  tree finishes and leaves exactly what it had to: the entries that may not be removed and the
  directories above them. Links are removed and never followed.\<close>

theorem delete_directory_keeps:
  assumes "only_permission_errors (Directory listing removable children)"
  shows "delete_directory (Directory listing removable children) =
    (Inr (), kept (Directory listing removable children))"
  by (rule delete_keeps(1) [OF assms refl])

theorem delete_directory_keeps_witness:
  "delete_directory (Directory None True
     [(''a'', File None), (''b'', Directory None True [(''c'', File (Some (PermissionError ''''))), (''d'', Symlink None)])]) =
   (Inr (), Some (Directory None True [(''b'', Directory None True [(''c'', File (Some (PermissionError '''')))])]))"
  by (subst delete_directory_keeps) (simp_all add: entry_def)

end
