(* ===== verification/Monitor.thy ===== *)
theory Monitor
  imports Host
begin

text \<open>
  Properties of a run that depend on the order of its events: a monitor reads the log from the
  left, sees at each event what was logged before it, and keeps a state. The law a component has to
  discharge for its monitor is the assumption of the locale \<open>monitor\<close>: neutral events keep what
  it views of the state. The triple it gets for it says that an operation which logs neutral
  events only keeps the view.
\<close>

fun monitor_after :: "('e list \<Rightarrow> 's \<Rightarrow> 'e \<Rightarrow> 's) \<Rightarrow> 'e list \<Rightarrow> 's \<Rightarrow> 'e list \<Rightarrow> 's" where
  "monitor_after step past s [] = s"
| "monitor_after step past s (e # log) = monitor_after step (past @ [e]) (step past s e) log"

definition monitor_state :: "('e list \<Rightarrow> 's \<Rightarrow> 'e \<Rightarrow> 's) \<Rightarrow> 's \<Rightarrow> 'e list \<Rightarrow> 's" where
  "monitor_state step initial log = monitor_after step [] initial log"

lemma monitor_after_append:
  "monitor_after step past s (xs @ ys) =
   monitor_after step (past @ xs) (monitor_after step past s xs) ys"
  by (induction xs arbitrary: past s) simp_all

lemma monitor_Nil [simp]: "monitor_state step initial [] = initial"
  by (simp add: monitor_state_def)

lemma monitor_snoc [simp]:
  "monitor_state step initial (log @ [e]) = step log (monitor_state step initial log) e"
  by (simp add: monitor_state_def monitor_after_append)

locale monitor =
  fixes step :: "'e list \<Rightarrow> 's \<Rightarrow> 'e \<Rightarrow> 's" and view :: "'s \<Rightarrow> 'v" and neutral :: "'e \<Rightarrow> bool"
  assumes neutral_step: "neutral e \<Longrightarrow> view (step past s e) = view s"
begin

lemma neutral_after: "list_all neutral log \<Longrightarrow> view (monitor_after step past s log) = view s"
  by (induction log arbitrary: past s) (simp_all add: neutral_step)

lemma neutral_state:
  "emits neutral m \<Longrightarrow> m log = (r, log') \<Longrightarrow>
   view (monitor_state step initial log') = view (monitor_state step initial log)"
  by (erule appendsD, assumption) (simp add: monitor_state_def monitor_after_append neutral_after)

lemma triple_neutral:
  assumes "emits neutral m"
  shows "triple (\<lambda>log. P (view (monitor_state step initial log))) m
    (\<lambda>_ log. P (view (monitor_state step initial log)))
    (\<lambda>_ log. P (view (monitor_state step initial log)))"
  unfolding triple_def
proof (intro allI impI)
  fix log
  assume P: "P (view (monitor_state step initial log))"
  obtain r log' where m: "m log = (r, log')" by (cases "m log")
  from neutral_state [OF assms m] P m show "case m log of
      (Inr a, log') \<Rightarrow> P (view (monitor_state step initial log'))
    | (Inl e, log') \<Rightarrow> P (view (monitor_state step initial log'))"
    by (simp split: sum.split)
qed

end

text \<open>Every operation meets a triple that asks for nothing.\<close>

lemma triple_any: "triple (\<lambda>_. True) m (\<lambda>_ _. True) (\<lambda>_ _. True)"
  by (simp add: triple_def split: prod.split sum.split)

text \<open>What the result of an operation satisfies, next to what its events satisfy.\<close>

lemma triple_result:
  assumes "emits P m" and "\<And>log r log'. m log = (Inr r, log') \<Longrightarrow> R r"
  shows "triple (list_all P) m (\<lambda>r log. list_all P log \<and> R r) (\<lambda>_. list_all P)"
  unfolding triple_def
proof (intro allI impI)
  fix log
  assume log: "list_all P log"
  obtain x log' where m: "m log = (x, log')" by (cases "m log")
  from assms(1) m obtain new where "log' = log @ new" "list_all P new" by (rule appendsD)
  with log m assms(2) show "case m log of (Inr r, log') \<Rightarrow> list_all P log' \<and> R r
      | (Inl e, log') \<Rightarrow> list_all P log'"
    by (cases x) auto
qed

lemma triple_emits:
  "emits P m \<Longrightarrow> triple (list_all P) m (\<lambda>_. list_all P) (\<lambda>_. list_all P)"
  using triple_result [of P m "\<lambda>_. True"] by simp

text \<open>A result of which something is known, next to what is known of the state.\<close>

lemma triple_bind_where:
  assumes "triple P m (\<lambda>a s. S s \<and> R a) E" and "\<And>a. R a \<Longrightarrow> triple S (f a) Q E"
  shows "triple P (bind m f) Q E"
proof (rule triple_bind [OF assms(1)])
  fix a
  show "triple (\<lambda>s. S s \<and> R a) (f a) Q E"
    using assms(2) [of a] by (auto simp: triple_def)
qed

lemma triple_view:
  "(\<And>x. R x \<Longrightarrow> triple (\<lambda>s. f s = x) m Q E) \<Longrightarrow> triple (\<lambda>s. R (f s)) m Q E"
  by (simp add: triple_def)

lemma triple_run:
  "triple P m Q E \<Longrightarrow> P s \<Longrightarrow> case m s of (Inr a, s') \<Rightarrow> Q a s' | (Inl e, s') \<Rightarrow> E e s'"
  by (simp add: triple_def)

text \<open>What every event that is appended keeps.\<close>

lemma triple_keeps:
  assumes "triple P m Q E" and "emits X m" and "\<And>log new. I log \<Longrightarrow> list_all X new \<Longrightarrow> I (log @ new)"
  shows "triple (\<lambda>s. P s \<and> I s) m (\<lambda>a s. Q a s \<and> I s) (\<lambda>e s. E e s \<and> I s)"
  unfolding triple_def
proof (intro allI impI)
  fix log
  assume log: "P log \<and> I log"
  obtain r log' where m: "m log = (r, log')" by (cases "m log")
  with assms(2) obtain new where "log' = log @ new" "list_all X new" by (rule appendsD)
  with assms(3) log have "I log'" by blast
  with triple_run [OF assms(1), of log] log m
  show "case m log of (Inl e, s') \<Rightarrow> E e s' \<and> I s' | (Inr a, s') \<Rightarrow> Q a s' \<and> I s'"
    by (simp split: sum.splits)
qed

lemma emits_both: "emits P m \<Longrightarrow> emits Q m \<Longrightarrow> emits (\<lambda>e. P e \<and> Q e) m"
  unfolding appends_def list_all_iff by (metis same_append_eq)

text \<open>An exception is passed to the handler, or on.\<close>

lemma triple_catch:
  assumes "triple P m Q F" and "\<And>e h. handler e = Some h \<Longrightarrow> triple (F e) h Q E"
    and "\<And>e s. handler e = None \<Longrightarrow> F e s \<Longrightarrow> E e s"
  shows "triple P (catch m handler) Q E"
  unfolding triple_def
proof (intro allI impI)
  fix s
  assume P: "P s"
  obtain r s' where m: "m s = (r, s')" by (cases "m s")
  show "case catch m handler s of (Inl e, t) \<Rightarrow> E e t | (Inr a, t) \<Rightarrow> Q a t"
  proof (cases r)
    case (Inl e)
    with triple_Inl [OF assms(1) P] m have F: "F e s'" by simp
    show ?thesis
    proof (cases "handler e")
      case (Some h)
      from triple_run [OF assms(2) [OF Some] F] m Inl Some show ?thesis by (simp add: catch_def)
    qed (use m Inl F assms(3) in \<open>simp add: catch_def\<close>)
  qed (use triple_Inr [OF assms(1) P] m in \<open>simp add: catch_def\<close>)
qed

end
