(* ===== verification/Local_Sandbox.thy ===== *)
theory Local_Sandbox
  imports Tester_Group_08 Tester_Directories Monitor
begin

text \<open>
  \<open>src/local_sandbox/cli.py\<close>, which runs Sandbox Tester on the machine at hand, and the operations
  of \<open>src/sandbox_tester/testing.py\<close> that only it calls: \<open>from_current_environment\<close> and the
  making and removal of the two test directories. The tester is the same program as in the other
  theories: its actions run inside a local run (\<open>under\<close>), on the part of the local log that is
  its own, and every line it prints goes through the \<open>_TeeTextIO\<close> the run has installed. What the
  code asks of \<open>os\<close>, \<open>platform\<close>, \<open>tempfile\<close> and \<open>datetime\<close> is a field of \<open>local_world\<close>.
\<close>

section \<open>The machine at hand\<close>

datatype stream = Terminal_Output | Terminal_Error | Stream_File path

datatype local_event =
    Tester tester_event
  | Made_Temporary path
  | Text_Written path string
  | Opened path
  | Shown stream string
  | Flushed stream
  | Removed path "node option"

text \<open>A fault of \<open>write_text\<close> comes with what is left in the file. \<open>lw_disk\<close> and
  \<open>lw_directories\<close> are what exists before the run; \<open>lw_tree\<close> is what the test directories hold
  when they are removed, which is up to the probes.\<close>

record local_world =
  lw_machine :: machine
  lw_disk :: disk
  lw_directories :: "path \<Rightarrow> bool"
  lw_cwd :: path
  lw_now :: string
  lw_platform :: string
  lw_home :: "path res"
  lw_tempdir :: "path res"
  lw_ssh_auth_sock :: "string option"
  lw_mkdir_fault :: "local_event list \<Rightarrow> path \<Rightarrow> py_error option"
  lw_mkdtemp :: "local_event list \<Rightarrow> string \<Rightarrow> path res"
  lw_text_fault :: "local_event list \<Rightarrow> path \<Rightarrow> (py_error \<times> string) option"
  lw_open_fault :: "local_event list \<Rightarrow> path \<Rightarrow> py_error option"
  lw_tree :: "local_event list \<Rightarrow> path \<Rightarrow> node option"
  lw_traceback :: "py_error \<Rightarrow> string"

type_synonym 'a local_act = "(local_event list, 'a) py"

fun own_event :: "local_event \<Rightarrow> tester_event list" where
  "own_event (Tester e) = [e]"
| "own_event _ = []"

definition tester_log :: "local_event list \<Rightarrow> tester_event list" where
  "tester_log log = concat (map own_event log)"

text \<open>\<open>Path.mkdir()\<close> without \<open>exist_ok\<close>, \<open>tempfile.mkdtemp\<close>, \<open>write_text\<close> of a plain text,
  \<open>open\<close> for writing and \<open>Path.exists\<close>.\<close>

definition make_new_directory :: "local_world \<Rightarrow> path \<Rightarrow> unit local_act" where
  "make_new_directory w p = (\<lambda>log.
     if lw_directories w p \<or> Tester (Made_Directory p) \<in> set log then (Inl (FileExistsError (path_str p)), log)
     else case lw_mkdir_fault w log p of
       Some e \<Rightarrow> (Inl e, log) | None \<Rightarrow> (Inr (), log @ [Tester (Made_Directory p)]))"

definition make_temporary :: "local_world \<Rightarrow> string \<Rightarrow> path local_act" where
  "make_temporary w prefix = (\<lambda>log. case lw_mkdtemp w log prefix of
     Inl e \<Rightarrow> (Inl e, log) | Inr p \<Rightarrow> (Inr p, log @ [Made_Temporary p]))"

definition write_plain :: "local_world \<Rightarrow> path \<Rightarrow> string \<Rightarrow> unit local_act" where
  "write_plain w p content = (\<lambda>log. case lw_text_fault w log p of
     Some (e, left) \<Rightarrow> (Inl e, log @ [Text_Written p left])
   | None \<Rightarrow> (Inr (), log @ [Text_Written p content]))"

definition open_for_writing :: "local_world \<Rightarrow> path \<Rightarrow> stream local_act" where
  "open_for_writing w p = (\<lambda>log. case lw_open_fault w log p of
     Some e \<Rightarrow> (Inl e, log) | None \<Rightarrow> (Inr (Stream_File p), log @ [Opened p]))"

definition file_exists :: "local_world \<Rightarrow> path \<Rightarrow> bool local_act" where
  "file_exists w p = ask (\<lambda>log. disk_after (lw_disk w) (tester_log log) p \<noteq> None)"

section \<open>Two streams at once\<close>

definition write_stream :: "string \<Rightarrow> stream \<Rightarrow> unit local_act" where
  "write_stream content s = (\<lambda>log. (Inr (), log @ [Shown s content]))"

definition flush_stream :: "stream \<Rightarrow> unit local_act" where
  "flush_stream s = (\<lambda>log. (Inr (), log @ [Flushed s]))"

definition tee_write :: "stream list \<Rightarrow> string \<Rightarrow> nat local_act" where
  "tee_write streams content = andthen (for_each streams (write_stream content)) (ret (length content))"

definition tee_flush :: "stream list \<Rightarrow> unit local_act" where
  "tee_flush streams = for_each streams flush_stream"

text \<open>\<open>print\<close> writes the line and then its end to \<open>sys.stdout\<close>.\<close>

fun redirected :: "stream list \<Rightarrow> tester_event \<Rightarrow> local_event list" where
  "redirected streams (Printed line) = Tester (Printed line) #
     snd (andthen (tee_write streams line) (tee_write streams [CHR 0x0A]) [])"
| "redirected streams e = [Tester e]"

definition under :: "stream list \<Rightarrow> 'a act \<Rightarrow> 'a local_act" where
  "under streams m = (\<lambda>log. case m (tester_log log) of
     (r, log') \<Rightarrow> (r, log @ concat (map (redirected streams) (drop (length (tester_log log)) log'))))"

section \<open>The test directories\<close>

definition ALLOWED_CHILD_DIRECTORY :: string where "ALLOWED_CHILD_DIRECTORY = ''allowed''"
definition DENIED_CHILD_DIRECTORY :: string where "DENIED_CHILD_DIRECTORY = ''denied''"
definition HIDDEN_FILE_NAME :: string where "HIDDEN_FILE_NAME = ''.hidden''"
definition ALLOWED_FILE_NAME :: string where "ALLOWED_FILE_NAME = ''allowed.txt''"
definition DENIED_FILE_NAME :: string where "DENIED_FILE_NAME = ''denied.txt''"

definition create_allowed_directory :: "local_world \<Rightarrow> path local_act" where
  "create_allowed_directory w =
     bind (make_temporary w ''sandbox-tester-'') (\<lambda>temporary.
     bind (lift_res (resolve (lw_machine w) temporary)) (\<lambda>allowed_directory.
     let allowed_child_directory = path_div allowed_directory ALLOWED_CHILD_DIRECTORY
     in andthen (under [] (make_directory (lw_machine w) allowed_child_directory))
       (andthen (write_plain w (path_div allowed_child_directory ALLOWED_FILE_NAME)
         ''This is a test file for the allowed directory.'')
       (andthen (write_plain w (path_div allowed_child_directory HIDDEN_FILE_NAME)
         ''This is a hidden file.'')
       (ret allowed_directory)))))"

definition create_disallowed_directory :: "local_world \<Rightarrow> path local_act" where
  "create_disallowed_directory w =
     bind (make_temporary w ''sandbox-tester-denied-'') (\<lambda>temporary.
     bind (lift_res (resolve (lw_machine w) temporary)) (\<lambda>denied_directory.
     let denied_child_directory = path_div denied_directory DENIED_CHILD_DIRECTORY
     in andthen (under [] (make_directory (lw_machine w) denied_child_directory))
       (andthen (write_plain w (path_div denied_child_directory DENIED_FILE_NAME)
         ''This is a test file for the denied directory.'')
       (andthen (write_plain w (path_div denied_child_directory HIDDEN_FILE_NAME)
         ''This is a hidden file in the denied directory.'')
       (ret denied_directory)))))"

text \<open>\<open>_delete_directory\<close> of what is there; a path that is no directory is left alone.\<close>

definition delete_tree :: "local_world \<Rightarrow> path \<Rightarrow> unit local_act" where
  "delete_tree w p = (\<lambda>log. case lw_tree w log p of
     None \<Rightarrow> (Inr (), log @ [Removed p None])
   | Some n \<Rightarrow> (case delete_directory n of (r, left) \<Rightarrow> (r, log @ [Removed p left])))"

definition delete_allowed_directory :: "local_world \<Rightarrow> path \<Rightarrow> unit local_act" where
  "delete_allowed_directory w allowed_directory = delete_tree w allowed_directory"

definition delete_denied_directory :: "local_world \<Rightarrow> path \<Rightarrow> unit local_act" where
  "delete_denied_directory w denied_directory = delete_tree w denied_directory"

section \<open>The context of the machine at hand\<close>

definition operating_system_named :: "string \<Rightarrow> operating_system res" where
  "operating_system_named system_name =
     (if system_name = ''Windows'' then Inr WINDOWS
      else if system_name = ''Linux'' then Inr LINUX
      else Inl (RuntimeError (''Unsupported operating system: '' @ system_name)))"

definition resolve_optional :: "machine \<Rightarrow> path option \<Rightarrow> path option res" where
  "resolve_optional m p = (case p of None \<Rightarrow> Inr None | Some q \<Rightarrow> res_bind (resolve m q) (\<lambda>r. Inr (Some r)))"

text \<open>The arguments in the order of the signature.\<close>

definition from_current_environment ::
    "local_world \<Rightarrow>
     path \<Rightarrow> path \<Rightarrow> path \<Rightarrow> path option \<Rightarrow> json
     \<Rightarrow> json \<Rightarrow> json \<Rightarrow> json \<Rightarrow> json \<Rightarrow> json
     \<Rightarrow> json \<Rightarrow> json \<Rightarrow> json \<Rightarrow> json \<Rightarrow> json
     \<Rightarrow> json \<Rightarrow> json \<Rightarrow> json \<Rightarrow> json \<Rightarrow> json
     \<Rightarrow> json \<Rightarrow> json \<Rightarrow> json \<Rightarrow> json \<Rightarrow> json
     \<Rightarrow> path option \<Rightarrow> path option \<Rightarrow> string list \<Rightarrow>
     path option \<Rightarrow> path option \<Rightarrow> json \<Rightarrow> path option
     \<Rightarrow> bool \<Rightarrow> bool \<Rightarrow> capability_context res" where
  "from_current_environment w
     working_directory allowed_directory denied_directory mounted_shared_directory allowed_domain
     denied_domain allowed_local_address denied_local_address allowed_localnet_address
     denied_localnet_address allowed_intranet_target denied_intranet_target allowed_database_address
     denied_database_address container_runtime_socket local_dev_server_url local_model_server_url
     metadata_endpoint_url dns_exfiltration_domain http_exfiltration_domain http_exfiltration_header
     websocket_exfiltration_url smtp_exfiltration_url ssh_agent_socket browser_debugging_url
     browser_executable existing_browser_profile browser_chromium_arguments allowed_git_repository
     denied_git_repository git_remote_url output_directory allow_camera_capture
     allow_microphone_capture =
     res_bind (operating_system_named (lw_platform w)) (\<lambda>operating_system.
     res_bind (res_bind (lw_home w) (resolve (lw_machine w))) (\<lambda>runtime_user_directory.
     res_bind (res_bind (lw_tempdir w) (resolve (lw_machine w))) (\<lambda>runtime_temp_directory.
     res_bind (resolve_optional (lw_machine w) mounted_shared_directory) (\<lambda>mounted_shared_directory.
     res_bind (resolve_optional (lw_machine w) allowed_git_repository) (\<lambda>allowed_git_repository.
     res_bind (resolve_optional (lw_machine w) denied_git_repository) (\<lambda>denied_git_repository.
     res_bind (resolve_optional (lw_machine w) output_directory) (\<lambda>output_directory.
     Inr \<lparr>cx_working_directory = working_directory,
       cx_allowed_directory = allowed_directory,
       cx_denied_directory = denied_directory,
       cx_runtime_user_directory = runtime_user_directory,
       cx_runtime_temp_directory = runtime_temp_directory,
       cx_mounted_shared_directory = mounted_shared_directory,
       cx_operating_system = operating_system,
       cx_allowed_domain = allowed_domain,
       cx_denied_domain = denied_domain,
       cx_allowed_local_address = allowed_local_address,
       cx_denied_local_address = denied_local_address,
       cx_allowed_localnet_address = allowed_localnet_address,
       cx_denied_localnet_address = denied_localnet_address,
       cx_allowed_intranet_target = allowed_intranet_target,
       cx_denied_intranet_target = denied_intranet_target,
       cx_allowed_database_address = allowed_database_address,
       cx_denied_database_address = denied_database_address,
       cx_container_runtime_socket = container_runtime_socket,
       cx_local_dev_server_url = local_dev_server_url,
       cx_local_model_server_url = local_model_server_url,
       cx_metadata_endpoint_url = metadata_endpoint_url,
       cx_dns_exfiltration_domain = dns_exfiltration_domain,
       cx_http_exfiltration_domain = http_exfiltration_domain,
       cx_http_exfiltration_header = http_exfiltration_header,
       cx_websocket_exfiltration_url = websocket_exfiltration_url,
       cx_smtp_exfiltration_url = smtp_exfiltration_url,
       cx_ssh_agent_socket = ssh_agent_socket,
       cx_browser_debugging_url = browser_debugging_url,
       cx_browser_executable = browser_executable,
       cx_existing_browser_profile = existing_browser_profile,
       cx_browser_chromium_arguments = browser_chromium_arguments,
       cx_allowed_git_repository = allowed_git_repository,
       cx_denied_git_repository = denied_git_repository,
       cx_git_remote_url = git_remote_url,
       cx_output_directory = output_directory,
       cx_allow_camera_capture = allow_camera_capture,
       cx_allow_microphone_capture = allow_microphone_capture\<rparr>)))))))"

section \<open>The command line\<close>

definition VERBOSE_LOGGING :: bool where "VERBOSE_LOGGING = False"
definition DELETE_SCRATCH_DIRECTORIES :: bool where "DELETE_SCRATCH_DIRECTORIES = True"
definition PRINT_MARKDOWN_REPORT :: bool where "PRINT_MARKDOWN_REPORT = True"
definition MOUNTED_SHARED_DIRECTORY :: path where "MOUNTED_SHARED_DIRECTORY = path_of ''S:/''"
definition ALLOWED_DOMAIN :: json where "ALLOWED_DOMAIN = JStr ''example.com''"
definition DENIED_DOMAIN :: json where "DENIED_DOMAIN = JStr ''example.net''"
definition ALLOWED_LOCAL_ADDRESS :: json where "ALLOWED_LOCAL_ADDRESS = JNull"
definition DENIED_LOCAL_ADDRESS :: json where "DENIED_LOCAL_ADDRESS = JNull"
definition ALLOWED_LOCALNET_ADDRESS :: json where "ALLOWED_LOCALNET_ADDRESS = JNull"
definition DENIED_LOCALNET_ADDRESS :: json where "DENIED_LOCALNET_ADDRESS = JNull"
definition ALLOWED_INTRANET_TARGET :: json where "ALLOWED_INTRANET_TARGET = JNull"
definition DENIED_INTRANET_TARGET :: json where "DENIED_INTRANET_TARGET = JStr ''192.168.86.28''"
definition ALLOWED_DATABASE_ADDRESS :: json where "ALLOWED_DATABASE_ADDRESS = JNull"
definition DENIED_DATABASE_ADDRESS :: json where "DENIED_DATABASE_ADDRESS = JNull"
definition CONTAINER_RUNTIME_SOCKET :: json where "CONTAINER_RUNTIME_SOCKET = JNull"
definition LOCAL_DEV_SERVER_URL :: json where "LOCAL_DEV_SERVER_URL = JNull"
definition LOCAL_MODEL_SERVER_URL :: json where "LOCAL_MODEL_SERVER_URL = JNull"
definition METADATA_ENDPOINT_URL :: json where "METADATA_ENDPOINT_URL = JNull"
definition DNS_EXFILTRATION_DOMAIN :: json where
  "DNS_EXFILTRATION_DOMAIN = JStr ''c2FuZGJveC10ZXN0ZXI.example.com''"
definition HTTP_EXFILTRATION_DOMAIN :: json where "HTTP_EXFILTRATION_DOMAIN = JStr ''example.com''"
definition HTTP_EXFILTRATION_HEADER :: json where
  "HTTP_EXFILTRATION_HEADER = JStr ''exfiltration=example''"
definition WEBSOCKET_EXFILTRATION_URL :: json where
  "WEBSOCKET_EXFILTRATION_URL = JStr ''wss://echo.websocket.org''"
definition SMTP_EXFILTRATION_URL :: json where "SMTP_EXFILTRATION_URL = JNull"
definition BROWSER_DEBUGGING_URL :: json where "BROWSER_DEBUGGING_URL = JNull"
definition BROWSER_EXECUTABLE :: path where
  "BROWSER_EXECUTABLE = path_of (py_join [CHR 0x5C] [''C:'', ''Program Files'', ''Google'', ''Chrome'', ''Application'', ''chrome.exe''])"
definition EXISTING_BROWSER_PROFILE :: path where
  "EXISTING_BROWSER_PROFILE = path_of (py_join [CHR 0x5C]
     [''C:'', ''Users'', ''somen'', ''AppData'', ''Local'', ''Google'', ''Chrome'', ''User Data'', ''Default''])"
definition ALLOWED_GIT_REPOSITORY :: path where
  "ALLOWED_GIT_REPOSITORY = path_of (py_join [CHR 0x5C] [''C:'', ''Git'', ''ScratchpadOne''])"
definition DENIED_GIT_REPOSITORY :: path where
  "DENIED_GIT_REPOSITORY = path_of (py_join [CHR 0x5C] [''C:'', ''Git'', ''ScratchpadTwo''])"
definition LOCAL_GIT_REMOTE_URL :: json where
  "LOCAL_GIT_REMOTE_URL = JStr ''https://github.com/SomeNewKid/ScratchpadOne.git''"
definition ALLOW_CAMERA_CAPTURE :: bool where "ALLOW_CAMERA_CAPTURE = True"
definition ALLOW_MICROPHONE_CAPTURE :: bool where "ALLOW_MICROPHONE_CAPTURE = True"
definition LOCAL_SANDBOX_DIRECTORY :: string where "LOCAL_SANDBOX_DIRECTORY = ''.local_sandbox''"
definition RUNS_DIRECTORY :: string where "RUNS_DIRECTORY = ''runs''"
definition SSH_AGENT_SOCKET :: "local_world \<Rightarrow> json" where
  "SSH_AGENT_SOCKET w = (case lw_ssh_auth_sock w of None \<Rightarrow> JNull | Some s \<Rightarrow> JStr s)"

definition local_capability_context :: "local_world \<Rightarrow> path \<Rightarrow> path \<Rightarrow> path \<Rightarrow> capability_context res" where
  "local_capability_context w allowed_directory denied_directory run_directory =
     from_current_environment w
       (lw_cwd w) allowed_directory denied_directory (Some MOUNTED_SHARED_DIRECTORY) ALLOWED_DOMAIN
       DENIED_DOMAIN ALLOWED_LOCAL_ADDRESS DENIED_LOCAL_ADDRESS ALLOWED_LOCALNET_ADDRESS
       DENIED_LOCALNET_ADDRESS ALLOWED_INTRANET_TARGET DENIED_INTRANET_TARGET
       ALLOWED_DATABASE_ADDRESS DENIED_DATABASE_ADDRESS CONTAINER_RUNTIME_SOCKET
       LOCAL_DEV_SERVER_URL LOCAL_MODEL_SERVER_URL METADATA_ENDPOINT_URL DNS_EXFILTRATION_DOMAIN
       HTTP_EXFILTRATION_DOMAIN HTTP_EXFILTRATION_HEADER WEBSOCKET_EXFILTRATION_URL
       SMTP_EXFILTRATION_URL (SSH_AGENT_SOCKET w) BROWSER_DEBUGGING_URL (Some BROWSER_EXECUTABLE)
       (Some EXISTING_BROWSER_PROFILE) [] (Some ALLOWED_GIT_REPOSITORY) (Some DENIED_GIT_REPOSITORY)
       LOCAL_GIT_REMOTE_URL (Some run_directory) ALLOW_CAMERA_CAPTURE ALLOW_MICROPHONE_CAPTURE"

definition create_run_directory :: "local_world \<Rightarrow> path \<Rightarrow> path local_act" where
  "create_run_directory w working_directory =
     (let runs_directory = path_div (path_div working_directory LOCAL_SANDBOX_DIRECTORY) RUNS_DIRECTORY;
          run_directory = path_div runs_directory (''run-'' @ lw_now w)
      in andthen (under [] (make_directory (lw_machine w) runs_directory))
        (andthen (make_new_directory w run_directory) (ret run_directory)))"

definition print_results :: "path \<Rightarrow> capability_group_result list \<Rightarrow> unit act" where
  "print_results run_directory group_results =
     andthen (print_line (''Run results saved to: '' @ path_str run_directory))
     (if group_results \<noteq> [] then
        if PRINT_MARKDOWN_REPORT
        then steps [print_line '''', print_line (replicate 40 CHR ''-''), print_line '''',
          print_line (render_markdown_report group_results)]
        else print_line ''Markdown report not printed.''
      else print_line ''No results.'')"

text \<open>The end of a run, once the tester has returned.\<close>

definition finish_local_run ::
    "local_world \<Rightarrow> stream list \<Rightarrow> path \<Rightarrow> path \<Rightarrow> path \<Rightarrow> capability_group_result list \<Rightarrow> int local_act" where
  "finish_local_run w streams run_directory allowed_directory denied_directory group_results =
     (let done_path = path_div run_directory ''done.json''
      in bind (file_exists w done_path) (\<lambda>completed.
        if \<not> completed
        then raise (RuntimeError (''Sandbox tester did not write completion file: '' @ path_str done_path))
        else andthen (under streams (print_results run_directory group_results))
          (andthen
            (if DELETE_SCRATCH_DIRECTORIES
             then andthen (delete_allowed_directory w allowed_directory)
               (delete_denied_directory w denied_directory)
             else under streams (andthen
               (print_line (''Allowed directory retained at: '' @ path_str allowed_directory))
               (print_line (''Denied directory retained at: '' @ path_str denied_directory))))
          (ret 0))))"

definition run_local_sandbox ::
    "local_world \<Rightarrow> group_factory list \<Rightarrow> stream list \<Rightarrow> bool \<Rightarrow> path \<Rightarrow> int local_act" where
  "run_local_sandbox w factories streams serialize_evidence run_directory =
     (let context_path = path_div run_directory ''config.json'';
          status_path = path_div run_directory ''status.ndjson''
      in bind (create_allowed_directory w) (\<lambda>allowed_directory.
      bind (create_disallowed_directory w) (\<lambda>denied_directory.
      bind (lift_res (local_capability_context w allowed_directory denied_directory run_directory))
        (\<lambda>capability_context.
      andthen (under streams (write_capability_context (lw_machine w) capability_context context_path))
      (let console_reporter = (if VERBOSE_LOGGING then ConsoleReporter else QuietReporter)
       in bind (under streams (StatusFileReporter (lw_machine w) status_path)) (\<lambda>status_reporter.
      bind (under streams (run_from_files (lw_machine w) factories context_path run_directory
          (CompositeReporter [console_reporter, status_reporter]) serialize_evidence)) (\<lambda>results.
      finish_local_run w streams run_directory allowed_directory denied_directory results)))))))"

text \<open>The entry point, after \<open>argparse\<close>. A traceback goes to \<open>sys.stderr\<close>.\<close>

definition local_main :: "local_world \<Rightarrow> group_factory list \<Rightarrow> bool \<Rightarrow> int local_act" where
  "local_main w factories serialize_evidence =
     bind (create_run_directory w (lw_cwd w)) (\<lambda>run_directory.
     bind (open_for_writing w (path_div run_directory ''stdout.txt'')) (\<lambda>stdout_file.
     bind (open_for_writing w (path_div run_directory ''stderr.txt'')) (\<lambda>stderr_file.
       catch (run_local_sandbox w factories [Terminal_Output, stdout_file] serialize_evidence run_directory)
         (\<lambda>e. if is_exception e
           then Some (andthen (tee_write [Terminal_Error, stderr_file] (lw_traceback w e)) (ret 1))
           else None))))"

section \<open>The part of the log that is the tester's\<close>

lemma tester_log_simps [simp]:
  "tester_log [] = []"
  "tester_log (log @ log') = tester_log log @ tester_log log'"
  "tester_log (e # log) = own_event e @ tester_log log"
  by (simp_all add: tester_log_def)

lemma for_each_shown:
  "for_each streams (write_stream content) log = (Inr (), log @ map (\<lambda>s. Shown s content) streams)"
  by (induction streams arbitrary: log) (simp_all add: ret_def andthen_def bind_def write_stream_def)

lemma tee_write_shown:
  "tee_write streams content log =
     (Inr (length content), log @ map (\<lambda>s. Shown s content) streams)"
  by (simp add: tee_write_def andthen_def bind_def for_each_shown ret_def)

lemma redirected_print [simp]:
  "redirected streams (Printed line) = Tester (Printed line) #
     map (\<lambda>s. Shown s line) streams @ map (\<lambda>s. Shown s [CHR 0x0A]) streams"
  by (simp add: andthen_def bind_def tee_write_shown)

declare redirected.simps(1) [simp del]

lemma shown_not_own: "concat (map (own_event \<circ> (\<lambda>s. Shown s content)) streams) = []"
  by (induction streams) simp_all

lemma own_redirected: "tester_log (redirected streams e) = [e]"
  by (cases e) (simp_all add: tester_log_def shown_not_own)

lemma own_redirected_all: "tester_log (concat (map (redirected streams) es)) = es"
  by (induction es) (simp_all add: own_redirected)

text \<open>An action of the tester that only appends does under the tee what it does alone.\<close>

lemma under_appends:
  assumes "appends Q m"
  obtains new where "m (tester_log log) = (fst (under streams m log), tester_log log @ new)" and "Q new"
    and "under streams m log = (fst (under streams m log), log @ concat (map (redirected streams) new))"
    and "tester_log (snd (under streams m log)) = tester_log log @ new"
proof -
  obtain r log' where m: "m (tester_log log) = (r, log')" by (cases "m (tester_log log)")
  with assms obtain new where new: "log' = tester_log log @ new" "Q new" by (rule appendsD)
  show thesis
    by (rule that [of new]) (use m new in \<open>simp_all add: under_def own_redirected_all\<close>)
qed

lemma under_Inr:
  assumes "appends Q m" and "under streams m log = (Inr a, log')"
  obtains "m (tester_log log) = (Inr a, tester_log log')"
  using under_appends [OF assms(1), of log streams] assms(2) by (metis fst_conv snd_conv)

lemma triple_under:
  assumes "triple P m R E" and "appends Q m"
  shows "triple (\<lambda>log. P (tester_log log)) (under streams m)
    (\<lambda>a log. R a (tester_log log)) (\<lambda>e log. E e (tester_log log))"
  unfolding triple_def
proof (intro allI impI)
  fix log
  assume P: "P (tester_log log)"
  obtain r log' where u: "under streams m log = (r, log')" by (cases "under streams m log")
  with under_appends [OF assms(2), of log streams]
  have "m (tester_log log) = (r, tester_log log')" by (metis fst_conv snd_conv)
  with triple_run [OF assms(1) P] u
  show "case under streams m log of (Inl e, s') \<Rightarrow> E e (tester_log s')
      | (Inr a, s') \<Rightarrow> R a (tester_log s')"
    by (simp split: sum.splits)
qed

section \<open>What the terminal shows is in the files\<close>

fun shown_on :: "stream \<Rightarrow> local_event \<Rightarrow> string" where
  "shown_on s (Shown t content) = (if t = s then content else [])"
| "shown_on s _ = []"

definition stream_text :: "stream \<Rightarrow> local_event list \<Rightarrow> string" where
  "stream_text s log = concat (map (shown_on s) log)"

lemma stream_text_simps [simp]:
  "stream_text s [] = []"
  "stream_text s (log @ log') = stream_text s log @ stream_text s log'"
  "stream_text s (e # log) = shown_on s e @ stream_text s log"
  by (simp_all add: stream_text_def)

definition recorded :: "path \<Rightarrow> local_event list \<Rightarrow> bool" where
  "recorded run_directory log \<longleftrightarrow>
     stream_text (Stream_File (path_div run_directory ''stdout.txt'')) log = stream_text Terminal_Output log \<and>
     stream_text (Stream_File (path_div run_directory ''stderr.txt'')) log = stream_text Terminal_Error log"

interpretation local_streams: log_property "recorded rd" for rd
  by unfold_locales (simp_all add: recorded_def)

fun silent :: "local_event \<Rightarrow> bool" where
  "silent (Shown _ _) = False"
| "silent _ = True"

lemma silent_shows_nothing: "list_all silent log \<Longrightarrow> stream_text s log = []"
  by (induction log rule: list.induct) (auto elim: silent.elims)

lemma silent_recorded: "emits silent m \<Longrightarrow> appends (recorded rd) m"
  by (erule appends_mono) (simp add: recorded_def silent_shows_nothing)

abbreviation output_streams :: "path \<Rightarrow> stream list" where
  "output_streams rd \<equiv> [Terminal_Output, Stream_File (path_div rd ''stdout.txt'')]"

lemma redirected_recorded: "recorded rd (redirected (output_streams rd) e)"
  by (cases e) (simp_all add: recorded_def path_div_eq)

lemma under_recorded:
  assumes "emits (\<lambda>_. True) m"
  shows "appends (recorded rd) (under (output_streams rd) m)"
  unfolding appends_def
proof
  fix log
  have "recorded rd (concat (map (redirected (output_streams rd)) es))" for es
    by (induction es) (simp_all add: local_streams.nil_closed local_streams.concat_closed redirected_recorded)
  with under_appends [OF assms, of log "output_streams rd"]
  show "\<exists>new. snd (under (output_streams rd) m log) = log @ new \<and> recorded rd new"
    by (metis snd_conv)
qed

lemma traceback_recorded:
  "appends (recorded rd) (tee_write [Terminal_Error, Stream_File (path_div rd ''stderr.txt'')] content)"
  by (simp add: appends_def tee_write_shown recorded_def path_div_eq)

text \<open>The run directory, and the run with its constructors' results in place.\<close>

definition local_run_directory :: "local_world \<Rightarrow> path" where
  "local_run_directory w =
     path_div (path_div (path_div (lw_cwd w) LOCAL_SANDBOX_DIRECTORY) RUNS_DIRECTORY) (''run-'' @ lw_now w)"

lemma bind_create_run_directory:
  "bind (create_run_directory w (lw_cwd w)) f =
     andthen (under [] (make_directory (lw_machine w)
       (path_div (path_div (lw_cwd w) LOCAL_SANDBOX_DIRECTORY) RUNS_DIRECTORY)))
     (andthen (make_new_directory w (local_run_directory w)) (f (local_run_directory w)))"
  by (simp add: create_run_directory_def local_run_directory_def Let_def andthen_def bind_assoc monad_simps)

lemma bind_open_for_writing:
  "bind (open_for_writing w p) f = andthen (open_for_writing w p) (f (Stream_File p))"
  by (auto simp: open_for_writing_def andthen_def bind_def fun_eq_iff split: option.split)

lemma bind_under_ret:
  "bind (under streams (andthen m (ret x))) f = andthen (under streams m) (f x)"
  by (auto simp: under_def andthen_def bind_def ret_def fun_eq_iff split: prod.split sum.split)

lemma run_local_sandbox_eq:
  "run_local_sandbox w factories streams serialize_evidence rd =
     bind (create_allowed_directory w) (\<lambda>a. bind (create_disallowed_directory w) (\<lambda>d.
     bind (lift_res (local_capability_context w a d rd)) (\<lambda>c.
     andthen (under streams (write_capability_context (lw_machine w) c (path_div rd ''config.json'')))
     (andthen (under streams (make_directory (lw_machine w) (path_parent (path_div rd ''status.ndjson''))))
     (bind (under streams (run_from_files (lw_machine w) factories (path_div rd ''config.json'') rd
        (main_reporter (lw_machine w) rd VERBOSE_LOGGING) serialize_evidence))
     (finish_local_run w streams rd a d))))))"
  unfolding run_local_sandbox_def StatusFileReporter_def bind_under_ret main_reporter_def Let_def
  by (rule refl)

lemma silent_operations:
  "emits silent (make_new_directory w p)"
  "emits silent (make_temporary w prefix)"
  "emits silent (write_plain w p content)"
  "emits silent (open_for_writing w p)"
  "emits silent (file_exists w p)"
  "emits silent (delete_tree w p)"
  by (auto simp: appends_def make_new_directory_def make_temporary_def write_plain_def
      open_for_writing_def file_exists_def ask_def delete_tree_def split: sum.split option.split prod.split)

lemma only_appends:
  "emits (\<lambda>_. True) (make_directory m p)"
  "emits (\<lambda>_. True) (write_capability_context m c p)"
  "emits (\<lambda>_. True) (print_results rd rs)"
  by (auto simp: write_capability_context_def print_results_def intro!: emits_intros)

lemma run_from_files_appends:
  assumes "reporter_contract reporter P" and "\<forall>f \<in> set factories. \<forall>c. group_emits P (f c)"
  shows "emits (\<lambda>_. True) (run_from_files m factories config od reporter se)"
proof -
  have "reporter_contract reporter (\<lambda>_. True)"
    by (rule reporter_contract_mono [OF assms(1)]) simp
  moreover have "\<forall>f \<in> set factories. \<forall>c. group_emits (\<lambda>_. True) (f c)"
    using assms(2) by (auto intro: group_emits_mono [where P = P])
  ultimately show ?thesis
    unfolding run_from_files_def read_capability_context_def write_json_atomically_def Let_def
    by (auto intro!: emits_intros reporter_contract.run_all_groups_emits)
qed

lemma under_nothing_silent:
  assumes "emits (\<lambda>_. True) m" shows "emits silent (under [] m)"
  unfolding appends_def
proof
  fix log
  have "list_all silent (redirected [] e)" for e by (cases e) simp_all
  then have "list_all silent (concat (map (redirected []) es))" for es by (induction es) simp_all
  with under_appends [OF assms, of log "[]"]
  show "\<exists>new. snd (under [] m log) = log @ new \<and> list_all silent new" by (metis snd_conv)
qed

lemma test_directories_silent:
  "emits silent (create_allowed_directory w)" "emits silent (create_disallowed_directory w)"
  unfolding create_allowed_directory_def create_disallowed_directory_def Let_def
  by (intro each_event.intros silent_operations under_nothing_silent only_appends)+

lemma finish_local_run_recorded: "appends (recorded rd) (finish_local_run w (output_streams rd) rd' a d rs)"
proof -
  have "emits (\<lambda>_. True) (andthen (print_line x) (print_line y))" for x y by (intro emits_intros) simp_all
  then show ?thesis
    unfolding finish_local_run_def Let_def delete_allowed_directory_def delete_denied_directory_def
    by (auto intro!: local_streams.intros under_recorded only_appends silent_operations [THEN silent_recorded])
qed


section \<open>What a run leaves\<close>

text \<open>The tester's part of the log tells the results in full.\<close>

definition told ::
    "local_world \<Rightarrow> group_factory list \<Rightarrow> bool \<Rightarrow> capability_group_result list \<Rightarrow> tester_event list \<Rightarrow> bool" where
  "told w factories serialize_evidence rs t \<longleftrightarrow>
     (\<exists>c. list_all2 reports_group (map (\<lambda>f. f c) factories) rs) \<and>
     finished (local_run_directory w) serialize_evidence rs (disk_after (lw_disk w) t) \<and>
     lines_of (path_div (local_run_directory w) ''status.ndjson'') t = concat (map group_lines rs)"

text \<open>The test directories made so far are known to be these, and none has been removed.\<close>

definition removed :: "path \<Rightarrow> local_event list \<Rightarrow> bool" where
  "removed q log \<longleftrightarrow> (\<exists>left. Removed q left \<in> set log)"

definition scratch :: "local_world \<Rightarrow> path set \<Rightarrow> local_event list \<Rightarrow> bool" where
  "scratch w ps log \<longleftrightarrow> (\<forall>q. \<not> removed q log) \<and>
     (\<forall>p. Made_Temporary p \<in> set log \<longrightarrow> (\<exists>q \<in> ps. resolve (lw_machine w) p = Inr q))"

fun neither :: "local_event \<Rightarrow> bool" where
  "neither (Made_Temporary _) = False"
| "neither (Removed _ _) = False"
| "neither _ = True"

lemma scratch_kept: "scratch w ps log \<Longrightarrow> list_all neither new \<Longrightarrow> scratch w ps (log @ new)"
  by (fastforce simp: scratch_def removed_def list_all_iff)

lemma unremoved_kept: "\<forall>q. \<not> removed q log \<Longrightarrow> list_all neither new \<Longrightarrow> \<forall>q. \<not> removed q (log @ new)"
  by (fastforce simp: removed_def list_all_iff)

lemma under_neither:
  assumes "emits (\<lambda>_. True) m" shows "emits neither (under streams m)"
  unfolding appends_def
proof
  fix log
  have "list_all neither (redirected streams e)" for e by (cases e) (auto simp: list_all_iff)
  then have "list_all neither (concat (map (redirected streams) es))" for es by (induction es) simp_all
  with under_appends [OF assms, of log streams]
  show "\<exists>new. snd (under streams m log) = log @ new \<and> list_all neither new" by (metis snd_conv)
qed

lemma neither_operations:
  "emits neither (make_new_directory w p)"
  "emits neither (write_plain w p content)"
  "emits neither (open_for_writing w p)"
  "emits neither (tee_write streams content)"
  by (auto simp: appends_def make_new_directory_def write_plain_def open_for_writing_def
      tee_write_shown list_all_iff split: option.split)

text \<open>An event of a run that is no test's leaves the status file and the results alone.\<close>

fun aside :: "path \<Rightarrow> local_event \<Rightarrow> bool" where
  "aside rd (Tester e) = run_status_file rd e"
| "aside rd _ = True"

lemma under_aside:
  assumes "emits (run_status_file rd) m" shows "emits (aside rd) (under streams m)"
  unfolding appends_def
proof
  fix log
  from under_appends [OF assms, of log streams] obtain new where
    new: "list_all (run_status_file rd) new"
    and log': "snd (under streams m log) = log @ concat (map (redirected streams) new)"
    by (metis snd_conv)
  have "run_status_file rd e \<Longrightarrow> list_all (aside rd) (redirected streams e)" for e
    by (cases e) (auto simp: list_all_iff)
  with new have "list_all (aside rd) (concat (map (redirected streams) new))"
    by (induction new) simp_all
  with log' show "\<exists>new. snd (under streams m log) = log @ new \<and> list_all (aside rd) new" by blast
qed

lemma aside_operations:
  "emits (aside rd) (make_new_directory w p)"
  "emits (aside rd) (make_temporary w prefix)"
  "emits (aside rd) (write_plain w p content)"
  "emits (aside rd) (open_for_writing w p)"
  "emits (aside rd) (file_exists w p)"
  "emits (aside rd) (delete_tree w p)"
  "emits (aside rd) (tee_write streams content)"
  by (auto simp: appends_def make_new_directory_def make_temporary_def write_plain_def
      open_for_writing_def file_exists_def ask_def delete_tree_def tee_write_shown list_all_iff
      run_status_file_def run_file_def split: sum.split option.split prod.split)

lemma aside_tester_log: "list_all (aside rd) log \<Longrightarrow> list_all (run_status_file rd) (tester_log log)"
  by (induction log) (auto elim: aside.elims)

lemma aside_lines:
  "list_all (aside rd) log \<Longrightarrow> lines_of (path_div rd ''status.ndjson'') (tester_log log) = []"
  by (drule aside_tester_log) (auto simp: run_status_file_def intro!: lines_of_spared elim!: list.pred_mono_strong)

lemma aside_told:
  assumes "told w factories se rs (tester_log log)" and "list_all (aside (local_run_directory w)) new"
  shows "told w factories se rs (tester_log (log @ new))"
proof -
  let ?rd = "local_run_directory w"
  have "list_all (spares (path_div ?rd n)) (tester_log new)" if "n \<in> {''report.json'', ''done.json''}" for n
    using aside_tester_log [OF assms(2)] that
    by (auto simp: run_status_file_def run_file_def elim!: list.pred_mono_strong)
  then have "disk_after d (tester_log new) (path_div ?rd n) = d (path_div ?rd n)"
    if "n \<in> {''report.json'', ''done.json''}" for n d
    using that by (blast intro: disk_after_spared)
  with assms(1) aside_lines [OF assms(2)] show ?thesis
    by (simp add: told_def finished_def report_complete_def)
qed

lemma run_finished:
  assumes groups: "\<forall>f \<in> set factories. \<forall>c. group_emits (run_file rd) (f c)"
    and run: "run_from_files m factories config rd (main_reporter m rd verbose) se t = (Inr rs, t')"
  shows "finished rd se rs (disk_after d t')"
proof -
  have "so_far (files_consistent rd se (disk_after d t)) d t (untouched rd (disk_after d t)) t"
    by (simp add: so_far_def untouched_def files_consistent_def)
  from triple_Inr [OF triple_run_from_files [OF groups] this run] show ?thesis by (auto simp: so_far_def)
qed

lemma triple_run_told:
  assumes groups: "\<forall>f \<in> set factories. \<forall>c. group_emits (run_status_file (local_run_directory w)) (f c)"
    and enabled: "all_enabled factories"
  defines "rd \<equiv> local_run_directory w"
  shows "triple (\<lambda>t. lines_of (path_div rd ''status.ndjson'') t = [])
    (run_from_files m factories config rd (main_reporter m rd verbose) se)
    (\<lambda>rs t. told w factories se rs t) (\<lambda>_ _. True)"
  unfolding triple_def
proof (intro allI impI)
  fix t
  assume none: "lines_of (path_div rd ''status.ndjson'') t = []"
  let ?run = "run_from_files m factories config rd (main_reporter m rd verbose) se"
  have files: "\<forall>f \<in> set factories. \<forall>c. group_emits (run_file rd) (f c)"
    and status: "\<forall>f \<in> set factories. \<forall>c. group_emits (spares (path_div rd ''status.ndjson'')) (f c)"
    using groups by (auto simp: rd_def run_status_file_def [abs_def] intro: group_emits_mono)
  obtain r t' where run: "?run t = (r, t')" by (cases "?run t")
  show "case ?run t of (Inl e, s') \<Rightarrow> True | (Inr rs, s') \<Rightarrow> told w factories se rs s'"
  proof (cases r)
    case (Inr rs)
    have "finished rd se rs (disk_after (lw_disk w) t')"
      by (rule run_finished [OF files run [unfolded Inr]])
    moreover from run_from_files_lines [OF enabled status] run Inr obtain new where
      "t' = t @ new" "lines_of (path_div rd ''status.ndjson'') new = concat (map group_lines rs)"
      unfolding adds_lines_def by blast
    moreover from run Inr obtain c t1 t2 where
      "run_all_groups factories c (main_reporter m rd verbose) t1 = (Inr rs, t2)"
      unfolding run_from_files_def by (auto simp: bind_Inr andthen_Inr ret_Inr Let_def)
    then have "list_all2 reports_group (map (\<lambda>f. f c) factories) rs"
      by (rule run_all_groups_reports [OF enabled])
    ultimately show ?thesis using run Inr none by (auto simp: told_def rd_def [symmetric])
  qed (simp add: run)
qed

text \<open>Before the tester runs.\<close>

definition prepared :: "local_world \<Rightarrow> path set \<Rightarrow> local_event list \<Rightarrow> bool" where
  "prepared w ps log \<longleftrightarrow> list_all (aside (local_run_directory w)) log \<and> scratch w ps log"

lemma triple_prepared:
  assumes "emits (\<lambda>e. aside (local_run_directory w) e \<and> neither e) m"
  shows "triple (prepared w ps) m (\<lambda>_. prepared w ps) (\<lambda>_ log. \<forall>q. \<not> removed q log)"
proof -
  have "prepared w ps (log @ new)"
    if "prepared w ps log" "list_all (\<lambda>e. aside (local_run_directory w) e \<and> neither e) new" for log new
    using that scratch_kept [of w ps log new] by (auto simp: prepared_def list_all_iff)
  note kept = triple_keeps [where I = "prepared w ps", OF triple_any assms this]
  show ?thesis by (rule triple_weaken [OF kept]) (auto simp: prepared_def scratch_def)
qed

lemma triple_create:
  assumes body: "\<And>a. emits (\<lambda>e. aside (local_run_directory w) e \<and> neither e) (body a)"
    and returned: "\<And>a b log log'. body a log = (Inr b, log') \<Longrightarrow> b = a"
  shows "triple (prepared w ps)
    (bind (make_temporary w prefix) (\<lambda>p. bind (lift_res (resolve (lw_machine w) p)) body))
    (\<lambda>a. prepared w (insert a ps)) (\<lambda>_ log. \<forall>q. \<not> removed q log)"
proof -
  let ?pending = "\<lambda>p log. \<exists>before. log = before @ [Made_Temporary p] \<and> prepared w ps before"
  have made: "triple (prepared w ps) (make_temporary w prefix) ?pending (\<lambda>_ log. \<forall>q. \<not> removed q log)"
    by (auto simp: triple_def make_temporary_def prepared_def scratch_def split: sum.split)
  have found: "triple (?pending p) (lift_res (resolve (lw_machine w) p))
      (\<lambda>a. prepared w (insert a ps)) (\<lambda>_ log. \<forall>q. \<not> removed q log)" for p
    by (rule triple_lift_res) (auto simp: prepared_def scratch_def removed_def)
  have filled: "triple (prepared w (insert a ps)) (body a)
      (\<lambda>b. prepared w (insert b ps)) (\<lambda>_ log. \<forall>q. \<not> removed q log)" for a
    using triple_prepared [OF body [of a], of "insert a ps"] returned [of a]
    by (fastforce simp: triple_def split: sum.splits prod.splits)
  show ?thesis by (rule triple_bind [OF made triple_bind [OF found filled]])
qed

lemma triple_create_directories:
  "triple (prepared w ps) (create_allowed_directory w) (\<lambda>a. prepared w (insert a ps))
     (\<lambda>_ log. \<forall>q. \<not> removed q log)"
  "triple (prepared w ps) (create_disallowed_directory w) (\<lambda>a. prepared w (insert a ps))
     (\<lambda>_ log. \<forall>q. \<not> removed q log)"
proof -
  have tester: "emits (run_status_file rd) (make_directory m p)" for rd m p
    by (intro emits_intros) (simp add: run_status_file_def run_file_def)
  show "triple (prepared w ps) (create_allowed_directory w) (\<lambda>a. prepared w (insert a ps))
      (\<lambda>_ log. \<forall>q. \<not> removed q log)"
    "triple (prepared w ps) (create_disallowed_directory w) (\<lambda>a. prepared w (insert a ps))
      (\<lambda>_ log. \<forall>q. \<not> removed q log)"
    unfolding create_allowed_directory_def create_disallowed_directory_def Let_def
    by (rule triple_create; (intro emits_both each_event.intros aside_operations neither_operations
        under_neither only_appends under_aside [OF tester])?; auto simp: andthen_Inr ret_Inr)+
qed

text \<open>The end of a run removes what it is given, and nothing of the results.\<close>

lemma delete_tree_removes: "delete_tree w p log = (Inr u, log') \<Longrightarrow> \<exists>left. log' = log @ [Removed p left]"
  by (auto simp: delete_tree_def split: option.splits prod.splits)

lemma finish_local_run_Inr:
  assumes "finish_local_run w streams rd a d rs log = (Inr exit, log')"
  obtains shown left left' where "exit = 0" and "list_all neither shown"
    and "log' = log @ shown @ [Removed a left, Removed d left']"
proof -
  from assms obtain log1 log2 where exit: "exit = 0"
    and shown: "under streams (print_results rd rs) log = (Inr (), log1)"
    and removals: "delete_tree w a log1 = (Inr (), log2)" "delete_tree w d log2 = (Inr (), log')"
    unfolding finish_local_run_def file_exists_def ask_def Let_def
    by (auto simp: bind_Inr andthen_Inr ret_Inr raise_Inr DELETE_SCRATCH_DIRECTORIES_def
        delete_allowed_directory_def delete_denied_directory_def split: if_splits)
  from under_neither [OF only_appends(3)] shown obtain new where "log1 = log @ new" "list_all neither new"
    by (rule appendsD)
  with exit delete_tree_removes [OF removals(1)] delete_tree_removes [OF removals(2)] that show thesis
    by auto
qed

lemma finish_local_run_aside: "emits (aside rd) (finish_local_run w streams rd a d rs)"
proof -
  have "emits (run_status_file rd) (print_results rd rs)"
    "emits (run_status_file rd) (andthen (print_line x) (print_line y))" for x y
    unfolding print_results_def by (auto simp: run_status_file_def run_file_def intro!: emits_intros)
  note this [THEN under_aside]
  then show ?thesis
    unfolding finish_local_run_def Let_def delete_allowed_directory_def delete_denied_directory_def
    by (auto intro!: each_event.intros aside_operations)
qed

definition cleaned :: "local_world \<Rightarrow> local_event list \<Rightarrow> bool" where
  "cleaned w log \<longleftrightarrow> (\<forall>p. Made_Temporary p \<in> set log \<longrightarrow>
     (\<exists>q left. resolve (lw_machine w) p = Inr q \<and> Removed q left \<in> set log))"

lemma scratch_cleaned:
  assumes "scratch w {d, a} log" and "list_all neither shown"
  shows "cleaned w (log @ shown @ [Removed a left, Removed d left'])"
  unfolding cleaned_def
proof (intro allI impI)
  fix p
  assume "Made_Temporary p \<in> set (log @ shown @ [Removed a left, Removed d left'])"
  with assms(2) have "Made_Temporary p \<in> set log" by (auto simp: list_all_iff)
  with assms(1) obtain q where "q \<in> {d, a}" "resolve (lw_machine w) p = Inr q"
    by (auto simp: scratch_def)
  then show "\<exists>q l. resolve (lw_machine w) p = Inr q \<and>
      Removed q l \<in> set (log @ shown @ [Removed a left, Removed d left'])"
    by auto
qed

lemma triple_finish:
  fixes w :: local_world
  defines "rd \<equiv> local_run_directory w"
  shows "triple (\<lambda>log. told w factories se rs (tester_log log) \<and> scratch w {d, a} log)
    (finish_local_run w streams rd a d rs)
    (\<lambda>exit log. exit = 0 \<and> told w factories se rs (tester_log log) \<and> cleaned w log)
    (\<lambda>_ log. told w factories se rs (tester_log log))"
proof -
  have "triple (scratch w {d, a}) (finish_local_run w streams rd a d rs)
      (\<lambda>exit log. exit = 0 \<and> cleaned w log) (\<lambda>_ _. True)"
    by (auto simp: triple_def elim!: finish_local_run_Inr intro: scratch_cleaned split: prod.splits sum.splits)
  from triple_keeps [OF this finish_local_run_aside, of "\<lambda>log. told w factories se rs (tester_log log)", folded rd_def]
  show ?thesis by (rule triple_weaken) (auto simp: rd_def dest: aside_told)
qed

definition safe_end :: "local_world \<Rightarrow> group_factory list \<Rightarrow> bool \<Rightarrow> local_event list \<Rightarrow> bool" where
  "safe_end w factories se log \<longleftrightarrow>
     (\<forall>q. \<not> removed q log) \<or> (\<exists>rs. told w factories se rs (tester_log log))"

lemma safe_end_kept:
  "safe_end w factories se log \<Longrightarrow>
   list_all (\<lambda>e. aside (local_run_directory w) e \<and> neither e) new \<Longrightarrow> safe_end w factories se (log @ new)"
  using unremoved_kept [of log new] aside_told [of w factories se _ log new]
  unfolding safe_end_def by (fastforce simp: list_all_iff)

lemma triple_run_local_sandbox:
  assumes groups: "\<forall>f \<in> set factories. \<forall>c. group_emits (run_status_file (local_run_directory w)) (f c)"
    and enabled: "all_enabled factories"
  defines "rd \<equiv> local_run_directory w"
  shows "triple (prepared w {}) (run_local_sandbox w factories streams se rd)
    (\<lambda>exit log. exit = 0 \<and> (\<exists>rs. told w factories se rs (tester_log log)) \<and> cleaned w log)
    (\<lambda>_. safe_end w factories se)"
proof -
  let ?m = "lw_machine w" and ?config = "path_div rd ''config.json''"
  let ?run = "run_from_files ?m factories ?config rd (main_reporter ?m rd VERBOSE_LOGGING) se"
  let ?told = "\<lambda>rs. \<lambda>log. told w factories se rs (tester_log log)"
  note rest = triple_weaken [where E' = "\<lambda>_. safe_end w factories se"]
  have created: "triple (prepared w ps) (create_allowed_directory w) (\<lambda>a. prepared w (insert a ps))
      (\<lambda>_. safe_end w factories se)"
    "triple (prepared w ps) (create_disallowed_directory w) (\<lambda>a. prepared w (insert a ps))
      (\<lambda>_. safe_end w factories se)" for ps
    by (rule rest [OF triple_create_directories(1)] rest [OF triple_create_directories(2)];
        simp add: safe_end_def)+
  have asked: "triple (prepared w ps) (lift_res r) (\<lambda>_. prepared w ps) (\<lambda>_. safe_end w factories se)" for ps r
    by (rule triple_lift_res) (simp_all add: prepared_def scratch_def safe_end_def)
  have tester: "triple (prepared w ps) (under streams n) (\<lambda>_. prepared w ps) (\<lambda>_. safe_end w factories se)"
    if "emits (run_status_file rd) n" "emits (\<lambda>_. True) n" for ps and n :: "unit act"
    by (rule rest [OF triple_prepared [OF emits_both
        [OF under_aside [OF that(1), unfolded rd_def] under_neither [OF that(2)]]]])
      (simp_all add: safe_end_def)
  have "emits (run_status_file rd) (write_capability_context ?m c ?config)"
    "emits (run_status_file rd) (make_directory ?m p)" for c p
    unfolding write_capability_context_def
    by (auto simp: run_status_file_def run_file_def path_div_eq intro!: emits_intros)
  note tester = tester [OF this(1) only_appends(2)] tester [OF this(2) only_appends(1)]
  have "reporter_contract (main_reporter m od verbose) (\<lambda>_. True)" for m od verbose
    by (rule reporter_contract_mono [OF main_reporter_contract]) simp
  moreover have "\<forall>f \<in> set factories. \<forall>c. group_emits (\<lambda>_. True) (f c)"
    using groups by (auto intro: group_emits_mono)
  ultimately have appends: "emits (\<lambda>_. True) ?run" by (rule run_from_files_appends)
  have ran: "triple (prepared w ps) (under streams ?run) (\<lambda>rs log. ?told rs log \<and> scratch w ps log)
      (\<lambda>_. safe_end w factories se)" for ps
    by (rule triple_weaken [OF triple_keeps [where I = "scratch w ps",
          OF triple_under [OF triple_run_told [OF groups enabled] appends [unfolded rd_def]]
          under_neither [OF appends [unfolded rd_def]] scratch_kept, folded rd_def]])
      (auto simp: prepared_def scratch_def safe_end_def rd_def aside_lines)
  have ended: "triple (\<lambda>log. ?told rs log \<and> scratch w {d, a} log) (finish_local_run w streams rd a d rs)
      (\<lambda>exit log. exit = 0 \<and> (\<exists>rs. ?told rs log) \<and> cleaned w log) (\<lambda>_. safe_end w factories se)" for a d rs
    by (rule rest [OF triple_finish [where w = w, folded rd_def]]) (auto simp: safe_end_def rd_def)
  show ?thesis
    unfolding run_local_sandbox_eq
    by (rule triple_bind [OF created(1) triple_bind [OF created(2) triple_bind [OF asked
          triple_andthen [OF tester(1) triple_andthen [OF tester(2) triple_bind [OF ran ended]]]]]])
qed

text \<open>How a run of the command line ends.\<close>

lemma triple_local_main:
  assumes groups: "\<forall>f \<in> set factories. \<forall>c. group_emits (run_status_file (local_run_directory w)) (f c)"
    and enabled: "all_enabled factories"
  shows "triple (\<lambda>log. log = []) (local_main w factories se)
    (\<lambda>exit log. exit = 1 \<and> safe_end w factories se log \<or>
       exit = 0 \<and> (\<exists>rs. told w factories se rs (tester_log log)) \<and> cleaned w log)
    (\<lambda>_. safe_end w factories se)"
proof -
  let ?rd = "local_run_directory w"
  note rest = triple_weaken [where E' = "\<lambda>_. safe_end w factories se"]
  have mkdir: "emits (run_status_file ?rd) (make_directory m p)" for m p
    by (auto simp: run_status_file_def run_file_def intro!: emits_intros)
  have start: "triple (prepared w {}) n (\<lambda>_. prepared w {}) (\<lambda>_. safe_end w factories se)"
    if "emits (aside ?rd) n" "emits neither n" for n :: "(local_event list, 'a) py"
    by (rule rest [OF triple_prepared [OF emits_both [OF that]]]) (simp_all add: safe_end_def)
  note made = start [OF under_aside [OF mkdir] under_neither [OF only_appends(1)]]
    start [OF aside_operations(1) neither_operations(1)]
  note opened = start [OF aside_operations(4) neither_operations(3)]
  have traceback: "triple (safe_end w factories se)
      (andthen (tee_write [Terminal_Error, Stream_File (path_div ?rd ''stderr.txt'')] content) (ret (1 :: int)))
      (\<lambda>exit log. exit = 1 \<and> safe_end w factories se log) (\<lambda>_. safe_end w factories se)" for content
    by (rule triple_andthen [where R = "safe_end w factories se"], rule triple_weaken
        [OF triple_keeps [where I = "safe_end w factories se", OF triple_any
          emits_both [OF aside_operations(7) neither_operations(4)] safe_end_kept]])
      (auto intro: triple_ret)
  have run: "triple (prepared w {})
      (catch (run_local_sandbox w factories (output_streams ?rd) se ?rd)
        (\<lambda>e. if is_exception e
          then Some (andthen (tee_write [Terminal_Error, Stream_File (path_div ?rd ''stderr.txt'')]
            (lw_traceback w e)) (ret 1))
          else None))
      (\<lambda>exit log. exit = 1 \<and> safe_end w factories se log \<or>
        exit = 0 \<and> (\<exists>rs. told w factories se rs (tester_log log)) \<and> cleaned w log)
      (\<lambda>_. safe_end w factories se)"
    by (rule triple_catch [OF triple_weaken [OF triple_run_local_sandbox [OF groups enabled]]])
      (auto split: if_splits intro: triple_weaken [OF traceback])
  show ?thesis
    unfolding local_main_def bind_create_run_directory bind_open_for_writing
    by (rule triple_weaken [OF triple_andthen [OF made(1) triple_andthen [OF made(2)
          triple_andthen [OF opened triple_andthen [OF opened run]]]]])
      (auto simp: prepared_def scratch_def removed_def)
qed

text \<open>C14. Whatever the machine does, a local run that returns has exit code 0 or 1. With 0 the report is
  complete, with one entry for every group and test in their order, \<open>done.json\<close> says so, the status
  file tells the same results, and every temporary directory the run made has been given to the
  removal.\<close>

theorem local_run_reports:
  assumes groups: "\<forall>f \<in> set factories. \<forall>c. group_emits (run_status_file (local_run_directory w)) (f c)"
    and enabled: "all_enabled factories"
    and run: "local_main w factories serialize_evidence [] = (Inr exit, log)"
  shows "exit = 1 \<or> exit = 0 \<and>
    (\<exists>rs c. list_all2 reports_group (map (\<lambda>f. f c) factories) rs \<and>
      finished (local_run_directory w) serialize_evidence rs (disk_after (lw_disk w) (tester_log log)) \<and>
      lines_of (path_div (local_run_directory w) ''status.ndjson'') (tester_log log) =
        concat (map group_lines rs)) \<and>
    (\<forall>p. Made_Temporary p \<in> set log \<longrightarrow>
      (\<exists>q left. resolve (lw_machine w) p = Inr q \<and> Removed q left \<in> set log))"
  using triple_Inr [OF triple_local_main [OF groups enabled] refl run]
  by (auto simp: told_def cleaned_def)


section \<open>A run that returns\<close>

text \<open>A machine on which nothing fails, which reads what has been written, and whose test directories
  can be emptied but for entries it refuses to remove.\<close>

definition local_faultless :: "local_world \<Rightarrow> bool" where
  "local_faultless w \<longleftrightarrow> faultless (lw_machine w) \<and> lw_platform w \<in> {''Windows'', ''Linux''} \<and> path_wf (lw_cwd w) \<and>
     CHR ''/'' \<notin> set (lw_now w) \<and>
     (\<forall>p. path_wf p \<longrightarrow> (\<exists>q. path_wf q \<and> resolve (lw_machine w) p = Inr q)) \<and>
     (\<exists>p. path_wf p \<and> lw_home w = Inr p) \<and> (\<exists>p. path_wf p \<and> lw_tempdir w = Inr p) \<and>
     (\<forall>log p. lw_mkdir_fault w log p = None) \<and> \<not> lw_directories w (local_run_directory w) \<and>
     (\<forall>log prefix. \<exists>p. path_wf p \<and> lw_mkdtemp w log prefix = Inr p) \<and>
     (\<forall>log p. lw_text_fault w log p = None) \<and> (\<forall>log p. lw_open_fault w log p = None) \<and>
     (\<forall>t p data. disk_after (lw_disk w) t p = Some [Document data] \<longrightarrow> json_file (lw_machine w) t p = Inr data) \<and>
     (\<forall>log p. pred_option only_permission_errors (lw_tree w log p))"

lemma returns_under: "returns m \<Longrightarrow> returns (under streams m)"
  unfolding returns_def under_def by (metis (no_types, lifting) case_prod_conv)

lemma returns_delete_tree: "local_faultless w \<Longrightarrow> returns (delete_tree w p)"
  unfolding returns_def
proof
  fix log
  assume "local_faultless w"
  then have tree: "pred_option only_permission_errors (lw_tree w log p)" by (simp add: local_faultless_def)
  have "only_permission_errors n \<Longrightarrow> fst (delete_directory n) = Inr ()" for n
    using delete_keeps(1) by (cases n) auto
  with tree show "\<exists>a log'. delete_tree w p log = (Inr a, log')"
    by (fastforce simp: delete_tree_def split: option.split prod.split)
qed

lemma create_directories_return:
  assumes "local_faultless w"
  shows "\<exists>a log'. path_wf a \<and> create_allowed_directory w log = (Inr a, log')"
    "\<exists>a log'. path_wf a \<and> create_disallowed_directory w log = (Inr a, log')"
proof -
  have "\<exists>p q. lw_mkdtemp w log prefix = Inr p \<and> resolve (lw_machine w) p = Inr q \<and> path_wf q" for prefix
  proof -
    have "\<exists>p. path_wf p \<and> lw_mkdtemp w log prefix = Inr p" using assms by (simp add: local_faultless_def)
    then obtain p where p: "path_wf p" "lw_mkdtemp w log prefix = Inr p" by blast
    moreover have "\<exists>q. path_wf q \<and> resolve (lw_machine w) p = Inr q"
      using assms p(1) by (simp add: local_faultless_def)
    ultimately show ?thesis by blast
  qed
  then obtain p q p' q' where made:
    "lw_mkdtemp w log ''sandbox-tester-'' = Inr p" "resolve (lw_machine w) p = Inr q" "path_wf q"
    "lw_mkdtemp w log ''sandbox-tester-denied-'' = Inr p'" "resolve (lw_machine w) p' = Inr q'" "path_wf q'"
    by meson
  have "returns (write_plain w p content)" for p content
    using assms by (simp add: returns_def write_plain_def local_faultless_def)
  moreover have "returns (under [] (make_directory (lw_machine w) p))" for p
    using assms by (auto simp: local_faultless_def intro: returns_under returns_intros)
  ultimately have fill: "\<exists>log'. andthen (under [] (make_directory (lw_machine w) p1))
      (andthen (write_plain w p2 c2) (andthen (write_plain w p3 c3) (ret x))) log = (Inr x, log')"
    for p1 p2 p3 c2 c3 log and x :: path
    unfolding andthen_Inr ret_Inr returns_def by metis
  have "bind (make_temporary w prefix) (\<lambda>p. bind (lift_res (resolve (lw_machine w) p)) body) log =
      body y (log @ [Made_Temporary x])"
    if "lw_mkdtemp w log prefix = Inr x" "resolve (lw_machine w) x = Inr y" for prefix x y and body :: "path \<Rightarrow> path local_act"
    using that by (simp add: bind_def make_temporary_def lift_res_def)
  note start = this [OF made(1,2)] this [OF made(4,5)]
  show "\<exists>a log'. path_wf a \<and> create_allowed_directory w log = (Inr a, log')"
    "\<exists>a log'. path_wf a \<and> create_disallowed_directory w log = (Inr a, log')"
    unfolding create_allowed_directory_def create_disallowed_directory_def Let_def start
    by ((rule exI [of _ q] exI [of _ q'], simp only: made(3,6) simp_thms, rule fill)+)
qed

lemma local_context_wf:
  assumes w: "local_faultless w" and paths: "path_wf a" "path_wf d"
  shows "\<exists>c. local_capability_context w a d (local_run_directory w) = Inr c \<and> paths_well_formed c"
proof -
  have found: "\<exists>q. path_wf q \<and> resolve (lw_machine w) p = Inr q" if "path_wf p" for p
    using w that by (simp add: local_faultless_def)
  have "path_wf (local_run_directory w)"
    using w by (auto simp: local_run_directory_def local_faultless_def)
  then obtain s g1 g2 o' where constants:
    "resolve (lw_machine w) MOUNTED_SHARED_DIRECTORY = Inr s" "path_wf s"
    "resolve (lw_machine w) ALLOWED_GIT_REPOSITORY = Inr g1" "path_wf g1"
    "resolve (lw_machine w) DENIED_GIT_REPOSITORY = Inr g2" "path_wf g2"
    "resolve (lw_machine w) (local_run_directory w) = Inr o'" "path_wf o'"
    using found unfolding MOUNTED_SHARED_DIRECTORY_def ALLOWED_GIT_REPOSITORY_def DENIED_GIT_REPOSITORY_def
    by (meson path_wf_path_of)
  have "\<exists>p. path_wf p \<and> lw_home w = Inr p" "\<exists>p. path_wf p \<and> lw_tempdir w = Inr p"
    using w by (simp_all add: local_faultless_def)
  then obtain h t where asked: "lw_home w = Inr h" "path_wf h" "lw_tempdir w = Inr t" "path_wf t" by blast
  from found [OF asked(2)] found [OF asked(4)] obtain h' t' where places:
    "res_bind (lw_home w) (resolve (lw_machine w)) = Inr h'" "path_wf h'"
    "res_bind (lw_tempdir w) (resolve (lw_machine w)) = Inr t'" "path_wf t'"
    by (auto simp: asked)
  have "\<exists>system. operating_system_named (lw_platform w) = Inr system" "path_wf (lw_cwd w)"
    using w by (auto simp: local_faultless_def operating_system_named_def)
  with constants places paths show ?thesis
    by (auto simp: local_capability_context_def from_current_environment_def resolve_optional_def
        paths_well_formed_def BROWSER_EXECUTABLE_def EXISTING_BROWSER_PROFILE_def)
qed

text \<open>The tester finds the context it is given.\<close>

lemma context_written_and_read:
  assumes w: "local_faultless w" and c: "paths_well_formed c"
    and written: "write_capability_context (lw_machine w) c p t = (Inr (), t')"
  shows "read_capability_context (lw_machine w) p (t' @ [Made_Directory q, Made_Directory q']) =
    (Inr c, t' @ [Made_Directory q, Made_Directory q'])"
proof -
  from written have "disk_after (lw_disk w) (t' @ [Made_Directory q, Made_Directory q']) p =
      Some [Document (to_json_data c)]"
    by (auto simp: write_capability_context_def andthen_Inr world_success)
  with w have "json_file (lw_machine w) (t' @ [Made_Directory q, Made_Directory q']) p = Inr (to_json_data c)"
    by (simp add: local_faultless_def)
  with context_round_trip [OF c] show ?thesis
    by (simp add: read_capability_context_def read_json_def bind_def lift_res_def)
qed

lemma tester_returns:
  assumes w: "local_faultless w" and c: "paths_well_formed c"
    and groups: "\<forall>f \<in> set factories. \<forall>c. group_returns (f c)"
    and written: "write_capability_context (lw_machine w) c p t = (Inr (), t')"
  shows "\<exists>rs t''. run_from_files (lw_machine w) factories p rd (main_reporter (lw_machine w) rd verbose) se
    (t' @ [Made_Directory q]) = (Inr rs, t'')"
proof -
  have machine: "faultless (lw_machine w)" using w by (simp add: local_faultless_def)
  have made: "make_directory (lw_machine w) rd (t' @ [Made_Directory q]) =
      (Inr (), t' @ [Made_Directory q, Made_Directory rd])"
    using machine by (simp add: make_directory_def faultless_def)
  have rest: "returns (bind (run_all_groups factories c' (main_reporter (lw_machine w) rd verbose)) (\<lambda>rs.
      andthen (write_json_atomically (lw_machine w) p1 (d1 rs))
        (andthen (write_json_atomically (lw_machine w) p2 d2) (ret rs))))" for c' p1 p2 d1 d2
    unfolding write_json_atomically_def Let_def
    by (intro returns_intros machine run_all_groups_returns main_reporter_returns) (simp add: groups)
  show ?thesis
    using rest
    unfolding run_from_files_def andthen_def [of "make_directory _ _"] bind_def [of "make_directory _ _"] made
      bind_def [of "read_capability_context _ _"] context_written_and_read [OF w c written] Let_def
      prod.case sum.case
    by (simp add: context_written_and_read [OF w c written] returns_def)
qed

lemma finish_local_run_returns:
  assumes w: "local_faultless w" and results: "finished rd se rs (disk_after (lw_disk w) (tester_log log))"
  shows "\<exists>log'. finish_local_run w streams rd a d rs log = (Inr 0, log')"
proof -
  have "returns (print_results rd rs)"
    unfolding print_results_def by (auto intro!: returns_intros)
  note returns = returns_under [OF this] returns_delete_tree [OF w]
  have "returns (andthen (under streams (print_results rd rs))
      (andthen (andthen (delete_tree w a) (delete_tree w d)) (ret (0 :: int))))"
    by (intro returns_intros returns)
  then obtain r log' where "andthen (under streams (print_results rd rs))
      (andthen (andthen (delete_tree w a) (delete_tree w d)) (ret (0 :: int))) log = (Inr r, log')"
    unfolding returns_def by blast
  moreover from this have "r = 0" by (auto simp: andthen_Inr ret_Inr)
  ultimately show ?thesis
    using results
    by (simp add: finish_local_run_def Let_def file_exists_def bind_def ask_def finished_def
        DELETE_SCRATCH_DIRECTORIES_def delete_allowed_directory_def delete_denied_directory_def)
qed

lemma run_local_sandbox_returns:
  assumes w: "local_faultless w"
    and files: "\<forall>f \<in> set factories. \<forall>c. group_emits (run_file (local_run_directory w)) (f c)"
    and groups: "\<forall>f \<in> set factories. \<forall>c. group_returns (f c)"
  shows "\<exists>log'. run_local_sandbox w factories streams se (local_run_directory w) log = (Inr 0, log')"
proof -
  let ?m = "lw_machine w" and ?rd = "local_run_directory w"
  let ?run = "run_from_files ?m factories (path_div ?rd ''config.json'') ?rd (main_reporter ?m ?rd VERBOSE_LOGGING) se"
  have machine: "faultless ?m" using w by (simp add: local_faultless_def)
  from create_directories_return(1) [OF w] obtain a log1 where
    a: "path_wf a" "create_allowed_directory w log = (Inr a, log1)" by blast
  from create_directories_return(2) [OF w] obtain d log2 where
    d: "path_wf d" "create_disallowed_directory w log1 = (Inr d, log2)" by blast
  from local_context_wf [OF w a(1) d(1)] obtain c where
    c: "local_capability_context w a d ?rd = Inr c" "paths_well_formed c" by blast
  have "returns (under streams (write_capability_context ?m c (path_div ?rd ''config.json'')))"
    unfolding write_capability_context_def by (intro returns_under returns_intros machine)
  then obtain log3 where written:
    "under streams (write_capability_context ?m c (path_div ?rd ''config.json'')) log2 = (Inr (), log3)"
    unfolding returns_def by auto
  let ?log4 = "log3 @ [Tester (Made_Directory (path_parent (path_div ?rd ''status.ndjson'')))]"
  have made: "under streams (make_directory ?m (path_parent (path_div ?rd ''status.ndjson''))) log3 = (Inr (), ?log4)"
    using machine by (simp add: under_def make_directory_def faultless_def)
  from under_Inr [OF only_appends(2) written] have
    "write_capability_context ?m c (path_div ?rd ''config.json'') (tester_log log2) = (Inr (), tester_log log3)"
    by blast
  from tester_returns [OF w c(2) groups this] obtain rs t where run: "?run (tester_log ?log4) = (Inr rs, t)"
    by fastforce
  then obtain log5 where ran: "under streams ?run ?log4 = (Inr rs, log5)"
    unfolding under_def by simp
  have "reporter_contract (main_reporter ?m ?rd VERBOSE_LOGGING) (\<lambda>_. True)"
    by (rule reporter_contract_mono [OF main_reporter_contract]) simp
  moreover have "\<forall>f \<in> set factories. \<forall>c. group_emits (\<lambda>_. True) (f c)"
    using files by (auto intro: group_emits_mono)
  ultimately have "emits (\<lambda>_. True) ?run" by (rule run_from_files_appends)
  from under_Inr [OF this ran] have "?run (tester_log ?log4) = (Inr rs, tester_log log5)" .
  from run_finished [OF files this] have "finished ?rd se rs (disk_after (lw_disk w) (tester_log log5))" .
  from finish_local_run_returns [OF w this] obtain log6 where "finish_local_run w streams ?rd a d rs log5 = (Inr 0, log6)"
    by blast
  with a d c written made ran show ?thesis
    by (simp add: run_local_sandbox_eq bind_def andthen_def lift_res_def)
qed

lemma local_main_returns:
  assumes w: "local_faultless w"
    and files: "\<forall>f \<in> set factories. \<forall>c. group_emits (run_file (local_run_directory w)) (f c)"
    and groups: "\<forall>f \<in> set factories. \<forall>c. group_returns (f c)"
  shows "\<exists>log. local_main w factories se [] = (Inr 0, log)"
proof -
  let ?runs = "path_div (path_div (lw_cwd w) LOCAL_SANDBOX_DIRECTORY) RUNS_DIRECTORY"
  let ?rd = "local_run_directory w"
  from w have "faultless (lw_machine w)" "\<And>log p. lw_mkdir_fault w log p = None"
    "\<not> lw_directories w ?rd" "\<And>log p. lw_open_fault w log p = None" "CHR ''/'' \<notin> set (lw_now w)"
    by (simp_all add: local_faultless_def)
  moreover from this(5) have "?rd \<noteq> ?runs"
    by (auto simp: local_run_directory_def path_div_single dest: arg_cong [where f = "length \<circ> path_parts"])
  moreover obtain log where "run_local_sandbox w factories (output_streams ?rd) se ?rd
      [Tester (Made_Directory ?runs), Tester (Made_Directory ?rd), Opened (path_div ?rd ''stdout.txt''),
       Opened (path_div ?rd ''stderr.txt'')] = (Inr 0, log)"
    using run_local_sandbox_returns [OF w files groups] by blast
  ultimately show ?thesis
    unfolding local_main_def bind_create_run_directory bind_open_for_writing
    by (simp add: andthen_def bind_def catch_def under_def make_directory_def make_new_directory_def open_for_writing_def faultless_def)
qed

section \<open>Example runs\<close>

definition local_machine :: machine where
  "local_machine = \<lparr>
     directory_fault = \<lambda>_ _. None, write_fault = \<lambda>_ _ _. None, append_fault = \<lambda>_ _ _. None,
     move_fault = \<lambda>_ _ _. None,
     json_file = (\<lambda>t p. case disk_after (\<lambda>_. None) t p of
       Some [Document data] \<Rightarrow> Inr data | _ \<Rightarrow> Inl (FileNotFoundError (path_str p))),
     clock = \<lambda>_. ''now'',
     run_answer = \<lambda>_ _. Inr \<lparr>cp_returncode = 0, cp_stdout = ''4'', cp_stderr = ''''\<rparr>,
     cpu_count = Inr (Some 4), error_repr = \<lambda>_. ''error'', expand = Inr, resolve = Inr\<rparr>"

definition local_example :: "string \<Rightarrow> local_world" where
  "local_example system_name = \<lparr>
     lw_machine = local_machine, lw_disk = \<lambda>_. None, lw_directories = \<lambda>_. False, lw_cwd = path_of ''/w'',
     lw_now = ''2026-01-31-12-00-00'', lw_platform = system_name, lw_home = Inr (path_of ''/home/u''),
     lw_tempdir = Inr (path_of ''/tmp''), lw_ssh_auth_sock = None, lw_mkdir_fault = \<lambda>_ _. None,
     lw_mkdtemp = \<lambda>_ prefix. Inr (path_of (''/tmp/'' @ prefix @ ''x'')), lw_text_fault = \<lambda>_ _. None,
     lw_open_fault = \<lambda>_ _. None,
     lw_tree = \<lambda>_ _. Some (Directory None True [(''allowed'', Directory None True [(''.hidden'', File None)])]),
     lw_traceback = \<lambda>_. ''Traceback''\<rparr>"

lemma local_example_faultless: "local_faultless (local_example ''Linux'')"
  by (auto simp: local_faultless_def local_example_def local_machine_def faultless_def local_run_directory_def
      split: option.split)

lemma local_example_groups:
  "\<forall>f \<in> set [get_group_08 local_machine]. \<forall>c. group_returns (f c)"
  "\<forall>f \<in> set [get_group_08 local_machine]. \<forall>c. group_emits (run_status_file rd) (f c)"
  "\<forall>f \<in> set [get_group_08 local_machine]. \<forall>c. group_emits (run_file rd) (f c)"
  "all_enabled [get_group_08 local_machine]"
proof -
  have "gr_id (get_group_08 m c) = ''G08''" for m c by (simp add: get_group_08_def)
  then show "\<forall>f \<in> set [get_group_08 local_machine]. \<forall>c. group_returns (f c)"
    "\<forall>f \<in> set [get_group_08 local_machine]. \<forall>c. group_emits (run_status_file rd) (f c)"
    "\<forall>f \<in> set [get_group_08 local_machine]. \<forall>c. group_emits (run_file rd) (f c)"
    "all_enabled [get_group_08 local_machine]"
    by (simp_all add: group_08_emits run_status_file_def run_file_def all_enabled_def ENABLED_GROUPS_def
        group_08_returns local_machine_def)
qed

theorem local_run_reports_witness:
  "\<exists>log rs. local_main (local_example ''Linux'') [get_group_08 local_machine] False [] = (Inr 0, log) \<and>
     map cg_id rs = [''G08''] \<and>
     finished (local_run_directory (local_example ''Linux'')) False rs (disk_after (\<lambda>_. None) (tester_log log))"
proof -
  obtain log where run: "local_main (local_example ''Linux'') [get_group_08 local_machine] False [] = (Inr 0, log)"
    using local_main_returns [OF local_example_faultless local_example_groups(3,1)] by blast
  from local_run_reports [OF local_example_groups(2,4) run] obtain rs c where
    "list_all2 reports_group [get_group_08 local_machine c] rs"
    "finished (local_run_directory (local_example ''Linux'')) False rs
      (disk_after (lw_disk (local_example ''Linux'')) (tester_log log))" by auto
  moreover from this(1) have "map cg_id rs = [''G08'']"
    by (auto simp: list_all2_Cons1 reports_group_def get_group_08_def)
  moreover have "lw_disk (local_example ''Linux'') = (\<lambda>_. None)" by (simp add: local_example_def)
  ultimately show ?thesis using run by (metis (no_types))
qed



end
