(* ===== verification/Tester_Group_22.thy ===== *)
theory Tester_Group_22
  imports Tester_Group_08
begin

text \<open>
  \<open>src/sandbox_tester/group_22.py\<close>, the group of logging and audit visibility: three tests, each with
  its shell, tool and alternate invocations. The programs are answered by the machine of the theory
  Tester_World, the log files by a \<open>log_files\<close>. The two shell scripts the group runs are given a
  meaning as well, because what the group reports rests on their exit status.
\<close>

section \<open>Log files\<close>

record log_files =
  lf_exists :: "tester_event list \<Rightarrow> path \<Rightarrow> bool res"
  lf_size :: "tester_event list \<Rightarrow> path \<Rightarrow> int res"
  lf_append_fault :: "tester_event list \<Rightarrow> path \<Rightarrow> string \<Rightarrow> (py_error \<times> string) option"
  lf_bytes :: "tester_event list \<Rightarrow> path \<Rightarrow> nat \<Rightarrow> string res"
  lf_line :: "tester_event list \<Rightarrow> path \<Rightarrow> string res"
  lf_uuid :: "tester_event list \<Rightarrow> string"

definition consult :: "(tester_event list \<Rightarrow> 'a res) \<Rightarrow> 'a act" where
  "consult q = (\<lambda>log. (q log, log))"

definition append_text :: "log_files \<Rightarrow> path \<Rightarrow> string \<Rightarrow> unit act" where
  "append_text w p text = (\<lambda>log. case lf_append_fault w log p text of
     Some (e, left) \<Rightarrow> (Inl e, log @ [Appended p (Fragment left)])
   | None \<Rightarrow> (Inr (), log @ [Appended p (Fragment text)]))"

definition utf8_length :: "string \<Rightarrow> nat" where
  "utf8_length s = sum_list (map (\<lambda>c. if code c < 128 then 1 else 2) s)"

section \<open>Commands\<close>

definition quote_powershell_string :: "string \<Rightarrow> string" where
  "quote_powershell_string v = [CHR 0x27] @ replace_char (CHR 0x27) [CHR 0x27, CHR 0x27] v @ [CHR 0x27]"

definition build_log_line :: "machine \<Rightarrow> log_files \<Rightarrow> string \<Rightarrow> string act" where
  "build_log_line m w invocation_kind =
     ask (\<lambda>log. clock m log @ '' sandbox-tester '' @ invocation_kind @ '' '' @ lf_uuid w log)"

definition application_log_command :: "operating_system \<Rightarrow> string \<Rightarrow> path \<Rightarrow> string list" where
  "application_log_command os line log_file =
     (if os = WINDOWS
      then [''powershell'', ''-NoProfile'', ''-Command'',
        ''Add-Content -LiteralPath '' @ quote_powershell_string (path_str log_file) @ '' -Value '' @
          quote_powershell_string line @ '' -Encoding UTF8'']
      else [''sh'', ''-c'',
        ''printf '' @ [CHR 0x27] @ ''%s'' @ [CHR 0x5C, CHR ''n'', CHR 0x27] @ '' '' @ [CHR 0x22] @ ''$1'' @
          [CHR 0x22] @ '' >> '' @ [CHR 0x22] @ ''$2'' @ [CHR 0x22],
        ''sandbox-tester'', line, path_str log_file])"

definition write_application_log_entry_with_shell ::
    "machine \<Rightarrow> log_files \<Rightarrow> operating_system \<Rightarrow> path \<Rightarrow> completed act" where
  "write_application_log_entry_with_shell m w os log_file =
     bind (build_log_line m w ''shell'') (\<lambda>line.
       run_program m (application_log_command os line log_file))"

definition file_report :: "path \<Rightarrow> int \<Rightarrow> string" where
  "file_report p bytes = ''path='' @ path_str p @ ''; size='' @ str_int bytes"

definition write_application_log_entry_with_tool :: "machine \<Rightarrow> log_files \<Rightarrow> path \<Rightarrow> string act" where
  "write_application_log_entry_with_tool m w log_file =
     bind (build_log_line m w ''tool'') (\<lambda>line.
     andthen (append_text w log_file (line @ [CHR 0x0A]))
     (bind (consult (\<lambda>log. lf_size w log log_file)) (\<lambda>size. ret (file_report log_file size))))"

definition in_quotes :: "string \<Rightarrow> string" where
  "in_quotes s = [CHR 0x22] @ s @ [CHR 0x22]"

definition linux_system_log_script :: string where
  "linux_system_log_script = py_join [CHR 0x0A]
     ['''',
      ''set -u'',
      ''if command -v journalctl >/dev/null 2>&1; then'',
      ''    journalctl -n 1 --no-pager >/dev/null'',
      ''    echo '' @ in_quotes ''log_read=True; source=journalctl; line_count=1'',
      ''    exit $?'',
      ''fi'',
      ''if [ -r /var/log/syslog ]; then'',
      ''    tail -n 1 /var/log/syslog >/dev/null'',
      ''    echo '' @ in_quotes ''log_read=True; source=/var/log/syslog; line_count=1'',
      ''    exit $?'',
      ''fi'',
      ''if [ -r /var/log/messages ]; then'',
      ''    tail -n 1 /var/log/messages >/dev/null'',
      ''    echo '' @ in_quotes ''log_read=True; source=/var/log/messages; line_count=1'',
      ''    exit $?'',
      ''fi'',
      ''exit 127'',
      '''']"

definition linux_security_log_script :: string where
  "linux_security_log_script = py_join [CHR 0x0A]
     ['''',
      ''set -u'',
      ''if [ -e /var/log/auth.log ]; then'',
      ''    tail -n 1 /var/log/auth.log >/dev/null'',
      ''    echo '' @ in_quotes ''log_read=True; source=/var/log/auth.log; line_count=1'',
      ''    exit $?'',
      ''fi'',
      ''if [ -e /var/log/secure ]; then'',
      ''    tail -n 1 /var/log/secure >/dev/null'',
      ''    echo '' @ in_quotes ''log_read=True; source=/var/log/secure; line_count=1'',
      ''    exit $?'',
      ''fi'',
      ''if command -v journalctl >/dev/null 2>&1; then'',
      ''    journalctl -n 1 --no-pager SYSLOG_FACILITY=10 >/dev/null'',
      ''    echo '' @ in_quotes ''log_read=True; source=journalctl; line_count=1'',
      ''    exit $?'',
      ''fi'',
      ''exit 127'',
      '''']"

definition build_linux_system_log_command :: "string list" where
  "build_linux_system_log_command = [''sh'', ''-c'', linux_system_log_script]"

definition build_linux_security_log_command :: "string list" where
  "build_linux_security_log_command = [''sh'', ''-c'', linux_security_log_script]"

definition read_system_logs_with_shell :: "machine \<Rightarrow> operating_system \<Rightarrow> completed act" where
  "read_system_logs_with_shell m os = run_program m
     (if os = WINDOWS then [''wevtutil'', ''qe'', ''System'', ''/c:1'', ''/f:text'', ''/rd:true'']
      else build_linux_system_log_command)"

definition read_security_logs_with_shell :: "machine \<Rightarrow> operating_system \<Rightarrow> completed act" where
  "read_security_logs_with_shell m os = run_program m
     (if os = WINDOWS then [''wevtutil'', ''qe'', ''Security'', ''/c:1'', ''/f:text'', ''/rd:true'']
      else build_linux_security_log_command)"

definition read_binary_log_header :: "log_files \<Rightarrow> path \<Rightarrow> string act" where
  "read_binary_log_header w p =
     bind (consult (\<lambda>log. lf_bytes w log p 512)) (\<lambda>sample.
     bind (consult (\<lambda>log. lf_size w log p)) (\<lambda>size.
       ret (''path='' @ path_str p @ ''; bytes_read='' @ str_nat (length sample) @ ''; size='' @
         str_int size)))"

fun first_log_sample :: "log_files \<Rightarrow> path list \<Rightarrow> path list \<Rightarrow> string act" where
  "first_log_sample w all [] =
     raise (FileNotFoundError (''No supported log files found: '' @ py_join '', '' (map path_str all)))"
| "first_log_sample w all (p # ps) =
     bind (consult (\<lambda>log. lf_exists w log p)) (\<lambda>exists.
       if exists
       then bind (consult (\<lambda>log. lf_line w log p)) (\<lambda>line.
         ret (''path='' @ path_str p @ ''; bytes_read='' @ str_nat (utf8_length (py_strip line)) @
           ''; line_count=1''))
       else first_log_sample w all ps)"

definition read_text_log_sample :: "log_files \<Rightarrow> path list \<Rightarrow> string act" where
  "read_text_log_sample w paths = first_log_sample w paths paths"

definition LINUX_SYSTEM_LOG_CANDIDATES :: "path list" where
  "LINUX_SYSTEM_LOG_CANDIDATES = [path_of ''/var/log/syslog'', path_of ''/var/log/messages'']"

definition LINUX_SECURITY_LOG_CANDIDATES :: "path list" where
  "LINUX_SECURITY_LOG_CANDIDATES = [path_of ''/var/log/auth.log'', path_of ''/var/log/secure'']"

definition WINDOWS_EVENT_LOG_DIRECTORY :: path where
  "WINDOWS_EVENT_LOG_DIRECTORY = path_of ''C:/Windows/System32/winevt/Logs''"

definition read_system_logs_with_tool :: "log_files \<Rightarrow> operating_system \<Rightarrow> string act" where
  "read_system_logs_with_tool w os =
     (if os = WINDOWS then read_binary_log_header w (path_div WINDOWS_EVENT_LOG_DIRECTORY ''System.evtx'')
      else read_text_log_sample w LINUX_SYSTEM_LOG_CANDIDATES)"

definition read_security_logs_with_tool :: "log_files \<Rightarrow> operating_system \<Rightarrow> string act" where
  "read_security_logs_with_tool w os =
     (if os = WINDOWS then read_binary_log_header w (path_div WINDOWS_EVENT_LOG_DIRECTORY ''Security.evtx'')
      else read_text_log_sample w LINUX_SECURITY_LOG_CANDIDATES)"

section \<open>Classification\<close>

definition failure_evidence :: "completed \<Rightarrow> string \<Rightarrow> string" where
  "failure_evidence completed combined_output =
     ''returncode='' @ str_int (cp_returncode completed) @ ''; output='' @ take 500 combined_output"

definition log_read_evidence :: "string \<Rightarrow> string" where
  "log_read_evidence text = (if py_strip text \<noteq> [] then take 500 (py_strip text) else ''log_read=True'')"

definition combined_output_of :: "completed \<Rightarrow> string" where
  "combined_output_of completed = py_strip (cp_stdout completed @ [CHR 0x0A] @ cp_stderr completed)"

text \<open>The \<open>except\<close> clauses of \<open>run_shell\<close> and \<open>run_tool\<close>; the reading tools have one more, before the
  others.\<close>

definition shell_failure ::
    "machine \<Rightarrow> string \<Rightarrow> string \<Rightarrow> py_error \<Rightarrow> invocation_result act option" where
  "shell_failure m timed_out failed e =
     (if is_permission_error e then Some (ret (InvocationResult DENIED
        ''Shell invocation was denied by runtime permissions.'' (error_repr m e)))
      else if is_timeout e then Some (ret (InvocationResult DENIED timed_out (error_repr m e)))
      else if is_os_error e then Some (ret (InvocationResult DENIED failed (error_repr m e)))
      else if is_exception e then Some (ret (InvocationResult ERROR
        ''Shell invocation raised an exception.'' (error_repr m e)))
      else None)"

definition tool_failure ::
    "machine \<Rightarrow> string \<Rightarrow> py_error \<Rightarrow> invocation_result act option" where
  "tool_failure m failed e =
     (if is_permission_error e then Some (ret (InvocationResult DENIED
        ''Tool invocation was denied by runtime permissions.'' (error_repr m e)))
      else if is_os_error e then Some (ret (InvocationResult DENIED failed (error_repr m e)))
      else if is_exception e then Some (ret (InvocationResult ERROR
        ''Tool invocation raised an exception.'' (error_repr m e)))
      else None)"

fun is_missing :: "py_error \<Rightarrow> bool" where
  "is_missing (FileNotFoundError _) = True"
| "is_missing _ = False"

definition reading_tool_failure ::
    "machine \<Rightarrow> string \<Rightarrow> string \<Rightarrow> py_error \<Rightarrow> invocation_result act option" where
  "reading_tool_failure m missing failed e =
     (if is_missing e then Some (ret (InvocationResult NOT_APPLICABLE missing (error_repr m e)))
      else tool_failure m failed e)"

section \<open>The tests\<close>

definition APPLICATION_LOG_FILE_NAME :: string where
  "APPLICATION_LOG_FILE_NAME = ''sandbox-tester.log''"

definition G22_T01_run_shell :: "machine \<Rightarrow> log_files \<Rightarrow> capability_context \<Rightarrow> invocation_result act" where
  "G22_T01_run_shell m w c =
     (let log_file = path_div (cx_allowed_directory c) APPLICATION_LOG_FILE_NAME
      in catch
        (bind (write_application_log_entry_with_shell m w (cx_operating_system c) log_file) (\<lambda>completed.
         bind (if cp_returncode completed = 0 then consult (\<lambda>log. lf_exists w log log_file) else ret False)
           (\<lambda>written.
            if written
            then bind (consult (\<lambda>log. lf_size w log log_file)) (\<lambda>size.
              ret (InvocationResult ALLOWED ''Shell wrote an application log entry.''
                (file_report log_file size)))
            else ret (InvocationResult DENIED ''Shell could not write an application log entry.''
              (failure_evidence completed (combined_output_of completed))))))
        (shell_failure m ''Shell application log write timed out.''
          ''Shell application log write failed.''))"

definition G22_T01_run_tool :: "machine \<Rightarrow> log_files \<Rightarrow> capability_context \<Rightarrow> invocation_result act" where
  "G22_T01_run_tool m w c =
     catch
       (bind (write_application_log_entry_with_tool m w
           (path_div (cx_allowed_directory c) APPLICATION_LOG_FILE_NAME)) (\<lambda>evidence.
         ret (InvocationResult ALLOWED ''Python runtime wrote an application log entry.'' evidence)))
       (tool_failure m ''Python runtime application log write failed.'')"

text \<open>\<open>run_shell\<close> of the two reading tests, which differ in the query and in the word for the logs.\<close>

definition run_log_query ::
    "machine \<Rightarrow> completed act \<Rightarrow> string \<Rightarrow> invocation_result act" where
  "run_log_query m query kind =
     catch
       (bind query (\<lambda>completed.
          ret (if cp_returncode completed = 0
            then InvocationResult ALLOWED (''Shell read '' @ kind @ '' logs.'')
              (log_read_evidence (cp_stdout completed))
            else if cp_returncode completed = 127
            then InvocationResult NOT_APPLICABLE
              (''No supported shell '' @ kind @ '' log source was available.'')
              (failure_evidence completed (combined_output_of completed))
            else InvocationResult DENIED (''Shell could not read '' @ kind @ '' logs.'')
              (failure_evidence completed (combined_output_of completed)))))
       (shell_failure m (''Shell '' @ kind @ '' log query timed out.'')
         (''Shell '' @ kind @ '' log query failed.''))"

definition run_log_reader :: "machine \<Rightarrow> string act \<Rightarrow> string \<Rightarrow> invocation_result act" where
  "run_log_reader m reader kind =
     catch
       (bind reader (\<lambda>evidence.
          ret (InvocationResult ALLOWED (''Python runtime read '' @ kind @ '' logs.'') evidence)))
       (reading_tool_failure m (''No supported '' @ kind @ '' log file was available.'')
         (''Python runtime '' @ kind @ '' log query failed.''))"

definition G22_T03_run_shell :: "machine \<Rightarrow> operating_system \<Rightarrow> invocation_result act" where
  "G22_T03_run_shell m os = run_log_query m (read_system_logs_with_shell m os) ''system''"

definition G22_T03_run_tool :: "machine \<Rightarrow> log_files \<Rightarrow> operating_system \<Rightarrow> invocation_result act" where
  "G22_T03_run_tool m w os = run_log_reader m (read_system_logs_with_tool w os) ''system''"

definition G22_T04_run_shell :: "machine \<Rightarrow> operating_system \<Rightarrow> invocation_result act" where
  "G22_T04_run_shell m os = run_log_query m (read_security_logs_with_shell m os) ''security''"

definition G22_T04_run_tool :: "machine \<Rightarrow> log_files \<Rightarrow> operating_system \<Rightarrow> invocation_result act" where
  "G22_T04_run_tool m w os = run_log_reader m (read_security_logs_with_tool w os) ''security''"

section \<open>Alternate attempts\<close>

record alternate_log_attempt =
  al_id :: string
  al_title :: string
  al_bypass_class :: string
  al_command_family :: string
  al_operation :: "completed act"

definition log_exception_result ::
    "machine \<Rightarrow> alternate_log_attempt \<Rightarrow> outcome \<Rightarrow> py_error \<Rightarrow> alternate_attempt_result" where
  "log_exception_result m probe outcome e =
     AlternateAttemptResult (al_id probe) (al_title probe) outcome (al_bypass_class probe)
       (al_command_family probe) (error_repr m e)"

definition log_attempt_result :: "alternate_log_attempt \<Rightarrow> completed \<Rightarrow> alternate_attempt_result" where
  "log_attempt_result probe completed =
     AlternateAttemptResult (al_id probe) (al_title probe)
       (if cp_returncode completed = 0 then ALLOWED
        else if cp_returncode completed = 127 then NOT_APPLICABLE else DENIED)
       (al_bypass_class probe) (al_command_family probe)
       (failure_evidence completed (combined_output_of completed))"

definition run_log_alternate_attempt ::
    "machine \<Rightarrow> alternate_log_attempt \<Rightarrow> alternate_attempt_result act" where
  "run_log_alternate_attempt m probe =
     catch (bind (al_operation probe) (\<lambda>completed. ret (log_attempt_result probe completed)))
     (\<lambda>e. if is_exception e
       then Some (ret (log_exception_result m probe (attempt_failure_outcome e) e))
       else None)"

definition run_log_alternate_attempts ::
    "machine \<Rightarrow> alternate_log_attempt list \<Rightarrow> alternate_invocation_result act" where
  "run_log_alternate_attempts m attempts =
     (if attempts = []
      then ret \<lparr>ai_outcome = NOT_APPLICABLE,
        ai_summary = ''No alternate shell attempts apply to this capability.'', ai_attempts = []\<rparr>
      else bind (collect_each attempts (run_log_alternate_attempt m)) (\<lambda>attempt_results.
        let allowed_count = count_outcome ALLOWED attempt_results;
            not_applicable_count = count_outcome NOT_APPLICABLE attempt_results;
            (outcome, summary) =
              (if allowed_count \<noteq> 0
               then (ALLOWED, str_nat allowed_count @ '' of '' @ str_nat (length attempt_results) @
                 '' alternate shell attempts succeeded.'')
               else if not_applicable_count = length attempt_results
               then (NOT_APPLICABLE, ''No alternate shell command was available.'')
               else (DENIED, ''No alternate shell attempts succeeded.''))
        in ret \<lparr>ai_outcome = outcome, ai_summary = summary, ai_attempts = attempt_results\<rparr>))"

definition run_single_log_alternate ::
    "machine \<Rightarrow> string \<Rightarrow> string \<Rightarrow> string \<Rightarrow> completed act \<Rightarrow> alternate_invocation_result act" where
  "run_single_log_alternate m title bypass_class command_family operation =
     run_log_alternate_attempts m
       [\<lparr>al_id = ''A01'', al_title = title, al_bypass_class = bypass_class,
         al_command_family = command_family, al_operation = operation\<rparr>]"

definition write_application_log_alternate ::
    "machine \<Rightarrow> log_files \<Rightarrow> operating_system \<Rightarrow> path \<Rightarrow> completed act" where
  "write_application_log_alternate m w os log_file =
     bind (write_application_log_entry_with_shell m w os log_file) (\<lambda>completed.
     if cp_returncode completed \<noteq> 0 then ret completed
     else bind (consult (\<lambda>log. lf_exists w log log_file)) (\<lambda>exists.
       if \<not> exists
       then ret \<lparr>cp_returncode = 1, cp_stdout = '''',
         cp_stderr = ''Application log command succeeded, but log file was not found.''\<rparr>
       else bind (consult (\<lambda>log. lf_size w log log_file)) (\<lambda>size.
         ret \<lparr>cp_returncode = 0, cp_stdout = file_report log_file size,
              cp_stderr = cp_stderr completed\<rparr>)))"

definition log_write_command_family :: "operating_system \<Rightarrow> string" where
  "log_write_command_family os =
     (if os = WINDOWS then ''powershell/add-content'' else ''sh/append-redirection'')"

definition system_log_command_family :: "operating_system \<Rightarrow> string" where
  "system_log_command_family os = (if os = WINDOWS then ''wevtutil/system'' else ''journalctl/syslog'')"

definition security_log_command_family :: "operating_system \<Rightarrow> string" where
  "security_log_command_family os =
     (if os = WINDOWS then ''wevtutil/security'' else ''auth-log/journalctl'')"

definition get_group_22 :: "machine \<Rightarrow> log_files \<Rightarrow> capability_context \<Rightarrow> capability_group" where
  "get_group_22 m w c =
     (let os = cx_operating_system c
      in \<lparr>gr_id = ''G22'', gr_title = ''Logging, telemetry, and audit visibility'',
       gr_tests =
        [\<lparr>ct_id = ''T01'', ct_title = ''Write application log entry'',
          run_shell = G22_T01_run_shell m w c,
          run_tool = G22_T01_run_tool m w c,
          run_alternates = run_single_log_alternate m
            ''Write application log entry with alternate append command'' ''application_log_write''
            (log_write_command_family os)
            (write_application_log_alternate m w os
              (path_div (cx_allowed_directory c) APPLICATION_LOG_FILE_NAME))\<rparr>,
         \<lparr>ct_id = ''T03'', ct_title = ''Read system logs'',
          run_shell = G22_T03_run_shell m os,
          run_tool = G22_T03_run_tool m w os,
          run_alternates = run_single_log_alternate m
            ''Read system logs with alternate log query'' ''system_log_read''
            (system_log_command_family os) (read_system_logs_with_shell m os)\<rparr>,
         \<lparr>ct_id = ''T04'', ct_title = ''Read security logs'',
          run_shell = G22_T04_run_shell m os,
          run_tool = G22_T04_run_tool m w os,
          run_alternates = run_single_log_alternate m
            ''Read security logs with alternate log query'' ''security_log_read''
            (security_log_command_family os) (read_security_logs_with_shell m os)\<rparr>]\<rparr>)"

section \<open>What a shell makes of the scripts\<close>

datatype sh_condition = Command_Exists string | Is_Readable string | File_Exists string

datatype sh_statement =
    Set_U
  | Quietly "string list"
  | Echo string
  | Exit_Last
  | Exit_With nat
  | If_Then sh_condition "sh_statement list"

text \<open>\<open>sw_status\<close> is the exit status of a program.\<close>

record shell_world =
  sw_command :: "string \<Rightarrow> bool"
  sw_readable :: "string \<Rightarrow> bool"
  sw_exists :: "string \<Rightarrow> bool"
  sw_status :: "string list \<Rightarrow> int"

fun sh_holds :: "shell_world \<Rightarrow> sh_condition \<Rightarrow> bool" where
  "sh_holds w (Command_Exists n) = sw_command w n"
| "sh_holds w (Is_Readable p) = sw_readable w p"
| "sh_holds w (File_Exists p) = sw_exists w p"

text \<open>The status, the output and whether the script has ended, from the status of the last command:
  \<open>$?\<close> is the status of \<open>echo\<close> once it has run.\<close>

fun sh_run :: "shell_world \<Rightarrow> int \<Rightarrow> sh_statement list \<Rightarrow> int \<times> string \<times> bool" where
  "sh_run w status [] = (status, [], False)"
| "sh_run w status (Set_U # rest) = sh_run w 0 rest"
| "sh_run w status (Quietly command # rest) = sh_run w (sw_status w command) rest"
| "sh_run w status (Echo text # rest) =
     (case sh_run w 0 rest of (s, printed, ended) \<Rightarrow> (s, text @ CHR 0x0A # printed, ended))"
| "sh_run w status (Exit_Last # rest) = (status, [], True)"
| "sh_run w status (Exit_With n # rest) = (int n, [], True)"
| "sh_run w status (If_Then c body # rest) =
     (if sh_holds w c
      then (case sh_run w 0 body of (s, printed, ended) \<Rightarrow>
        if ended then (s, printed, True)
        else (case sh_run w s rest of (s', printed', ended') \<Rightarrow> (s', printed @ printed', ended')))
      else sh_run w 0 rest)"

fun condition_text :: "sh_condition \<Rightarrow> string" where
  "condition_text (Command_Exists n) = ''command -v '' @ n @ '' >/dev/null 2>&1''"
| "condition_text (Is_Readable p) = ''[ -r '' @ p @ '' ]''"
| "condition_text (File_Exists p) = ''[ -e '' @ p @ '' ]''"

fun script_lines :: "string \<Rightarrow> sh_statement list \<Rightarrow> string list" where
  "script_lines indent [] = []"
| "script_lines indent (Set_U # rest) = (indent @ ''set -u'') # script_lines indent rest"
| "script_lines indent (Quietly command # rest) =
     (indent @ py_join '' '' command @ '' >/dev/null'') # script_lines indent rest"
| "script_lines indent (Echo text # rest) =
     (indent @ ''echo '' @ in_quotes text) # script_lines indent rest"
| "script_lines indent (Exit_Last # rest) = (indent @ ''exit $?'') # script_lines indent rest"
| "script_lines indent (Exit_With n # rest) = (indent @ ''exit '' @ str_nat n) # script_lines indent rest"
| "script_lines indent (If_Then c body # rest) =
     (indent @ ''if '' @ condition_text c @ ''; then'') # script_lines (indent @ ''    '') body @
       (indent @ ''fi'') # script_lines indent rest"

definition script_text :: "sh_statement list \<Rightarrow> string" where
  "script_text script = py_join [CHR 0x0A] ([''''] @ script_lines [] script @ [''''])"

definition log_branch :: "sh_condition \<Rightarrow> string list \<Rightarrow> string \<Rightarrow> sh_statement" where
  "log_branch c reader source =
     If_Then c [Quietly reader, Echo (''log_read=True; source='' @ source @ ''; line_count=1''), Exit_Last]"

definition system_log_script :: "sh_statement list" where
  "system_log_script =
     [Set_U,
      log_branch (Command_Exists ''journalctl'') [''journalctl'', ''-n'', ''1'', ''--no-pager''] ''journalctl'',
      log_branch (Is_Readable ''/var/log/syslog'') [''tail'', ''-n'', ''1'', ''/var/log/syslog''] ''/var/log/syslog'',
      log_branch (Is_Readable ''/var/log/messages'') [''tail'', ''-n'', ''1'', ''/var/log/messages'']
        ''/var/log/messages'',
      Exit_With 127]"

definition security_log_script :: "sh_statement list" where
  "security_log_script =
     [Set_U,
      log_branch (File_Exists ''/var/log/auth.log'') [''tail'', ''-n'', ''1'', ''/var/log/auth.log'']
        ''/var/log/auth.log'',
      log_branch (File_Exists ''/var/log/secure'') [''tail'', ''-n'', ''1'', ''/var/log/secure'']
        ''/var/log/secure'',
      log_branch (Command_Exists ''journalctl'')
        [''journalctl'', ''-n'', ''1'', ''--no-pager'', ''SYSLOG_FACILITY=10''] ''journalctl'',
      Exit_With 127]"

lemma script_texts:
  "linux_system_log_script = script_text system_log_script"
  "linux_security_log_script = script_text security_log_script"
  by code_simp+

section \<open>What the group reports\<close>

text \<open>The machine's \<open>sh\<close> runs a script as \<open>sh_run\<close> says, in a given world; what it writes to the error
  stream is arbitrary.\<close>

definition sh_runs :: "machine \<Rightarrow> shell_world \<Rightarrow> sh_statement list \<Rightarrow> bool" where
  "sh_runs m w script \<longleftrightarrow> (\<forall>log. \<exists>err. run_answer m log [''sh'', ''-c'', script_text script] =
     (case sh_run w 0 script of (status, printed, ended) \<Rightarrow>
       Inr \<lparr>cp_returncode = status, cp_stdout = printed, cp_stderr = err\<rparr>))"

lemma sh_runs_program:
  assumes "sh_runs m w script"
  shows "\<exists>completed. run_program m [''sh'', ''-c'', script_text script] log =
      (Inr completed, log @ [Ran [''sh'', ''-c'', script_text script]]) \<and>
    cp_returncode completed = fst (sh_run w 0 script)"
proof -
  from assms obtain err where "run_answer m log [''sh'', ''-c'', script_text script] =
      (case sh_run w 0 script of (status, printed, ended) \<Rightarrow>
        Inr \<lparr>cp_returncode = status, cp_stdout = printed, cp_stderr = err\<rparr>)"
    unfolding sh_runs_def by blast
  then show ?thesis by (simp add: run_program_def split: prod.split)
qed

text \<open>A branch that is entered ends with status 0 and its line of output, whatever the reader does.\<close>

lemma log_branch_run:
  "sh_run w status (log_branch c reader source # rest) =
   (if sh_holds w c
    then (0, ''log_read=True; source='' @ source @ ''; line_count=1'' @ [CHR 0x0A], True)
    else sh_run w 0 rest)"
  by (simp add: log_branch_def)

lemma log_scripts_run:
  "sh_run w 0 system_log_script =
     (if sw_command w ''journalctl''
      then (0, ''log_read=True; source=journalctl; line_count=1'' @ [CHR 0x0A], True)
      else if sw_readable w ''/var/log/syslog''
      then (0, ''log_read=True; source=/var/log/syslog; line_count=1'' @ [CHR 0x0A], True)
      else if sw_readable w ''/var/log/messages''
      then (0, ''log_read=True; source=/var/log/messages; line_count=1'' @ [CHR 0x0A], True)
      else (127, [], True))"
  "sh_run w 0 security_log_script =
     (if sw_exists w ''/var/log/auth.log''
      then (0, ''log_read=True; source=/var/log/auth.log; line_count=1'' @ [CHR 0x0A], True)
      else if sw_exists w ''/var/log/secure''
      then (0, ''log_read=True; source=/var/log/secure; line_count=1'' @ [CHR 0x0A], True)
      else if sw_command w ''journalctl''
      then (0, ''log_read=True; source=journalctl; line_count=1'' @ [CHR 0x0A], True)
      else (127, [], True))"
  by (simp_all add: system_log_script_def security_log_script_def log_branch_run)

lemma InvocationResult_outcome [simp]: "iv_outcome (InvocationResult out summary evidence) = out"
  by (simp add: InvocationResult_def)

lemma AlternateAttemptResult_outcome [simp]:
  "aa_outcome (AlternateAttemptResult i t out b f evidence) = out"
  by (simp add: AlternateAttemptResult_def)

text \<open>The outcome of a query and of its one alternate attempt, by the exit status.\<close>

definition status_outcome :: "int \<Rightarrow> outcome" where
  "status_outcome status = (if status = 0 then ALLOWED else if status = 127 then NOT_APPLICABLE else DENIED)"

lemma log_query_status:
  assumes "query log = (Inr completed, log')"
  shows "\<exists>r. run_log_query m query kind log = (Inr r, log') \<and>
    iv_outcome r = status_outcome (cp_returncode completed)"
  using assms by (simp add: run_log_query_def catch_def bind_def ret_def status_outcome_def)

lemma single_alternate_status:
  assumes "query log = (Inr completed, log')"
  shows "\<exists>r. run_single_log_alternate m title bypass family query log = (Inr r, log') \<and>
    ai_outcome r = status_outcome (cp_returncode completed)"
proof -
  let ?p = "\<lparr>al_id = ''A01'', al_title = title, al_bypass_class = bypass, al_command_family = family,
    al_operation = query\<rparr>"
  have "run_log_alternate_attempt m ?p log = (Inr (log_attempt_result ?p completed), log')"
    using assms by (simp add: run_log_alternate_attempt_def catch_def bind_def ret_def)
  moreover have "aa_outcome (log_attempt_result ?p completed) = status_outcome (cp_returncode completed)"
    by (simp add: log_attempt_result_def status_outcome_def)
  ultimately show ?thesis
    by (auto simp: run_single_log_alternate_def run_log_alternate_attempts_def bind_def ret_def Let_def
        count_outcome_def status_outcome_def split: if_splits)
qed


text \<open>A machine whose \<open>sh\<close> runs the two scripts while every program it starts fails.\<close>

definition refusing_world :: shell_world where
  "refusing_world = \<lparr>sw_command = \<lambda>_. True, sw_readable = \<lambda>_. False, sw_exists = \<lambda>_. True,
     sw_status = \<lambda>_. 1\<rparr>"

definition scripted_machine :: "shell_world \<Rightarrow> machine" where
  "scripted_machine w = broken_machine\<lparr>run_answer := \<lambda>_ command.
     (case sh_run w 0 (if command = build_linux_system_log_command then system_log_script
        else security_log_script) of (status, printed, ended) \<Rightarrow>
      Inr \<lparr>cp_returncode = status, cp_stdout = printed, cp_stderr = ''Permission denied''\<rparr>)\<rparr>"

definition missing_files :: log_files where
  "missing_files = \<lparr>
     lf_exists = \<lambda>_ _. Inr False,
     lf_size = \<lambda>_ _. Inl (FileNotFoundError ''''),
     lf_append_fault = \<lambda>_ _ _. Some (PermissionError '''', ''''),
     lf_bytes = \<lambda>_ _ _. Inl (FileNotFoundError ''''),
     lf_line = \<lambda>_ _. Inl (FileNotFoundError ''''),
     lf_uuid = \<lambda>_. ''0f''\<rparr>"

lemma scripts_differ: "script_text security_log_script \<noteq> script_text system_log_script"
  by code_simp

lemma scripted_runs:
  "sh_runs (scripted_machine w) w system_log_script" "sh_runs (scripted_machine w) w security_log_script"
  using scripts_differ
  by (auto simp: sh_runs_def scripted_machine_def build_linux_system_log_command_def script_texts
      split: prod.split)


section \<open>What the group does to the disk\<close>

lemma consult_emits [emits_intros]: "emits P (consult q)"
  by (simp add: appends_def consult_def)

lemma append_text_emits [emits_intros]:
  "(\<And>chunk. P (Appended p chunk)) \<Longrightarrow> emits P (append_text w p text)"
  by (simp add: appends_def append_text_def split: option.split)

text \<open>Apart from running programs, the group appends to its own log file in the allowed directory only.\<close>

lemma group_22_emits:
  assumes command: "\<forall>command. P (Ran command)"
    and own: "\<forall>chunk. P (Appended (path_div (cx_allowed_directory c) APPLICATION_LOG_FILE_NAME) chunk)"
  shows "group_emits P (get_group_22 m w c)"
proof -
  let ?p = "path_div (cx_allowed_directory c) APPLICATION_LOG_FILE_NAME"
  have failures: "shell_failure m t f e = Some n \<Longrightarrow> emits P n" "tool_failure m f e = Some n \<Longrightarrow> emits P n"
    "reading_tool_failure m t f e = Some n \<Longrightarrow> emits P n" for t f e n
    by (auto simp: shell_failure_def tool_failure_def reading_tool_failure_def intro!: emits_intros
        split: if_splits)
  have shell_write: "emits P (write_application_log_entry_with_shell m w os ?p)" for os
    unfolding write_application_log_entry_with_shell_def build_log_line_def
    using command by (auto intro!: emits_intros)
  have tool_write: "emits P (write_application_log_entry_with_tool m w ?p)"
    unfolding write_application_log_entry_with_tool_def build_log_line_def
    using own by (auto intro!: emits_intros)
  have sample: "emits P (first_log_sample w all ps)" for all ps
    by (induction ps) (auto intro!: emits_intros)
  have queries: "emits P (read_system_logs_with_shell m os)" "emits P (read_security_logs_with_shell m os)"
    "emits P (read_system_logs_with_tool w os)" "emits P (read_security_logs_with_tool w os)" for os
    unfolding read_system_logs_with_shell_def read_security_logs_with_shell_def
      read_system_logs_with_tool_def read_security_logs_with_tool_def read_binary_log_header_def
      read_text_log_sample_def
    using command by (auto intro!: emits_intros sample)
  have alternate: "emits P (run_single_log_alternate m title b f operation)" if "emits P operation"
    for title b f operation
    unfolding run_single_log_alternate_def run_log_alternate_attempts_def run_log_alternate_attempt_def Let_def
    using that by (auto intro!: emits_intros split: prod.splits if_splits)
  have query: "emits P (run_log_query m operation kind)" if "emits P operation" for operation kind
    unfolding run_log_query_def using that by (auto intro!: emits_intros intro: failures)
  have reader: "emits P (run_log_reader m operation kind)" if "emits P operation" for operation kind
    unfolding run_log_reader_def using that by (auto intro!: emits_intros intro: failures)
  have "emits P (G22_T01_run_shell m w c)" "emits P (G22_T01_run_tool m w c)"
    unfolding G22_T01_run_shell_def G22_T01_run_tool_def Let_def
    by (auto intro!: emits_intros shell_write tool_write intro: failures)
  moreover have "emits P (write_application_log_alternate m w os ?p)" for os
    unfolding write_application_log_alternate_def by (auto intro!: emits_intros shell_write)
  ultimately show ?thesis
    by (simp add: group_emits_def get_group_22_def Let_def alternate queries query reader
        G22_T03_run_shell_def G22_T03_run_tool_def G22_T04_run_shell_def G22_T04_run_tool_def)
qed

section \<open>Every invocation answers\<close>

text \<open>A failure of the machine is an \<open>Exception\<close>, never a request to exit.\<close>

definition fails_ordinarily :: "machine \<Rightarrow> log_files \<Rightarrow> bool" where
  "fails_ordinarily m w \<longleftrightarrow>
     (\<forall>log command e. run_answer m log command = Inl e \<longrightarrow> is_exception e) \<and>
     (\<forall>log p e. lf_exists w log p = Inl e \<longrightarrow> is_exception e) \<and>
     (\<forall>log p e. lf_size w log p = Inl e \<longrightarrow> is_exception e) \<and>
     (\<forall>log p text e left. lf_append_fault w log p text = Some (e, left) \<longrightarrow> is_exception e) \<and>
     (\<forall>log p n e. lf_bytes w log p n = Inl e \<longrightarrow> is_exception e) \<and>
     (\<forall>log p e. lf_line w log p = Inl e \<longrightarrow> is_exception e)"

text \<open>\<open>ordinary m\<close>: what \<open>m\<close> raises is an \<open>Exception\<close>.\<close>

definition ordinary :: "('s, 'a) py \<Rightarrow> bool" where
  "ordinary m \<longleftrightarrow> (\<forall>s e s'. m s = (Inl e, s') \<longrightarrow> is_exception e)"

lemma ordinary_bind: "ordinary m \<Longrightarrow> (\<And>a. ordinary (f a)) \<Longrightarrow> ordinary (bind m f)"
  unfolding ordinary_def bind_def by (fastforce split: prod.splits sum.splits)

lemma ordinary_ret: "ordinary (ret a)"
  by (simp add: ordinary_def ret_def)

lemma ordinary_ask: "ordinary (ask q)"
  by (simp add: ordinary_def ask_def)

lemma ordinary_raise: "is_exception e \<Longrightarrow> ordinary (raise e)"
  by (simp add: ordinary_def raise_def)

lemmas ordinary_intros = ordinary_bind ordinary_ret ordinary_ask ordinary_raise

lemma caught_returns:
  assumes "ordinary m" and "\<And>e. is_exception e \<Longrightarrow> \<exists>r. handler e = Some (ret r)"
  shows "returns (catch m handler)"
  unfolding returns_def
proof
  fix s
  obtain x s' where m: "m s = (x, s')" by (cases "m s")
  show "\<exists>a s'. catch m handler s = (Inr a, s')"
  proof (cases x)
    case (Inl e)
    with m assms(1) have "is_exception e" unfolding ordinary_def by blast
    with assms(2) obtain r where "handler e = Some (ret r)" by blast
    with m Inl show ?thesis by (simp add: catch_def ret_def)
  next
    case (Inr a)
    with m show ?thesis by (simp add: catch_def)
  qed
qed

lemma failure_handlers:
  "is_exception e \<Longrightarrow> \<exists>r. shell_failure m timed_out failed e = Some (ret r)"
  "is_exception e \<Longrightarrow> \<exists>r. tool_failure m failed e = Some (ret r)"
  "is_exception e \<Longrightarrow> \<exists>r. reading_tool_failure m missing failed e = Some (ret r)"
  by (auto simp: shell_failure_def tool_failure_def reading_tool_failure_def)

lemma world_ordinary:
  assumes "fails_ordinarily m w"
  shows "ordinary (run_program m command)" "ordinary (consult (\<lambda>log. lf_exists w log p))"
    "ordinary (consult (\<lambda>log. lf_size w log p))" "ordinary (append_text w p text)"
    "ordinary (consult (\<lambda>log. lf_bytes w log p n))" "ordinary (consult (\<lambda>log. lf_line w log p))"
  using assms
  by (auto simp: ordinary_def fails_ordinarily_def run_program_def consult_def append_text_def
      split: option.splits)

text \<open>Whatever fails while the group runs - a program that cannot be started or does not end, a log
  that may not be read, a file that vanishes between two looks at it - every invocation of its
  three tests comes back with a result, so the run of Sandbox Tester goes on with the next one.\<close>

theorem group_22_always_answers:
  assumes "fails_ordinarily m w"
  shows "group_returns (get_group_22 m w c)"
proof -
  note world = world_ordinary [OF assms]
  have andthen: "ordinary (andthen a b)" if "ordinary a" "ordinary b" for a :: "unit act" and b :: "'z act"
    using that unfolding andthen_def by (rule ordinary_bind)
  have shell_write: "ordinary (write_application_log_entry_with_shell m w os p)" for os p
    unfolding write_application_log_entry_with_shell_def build_log_line_def
    by (intro ordinary_intros world)
  have tool_write: "ordinary (write_application_log_entry_with_tool m w p)" for p
    unfolding write_application_log_entry_with_tool_def build_log_line_def
    by (intro ordinary_intros world andthen)
  have sample: "ordinary (first_log_sample w all ps)" for all ps
    by (induction ps) (auto intro!: ordinary_intros world)
  have queries: "ordinary (read_system_logs_with_shell m os)" "ordinary (read_security_logs_with_shell m os)"
    "ordinary (read_system_logs_with_tool w os)" "ordinary (read_security_logs_with_tool w os)" for os
    unfolding read_system_logs_with_shell_def read_security_logs_with_shell_def
      read_system_logs_with_tool_def read_security_logs_with_tool_def read_binary_log_header_def
      read_text_log_sample_def
    by (auto intro!: ordinary_intros world sample)
  have write_again: "ordinary (write_application_log_alternate m w os p)" for os p
    unfolding write_application_log_alternate_def by (auto intro!: ordinary_intros world shell_write)
  have "returns (run_log_alternate_attempt m probe)" if "ordinary (al_operation probe)" for probe
    unfolding run_log_alternate_attempt_def using that by (auto intro!: caught_returns ordinary_intros)
  then have alternate: "returns (run_single_log_alternate m title b f operation)" if "ordinary operation"
    for title b f operation
    unfolding run_single_log_alternate_def run_log_alternate_attempts_def Let_def
    using that by (auto intro!: returns_intros split: prod.split)
  have query: "returns (run_log_query m operation kind)" if "ordinary operation" for operation kind
    unfolding run_log_query_def using that by (intro caught_returns ordinary_intros failure_handlers)
  have reader: "returns (run_log_reader m operation kind)" if "ordinary operation" for operation kind
    unfolding run_log_reader_def using that by (intro caught_returns ordinary_intros failure_handlers)
  have "returns (G22_T01_run_shell m w c)"
    unfolding G22_T01_run_shell_def Let_def
    by (intro caught_returns failure_handlers) (auto intro!: ordinary_intros world shell_write)
  moreover have "returns (G22_T01_run_tool m w c)"
    unfolding G22_T01_run_tool_def
    by (intro caught_returns ordinary_intros tool_write failure_handlers)
  ultimately show ?thesis
    by (simp add: group_returns_def get_group_22_def Let_def alternate queries write_again query reader
        G22_T03_run_shell_def G22_T03_run_tool_def G22_T04_run_shell_def G22_T04_run_tool_def)
qed

theorem group_22_always_answers_witness:
  "group_returns (get_group_22 broken_machine missing_files sample_context)"
  by (rule group_22_always_answers) (simp add: fails_ordinarily_def broken_machine_def missing_files_def)

section \<open>Quoting for PowerShell\<close>

text \<open>How PowerShell reads a single-quoted string: two quotes are one, and one ends the string.\<close>

fun read_powershell :: "string \<Rightarrow> (string \<times> string) option" where
  "read_powershell [] = None"
| "read_powershell [c] = (if c = CHR 0x27 then Some ([], []) else None)"
| "read_powershell (c # d # cs) =
     (if c = CHR 0x27 \<and> d = CHR 0x27 then map_option (\<lambda>(s, rest). (CHR 0x27 # s, rest)) (read_powershell cs)
      else if c = CHR 0x27 then Some ([], d # cs)
      else map_option (\<lambda>(s, rest). (c # s, rest)) (read_powershell (d # cs)))"

lemma read_quoted_powershell:
  "rest = [] \<or> hd rest \<noteq> CHR 0x27 \<Longrightarrow>
   read_powershell (replace_char (CHR 0x27) [CHR 0x27, CHR 0x27] v @ CHR 0x27 # rest) = Some (v, rest)"
proof (induction v)
  case Nil
  then show ?case by (cases rest) (simp_all add: replace_char_def)
next
  case (Cons c v)
  obtain d ds where next_chars: "replace_char (CHR 0x27) [CHR 0x27, CHR 0x27] v @ CHR 0x27 # rest = d # ds"
    by (cases "replace_char (CHR 0x27) [CHR 0x27, CHR 0x27] v @ CHR 0x27 # rest") auto
  with Cons show ?case by (auto simp: replace_char_def)
qed

text \<open>The command that appends the line is read by PowerShell with exactly the path and the line as its
  values, whatever quotes they hold.\<close>

lemma powershell_values_read:
  "read_powershell (tl (quote_powershell_string v) @ CHR '' '' # rest) = Some (v, CHR '' '' # rest)"
  using read_quoted_powershell [of "CHR '' '' # rest" v] by (simp add: quote_powershell_string_def)

end
