(* ===== verification/Shell_Script.thy ===== *)
theory Shell_Script
  imports Prelude
begin

text \<open>
  The part of the POSIX shell language in which the probes of Sandbox Tester write their scripts:
  simple commands with quoted words, \<open>echo\<close>, \<open>printf\<close>, assignments, \<open>$(...)\<close>, \<open>$?\<close>, tests, \<open>&&\<close>, \<open>||\<close>,
  pipelines, \<open>if\<close>, \<open>eval\<close> and \<open>exit\<close>. \<open>script_of\<close> prints a script, so that the text in the source can be
  compared with it; \<open>sh_script\<close> runs one. Both are the shell's behaviour and have no entry in the map.
\<close>

section \<open>Scripts\<close>

datatype script_piece = Lit string | Var string | Len string

text \<open>\<open>Prefixed\<close> is a word of which only the end is quoted, as in \<open>--title='...'\<close>.\<close>

datatype sh_word =
    Bare "script_piece list"
  | Single string
  | Double "script_piece list"
  | Prefixed string string

datatype sh_redirect = Silenced | Input_From sh_word

datatype sh_test =
    Nonempty sh_word
  | Code_Is string int
  | Has_Content sh_word
  | Is_Set string

datatype script_command =
    Program "sh_word list" "sh_redirect option"
  | Available string
  | Echo_Word sh_word
  | Printf_Line string sh_word
  | Assign_Output string "script_command list"
  | Keep_Status string
  | Test sh_test
  | And_Then script_command script_command
  | Or_Else script_command script_command
  | Pipe script_command script_command
  | If_Do script_command "script_command list"
  | Eval script_command
  | Declare string
  | Exit_Code string
  | Exit_With nat

text \<open>\<open>Declare\<close> is a function definition or a \<open>trap\<close>: what runs at the end does not change the exit status.\<close>

section \<open>Their text\<close>

fun piece_text :: "script_piece \<Rightarrow> string" where
  "piece_text (Lit s) = s"
| "piece_text (Var x) = CHR ''$'' # x"
| "piece_text (Len x) = ''${#'' @ x @ ''}''"

fun word_text :: "sh_word \<Rightarrow> string" where
  "word_text (Bare ps) = concat (map piece_text ps)"
| "word_text (Single s) = [CHR 0x27] @ s @ [CHR 0x27]"
| "word_text (Double ps) = [CHR 0x22] @ concat (map piece_text ps) @ [CHR 0x22]"
| "word_text (Prefixed p s) = p @ [CHR 0x27] @ s @ [CHR 0x27]"

fun redirect_text :: "sh_redirect option \<Rightarrow> string" where
  "redirect_text None = []"
| "redirect_text (Some Silenced) = '' >/dev/null 2>&1''"
| "redirect_text (Some (Input_From w)) = '' < '' @ word_text w"

fun test_text :: "sh_test \<Rightarrow> string" where
  "test_text (Nonempty w) = ''[ -n '' @ word_text w @ '' ]''"
| "test_text (Code_Is x n) = ''[ '' @ [CHR 0x22, CHR ''$''] @ x @ [CHR 0x22] @ '' -eq '' @ str_int n @ '' ]''"
| "test_text (Has_Content w) = ''[ -s '' @ word_text w @ '' ]''"
| "test_text (Is_Set x) = ''[ '' @ [CHR 0x22] @ ''${'' @ x @ ''+set}'' @ [CHR 0x22] @ '' = set ]''"

text \<open>Commands are separated by \<open>;\<close>, those of a \<open>$(...)\<close> by line ends.\<close>

fun script_command_text :: "script_command \<Rightarrow> string" where
  "script_command_text (Program ws r) = py_join '' '' (map word_text ws) @ redirect_text r"
| "script_command_text (Available n) = ''command -v '' @ n @ '' >/dev/null 2>&1''"
| "script_command_text (Echo_Word w) = ''echo '' @ word_text w"
| "script_command_text (Printf_Line prefix w) =
     ''printf '' @ [CHR 0x27] @ prefix @ ''%s'' @ [CHR 0x5C, CHR ''n'', CHR 0x27] @ '' '' @ word_text w"
| "script_command_text (Assign_Output x body) = x @ ''=$('' @ py_join [CHR 0x0A] (map script_command_text body) @ '')''"
| "script_command_text (Keep_Status x) = x @ ''=$?''"
| "script_command_text (Test t) = test_text t"
| "script_command_text (And_Then a b) = script_command_text a @ '' && '' @ script_command_text b"
| "script_command_text (Or_Else a b) = script_command_text a @ '' || '' @ script_command_text b"
| "script_command_text (Pipe a b) = script_command_text a @ '' | '' @ script_command_text b"
| "script_command_text (If_Do c body) =
     ''if '' @ script_command_text c @ ''; then '' @ py_join ''; '' (map script_command_text body) @ ''; fi''"
| "script_command_text (Eval c) = ''eval '' @ [CHR 0x27] @ script_command_text c @ [CHR 0x27]"
| "script_command_text (Declare s) = s"
| "script_command_text (Exit_Code x) = ''exit '' @ [CHR 0x22, CHR ''$''] @ x @ [CHR 0x22]"
| "script_command_text (Exit_With n) = ''exit '' @ str_nat n"

definition script_of :: "script_command list \<Rightarrow> string" where
  "script_of cs = py_join ''; '' (map script_command_text cs)"

section \<open>Their meaning\<close>

text \<open>What programs answer (status and output, given their arguments and input), which names the
  shell finds, and which files hold something.\<close>

record sh_world =
  ws_program :: "string list \<Rightarrow> string \<Rightarrow> int \<times> string"
  ws_found :: "string \<Rightarrow> bool"
  ws_content :: "string \<Rightarrow> string option"

text \<open>Variables hold text; a variable that keeps \<open>$?\<close> is read as a number only.\<close>

record sh_state =
  st_vars :: "string \<Rightarrow> string option"
  st_codes :: "string \<Rightarrow> int"
  st_status :: int

definition value_of :: "sh_state \<Rightarrow> string \<Rightarrow> string" where
  "value_of s x = (case st_vars s x of None \<Rightarrow> [] | Some v \<Rightarrow> v)"

fun piece_value :: "sh_state \<Rightarrow> script_piece \<Rightarrow> string" where
  "piece_value s (Lit t) = t"
| "piece_value s (Var x) = value_of s x"
| "piece_value s (Len x) = str_nat (length (value_of s x))"

fun word_value :: "sh_state \<Rightarrow> sh_word \<Rightarrow> string" where
  "word_value s (Bare ps) = concat (map (piece_value s) ps)"
| "word_value s (Single t) = t"
| "word_value s (Double ps) = concat (map (piece_value s) ps)"
| "word_value s (Prefixed p t) = p @ t"

definition strip_line_ends :: "string \<Rightarrow> string" where
  "strip_line_ends = rstrip_by (\<lambda>c. c = CHR 0x0A)"

definition script_file :: "sh_world \<Rightarrow> string \<Rightarrow> string" where
  "script_file w p = (case ws_content w p of None \<Rightarrow> [] | Some c \<Rightarrow> c)"

fun holds :: "sh_world \<Rightarrow> sh_state \<Rightarrow> sh_test \<Rightarrow> bool" where
  "holds w s (Nonempty x) = (word_value s x \<noteq> [])"
| "holds w s (Code_Is x n) = (st_codes s x = n)"
| "holds w s (Has_Content x) = (script_file w (word_value s x) \<noteq> [])"
| "holds w s (Is_Set x) = (st_vars s x \<noteq> None)"

fun input_of :: "sh_world \<Rightarrow> sh_state \<Rightarrow> string \<Rightarrow> sh_redirect option \<Rightarrow> string" where
  "input_of w s stdin (Some (Input_From x)) = script_file w (word_value s x)"
| "input_of w s stdin _ = stdin"

definition status_if :: "bool \<Rightarrow> int" where
  "status_if b = (if b then 0 else 1)"

text \<open>A run gives the state, the output, and whether \<open>exit\<close> was reached, from the state and the input.
  What is substituted or piped runs in a subshell: only its output and its status leave it.\<close>

type_synonym sh_outcome = "sh_state \<times> string \<times> bool"

definition ended_with :: "sh_state \<Rightarrow> int \<Rightarrow> string \<Rightarrow> sh_outcome" where
  "ended_with s status out = (s\<lparr>st_status := status\<rparr>, out, False)"

fun run_script_command :: "sh_world \<Rightarrow> string \<Rightarrow> sh_state \<Rightarrow> script_command \<Rightarrow> sh_outcome"
  and run_script_list :: "sh_world \<Rightarrow> string \<Rightarrow> sh_state \<Rightarrow> script_command list \<Rightarrow> sh_outcome" where
  "run_script_command w stdin s (Program ws r) =
     (case ws_program w (map (word_value s) ws) (input_of w s stdin r) of (status, out) \<Rightarrow>
       ended_with s status (if r = Some Silenced then [] else out))"
| "run_script_command w stdin s (Available n) = ended_with s (if ws_found w n then 0 else 127) []"
| "run_script_command w stdin s (Echo_Word x) = ended_with s 0 (word_value s x @ [CHR 0x0A])"
| "run_script_command w stdin s (Printf_Line prefix x) =
     ended_with s 0 (prefix @ word_value s x @ [CHR 0x0A])"
| "run_script_command w stdin s (Assign_Output x body) =
     (case run_script_list w stdin s body of (s', out, _) \<Rightarrow>
       (s\<lparr>st_vars := (st_vars s)(x \<mapsto> strip_line_ends out), st_status := st_status s'\<rparr>, [], False))"
| "run_script_command w stdin s (Keep_Status x) =
     (s\<lparr>st_codes := (st_codes s)(x := st_status s), st_status := 0\<rparr>, [], False)"
| "run_script_command w stdin s (Test t) = ended_with s (status_if (holds w s t)) []"
| "run_script_command w stdin s (And_Then a b) =
     (case run_script_command w stdin s a of (s', out, ended) \<Rightarrow>
       if ended \<or> st_status s' \<noteq> 0 then (s', out, ended)
       else (case run_script_command w stdin s' b of (s'', out', ended') \<Rightarrow> (s'', out @ out', ended')))"
| "run_script_command w stdin s (Or_Else a b) =
     (case run_script_command w stdin s a of (s', out, ended) \<Rightarrow>
       if ended \<or> st_status s' = 0 then (s', out, ended)
       else (case run_script_command w stdin s' b of (s'', out', ended') \<Rightarrow> (s'', out @ out', ended')))"
| "run_script_command w stdin s (Pipe a b) =
     (case run_script_command w stdin s a of (_, piped, _) \<Rightarrow>
       (case run_script_command w piped s b of (s', out, _) \<Rightarrow> ended_with s (st_status s') out))"
| "run_script_command w stdin s (If_Do c body) =
     (case run_script_command w stdin s c of (s', out, ended) \<Rightarrow>
       if ended then (s', out, True)
       else if st_status s' = 0
       then (case run_script_list w stdin s' body of (s'', out', ended') \<Rightarrow> (s'', out @ out', ended'))
       else ended_with s' 0 out)"
| "run_script_command w stdin s (Eval c) = run_script_command w stdin s c"
| "run_script_command w stdin s (Declare d) = ended_with s 0 []"
| "run_script_command w stdin s (Exit_Code x) = (s\<lparr>st_status := st_codes s x\<rparr>, [], True)"
| "run_script_command w stdin s (Exit_With n) = (s\<lparr>st_status := int n\<rparr>, [], True)"
| "run_script_list w stdin s [] = (s, [], False)"
| "run_script_list w stdin s (c # cs) =
     (case run_script_command w stdin s c of (s', out, ended) \<Rightarrow>
       if ended then (s', out, True)
       else (case run_script_list w stdin s' cs of (s'', out', ended') \<Rightarrow> (s'', out @ out', ended')))"

text \<open>A shell starts with the variables of its environment.\<close>

definition start_state :: "(string \<Rightarrow> string option) \<Rightarrow> sh_state" where
  "start_state env = \<lparr>st_vars = env, st_codes = \<lambda>_. 0, st_status = 0\<rparr>"

definition sh_script :: "sh_world \<Rightarrow> (string \<Rightarrow> string option) \<Rightarrow> script_command list \<Rightarrow> int \<times> string" where
  "sh_script w env cs = (case run_script_list w [] (start_state env) cs of (s, out, _) \<Rightarrow> (st_status s, out))"

section \<open>Runs of lists\<close>

lemma run_list_append:
  "run_script_list w stdin s (cs @ ds) =
     (case run_script_list w stdin s cs of (s', out, ended) \<Rightarrow>
       if ended then (s', out, True)
       else (case run_script_list w stdin s' ds of (s'', out', ended') \<Rightarrow> (s'', out @ out', ended')))"
  by (induction cs arbitrary: s) (auto split: prod.split)

text \<open>A list of guarded commands \<open>if c; then b; fi\<close> that neither exits nor changes a variable.\<close>

lemma run_list_guards:
  assumes "\<And>x s. x \<in> set xs \<Longrightarrow>
    \<exists>status. run_script_command w stdin s (f x) = (s\<lparr>st_status := status\<rparr>, g x, False)"
  shows "\<exists>status. run_script_list w stdin s (map f xs) = (s\<lparr>st_status := status\<rparr>, concat (map g xs), False)"
  using assms
proof (induction xs arbitrary: s)
  case Nil
  have "s = s\<lparr>st_status := st_status s\<rparr>" by simp
  then show ?case by (auto intro: exI [of _ "st_status s"])
next
  case (Cons x xs)
  obtain status where x: "run_script_command w stdin s (f x) = (s\<lparr>st_status := status\<rparr>, g x, False)"
    using Cons.prems by auto
  from Cons.IH [of "s\<lparr>st_status := status\<rparr>"] Cons.prems obtain status' where
    "run_script_list w stdin (s\<lparr>st_status := status\<rparr>) (map f xs) =
      (s\<lparr>st_status := status, st_status := status'\<rparr>, concat (map g xs), False)"
    by auto
  with x show ?case by auto
qed

end
