(* ===== verification/Tester_Probes.thy ===== *)
theory Tester_Probes
  imports Tester_Group_22 Shell_Script
begin

text \<open>
  What the groups of probes share. Each group has a copy of the code that runs a list of alternate
  attempts, with its own classification of an exit status and its own evidence; \<open>attempt_with\<close> and
  \<open>attempts_with\<close> are that code with the differences as arguments. The locale \<open>attempt_runner\<close> says what
  the run of one attempt has to promise, and what follows for a list of them; every group
  interprets it on its own runner. A \<open>probe_world\<close> answers what the groups ask of \<open>os\<close>, \<open>shutil\<close> and
  the file system, and \<open>shell_answers\<close> is a machine whose \<open>sh\<close> means what \<open>Shell_Script\<close> says.
\<close>

section \<open>Text\<close>

definition in_single :: "string \<Rightarrow> string" where
  "in_single s = [CHR 0x27] @ s @ [CHR 0x27]"

definition powershell :: "string list \<Rightarrow> string \<Rightarrow> string list" where
  "powershell flags script = [''powershell'', ''-NoProfile''] @ flags @ [''-Command'', script]"

lemma concat_guarded: "concat (map (\<lambda>x. if P x then f x else []) xs) = concat (map f (filter P xs))"
  by (induction xs) simp_all

lemma strip_joined_lines:
  "list_all (\<lambda>n. n \<noteq> [] \<and> CHR 0x0A \<notin> set n) ns \<Longrightarrow>
   strip_line_ends (concat (map (\<lambda>n. n @ [CHR 0x0A]) ns)) = py_join [CHR 0x0A] ns"
proof (induction ns)
  case Nil
  show ?case by (simp add: strip_line_ends_def rstrip_by_def)
next
  case (Cons n ns)
  show ?case
  proof (cases "ns = []")
    case True
    from Cons.prems have "n \<noteq> []" "CHR 0x0A \<notin> set n" by simp_all
    then have "last n \<noteq> CHR 0x0A" using last_in_set by metis
    with \<open>n \<noteq> []\<close>
    have "dropWhile (\<lambda>c. c = CHR 0x0A) (rev n) = rev n" by (cases n rule: rev_cases) auto
    with True show ?thesis by (simp add: strip_line_ends_def rstrip_by_def)
  next
    case False
    then obtain k ks where ns: "ns = k # ks" by (cases ns) auto
    from Cons have IH: "strip_line_ends (concat (map (\<lambda>n. n @ [CHR 0x0A]) ns)) = py_join [CHR 0x0A] ns"
      by simp
    from Cons.prems ns obtain c k' where k: "k = c # k'" "c \<noteq> CHR 0x0A" by (cases k) auto
    with ns have "dropWhile (\<lambda>c. c = CHR 0x0A) (rev (concat (map (\<lambda>n. n @ [CHR 0x0A]) ns)) @ zs) =
        dropWhile (\<lambda>c. c = CHR 0x0A) (rev (concat (map (\<lambda>n. n @ [CHR 0x0A]) ns))) @ zs" for zs
      by (intro dropWhile_append1 [of c]) simp_all
    then have "strip_line_ends (n @ [CHR 0x0A] @ concat (map (\<lambda>n. n @ [CHR 0x0A]) ns)) =
        n @ [CHR 0x0A] @ strip_line_ends (concat (map (\<lambda>n. n @ [CHR 0x0A]) ns))"
      by (simp add: strip_line_ends_def rstrip_by_def)
    with IH False show ?thesis by (simp add: py_join_Cons)
  qed
qed

lemma py_strip_nonempty:
  assumes "c \<in> set s" "\<not> is_space c"
  shows "py_strip s \<noteq> []"
proof
  assume "py_strip s = []"
  then have "\<forall>x\<in>set (dropWhile is_space s). is_space x"
    by (simp add: py_strip_def strip_by_def dropWhile_eq_Nil_conv)
  moreover from assms have "dropWhile is_space s \<noteq> []" by (auto simp: dropWhile_eq_Nil_conv)
  ultimately show False by (metis hd_dropWhile hd_in_set)
qed

section \<open>The world of a probe\<close>

text \<open>\<open>pw_windows\<close> is \<open>os.name == "nt"\<close>; on Windows the names in \<open>os.environ\<close> are in upper case.\<close>

record probe_world =
  pw_windows :: bool
  pw_environ :: "(string \<times> string) list res"
  pw_which :: "tester_event list \<Rightarrow> string \<Rightarrow> string option res"
  pw_home :: "path res"
  pw_loads :: "string \<Rightarrow> json res"
  pw_exists :: "tester_event list \<Rightarrow> path \<Rightarrow> bool res"
  pw_read :: "tester_event list \<Rightarrow> path \<Rightarrow> unit res"

definition environ_key :: "probe_world \<Rightarrow> string \<Rightarrow> string" where
  "environ_key w name =
     (if pw_windows w then map (\<lambda>c. if is_lower c then char_of (code c - 32) else c) name else name)"

definition environ_get :: "probe_world \<Rightarrow> string \<Rightarrow> string option res" where
  "environ_get w name = res_bind (pw_environ w) (\<lambda>environ. Inr (dict_get environ (environ_key w name)))"

definition path_separator :: "probe_world \<Rightarrow> char" where
  "path_separator w = (if pw_windows w then CHR '';'' else CHR '':'')"

text \<open>A world that finds nothing but an environment.\<close>

definition posix_world :: "(string \<times> string) list \<Rightarrow> probe_world" where
  "posix_world environ = \<lparr>pw_windows = False, pw_environ = Inr environ, pw_which = \<lambda>_ _. Inr None,
     pw_home = Inr (path_of ''/root''), pw_loads = \<lambda>_. Inl (ValueError ''''), pw_exists = \<lambda>_ _. Inr False, pw_read = \<lambda>_ _. Inl (PermissionError '''')\<rparr>"

text \<open>\<open>shutil.which\<close>.\<close>

definition which :: "probe_world \<Rightarrow> string \<Rightarrow> string option act" where
  "which w name = consult (\<lambda>log. pw_which w log name)"

lemma which_emits [emits_intros]: "emits P (which w name)"
  unfolding which_def by (rule consult_emits)

section \<open>Alternate attempts\<close>

definition attempt_with ::
    "machine \<Rightarrow> string \<Rightarrow> string \<Rightarrow> string \<Rightarrow> string \<Rightarrow> completed act \<Rightarrow>
     (completed \<Rightarrow> string \<Rightarrow> outcome) \<Rightarrow> (completed \<Rightarrow> string \<Rightarrow> string) \<Rightarrow> alternate_attempt_result act" where
  "attempt_with m ident title bypass_class command_family operation outcome_of evidence_of =
     catch (bind operation (\<lambda>completed.
       let combined_output = combined_output_of completed
       in ret (AlternateAttemptResult ident title (outcome_of completed combined_output)
            bypass_class command_family (evidence_of completed combined_output))))
     (\<lambda>e. if is_exception e
       then Some (ret (AlternateAttemptResult ident title (attempt_failure_outcome e)
         bypass_class command_family (error_repr m e)))
       else None)"

definition joint_outcome ::
    "(alternate_attempt_result list \<Rightarrow> outcome \<times> string) \<Rightarrow> alternate_attempt_result list \<Rightarrow> outcome \<times> string" where
  "joint_outcome none_allowed attempt_results =
     (let allowed_count = count_outcome ALLOWED attempt_results
      in if allowed_count \<noteq> 0
      then (ALLOWED, str_nat allowed_count @ '' of '' @ str_nat (length attempt_results) @
        '' alternate shell attempts succeeded.'')
      else none_allowed attempt_results)"

definition attempts_with ::
    "('p \<Rightarrow> alternate_attempt_result act) \<Rightarrow> (alternate_attempt_result list \<Rightarrow> outcome \<times> string) \<Rightarrow>
     'p list \<Rightarrow> alternate_invocation_result act" where
  "attempts_with run none_allowed attempts =
     (if attempts = []
      then ret \<lparr>ai_outcome = NOT_APPLICABLE,
        ai_summary = ''No alternate shell attempts apply to this capability.'', ai_attempts = []\<rparr>
      else bind (collect_each attempts run) (\<lambda>attempt_results.
        ret \<lparr>ai_outcome = fst (joint_outcome none_allowed attempt_results),
             ai_summary = snd (joint_outcome none_allowed attempt_results),
             ai_attempts = attempt_results\<rparr>))"

definition denied_or_unavailable :: "alternate_attempt_result list \<Rightarrow> outcome \<times> string" where
  "denied_or_unavailable attempt_results =
     (if count_outcome NOT_APPLICABLE attempt_results = length attempt_results
      then (NOT_APPLICABLE, ''No alternate shell command was available.'')
      else (DENIED, ''No alternate shell attempts succeeded.''))"

text \<open>The run of one attempt answers for every attempt of the kind given, and adds events of the kind
  given only.\<close>

locale attempt_runner =
  fixes run :: "'p \<Rightarrow> alternate_attempt_result act" and answers :: "'p \<Rightarrow> bool"
    and P :: "tester_event \<Rightarrow> bool" and quiet :: "'p \<Rightarrow> bool"
  assumes run_returns: "answers p \<Longrightarrow> returns (run p)"
    and run_emits: "quiet p \<Longrightarrow> emits P (run p)"
begin

lemma attempts_return: "list_all answers ps \<Longrightarrow> returns (attempts_with run none_allowed ps)"
  unfolding attempts_with_def by (auto simp: list_all_iff intro!: returns_intros run_returns)

lemma attempts_emit: "list_all quiet ps \<Longrightarrow> emits P (attempts_with run none_allowed ps)"
  unfolding attempts_with_def by (auto simp: list_all_iff intro!: emits_intros run_emits)

end

lemma attempt_with_returns:
  "ordinary operation \<Longrightarrow> returns (attempt_with m i t b f operation outcome_of evidence_of)"
  unfolding attempt_with_def Let_def by (intro caught_returns ordinary_intros) auto

lemma attempt_with_emits:
  "emits P operation \<Longrightarrow> emits P (attempt_with m i t b f operation outcome_of evidence_of)"
  unfolding attempt_with_def Let_def by (auto intro!: emits_intros split: if_splits)

text \<open>The outcome of an attempt and of a list, from what the operations answer.\<close>

lemma attempt_with_completed:
  "operation log = (Inr completed, log') \<Longrightarrow>
   attempt_with m i t b f operation outcome_of evidence_of log =
     (Inr (AlternateAttemptResult i t (outcome_of completed (combined_output_of completed)) b f
        (evidence_of completed (combined_output_of completed))), log')"
  by (simp add: attempt_with_def catch_def bind_def ret_def Let_def)

lemma attempt_with_raised:
  "operation log = (Inl e, log') \<Longrightarrow> is_exception e \<Longrightarrow>
   attempt_with m i t b f operation outcome_of evidence_of log =
     (Inr (AlternateAttemptResult i t (attempt_failure_outcome e) b f (error_repr m e)), log')"
  by (simp add: attempt_with_def catch_def bind_def ret_def)

lemma attempts_with_outcome:
  "ps \<noteq> [] \<Longrightarrow> collect_each ps run log = (Inr rs, log') \<Longrightarrow>
   attempts_with run none_allowed ps log =
     (Inr \<lparr>ai_outcome = fst (joint_outcome none_allowed rs), ai_summary = snd (joint_outcome none_allowed rs),
        ai_attempts = rs\<rparr>, log')"
  by (simp add: attempts_with_def bind_def ret_def)

section \<open>What an operation yields\<close>

text \<open>\<open>yields Q m\<close>: where \<open>m\<close> returns, its value satisfies \<open>Q\<close>. \<open>group_yields Q grp\<close>: so does every evidence
  the tests of a group report.\<close>

definition yields :: "('a \<Rightarrow> bool) \<Rightarrow> ('s, 'a) py \<Rightarrow> bool" where
  "yields Q m \<longleftrightarrow> (\<forall>s a s'. m s = (Inr a, s') \<longrightarrow> Q a)"

definition group_yields :: "(string \<Rightarrow> bool) \<Rightarrow> capability_group \<Rightarrow> bool" where
  "group_yields Q grp \<longleftrightarrow> (\<forall>t \<in> set (gr_tests grp).
     yields (\<lambda>r. Q (iv_evidence r)) (run_shell t) \<and> yields (\<lambda>r. Q (iv_evidence r)) (run_tool t) \<and>
     yields (\<lambda>a. list_all (\<lambda>r. Q (aa_evidence r)) (ai_attempts a)) (run_alternates t))"

named_theorems yields_intros

lemma yieldsD: "yields Q m \<Longrightarrow> m s = (Inr a, s') \<Longrightarrow> Q a"
  by (auto simp: yields_def)

lemma yields_ret [yields_intros]: "Q a \<Longrightarrow> yields Q (ret a)"
  by (simp add: yields_def ret_def)

lemma yields_bind: "yields R m \<Longrightarrow> (\<And>a. R a \<Longrightarrow> yields Q (f a)) \<Longrightarrow> yields Q (bind m f)"
  by (fastforce simp: yields_def bind_def split: prod.splits sum.splits)

lemma yields_bind_any [yields_intros]: "(\<And>a. yields Q (f a)) \<Longrightarrow> yields Q (bind m f)"
  by (rule yields_bind [where R = "\<lambda>_. True"]) (simp_all add: yields_def)

lemma yields_bind_res: "(\<And>a. r = Inr a \<Longrightarrow> yields Q (f a)) \<Longrightarrow> yields Q (bind (lift_res r) f)"
  by (rule yields_bind [where R = "\<lambda>a. r = Inr a"]) (simp_all add: yields_def lift_res_def)

lemma yields_catch [yields_intros]:
  assumes "yields Q m" and "\<And>e n. handler e = Some n \<Longrightarrow> yields Q n"
  shows "yields Q (catch m handler)"
  using assms by (fastforce simp: yields_def catch_def split: prod.splits sum.splits option.splits)

lemma InvocationResult_evidence [simp]:
  "iv_evidence (InvocationResult out summary evidence) = redact_evidence evidence"
  by (simp add: InvocationResult_def)

lemma AlternateAttemptResult_evidence [simp]:
  "aa_evidence (AlternateAttemptResult i t out b f evidence) = redact_evidence evidence"
  by (simp add: AlternateAttemptResult_def)

lemma caught_yields:
  assumes "\<And>e. Q (redact_evidence (error_repr m e))" and "yields (\<lambda>r. Q (iv_evidence r)) operation"
  shows "yields (\<lambda>r. Q (iv_evidence r)) (catch operation (invocation_failure m subject))"
    "yields (\<lambda>r. Q (iv_evidence r)) (catch operation (shell_failure m timed_out failed))"
    "yields (\<lambda>r. Q (iv_evidence r)) (catch operation (tool_failure m failed))"
  using assms
  by (auto simp: invocation_failure_def shell_failure_def tool_failure_def intro!: yields_catch yields_ret
      split: if_splits)

lemma attempt_with_yields:
  assumes "\<And>completed. Q (redact_evidence (evidence_of completed (combined_output_of completed)))"
    and "\<And>e. Q (redact_evidence (error_repr m e))"
  shows "yields (\<lambda>r. Q (aa_evidence r)) (attempt_with m i t b f operation outcome_of evidence_of)"
  unfolding attempt_with_def Let_def using assms by (auto intro!: yields_intros split: if_splits)

lemma attempts_with_yields:
  assumes "list_all (\<lambda>p. yields Q (run p)) ps"
  shows "yields (\<lambda>a. list_all Q (ai_attempts a)) (attempts_with run none_allowed ps)"
proof -
  have "yields (list_all Q) (collect_each ps run)"
    using assms
  proof (induction ps)
    case Nil
    show ?case by (simp add: yields_ret)
  next
    case (Cons p ps)
    then have "yields (list_all Q) (collect_each ps run)" by simp
    then have "yields (list_all Q) (bind (collect_each ps run) (\<lambda>as. ret (a # as)))" if "Q a" for a
      using that by (auto intro!: yields_ret intro: yields_bind)
    with Cons.prems show ?case by (auto intro: yields_bind)
  qed
  then show ?thesis
    unfolding attempts_with_def by (auto intro!: yields_ret yields_bind [where R = "list_all Q" and m = "collect_each ps run"])
qed

section \<open>Failures\<close>

definition programs_fail_ordinarily :: "machine \<Rightarrow> probe_world \<Rightarrow> bool" where
  "programs_fail_ordinarily m w \<longleftrightarrow>
     (\<forall>log command e. run_answer m log command = Inl e \<longrightarrow> is_exception e) \<and>
     (\<forall>e. pw_environ w = Inl e \<longrightarrow> is_exception e)"

lemma programs_ordinary:
  assumes "programs_fail_ordinarily m w"
  shows "ordinary (run_program m command)" "ordinary (lift_res (pw_environ w))"
    "ordinary (lift_res (environ_get w name))"
  using assms
  by (auto simp: ordinary_def programs_fail_ordinarily_def run_program_def lift_res_def environ_get_def
      res_bind_def split: sum.splits)

lemma failures_emit:
  "invocation_failure m subject e = Some n \<Longrightarrow> emits P n"
  "shell_failure m timed_out failed e = Some n \<Longrightarrow> emits P n"
  "tool_failure m failed e = Some n \<Longrightarrow> emits P n"
  by (auto simp: invocation_failure_def shell_failure_def tool_failure_def intro!: emits_intros split: if_splits)

lemma failure_answers:
  "is_exception e \<Longrightarrow> \<exists>r. invocation_failure m subject e = Some (ret r)"
  by (auto simp: invocation_failure_def)

section \<open>A machine with a shell\<close>

definition shell_answers ::
    "machine \<Rightarrow> sh_world \<Rightarrow> (string \<Rightarrow> string option) \<Rightarrow> script_command list \<Rightarrow> bool" where
  "shell_answers m w env script \<longleftrightarrow>
     (\<forall>log. \<exists>err. run_answer m log [''sh'', ''-c'', script_of script] =
       Inr \<lparr>cp_returncode = fst (sh_script w env script), cp_stdout = snd (sh_script w env script),
            cp_stderr = err\<rparr>)"

lemma shell_runs:
  assumes "shell_answers m w env script"
  obtains err where "run_program m [''sh'', ''-c'', script_of script] log =
    (Inr \<lparr>cp_returncode = fst (sh_script w env script), cp_stdout = snd (sh_script w env script),
       cp_stderr = err\<rparr>, log @ [Ran [''sh'', ''-c'', script_of script]])"
  using assms unfolding shell_answers_def run_program_def by metis

text \<open>A machine on which only \<open>sh\<close> can be started, with one of some scripts of different texts.\<close>

definition shell_machine ::
    "sh_world \<Rightarrow> (string \<Rightarrow> string option) \<Rightarrow> script_command list list \<Rightarrow> machine" where
  "shell_machine w env scripts = broken_machine\<lparr>run_answer := \<lambda>_ command.
     (case find (\<lambda>script. command = [''sh'', ''-c'', script_of script]) scripts of
       None \<Rightarrow> Inl (FileNotFoundError '''')
     | Some script \<Rightarrow> (case sh_script w env script of (status, out) \<Rightarrow>
         Inr \<lparr>cp_returncode = status, cp_stdout = out, cp_stderr = ''''\<rparr>))\<rparr>"

lemma shell_machine_answers:
  assumes "inj_on script_of (set scripts)" and "script \<in> set scripts"
  shows "shell_answers (shell_machine w env scripts) w env script"
proof -
  have "\<exists>t. find P xs = Some t \<and> t \<in> set xs \<and> P t" if "x \<in> set xs" "P x" for P :: "script_command list \<Rightarrow> bool" and xs x
    using that by (induction xs) auto
  from this [OF assms(2), of "\<lambda>s. script_of script = script_of s"] assms(1,2)
  have "find (\<lambda>s. script_of script = script_of s) scripts = Some script"
    by (auto dest: inj_onD)
  then show ?thesis by (simp add: shell_answers_def shell_machine_def split: prod.split)
qed

text \<open>\<open>printenv NAME\<close> prints a variable of the environment, or fails.\<close>

definition printenv :: "(string \<Rightarrow> string option) \<Rightarrow> string list \<Rightarrow> int \<times> string" where
  "printenv env args = (case args of
     [program, name] \<Rightarrow> (if program = ''printenv''
       then (case env name of None \<Rightarrow> (1, []) | Some v \<Rightarrow> (0, v @ [CHR 0x0A])) else (127, []))
   | _ \<Rightarrow> (127, []))"

end
