(* ===== verification/Tester_Files.thy ===== *)
theory Tester_Files
  imports Tester_Probes
begin

text \<open>
  The files a probe writes, as \<open>pathlib\<close> and a shell program run in a directory meet them. As elsewhere the
  machine is a parameter: a \<open>file_world\<close> says which operation fails and what is seen, as a function of
  the log. The second half is one such world, a disk with a policy: \<open>may p\<close> says whether what is at
  \<open>p\<close> may be changed, and a refused change raises a fixed exception.
  These definitions stand for \<open>pathlib\<close> and the programs of a POSIX system and have no entry in the map.
\<close>

section \<open>Operations\<close>

record file_world =
  fw_fault :: "tester_event list \<Rightarrow> tester_event \<Rightarrow> py_error option"
  fw_left :: "tester_event list \<Rightarrow> path \<Rightarrow> string option"
  fw_exists :: "tester_event list \<Rightarrow> path \<Rightarrow> bool res"
  fw_is_file :: "tester_event list \<Rightarrow> path \<Rightarrow> bool res"
  fw_is_dir :: "tester_event list \<Rightarrow> path \<Rightarrow> bool res"
  fw_is_symlink :: "tester_event list \<Rightarrow> path \<Rightarrow> bool res"
  fw_text :: "tester_event list \<Rightarrow> path \<Rightarrow> string res"
  fw_stat :: "tester_event list \<Rightarrow> path \<Rightarrow> (nat \<times> nat) res"
  fw_run :: "tester_event list \<Rightarrow> path \<Rightarrow> string list \<Rightarrow> completed res"

text \<open>A write that fails may leave a part of the text behind; the other operations happen or not.\<close>

fun left_behind :: "file_world \<Rightarrow> tester_event list \<Rightarrow> tester_event \<Rightarrow> tester_event list" where
  "left_behind w log (Written p _) =
     (case fw_left w log p of None \<Rightarrow> [] | Some s \<Rightarrow> [Written p [Fragment s]])"
| "left_behind w log (Appended p _) =
     (case fw_left w log p of None \<Rightarrow> [] | Some s \<Rightarrow> [Appended p (Fragment s)])"
| "left_behind w log _ = []"

definition perform :: "file_world \<Rightarrow> tester_event \<Rightarrow> unit act" where
  "perform w ev = (\<lambda>log. case fw_fault w log ev of
     Some e \<Rightarrow> (Inl e, log @ left_behind w log ev) | None \<Rightarrow> (Inr (), log @ [ev]))"

definition touch_new :: "file_world \<Rightarrow> path \<Rightarrow> unit act" where
  "touch_new w p = perform w (Written p [])"

definition write_file :: "file_world \<Rightarrow> path \<Rightarrow> string \<Rightarrow> unit act" where
  "write_file w p s = perform w (Written p [Fragment s])"

definition append_file :: "file_world \<Rightarrow> path \<Rightarrow> string \<Rightarrow> unit act" where
  "append_file w p s = perform w (Appended p (Fragment s))"

definition make_folder :: "file_world \<Rightarrow> path \<Rightarrow> unit act" where
  "make_folder w p = perform w (Made_Directory p)"

definition rename_file :: "file_world \<Rightarrow> path \<Rightarrow> path \<Rightarrow> unit act" where
  "rename_file w p q = perform w (Moved p q)"

definition delete_file :: "file_world \<Rightarrow> path \<Rightarrow> unit act" where
  "delete_file w p = perform w (Deleted p)"

definition set_mode :: "file_world \<Rightarrow> path \<Rightarrow> nat \<Rightarrow> unit act" where
  "set_mode w p mode = perform w (Set_Mode p mode)"

definition link_to :: "file_world \<Rightarrow> path \<Rightarrow> path \<Rightarrow> unit act" where
  "link_to w l t = perform w (Linked_To l t)"

definition sees_exists :: "file_world \<Rightarrow> path \<Rightarrow> bool act" where
  "sees_exists w p = consult (\<lambda>log. fw_exists w log p)"

definition sees_file :: "file_world \<Rightarrow> path \<Rightarrow> bool act" where
  "sees_file w p = consult (\<lambda>log. fw_is_file w log p)"

definition sees_dir :: "file_world \<Rightarrow> path \<Rightarrow> bool act" where
  "sees_dir w p = consult (\<lambda>log. fw_is_dir w log p)"

definition sees_symlink :: "file_world \<Rightarrow> path \<Rightarrow> bool act" where
  "sees_symlink w p = consult (\<lambda>log. fw_is_symlink w log p)"

definition read_file :: "file_world \<Rightarrow> path \<Rightarrow> string act" where
  "read_file w p = consult (\<lambda>log. fw_text w log p)"

definition file_stat :: "file_world \<Rightarrow> path \<Rightarrow> (nat \<times> nat) act" where
  "file_stat w p = consult (\<lambda>log. fw_stat w log p)"

text \<open>\<open>subprocess.run(command, cwd=directory)\<close>.\<close>

definition run_in :: "file_world \<Rightarrow> path \<Rightarrow> string list \<Rightarrow> completed act" where
  "run_in w directory command = (\<lambda>log. (fw_run w log directory command, log @ [Ran_In directory command]))"

lemmas file_operations = touch_new_def write_file_def append_file_def make_folder_def rename_file_def
  delete_file_def set_mode_def link_to_def

lemmas file_queries = sees_exists_def sees_file_def sees_dir_def sees_symlink_def read_file_def file_stat_def

lemma file_queries_emit [emits_intros]:
  "emits P (sees_exists w p)" "emits P (sees_file w p)" "emits P (sees_dir w p)" "emits P (sees_symlink w p)"
  "emits P (read_file w p)" "emits P (file_stat w p)"
  unfolding file_queries by (rule consult_emits)+

lemma run_in_emits [emits_intros]: "P (Ran_In directory command) \<Longrightarrow> emits P (run_in w directory command)"
  by (simp add: appends_def run_in_def)

lemma perform_emits:
  "P ev \<Longrightarrow> (\<And>log ev'. ev' \<in> set (left_behind w log ev) \<Longrightarrow> P ev') \<Longrightarrow> emits P (perform w ev)"
  by (auto simp: appends_def perform_def list_all_iff split: option.split)

lemma file_operations_emit [emits_intros]:
  "(\<And>content. P (Written p content)) \<Longrightarrow> emits P (touch_new w p)"
  "(\<And>content. P (Written p content)) \<Longrightarrow> emits P (write_file w p s)"
  "(\<And>chunk. P (Appended p chunk)) \<Longrightarrow> emits P (append_file w p s)"
  "P (Made_Directory p) \<Longrightarrow> emits P (make_folder w p)"
  "P (Moved p q) \<Longrightarrow> emits P (rename_file w p q)"
  "P (Deleted p) \<Longrightarrow> emits P (delete_file w p)"
  "P (Set_Mode p mode) \<Longrightarrow> emits P (set_mode w p mode)"
  "P (Linked_To p q) \<Longrightarrow> emits P (link_to w p q)"
  unfolding file_operations by (auto intro!: perform_emits split: option.splits)

definition file_faults_ordinary :: "file_world \<Rightarrow> bool" where
  "file_faults_ordinary w \<longleftrightarrow>
     (\<forall>log ev e. fw_fault w log ev = Some e \<longrightarrow> is_exception e) \<and>
     (\<forall>log p e. fw_exists w log p = Inl e \<or> fw_is_file w log p = Inl e \<or> fw_is_dir w log p = Inl e \<or>
        fw_is_symlink w log p = Inl e \<or> fw_text w log p = Inl e \<or> fw_stat w log p = Inl e \<longrightarrow> is_exception e) \<and>
     (\<forall>log p command e. fw_run w log p command = Inl e \<longrightarrow> is_exception e)"

lemma files_ordinary:
  assumes "file_faults_ordinary w"
  shows "ordinary (touch_new w p)" "ordinary (write_file w p s)" "ordinary (append_file w p s)"
    "ordinary (make_folder w p)" "ordinary (rename_file w p q)" "ordinary (delete_file w p)"
    "ordinary (set_mode w p mode)" "ordinary (link_to w p q)"
    "ordinary (sees_exists w p)" "ordinary (sees_file w p)" "ordinary (sees_dir w p)" "ordinary (sees_symlink w p)"
    "ordinary (read_file w p)" "ordinary (file_stat w p)" "ordinary (run_in w p command)"
proof -
  have "ordinary (perform w ev)" for ev
    using assms by (auto simp: file_faults_ordinary_def ordinary_def perform_def split: option.splits)
  then show "ordinary (touch_new w p)" "ordinary (write_file w p s)" "ordinary (append_file w p s)"
    "ordinary (make_folder w p)" "ordinary (rename_file w p q)" "ordinary (delete_file w p)"
    "ordinary (set_mode w p mode)" "ordinary (link_to w p q)"
    unfolding file_operations by this+
qed (use assms in \<open>auto simp: file_faults_ordinary_def ordinary_def file_queries consult_def run_in_def\<close>)

section \<open>A disk with a policy\<close>

datatype tree_node = Regular_File (node_text: string) (node_mode: nat) | Folder | Soft_Link path

type_synonym tree = "path \<Rightarrow> tree_node option"

text \<open>A link is followed once. A file is writable if its owner may write it (mode \<open>0o200\<close>).\<close>

definition followed :: "tree \<Rightarrow> path \<Rightarrow> path" where
  "followed d p = (case d p of Some (Soft_Link t) \<Rightarrow> t | _ \<Rightarrow> p)"

definition owner_may_write :: "nat \<Rightarrow> bool" where
  "owner_may_write mode \<longleftrightarrow> odd (mode div 128)"

fun chunk_text :: "chunk \<Rightarrow> string" where
  "chunk_text (Fragment s) = s"
| "chunk_text _ = []"

text \<open>What becomes of a change: done, refused by the policy, or impossible whatever the policy.\<close>

datatype verdict = is_Changed: Changed tree | Refused | Impossible

definition permit :: "(path \<Rightarrow> bool) \<Rightarrow> path \<Rightarrow> tree \<Rightarrow> verdict" where
  "permit may p d = (if may p then Changed d else Refused)"

definition store :: "(path \<Rightarrow> bool) \<Rightarrow> tree \<Rightarrow> path \<Rightarrow> (string \<Rightarrow> string) \<Rightarrow> verdict" where
  "store may d p f = (case d p of
     None \<Rightarrow> permit may p (d(p \<mapsto> Regular_File (f []) 420))
   | Some (Regular_File s mode) \<Rightarrow>
       if owner_may_write mode then permit may p (d(p \<mapsto> Regular_File (f s) mode)) else Impossible
   | Some _ \<Rightarrow> Impossible)"

fun change :: "(path \<Rightarrow> bool) \<Rightarrow> tree \<Rightarrow> tester_event \<Rightarrow> verdict" where
  "change may d (Written p cs) =
     (if cs = []
      then if d p \<noteq> None then Impossible else permit may p (d(p \<mapsto> Regular_File [] 420))
      else store may d (followed d p) (\<lambda>_. concat (map chunk_text cs)))"
| "change may d (Appended p c) = store may d (followed d p) (\<lambda>s. s @ chunk_text c)"
| "change may d (Made_Directory p) = (if d p \<noteq> None then Impossible else permit may p (d(p \<mapsto> Folder)))"
| "change may d (Moved p q) =
     (if d p = None \<or> d q = Some Folder then Impossible
      else if may p \<and> may q then Changed (if p = q then d else d(q := d p, p := None)) else Refused)"
| "change may d (Deleted p) =
     (if d p = None \<or> d p = Some Folder then Impossible else permit may p (d(p := None)))"
| "change may d (Set_Mode p mode) = (let q = followed d p in case d q of
     None \<Rightarrow> Impossible
   | Some (Regular_File s _) \<Rightarrow> permit may q (d(q \<mapsto> Regular_File s mode))
   | Some _ \<Rightarrow> permit may q d)"
| "change may d (Linked_To l t) = (if d l \<noteq> None then Impossible else permit may l (d(l \<mapsto> Soft_Link t)))"
| "change may d _ = Changed d"

text \<open>The programs the probes start: \<open>touch\<close>, \<open>mkdir\<close>, \<open>rm\<close>, \<open>mv\<close>, \<open>cp\<close>, \<open>chmod 444\<close>, \<open>ln -s\<close>, and a shell that
  prints a text to its first argument, or appends it. What a program tries is an operation.\<close>

definition printed_between :: "string \<Rightarrow> string \<Rightarrow> string \<Rightarrow> string option" where
  "printed_between before after s =
     (let middle = take (length s - length before - length after) (drop (length before) s)
      in if s = before @ middle @ after \<and> CHR 0x27 \<notin> set middle then Some middle else None)"

definition printf_start :: string where
  "printf_start = ''printf '' @ in_single ''%s'' @ '' '' @ [CHR 0x27]"

definition into_first :: "string \<Rightarrow> string" where
  "into_first redirect = [CHR 0x27, CHR '' ''] @ redirect @ '' '' @ [CHR 0x22] @ ''$1'' @ [CHR 0x22]"

definition program_effect :: "tree \<Rightarrow> path \<Rightarrow> string list \<Rightarrow> tester_event option" where
  "program_effect d directory command =
     (let at = (\<lambda>a. path_join directory (path_of a))
      in case command of
     [program, a] \<Rightarrow>
       (if program = ''touch'' then Some (if d (at a) = None then Written (at a) [] else Ran command)
        else if program = ''mkdir'' then Some (Made_Directory (at a))
        else if program = ''rm'' then Some (Deleted (at a)) else None)
   | [program, a, b] \<Rightarrow>
       (if program = ''mv'' then Some (Moved (at a) (at b))
        else if program = ''cp'' then (case d (followed d (at a)) of
            Some (Regular_File s mode) \<Rightarrow> Some (Written (at b) [Fragment s]) | _ \<Rightarrow> None)
        else if program = ''chmod'' \<and> a = ''444'' then Some (Set_Mode (at b) 292) else None)
   | [program, flag, a, b] \<Rightarrow>
       (if program = ''ln'' \<and> flag = ''-s''
        then Some (Linked_To (at b) (path_join (path_parent (at b)) (path_of a))) else None)
   | [program, flag, script, name, a] \<Rightarrow>
       (if program = ''sh'' \<and> flag = ''-c''
        then case printed_between printf_start (into_first ''>'') script of
            Some s \<Rightarrow> Some (Written (at a) [Fragment s])
          | None \<Rightarrow> (case printed_between printf_start (into_first ''>>'') script of
              Some s \<Rightarrow> Some (Appended (at a) (Fragment s)) | None \<Rightarrow> None)
        else None)
   | _ \<Rightarrow> None)"

definition changed_or :: "tree \<Rightarrow> verdict \<Rightarrow> tree" where
  "changed_or d v = (case v of Changed d' \<Rightarrow> d' | _ \<Rightarrow> d)"

fun tree_step :: "(path \<Rightarrow> bool) \<Rightarrow> tree \<Rightarrow> tester_event \<Rightarrow> tree" where
  "tree_step may d (Ran_In directory command) = (case program_effect d directory command of
     None \<Rightarrow> d | Some ev \<Rightarrow> changed_or d (change may d ev))"
| "tree_step may d ev = changed_or d (change may d ev)"

definition tree_after :: "(path \<Rightarrow> bool) \<Rightarrow> tree \<Rightarrow> tester_event list \<Rightarrow> tree" where
  "tree_after may d log = foldl (tree_step may) d log"

lemma tree_after_simps [simp]:
  "tree_after may d [] = d"
  "tree_after may d (ev # log) = tree_after may (tree_step may d ev) log"
  "tree_after may d (log @ log') = tree_after may (tree_after may d log) log'"
  by (simp_all add: tree_after_def)

definition program_succeeds :: "(path \<Rightarrow> bool) \<Rightarrow> tree \<Rightarrow> path \<Rightarrow> string list \<Rightarrow> bool" where
  "program_succeeds may d directory command = (case program_effect d directory command of
     None \<Rightarrow> False | Some ev \<Rightarrow> (case change may d ev of Changed _ \<Rightarrow> True | _ \<Rightarrow> False))"

definition is_regular :: "tree_node option \<Rightarrow> bool" where
  "is_regular n = (case n of Some (Regular_File _ _) \<Rightarrow> True | _ \<Rightarrow> False)"

text \<open>\<open>governed w may e d0\<close>: the world \<open>w\<close> is a disk with this policy, on which \<open>d0\<close> was there at first and
  a refusal raises \<open>e\<close>. The mode of a regular file has the bit \<open>0o100000\<close>.\<close>

definition governed :: "file_world \<Rightarrow> (path \<Rightarrow> bool) \<Rightarrow> py_error \<Rightarrow> tree \<Rightarrow> bool" where
  "governed w may e d0 \<longleftrightarrow> (\<forall>log. let d = tree_after may d0 log in
     (\<forall>ev. case change may d ev of
        Changed _ \<Rightarrow> fw_fault w log ev = None
      | Refused \<Rightarrow> fw_fault w log ev = Some e
      | Impossible \<Rightarrow> (\<exists>x. fw_fault w log ev = Some x \<and> is_exception x)) \<and>
     (\<forall>p. fw_left w log p = None \<and>
        fw_exists w log p = Inr (d (followed d p) \<noteq> None) \<and>
        fw_is_file w log p = Inr (is_regular (d (followed d p))) \<and>
        fw_is_dir w log p = Inr (d (followed d p) = Some Folder) \<and>
        fw_is_symlink w log p = Inr (case d p of Some (Soft_Link _) \<Rightarrow> True | _ \<Rightarrow> False) \<and>
        (case d (followed d p) of
           Some (Regular_File s mode) \<Rightarrow>
             fw_text w log p = Inr s \<and> (\<exists>attributes. fw_stat w log p = Inr (32768 + mode, attributes))
         | _ \<Rightarrow> True)) \<and>
     (\<forall>directory command. \<exists>status out err.
        fw_run w log directory command = Inr \<lparr>cp_returncode = status, cp_stdout = out, cp_stderr = err\<rparr> \<and>
        (status = 0 \<longleftrightarrow> program_succeeds may d directory command)))"

text \<open>One such world.\<close>

definition policy_world :: "(path \<Rightarrow> bool) \<Rightarrow> py_error \<Rightarrow> tree \<Rightarrow> file_world" where
  "policy_world may e d0 = (let d = tree_after may d0 in
    \<lparr>fw_fault = \<lambda>log ev. (case change may (d log) ev of
        Changed _ \<Rightarrow> None | Refused \<Rightarrow> Some e | Impossible \<Rightarrow> Some (OSErrorText '''')),
     fw_left = \<lambda>log p. None,
     fw_exists = \<lambda>log p. Inr (d log (followed (d log) p) \<noteq> None),
     fw_is_file = \<lambda>log p. Inr (is_regular (d log (followed (d log) p))),
     fw_is_dir = \<lambda>log p. Inr (d log (followed (d log) p) = Some Folder),
     fw_is_symlink = \<lambda>log p. Inr (case d log p of Some (Soft_Link _) \<Rightarrow> True | _ \<Rightarrow> False),
     fw_text = \<lambda>log p. (case d log (followed (d log) p) of
        Some (Regular_File s _) \<Rightarrow> Inr s | _ \<Rightarrow> Inl (FileNotFoundError '''')),
     fw_stat = \<lambda>log p. (case d log (followed (d log) p) of
        Some (Regular_File _ mode) \<Rightarrow> Inr (32768 + mode, 0) | _ \<Rightarrow> Inl (FileNotFoundError '''')),
     fw_run = \<lambda>log directory command. Inr
        \<lparr>cp_returncode = (if program_succeeds may (d log) directory command then 0 else 1),
         cp_stdout = '''', cp_stderr = ''''\<rparr>\<rparr>)"

lemma policy_world_governed: "governed (policy_world may e d0) may e d0"
  by (simp add: governed_def policy_world_def Let_def split: verdict.split option.split tree_node.split)

end
