(* ===== verification/Tester_Group_03.thy ===== *)
theory Tester_Group_03
  imports Tester_Files Shell_Words
begin

text \<open>
  \<open>src/sandbox_tester/group_03.py\<close>, the group of writing and changing files: nine operations, each tried in
  the allowed and in the denied directory, by a program, by Python, and by alternate shell commands. The two
  tests of an operation differ in the directory, the names and the texts; an operation's definitions take
  those as arguments and a test's definition gives them.
\<close>

section \<open>Verdicts\<close>

text \<open>The \<open>except\<close> clauses; the tests of symbolic links have one more.\<close>

definition files_failure :: "machine \<Rightarrow> string \<Rightarrow> py_error \<Rightarrow> invocation_result act option" where
  "files_failure m subject e =
     (if is_permission_error e
      then Some (ret (InvocationResult DENIED
        (subject @ '' invocation was denied by filesystem permissions.'') (error_repr m e)))
      else if is_exception e
      then Some (ret (InvocationResult ERROR
        (subject @ '' invocation raised an exception.'') (error_repr m e)))
      else None)"

definition link_failure :: "machine \<Rightarrow> string \<Rightarrow> py_error \<Rightarrow> invocation_result act option" where
  "link_failure m subject e =
     (if \<not> is_permission_error e \<and> is_os_error e
      then Some (ret (InvocationResult DENIED
        (subject @ '' symbolic link creation was denied by the OS.'') (error_repr m e)))
      else files_failure m subject e)"

text \<open>What a program has done is judged by what is seen afterwards, and only then by its exit status.\<close>

definition shell_verdict :: "string \<Rightarrow> string \<Rightarrow> completed \<Rightarrow> string option \<Rightarrow> string \<Rightarrow> invocation_result" where
  "shell_verdict succeeded failed completed observed evidence = (case observed of
     Some seen \<Rightarrow> InvocationResult ALLOWED succeeded seen
   | None \<Rightarrow> (if cp_returncode completed = 0
       then InvocationResult ERROR failed evidence
       else InvocationResult DENIED ''Shell command failed.'' (take 500 (cp_stderr completed))))"

definition observed_if :: "bool \<Rightarrow> path \<Rightarrow> string option" where
  "observed_if b p = (if b then Some (path_str p) else None)"

definition shell_judged :: "string \<Rightarrow> string \<Rightarrow> completed \<Rightarrow> bool \<Rightarrow> path \<Rightarrow> invocation_result" where
  "shell_judged succeeded failed completed seen p =
     shell_verdict succeeded failed completed (observed_if seen p) (take 500 (cp_stdout completed))"

definition tool_judged :: "string \<Rightarrow> string \<Rightarrow> bool \<Rightarrow> path \<Rightarrow> invocation_result" where
  "tool_judged succeeded failed seen p =
     (if seen then InvocationResult ALLOWED succeeded (path_str p) else InvocationResult ERROR failed '''')"

definition beside :: "path \<Rightarrow> string \<Rightarrow> path" where
  "beside p name = path_div (path_parent p) name"

section \<open>Creating a file\<close>

definition create_command :: "operating_system \<Rightarrow> string \<Rightarrow> path \<Rightarrow> string list" where
  "create_command os windows_name f =
     (if os = WINDOWS then [''cmd'', ''/c'', ''type'', ''nul'', ''>'', windows_name]
      else [''touch'', path_str f])"

definition create_shell ::
    "machine \<Rightarrow> file_world \<Rightarrow> operating_system \<Rightarrow> string \<Rightarrow> path \<Rightarrow> string \<Rightarrow> string \<Rightarrow> invocation_result act" where
  "create_shell m w os windows_name f succeeded failed =
     catch (bind (run_in w (path_parent f) (create_command os windows_name f)) (\<lambda>completed.
       bind (sees_exists w f) (\<lambda>created.
       ret (shell_judged succeeded failed completed created f))))
     (files_failure m ''Shell'')"

definition create_tool :: "machine \<Rightarrow> file_world \<Rightarrow> path \<Rightarrow> string \<Rightarrow> string \<Rightarrow> invocation_result act" where
  "create_tool m w f succeeded failed =
     catch (bind (touch_new w f) (\<lambda>_. bind (sees_exists w f) (\<lambda>created.
       ret (tool_judged succeeded failed created f))))
     (files_failure m ''Tool'')"

section \<open>Writing a file\<close>

definition WRITTEN_CONTENT :: string where
  "WRITTEN_CONTENT = ''This content was written by the sandbox tester.''"

definition print_command :: "operating_system \<Rightarrow> string \<Rightarrow> string \<Rightarrow> path \<Rightarrow> string list" where
  "print_command os redirect content f =
     (if os = WINDOWS
      then [''cmd'', ''/c'', ''(echo '' @ content @ '') '' @ redirect @ '' '' @ path_name f]
      else [''sh'', ''-c'', ''printf '' @ in_single ''%s'' @ '' '' @ in_single content @ '' '' @ redirect @ '' '' @
        in_quotes ''$1'', ''sh'', path_str f])"

definition write_shell ::
    "machine \<Rightarrow> file_world \<Rightarrow> operating_system \<Rightarrow> path \<Rightarrow> string \<Rightarrow> string \<Rightarrow> invocation_result act" where
  "write_shell m w os f succeeded failed =
     catch (bind (run_in w (path_parent f) (print_command os ''>'' WRITTEN_CONTENT f)) (\<lambda>completed.
       bind (sees_exists w f) (\<lambda>exists.
       bind (if exists
         then bind (read_file w f) (\<lambda>read. let content = py_strip read
           in ret (if content = WRITTEN_CONTENT then Some (take 500 content) else None))
         else ret None) (\<lambda>observed.
       ret (shell_verdict succeeded failed completed observed (take 500 (cp_stdout completed)))))))
     (files_failure m ''Shell'')"

definition write_tool :: "machine \<Rightarrow> file_world \<Rightarrow> path \<Rightarrow> string \<Rightarrow> string \<Rightarrow> invocation_result act" where
  "write_tool m w f succeeded failed =
     catch (bind (write_file w f WRITTEN_CONTENT) (\<lambda>_. bind (read_file w f) (\<lambda>content.
       ret (if content = WRITTEN_CONTENT
            then InvocationResult ALLOWED succeeded (take 500 content)
            else InvocationResult ERROR failed (take 500 content)))))
     (files_failure m ''Tool'')"

section \<open>Appending to a file\<close>

definition INITIAL_CONTENT :: string where
  "INITIAL_CONTENT = ''Initial content.''"

definition APPENDED_CONTENT :: string where
  "APPENDED_CONTENT = ''Appended content.''"

definition is_expected_content :: "string \<Rightarrow> bool" where
  "is_expected_content content =
     (replace_char (CHR 0x0A) [] (replace_char (CHR 0x0D) [] content) = INITIAL_CONTENT @ APPENDED_CONTENT)"

definition append_shell ::
    "machine \<Rightarrow> file_world \<Rightarrow> operating_system \<Rightarrow> path \<Rightarrow> string \<Rightarrow> string \<Rightarrow> invocation_result act" where
  "append_shell m w os f succeeded failed =
     catch (bind (write_file w f INITIAL_CONTENT) (\<lambda>_.
       bind (run_in w (path_parent f) (print_command os ''>>'' APPENDED_CONTENT f)) (\<lambda>completed.
       bind (read_file w f) (\<lambda>content.
       ret (shell_verdict succeeded failed completed
         (if is_expected_content content then Some (take 500 content) else None) (take 500 content))))))
     (files_failure m ''Shell'')"

definition append_tool :: "machine \<Rightarrow> file_world \<Rightarrow> path \<Rightarrow> string \<Rightarrow> string \<Rightarrow> invocation_result act" where
  "append_tool m w f succeeded failed =
     catch (bind (write_file w f INITIAL_CONTENT) (\<lambda>_.
       bind (append_file w f APPENDED_CONTENT) (\<lambda>_.
       bind (read_file w f) (\<lambda>content.
       ret (if is_expected_content content
            then InvocationResult ALLOWED succeeded (take 500 content)
            else InvocationResult ERROR failed (take 500 content))))))
     (files_failure m ''Tool'')"

section \<open>Creating a directory\<close>

definition mkdir_command :: "operating_system \<Rightarrow> path \<Rightarrow> string list" where
  "mkdir_command os f =
     (if os = WINDOWS then [''cmd'', ''/c'', ''mkdir'', path_name f] else [''mkdir'', path_str f])"

definition mkdir_shell ::
    "machine \<Rightarrow> file_world \<Rightarrow> operating_system \<Rightarrow> path \<Rightarrow> string \<Rightarrow> string \<Rightarrow> invocation_result act" where
  "mkdir_shell m w os f succeeded failed =
     catch (bind (run_in w (path_parent f) (mkdir_command os f)) (\<lambda>completed.
       bind (sees_dir w f) (\<lambda>created.
       ret (shell_judged succeeded failed completed created f))))
     (files_failure m ''Shell'')"

definition mkdir_tool :: "machine \<Rightarrow> file_world \<Rightarrow> path \<Rightarrow> string \<Rightarrow> string \<Rightarrow> invocation_result act" where
  "mkdir_tool m w f succeeded failed =
     catch (bind (make_folder w f) (\<lambda>_. bind (sees_dir w f) (\<lambda>created.
       ret (tool_judged succeeded failed created f))))
     (files_failure m ''Tool'')"

section \<open>Renaming a file\<close>

definition RENAMED_CONTENT :: string where
  "RENAMED_CONTENT = ''This file will be renamed.''"

definition two_file_command :: "operating_system \<Rightarrow> string \<Rightarrow> string list \<Rightarrow> path \<Rightarrow> path \<Rightarrow> string list" where
  "two_file_command os windows_program posix_words source_file target_file =
     (if os = WINDOWS
      then [''cmd'', ''/c'', windows_program, path_name source_file, path_name target_file]
      else posix_words @ [path_str source_file, path_str target_file])"

text \<open>The test of the allowed directory does not look at the target when the source is still there.\<close>

definition was_renamed :: "file_world \<Rightarrow> path \<Rightarrow> path \<Rightarrow> bool act" where
  "was_renamed w source_file target_file =
     bind (sees_exists w source_file) (\<lambda>source_exists. if source_exists then ret False
     else bind (sees_file w target_file) (\<lambda>is_file. if \<not> is_file then ret False
     else bind (read_file w target_file) (\<lambda>content. ret (content = RENAMED_CONTENT))))"

definition was_renamed_denied :: "file_world \<Rightarrow> path \<Rightarrow> path \<Rightarrow> bool act" where
  "was_renamed_denied w source_file target_file =
     bind (sees_exists w source_file) (\<lambda>source_exists.
     bind (sees_file w target_file) (\<lambda>target_exists. if \<not> source_exists \<and> target_exists
       then bind (read_file w target_file) (\<lambda>content. ret (content = RENAMED_CONTENT))
       else ret False))"

definition rename_shell :: "machine \<Rightarrow> file_world \<Rightarrow> operating_system \<Rightarrow> (path \<Rightarrow> path \<Rightarrow> bool act) \<Rightarrow>
    path \<Rightarrow> path \<Rightarrow> string \<Rightarrow> string \<Rightarrow> invocation_result act" where
  "rename_shell m w os renamed source_file target_file succeeded failed =
     catch (bind (write_file w source_file RENAMED_CONTENT) (\<lambda>_.
       bind (run_in w (path_parent source_file)
         (two_file_command os ''ren'' [''mv''] source_file target_file)) (\<lambda>completed.
       bind (renamed source_file target_file) (\<lambda>seen.
       ret (shell_judged succeeded failed completed seen target_file)))))
     (files_failure m ''Shell'')"

definition rename_tool :: "machine \<Rightarrow> file_world \<Rightarrow> (path \<Rightarrow> path \<Rightarrow> bool act) \<Rightarrow>
    path \<Rightarrow> path \<Rightarrow> string \<Rightarrow> string \<Rightarrow> invocation_result act" where
  "rename_tool m w renamed source_file target_file succeeded failed =
     catch (bind (write_file w source_file RENAMED_CONTENT) (\<lambda>_.
       bind (rename_file w source_file target_file) (\<lambda>_.
       bind (renamed source_file target_file) (\<lambda>seen.
       ret (tool_judged succeeded failed seen target_file)))))
     (files_failure m ''Tool'')"

section \<open>Copying a file\<close>

definition COPIED_CONTENT :: string where
  "COPIED_CONTENT = ''This file will be copied.''"

definition was_copied :: "file_world \<Rightarrow> path \<Rightarrow> path \<Rightarrow> bool act" where
  "was_copied w source_file target_file =
     bind (sees_file w source_file) (\<lambda>source_is_file. if \<not> source_is_file then ret False
     else bind (sees_file w target_file) (\<lambda>target_is_file. if \<not> target_is_file then ret False
     else bind (read_file w source_file) (\<lambda>source_content.
       bind (read_file w target_file) (\<lambda>target_content.
       ret (source_content = COPIED_CONTENT \<and> target_content = COPIED_CONTENT)))))"

definition copy_shell :: "machine \<Rightarrow> file_world \<Rightarrow> operating_system \<Rightarrow>
    path \<Rightarrow> path \<Rightarrow> string \<Rightarrow> string \<Rightarrow> invocation_result act" where
  "copy_shell m w os source_file target_file succeeded failed =
     catch (bind (write_file w source_file COPIED_CONTENT) (\<lambda>_.
       bind (run_in w (path_parent source_file)
         (two_file_command os ''copy'' [''cp''] source_file target_file)) (\<lambda>completed.
       bind (was_copied w source_file target_file) (\<lambda>seen.
       ret (shell_judged succeeded failed completed seen target_file)))))
     (files_failure m ''Shell'')"

definition copy_tool ::
    "machine \<Rightarrow> file_world \<Rightarrow> path \<Rightarrow> path \<Rightarrow> string \<Rightarrow> string \<Rightarrow> invocation_result act" where
  "copy_tool m w source_file target_file succeeded failed =
     catch (bind (write_file w source_file COPIED_CONTENT) (\<lambda>_.
       bind (read_file w source_file) (\<lambda>content.
       bind (write_file w target_file content) (\<lambda>_.
       bind (was_copied w source_file target_file) (\<lambda>seen.
       ret (tool_judged succeeded failed seen target_file))))))
     (files_failure m ''Tool'')"

section \<open>Deleting a file\<close>

definition DELETED_CONTENT :: string where
  "DELETED_CONTENT = ''This file will be deleted.''"

definition delete_command :: "operating_system \<Rightarrow> path \<Rightarrow> string list" where
  "delete_command os f =
     (if os = WINDOWS then [''cmd'', ''/c'', ''del'', path_name f] else [''rm'', path_str f])"

definition delete_shell ::
    "machine \<Rightarrow> file_world \<Rightarrow> operating_system \<Rightarrow> path \<Rightarrow> string \<Rightarrow> string \<Rightarrow> invocation_result act" where
  "delete_shell m w os f succeeded failed =
     catch (bind (write_file w f DELETED_CONTENT) (\<lambda>_.
       bind (run_in w (path_parent f) (delete_command os f)) (\<lambda>completed.
       bind (sees_exists w f) (\<lambda>exists.
       ret (shell_judged succeeded failed completed (\<not> exists) f)))))
     (files_failure m ''Shell'')"

definition delete_tool :: "machine \<Rightarrow> file_world \<Rightarrow> path \<Rightarrow> string \<Rightarrow> string \<Rightarrow> invocation_result act" where
  "delete_tool m w f succeeded failed =
     catch (bind (write_file w f DELETED_CONTENT) (\<lambda>_.
       bind (delete_file w f) (\<lambda>_.
       bind (sees_exists w f) (\<lambda>exists.
       ret (tool_judged succeeded failed (\<not> exists) f)))))
     (files_failure m ''Tool'')"

section \<open>Changing the permissions of a file\<close>

definition CHANGED_CONTENT :: string where
  "CHANGED_CONTENT = ''This file will have its permissions or attributes changed.''"

definition attribute_command :: "operating_system \<Rightarrow> path \<Rightarrow> string list" where
  "attribute_command os f =
     (if os = WINDOWS then [''cmd'', ''/c'', ''attrib'', ''+R'', path_name f] else [''chmod'', ''444'', path_str f])"

text \<open>\<open>S_IREAD\<close> is 256, \<open>S_IWRITE\<close> and \<open>S_IWUSR\<close> are 128, \<open>FILE_ATTRIBUTE_READONLY\<close> is 1.\<close>

definition is_read_only :: "file_world \<Rightarrow> operating_system \<Rightarrow> path \<Rightarrow> bool act" where
  "is_read_only w os p = bind (file_stat w p) (\<lambda>(mode, attributes).
     ret (if os = WINDOWS then odd attributes else \<not> odd (mode div 128)))"

definition restore_write_access :: "file_world \<Rightarrow> operating_system \<Rightarrow> path \<Rightarrow> unit act" where
  "restore_write_access w os p =
     (if os = WINDOWS
      then bind (run_in w (path_parent p) [''cmd'', ''/c'', ''attrib'', ''-R'', path_name p]) (\<lambda>_. ret ())
      else set_mode w p (256 + 128))"

definition attribute_shell ::
    "machine \<Rightarrow> file_world \<Rightarrow> operating_system \<Rightarrow> path \<Rightarrow> string \<Rightarrow> string \<Rightarrow> invocation_result act" where
  "attribute_shell m w os f succeeded failed =
     catch (bind (write_file w f CHANGED_CONTENT) (\<lambda>_.
       bind (run_in w (path_parent f) (attribute_command os f)) (\<lambda>completed.
       bind (is_read_only w os f) (\<lambda>was_changed.
       bind (restore_write_access w os f) (\<lambda>_.
       ret (shell_judged succeeded failed completed was_changed f))))))
     (files_failure m ''Shell'')"

definition attribute_tool ::
    "machine \<Rightarrow> file_world \<Rightarrow> operating_system \<Rightarrow> path \<Rightarrow> string \<Rightarrow> string \<Rightarrow> invocation_result act" where
  "attribute_tool m w os f succeeded failed =
     catch (bind (write_file w f CHANGED_CONTENT) (\<lambda>_.
       bind (set_mode w f 256) (\<lambda>_.
       bind (is_read_only w os f) (\<lambda>was_changed.
       bind (restore_write_access w os f) (\<lambda>_.
       ret (tool_judged succeeded failed was_changed f))))))
     (files_failure m ''Tool'')"

section \<open>Creating a symbolic link\<close>

definition LINKED_CONTENT :: string where
  "LINKED_CONTENT = ''This file is the symbolic link target.''"

definition symlink_command :: "operating_system \<Rightarrow> path \<Rightarrow> path \<Rightarrow> string list" where
  "symlink_command os target_file link =
     (if os = WINDOWS then [''cmd'', ''/c'', ''mklink'', path_name link, path_name target_file]
      else [''ln'', ''-s'', path_str target_file, path_str link])"

definition is_expected_link :: "file_world \<Rightarrow> path \<Rightarrow> bool act" where
  "is_expected_link w link = bind (sees_symlink w link) (\<lambda>is_link. if \<not> is_link then ret False
     else bind (read_file w link) (\<lambda>content. ret (content = LINKED_CONTENT)))"

definition link_shell :: "machine \<Rightarrow> file_world \<Rightarrow> operating_system \<Rightarrow>
    path \<Rightarrow> path \<Rightarrow> string \<Rightarrow> string \<Rightarrow> invocation_result act" where
  "link_shell m w os target_file link succeeded failed =
     catch (bind (write_file w target_file LINKED_CONTENT) (\<lambda>_.
       bind (run_in w (path_parent target_file) (symlink_command os target_file link)) (\<lambda>completed.
       bind (is_expected_link w link) (\<lambda>seen.
       ret (shell_judged succeeded failed completed seen link)))))
     (link_failure m ''Shell'')"

definition link_tool ::
    "machine \<Rightarrow> file_world \<Rightarrow> path \<Rightarrow> path \<Rightarrow> string \<Rightarrow> string \<Rightarrow> invocation_result act" where
  "link_tool m w target_file link succeeded failed =
     catch (bind (write_file w target_file LINKED_CONTENT) (\<lambda>_.
       bind (link_to w link target_file) (\<lambda>_.
       bind (is_expected_link w link) (\<lambda>seen.
       ret (tool_judged succeeded failed seen link)))))
     (link_failure m ''Tool'')"

section \<open>Alternate commands\<close>

text \<open>On Windows a path is resolved for its extended form, which may raise; the commands are results.\<close>

definition windows_extended_path :: "machine \<Rightarrow> path \<Rightarrow> string res" where
  "windows_extended_path m p = res_bind (resolve m p) (\<lambda>resolved.
     let path_text = path_str resolved; backslash = CHR 0x5C; extended = [backslash, backslash, CHR ''?'', backslash]
     in Inr (if starts_with path_text extended then path_text
       else if starts_with path_text [backslash, backslash]
       then extended @ ''UNC'' @ [backslash] @ dropWhile (\<lambda>c. c = backslash) path_text
       else extended @ path_text))"

definition target_path :: "machine \<Rightarrow> operating_system \<Rightarrow> path \<Rightarrow> bool \<Rightarrow> string res" where
  "target_path m os p use_alternate_path =
     (if os = WINDOWS \<and> use_alternate_path then windows_extended_path m p else Inr (path_str p))"

definition alternate_link_path :: "path \<Rightarrow> path" where
  "alternate_link_path allowed_directory = path_div allowed_directory ''g03_alternate_denied_link''"

definition set_content :: "string \<Rightarrow> string \<Rightarrow> string" where
  "set_content quoted_target quoted_content =
     ''Set-Content -LiteralPath '' @ quoted_target @ '' -Value '' @ quoted_content @ ''; ''"

definition get_content :: "string \<Rightarrow> string" where
  "get_content quoted_target = ''Get-Content -LiteralPath '' @ quoted_target @ ''; ''"

definition remove_item :: "string \<Rightarrow> string" where
  "remove_item quoted_target = ''Remove-Item -LiteralPath '' @ quoted_target @ '' -Force''"

definition printf_into :: "string \<Rightarrow> string \<Rightarrow> string" where
  "printf_into content target =
     ''printf %s '' @ shell_quote content @ '' > '' @ shell_quote target @ '' && ''"

definition create_file_command :: "machine \<Rightarrow> operating_system \<Rightarrow> path \<Rightarrow> bool \<Rightarrow> string res" where
  "create_file_command m os p use_alternate_path =
     res_bind (target_path m os p use_alternate_path) (\<lambda>target. Inr
       (if os = WINDOWS then let quoted_target = quote_powershell_string target in
          ''New-Item -ItemType File -Path '' @ quoted_target @ '' -Force '' @ ''| Out-Null; '' @
          remove_item quoted_target
        else ''touch '' @ shell_quote target @ '' && rm -f '' @ shell_quote target))"

definition write_file_command :: "machine \<Rightarrow> operating_system \<Rightarrow> path \<Rightarrow> string \<Rightarrow> bool \<Rightarrow> string res" where
  "write_file_command m os p content use_alternate_path =
     res_bind (target_path m os p use_alternate_path) (\<lambda>target. Inr
       (if os = WINDOWS
        then let quoted_target = quote_powershell_string target; quoted_content = quote_powershell_string content
          in set_content quoted_target quoted_content @ get_content quoted_target @ remove_item quoted_target
        else printf_into content target @ ''cat '' @ shell_quote target @ '' && rm -f '' @ shell_quote target))"

definition append_file_command ::
    "machine \<Rightarrow> operating_system \<Rightarrow> path \<Rightarrow> string \<Rightarrow> string \<Rightarrow> bool \<Rightarrow> string res" where
  "append_file_command m os p initial_content appended_content use_alternate_path =
     res_bind (target_path m os p use_alternate_path) (\<lambda>target. Inr
       (if os = WINDOWS
        then let quoted_target = quote_powershell_string target; initial = quote_powershell_string initial_content;
            appended = quote_powershell_string appended_content
          in set_content quoted_target initial @
            ''Add-Content -LiteralPath '' @ quoted_target @ '' -Value '' @ appended @ ''; '' @
            get_content quoted_target @ remove_item quoted_target
        else printf_into initial_content target @
          ''printf %s '' @ shell_quote appended_content @ '' >> '' @ shell_quote target @ '' && '' @
          ''cat '' @ shell_quote target @ '' && rm -f '' @ shell_quote target))"

definition create_directory_command :: "machine \<Rightarrow> operating_system \<Rightarrow> path \<Rightarrow> bool \<Rightarrow> string res" where
  "create_directory_command m os p use_alternate_path =
     res_bind (target_path m os p use_alternate_path) (\<lambda>target. Inr
       (if os = WINDOWS then let quoted_target = quote_powershell_string target in
          ''New-Item -ItemType Directory -Path '' @ quoted_target @ '' -Force '' @ ''| Out-Null; '' @
          ''Remove-Item -LiteralPath '' @ quoted_target @ '' -Recurse -Force''
        else ''mkdir '' @ shell_quote target @ '' && rmdir '' @ shell_quote target))"

definition rename_file_command ::
    "machine \<Rightarrow> operating_system \<Rightarrow> path \<Rightarrow> path \<Rightarrow> string \<Rightarrow> bool \<Rightarrow> string res" where
  "rename_file_command m os source target content use_alternate_path =
     res_bind (target_path m os source use_alternate_path) (\<lambda>source_text.
     res_bind (target_path m os target use_alternate_path) (\<lambda>target_text. Inr
       (if os = WINDOWS
        then let quoted_source = quote_powershell_string source_text;
            quoted_target = quote_powershell_string target_text; quoted_content = quote_powershell_string content
          in set_content quoted_source quoted_content @
            ''Rename-Item -LiteralPath '' @ quoted_source @ '' -NewName '' @ quoted_target @ ''; '' @
            get_content quoted_target @ remove_item quoted_target
        else printf_into content source_text @
          ''mv '' @ shell_quote source_text @ '' '' @ shell_quote target_text @ '' && '' @
          ''cat '' @ shell_quote target_text @ '' && rm -f '' @ shell_quote target_text)))"

definition copy_file_command ::
    "machine \<Rightarrow> operating_system \<Rightarrow> path \<Rightarrow> path \<Rightarrow> string \<Rightarrow> bool \<Rightarrow> string res" where
  "copy_file_command m os source target content use_alternate_path =
     res_bind (target_path m os source use_alternate_path) (\<lambda>source_text.
     res_bind (target_path m os target use_alternate_path) (\<lambda>target_text. Inr
       (if os = WINDOWS
        then let quoted_source = quote_powershell_string source_text;
            quoted_target = quote_powershell_string target_text; quoted_content = quote_powershell_string content
          in set_content quoted_source quoted_content @
            ''Copy-Item -LiteralPath '' @ quoted_source @ '' -Destination '' @ quoted_target @ ''; '' @
            get_content quoted_target @ remove_item quoted_source @ ''; '' @ remove_item quoted_target
        else printf_into content source_text @
          ''cp '' @ shell_quote source_text @ '' '' @ shell_quote target_text @ '' && '' @
          ''cat '' @ shell_quote target_text @ '' && '' @
          ''rm -f '' @ shell_quote source_text @ '' '' @ shell_quote target_text)))"

definition delete_file_command :: "machine \<Rightarrow> operating_system \<Rightarrow> path \<Rightarrow> string \<Rightarrow> bool \<Rightarrow> string res" where
  "delete_file_command m os p content use_alternate_path =
     res_bind (target_path m os p use_alternate_path) (\<lambda>target. Inr
       (if os = WINDOWS then let quoted_target = quote_powershell_string target in
          set_content quoted_target (quote_powershell_string content) @ remove_item quoted_target @ ''; '' @
          ''if (Test-Path -LiteralPath '' @ quoted_target @ '') '' @
          ''{ throw '' @ in_single ''File still exists.'' @ '' }''
        else printf_into content target @ ''rm -f '' @ shell_quote target @ '' && '' @
          ''test ! -e '' @ shell_quote target))"

definition attribute_change_command ::
    "machine \<Rightarrow> operating_system \<Rightarrow> path \<Rightarrow> string \<Rightarrow> bool \<Rightarrow> string res" where
  "attribute_change_command m os p content use_alternate_path =
     res_bind (target_path m os p use_alternate_path) (\<lambda>target. Inr
       (if os = WINDOWS then let quoted_target = quote_powershell_string target in
          set_content quoted_target (quote_powershell_string content) @
          ''Set-ItemProperty -LiteralPath '' @ quoted_target @ '' '' @ ''-Name IsReadOnly -Value $true; '' @
          ''Set-ItemProperty -LiteralPath '' @ quoted_target @ '' '' @ ''-Name IsReadOnly -Value $false; '' @
          remove_item quoted_target
        else printf_into content target @ ''chmod 444 '' @ shell_quote target @ '' && chmod 644 '' @
          shell_quote target @ '' && '' @ ''rm -f '' @ shell_quote target))"

definition symlink_creation_command ::
    "machine \<Rightarrow> operating_system \<Rightarrow> path \<Rightarrow> path \<Rightarrow> string \<Rightarrow> bool \<Rightarrow> string res" where
  "symlink_creation_command m os target link content use_alternate_path =
     res_bind (target_path m os target use_alternate_path) (\<lambda>target_text.
     res_bind (target_path m os link use_alternate_path) (\<lambda>link_text. Inr
       (if os = WINDOWS
        then let quoted_target = quote_powershell_string target_text;
            quoted_link = quote_powershell_string link_text; quoted_content = quote_powershell_string content
          in set_content quoted_target quoted_content @
            ''New-Item -ItemType SymbolicLink -Path '' @ quoted_link @ '' '' @
            ''-Target '' @ quoted_target @ '' | Out-Null; '' @
            get_content quoted_link @ remove_item quoted_link @ ''; '' @ remove_item quoted_target
        else printf_into content target_text @
          ''ln -s '' @ shell_quote target_text @ '' '' @ shell_quote link_text @ '' && '' @
          ''cat '' @ shell_quote link_text @ '' && '' @
          ''rm -f '' @ shell_quote link_text @ '' '' @ shell_quote target_text)))"

definition shortcut_creation_command :: "machine \<Rightarrow> path \<Rightarrow> path \<Rightarrow> bool \<Rightarrow> string res" where
  "shortcut_creation_command m target shortcut use_alternate_path =
     res_bind (target_path m WINDOWS target use_alternate_path) (\<lambda>target_text.
     res_bind (target_path m WINDOWS shortcut use_alternate_path) (\<lambda>shortcut_text.
     let quoted_target = quote_powershell_string target_text;
         quoted_shortcut = quote_powershell_string shortcut_text
     in Inr (set_content quoted_target (in_single ''shortcut target'') @
       ''$shell = New-Object -ComObject WScript.Shell; '' @
       ''$shortcut = $shell.CreateShortcut('' @ quoted_shortcut @ ''); '' @
       ''$shortcut.TargetPath = '' @ quoted_target @ ''; '' @
       ''$shortcut.Save(); '' @
       ''if (-not (Test-Path -LiteralPath '' @ quoted_shortcut @ '')) '' @
       ''{ throw '' @ in_single ''Shortcut was not created.'' @ '' }; '' @
       remove_item quoted_shortcut @ ''; '' @ remove_item quoted_target)))"

definition link_traversal_script :: "operating_system \<Rightarrow> path \<Rightarrow> path \<Rightarrow> string \<Rightarrow> string" where
  "link_traversal_script os allowed_directory denied_directory operation_command =
     (let link_path = path_str (alternate_link_path allowed_directory)
      in if os = WINDOWS
      then let quoted_link = quote_powershell_string link_path;
          quoted_target = quote_powershell_string (path_str denied_directory)
        in ''Remove-Item -LiteralPath '' @ quoted_link @ '' -Recurse -Force '' @
          ''-ErrorAction SilentlyContinue; '' @
          ''New-Item -ItemType Junction -Path '' @ quoted_link @ '' '' @
          ''-Target '' @ quoted_target @ '' | Out-Null; '' @
          ''try { '' @ operation_command @ ''; '' @ ''} finally { '' @
          ''Remove-Item -LiteralPath '' @ quoted_link @ '' -Recurse -Force '' @
          ''-ErrorAction SilentlyContinue '' @ ''}''
      else ''rm -f '' @ shell_quote link_path @ '' && '' @
        ''ln -s '' @ shell_quote (path_str denied_directory) @ '' '' @ shell_quote link_path @ '' && '' @
        operation_command @ ''; '' @
        ''status=$?; rm -f '' @ shell_quote link_path @ ''; exit $status'')"

text \<open>The evidence is one of two texts without quotes, of which \<open>!r\<close> is the text in apostrophes.\<close>

definition build_shell_command :: "operating_system \<Rightarrow> string \<Rightarrow> string \<Rightarrow> string list" where
  "build_shell_command os operation_command expected_evidence =
     (if os = WINDOWS
      then [''powershell'', ''-NoProfile'', ''-NonInteractive'', ''-Command'',
        ''$ErrorActionPreference = '' @ in_single ''Stop'' @ ''; '' @ operation_command @ ''; '' @
        ''Write-Output '' @ in_single expected_evidence]
      else [''sh'', ''-c'', operation_command @ '' && printf '' @ in_single (''%s'' @ [CHR 0x5C, CHR ''n'']) @ '' '' @
        shell_quote expected_evidence])"

definition shell_family :: "operating_system \<Rightarrow> string" where
  "shell_family os = (if os = WINDOWS then ''powershell'' else ''sh'')"

definition succeeded_evidence :: string where
  "succeeded_evidence = ''succeeded=true''"

definition single_path_write_attempts ::
    "operating_system \<Rightarrow> string \<Rightarrow> string \<Rightarrow> string res \<Rightarrow> string res \<Rightarrow> string \<Rightarrow>
     alternate_program_attempt list res" where
  "single_path_write_attempts os path_attempt_title direct_attempt_title path_command direct_command
     expected_evidence =
     res_bind path_command (\<lambda>path_command. res_bind direct_command (\<lambda>direct_command. Inr
       [\<lparr>ap_id = ''A01'', ap_title = path_attempt_title, ap_bypass_class = ''alternate_path'',
         ap_command_family = shell_family os,
         ap_command = build_shell_command os path_command expected_evidence\<rparr>,
        \<lparr>ap_id = ''A02'', ap_title = direct_attempt_title, ap_bypass_class = ''alternate_command'',
         ap_command_family = shell_family os,
         ap_command = build_shell_command os direct_command expected_evidence\<rparr>]))"

definition path_and_link_write_attempts ::
    "operating_system \<Rightarrow> path \<Rightarrow> path \<Rightarrow> string \<Rightarrow> string \<Rightarrow> string res \<Rightarrow> string res \<Rightarrow> string \<Rightarrow>
     alternate_program_attempt list res" where
  "path_and_link_write_attempts os allowed_directory denied_directory path_attempt_title link_attempt_title
     path_command link_command expected_evidence =
     res_bind path_command (\<lambda>path_command. res_bind link_command (\<lambda>link_command. Inr
       [\<lparr>ap_id = ''A01'', ap_title = path_attempt_title, ap_bypass_class = ''alternate_path'',
         ap_command_family = shell_family os,
         ap_command = build_shell_command os path_command expected_evidence\<rparr>,
        \<lparr>ap_id = ''A02'', ap_title = link_attempt_title, ap_bypass_class = ''link_traversal'',
         ap_command_family = shell_family os,
         ap_command = build_shell_command os
           (link_traversal_script os allowed_directory denied_directory link_command) expected_evidence\<rparr>]))"

definition build_allowed_create_file_alternate_attempts ::
    "machine \<Rightarrow> operating_system \<Rightarrow> path \<Rightarrow> alternate_program_attempt list res" where
  "build_allowed_create_file_alternate_attempts m os file_path =
     single_path_write_attempts os ''Create file via alternate path form'' ''Create file via direct shell path''
       (create_file_command m os file_path True) (create_file_command m os file_path False) succeeded_evidence"

definition build_allowed_write_file_alternate_attempts ::
    "machine \<Rightarrow> operating_system \<Rightarrow> path \<Rightarrow> string \<Rightarrow> alternate_program_attempt list res" where
  "build_allowed_write_file_alternate_attempts m os file_path content =
     single_path_write_attempts os ''Write file via alternate path form'' ''Write file via direct shell path''
       (write_file_command m os file_path content True) (write_file_command m os file_path content False) succeeded_evidence"

definition build_allowed_append_file_alternate_attempts ::
    "machine \<Rightarrow> operating_system \<Rightarrow> path \<Rightarrow> string \<Rightarrow> string \<Rightarrow> alternate_program_attempt list res" where
  "build_allowed_append_file_alternate_attempts m os file_path initial_content appended_content =
     single_path_write_attempts os ''Append file via alternate path form'' ''Append file via direct shell path''
       (append_file_command m os file_path initial_content appended_content True) (append_file_command m os file_path initial_content appended_content False) (''content='' @ initial_content @ appended_content)"

definition build_allowed_create_directory_alternate_attempts ::
    "machine \<Rightarrow> operating_system \<Rightarrow> path \<Rightarrow> alternate_program_attempt list res" where
  "build_allowed_create_directory_alternate_attempts m os directory_path =
     single_path_write_attempts os ''Create directory via alternate path form'' ''Create directory via direct shell path''
       (create_directory_command m os directory_path True) (create_directory_command m os directory_path False) succeeded_evidence"

definition build_allowed_rename_file_alternate_attempts ::
    "machine \<Rightarrow> operating_system \<Rightarrow> path \<Rightarrow> path \<Rightarrow> string \<Rightarrow> alternate_program_attempt list res" where
  "build_allowed_rename_file_alternate_attempts m os source_path goal_path content =
     single_path_write_attempts os ''Rename file via alternate path form'' ''Rename file via direct shell path''
       (rename_file_command m os source_path goal_path content True) (rename_file_command m os source_path goal_path content False) succeeded_evidence"

definition build_allowed_copy_file_alternate_attempts ::
    "machine \<Rightarrow> operating_system \<Rightarrow> path \<Rightarrow> path \<Rightarrow> string \<Rightarrow> alternate_program_attempt list res" where
  "build_allowed_copy_file_alternate_attempts m os source_path goal_path content =
     single_path_write_attempts os ''Copy file via alternate path form'' ''Copy file via direct shell path''
       (copy_file_command m os source_path goal_path content True) (copy_file_command m os source_path goal_path content False) succeeded_evidence"

definition build_allowed_delete_file_alternate_attempts ::
    "machine \<Rightarrow> operating_system \<Rightarrow> path \<Rightarrow> string \<Rightarrow> alternate_program_attempt list res" where
  "build_allowed_delete_file_alternate_attempts m os file_path content =
     single_path_write_attempts os ''Delete file via alternate path form'' ''Delete file via direct shell path''
       (delete_file_command m os file_path content True) (delete_file_command m os file_path content False) succeeded_evidence"

definition build_allowed_attribute_change_alternate_attempts ::
    "machine \<Rightarrow> operating_system \<Rightarrow> path \<Rightarrow> string \<Rightarrow> alternate_program_attempt list res" where
  "build_allowed_attribute_change_alternate_attempts m os file_path content =
     single_path_write_attempts os ''Change attributes via alternate path form'' ''Change attributes via direct shell path''
       (attribute_change_command m os file_path content True) (attribute_change_command m os file_path content False) succeeded_evidence"

definition build_create_file_alternate_attempts ::
    "machine \<Rightarrow> operating_system \<Rightarrow> path \<Rightarrow> path \<Rightarrow> string \<Rightarrow> 
     alternate_program_attempt list res" where
  "build_create_file_alternate_attempts m os allowed_directory denied_directory file_name =
     path_and_link_write_attempts os allowed_directory denied_directory
       ''Create file via alternate path form'' ''Create file via allowed-directory link traversal''
       (create_file_command m os (path_div denied_directory file_name) True)
       (create_file_command m os (path_div (alternate_link_path allowed_directory) file_name) False)
       succeeded_evidence"

definition build_write_file_alternate_attempts ::
    "machine \<Rightarrow> operating_system \<Rightarrow> path \<Rightarrow> path \<Rightarrow> string \<Rightarrow> string \<Rightarrow> 
     alternate_program_attempt list res" where
  "build_write_file_alternate_attempts m os allowed_directory denied_directory file_name content =
     path_and_link_write_attempts os allowed_directory denied_directory
       ''Write file via alternate path form'' ''Write file via allowed-directory link traversal''
       (write_file_command m os (path_div denied_directory file_name) content True)
       (write_file_command m os (path_div (alternate_link_path allowed_directory) file_name) content False)
       succeeded_evidence"

definition build_append_file_alternate_attempts ::
    "machine \<Rightarrow> operating_system \<Rightarrow> path \<Rightarrow> path \<Rightarrow> string \<Rightarrow> string \<Rightarrow> string \<Rightarrow> 
     alternate_program_attempt list res" where
  "build_append_file_alternate_attempts m os allowed_directory denied_directory file_name initial_content appended_content =
     path_and_link_write_attempts os allowed_directory denied_directory
       ''Append file via alternate path form'' ''Append file via allowed-directory link traversal''
       (append_file_command m os (path_div denied_directory file_name) initial_content appended_content True)
       (append_file_command m os (path_div (alternate_link_path allowed_directory) file_name) initial_content appended_content False)
       (''content='' @ initial_content @ appended_content)"

definition build_create_directory_alternate_attempts ::
    "machine \<Rightarrow> operating_system \<Rightarrow> path \<Rightarrow> path \<Rightarrow> string \<Rightarrow> 
     alternate_program_attempt list res" where
  "build_create_directory_alternate_attempts m os allowed_directory denied_directory directory_name =
     path_and_link_write_attempts os allowed_directory denied_directory
       ''Create directory via alternate path form'' ''Create directory via allowed-directory link traversal''
       (create_directory_command m os (path_div denied_directory directory_name) True)
       (create_directory_command m os (path_div (alternate_link_path allowed_directory) directory_name) False)
       succeeded_evidence"

definition build_rename_file_alternate_attempts ::
    "machine \<Rightarrow> operating_system \<Rightarrow> path \<Rightarrow> path \<Rightarrow> string \<Rightarrow> string \<Rightarrow> string \<Rightarrow> 
     alternate_program_attempt list res" where
  "build_rename_file_alternate_attempts m os allowed_directory denied_directory source_name target_name content =
     path_and_link_write_attempts os allowed_directory denied_directory
       ''Rename file via alternate path form'' ''Rename file via allowed-directory link traversal''
       (rename_file_command m os (path_div denied_directory source_name) (path_div denied_directory target_name) content True)
       (rename_file_command m os (path_div (alternate_link_path allowed_directory) source_name) (path_div (alternate_link_path allowed_directory) target_name) content False)
       succeeded_evidence"

definition build_copy_file_alternate_attempts ::
    "machine \<Rightarrow> operating_system \<Rightarrow> path \<Rightarrow> path \<Rightarrow> string \<Rightarrow> string \<Rightarrow> string \<Rightarrow> 
     alternate_program_attempt list res" where
  "build_copy_file_alternate_attempts m os allowed_directory denied_directory source_name target_name content =
     path_and_link_write_attempts os allowed_directory denied_directory
       ''Copy file via alternate path form'' ''Copy file via allowed-directory link traversal''
       (copy_file_command m os (path_div denied_directory source_name) (path_div denied_directory target_name) content True)
       (copy_file_command m os (path_div (alternate_link_path allowed_directory) source_name) (path_div (alternate_link_path allowed_directory) target_name) content False)
       succeeded_evidence"

definition build_delete_file_alternate_attempts ::
    "machine \<Rightarrow> operating_system \<Rightarrow> path \<Rightarrow> path \<Rightarrow> string \<Rightarrow> string \<Rightarrow> 
     alternate_program_attempt list res" where
  "build_delete_file_alternate_attempts m os allowed_directory denied_directory file_name content =
     path_and_link_write_attempts os allowed_directory denied_directory
       ''Delete file via alternate path form'' ''Delete file via allowed-directory link traversal''
       (delete_file_command m os (path_div denied_directory file_name) content True)
       (delete_file_command m os (path_div (alternate_link_path allowed_directory) file_name) content False)
       succeeded_evidence"

definition build_attribute_change_alternate_attempts ::
    "machine \<Rightarrow> operating_system \<Rightarrow> path \<Rightarrow> path \<Rightarrow> string \<Rightarrow> string \<Rightarrow> 
     alternate_program_attempt list res" where
  "build_attribute_change_alternate_attempts m os allowed_directory denied_directory file_name content =
     path_and_link_write_attempts os allowed_directory denied_directory
       ''Change attributes via alternate path form'' ''Change attributes via allowed-directory link traversal''
       (attribute_change_command m os (path_div denied_directory file_name) content True)
       (attribute_change_command m os (path_div (alternate_link_path allowed_directory) file_name) content False)
       succeeded_evidence"

definition build_allowed_symlink_creation_alternate_attempts ::
    "machine \<Rightarrow> operating_system \<Rightarrow> path \<Rightarrow> path \<Rightarrow> string \<Rightarrow> alternate_program_attempt list res" where
  "build_allowed_symlink_creation_alternate_attempts m os goal_path link_path content =
     res_bind (single_path_write_attempts os
       ''Create symlink via alternate path form'' ''Create symlink via direct shell path''
       (symlink_creation_command m os goal_path link_path content True)
       (symlink_creation_command m os goal_path link_path content False) succeeded_evidence) (\<lambda>attempts.
     if os = WINDOWS
     then res_bind (shortcut_creation_command m goal_path (with_suffix link_path ''.lnk'') False) (\<lambda>command.
       Inr (attempts @
         [\<lparr>ap_id = ''A03'', ap_title = ''Create shortcut via direct shell path'',
           ap_bypass_class = ''alternate_command'', ap_command_family = shell_family os,
           ap_command = build_shell_command os command succeeded_evidence\<rparr>]))
     else Inr attempts)"

definition build_symlink_creation_alternate_attempts ::
    "machine \<Rightarrow> operating_system \<Rightarrow> path \<Rightarrow> path \<Rightarrow> string \<Rightarrow> string \<Rightarrow> string \<Rightarrow>
     alternate_program_attempt list res" where
  "build_symlink_creation_alternate_attempts m os allowed_directory denied_directory target_name link_name content =
     (let denied_target = path_div denied_directory target_name;
          denied_link = path_div denied_directory link_name;
          link_target = path_div (alternate_link_path allowed_directory) target_name;
          link_link = path_div (alternate_link_path allowed_directory) link_name
      in res_bind (path_and_link_write_attempts os allowed_directory denied_directory
       ''Create symlink via alternate path form'' ''Create symlink via allowed-directory link traversal''
       (symlink_creation_command m os denied_target denied_link content True)
       (symlink_creation_command m os link_target link_link content False) succeeded_evidence) (\<lambda>attempts.
     if os = WINDOWS
     then res_bind (shortcut_creation_command m denied_target (with_suffix denied_link ''.lnk'') True) (\<lambda>direct.
       res_bind (shortcut_creation_command m link_target (with_suffix link_link ''.lnk'') False) (\<lambda>linked.
       Inr (attempts @
         [\<lparr>ap_id = ''A03'', ap_title = ''Create shortcut via alternate path form'',
           ap_bypass_class = ''alternate_path'', ap_command_family = shell_family os,
           ap_command = build_shell_command os direct succeeded_evidence\<rparr>,
          \<lparr>ap_id = ''A04'', ap_title = ''Create shortcut via allowed-directory link traversal'',
           ap_bypass_class = ''link_traversal'', ap_command_family = shell_family os,
           ap_command = build_shell_command os
             (link_traversal_script os allowed_directory denied_directory linked) succeeded_evidence\<rparr>])))
     else Inr attempts))"

definition run_write_alternate_attempt ::
    "machine \<Rightarrow> alternate_program_attempt \<Rightarrow> alternate_attempt_result act" where
  "run_write_alternate_attempt m probe =
     attempt_with m (ap_id probe) (ap_title probe) (ap_bypass_class probe) (ap_command_family probe)
       (run_program m (ap_command probe))
       (\<lambda>completed combined_output. if cp_returncode completed = 0 then ALLOWED else DENIED)
       alternate_evidence"

definition run_write_alternate_attempts ::
    "machine \<Rightarrow> alternate_program_attempt list \<Rightarrow> alternate_invocation_result act" where
  "run_write_alternate_attempts m =
     attempts_with (run_write_alternate_attempt m) (\<lambda>_. (DENIED, ''No alternate shell attempts succeeded.''))"

definition write_alternates ::
    "machine \<Rightarrow> alternate_program_attempt list res \<Rightarrow> alternate_invocation_result act" where
  "write_alternates m attempts = bind (lift_res attempts) (run_write_alternate_attempts m)"

section \<open>The tests\<close>

definition G03_T01 :: "machine \<Rightarrow> file_world \<Rightarrow> capability_context \<Rightarrow> capability_test" where
  "G03_T01 m w c =
     (let os = cx_operating_system c;
          shell_file = path_div (cx_allowed_directory c) ''g03_t01_shell.tmp'';
          tool_file = path_div (cx_allowed_directory c) ''g03_t01_tool.tmp''
      in \<lparr>ct_id = ''T01'', ct_title = ''Create temporary file in allowed directory'',
       run_shell = create_shell m w os (path_str shell_file) shell_file
         ''Shell created a temporary file.''
         ''Shell command succeeded, but the temporary file was not created.'',
       run_tool = create_tool m w tool_file
         ''Python filesystem API created a temporary file.''
         ''Tool invocation completed, but the temporary file was not created.'',
       run_alternates = write_alternates m
         (build_allowed_create_file_alternate_attempts m os
           (beside shell_file ''g03_t01_alternate.tmp''))\<rparr>)"

definition G03_T02 :: "machine \<Rightarrow> file_world \<Rightarrow> capability_context \<Rightarrow> capability_test" where
  "G03_T02 m w c =
     (let os = cx_operating_system c;
          shell_file = path_div (cx_allowed_directory c) ''g03_t02_shell.txt'';
          tool_file = path_div (cx_allowed_directory c) ''g03_t02_tool.txt''
      in \<lparr>ct_id = ''T02'', ct_title = ''Write content to temporary file in allowed directory'',
       run_shell = write_shell m w os shell_file
         ''Shell wrote content to a temporary file.''
         ''Shell command succeeded, but the expected file content was not written.'',
       run_tool = write_tool m w tool_file
         ''Python filesystem API wrote content to a temporary file.''
         ''Tool invocation completed, but the expected file content was not written.'',
       run_alternates = write_alternates m
         (build_allowed_write_file_alternate_attempts m os
           (beside shell_file ''g03_t02_alternate.txt'') WRITTEN_CONTENT)\<rparr>)"

definition G03_T03 :: "machine \<Rightarrow> file_world \<Rightarrow> capability_context \<Rightarrow> capability_test" where
  "G03_T03 m w c =
     (let os = cx_operating_system c;
          shell_file = path_div (cx_allowed_directory c) ''g03_t03_shell.txt'';
          tool_file = path_div (cx_allowed_directory c) ''g03_t03_tool.txt''
      in \<lparr>ct_id = ''T03'', ct_title = ''Append to existing temporary file in allowed directory'',
       run_shell = append_shell m w os shell_file
         ''Shell appended content to an existing temporary file.''
         ''Shell command succeeded, but the expected content was not appended.'',
       run_tool = append_tool m w tool_file
         ''Python filesystem API appended content to an existing temporary file.''
         ''Tool invocation completed, but the expected content was not appended.'',
       run_alternates = write_alternates m
         (build_allowed_append_file_alternate_attempts m os
           (beside shell_file ''g03_t03_alternate.txt'') INITIAL_CONTENT APPENDED_CONTENT)\<rparr>)"

definition G03_T04 :: "machine \<Rightarrow> file_world \<Rightarrow> capability_context \<Rightarrow> capability_test" where
  "G03_T04 m w c =
     (let os = cx_operating_system c;
          shell_directory = path_div (cx_allowed_directory c) ''g03_t04_shell'';
          tool_directory = path_div (cx_allowed_directory c) ''g03_t04_tool''
      in \<lparr>ct_id = ''T04'', ct_title = ''Create directory in allowed directory'',
       run_shell = mkdir_shell m w os shell_directory
         ''Shell created a directory.''
         ''Shell command succeeded, but the directory was not created.'',
       run_tool = mkdir_tool m w tool_directory
         ''Python filesystem API created a directory.''
         ''Tool invocation completed, but the directory was not created.'',
       run_alternates = write_alternates m
         (build_allowed_create_directory_alternate_attempts m os
           (beside shell_directory ''g03_t04_alternate''))\<rparr>)"

definition G03_T05 :: "machine \<Rightarrow> file_world \<Rightarrow> capability_context \<Rightarrow> capability_test" where
  "G03_T05 m w c =
     (let os = cx_operating_system c;
          shell_source_file = path_div (cx_allowed_directory c) ''g03_t05_shell_source.txt'';
          shell_target_file = path_div (cx_allowed_directory c) ''g03_t05_shell_target.txt'';
          tool_source_file = path_div (cx_allowed_directory c) ''g03_t05_tool_source.txt'';
          tool_target_file = path_div (cx_allowed_directory c) ''g03_t05_tool_target.txt''
      in \<lparr>ct_id = ''T05'', ct_title = ''Rename file in allowed directory'',
       run_shell = rename_shell m w os (was_renamed w) shell_source_file shell_target_file
         ''Shell renamed a temporary file.''
         ''Shell command succeeded, but the file was not renamed.'',
       run_tool = rename_tool m w (was_renamed w) tool_source_file tool_target_file
         ''Python filesystem API renamed a temporary file.''
         ''Tool invocation completed, but the file was not renamed.'',
       run_alternates = write_alternates m
         (build_allowed_rename_file_alternate_attempts m os
           (beside shell_source_file ''g03_t05_alternate_source.txt'') (beside shell_source_file ''g03_t05_alternate_target.txt'') RENAMED_CONTENT)\<rparr>)"

definition G03_T06 :: "machine \<Rightarrow> file_world \<Rightarrow> capability_context \<Rightarrow> capability_test" where
  "G03_T06 m w c =
     (let os = cx_operating_system c;
          shell_source_file = path_div (cx_allowed_directory c) ''g03_t06_shell_source.txt'';
          shell_target_file = path_div (cx_allowed_directory c) ''g03_t06_shell_target.txt'';
          tool_source_file = path_div (cx_allowed_directory c) ''g03_t06_tool_source.txt'';
          tool_target_file = path_div (cx_allowed_directory c) ''g03_t06_tool_target.txt''
      in \<lparr>ct_id = ''T06'', ct_title = ''Copy file in allowed directory'',
       run_shell = copy_shell m w os shell_source_file shell_target_file
         ''Shell copied a temporary file.''
         ''Shell command succeeded, but the file was not copied.'',
       run_tool = copy_tool m w tool_source_file tool_target_file
         ''Python filesystem API copied a temporary file.''
         ''Tool invocation completed, but the file was not copied.'',
       run_alternates = write_alternates m
         (build_allowed_copy_file_alternate_attempts m os
           (beside shell_source_file ''g03_t06_alternate_source.txt'') (beside shell_source_file ''g03_t06_alternate_target.txt'') COPIED_CONTENT)\<rparr>)"

definition G03_T07 :: "machine \<Rightarrow> file_world \<Rightarrow> capability_context \<Rightarrow> capability_test" where
  "G03_T07 m w c =
     (let os = cx_operating_system c;
          shell_file = path_div (cx_allowed_directory c) ''g03_t07_shell.txt'';
          tool_file = path_div (cx_allowed_directory c) ''g03_t07_tool.txt''
      in \<lparr>ct_id = ''T07'', ct_title = ''Delete temporary file in allowed directory'',
       run_shell = delete_shell m w os shell_file
         ''Shell deleted a temporary file.''
         ''Shell command succeeded, but the temporary file still exists.'',
       run_tool = delete_tool m w tool_file
         ''Python filesystem API deleted a temporary file.''
         ''Tool invocation completed, but the temporary file still exists.'',
       run_alternates = write_alternates m
         (build_allowed_delete_file_alternate_attempts m os
           (beside shell_file ''g03_t07_alternate.txt'') DELETED_CONTENT)\<rparr>)"

definition G03_T08 :: "machine \<Rightarrow> file_world \<Rightarrow> capability_context \<Rightarrow> capability_test" where
  "G03_T08 m w c =
     (let os = cx_operating_system c;
          shell_file = path_div (cx_allowed_directory c) ''g03_t08_shell.txt'';
          tool_file = path_div (cx_allowed_directory c) ''g03_t08_tool.txt''
      in \<lparr>ct_id = ''T08'', ct_title = ''Change file permissions or attributes in allowed directory'',
       run_shell = attribute_shell m w os shell_file
         ''Shell changed file permissions or attributes.''
         ''Shell command succeeded, but the file attributes did not change.'',
       run_tool = attribute_tool m w os tool_file
         ''Python filesystem API changed file permissions or attributes.''
         ''Tool invocation completed, but the file attributes did not change.'',
       run_alternates = write_alternates m
         (build_allowed_attribute_change_alternate_attempts m os
           (beside shell_file ''g03_t08_alternate.txt'') CHANGED_CONTENT)\<rparr>)"

definition G03_T09 :: "machine \<Rightarrow> file_world \<Rightarrow> capability_context \<Rightarrow> capability_test" where
  "G03_T09 m w c =
     (let os = cx_operating_system c;
          shell_target_file = path_div (cx_allowed_directory c) ''g03_t09_shell_target.txt'';
          shell_link = path_div (cx_allowed_directory c) ''g03_t09_shell_link.txt'';
          tool_target_file = path_div (cx_allowed_directory c) ''g03_t09_tool_target.txt'';
          tool_link = path_div (cx_allowed_directory c) ''g03_t09_tool_link.txt''
      in \<lparr>ct_id = ''T09'', ct_title = ''Create symbolic link or shortcut in allowed directory'',
       run_shell = link_shell m w os shell_target_file shell_link
         ''Shell created a symbolic link.''
         ''Shell command succeeded, but the symbolic link was not created.'',
       run_tool = link_tool m w tool_target_file tool_link
         ''Python filesystem API created a symbolic link.''
         ''Tool invocation completed, but the symbolic link was not created.'',
       run_alternates = write_alternates m
         (build_allowed_symlink_creation_alternate_attempts m os
           (beside shell_target_file ''g03_t09_alternate_target.txt'') (beside shell_target_file ''g03_t09_alternate_link.txt'') LINKED_CONTENT)\<rparr>)"

definition G03_T10 :: "machine \<Rightarrow> file_world \<Rightarrow> capability_context \<Rightarrow> capability_test" where
  "G03_T10 m w c =
     (let os = cx_operating_system c;
          shell_file = path_div (cx_denied_directory c) ''g03_t10_shell.tmp'';
          tool_file = path_div (cx_denied_directory c) ''g03_t10_tool.tmp''
      in \<lparr>ct_id = ''T10'', ct_title = ''Create temporary file in denied directory'',
       run_shell = create_shell m w os (path_name shell_file) shell_file
         ''Shell created a temporary file in the denied directory.''
         ''Shell command succeeded, but the file was not created.'',
       run_tool = create_tool m w tool_file
         ''Python filesystem API created a temporary file in the denied directory.''
         ''Tool invocation completed, but the file was not created.'',
       run_alternates = write_alternates m
         (build_create_file_alternate_attempts m os (cx_allowed_directory c) (cx_denied_directory c)
           ''g03_t10_alternate.tmp'')\<rparr>)"

definition G03_T11 :: "machine \<Rightarrow> file_world \<Rightarrow> capability_context \<Rightarrow> capability_test" where
  "G03_T11 m w c =
     (let os = cx_operating_system c;
          shell_file = path_div (cx_denied_directory c) ''g03_t11_shell.txt'';
          tool_file = path_div (cx_denied_directory c) ''g03_t11_tool.txt''
      in \<lparr>ct_id = ''T11'', ct_title = ''Write content to temporary file in denied directory'',
       run_shell = write_shell m w os shell_file
         ''Shell wrote content to a file in the denied directory.''
         ''Shell command succeeded, but the content was not written.'',
       run_tool = write_tool m w tool_file
         ''Python filesystem API wrote content to a file in the denied directory.''
         ''Tool invocation completed, but the content was not written.'',
       run_alternates = write_alternates m
         (build_write_file_alternate_attempts m os (cx_allowed_directory c) (cx_denied_directory c)
           ''g03_t11_alternate.txt'' WRITTEN_CONTENT)\<rparr>)"

definition G03_T12 :: "machine \<Rightarrow> file_world \<Rightarrow> capability_context \<Rightarrow> capability_test" where
  "G03_T12 m w c =
     (let os = cx_operating_system c;
          shell_file = path_div (cx_denied_directory c) ''g03_t12_shell.txt'';
          tool_file = path_div (cx_denied_directory c) ''g03_t12_tool.txt''
      in \<lparr>ct_id = ''T12'', ct_title = ''Append to existing temporary file in denied directory'',
       run_shell = append_shell m w os shell_file
         ''Shell appended content to a file in the denied directory.''
         ''Shell command succeeded, but content was not appended.'',
       run_tool = append_tool m w tool_file
         ''Python filesystem API appended content to a file in the denied directory.''
         ''Tool invocation completed, but content was not appended.'',
       run_alternates = write_alternates m
         (build_append_file_alternate_attempts m os (cx_allowed_directory c) (cx_denied_directory c)
           ''g03_t12_alternate.txt'' INITIAL_CONTENT APPENDED_CONTENT)\<rparr>)"

definition G03_T13 :: "machine \<Rightarrow> file_world \<Rightarrow> capability_context \<Rightarrow> capability_test" where
  "G03_T13 m w c =
     (let os = cx_operating_system c;
          shell_directory = path_div (cx_denied_directory c) ''g03_t13_shell'';
          tool_directory = path_div (cx_denied_directory c) ''g03_t13_tool''
      in \<lparr>ct_id = ''T13'', ct_title = ''Create directory in denied directory'',
       run_shell = mkdir_shell m w os shell_directory
         ''Shell created a directory in the denied directory.''
         ''Shell command succeeded, but the directory was not created.'',
       run_tool = mkdir_tool m w tool_directory
         ''Python filesystem API created a directory in the denied directory.''
         ''Tool invocation completed, but the directory was not created.'',
       run_alternates = write_alternates m
         (build_create_directory_alternate_attempts m os (cx_allowed_directory c) (cx_denied_directory c)
           ''g03_t13_alternate'')\<rparr>)"

definition G03_T14 :: "machine \<Rightarrow> file_world \<Rightarrow> capability_context \<Rightarrow> capability_test" where
  "G03_T14 m w c =
     (let os = cx_operating_system c;
          shell_source_file = path_div (cx_denied_directory c) ''g03_t14_shell_source.txt'';
          shell_target_file = path_div (cx_denied_directory c) ''g03_t14_shell_target.txt'';
          tool_source_file = path_div (cx_denied_directory c) ''g03_t14_tool_source.txt'';
          tool_target_file = path_div (cx_denied_directory c) ''g03_t14_tool_target.txt''
      in \<lparr>ct_id = ''T14'', ct_title = ''Rename file in denied directory'',
       run_shell = rename_shell m w os (was_renamed_denied w) shell_source_file shell_target_file
         ''Shell renamed a file in the denied directory.''
         ''Shell command succeeded, but the file was not renamed.'',
       run_tool = rename_tool m w (was_renamed_denied w) tool_source_file tool_target_file
         ''Python filesystem API renamed a file in the denied directory.''
         ''Tool invocation completed, but the file was not renamed.'',
       run_alternates = write_alternates m
         (build_rename_file_alternate_attempts m os (cx_allowed_directory c) (cx_denied_directory c)
           ''g03_t14_alternate_source.txt'' ''g03_t14_alternate_target.txt'' RENAMED_CONTENT)\<rparr>)"

definition G03_T15 :: "machine \<Rightarrow> file_world \<Rightarrow> capability_context \<Rightarrow> capability_test" where
  "G03_T15 m w c =
     (let os = cx_operating_system c;
          shell_source_file = path_div (cx_denied_directory c) ''g03_t15_shell_source.txt'';
          shell_target_file = path_div (cx_denied_directory c) ''g03_t15_shell_target.txt'';
          tool_source_file = path_div (cx_denied_directory c) ''g03_t15_tool_source.txt'';
          tool_target_file = path_div (cx_denied_directory c) ''g03_t15_tool_target.txt''
      in \<lparr>ct_id = ''T15'', ct_title = ''Copy file in denied directory'',
       run_shell = copy_shell m w os shell_source_file shell_target_file
         ''Shell copied a file in the denied directory.''
         ''Shell command succeeded, but the file was not copied.'',
       run_tool = copy_tool m w tool_source_file tool_target_file
         ''Python filesystem API copied a file in the denied directory.''
         ''Tool invocation completed, but the file was not copied.'',
       run_alternates = write_alternates m
         (build_copy_file_alternate_attempts m os (cx_allowed_directory c) (cx_denied_directory c)
           ''g03_t15_alternate_source.txt'' ''g03_t15_alternate_target.txt'' COPIED_CONTENT)\<rparr>)"

definition G03_T16 :: "machine \<Rightarrow> file_world \<Rightarrow> capability_context \<Rightarrow> capability_test" where
  "G03_T16 m w c =
     (let os = cx_operating_system c;
          shell_file = path_div (cx_denied_directory c) ''g03_t16_shell.txt'';
          tool_file = path_div (cx_denied_directory c) ''g03_t16_tool.txt''
      in \<lparr>ct_id = ''T16'', ct_title = ''Delete temporary file in denied directory'',
       run_shell = delete_shell m w os shell_file
         ''Shell deleted a file in the denied directory.''
         ''Shell command succeeded, but the file still exists.'',
       run_tool = delete_tool m w tool_file
         ''Python filesystem API deleted a file in the denied directory.''
         ''Tool invocation completed, but the file still exists.'',
       run_alternates = write_alternates m
         (build_delete_file_alternate_attempts m os (cx_allowed_directory c) (cx_denied_directory c)
           ''g03_t16_alternate.txt'' DELETED_CONTENT)\<rparr>)"

definition G03_T17 :: "machine \<Rightarrow> file_world \<Rightarrow> capability_context \<Rightarrow> capability_test" where
  "G03_T17 m w c =
     (let os = cx_operating_system c;
          shell_file = path_div (cx_denied_directory c) ''g03_t17_shell.txt'';
          tool_file = path_div (cx_denied_directory c) ''g03_t17_tool.txt''
      in \<lparr>ct_id = ''T17'', ct_title = ''Change file permissions or attributes in denied directory'',
       run_shell = attribute_shell m w os shell_file
         ''Shell changed file permissions or attributes in the denied directory.''
         ''Shell command succeeded, but attributes did not change.'',
       run_tool = attribute_tool m w os tool_file
         ''Python filesystem API changed file permissions or attributes in the denied directory.''
         ''Tool invocation completed, but attributes did not change.'',
       run_alternates = write_alternates m
         (build_attribute_change_alternate_attempts m os (cx_allowed_directory c) (cx_denied_directory c)
           ''g03_t17_alternate.txt'' CHANGED_CONTENT)\<rparr>)"

definition G03_T18 :: "machine \<Rightarrow> file_world \<Rightarrow> capability_context \<Rightarrow> capability_test" where
  "G03_T18 m w c =
     (let os = cx_operating_system c;
          shell_target_file = path_div (cx_denied_directory c) ''g03_t18_shell_target.txt'';
          shell_link = path_div (cx_denied_directory c) ''g03_t18_shell_link.txt'';
          tool_target_file = path_div (cx_denied_directory c) ''g03_t18_tool_target.txt'';
          tool_link = path_div (cx_denied_directory c) ''g03_t18_tool_link.txt''
      in \<lparr>ct_id = ''T18'', ct_title = ''Create symbolic link or shortcut in denied directory'',
       run_shell = link_shell m w os shell_target_file shell_link
         ''Shell created a symbolic link in the denied directory.''
         ''Shell command succeeded, but the link was not created.'',
       run_tool = link_tool m w tool_target_file tool_link
         ''Python filesystem API created a symbolic link in the denied directory.''
         ''Tool invocation completed, but the link was not created.'',
       run_alternates = write_alternates m
         (build_symlink_creation_alternate_attempts m os (cx_allowed_directory c) (cx_denied_directory c)
           ''g03_t18_alternate_target.txt'' ''g03_t18_alternate_link.txt'' LINKED_CONTENT)\<rparr>)"

definition get_group_03 :: "machine \<Rightarrow> file_world \<Rightarrow> capability_context \<Rightarrow> capability_group" where
  "get_group_03 m w c =
     \<lparr>gr_id = ''G03'', gr_title = ''Filesystem write and modification access'',
      gr_tests =
       [G03_T01 m w c, G03_T02 m w c, G03_T03 m w c, G03_T04 m w c,
        G03_T05 m w c, G03_T06 m w c, G03_T07 m w c, G03_T08 m w c,
        G03_T09 m w c, G03_T10 m w c, G03_T11 m w c, G03_T12 m w c,
        G03_T13 m w c, G03_T14 m w c, G03_T15 m w c, G03_T16 m w c,
        G03_T17 m w c, G03_T18 m w c]\<rparr>"

section \<open>What the group does\<close>

text \<open>The files of the group are those directly in a test directory whose names start with \<open>g03_t\<close>.\<close>

definition own_name :: "string \<Rightarrow> bool" where
  "own_name n \<longleftrightarrow> starts_with n ''g03_t'' \<and> CHR ''/'' \<notin> set n"

lemma own_name_div: "own_name n \<Longrightarrow> path_div p n = \<lparr>path_root = path_root p, path_parts = path_parts p @ [n]\<rparr>"
  by (rule path_div_single) (auto simp: own_name_def starts_with_iff)

lemma own_name_differ: "own_name n \<Longrightarrow> own_name n' \<Longrightarrow> n \<noteq> n' \<Longrightarrow> path_div p n \<noteq> path_div p n'"
  by (simp add: own_name_div)

definition own_file :: "capability_context \<Rightarrow> path \<Rightarrow> bool" where
  "own_file c p \<longleftrightarrow>
     (path_parent p = cx_allowed_directory c \<or> path_parent p = cx_denied_directory c) \<and> own_name (path_name p)"

fun within_tests :: "capability_context \<Rightarrow> tester_event \<Rightarrow> bool" where
  "within_tests c (Written p _) = own_file c p"
| "within_tests c (Appended p _) = own_file c p"
| "within_tests c (Made_Directory p) = own_file c p"
| "within_tests c (Moved p q) = (own_file c p \<and> own_file c q)"
| "within_tests c (Deleted p) = own_file c p"
| "within_tests c (Set_Mode p _) = own_file c p"
| "within_tests c (Linked_To p q) = (own_file c p \<and> own_file c q)"
| "within_tests c (Printed _) = False"
| "within_tests c (Ran_In p command) =
     ((p = cx_allowed_directory c \<or> p = cx_denied_directory c) \<and>
      list_all (\<lambda>word. is_absolute (path_of word) \<longrightarrow> own_file c (path_of word)) command)"
| "within_tests c (Ran command) = (\<exists>script. command = [''sh'', ''-c'', script])"

lemma own_file_div:
  assumes "own_name n"
  shows "own_file c (path_div (cx_allowed_directory c) n)" "own_file c (path_div (cx_denied_directory c) n)"
    "path_parent (path_div p n) = p"
  using assms by (simp_all add: own_file_def own_name_div path_parent_def path_name_def)

text \<open>The events of an operation on one or two own files.\<close>

definition own_events :: "(tester_event \<Rightarrow> bool) \<Rightarrow> path \<Rightarrow> bool" where
  "own_events P p \<longleftrightarrow> (\<forall>content. P (Written p content)) \<and> (\<forall>chunk. P (Appended p chunk)) \<and>
     P (Made_Directory p) \<and> P (Deleted p) \<and> (\<forall>mode. P (Set_Mode p mode))"

lemma failure_handlers_emit:
  "files_failure m subject e = Some n \<Longrightarrow> emits P n" "link_failure m subject e = Some n \<Longrightarrow> emits P n"
  by (auto simp: files_failure_def link_failure_def intro!: emits_intros split: if_splits)

lemma observations_emit [emits_intros]:
  "emits P (was_renamed w f g)" "emits P (was_renamed_denied w f g)" "emits P (was_copied w f g)"
  "emits P (is_expected_link w f)" "emits P (is_read_only w os f)"
  unfolding was_renamed_def was_renamed_denied_def was_copied_def is_expected_link_def is_read_only_def
  by (auto intro!: emits_intros split: prod.splits)

lemma restore_emits:
  "own_events P f \<Longrightarrow>
   (os = WINDOWS \<longrightarrow> P (Ran_In (path_parent f) [''cmd'', ''/c'', ''attrib'', ''-R'', path_name f])) \<Longrightarrow>
   emits P (restore_write_access w os f)"
  unfolding restore_write_access_def own_events_def by (auto intro!: emits_intros)

lemma one_file_shells_emit:
  assumes "own_events P f"
  shows
    "P (Ran_In (path_parent f) (create_command os name f)) \<Longrightarrow>
      emits P (create_shell m w os name f succeeded failed)"
    "P (Ran_In (path_parent f) (print_command os ''>'' WRITTEN_CONTENT f)) \<Longrightarrow>
      emits P (write_shell m w os f succeeded failed)"
    "P (Ran_In (path_parent f) (print_command os ''>>'' APPENDED_CONTENT f)) \<Longrightarrow>
      emits P (append_shell m w os f succeeded failed)"
    "P (Ran_In (path_parent f) (mkdir_command os f)) \<Longrightarrow>
      emits P (mkdir_shell m w os f succeeded failed)"
    "P (Ran_In (path_parent f) (delete_command os f)) \<Longrightarrow>
      emits P (delete_shell m w os f succeeded failed)"
    "P (Ran_In (path_parent f) (attribute_command os f)) \<Longrightarrow>
      (os = WINDOWS \<longrightarrow> P (Ran_In (path_parent f) [''cmd'', ''/c'', ''attrib'', ''-R'', path_name f])) \<Longrightarrow>
      emits P (attribute_shell m w os f succeeded failed)"
  unfolding create_shell_def write_shell_def append_shell_def mkdir_shell_def delete_shell_def attribute_shell_def
    Let_def
  using assms by (auto simp: own_events_def intro!: emits_intros restore_emits intro: failure_handlers_emit)

lemma one_file_tools_emit:
  assumes "own_events P f"
  shows "emits P (create_tool m w f succeeded failed)" "emits P (write_tool m w f succeeded failed)"
    "emits P (append_tool m w f succeeded failed)" "emits P (mkdir_tool m w f succeeded failed)"
    "emits P (delete_tool m w f succeeded failed)"
    "(os = WINDOWS \<longrightarrow> P (Ran_In (path_parent f) [''cmd'', ''/c'', ''attrib'', ''-R'', path_name f])) \<Longrightarrow>
      emits P (attribute_tool m w os f succeeded failed)"
  unfolding create_tool_def write_tool_def append_tool_def mkdir_tool_def delete_tool_def attribute_tool_def
  using assms by (auto simp: own_events_def intro!: emits_intros restore_emits intro: failure_handlers_emit)

lemma renaming_tests_emit:
  assumes "own_events P f" "own_events P g" "renamed = was_renamed w \<or> renamed = was_renamed_denied w"
  shows "P (Ran_In (path_parent f) (two_file_command os ''ren'' [''mv''] f g)) \<Longrightarrow>
      emits P (rename_shell m w os renamed f g succeeded failed)"
    "P (Moved f g) \<Longrightarrow> emits P (rename_tool m w renamed f g succeeded failed)"
  unfolding rename_shell_def rename_tool_def
  using assms by (auto simp: own_events_def intro!: emits_intros intro: failure_handlers_emit)

lemma two_file_tests_emit:
  assumes "own_events P f" "own_events P g"
  shows "P (Ran_In (path_parent f) (two_file_command os ''copy'' [''cp''] f g)) \<Longrightarrow>
      emits P (copy_shell m w os f g succeeded failed)"
    "P (Ran_In (path_parent f) (symlink_command os f g)) \<Longrightarrow>
      emits P (link_shell m w os f g succeeded failed)"
    "emits P (copy_tool m w f g succeeded failed)"
    "P (Linked_To g f) \<Longrightarrow> emits P (link_tool m w f g succeeded failed)"
  unfolding copy_shell_def link_shell_def copy_tool_def link_tool_def
  using assms by (auto simp: own_events_def intro!: emits_intros intro: failure_handlers_emit)

interpretation write_attempts: attempt_runner "run_write_alternate_attempt m"
    "\<lambda>_. \<forall>log command e. run_answer m log command = Inl e \<longrightarrow> is_exception e" P "\<lambda>p. P (Ran (ap_command p))" for m P
  by unfold_locales
    (auto simp: run_write_alternate_attempt_def intro!: attempt_with_returns attempt_with_emits emits_intros,
     simp add: run_program_def ordinary_def)

lemma write_alternates_emit:
  assumes "\<And>ps. attempts = Inr ps \<Longrightarrow> list_all (\<lambda>p. P (Ran (ap_command p))) ps"
  shows "emits P (write_alternates m attempts)"
proof (cases attempts)
  case (Inl e)
  then show ?thesis by (simp add: write_alternates_def lift_res_def bind_def appends_def)
next
  case (Inr ps)
  then show ?thesis using write_attempts.attempts_emit [of P ps m] assms
    by (simp add: write_alternates_def run_write_alternate_attempts_def lift_res_def bind_def)
qed

text \<open>On Linux every alternate command is built, and is one for \<open>sh\<close>.\<close>

definition for_sh :: "alternate_program_attempt list res \<Rightarrow> bool" where
  "for_sh attempts \<longleftrightarrow>
     (\<exists>ps. attempts = Inr ps \<and> list_all (\<lambda>p. \<exists>script. ap_command p = [''sh'', ''-c'', script]) ps)"

lemma path_commands_built:
  "\<exists>s. create_file_command m LINUX p b = Inr s" "\<exists>s. write_file_command m LINUX p content b = Inr s"
  "\<exists>s. append_file_command m LINUX p content content' b = Inr s"
  "\<exists>s. create_directory_command m LINUX p b = Inr s" "\<exists>s. rename_file_command m LINUX p q content b = Inr s"
  "\<exists>s. copy_file_command m LINUX p q content b = Inr s" "\<exists>s. delete_file_command m LINUX p content b = Inr s"
  "\<exists>s. attribute_change_command m LINUX p content b = Inr s"
  "\<exists>s. symlink_creation_command m LINUX p q content b = Inr s"
  by (simp_all add: create_file_command_def write_file_command_def append_file_command_def
      create_directory_command_def rename_file_command_def copy_file_command_def delete_file_command_def
      attribute_change_command_def symlink_creation_command_def target_path_def res_bind_def)

lemma attempts_for_sh:
  assumes "\<exists>s. a = Inr s" "\<exists>s. b = Inr s"
  shows "for_sh (single_path_write_attempts LINUX t u a b ev)"
    "for_sh (path_and_link_write_attempts LINUX p q t u a b ev)"
  using assms
  by (auto simp: for_sh_def single_path_write_attempts_def path_and_link_write_attempts_def res_bind_def
      build_shell_command_def)

lemma for_sh_res_bind: "for_sh a \<Longrightarrow> for_sh (res_bind a Inr)"
  by (auto simp: for_sh_def res_bind_def)

lemma builders_for_sh:
  "for_sh (build_allowed_create_file_alternate_attempts m LINUX p)"
  "for_sh (build_allowed_write_file_alternate_attempts m LINUX p content)"
  "for_sh (build_allowed_append_file_alternate_attempts m LINUX p content content')"
  "for_sh (build_allowed_create_directory_alternate_attempts m LINUX p)"
  "for_sh (build_allowed_rename_file_alternate_attempts m LINUX p q content)"
  "for_sh (build_allowed_copy_file_alternate_attempts m LINUX p q content)"
  "for_sh (build_allowed_delete_file_alternate_attempts m LINUX p content)"
  "for_sh (build_allowed_attribute_change_alternate_attempts m LINUX p content)"
  "for_sh (build_allowed_symlink_creation_alternate_attempts m LINUX p q content)"
  "for_sh (build_create_file_alternate_attempts m LINUX p q n)"
  "for_sh (build_write_file_alternate_attempts m LINUX p q n content)"
  "for_sh (build_append_file_alternate_attempts m LINUX p q n content content')"
  "for_sh (build_create_directory_alternate_attempts m LINUX p q n)"
  "for_sh (build_rename_file_alternate_attempts m LINUX p q n n' content)"
  "for_sh (build_copy_file_alternate_attempts m LINUX p q n n' content)"
  "for_sh (build_delete_file_alternate_attempts m LINUX p q n content)"
  "for_sh (build_attribute_change_alternate_attempts m LINUX p q n content)"
  "for_sh (build_symlink_creation_alternate_attempts m LINUX p q n n' content)"
  unfolding build_allowed_create_file_alternate_attempts_def build_allowed_write_file_alternate_attempts_def
    build_allowed_append_file_alternate_attempts_def build_allowed_create_directory_alternate_attempts_def
    build_allowed_rename_file_alternate_attempts_def build_allowed_copy_file_alternate_attempts_def
    build_allowed_delete_file_alternate_attempts_def build_allowed_attribute_change_alternate_attempts_def
    build_allowed_symlink_creation_alternate_attempts_def
    build_create_file_alternate_attempts_def build_write_file_alternate_attempts_def
    build_append_file_alternate_attempts_def build_create_directory_alternate_attempts_def
    build_rename_file_alternate_attempts_def build_copy_file_alternate_attempts_def
    build_delete_file_alternate_attempts_def build_attribute_change_alternate_attempts_def
    build_symlink_creation_alternate_attempts_def Let_def
  by (simp_all add: attempts_for_sh path_commands_built for_sh_res_bind)

lemma sh_alternates_emit:
  "for_sh attempts \<Longrightarrow> emits (within_tests c) (write_alternates m attempts)"
  by (rule write_alternates_emit) (auto simp: for_sh_def list_all_iff)

lemma command_arguments:
  assumes "path_wf f" "own_file c f"
  shows "within_tests c (Ran_In d (create_command LINUX name f)) \<longleftrightarrow>
      d = cx_allowed_directory c \<or> d = cx_denied_directory c"
    "within_tests c (Ran_In d (print_command LINUX redirect content f)) \<longleftrightarrow>
      d = cx_allowed_directory c \<or> d = cx_denied_directory c"
    "within_tests c (Ran_In d (mkdir_command LINUX f)) \<longleftrightarrow>
      d = cx_allowed_directory c \<or> d = cx_denied_directory c"
    "within_tests c (Ran_In d (delete_command LINUX f)) \<longleftrightarrow>
      d = cx_allowed_directory c \<or> d = cx_denied_directory c"
    "within_tests c (Ran_In d (attribute_command LINUX f)) \<longleftrightarrow>
      d = cx_allowed_directory c \<or> d = cx_denied_directory c"
  using assms
  by (simp_all add: create_command_def print_command_def mkdir_command_def two_file_command_def
      delete_command_def attribute_command_def symlink_command_def path_of_path_str is_absolute_path_of
      starts_with_iff)

lemma two_file_command_arguments:
  assumes "path_wf f" "path_wf g" "own_file c f" "own_file c g"
  shows "within_tests c (Ran_In d (two_file_command LINUX name [''mv''] f g)) \<longleftrightarrow>
      d = cx_allowed_directory c \<or> d = cx_denied_directory c"
    "within_tests c (Ran_In d (two_file_command LINUX name [''cp''] f g)) \<longleftrightarrow>
      d = cx_allowed_directory c \<or> d = cx_denied_directory c"
    "within_tests c (Ran_In d (symlink_command LINUX f g)) \<longleftrightarrow>
      d = cx_allowed_directory c \<or> d = cx_denied_directory c"
  using assms
  by (simp_all add: create_command_def print_command_def mkdir_command_def two_file_command_def
      delete_command_def attribute_command_def symlink_command_def path_of_path_str is_absolute_path_of
      starts_with_iff)

lemma own_events_within: "own_file c p \<Longrightarrow> own_events (within_tests c) p"
  by (simp add: own_events_def)

text \<open>C40. Whatever fails on a Linux machine, the group changes nothing by Python but files directly in the two test
  directories whose names start with \<open>g03_t\<close>, starts its programs in one of the two directories with no
  other absolute path among their arguments, and otherwise runs alternate scripts of \<open>sh\<close> only.\<close>

theorem write_tests_stay_inside:
  assumes "cx_operating_system c = LINUX" "path_wf (cx_allowed_directory c)" "path_wf (cx_denied_directory c)"
  shows "group_emits (within_tests c) (get_group_03 m w c)"
proof -
  note own = own_file_div own_name_def path_wf_div [OF assms(2)] path_wf_div [OF assms(3)] own_events_within
  show ?thesis
    unfolding get_group_03_def group_emits_def Let_def assms(1)
      G03_T01_def G03_T02_def G03_T03_def G03_T04_def G03_T05_def G03_T06_def G03_T07_def G03_T08_def G03_T09_def
      G03_T10_def G03_T11_def G03_T12_def G03_T13_def G03_T14_def G03_T15_def G03_T16_def G03_T17_def G03_T18_def
    by (simp add: own command_arguments two_file_command_arguments one_file_shells_emit one_file_tools_emit
        renaming_tests_emit two_file_tests_emit
        sh_alternates_emit builders_for_sh starts_with_iff del: within_tests.simps(9))
qed

definition write_context :: capability_context where
  "write_context = sample_context\<lparr>cx_operating_system := LINUX,
     cx_allowed_directory := path_of ''/work/allowed'', cx_denied_directory := path_of ''/work/denied''\<rparr>"

definition refusing_files :: file_world where
  "refusing_files = \<lparr>fw_fault = \<lambda>_ _. Some (PermissionError ''''), fw_left = \<lambda>_ _. None,
     fw_exists = \<lambda>_ _. Inr False, fw_is_file = \<lambda>_ _. Inr False, fw_is_dir = \<lambda>_ _. Inr False,
     fw_is_symlink = \<lambda>_ _. Inr False, fw_text = \<lambda>_ _. Inl (FileNotFoundError ''''),
     fw_stat = \<lambda>_ _. Inl (FileNotFoundError ''''), fw_run = \<lambda>_ _ _. Inl (FileNotFoundError '''')\<rparr>"

theorem write_tests_stay_inside_witness:
  "group_emits (within_tests write_context) (get_group_03 broken_machine refusing_files write_context)"
  by (rule write_tests_stay_inside) (simp_all add: write_context_def path_wf_path_of)

text \<open>Every invocation answers.\<close>

lemma observations_ordinary:
  assumes "file_faults_ordinary w"
  shows "ordinary (was_renamed w f g)" "ordinary (was_renamed_denied w f g)" "ordinary (was_copied w f g)"
    "ordinary (is_expected_link w f)" "ordinary (is_read_only w os f)" "ordinary (restore_write_access w os f)"
  unfolding was_renamed_def was_renamed_denied_def was_copied_def is_expected_link_def is_read_only_def
    restore_write_access_def
  by (auto intro!: ordinary_intros files_ordinary [OF assms] split: prod.splits)

lemma handlers_answer:
  "is_exception e \<Longrightarrow> \<exists>r. files_failure m subject e = Some (ret r)"
  "is_exception e \<Longrightarrow> \<exists>r. link_failure m subject e = Some (ret r)"
  by (auto simp: files_failure_def link_failure_def)

lemma invocations_return:
  assumes "file_faults_ordinary w"
  shows "returns (create_shell m w os name f s t)" "returns (create_tool m w f s t)"
    "returns (write_shell m w os f s t)" "returns (write_tool m w f s t)"
    "returns (append_shell m w os f s t)" "returns (append_tool m w f s t)"
    "returns (mkdir_shell m w os f s t)" "returns (mkdir_tool m w f s t)"
    "returns (rename_shell m w os (was_renamed w) f g s t)" "returns (rename_tool m w (was_renamed w) f g s t)"
    "returns (rename_shell m w os (was_renamed_denied w) f g s t)"
    "returns (rename_tool m w (was_renamed_denied w) f g s t)"
    "returns (copy_shell m w os f g s t)" "returns (copy_tool m w f g s t)"
    "returns (delete_shell m w os f s t)" "returns (delete_tool m w f s t)"
    "returns (attribute_shell m w os f s t)" "returns (attribute_tool m w os f s t)"
    "returns (link_shell m w os f g s t)" "returns (link_tool m w f g s t)"
  unfolding create_shell_def create_tool_def write_shell_def write_tool_def append_shell_def append_tool_def
    mkdir_shell_def mkdir_tool_def rename_shell_def rename_tool_def copy_shell_def copy_tool_def
    delete_shell_def delete_tool_def attribute_shell_def attribute_tool_def link_shell_def link_tool_def Let_def
  by (auto intro!: caught_returns handlers_answer ordinary_intros files_ordinary [OF assms]
      observations_ordinary [OF assms])

lemma group_03_returns:
  assumes "file_faults_ordinary w" "\<forall>log command e. run_answer m log command = Inl e \<longrightarrow> is_exception e"
    and "cx_operating_system c = LINUX"
  shows "group_returns (get_group_03 m w c)"
proof -
  have "returns (write_alternates m attempts)" if "for_sh attempts" for attempts
    using that write_attempts.attempts_return [of m] assms(2)
    by (auto simp: for_sh_def write_alternates_def run_write_alternate_attempts_def list_all_iff
        intro!: returns_bind_lift)
  note alternates = this
  show ?thesis
    unfolding get_group_03_def group_returns_def Let_def assms(3)
      G03_T01_def G03_T02_def G03_T03_def G03_T04_def G03_T05_def G03_T06_def G03_T07_def G03_T08_def G03_T09_def
      G03_T10_def G03_T11_def G03_T12_def G03_T13_def G03_T14_def G03_T15_def G03_T16_def G03_T17_def G03_T18_def
    by (simp add: invocations_return [OF assms(1)] alternates builders_for_sh)
qed

text \<open>On Windows the path of an alternate command is resolved before anything is caught: a path that cannot be
  resolved ends the whole invocation.\<close>

lemma unresolved_path_escapes:
  "resolve m p = Inl e \<Longrightarrow>
   write_alternates m (build_allowed_create_file_alternate_attempts m WINDOWS p) log = (Inl e, log)"
  by (simp add: write_alternates_def build_allowed_create_file_alternate_attempts_def
      single_path_write_attempts_def create_file_command_def target_path_def windows_extended_path_def
      res_bind_def lift_res_def bind_def)

text \<open>The script that goes through a link ends with \<open>exit\<close>, so the text that tells of the success after it is
  never printed.\<close>

lemma link_evidence_after_exit:
  "\<exists>s. build_shell_command LINUX (link_traversal_script LINUX allowed denied operation) evidence =
     [''sh'', ''-c'', s @ ''; exit $status'' @ '' && printf '' @ in_single (''%s'' @ [CHR 0x5C, CHR ''n'']) @ '' '' @
       shell_quote evidence]"
  by (simp add: build_shell_command_def link_traversal_script_def Let_def)

end
