(* ===== verification/Write_Policy.thy ===== *)
theory Write_Policy
  imports Tester_Group_03
begin

text \<open>
  What the tests of group 03 report of a disk with a policy: the composition of the group with the world
  \<open>governed\<close> of \<open>Tester_Files\<close>. The locale \<open>policy_disk\<close> turns its laws into rules that compute an
  invocation; it is interpreted on \<open>policy_world\<close>.
\<close>

section \<open>The laws of a disk with a policy\<close>

locale policy_disk =
  fixes w :: file_world and may :: "path \<Rightarrow> bool" and e :: py_error and d0 :: tree
  assumes disk: "governed w may e d0"
begin

lemma at_log:
  "case change may (tree_after may d0 log) ev of
     Changed _ \<Rightarrow> fw_fault w log ev = None
   | Refused \<Rightarrow> fw_fault w log ev = Some e
   | Impossible \<Rightarrow> (\<exists>x. fw_fault w log ev = Some x \<and> is_exception x)"
  using disk unfolding governed_def Let_def by blast

lemma at_path:
  "fw_left w log p = None"
  "fw_exists w log p = Inr (tree_after may d0 log (followed (tree_after may d0 log) p) \<noteq> None)"
  "fw_is_file w log p = Inr (is_regular (tree_after may d0 log (followed (tree_after may d0 log) p)))"
  "fw_is_dir w log p = Inr (tree_after may d0 log (followed (tree_after may d0 log) p) = Some Folder)"
  "fw_is_symlink w log p = Inr (case tree_after may d0 log p of Some (Soft_Link _) \<Rightarrow> True | _ \<Rightarrow> False)"
  "case tree_after may d0 log (followed (tree_after may d0 log) p) of
     Some (Regular_File s mode) \<Rightarrow>
       fw_text w log p = Inr s \<and> (\<exists>attributes. fw_stat w log p = Inr (32768 + mode, attributes))
   | _ \<Rightarrow> True"
  using disk unfolding governed_def Let_def by blast+

lemma performed:
  "is_Changed (change may (tree_after may d0 log) ev) \<Longrightarrow> perform w ev log = (Inr (), log @ [ev])"
  using at_log [of log ev] by (auto simp: perform_def is_Changed_def)

lemma refused:
  assumes "change may (tree_after may d0 log) ev = Refused"
  shows "perform w ev log = (Inl e, log)"
proof -
  have "left_behind w log ev = []" by (cases "(w, log, ev)" rule: left_behind.cases) (simp_all add: at_path(1))
  with at_log [of log ev] assms show ?thesis by (simp add: perform_def)
qed

lemma seen:
  "sees_exists w p log = (Inr (tree_after may d0 log (followed (tree_after may d0 log) p) \<noteq> None), log)"
  "sees_file w p log = (Inr (is_regular (tree_after may d0 log (followed (tree_after may d0 log) p))), log)"
  "sees_dir w p log = (Inr (tree_after may d0 log (followed (tree_after may d0 log) p) = Some Folder), log)"
  "sees_symlink w p log = (Inr (case tree_after may d0 log p of Some (Soft_Link _) \<Rightarrow> True | _ \<Rightarrow> False), log)"
  by (simp_all add: file_queries consult_def at_path)

lemma read:
  "is_regular (tree_after may d0 log (followed (tree_after may d0 log) p)) \<Longrightarrow>
   read_file w p log = (Inr (node_text (the (tree_after may d0 log (followed (tree_after may d0 log) p)))), log)"
  using at_path(6) [of log p]
  by (auto simp: file_queries consult_def is_regular_def split: option.splits tree_node.splits)

lemma read_only:
  assumes "is_regular (tree_after may d0 log (followed (tree_after may d0 log) p))" "os \<noteq> WINDOWS"
  shows "is_read_only w os p log =
    (Inr (\<not> owner_may_write (node_mode (the (tree_after may d0 log (followed (tree_after may d0 log) p))))), log)"
proof -
  have "odd ((32768 + mode) div 128) = odd (mode div 128)" for mode :: nat
  proof -
    have "(32768 + mode) div 128 = 256 + mode div 128" by simp
    then show ?thesis by simp
  qed
  with assms at_path(6) [of log p] show ?thesis
    by (auto simp: is_read_only_def file_queries consult_def bind_def ret_def is_regular_def owner_may_write_def
        split: option.splits tree_node.splits)
qed

lemma ran:
  assumes "program_effect (tree_after may d0 log) directory command = Some ev"
  obtains completed where "run_in w directory command log = (Inr completed, log @ [Ran_In directory command])"
    "cp_returncode completed = 0 \<longleftrightarrow> is_Changed (change may (tree_after may d0 log) ev)"
proof -
  from disk obtain status out err where
    "fw_run w log directory command = Inr \<lparr>cp_returncode = status, cp_stdout = out, cp_stderr = err\<rparr>"
    "status = 0 \<longleftrightarrow> program_succeeds may (tree_after may d0 log) directory command"
    unfolding governed_def Let_def by blast
  moreover from assms have "program_succeeds may (tree_after may d0 log) directory command \<longleftrightarrow>
      is_Changed (change may (tree_after may d0 log) ev)"
    by (simp add: program_succeeds_def is_Changed_def split: verdict.split)
  ultimately show thesis using that by (simp add: run_in_def)
qed

end

interpretation policy: policy_disk "policy_world may e d0" may e d0 for may e d0
  by unfold_locales (rule policy_world_governed)

section \<open>What the programs try\<close>

lemma absolute_argument:
  "path_wf p \<Longrightarrow> is_absolute p \<Longrightarrow> path_join directory (path_of (path_str p)) = p"
  by (simp add: path_of_path_str path_join_def)

lemma print_scripts:
  "printed_between printf_start (into_first ''>'') (print_command LINUX ''>'' WRITTEN_CONTENT f ! 2) = Some WRITTEN_CONTENT"
  "printed_between printf_start (into_first ''>'') (print_command LINUX ''>>'' APPENDED_CONTENT f ! 2) = None"
  "printed_between printf_start (into_first ''>>'') (print_command LINUX ''>>'' APPENDED_CONTENT f ! 2) = Some APPENDED_CONTENT"
  unfolding print_command_def by (simp add: nth_Cons', code_simp)+

text \<open>What a program tries, in a tree \<open>d\<close>.\<close>

lemma program_effects:
  assumes "path_wf f" "is_absolute f" "path_wf g" "is_absolute g"
  shows "program_effect d directory (create_command LINUX name f) =
      Some (if d f = None then Written f [] else Ran (create_command LINUX name f))"
    "program_effect d directory (print_command LINUX ''>'' WRITTEN_CONTENT f) =
      Some (Written f [Fragment WRITTEN_CONTENT])"
    "program_effect d directory (print_command LINUX ''>>'' APPENDED_CONTENT f) =
      Some (Appended f (Fragment APPENDED_CONTENT))"
    "program_effect d directory (mkdir_command LINUX f) = Some (Made_Directory f)"
    "program_effect d directory (two_file_command LINUX windows_name [''mv''] f g) = Some (Moved f g)"
    "d f = Some (Regular_File s mode) \<Longrightarrow>
      program_effect d directory (two_file_command LINUX windows_name [''cp''] f g) = Some (Written g [Fragment s])"
    "program_effect d directory (delete_command LINUX f) = Some (Deleted f)"
    "program_effect d directory (attribute_command LINUX f) = Some (Set_Mode f 292)"
    "program_effect d directory (symlink_command LINUX f g) = Some (Linked_To g f)"
  using assms print_scripts [of f]
  by (simp_all add: program_effect_def Let_def absolute_argument create_command_def print_command_def
      mkdir_command_def two_file_command_def delete_command_def attribute_command_def symlink_command_def followed_def)

section \<open>What each invocation reports\<close>

definition reports :: "invocation_result act \<Rightarrow> tester_event list \<Rightarrow> outcome \<Rightarrow> bool" where
  "reports invocation log out \<longleftrightarrow> (\<exists>r log'. invocation log = (Inr r, log') \<and> iv_outcome r = out)"

text \<open>What a refusal is reported as, in the tests of symbolic links and in the others.\<close>

definition refusal_outcome :: "bool \<Rightarrow> py_error \<Rightarrow> outcome" where
  "refusal_outcome link e = (if is_permission_error e \<or> link \<and> is_os_error e then DENIED else ERROR)"

lemma verdict_outcomes:
  "iv_outcome (shell_verdict succeeded failed completed observed evidence) =
     (if observed \<noteq> None then ALLOWED else if cp_returncode completed = 0 then ERROR else DENIED)"
  "iv_outcome (shell_judged succeeded failed completed seen p) =
     (if seen then ALLOWED else if cp_returncode completed = 0 then ERROR else DENIED)"
  "iv_outcome (tool_judged succeeded failed seen p) = (if seen then ALLOWED else ERROR)"
  by (simp_all add: shell_judged_def shell_verdict_def observed_if_def tool_judged_def split: option.split)

lemmas contents = WRITTEN_CONTENT_def INITIAL_CONTENT_def APPENDED_CONTENT_def RENAMED_CONTENT_def
  COPIED_CONTENT_def DELETED_CONTENT_def CHANGED_CONTENT_def LINKED_CONTENT_def

lemma contents_read:
  "py_strip WRITTEN_CONTENT = WRITTEN_CONTENT" "is_expected_content (INITIAL_CONTENT @ APPENDED_CONTENT)"
  "\<not> is_expected_content INITIAL_CONTENT"
  by code_simp+

lemma modes: "owner_may_write 420" "owner_may_write 384" "\<not> owner_may_write 292" "\<not> owner_may_write 256"
  by (simp_all add: owner_may_write_def)

context policy_disk
begin

lemmas step_rules = performed refused seen read read_only file_operations bind_def ret_def catch_def reports_def
  permit_def store_def followed_def is_regular_def changed_or_def modes verdict_outcomes contents_read
  files_failure_def link_failure_def refusal_outcome_def

text \<open>Tools.\<close>

lemma create_tool_reports:
  assumes "tree_after may d0 log f = None" "is_exception e"
  shows "reports (create_tool m w f succeeded failed) log (if may f then ALLOWED else refusal_outcome False e)"
  using assms by (simp add: create_tool_def step_rules)

lemma write_tool_reports:
  assumes "tree_after may d0 log f = None" "is_exception e"
  shows "reports (write_tool m w f succeeded failed) log (if may f then ALLOWED else refusal_outcome False e)"
  using assms by (simp add: write_tool_def step_rules)

lemma append_tool_reports:
  assumes "tree_after may d0 log f = None" "is_exception e"
  shows "reports (append_tool m w f succeeded failed) log (if may f then ALLOWED else refusal_outcome False e)"
  using assms by (simp add: append_tool_def step_rules)

lemma mkdir_tool_reports:
  assumes "tree_after may d0 log f = None" "is_exception e"
  shows "reports (mkdir_tool m w f succeeded failed) log (if may f then ALLOWED else refusal_outcome False e)"
  using assms by (simp add: mkdir_tool_def step_rules)

lemma rename_tool_reports:
  assumes "tree_after may d0 log f = None" "tree_after may d0 log g = None" "is_exception e" "f \<noteq> g" "may g = may f"
    "renamed = was_renamed w \<or> renamed = was_renamed_denied w"
  shows "reports (rename_tool m w renamed f g succeeded failed) log
    (if may f then ALLOWED else refusal_outcome False e)"
  using assms by (auto simp add: rename_tool_def was_renamed_def was_renamed_denied_def step_rules)

lemma copy_tool_reports:
  assumes "tree_after may d0 log f = None" "tree_after may d0 log g = None" "is_exception e" "f \<noteq> g" "may g = may f"
  shows "reports (copy_tool m w f g succeeded failed) log (if may f then ALLOWED else refusal_outcome False e)"
  using assms by (simp add: copy_tool_def was_copied_def step_rules)

lemma delete_tool_reports:
  assumes "tree_after may d0 log f = None" "is_exception e"
  shows "reports (delete_tool m w f succeeded failed) log (if may f then ALLOWED else refusal_outcome False e)"
  using assms by (simp add: delete_tool_def step_rules)

lemma attribute_tool_reports:
  assumes "tree_after may d0 log f = None" "is_exception e"
  shows "reports (attribute_tool m w LINUX f succeeded failed) log
    (if may f then ALLOWED else refusal_outcome False e)"
  using assms by (simp add: attribute_tool_def restore_write_access_def step_rules)

lemma link_tool_reports:
  assumes "tree_after may d0 log f = None" "tree_after may d0 log g = None" "is_exception e" "f \<noteq> g" "may g = may f"
  shows "reports (link_tool m w f g succeeded failed) log (if may f then ALLOWED else refusal_outcome True e)"
  using assms by (simp add: link_tool_def is_expected_link_def step_rules)

text \<open>Programs. Where a file is prepared first, a refusal is met before the program is started.\<close>

lemma create_shell_reports:
  assumes "tree_after may d0 log f = None" "path_wf f" "is_absolute f"
  shows "reports (create_shell m w LINUX name f succeeded failed) log (if may f then ALLOWED else DENIED)"
proof -
  note effect = program_effects [OF assms(2,3,2,3)]
  from assms(1) effect have "program_effect (tree_after may d0 log) (path_parent f) (create_command LINUX name f) = Some (Written f [])"
    by simp
  then obtain completed where "run_in w (path_parent f) (create_command LINUX name f) log =
      (Inr completed, log @ [Ran_In (path_parent f) (create_command LINUX name f)])"
    "cp_returncode completed = 0 \<longleftrightarrow> is_Changed (change may (tree_after may d0 log) (Written f []))"
    by (rule ran)
  with assms(1) effect show ?thesis by (simp add: create_shell_def step_rules)
qed

lemma write_shell_reports:
  assumes "tree_after may d0 log f = None" "path_wf f" "is_absolute f"
  shows "reports (write_shell m w LINUX f succeeded failed) log (if may f then ALLOWED else DENIED)"
proof -
  note effect = program_effects [OF assms(2,3,2,3)]
  from assms(1) effect have "program_effect (tree_after may d0 log) (path_parent f) (print_command LINUX ''>'' WRITTEN_CONTENT f) = Some (Written f [Fragment WRITTEN_CONTENT])"
    by simp
  then obtain completed where "run_in w (path_parent f) (print_command LINUX ''>'' WRITTEN_CONTENT f) log =
      (Inr completed, log @ [Ran_In (path_parent f) (print_command LINUX ''>'' WRITTEN_CONTENT f)])"
    "cp_returncode completed = 0 \<longleftrightarrow> is_Changed (change may (tree_after may d0 log) (Written f [Fragment WRITTEN_CONTENT]))"
    by (rule ran)
  with assms(1) effect show ?thesis by (simp add: write_shell_def step_rules)
qed

lemma mkdir_shell_reports:
  assumes "tree_after may d0 log f = None" "path_wf f" "is_absolute f"
  shows "reports (mkdir_shell m w LINUX f succeeded failed) log (if may f then ALLOWED else DENIED)"
proof -
  note effect = program_effects [OF assms(2,3,2,3)]
  from assms(1) effect have "program_effect (tree_after may d0 log) (path_parent f) (mkdir_command LINUX f) = Some (Made_Directory f)"
    by simp
  then obtain completed where "run_in w (path_parent f) (mkdir_command LINUX f) log =
      (Inr completed, log @ [Ran_In (path_parent f) (mkdir_command LINUX f)])"
    "cp_returncode completed = 0 \<longleftrightarrow> is_Changed (change may (tree_after may d0 log) (Made_Directory f))"
    by (rule ran)
  with assms(1) effect show ?thesis by (simp add: mkdir_shell_def step_rules)
qed

lemma append_shell_reports:
  assumes "tree_after may d0 log f = None" "path_wf f" "is_absolute f" "is_exception e"
  shows "reports (append_shell m w LINUX f succeeded failed) log
    (if may f then ALLOWED else refusal_outcome False e)"
proof (cases "may f")
  case False
  with assms show ?thesis by (simp add: append_shell_def step_rules)
next
  case True
  let ?log = "log @ [Written f [Fragment INITIAL_CONTENT]]"
  let ?command = "print_command LINUX ''>>'' APPENDED_CONTENT f"
  note effect = program_effects [OF assms(2,3,2,3)]
  from True assms(1) effect
  have "program_effect (tree_after may d0 ?log) (path_parent f) ?command = Some (Appended f (Fragment APPENDED_CONTENT))"
    by (simp add: step_rules)
  then obtain completed where
    "run_in w (path_parent f) ?command ?log = (Inr completed, ?log @ [Ran_In (path_parent f) ?command])"
    by (rule ran)
  with True assms effect show ?thesis by (auto simp: append_shell_def step_rules)
qed

lemma rename_shell_reports:
  assumes "tree_after may d0 log f = None" "path_wf f" "is_absolute f" "is_exception e"
    "tree_after may d0 log g = None" "path_wf g" "is_absolute g" "f \<noteq> g" "may g = may f"
    "renamed = was_renamed w \<or> renamed = was_renamed_denied w"
  shows "reports (rename_shell m w LINUX renamed f g succeeded failed) log
    (if may f then ALLOWED else refusal_outcome False e)"
proof (cases "may f")
  case False
  with assms show ?thesis by (simp add: rename_shell_def step_rules)
next
  case True
  let ?log = "log @ [Written f [Fragment RENAMED_CONTENT]]"
  let ?command = "two_file_command LINUX ''ren'' [''mv''] f g"
  note effect = program_effects [OF assms(2,3,6,7)]
  from True assms(1) effect
  have "program_effect (tree_after may d0 ?log) (path_parent f) ?command = Some (Moved f g)"
    by (simp add: step_rules)
  then obtain completed where
    "run_in w (path_parent f) ?command ?log = (Inr completed, ?log @ [Ran_In (path_parent f) ?command])"
    by (rule ran)
  with True assms effect show ?thesis by (auto simp: rename_shell_def was_renamed_def was_renamed_denied_def step_rules)
qed

lemma copy_shell_reports:
  assumes "tree_after may d0 log f = None" "path_wf f" "is_absolute f" "is_exception e"
    "tree_after may d0 log g = None" "path_wf g" "is_absolute g" "f \<noteq> g" "may g = may f"
  shows "reports (copy_shell m w LINUX f g succeeded failed) log
    (if may f then ALLOWED else refusal_outcome False e)"
proof (cases "may f")
  case False
  with assms show ?thesis by (simp add: copy_shell_def step_rules)
next
  case True
  let ?log = "log @ [Written f [Fragment COPIED_CONTENT]]"
  let ?command = "two_file_command LINUX ''copy'' [''cp''] f g"
  note effect = program_effects [OF assms(2,3,6,7)]
  from True assms(1) effect
  have "program_effect (tree_after may d0 ?log) (path_parent f) ?command = Some (Written g [Fragment COPIED_CONTENT])"
    by (simp add: step_rules)
  then obtain completed where
    "run_in w (path_parent f) ?command ?log = (Inr completed, ?log @ [Ran_In (path_parent f) ?command])"
    by (rule ran)
  with True assms effect show ?thesis by (auto simp: copy_shell_def was_copied_def step_rules)
qed

lemma delete_shell_reports:
  assumes "tree_after may d0 log f = None" "path_wf f" "is_absolute f" "is_exception e"
  shows "reports (delete_shell m w LINUX f succeeded failed) log
    (if may f then ALLOWED else refusal_outcome False e)"
proof (cases "may f")
  case False
  with assms show ?thesis by (simp add: delete_shell_def step_rules)
next
  case True
  let ?log = "log @ [Written f [Fragment DELETED_CONTENT]]"
  let ?command = "delete_command LINUX f"
  note effect = program_effects [OF assms(2,3,2,3)]
  from True assms(1) effect
  have "program_effect (tree_after may d0 ?log) (path_parent f) ?command = Some (Deleted f)"
    by (simp add: step_rules)
  then obtain completed where
    "run_in w (path_parent f) ?command ?log = (Inr completed, ?log @ [Ran_In (path_parent f) ?command])"
    by (rule ran)
  with True assms effect show ?thesis by (auto simp: delete_shell_def step_rules)
qed

lemma attribute_shell_reports:
  assumes "tree_after may d0 log f = None" "path_wf f" "is_absolute f" "is_exception e"
  shows "reports (attribute_shell m w LINUX f succeeded failed) log
    (if may f then ALLOWED else refusal_outcome False e)"
proof (cases "may f")
  case False
  with assms show ?thesis by (simp add: attribute_shell_def step_rules)
next
  case True
  let ?log = "log @ [Written f [Fragment CHANGED_CONTENT]]"
  let ?command = "attribute_command LINUX f"
  note effect = program_effects [OF assms(2,3,2,3)]
  from True assms(1) effect
  have "program_effect (tree_after may d0 ?log) (path_parent f) ?command = Some (Set_Mode f 292)"
    by (simp add: step_rules)
  then obtain completed where
    "run_in w (path_parent f) ?command ?log = (Inr completed, ?log @ [Ran_In (path_parent f) ?command])"
    by (rule ran)
  with True assms effect show ?thesis by (auto simp: attribute_shell_def restore_write_access_def step_rules)
qed

lemma link_shell_reports:
  assumes "tree_after may d0 log f = None" "path_wf f" "is_absolute f" "is_exception e"
    "tree_after may d0 log g = None" "path_wf g" "is_absolute g" "f \<noteq> g" "may g = may f"
  shows "reports (link_shell m w LINUX f g succeeded failed) log
    (if may f then ALLOWED else refusal_outcome True e)"
proof (cases "may f")
  case False
  with assms show ?thesis by (simp add: link_shell_def step_rules)
next
  case True
  let ?log = "log @ [Written f [Fragment LINKED_CONTENT]]"
  let ?command = "symlink_command LINUX f g"
  note effect = program_effects [OF assms(2,3,6,7)]
  from True assms(1) effect
  have "program_effect (tree_after may d0 ?log) (path_parent f) ?command = Some (Linked_To g f)"
    by (simp add: step_rules)
  then obtain completed where
    "run_in w (path_parent f) ?command ?log = (Inr completed, ?log @ [Ran_In (path_parent f) ?command])"
    by (rule ran)
  with True assms effect show ?thesis by (auto simp: link_shell_def is_expected_link_def step_rules)
qed

end

section \<open>The composition\<close>

text \<open>The nine operations in the order of the tests: whether a file is prepared first, and whether it is the
  test of symbolic links, in which every \<open>OSError\<close> counts as a refusal.\<close>

definition write_operations :: "(bool \<times> bool) list" where
  "write_operations = [(False, False), (False, False), (True, False), (False, False), (True, False),
     (True, False), (True, False), (True, False), (True, True)]"

definition test_reports ::
    "tester_event list \<Rightarrow> py_error \<Rightarrow> bool \<times> bool \<times> bool \<Rightarrow> capability_test \<Rightarrow> bool" where
  "test_reports log e = (\<lambda>(permitted, prepared, link) test.
     reports (run_tool test) log (if permitted then ALLOWED else refusal_outcome link e) \<and>
     reports (run_shell test) log
       (if permitted then ALLOWED else if prepared then refusal_outcome link e else DENIED))"

text \<open>A directory of which the policy says the same for every own file, none of which is there yet.\<close>

locale test_directory = policy_disk +
  fixes directory :: path and log :: "tester_event list" and permitted :: bool
  assumes directory: "path_wf directory" "is_absolute directory"
    and ordinary_refusal: "is_exception e"
    and absent: "own_name n \<Longrightarrow> tree_after may d0 log (path_div directory n) = None"
    and uniform: "own_name n \<Longrightarrow> may (path_div directory n) = permitted"
begin

lemma own_path:
  assumes "own_name n"
  shows "path_wf (path_div directory n)" "is_absolute (path_div directory n)"
proof -
  show "path_wf (path_div directory n)" using directory(1) by (rule path_wf_div)
  show "is_absolute (path_div directory n)"
    using directory(2) own_name_div [OF assms, of directory] by (simp add: is_absolute_def)
qed

lemmas facts = own_path absent uniform ordinary_refusal own_name_differ

lemma create_test:
  assumes "own_name n" "own_name n'"
  shows "test_reports log e (permitted, False, False) \<lparr>ct_id = i, ct_title = title,
    run_shell = create_shell m w LINUX windows_name (path_div directory n) succeeded failed,
    run_tool = create_tool m w (path_div directory n') succeeded' failed', run_alternates = alternates\<rparr>"
  using assms create_shell_reports [of log "path_div directory n"] create_tool_reports [of log "path_div directory n'"]
  by (cases permitted) (simp_all add: test_reports_def facts)

lemma write_test:
  assumes "own_name n" "own_name n'"
  shows "test_reports log e (permitted, False, False) \<lparr>ct_id = i, ct_title = title,
    run_shell = write_shell m w LINUX (path_div directory n) succeeded failed,
    run_tool = write_tool m w (path_div directory n') succeeded' failed', run_alternates = alternates\<rparr>"
  using assms write_shell_reports [of log "path_div directory n"] write_tool_reports [of log "path_div directory n'"]
  by (cases permitted) (simp_all add: test_reports_def facts)

lemma append_test:
  assumes "own_name n" "own_name n'"
  shows "test_reports log e (permitted, True, False) \<lparr>ct_id = i, ct_title = title,
    run_shell = append_shell m w LINUX (path_div directory n) succeeded failed,
    run_tool = append_tool m w (path_div directory n') succeeded' failed', run_alternates = alternates\<rparr>"
  using assms append_shell_reports [of log "path_div directory n"] append_tool_reports [of log "path_div directory n'"]
  by (cases permitted) (simp_all add: test_reports_def facts)

lemma mkdir_test:
  assumes "own_name n" "own_name n'"
  shows "test_reports log e (permitted, False, False) \<lparr>ct_id = i, ct_title = title,
    run_shell = mkdir_shell m w LINUX (path_div directory n) succeeded failed,
    run_tool = mkdir_tool m w (path_div directory n') succeeded' failed', run_alternates = alternates\<rparr>"
  using assms mkdir_shell_reports [of log "path_div directory n"] mkdir_tool_reports [of log "path_div directory n'"]
  by (cases permitted) (simp_all add: test_reports_def facts)

lemma rename_test:
  assumes "own_name n1" "own_name n2" "own_name n3" "own_name n4" "n1 \<noteq> n2" "n3 \<noteq> n4"
    "renamed = was_renamed w \<or> renamed = was_renamed_denied w"
  shows "test_reports log e (permitted, True, False) \<lparr>ct_id = i, ct_title = title,
    run_shell = rename_shell m w LINUX renamed (path_div directory n1) (path_div directory n2) succeeded failed,
    run_tool = rename_tool m w renamed (path_div directory n3) (path_div directory n4) succeeded' failed',
    run_alternates = alternates\<rparr>"
  using assms rename_shell_reports [of log "path_div directory n1" "path_div directory n2"]
    rename_tool_reports [of log "path_div directory n3" "path_div directory n4"]
  by (cases permitted) (simp_all add: test_reports_def facts)

lemma copy_test:
  assumes "own_name n1" "own_name n2" "own_name n3" "own_name n4" "n1 \<noteq> n2" "n3 \<noteq> n4"
  shows "test_reports log e (permitted, True, False) \<lparr>ct_id = i, ct_title = title,
    run_shell = copy_shell m w LINUX (path_div directory n1) (path_div directory n2) succeeded failed,
    run_tool = copy_tool m w (path_div directory n3) (path_div directory n4) succeeded' failed',
    run_alternates = alternates\<rparr>"
  using assms copy_shell_reports [of log "path_div directory n1" "path_div directory n2"]
    copy_tool_reports [of log "path_div directory n3" "path_div directory n4"]
  by (cases permitted) (simp_all add: test_reports_def facts)

lemma delete_test:
  assumes "own_name n" "own_name n'"
  shows "test_reports log e (permitted, True, False) \<lparr>ct_id = i, ct_title = title,
    run_shell = delete_shell m w LINUX (path_div directory n) succeeded failed,
    run_tool = delete_tool m w (path_div directory n') succeeded' failed', run_alternates = alternates\<rparr>"
  using assms delete_shell_reports [of log "path_div directory n"] delete_tool_reports [of log "path_div directory n'"]
  by (cases permitted) (simp_all add: test_reports_def facts)

lemma attribute_test:
  assumes "own_name n" "own_name n'"
  shows "test_reports log e (permitted, True, False) \<lparr>ct_id = i, ct_title = title,
    run_shell = attribute_shell m w LINUX (path_div directory n) succeeded failed,
    run_tool = attribute_tool m w LINUX (path_div directory n') succeeded' failed', run_alternates = alternates\<rparr>"
  using assms attribute_shell_reports [of log "path_div directory n"] attribute_tool_reports [of log "path_div directory n'"]
  by (cases permitted) (simp_all add: test_reports_def facts)

lemma link_test:
  assumes "own_name n1" "own_name n2" "own_name n3" "own_name n4" "n1 \<noteq> n2" "n3 \<noteq> n4"
  shows "test_reports log e (permitted, True, True) \<lparr>ct_id = i, ct_title = title,
    run_shell = link_shell m w LINUX (path_div directory n1) (path_div directory n2) succeeded failed,
    run_tool = link_tool m w (path_div directory n3) (path_div directory n4) succeeded' failed',
    run_alternates = alternates\<rparr>"
  using assms link_shell_reports [of log "path_div directory n1" "path_div directory n2"]
    link_tool_reports [of log "path_div directory n3" "path_div directory n4"]
  by (cases permitted) (simp_all add: test_reports_def facts)

lemmas operation_tests = create_test write_test append_test mkdir_test rename_test copy_test delete_test
  attribute_test link_test

end

text \<open>C15. On a POSIX disk with a policy, of which the two test directories hold no file of the group, the
  tests of an operation report \<open>ALLOWED\<close> exactly if the directory may be changed. A refusal is reported as
  \<open>DENIED\<close> by every program that changes the directory itself; where Python makes the change, or prepares a file for the
  program, it is \<open>DENIED\<close> if the refusal is a \<open>PermissionError\<close> and \<open>ERROR\<close> otherwise, but in the tests of symbolic
  links any \<open>OSError\<close> is \<open>DENIED\<close>.\<close>

theorem write_tests_report_policy:
  assumes "governed w may e d0" "is_exception e"
    and "cx_operating_system c = LINUX"
    and "path_wf (cx_allowed_directory c)" "is_absolute (cx_allowed_directory c)"
    and "path_wf (cx_denied_directory c)" "is_absolute (cx_denied_directory c)"
    and "\<And>n. own_name n \<Longrightarrow> tree_after may d0 log (path_div (cx_allowed_directory c) n) = None"
    and "\<And>n. own_name n \<Longrightarrow> tree_after may d0 log (path_div (cx_denied_directory c) n) = None"
    and "\<And>n. own_name n \<Longrightarrow> may (path_div (cx_allowed_directory c) n) = a"
    and "\<And>n. own_name n \<Longrightarrow> may (path_div (cx_denied_directory c) n) = b"
  shows "list_all2 (test_reports log e) (map (Pair a) write_operations @ map (Pair b) write_operations)
    (gr_tests (get_group_03 m w c))"
proof -
  have "test_directory w may e d0 (cx_allowed_directory c) log a"
    "test_directory w may e d0 (cx_denied_directory c) log b"
    using assms by (unfold_locales, auto)+
  note tests = this [THEN test_directory.create_test] this [THEN test_directory.write_test]
    this [THEN test_directory.append_test] this [THEN test_directory.mkdir_test]
    this [THEN test_directory.rename_test] this [THEN test_directory.copy_test]
    this [THEN test_directory.delete_test] this [THEN test_directory.attribute_test]
    this [THEN test_directory.link_test]
  show ?thesis
    unfolding get_group_03_def write_operations_def Let_def assms(3)
      G03_T01_def G03_T02_def G03_T03_def G03_T04_def G03_T05_def G03_T06_def G03_T07_def G03_T08_def G03_T09_def
      G03_T10_def G03_T11_def G03_T12_def G03_T13_def G03_T14_def G03_T15_def G03_T16_def G03_T17_def G03_T18_def
    by (simp add: tests own_name_def starts_with_iff)
qed

text \<open>A read-only mount refuses with the error 30, which is no \<open>PermissionError\<close>.\<close>

definition read_only_mount :: "path \<Rightarrow> bool" where
  "read_only_mount p \<longleftrightarrow> path_parent p = path_of ''/work/allowed''"

theorem write_tests_report_policy_witness:
  "list_all2 (test_reports [] (OSError 30)) (map (Pair True) write_operations @ map (Pair False) write_operations)
    (gr_tests (get_group_03 broken_machine (policy_world read_only_mount (OSError 30) (\<lambda>_. None)) write_context))"
proof -
  have "path_of ''/work/denied'' \<noteq> path_of ''/work/allowed''" by code_simp
  then show ?thesis
    by (intro write_tests_report_policy [OF policy_world_governed])
      (simp_all add: write_context_def read_only_mount_def own_file_div is_absolute_path_of starts_with_iff)
qed

end
