(* ===== verification/Tester_Group_04.thy ===== *)
theory Tester_Group_04
  imports Tester_Probes
begin

text \<open>
  \<open>src/sandbox_tester/group_04.py\<close>, the group of filesystem persistence: one test, which asks for the
  disk space of the working directory. The drive of a path (empty outside Windows) and the disk
  usage are parameters.
\<close>

record disk_world =
  dw_drive :: "path \<Rightarrow> string"
  dw_usage :: "tester_event list \<Rightarrow> path \<Rightarrow> (int \<times> int \<times> int) res"

definition drive_name :: "disk_world \<Rightarrow> path \<Rightarrow> string" where
  "drive_name d p = rstrip_by (\<lambda>c. c = CHR '':'') (dw_drive d p)"

definition disk_space_command :: "disk_world \<Rightarrow> operating_system \<Rightarrow> path \<Rightarrow> string list" where
  "disk_space_command d os working_directory =
     (if os = WINDOWS
      then powershell [] (''Get-PSDrive -Name '' @ in_single (drive_name d working_directory) @
        '' | Select-Object Name,Used,Free | Format-List'')
      else [''df'', ''-k'', path_str working_directory])"

definition G04_T08_run_shell :: "machine \<Rightarrow> disk_world \<Rightarrow> operating_system \<Rightarrow> path \<Rightarrow> invocation_result act" where
  "G04_T08_run_shell m d os working_directory =
     catch (bind (run_program m (disk_space_command d os working_directory)) (\<lambda>completed.
       ret (if cp_returncode completed = 0
            then InvocationResult ALLOWED ''Shell detected available disk space.''
              (take 500 (py_strip (cp_stdout completed)))
            else InvocationResult DENIED ''Shell command failed.'' (take 500 (cp_stderr completed)))))
     (invocation_failure m ''Shell'')"

definition G04_T08_run_tool :: "machine \<Rightarrow> disk_world \<Rightarrow> path \<Rightarrow> invocation_result act" where
  "G04_T08_run_tool m d working_directory =
     catch (bind (consult (\<lambda>log. dw_usage d log working_directory)) (\<lambda>(total, used, free).
       ret (InvocationResult ALLOWED ''Python runtime detected available disk space.''
         (''total='' @ str_int total @ '', used='' @ str_int used @ '', free='' @ str_int free))))
     (invocation_failure m ''Tool'')"

definition build_disk_space_alternate_attempts ::
    "disk_world \<Rightarrow> operating_system \<Rightarrow> path \<Rightarrow> alternate_program_attempt list" where
  "build_disk_space_alternate_attempts d os working_directory =
     (if os = WINDOWS then
       let drive_id = drive_name d working_directory @ '':''
       in [\<lparr>ap_id = ''A01'', ap_title = ''Detect disk space via WMIC logicaldisk'',
            ap_bypass_class = ''alternate_command'', ap_command_family = ''wmic'',
            ap_command = [''wmic'', ''logicaldisk'', ''where'', ''DeviceID='' @ in_single drive_id, ''get'',
              ''DeviceID,FreeSpace,Size'']\<rparr>,
           \<lparr>ap_id = ''A02'', ap_title = ''Detect disk space via fsutil volume diskfree'',
            ap_bypass_class = ''alternate_command'', ap_command_family = ''fsutil'',
            ap_command = [''fsutil'', ''volume'', ''diskfree'', drive_id]\<rparr>]
      else
       [\<lparr>ap_id = ''A01'', ap_title = ''Detect disk space via stat filesystem'',
         ap_bypass_class = ''alternate_command'', ap_command_family = ''stat'',
         ap_command = [''stat'', ''-f'', path_str working_directory]\<rparr>,
        \<lparr>ap_id = ''A02'', ap_title = ''Detect disk space via POSIX df'',
         ap_bypass_class = ''alternate_command'', ap_command_family = ''df'',
         ap_command = [''df'', ''-P'', path_str working_directory]\<rparr>])"

definition run_disk_space_alternate_attempt ::
    "machine \<Rightarrow> alternate_program_attempt \<Rightarrow> alternate_attempt_result act" where
  "run_disk_space_alternate_attempt m probe =
     attempt_with m (ap_id probe) (ap_title probe) (ap_bypass_class probe) (ap_command_family probe)
       (run_program m (ap_command probe))
       (\<lambda>completed combined_output. if cp_returncode completed = 0 then ALLOWED else DENIED)
       alternate_evidence"

definition run_disk_space_alternate_attempts ::
    "machine \<Rightarrow> alternate_program_attempt list \<Rightarrow> alternate_invocation_result act" where
  "run_disk_space_alternate_attempts m = attempts_with (run_disk_space_alternate_attempt m) denied_or_unavailable"

definition get_group_04 :: "machine \<Rightarrow> disk_world \<Rightarrow> capability_context \<Rightarrow> capability_group" where
  "get_group_04 m d c =
     (let os = cx_operating_system c; working_directory = cx_working_directory c
      in \<lparr>gr_id = ''G04'', gr_title = ''Filesystem persistence'',
       gr_tests =
        [\<lparr>ct_id = ''T08'', ct_title = ''Detect available disk space'',
          run_shell = G04_T08_run_shell m d os working_directory,
          run_tool = G04_T08_run_tool m d working_directory,
          run_alternates = run_disk_space_alternate_attempts m
            (build_disk_space_alternate_attempts d os working_directory)\<rparr>]\<rparr>)"

section \<open>What the group does, and that it answers\<close>

definition disk_faults_ordinary :: "machine \<Rightarrow> disk_world \<Rightarrow> bool" where
  "disk_faults_ordinary m d \<longleftrightarrow>
     (\<forall>log command e. run_answer m log command = Inl e \<longrightarrow> is_exception e) \<and>
     (\<forall>log p e. dw_usage d log p = Inl e \<longrightarrow> is_exception e)"

lemma disk_ordinary:
  assumes "disk_faults_ordinary m d"
  shows "ordinary (run_program m command)" "ordinary (consult (\<lambda>log. dw_usage d log p))"
  using assms by (auto simp: disk_faults_ordinary_def ordinary_def run_program_def consult_def)

interpretation disk_attempts: attempt_runner "run_disk_space_alternate_attempt m"
    "\<lambda>p. disk_faults_ordinary m d" P "\<lambda>p. P (Ran (ap_command p))" for m d P
  by unfold_locales
    (auto simp: run_disk_space_alternate_attempt_def
      intro!: attempt_with_returns attempt_with_emits disk_ordinary emits_intros)

text \<open>The group runs two or three programs, each on the working directory or its drive.\<close>

definition disk_commands :: "disk_world \<Rightarrow> operating_system \<Rightarrow> path \<Rightarrow> string list list" where
  "disk_commands d os p = disk_space_command d os p # map ap_command (build_disk_space_alternate_attempts d os p)"

lemma group_04_emits:
  assumes "\<forall>command \<in> set (disk_commands d (cx_operating_system c) (cx_working_directory c)). P (Ran command)"
  shows "group_emits P (get_group_04 m d c)"
proof -
  let ?os = "cx_operating_system c" and ?p = "cx_working_directory c"
  have "emits P (G04_T08_run_shell m d ?os ?p)" "emits P (G04_T08_run_tool m d ?p)"
    unfolding G04_T08_run_shell_def G04_T08_run_tool_def
    using assms by (auto simp: disk_commands_def intro!: emits_intros intro: failures_emit)
  moreover have "emits P (run_disk_space_alternate_attempts m (build_disk_space_alternate_attempts d ?os ?p))"
    unfolding run_disk_space_alternate_attempts_def
    using assms by (intro disk_attempts.attempts_emit) (simp add: disk_commands_def list_all_iff)
  ultimately show ?thesis by (simp add: group_emits_def get_group_04_def Let_def)
qed

lemma group_04_returns:
  assumes "disk_faults_ordinary m d"
  shows "group_returns (get_group_04 m d c)"
proof -
  note world = disk_ordinary [OF assms]
  have "returns (G04_T08_run_shell m d os p)" "returns (G04_T08_run_tool m d p)" for os p
    unfolding G04_T08_run_shell_def G04_T08_run_tool_def
    by (auto intro!: caught_returns ordinary_intros world failure_answers)
  moreover have "returns (run_disk_space_alternate_attempts m ps)" for ps
    unfolding run_disk_space_alternate_attempts_def
    using disk_attempts.attempts_return [of m d ps] assms by (simp add: list_all_iff)
  ultimately show ?thesis by (simp add: group_returns_def get_group_04_def Let_def)
qed

text \<open>The shell invocation has one clause fewer than the attempts: where \<open>df\<close> takes too long the shell
  invocation reports \<open>ERROR\<close> and an attempt \<open>DENIED\<close>, and where it is missing \<open>ERROR\<close> and \<open>NOT_APPLICABLE\<close>.\<close>

lemma disk_space_failures:
  assumes "\<forall>log command. run_answer m log command = Inl e" "is_exception e" "\<not> is_permission_error e"
  shows "\<exists>s a log1 log2. G04_T08_run_shell m d os p log = (Inr s, log1) \<and> iv_outcome s = ERROR \<and>
    run_disk_space_alternate_attempt m probe log = (Inr a, log2) \<and> aa_outcome a = attempt_failure_outcome e"
  using assms
  by (simp add: G04_T08_run_shell_def run_disk_space_alternate_attempt_def attempt_with_def catch_def bind_def ret_def
      run_program_def invocation_failure_def)

end
