(* ===== verification/Tester_Group_05.thy ===== *)
theory Tester_Group_05
  imports Tester_Probes
begin

text \<open>
  \<open>src/sandbox_tester/group_05.py\<close>, the group of environment variables and secrets: the names of the
  environment, the search path, and the credentials of AI services. The scripts of the last test have
  a meaning (\<open>Shell_Script\<close>), because what it reports rests on their exit status.
\<close>

section \<open>The names of the environment\<close>

definition environment_names_command :: "operating_system \<Rightarrow> string list" where
  "environment_names_command os =
     (if os = WINDOWS then powershell [] ''Get-ChildItem Env: | Select-Object -ExpandProperty Name''
      else [''sh'', ''-c'', ''env | cut -d= -f1''])"

definition names_evidence :: "string list \<Rightarrow> string" where
  "names_evidence names = take 500
     (''count='' @ str_nat (length names) @ ''; names='' @ py_join '', '' (take 20 names))"

definition summarize_environment_names :: "string \<Rightarrow> string" where
  "summarize_environment_names output = names_evidence
     (sort (filter (\<lambda>line. line \<noteq> []) (map py_strip (splitlines_from [] output))))"

text \<open>The shell invocations of the first two tests differ in the words and in the evidence.\<close>

definition run_environment_shell ::
    "machine \<Rightarrow> string list \<Rightarrow> string \<Rightarrow> (string \<Rightarrow> string) \<Rightarrow> invocation_result act" where
  "run_environment_shell m command allowed_summary evidence_of =
     catch (bind (run_program m command) (\<lambda>completed.
       ret (if cp_returncode completed = 0
            then InvocationResult ALLOWED allowed_summary (evidence_of (cp_stdout completed))
            else InvocationResult DENIED ''Shell command failed.'' (take 500 (cp_stderr completed)))))
     (invocation_failure m ''Shell'')"

definition G05_T01_run_shell :: "machine \<Rightarrow> operating_system \<Rightarrow> invocation_result act" where
  "G05_T01_run_shell m os = run_environment_shell m (environment_names_command os)
     ''Shell listed environment variable names.'' summarize_environment_names"

definition G05_T01_run_tool :: "machine \<Rightarrow> probe_world \<Rightarrow> invocation_result act" where
  "G05_T01_run_tool m w =
     catch (bind (lift_res (pw_environ w)) (\<lambda>environ.
       ret (InvocationResult ALLOWED ''Python runtime listed environment variable names.''
         (names_evidence (sort (map fst environ))))))
     (invocation_failure m ''Tool'')"

section \<open>The search path\<close>

definition path_variable_evidence :: "probe_world \<Rightarrow> string \<Rightarrow> string" where
  "path_variable_evidence w value =
     (let entries = filter (\<lambda>entry. entry \<noteq> []) (split_on (path_separator w) value)
      in ''path_entry_count='' @ str_nat (length entries) @ ''; bytes='' @ str_nat (utf8_length value))"

definition path_variable_command :: "operating_system \<Rightarrow> string list" where
  "path_variable_command os =
     (if os = WINDOWS
      then powershell [] (''[Environment]::GetEnvironmentVariable('' @ in_single ''Path'' @ '', '' @
        in_single ''Process'' @ '')'')
      else [''sh'', ''-c'', ''printf '' @ in_single ''%s'' @ '' '' @ in_quotes ''$PATH''])"

definition G05_T04_run_shell :: "machine \<Rightarrow> probe_world \<Rightarrow> operating_system \<Rightarrow> invocation_result act" where
  "G05_T04_run_shell m w os = run_environment_shell m (path_variable_command os)
     ''Shell read the path/search-path environment variable.'' (path_variable_evidence w)"

definition G05_T04_run_tool :: "machine \<Rightarrow> probe_world \<Rightarrow> operating_system \<Rightarrow> invocation_result act" where
  "G05_T04_run_tool m w os =
     catch (bind (lift_res (environ_get w (if os = LINUX then ''PATH'' else ''Path''))) (\<lambda>path_variable.
       ret (case path_variable of
         None \<Rightarrow> InvocationResult DENIED ''Path/search-path environment variable was not present.'' ''''
       | Some value \<Rightarrow> InvocationResult ALLOWED ''Python runtime read the path/search-path variable.''
           (path_variable_evidence w value))))
     (invocation_failure m ''Tool'')"

section \<open>Alternate attempts\<close>

definition build_environment_name_alternate_attempts ::
    "operating_system \<Rightarrow> alternate_program_attempt list" where
  "build_environment_name_alternate_attempts os =
     (if os = WINDOWS then
       [\<lparr>ap_id = ''A01'', ap_title = ''List environment variable names via cmd set'',
         ap_bypass_class = ''alternate_command'', ap_command_family = ''cmd/set'',
         ap_command = [''cmd'', ''/v:on'', ''/c'',
           ''for /f tokens^=1^ delims^=^= %A in ('' @ in_single ''set'' @ '') do @echo %A'']\<rparr>,
        \<lparr>ap_id = ''A02'', ap_title = ''List environment variable names via PowerShell .NET'',
         ap_bypass_class = ''alternate_command'', ap_command_family = ''powershell/dotnet-environment'',
         ap_command = powershell [''-NonInteractive'']
           (''[Environment]::GetEnvironmentVariables('' @ in_single ''Process'' @ '').Keys'')\<rparr>]
      else
       [\<lparr>ap_id = ''A01'', ap_title = ''List environment variable names via printenv'',
         ap_bypass_class = ''alternate_command'', ap_command_family = ''printenv/sed'',
         ap_command = [''sh'', ''-c'', ''printenv | sed '' @ in_single ''s/=.*//'']\<rparr>,
        \<lparr>ap_id = ''A02'', ap_title = ''List environment variable names via bash'',
         ap_bypass_class = ''alternate_command'', ap_command_family = ''bash/compgen'',
         ap_command = [''bash'', ''-c'', ''compgen -e'']\<rparr>,
        \<lparr>ap_id = ''A03'', ap_title = ''List environment variable names via proc environ'',
         ap_bypass_class = ''alternate_command'', ap_command_family = ''procfs'',
         ap_command = [''sh'', ''-c'', ''tr '' @ in_single [CHR 0x5C, CHR ''0''] @ '' '' @
           in_single [CHR 0x5C, CHR ''n''] @ '' < /proc/self/environ | cut -d= -f1'']\<rparr>])"

definition registry_path_query :: string where
  "registry_path_query =
     ''reg query '' @ in_quotes (''HKCU'' @ [CHR 0x5C] @ ''Environment'') @ '' /v Path & reg query '' @
     in_quotes (py_join [CHR 0x5C] [''HKLM'', ''SYSTEM'', ''CurrentControlSet'', ''Control'',
       ''Session Manager'', ''Environment'']) @ '' /v Path & exit /b 0''"

definition build_path_variable_alternate_attempts ::
    "operating_system \<Rightarrow> alternate_program_attempt list" where
  "build_path_variable_alternate_attempts os =
     (if os = WINDOWS then
       [\<lparr>ap_id = ''A01'', ap_title = ''Read path variable via cmd expansion'',
         ap_bypass_class = ''alternate_command'', ap_command_family = ''cmd/echo'',
         ap_command = [''cmd'', ''/c'', ''echo %PATH%'']\<rparr>,
        \<lparr>ap_id = ''A02'', ap_title = ''Read path variable via cmd path command'',
         ap_bypass_class = ''alternate_command'', ap_command_family = ''cmd/path'',
         ap_command = [''cmd'', ''/c'', ''path'']\<rparr>,
        \<lparr>ap_id = ''A03'', ap_title = ''Read persistent path values via registry'',
         ap_bypass_class = ''alternate_command'', ap_command_family = ''reg'',
         ap_command = [''cmd'', ''/c'', registry_path_query]\<rparr>]
      else
       [\<lparr>ap_id = ''A01'', ap_title = ''Read path variable via printenv'',
         ap_bypass_class = ''alternate_command'', ap_command_family = ''printenv'',
         ap_command = [''printenv'', ''PATH'']\<rparr>,
        \<lparr>ap_id = ''A02'', ap_title = ''Read path variable via shell expansion'',
         ap_bypass_class = ''alternate_command'', ap_command_family = ''sh/printf'',
         ap_command = [''sh'', ''-c'', ''printf '' @ in_quotes ''%s'' @ '' '' @ in_quotes ''$PATH'']\<rparr>,
        \<lparr>ap_id = ''A03'', ap_title = ''Read path variable via proc environ'',
         ap_bypass_class = ''alternate_command'', ap_command_family = ''procfs'',
         ap_command = [''sh'', ''-c'', ''tr '' @ in_single [CHR 0x5C, CHR ''0''] @ '' '' @
           in_single [CHR 0x5C, CHR ''n''] @ '' < /proc/self/environ | sed -n '' @
           in_single ''s/^PATH=//p'']\<rparr>])"

definition is_path_variable_attempt :: "string list \<Rightarrow> bool" where
  "is_path_variable_attempt args = contains ''path'' (py_join '' '' (map py_lower args))"

definition environment_alternate_evidence ::
    "probe_world \<Rightarrow> string list \<Rightarrow> completed \<Rightarrow> string \<Rightarrow> string" where
  "environment_alternate_evidence w args completed combined_output =
     (if combined_output \<noteq> []
      then if is_path_variable_attempt args then path_variable_evidence w combined_output
        else take 500 combined_output
      else ''returncode='' @ str_int (cp_returncode completed))"

definition run_environment_alternate_attempt ::
    "machine \<Rightarrow> probe_world \<Rightarrow> alternate_program_attempt \<Rightarrow> alternate_attempt_result act" where
  "run_environment_alternate_attempt m w probe =
     attempt_with m (ap_id probe) (ap_title probe) (ap_bypass_class probe) (ap_command_family probe)
       (run_program m (ap_command probe))
       (\<lambda>completed combined_output. if cp_returncode completed = 0 then ALLOWED else DENIED)
       (environment_alternate_evidence w (ap_command probe))"

definition run_environment_alternate_attempts ::
    "machine \<Rightarrow> probe_world \<Rightarrow> alternate_program_attempt list \<Rightarrow> alternate_invocation_result act" where
  "run_environment_alternate_attempts m w =
     attempts_with (run_environment_alternate_attempt m w)
       (\<lambda>attempt_results. (DENIED, ''No alternate shell attempts succeeded.''))"

section \<open>Credentials\<close>

definition AI_CREDENTIAL_ENVIRONMENT_VARIABLES :: "string list" where
  "AI_CREDENTIAL_ENVIRONMENT_VARIABLES =
     [''OPENAI_API_KEY'', ''GOOGLE_API_KEY'', ''ANTHROPIC_API_KEY'', ''AZURE_OPENAI_API_KEY'',
      ''COHERE_API_KEY'', ''MISTRAL_API_KEY'', ''GROQ_API_KEY'', ''HUGGINGFACE_API_TOKEN'', ''HF_TOKEN'']"

definition g29_quote_powershell_string :: "string \<Rightarrow> string" where
  "g29_quote_powershell_string value = in_single (replace_char CHR 0x27 [CHR 0x27, CHR 0x27] value)"

definition g29_shell_quote :: "string \<Rightarrow> string" where
  "g29_shell_quote value =
     in_single (replace_char CHR 0x27 [CHR 0x27, CHR 0x22, CHR 0x27, CHR 0x22, CHR 0x27] value)"

definition powershell_names :: string where
  "powershell_names = py_join '', '' (map g29_quote_powershell_string AI_CREDENTIAL_ENVIRONMENT_VARIABLES)"

definition credential_check :: "string \<Rightarrow> string" where
  "credential_check name =
     (let quoted_name = g29_shell_quote name
      in ''if printenv '' @ quoted_name @ '' >/dev/null 2>&1; then printf '' @
        in_single (''%s'' @ [CHR 0x5C, CHR ''n'']) @ '' '' @ quoted_name @ ''; fi'')"

definition shell_ai_credential_environment_command :: "operating_system \<Rightarrow> string list" where
  "shell_ai_credential_environment_command os =
     (if os = WINDOWS
      then powershell [''-NonInteractive'']
        (''$names = @('' @ powershell_names @ ''); $present = @(); foreach ($name in $names) { if (Test-Path '' @
         in_quotes ''Env:$name'' @ '') { $present += $name } } if ($present.Count -gt 0) { Write-Output ('' @
         in_single ''names='' @ '' + ($present -join '' @ in_single '','' @ '')) }'')
      else [''sh'', ''-c'',
        ''present=$('' @ py_join [CHR 0x0A] (map credential_check AI_CREDENTIAL_ENVIRONMENT_VARIABLES) @
        ''); [ -n '' @ in_quotes ''$present'' @ '' ] && printf '' @
        in_single (''names=%s'' @ [CHR 0x5C, CHR ''n'']) @ '' '' @ in_quotes ''$present''])"

definition g29_failure_evidence :: "completed \<Rightarrow> string \<Rightarrow> string" where
  "g29_failure_evidence completed combined_output =
     (if combined_output \<noteq> [] then take 500 combined_output
      else ''returncode='' @ str_int (cp_returncode completed))"

definition absent_summary :: string where
  "absent_summary = ''No known AI credential environment variables were present.''"

definition credential_shell_failure ::
    "machine \<Rightarrow> py_error \<Rightarrow> invocation_result act option" where
  "credential_shell_failure m e =
     (if is_missing e then Some (ret (InvocationResult NOT_APPLICABLE
        ''No shell command was available to inspect the environment.'' (error_repr m e)))
      else shell_failure m ''Shell AI credential environment probe timed out.''
        ''Shell AI credential environment probe failed.'' e)"

definition G05_T05_run_shell :: "machine \<Rightarrow> operating_system \<Rightarrow> invocation_result act" where
  "G05_T05_run_shell m os =
     catch (bind (run_program m (shell_ai_credential_environment_command os)) (\<lambda>completed.
       let combined_output = combined_output_of completed
       in ret (if cp_returncode completed \<noteq> 0
         then InvocationResult DENIED ''Shell could not inspect AI credential environment names.''
           (g29_failure_evidence completed combined_output)
         else if combined_output \<noteq> []
         then InvocationResult ALLOWED ''Shell detected AI credential environment variables.'' combined_output
         else InvocationResult NOT_APPLICABLE absent_summary '''')))
     (credential_shell_failure m)"

definition find_ai_credential_environment_names :: "probe_world \<Rightarrow> string list res" where
  "find_ai_credential_environment_names w =
     res_bind (pw_environ w) (\<lambda>environ. Inr (filter
       (\<lambda>name. dict_get environ (environ_key w name) \<noteq> None) AI_CREDENTIAL_ENVIRONMENT_VARIABLES))"

definition G05_T05_run_tool :: "machine \<Rightarrow> probe_world \<Rightarrow> invocation_result act" where
  "G05_T05_run_tool m w =
     catch (bind (lift_res (find_ai_credential_environment_names w)) (\<lambda>credential_names.
       ret (if credential_names \<noteq> []
         then InvocationResult ALLOWED ''Python runtime detected AI credential environment variables.''
           (''names='' @ py_join '','' credential_names)
         else InvocationResult NOT_APPLICABLE absent_summary '''')))
     (tool_failure m ''Python runtime AI credential environment probe failed.'')"

definition parameter_check :: "string \<Rightarrow> string" where
  "parameter_check name =
     ''eval '' @ in_single (''[ '' @ in_quotes (''${'' @ name @ ''+set}'') @ '' = set ]'') @
     '' && printf '' @ in_single (''%s'' @ [CHR 0x5C, CHR ''n'']) @ '' '' @ g29_shell_quote name"

definition build_ai_credential_alternate_attempts ::
    "operating_system \<Rightarrow> alternate_program_attempt list" where
  "build_ai_credential_alternate_attempts os =
     (if os = WINDOWS then
       [\<lparr>ap_id = ''A01'', ap_title = ''Detect AI credential environment names via cmd'',
         ap_bypass_class = ''ai_credential_environment_detection'', ap_command_family = ''cmd/if-defined'',
         ap_command = [''cmd'', ''/c'', py_join '' & ''
           (map (\<lambda>name. ''if defined '' @ name @ '' echo '' @ name) AI_CREDENTIAL_ENVIRONMENT_VARIABLES)]\<rparr>,
        \<lparr>ap_id = ''A02'', ap_title = ''Detect AI credential environment names via PowerShell provider'',
         ap_bypass_class = ''ai_credential_environment_detection'', ap_command_family = ''powershell/env'',
         ap_command = powershell [''-NonInteractive'']
           (''$names = @('' @ powershell_names @ ''); foreach ($name in $names) { if (Get-Item -Path '' @
            in_quotes ''Env:$name'' @ '' -ErrorAction SilentlyContinue) { Write-Output $name } }'')\<rparr>]
      else
       [\<lparr>ap_id = ''A01'', ap_title = ''Detect AI credential environment names via env grep'',
         ap_bypass_class = ''ai_credential_environment_detection'', ap_command_family = ''env/grep'',
         ap_command = [''sh'', ''-c'', ''env | grep -E '' @
           in_single (''^('' @ py_join ''|'' AI_CREDENTIAL_ENVIRONMENT_VARIABLES @ '')='') @
           '' | sed '' @ in_single ''s/=.*//'']\<rparr>,
        \<lparr>ap_id = ''A02'', ap_title = ''Detect AI credential environment names via shell parameter checks'',
         ap_bypass_class = ''ai_credential_environment_detection'',
         ap_command_family = ''sh/parameter-expansion'',
         ap_command = [''sh'', ''-c'',
           py_join ''; '' (map parameter_check AI_CREDENTIAL_ENVIRONMENT_VARIABLES)]\<rparr>])"

definition run_ai_credential_alternate_attempt ::
    "machine \<Rightarrow> alternate_program_attempt \<Rightarrow> alternate_attempt_result act" where
  "run_ai_credential_alternate_attempt m probe =
     attempt_with m (ap_id probe) (ap_title probe) (ap_bypass_class probe) (ap_command_family probe)
       (run_program m (ap_command probe))
       (\<lambda>completed combined_output.
         if cp_returncode completed = 0 \<and> combined_output \<noteq> [] then ALLOWED
         else if cp_returncode completed = 0 then NOT_APPLICABLE else DENIED)
       g29_failure_evidence"

definition run_ai_credential_alternate_attempts ::
    "machine \<Rightarrow> alternate_program_attempt list \<Rightarrow> alternate_invocation_result act" where
  "run_ai_credential_alternate_attempts m =
     attempts_with (run_ai_credential_alternate_attempt m)
       (\<lambda>attempt_results. (NOT_APPLICABLE, absent_summary))"

definition get_group_05 :: "machine \<Rightarrow> probe_world \<Rightarrow> capability_context \<Rightarrow> capability_group" where
  "get_group_05 m w c =
     (let os = cx_operating_system c
      in \<lparr>gr_id = ''G05'', gr_title = ''Environment variables and secrets exposure'',
       gr_tests =
        [\<lparr>ct_id = ''T01'', ct_title = ''List environment variable names'',
          run_shell = G05_T01_run_shell m os, run_tool = G05_T01_run_tool m w,
          run_alternates = run_environment_alternate_attempts m w
            (build_environment_name_alternate_attempts os)\<rparr>,
         \<lparr>ct_id = ''T04'', ct_title = ''Read path/search-path variable'',
          run_shell = G05_T04_run_shell m w os, run_tool = G05_T04_run_tool m w os,
          run_alternates = run_environment_alternate_attempts m w
            (build_path_variable_alternate_attempts os)\<rparr>,
         \<lparr>ct_id = ''T05'', ct_title = ''Access model/API credentials in environment/config'',
          run_shell = G05_T05_run_shell m os, run_tool = G05_T05_run_tool m w,
          run_alternates = run_ai_credential_alternate_attempts m
            (build_ai_credential_alternate_attempts os)\<rparr>]\<rparr>)"

section \<open>What a shell makes of the credential scripts\<close>

definition printenv_check :: "string \<Rightarrow> script_command" where
  "printenv_check name =
     If_Do (Program [Bare [Lit ''printenv''], Single name] (Some Silenced)) [Printf_Line [] (Single name)]"

definition credential_script :: "script_command list" where
  "credential_script =
     [Assign_Output ''present'' (map printenv_check AI_CREDENTIAL_ENVIRONMENT_VARIABLES),
      And_Then (Test (Nonempty (Double [Var ''present''])))
        (Printf_Line ''names='' (Double [Var ''present'']))]"

definition parameter_script :: "script_command list" where
  "parameter_script = map (\<lambda>name. And_Then (Eval (Test (Is_Set name))) (Printf_Line [] (Single name)))
     AI_CREDENTIAL_ENVIRONMENT_VARIABLES"

lemma credential_texts:
  "shell_ai_credential_environment_command LINUX = [''sh'', ''-c'', script_of credential_script]"
  "py_join ''; '' (map parameter_check AI_CREDENTIAL_ENVIRONMENT_VARIABLES) = script_of parameter_script"
  by code_simp+

definition environment_world :: "(string \<Rightarrow> string option) \<Rightarrow> sh_world" where
  "environment_world env = \<lparr>ws_program = \<lambda>args _. printenv env args, ws_found = \<lambda>_. False,
     ws_content = \<lambda>_. None\<rparr>"

definition credentials_in :: "(string \<Rightarrow> string option) \<Rightarrow> string list" where
  "credentials_in env = filter (\<lambda>name. env name \<noteq> None) AI_CREDENTIAL_ENVIRONMENT_VARIABLES"

lemma credential_names_plain:
  "list_all (\<lambda>n. n \<noteq> [] \<and> CHR 0x0A \<notin> set n) AI_CREDENTIAL_ENVIRONMENT_VARIABLES"
  by code_simp

text \<open>In any environment the first script prints the names that are set, and fails when there is none;
  the second prints them too, but ends with the status of the last check.\<close>

lemma credential_script_run:
  "sh_script (environment_world env) env credential_script =
     (if credentials_in env = [] then (1, [])
      else (0, ''names='' @ py_join [CHR 0x0A] (credentials_in env) @ [CHR 0x0A]))"
proof -
  let ?w = "environment_world env" and ?line = "\<lambda>n. if env n \<noteq> None then n @ [CHR 0x0A] else []"
  have "\<exists>status. run_script_command ?w stdin s (printenv_check n) = (s\<lparr>st_status := status\<rparr>, ?line n, False)"
    for stdin s n
    by (rule exI [of _ 0], cases "env n")
      (simp_all add: printenv_check_def environment_world_def printenv_def ended_with_def)
  from run_list_guards [where f = printenv_check and g = ?line, OF this] obtain status where
    "run_script_list ?w [] (start_state env) (map printenv_check AI_CREDENTIAL_ENVIRONMENT_VARIABLES) =
      ((start_state env)\<lparr>st_status := status\<rparr>, concat (map ?line AI_CREDENTIAL_ENVIRONMENT_VARIABLES), False)"
    by blast
  moreover have "strip_line_ends (concat (map ?line AI_CREDENTIAL_ENVIRONMENT_VARIABLES)) =
      py_join [CHR 0x0A] (credentials_in env)"
    unfolding concat_guarded credentials_in_def
    by (rule strip_joined_lines) (use credential_names_plain in \<open>auto simp: list_all_iff\<close>)
  moreover have "py_join [CHR 0x0A] (credentials_in env) = [] \<longleftrightarrow> credentials_in env = []"
  proof (cases "credentials_in env")
    case (Cons n ns)
    then have "n \<in> set AI_CREDENTIAL_ENVIRONMENT_VARIABLES"
      unfolding credentials_in_def by (metis filter_is_subset list.set_intros(1) subsetD)
    with credential_names_plain have "n \<noteq> []" by (auto simp: list_all_iff)
    with Cons show ?thesis by (cases ns) auto
  qed simp
  ultimately show ?thesis
    by (auto simp: sh_script_def credential_script_def ended_with_def status_if_def value_of_def)
qed

lemma parameter_script_run:
  "sh_script (environment_world env) env parameter_script =
     (if env ''HF_TOKEN'' = None then 1 else 0,
      concat (map (\<lambda>n. n @ [CHR 0x0A]) (credentials_in env)))"
proof -
  have "run_script_list w [] s (map (\<lambda>n. And_Then (Eval (Test (Is_Set n))) (Printf_Line [] (Single n))) ns) =
      (s\<lparr>st_status := if ns = [] then st_status s else status_if (st_vars s (last ns) \<noteq> None)\<rparr>,
       concat (map (\<lambda>n. if st_vars s n \<noteq> None then n @ [CHR 0x0A] else []) ns), False)" for w s ns
    by (induction ns arbitrary: s) (auto simp: ended_with_def status_if_def)
  moreover have "AI_CREDENTIAL_ENVIRONMENT_VARIABLES \<noteq> []" "last AI_CREDENTIAL_ENVIRONMENT_VARIABLES = ''HF_TOKEN''"
    by (simp_all add: AI_CREDENTIAL_ENVIRONMENT_VARIABLES_def)
  ultimately show ?thesis
    by (simp only: sh_script_def parameter_script_def) (simp add: start_state_def credentials_in_def
        concat_guarded status_if_def)
qed

section \<open>What the group reports\<close>

lemma credentials_found:
  "pw_environ w = Inr environ \<Longrightarrow> \<not> pw_windows w \<Longrightarrow>
   find_ai_credential_environment_names w = Inr (credentials_in (map_of environ))"
  by (simp add: find_ai_credential_environment_names_def credentials_in_def environ_key_def)

text \<open>C36. What the credential test says depends on the invocation, not only on the environment. In an
  environment without any of the credentials the tool reports \<open>NOT_APPLICABLE\<close> but the shell \<open>DENIED\<close>,
  because the script ends with the status of its last test, which fails; with one of them both
  report \<open>ALLOWED\<close>. The second alternate attempt looks at the status of its last check only: unless
  \<open>HF_TOKEN\<close> is set it reports \<open>DENIED\<close>, whatever other credentials it has printed.\<close>

theorem credential_probes_by_status:
  assumes shell: "shell_answers m (environment_world env) env credential_script"
    and checks: "shell_answers m (environment_world env) env parameter_script"
    and environ: "pw_environ w = Inr environ" "env = map_of environ" "\<not> pw_windows w"
    and test: "t = gr_tests (get_group_05 m w c) ! 2" "cx_operating_system c = LINUX"
  shows "\<exists>s u a log1 log2. run_shell t log = (Inr s, log1) \<and> run_tool t log = (Inr u, log) \<and>
    run_ai_credential_alternate_attempt m (build_ai_credential_alternate_attempts LINUX ! 1) log = (Inr a, log2) \<and>
    iv_outcome s = (if credentials_in env = [] then DENIED else ALLOWED) \<and>
    iv_outcome u = (if credentials_in env = [] then NOT_APPLICABLE else ALLOWED) \<and>
    aa_outcome a = (if env ''HF_TOKEN'' = None then DENIED else ALLOWED)"
proof -
  let ?p = "build_ai_credential_alternate_attempts LINUX ! 1"
  from shell obtain err where ran: "run_program m (shell_ai_credential_environment_command LINUX) log =
      (Inr \<lparr>cp_returncode = fst (sh_script (environment_world env) env credential_script),
         cp_stdout = snd (sh_script (environment_world env) env credential_script), cp_stderr = err\<rparr>,
       log @ [Ran (shell_ai_credential_environment_command LINUX)])"
    unfolding credential_texts by (rule shell_runs)
  have "combined_output_of \<lparr>cp_returncode = 0, cp_stdout = CHR ''n'' # rest, cp_stderr = err\<rparr> \<noteq> []" for rest
    by (simp add: combined_output_of_def py_strip_nonempty [of "CHR ''n''"] is_space_def code_def)
  with ran have s: "\<exists>s log1. G05_T05_run_shell m LINUX log = (Inr s, log1) \<and>
      iv_outcome s = (if credentials_in env = [] then DENIED else ALLOWED)"
    by (auto simp: G05_T05_run_shell_def credential_script_run catch_def bind_def ret_def Let_def)
  have u: "\<exists>u. G05_T05_run_tool m w log = (Inr u, log) \<and>
      iv_outcome u = (if credentials_in env = [] then NOT_APPLICABLE else ALLOWED)"
    using credentials_found [OF environ(1,3)] environ(2)
    by (simp add: G05_T05_run_tool_def catch_def bind_def lift_res_def ret_def)
  have command: "ap_command ?p = [''sh'', ''-c'', script_of parameter_script]"
    by (simp add: build_ai_credential_alternate_attempts_def credential_texts)
  from checks obtain err' where ran': "run_program m (ap_command ?p) log =
      (Inr \<lparr>cp_returncode = fst (sh_script (environment_world env) env parameter_script),
         cp_stdout = snd (sh_script (environment_world env) env parameter_script), cp_stderr = err'\<rparr>,
       log @ [Ran (ap_command ?p)])"
    unfolding command by (rule shell_runs)
  have "combined_output_of \<lparr>cp_returncode = 0,
      cp_stdout = concat (map (\<lambda>n. n @ [CHR 0x0A]) (credentials_in env)), cp_stderr = err'\<rparr> \<noteq> []"
    if "env ''HF_TOKEN'' \<noteq> None"
  proof -
    from that have "''HF_TOKEN'' \<in> set (credentials_in env)"
      by (simp add: credentials_in_def AI_CREDENTIAL_ENVIRONMENT_VARIABLES_def)
    then have "CHR ''H'' \<in> set (concat (map (\<lambda>n. n @ [CHR 0x0A]) (credentials_in env)))"
      by (auto intro!: bexI [of _ "''HF_TOKEN''"])
    then show ?thesis by (simp add: combined_output_of_def py_strip_nonempty [of "CHR ''H''"] is_space_def code_def)
  qed
  with ran' have "\<exists>a log2. run_ai_credential_alternate_attempt m ?p log = (Inr a, log2) \<and>
      aa_outcome a = (if env ''HF_TOKEN'' = None then DENIED else ALLOWED)"
    by (auto simp: run_ai_credential_alternate_attempt_def attempt_with_completed parameter_script_run)
  with s u test show ?thesis by (auto simp: get_group_05_def Let_def)
qed

text \<open>Where every program is refused the attempts are denied, and yet the test reports that no
  credential was present.\<close>

lemma refused_credential_attempts:
  assumes "\<And>log command. run_answer m log command = Inl (PermissionError x)"
  shows "\<exists>a log'. run_ai_credential_alternate_attempts m (build_ai_credential_alternate_attempts os) log =
      (Inr a, log') \<and> ai_outcome a = NOT_APPLICABLE \<and> list_all (\<lambda>r. aa_outcome r = DENIED) (ai_attempts a)"
  using assms
  by (simp add: run_ai_credential_alternate_attempts_def build_ai_credential_alternate_attempts_def
      run_ai_credential_alternate_attempt_def attempts_with_def attempt_with_def catch_def bind_def ret_def
      run_program_def joint_outcome_def count_outcome_def)

section \<open>The search path is not revealed\<close>

definition counts_only :: "machine \<Rightarrow> string \<Rightarrow> bool" where
  "counts_only m evidence \<longleftrightarrow>
     (\<exists>n k. evidence = redact_evidence (''path_entry_count='' @ str_nat n @ ''; bytes='' @ str_nat k)) \<or>
     (\<exists>status. evidence = redact_evidence (''returncode='' @ str_int status)) \<or>
     (\<exists>e. evidence = redact_evidence (error_repr m e))"

lemma path_attempts_named:
  "list_all (\<lambda>p. is_path_variable_attempt (ap_command p)) (build_path_variable_alternate_attempts os)"
proof -
  have "list_all (\<lambda>p. is_path_variable_attempt (ap_command p)) (build_path_variable_alternate_attempts WINDOWS)"
    "list_all (\<lambda>p. is_path_variable_attempt (ap_command p)) (build_path_variable_alternate_attempts LINUX)"
    by code_simp+
  then show ?thesis by (cases "os = WINDOWS") (simp_all add: build_path_variable_alternate_attempts_def)
qed

lemma path_evidence_counts:
  "counts_only m (redact_evidence (path_variable_evidence w v))"
  "counts_only m (redact_evidence (''returncode='' @ str_int status))"
  "counts_only m (redact_evidence (error_repr m e))"
  unfolding counts_only_def path_variable_evidence_def Let_def by blast+

lemma path_attempts_count:
  "yields (\<lambda>a. list_all (\<lambda>r. counts_only m (aa_evidence r)) (ai_attempts a))
     (run_environment_alternate_attempts m w (build_path_variable_alternate_attempts os))"
  unfolding run_environment_alternate_attempts_def
proof (rule attempts_with_yields)
  have "yields (\<lambda>r. counts_only m (aa_evidence r)) (run_environment_alternate_attempt m w p)"
    if "is_path_variable_attempt (ap_command p)" for p
    unfolding run_environment_alternate_attempt_def
    using that by (intro attempt_with_yields) (auto simp: environment_alternate_evidence_def path_evidence_counts
        path_evidence_counts(2) [simplified])
  then show "list_all (\<lambda>p. yields (\<lambda>r. counts_only m (aa_evidence r)) (run_environment_alternate_attempt m w p))
      (build_path_variable_alternate_attempts os)"
    using path_attempts_named [of os] by (auto simp: list_all_iff)
qed

text \<open>The test that reads the search path tells how many entries and bytes it has and nothing else
  of it: every evidence of an attempt, and of an invocation that succeeded, holds two counts, an
  exit status or an exception.\<close>

theorem path_probe_reveals_counts:
  assumes "t = gr_tests (get_group_05 m w c) ! 1"
  shows "(run_shell t log = (Inr s, log1) \<and> iv_outcome s = ALLOWED \<longrightarrow> counts_only m (iv_evidence s)) \<and>
    (run_tool t log = (Inr u, log2) \<and> iv_outcome u = ALLOWED \<longrightarrow> counts_only m (iv_evidence u)) \<and>
    (run_alternates t log = (Inr a, log3) \<longrightarrow> list_all (\<lambda>r. counts_only m (aa_evidence r)) (ai_attempts a))"
proof (intro conjI)
  note parts = catch_def bind_def ret_def lift_res_def InvocationResult_def invocation_failure_def
  have t: "run_shell t = G05_T04_run_shell m w (cx_operating_system c)"
    "run_tool t = G05_T04_run_tool m w (cx_operating_system c)"
    "run_alternates t = run_environment_alternate_attempts m w
      (build_path_variable_alternate_attempts (cx_operating_system c))"
    using assms by (simp_all add: get_group_05_def Let_def)
  show "run_shell t log = (Inr s, log1) \<and> iv_outcome s = ALLOWED \<longrightarrow> counts_only m (iv_evidence s)"
    using path_evidence_counts(1) [of m w]
    by (auto simp: t G05_T04_run_shell_def run_environment_shell_def parts
        split: prod.splits sum.splits if_splits)
  show "run_tool t log = (Inr u, log2) \<and> iv_outcome u = ALLOWED \<longrightarrow> counts_only m (iv_evidence u)"
    using path_evidence_counts(1) [of m w]
    by (auto simp: t G05_T04_run_tool_def parts split: prod.splits sum.splits if_splits option.splits)
  show "run_alternates t log = (Inr a, log3) \<longrightarrow>
      list_all (\<lambda>r. counts_only m (aa_evidence r)) (ai_attempts a)"
    using yieldsD [OF path_attempts_count] t by auto
qed

section \<open>What the group does, and that it answers\<close>

lemma probes_ordinary:
  assumes "programs_fail_ordinarily m w"
  shows "ordinary (run_program m command)" "ordinary (lift_res (pw_environ w))"
    "ordinary (lift_res (environ_get w name))" "ordinary (lift_res (find_ai_credential_environment_names w))"
  using programs_ordinary [OF assms] assms
  by (auto simp: ordinary_def programs_fail_ordinarily_def lift_res_def find_ai_credential_environment_names_def
      res_bind_def split: sum.splits)

interpretation environment_attempts: attempt_runner "run_environment_alternate_attempt m w"
    "\<lambda>p. programs_fail_ordinarily m w" P "\<lambda>p. P (Ran (ap_command p))" for m w P
  by unfold_locales
    (auto simp: run_environment_alternate_attempt_def
      intro!: attempt_with_returns attempt_with_emits probes_ordinary emits_intros)

interpretation credential_attempts: attempt_runner "run_ai_credential_alternate_attempt m"
    "\<lambda>p. programs_fail_ordinarily m w" P "\<lambda>p. P (Ran (ap_command p))" for m w P
  by unfold_locales
    (auto simp: run_ai_credential_alternate_attempt_def
      intro!: attempt_with_returns attempt_with_emits probes_ordinary emits_intros)

text \<open>The group runs programs and reads its environment, and changes nothing else. Whatever a program
  raises, every invocation answers.\<close>

lemma group_05_emits:
  assumes "\<forall>command. P (Ran command)"
  shows "group_emits P (get_group_05 m w c)"
proof -
  have credential: "credential_shell_failure m e = Some n \<Longrightarrow> emits P n" for e n
    by (auto simp: credential_shell_failure_def intro!: emits_intros intro: failures_emit split: if_splits)
  have "emits P (run_environment_shell m command allowed_summary evidence_of)"
    for command allowed_summary evidence_of
    unfolding run_environment_shell_def using assms by (auto intro!: emits_intros intro: failures_emit credential)
  moreover have "emits P (G05_T01_run_tool m w)" "emits P (G05_T04_run_tool m w os)"
    "emits P (G05_T05_run_shell m os)" "emits P (G05_T05_run_tool m w)" for os
    unfolding G05_T01_run_tool_def G05_T04_run_tool_def G05_T05_run_shell_def G05_T05_run_tool_def Let_def
    using assms by (auto intro!: emits_intros intro: failures_emit credential)
  moreover have "emits P (run_environment_alternate_attempts m w ps)"
    "emits P (run_ai_credential_alternate_attempts m ps)" for ps
    unfolding run_environment_alternate_attempts_def run_ai_credential_alternate_attempts_def
    using assms
    by (auto intro!: environment_attempts.attempts_emit credential_attempts.attempts_emit simp: list_all_iff)
  ultimately show ?thesis
    by (simp add: group_emits_def get_group_05_def Let_def G05_T01_run_shell_def G05_T04_run_shell_def)
qed

lemma group_05_returns:
  assumes "programs_fail_ordinarily m w"
  shows "group_returns (get_group_05 m w c)"
proof -
  note world = probes_ordinary [OF assms]
  have credential: "is_exception e \<Longrightarrow> \<exists>r. credential_shell_failure m e = Some (ret r)" for e
    by (auto simp: credential_shell_failure_def shell_failure_def)
  have "returns (run_environment_shell m command allowed_summary evidence_of)"
    for command allowed_summary evidence_of
    unfolding run_environment_shell_def by (intro caught_returns ordinary_intros world failure_answers)
  moreover have "returns (G05_T01_run_tool m w)" "returns (G05_T04_run_tool m w os)"
    "returns (G05_T05_run_shell m os)" "returns (G05_T05_run_tool m w)" for os
    unfolding G05_T01_run_tool_def G05_T04_run_tool_def G05_T05_run_shell_def G05_T05_run_tool_def Let_def
    by (intro caught_returns ordinary_intros world failure_handlers failure_answers credential; assumption)+
  moreover have "returns (run_environment_alternate_attempts m w ps)"
    "returns (run_ai_credential_alternate_attempts m ps)" for ps
    unfolding run_environment_alternate_attempts_def run_ai_credential_alternate_attempts_def
    using assms environment_attempts.attempts_return [of m w ps] credential_attempts.attempts_return [of m w ps]
    by (auto simp: list_all_iff)
  ultimately show ?thesis
    by (simp add: group_returns_def get_group_05_def Let_def G05_T01_run_shell_def G05_T04_run_shell_def)
qed

section \<open>A machine with these scripts\<close>

definition credential_machine :: "(string \<Rightarrow> string option) \<Rightarrow> machine" where
  "credential_machine env = shell_machine (environment_world env) env [credential_script, parameter_script]"

lemma credential_machine_answers:
  "shell_answers (credential_machine env) (environment_world env) env credential_script"
  "shell_answers (credential_machine env) (environment_world env) env parameter_script"
proof -
  have "distinct (map script_of [credential_script, parameter_script])" by code_simp
  then have "inj_on script_of (set [credential_script, parameter_script])" unfolding distinct_map by blast
  then show "shell_answers (credential_machine env) (environment_world env) env credential_script"
    "shell_answers (credential_machine env) (environment_world env) env parameter_script"
    unfolding credential_machine_def by (auto intro!: shell_machine_answers)
qed

text \<open>An environment with one credential, which is not the last of the list.\<close>

theorem credential_probes_by_status_witness:
  "\<exists>s u a log1 log2.
    run_shell (gr_tests (get_group_05 (credential_machine [''GROQ_API_KEY'' \<mapsto> ''k''])
      (posix_world [(''GROQ_API_KEY'', ''k'')]) sample_context) ! 2) [] = (Inr s, log1) \<and>
    run_tool (gr_tests (get_group_05 (credential_machine [''GROQ_API_KEY'' \<mapsto> ''k''])
      (posix_world [(''GROQ_API_KEY'', ''k'')]) sample_context) ! 2) [] = (Inr u, []) \<and>
    run_ai_credential_alternate_attempt (credential_machine [''GROQ_API_KEY'' \<mapsto> ''k''])
      (build_ai_credential_alternate_attempts LINUX ! 1) [] = (Inr a, log2) \<and>
    iv_outcome s = ALLOWED \<and> iv_outcome u = ALLOWED \<and> aa_outcome a = DENIED"
proof -
  have "credentials_in [''GROQ_API_KEY'' \<mapsto> ''k''] = [''GROQ_API_KEY'']" by code_simp
  with credential_probes_by_status [OF credential_machine_answers, where
      w = "posix_world [(''GROQ_API_KEY'', ''k'')]" and environ = "[(''GROQ_API_KEY'', ''k'')]" and
      c = sample_context and log = "[]", OF _ _ _ refl]
  show ?thesis by (simp add: posix_world_def sample_context_def)
qed

theorem path_probe_reveals_counts_witness:
  "\<exists>u. run_tool (gr_tests (get_group_05 broken_machine (posix_world [(''PATH'', ''/bin:/usr'')])
      sample_context) ! 1) [] = (Inr u, []) \<and> counts_only broken_machine (iv_evidence u)"
proof -
  let ?t = "gr_tests (get_group_05 broken_machine (posix_world [(''PATH'', ''/bin:/usr'')]) sample_context) ! 1"
  have "\<exists>u. run_tool ?t [] = (Inr u, []) \<and> iv_outcome u = ALLOWED"
    by (simp add: get_group_05_def Let_def G05_T04_run_tool_def sample_context_def posix_world_def
        environ_get_def environ_key_def catch_def bind_def ret_def lift_res_def res_bind_def)
  with path_probe_reveals_counts [OF refl, of broken_machine "posix_world [(''PATH'', ''/bin:/usr'')]"
      sample_context "[]"]
  show ?thesis by blast
qed

end
