(* ===== verification/Tester_Group_12.thy ===== *)
theory Tester_Group_12
  imports Tester_Probes
begin

text \<open>
  \<open>src/sandbox_tester/group_12.py\<close>, the group of the user interface: a screenshot, a window, the title of
  the active window, the accessibility channel. On Linux each is tried with a shell script that
  looks for a tool and runs it; the scripts are also given as parsed forms, because what the group
  reports rests on their exit status. The screen, \<open>tkinter\<close> and the Windows libraries are a
  parameter, \<open>ui_world\<close>.
\<close>

text \<open>\<open>ui_tk\<close> answers the calls on \<open>tkinter\<close>, \<open>ui_user32\<close> the setup of the functions of \<open>user32\<close>, and the
  next three those functions; \<open>ui_load_library\<close> is \<open>ctypes.WinDLL\<close>.\<close>

record ui_world =
  ui_grab :: "tester_event list \<Rightarrow> (int \<times> int) res"
  ui_tk :: "tester_event list \<Rightarrow> string \<Rightarrow> unit res"
  ui_user32 :: "tester_event list \<Rightarrow> unit res"
  ui_foreground_window :: "tester_event list \<Rightarrow> int option"
  ui_title_length :: "tester_event list \<Rightarrow> int option \<Rightarrow> int"
  ui_title :: "tester_event list \<Rightarrow> int option \<Rightarrow> int \<Rightarrow> int \<times> string"
  ui_load_library :: "tester_event list \<Rightarrow> string \<Rightarrow> unit res"

definition NO_SHELL_CANDIDATE_EXIT_CODE :: int where
  "NO_SHELL_CANDIDATE_EXIT_CODE = 127"

section \<open>Commands\<close>

definition build_powershell_command :: "string \<Rightarrow> string list" where
  "build_powershell_command script = [''powershell'', ''-NoProfile'', ''-NonInteractive'', ''-Command'', script]"

definition build_windows_screenshot_command :: "string list" where
  "build_windows_screenshot_command = build_powershell_command
     (''Add-Type -AssemblyName System.Windows.Forms; Add-Type -AssemblyName System.Drawing; '' @
      ''$bounds = [System.Windows.Forms.Screen]::PrimaryScreen.Bounds; '' @
      ''$bitmap = [System.Drawing.Bitmap]::new($bounds.Width, $bounds.Height); '' @
      ''$graphics = [System.Drawing.Graphics]::FromImage($bitmap); '' @
      ''$graphics.CopyFromScreen($bounds.Location, [System.Drawing.Point]::Empty, $bounds.Size); '' @
      ''$graphics.Dispose(); $bitmap.Dispose(); Write-Output '' @
      in_quotes ''size=($($bounds.Width), $($bounds.Height))'' @
      ''; if ($bounds.Width -gt 0 -and $bounds.Height -gt 0) { exit 0 } else { exit 1 }'')"

definition screenshot_attempt :: "string \<Rightarrow> string \<Rightarrow> string" where
  "screenshot_attempt tool invocation =
     ''if command -v '' @ tool @ '' >/dev/null 2>&1; then '' @ invocation @ '' '' @ in_quotes ''$path'' @
     ''; status=$?; if [ '' @ in_quotes ''$status'' @ '' -eq 0 ] && [ -s '' @ in_quotes ''$path'' @
     '' ]; then bytes=$(wc -c < '' @ in_quotes ''$path'' @ ''); echo '' @ in_quotes ''bytes=$bytes'' @
     ''; exit 0; fi; exit '' @ in_quotes ''$status'' @ ''; fi; ''"

definition build_linux_screenshot_command :: "string list" where
  "build_linux_screenshot_command = [''sh'', ''-c'',
     ''path=$(mktemp --suffix=.png); cleanup() { rm -f '' @ in_quotes ''$path'' @ ''; }; trap cleanup EXIT; '' @
     screenshot_attempt ''gnome-screenshot'' ''gnome-screenshot -f'' @
     screenshot_attempt ''import'' ''import -window root'' @ screenshot_attempt ''grim'' ''grim'' @
     ''echo '' @ in_single ''no screenshot shell command found'' @ ''; exit '' @
     str_int NO_SHELL_CANDIDATE_EXIT_CODE]"

definition build_windows_application_window_command :: "string list" where
  "build_windows_application_window_command = build_powershell_command
     (''Add-Type -AssemblyName System.Windows.Forms; $form = [System.Windows.Forms.Form]::new(); $form.Text = '' @
      in_single ''Sandbox Tester'' @ ''; $form.Width = 200; $form.Height = 100; $form.StartPosition = '' @
      in_single ''Manual'' @ ''; $form.Left = 0; $form.Top = 0; $form.Show(); '' @
      ''[System.Windows.Forms.Application]::DoEvents(); Write-Output '' @ in_quotes ''window_created'' @
      ''; $form.Close(); $form.Dispose()'')"

definition status_is :: "nat \<Rightarrow> string" where
  "status_is n = ''[ '' @ in_quotes ''$status'' @ '' -eq '' @ str_nat n @ '' ]''"

definition build_linux_application_window_command :: "string list" where
  "build_linux_application_window_command = [''sh'', ''-c'',
     ''if command -v zenity >/dev/null 2>&1; then timeout 2 zenity --info --title='' @ in_single ''Sandbox Tester'' @
     '' --text='' @ in_single ''Sandbox Tester'' @ '' --timeout=1 >/dev/null 2>&1; status=$?; if '' @
     status_is 0 @ '' || '' @ status_is 5 @ '' || '' @ status_is 124 @ ''; then echo '' @
     in_single ''window_created'' @ ''; exit 0; fi; exit '' @ in_quotes ''$status'' @
     ''; fi; if command -v xmessage >/dev/null 2>&1; then timeout 2 xmessage -center '' @
     in_single ''Sandbox Tester'' @ '' >/dev/null 2>&1; status=$?; if '' @ status_is 0 @ '' || '' @ status_is 124 @
     ''; then echo '' @ in_single ''window_created'' @ ''; exit 0; fi; exit '' @ in_quotes ''$status'' @
     ''; fi; echo '' @ in_single ''no application-window shell command found'' @ ''; exit '' @
     str_int NO_SHELL_CANDIDATE_EXIT_CODE]"

definition text_of_lines :: "string list \<Rightarrow> string" where
  "text_of_lines lines = concat (map (\<lambda>line. line @ [CHR 0x0A]) lines)"

definition USER32_WINDOW_TEXT_DECLARATION :: string where
  "USER32_WINDOW_TEXT_DECLARATION = text_of_lines
     ['''', ''[DllImport('' @ in_quotes ''user32.dll'' @ '')]'', ''public static extern IntPtr GetForegroundWindow();'',
      '''', ''[DllImport('' @ in_quotes ''user32.dll'' @ '', CharSet = CharSet.Unicode)]'',
      ''public static extern int GetWindowText('', ''    IntPtr hWnd,'', ''    System.Text.StringBuilder text,'',
      ''    int count);'', '''', ''[DllImport('' @ in_quotes ''user32.dll'' @ '', CharSet = CharSet.Unicode)]'',
      ''public static extern int GetWindowTextLength(IntPtr hWnd);'']"

definition KERNEL32_LOAD_LIBRARY_DECLARATION :: string where
  "KERNEL32_LOAD_LIBRARY_DECLARATION = text_of_lines
     ['''', ''[DllImport('' @ in_quotes ''kernel32.dll'' @ '', CharSet = CharSet.Unicode)]'',
      ''public static extern IntPtr LoadLibrary(string lpFileName);'']"

definition build_windows_active_window_title_command :: "string list" where
  "build_windows_active_window_title_command = build_powershell_command
     (''Add-Type -Namespace SandboxTester -Name User32 -MemberDefinition '' @
      quote_powershell_string USER32_WINDOW_TEXT_DECLARATION @
      ''; $handle = [SandboxTester.User32]::GetForegroundWindow(); '' @
      ''$length = [SandboxTester.User32]::GetWindowTextLength($handle); '' @
      ''$builder = [System.Text.StringBuilder]::new($length + 1); '' @
      ''[void][SandboxTester.User32]::GetWindowText($handle, $builder, $builder.Capacity); '' @
      ''$title = $builder.ToString(); Write-Output '' @ in_quotes ''title_length=$($title.Length)'' @
      ''; if ($title.Length -gt 0) { exit 0 } else { exit 1 }'')"

definition title_attempt :: "string \<Rightarrow> string \<Rightarrow> string" where
  "title_attempt tool query =
     ''if command -v '' @ tool @ '' >/dev/null 2>&1; then title=$('' @ query @ ''); status=$?; if '' @ status_is 0 @
     '' && [ -n '' @ in_quotes ''$title'' @ '' ]; then echo title_length=${#title}; exit 0; fi; exit '' @
     in_quotes ''$status'' @ ''; fi; ''"

definition build_linux_active_window_title_command :: "string list" where
  "build_linux_active_window_title_command = [''sh'', ''-c'',
     title_attempt ''xdotool'' ''xdotool getactivewindow getwindowname'' @
     title_attempt ''wmctrl'' ''wmctrl -l | head -n 1'' @
     ''echo '' @ in_single ''active window title shell command not found'' @ ''; exit '' @
     str_int NO_SHELL_CANDIDATE_EXIT_CODE]"

definition build_windows_accessibility_channel_command :: "string list" where
  "build_windows_accessibility_channel_command = build_powershell_command
     (''Add-Type -Namespace SandboxTester -Name Kernel32 -MemberDefinition '' @
      quote_powershell_string KERNEL32_LOAD_LIBRARY_DECLARATION @
      ''; $handle = [SandboxTester.Kernel32]::LoadLibrary('' @ in_single ''UIAutomationCore.dll'' @
      ''); if ($handle -ne [IntPtr]::Zero) { Write-Output '' @ in_single ''UIAutomationCore.dll loaded'' @
      ''; exit 0 } else { Write-Error '' @ in_single ''UIAutomationCore.dll could not be loaded'' @ ''; exit 1 }'')"

definition build_linux_accessibility_channel_command :: "string list" where
  "build_linux_accessibility_channel_command = [''sh'', ''-c'',
     ''if [ -n '' @ in_quotes ''$AT_SPI_BUS_ADDRESS'' @ '' ]; then echo '' @
     in_quotes ''AT_SPI_BUS_ADDRESS present'' @ ''; exit 0; fi; if command -v gdbus >/dev/null 2>&1; then echo '' @
     in_quotes ''gdbus present'' @ ''; exit 0; fi; if command -v busctl >/dev/null 2>&1; then echo '' @
     in_quotes ''busctl present'' @ ''; exit 0; fi; echo '' @
     in_single ''accessibility channel shell command not found'' @ ''; exit '' @
     str_int NO_SHELL_CANDIDATE_EXIT_CODE]"

section \<open>Shell invocations\<close>

text \<open>The four shell invocations differ in the command and in what they call the operation.\<close>

definition run_ui_shell ::
    "machine \<Rightarrow> string list \<Rightarrow> string \<Rightarrow> string \<Rightarrow> string \<Rightarrow> string \<Rightarrow> string \<Rightarrow> invocation_result act" where
  "run_ui_shell m command allowed unavailable denied timed_out failed =
     catch (bind (run_program m command) (\<lambda>completed.
       let combined_output = combined_output_of completed
       in ret (if cp_returncode completed = 0
         then InvocationResult ALLOWED allowed (take 500 (py_strip (cp_stdout completed)))
         else if cp_returncode completed = NO_SHELL_CANDIDATE_EXIT_CODE
         then InvocationResult NOT_APPLICABLE unavailable (take 500 combined_output)
         else InvocationResult DENIED denied (take 500 combined_output))))
     (shell_failure m timed_out failed)"

definition screenshot_command :: "probe_world \<Rightarrow> string list" where
  "screenshot_command w =
     (if pw_windows w then build_windows_screenshot_command else build_linux_screenshot_command)"

definition application_window_command :: "probe_world \<Rightarrow> string list" where
  "application_window_command w =
     (if pw_windows w then build_windows_application_window_command
      else build_linux_application_window_command)"

definition window_title_command :: "operating_system \<Rightarrow> string list" where
  "window_title_command os =
     (if os = WINDOWS then build_windows_active_window_title_command
      else build_linux_active_window_title_command)"

definition accessibility_command :: "operating_system \<Rightarrow> string list" where
  "accessibility_command os =
     (if os = WINDOWS then build_windows_accessibility_channel_command
      else build_linux_accessibility_channel_command)"

definition G12_T01_run_shell :: "machine \<Rightarrow> probe_world \<Rightarrow> invocation_result act" where
  "G12_T01_run_shell m w = run_ui_shell m (screenshot_command w) ''Shell captured a screenshot.''
     ''No shell screenshot command was available.'' ''Shell could not capture a screenshot.''
     ''Shell screenshot capture timed out.'' ''Shell screenshot capture failed.''"

definition G12_T07_run_shell :: "machine \<Rightarrow> probe_world \<Rightarrow> invocation_result act" where
  "G12_T07_run_shell m w = run_ui_shell m (application_window_command w)
     ''Shell opened a temporary application window.''
     ''No shell application-window command was available.''
     ''Shell could not open a temporary application window.''
     ''Shell application window operation timed out.'' ''Shell application window operation failed.''"

definition G12_T08_run_shell :: "machine \<Rightarrow> operating_system \<Rightarrow> invocation_result act" where
  "G12_T08_run_shell m os = run_ui_shell m (window_title_command os) ''Shell read the active window title.''
     ''No shell active-window-title command was available.'' ''Shell could not read the active window title.''
     ''Shell active window title query timed out.'' ''Shell active window title query failed.''"

definition G12_T09_run_shell :: "machine \<Rightarrow> operating_system \<Rightarrow> invocation_result act" where
  "G12_T09_run_shell m os = run_ui_shell m (accessibility_command os)
     ''Shell queried an accessibility channel.''
     ''No shell accessibility channel query was available.''
     ''Shell could not query an accessibility channel.''
     ''Shell accessibility channel query timed out.'' ''Shell accessibility channel query failed.''"

section \<open>Tool invocations\<close>

definition size_text :: "int \<Rightarrow> int \<Rightarrow> string" where
  "size_text width height = ''('' @ str_int width @ '', '' @ str_int height @ '')''"

definition capture_screenshot :: "ui_world \<Rightarrow> (int \<times> int) act" where
  "capture_screenshot u = bind (consult (ui_grab u)) (\<lambda>(width, height).
     if width \<le> 0 \<or> height \<le> 0
     then raise (RuntimeError (''Invalid screenshot size: '' @ size_text width height))
     else ret (width, height))"

definition G12_T01_run_tool :: "machine \<Rightarrow> ui_world \<Rightarrow> invocation_result act" where
  "G12_T01_run_tool m u =
     catch (bind (capture_screenshot u) (\<lambda>(width, height).
       ret (InvocationResult ALLOWED ''Python runtime captured a screenshot.''
         (''size='' @ size_text width height))))
     (tool_failure m ''Python runtime screenshot capture failed.'')"

definition tk_call :: "ui_world \<Rightarrow> string \<Rightarrow> unit act" where
  "tk_call u call = consult (\<lambda>log. ui_tk u log call)"

definition open_temporary_window :: "ui_world \<Rightarrow> string act" where
  "open_temporary_window u =
     andthen (tk_call u ''import tkinter'') (andthen (tk_call u ''Tk'')
       (try_finally
         (andthen (tk_call u ''title'') (andthen (tk_call u ''geometry'')
           (andthen (tk_call u ''update_idletasks'') (andthen (tk_call u ''update'')
             (ret ''window_created'')))))
         (tk_call u ''destroy'')))"

definition G12_T07_run_tool :: "machine \<Rightarrow> ui_world \<Rightarrow> invocation_result act" where
  "G12_T07_run_tool m u =
     catch (bind (open_temporary_window u) (\<lambda>evidence.
       ret (InvocationResult ALLOWED ''Python runtime opened a temporary application window.'' evidence)))
     (tool_failure m ''Python runtime application window operation failed.'')"

text \<open>A null handle is \<open>None\<close> in Python, because the result type is \<open>HWND\<close>; it is not equal to 0.\<close>

definition read_windows_active_window_title :: "ui_world \<Rightarrow> string act" where
  "read_windows_active_window_title u =
     bind (consult (ui_user32 u)) (\<lambda>_. bind (ask (ui_foreground_window u)) (\<lambda>window_handle.
       if window_handle = Some 0 then raise (OSErrorText ''No foreground window handle was returned.'')
       else bind (ask (\<lambda>log. ui_title_length u log window_handle)) (\<lambda>title_length.
         if title_length \<le> 0 then raise (OSErrorText ''Foreground window title was empty or unavailable.'')
         else bind (ask (\<lambda>log. ui_title u log window_handle (title_length + 1))) (\<lambda>(copied_length, title).
           if copied_length \<le> 0 then raise (OSErrorText ''Foreground window title could not be read.'')
           else ret title))))"

definition read_linux_active_window_title :: "machine \<Rightarrow> probe_world \<Rightarrow> string act" where
  "read_linux_active_window_title m w =
     bind (which w ''xdotool'') (\<lambda>xdotool_path. case xdotool_path of
       None \<Rightarrow> raise (FileNotFoundError ''xdotool was not found.'')
     | Some program \<Rightarrow>
         bind (run_program m [program, ''getactivewindow'', ''getwindowname'']) (\<lambda>completed.
           let title = py_strip (cp_stdout completed); failure = py_strip (cp_stderr completed)
           in if cp_returncode completed \<noteq> 0
              then raise (OSErrorText (if failure \<noteq> [] then failure else ''xdotool failed.''))
              else if title = [] then raise (OSErrorText ''Active window title was empty or unavailable.'')
              else ret title))"

definition read_active_window_title ::
    "machine \<Rightarrow> probe_world \<Rightarrow> ui_world \<Rightarrow> operating_system \<Rightarrow> string act" where
  "read_active_window_title m w u os =
     (if os = WINDOWS then read_windows_active_window_title u else read_linux_active_window_title m w)"

definition G12_T08_run_tool ::
    "machine \<Rightarrow> probe_world \<Rightarrow> ui_world \<Rightarrow> operating_system \<Rightarrow> invocation_result act" where
  "G12_T08_run_tool m w u os =
     catch (bind (read_active_window_title m w u os) (\<lambda>title.
       ret (InvocationResult ALLOWED ''Python runtime read the active window title.''
         (''title_length='' @ str_nat (length title)))))
     (tool_failure m ''Python runtime active window title query failed.'')"

definition query_accessibility_channel ::
    "probe_world \<Rightarrow> ui_world \<Rightarrow> operating_system \<Rightarrow> string act" where
  "query_accessibility_channel w u os =
     (if os = WINDOWS
      then bind (consult (\<lambda>log. ui_load_library u log ''UIAutomationCore.dll'')) (\<lambda>_.
        ret ''UIAutomationCore.dll loaded'')
      else bind (lift_res (environ_get w ''AT_SPI_BUS_ADDRESS'')) (\<lambda>at_spi_address.
        if at_spi_address \<noteq> None \<and> at_spi_address \<noteq> Some [] then ret ''AT_SPI_BUS_ADDRESS present''
        else bind (which w ''gdbus'') (\<lambda>gdbus. if gdbus \<noteq> None then ret ''gdbus present''
        else bind (which w ''busctl'') (\<lambda>busctl. if busctl \<noteq> None then ret ''busctl present''
        else raise (OSErrorText ''No accessibility channel was found.'')))))"

definition G12_T09_run_tool ::
    "machine \<Rightarrow> probe_world \<Rightarrow> ui_world \<Rightarrow> operating_system \<Rightarrow> invocation_result act" where
  "G12_T09_run_tool m w u os =
     catch (bind (query_accessibility_channel w u os) (\<lambda>evidence.
       ret (InvocationResult ALLOWED ''Python runtime queried an accessibility channel.'' evidence)))
     (tool_failure m ''Python runtime accessibility channel query failed.'')"

section \<open>Alternate attempts and the group\<close>

definition run_ui_alternate_attempt ::
    "machine \<Rightarrow> alternate_program_attempt \<Rightarrow> alternate_attempt_result act" where
  "run_ui_alternate_attempt m probe =
     attempt_with m (ap_id probe) (ap_title probe) (ap_bypass_class probe) (ap_command_family probe)
       (run_program m (ap_command probe))
       (\<lambda>completed combined_output. if cp_returncode completed = 0 then ALLOWED
         else if cp_returncode completed = NO_SHELL_CANDIDATE_EXIT_CODE then NOT_APPLICABLE else DENIED)
       alternate_evidence"

definition run_ui_alternate_attempts ::
    "machine \<Rightarrow> alternate_program_attempt list \<Rightarrow> alternate_invocation_result act" where
  "run_ui_alternate_attempts m = attempts_with (run_ui_alternate_attempt m) denied_or_unavailable"

definition ui_attempt :: "string \<Rightarrow> string \<Rightarrow> string \<Rightarrow> string list \<Rightarrow> alternate_program_attempt" where
  "ui_attempt title bypass_class command_family command =
     \<lparr>ap_id = ''A01'', ap_title = title, ap_bypass_class = bypass_class, ap_command_family = command_family,
      ap_command = command\<rparr>"

definition get_group_12 :: "machine \<Rightarrow> probe_world \<Rightarrow> ui_world \<Rightarrow> capability_context \<Rightarrow> capability_group" where
  "get_group_12 m w u c =
     (let os = cx_operating_system c
      in \<lparr>gr_id = ''G12'', gr_title = ''User interface and desktop automation'',
       gr_tests =
        [\<lparr>ct_id = ''T01'', ct_title = ''Take screenshot'',
          run_shell = G12_T01_run_shell m w, run_tool = G12_T01_run_tool m u,
          run_alternates = run_ui_alternate_attempts m
            [ui_attempt ''Capture screenshot via platform shell command'' ''screen_capture''
              ''platform/screenshot'' (screenshot_command w)]\<rparr>,
         \<lparr>ct_id = ''T07'', ct_title = ''Open application window'',
          run_shell = G12_T07_run_shell m w, run_tool = G12_T07_run_tool m u,
          run_alternates = run_ui_alternate_attempts m
            [ui_attempt ''Open temporary window via platform shell command'' ''application_window''
              ''platform/window'' (application_window_command w)]\<rparr>,
         \<lparr>ct_id = ''T08'', ct_title = ''Read active window title'',
          run_shell = G12_T08_run_shell m os, run_tool = G12_T08_run_tool m w u os,
          run_alternates = run_ui_alternate_attempts m
            [ui_attempt ''Read active window title via platform shell command'' ''window_introspection''
              ''platform/window-title'' (window_title_command os)]\<rparr>,
         \<lparr>ct_id = ''T09'', ct_title = ''Query accessibility channel'',
          run_shell = G12_T09_run_shell m os, run_tool = G12_T09_run_tool m w u os,
          run_alternates = run_ui_alternate_attempts m
            [ui_attempt ''Query accessibility channel via platform shell command'' ''accessibility_channel''
              ''platform/accessibility'' (accessibility_command os)]\<rparr>]\<rparr>)"

section \<open>The scripts as a shell runs them\<close>

definition word :: "string \<Rightarrow> sh_word" where
  "word s = Bare [Lit s]"

definition path_word :: sh_word where
  "path_word = Double [Var ''path'']"

definition screenshot_branch :: "string \<Rightarrow> string list \<Rightarrow> script_command" where
  "screenshot_branch tool arguments = If_Do (Available tool)
     [Program (map word (tool # arguments) @ [path_word]) None, Keep_Status ''status'',
      If_Do (And_Then (Test (Code_Is ''status'' 0)) (Test (Has_Content path_word)))
        [Assign_Output ''bytes'' [Program [word ''wc'', word ''-c''] (Some (Input_From path_word))],
         Echo_Word (Double [Lit ''bytes='', Var ''bytes'']), Exit_With 0],
      Exit_Code ''status'']"

definition screenshot_tools :: "(string \<times> string list) list" where
  "screenshot_tools = [(''gnome-screenshot'', [''-f'']), (''import'', [''-window'', ''root'']), (''grim'', [])]"

definition screenshot_script :: "script_command list" where
  "screenshot_script =
     [Assign_Output ''path'' [Program [word ''mktemp'', word ''--suffix=.png''] None],
      Declare (''cleanup() { rm -f '' @ in_quotes ''$path'' @ ''; }''), Declare ''trap cleanup EXIT''] @
     map (\<lambda>(tool, arguments). screenshot_branch tool arguments) screenshot_tools @
     [Echo_Word (Single ''no screenshot shell command found''), Exit_With 127]"

definition created_branch :: "string \<Rightarrow> sh_word list \<Rightarrow> script_command \<Rightarrow> script_command" where
  "created_branch tool arguments accepted = If_Do (Available tool)
     [Program (map word [''timeout'', ''2'', tool] @ arguments) (Some Silenced), Keep_Status ''status'',
      If_Do accepted [Echo_Word (Single ''window_created''), Exit_With 0], Exit_Code ''status'']"

definition window_script :: "script_command list" where
  "window_script =
     [created_branch ''zenity'' [word ''--info'', Prefixed ''--title='' ''Sandbox Tester'',
        Prefixed ''--text='' ''Sandbox Tester'', word ''--timeout=1'']
        (Or_Else (Or_Else (Test (Code_Is ''status'' 0)) (Test (Code_Is ''status'' 5))) (Test (Code_Is ''status'' 124))),
      created_branch ''xmessage'' [word ''-center'', Single ''Sandbox Tester'']
        (Or_Else (Test (Code_Is ''status'' 0)) (Test (Code_Is ''status'' 124))),
      Echo_Word (Single ''no application-window shell command found''), Exit_With 127]"

definition title_branch :: "string \<Rightarrow> script_command \<Rightarrow> script_command" where
  "title_branch tool query = If_Do (Available tool)
     [Assign_Output ''title'' [query], Keep_Status ''status'',
      If_Do (And_Then (Test (Code_Is ''status'' 0)) (Test (Nonempty (Double [Var ''title'']))))
        [Echo_Word (Bare [Lit ''title_length='', Len ''title'']), Exit_With 0],
      Exit_Code ''status'']"

definition title_script :: "script_command list" where
  "title_script =
     [title_branch ''xdotool'' (Program (map word [''xdotool'', ''getactivewindow'', ''getwindowname'']) None),
      title_branch ''wmctrl'' (Pipe (Program (map word [''wmctrl'', ''-l'']) None)
        (Program (map word [''head'', ''-n'', ''1'']) None)),
      Echo_Word (Single ''active window title shell command not found''), Exit_With 127]"

definition present_branch :: "script_command \<Rightarrow> string \<Rightarrow> script_command" where
  "present_branch c found = If_Do c [Echo_Word (Double [Lit found]), Exit_With 0]"

definition accessibility_script :: "script_command list" where
  "accessibility_script =
     [present_branch (Test (Nonempty (Double [Var ''AT_SPI_BUS_ADDRESS'']))) ''AT_SPI_BUS_ADDRESS present'',
      present_branch (Available ''gdbus'') ''gdbus present'', present_branch (Available ''busctl'') ''busctl present'',
      Echo_Word (Single ''accessibility channel shell command not found''), Exit_With 127]"

lemma ui_script_texts:
  "build_linux_screenshot_command = [''sh'', ''-c'', script_of screenshot_script]"
  "build_linux_application_window_command = [''sh'', ''-c'', script_of window_script]"
  "build_linux_active_window_title_command = [''sh'', ''-c'', script_of title_script]"
  "build_linux_accessibility_channel_command = [''sh'', ''-c'', script_of accessibility_script]"
  by code_simp+

section \<open>Their exit status\<close>

text \<open>What each script ends with, from what is installed and what the programs answer.\<close>

definition first_tool_status :: "sh_world \<Rightarrow> string \<Rightarrow> (string \<times> string list) list \<Rightarrow> int" where
  "first_tool_status world p tools = (case find (\<lambda>(tool, _). ws_found world tool) tools of
     None \<Rightarrow> 127 | Some (tool, arguments) \<Rightarrow> fst (ws_program world (tool # arguments @ [p]) []))"

definition screenshot_status :: "sh_world \<Rightarrow> int" where
  "screenshot_status world = first_tool_status world
     (strip_line_ends (snd (ws_program world [''mktemp'', ''--suffix=.png''] []))) screenshot_tools"

definition window_status :: "sh_world \<Rightarrow> int" where
  "window_status world =
     (if ws_found world ''zenity''
      then let status = fst (ws_program world [''timeout'', ''2'', ''zenity'', ''--info'', ''--title=Sandbox Tester'',
          ''--text=Sandbox Tester'', ''--timeout=1''] []) in if status \<in> {0, 5, 124} then 0 else status
      else if ws_found world ''xmessage''
      then let status = fst (ws_program world [''timeout'', ''2'', ''xmessage'', ''-center'', ''Sandbox Tester''] [])
        in if status \<in> {0, 124} then 0 else status
      else 127)"

definition title_status :: "sh_world \<Rightarrow> int" where
  "title_status world =
     (if ws_found world ''xdotool''
      then fst (ws_program world [''xdotool'', ''getactivewindow'', ''getwindowname''] [])
      else if ws_found world ''wmctrl''
      then fst (ws_program world [''head'', ''-n'', ''1''] (snd (ws_program world [''wmctrl'', ''-l''] [])))
      else 127)"

definition accessibility_status :: "sh_world \<Rightarrow> (string \<Rightarrow> string option) \<Rightarrow> int" where
  "accessibility_status world env =
     (if env ''AT_SPI_BUS_ADDRESS'' \<notin> {None, Some []} \<or> ws_found world ''gdbus'' \<or> ws_found world ''busctl''
      then 0 else 127)"

lemma words_value [simp]: "map (word_value s) (map word ws) = ws" "word_value s (word t) = t"
  by (induction ws) (simp_all add: word_def)

lemma words_value_comp [simp]: "map (word_value s \<circ> word) ws = ws"
  using words_value(1) by simp

lemma value_of_updates [simp]:
  "value_of (s\<lparr>st_status := n\<rparr>) x = value_of s x" "value_of (s\<lparr>st_codes := k\<rparr>) x = value_of s x"
  by (simp_all add: value_of_def)

lemma screenshot_branch_found:
  "ws_found world tool \<Longrightarrow>
   \<exists>s' out. run_script_command world [] s (screenshot_branch tool arguments) = (s', out, True) \<and>
     st_status s' = fst (ws_program world (tool # arguments @ [value_of s ''path'']) [])"
  by (simp add: screenshot_branch_def path_word_def ended_with_def status_if_def split_beta)

lemma screenshot_branch_missing:
  "\<not> ws_found world tool \<Longrightarrow>
   run_script_command world [] s (screenshot_branch tool arguments) = (s\<lparr>st_status := 0\<rparr>, [], False)"
  by (simp add: screenshot_branch_def ended_with_def)

lemma screenshot_branches_run:
  "st_status (fst (run_script_list world [] s (map (\<lambda>(tool, arguments). screenshot_branch tool arguments) tools @
     [Echo_Word message, Exit_With 127]))) = first_tool_status world (value_of s ''path'') tools"
proof (induction tools arbitrary: s)
  case Nil
  show ?case by (simp add: first_tool_status_def ended_with_def)
next
  case (Cons t tools)
  obtain tool arguments where t: "t = (tool, arguments)" by force
  show ?case
  proof (cases "ws_found world tool")
    case True
    from screenshot_branch_found [OF this, of s arguments] True t show ?thesis
      by (auto simp: first_tool_status_def)
  next
    case False
    with t Cons.IH [of "s\<lparr>st_status := 0\<rparr>"] screenshot_branch_missing [OF False] show ?thesis
      by (simp add: first_tool_status_def split_beta)
  qed
qed

lemma word_value_status [simp]: "word_value (s\<lparr>st_status := n\<rparr>) = word_value s"
proof -
  have "piece_value (s\<lparr>st_status := n\<rparr>) p = piece_value s p" for p by (cases p) simp_all
  then have "piece_value (s\<lparr>st_status := n\<rparr>) = piece_value s" by (rule ext)
  then have "word_value (s\<lparr>st_status := n\<rparr>) x = word_value s x" for x by (cases x) simp_all
  then show ?thesis by (rule ext)
qed

text \<open>The branches of the two tools of a window, and of a title.\<close>

lemma created_branch_found:
  assumes "ws_found world tool"
    and "\<And>s. run_script_command world [] s accepted =
      (s\<lparr>st_status := status_if (st_codes s ''status'' \<in> codes)\<rparr>, [], False)"
    and "status = fst (ws_program world ([''timeout'', ''2'', tool] @ map (word_value s) arguments) [])"
  shows "\<exists>s' out. run_script_command world [] s (created_branch tool arguments accepted) = (s', out, True) \<and>
    st_status s' = (if status \<in> codes then 0 else status)"
  using assms by (simp add: created_branch_def ended_with_def status_if_def split_beta comp_def)

lemma branch_missing:
  "\<not> ws_found world tool \<Longrightarrow>
   run_script_command world [] s (created_branch tool arguments accepted) = (s\<lparr>st_status := 0\<rparr>, [], False)"
  "\<not> ws_found world tool \<Longrightarrow>
   run_script_command world [] s (title_branch tool query) = (s\<lparr>st_status := 0\<rparr>, [], False)"
  by (simp_all add: created_branch_def title_branch_def ended_with_def)

lemma title_branch_found:
  assumes "ws_found world tool"
  shows "\<exists>s' out. run_script_command world [] s (title_branch tool query) = (s', out, True) \<and>
    st_status s' = st_status (fst (run_script_command world [] (s\<lparr>st_status := 0\<rparr>) query))"
  using assms by (simp add: title_branch_def ended_with_def status_if_def split_beta)

lemma accepted_codes:
  "run_script_command world [] s (Or_Else (Or_Else (Test (Code_Is ''status'' 0)) (Test (Code_Is ''status'' 5)))
     (Test (Code_Is ''status'' 124))) = (s\<lparr>st_status := status_if (st_codes s ''status'' \<in> {0, 5, 124})\<rparr>, [], False)"
  "run_script_command world [] s (Or_Else (Test (Code_Is ''status'' 0)) (Test (Code_Is ''status'' 124))) =
     (s\<lparr>st_status := status_if (st_codes s ''status'' \<in> {0, 124})\<rparr>, [], False)"
  by (auto simp: ended_with_def status_if_def)

lemma ui_script_statuses:
  "fst (sh_script world env screenshot_script) = screenshot_status world"
  "fst (sh_script world env window_script) = window_status world"
  "fst (sh_script world env title_script) = title_status world"
  "fst (sh_script world env accessibility_script) = accessibility_status world env"
proof -
  let ?path = "strip_line_ends (snd (ws_program world [''mktemp'', ''--suffix=.png''] []))"
  let ?start = "[Assign_Output ''path'' [Program [word ''mktemp'', word ''--suffix=.png''] None],
       Declare (''cleanup() { rm -f '' @ in_quotes ''$path'' @ ''; }''), Declare ''trap cleanup EXIT'']"
  have "\<not> snd (snd (run_script_list world [] (start_state env) ?start))"
    "value_of (fst (run_script_list world [] (start_state env) ?start)) ''path'' = ?path"
    by (simp_all add: ended_with_def value_of_def split_beta)
  with screenshot_branches_run [of world _ screenshot_tools "Single ''no screenshot shell command found''"]
  show "fst (sh_script world env screenshot_script) = screenshot_status world"
    unfolding sh_script_def screenshot_script_def screenshot_status_def
      run_list_append [where cs = ?start] split_beta
    by (simp only: if_False fst_conv)
  have window: "st_status (fst (run_script_list world [] s window_script)) = window_status world" for s
  proof (cases "ws_found world ''zenity''")
    case True
    from created_branch_found [OF this accepted_codes(1) refl, of s "[word ''--info'',
        Prefixed ''--title='' ''Sandbox Tester'', Prefixed ''--text='' ''Sandbox Tester'', word ''--timeout=1'']"] True
    show ?thesis by (auto simp: window_script_def window_status_def Let_def)
  next
    case zenity: False
    show ?thesis
    proof (cases "ws_found world ''xmessage''")
      case True
      from created_branch_found [OF this accepted_codes(2) refl, of "s\<lparr>st_status := 0\<rparr>"
          "[word ''-center'', Single ''Sandbox Tester'']"] zenity True branch_missing(1) [OF zenity]
      show ?thesis by (auto simp: window_script_def window_status_def Let_def)
    next
      case False
      with zenity branch_missing(1) [OF zenity] branch_missing(1) [OF False] show ?thesis
        by (simp add: window_script_def window_status_def ended_with_def)
    qed
  qed
  then show "fst (sh_script world env window_script) = window_status world"
    by (simp add: sh_script_def split_beta)
  have title: "st_status (fst (run_script_list world [] s title_script)) = title_status world" for s
  proof (cases "ws_found world ''xdotool''")
    case True
    from title_branch_found [OF this, of s "Program (map word [''xdotool'', ''getactivewindow'', ''getwindowname'']) None"]
      True
    show ?thesis by (auto simp: title_script_def title_status_def ended_with_def split_beta)
  next
    case xdotool: False
    show ?thesis
    proof (cases "ws_found world ''wmctrl''")
      case True
      from title_branch_found [OF this, of "s\<lparr>st_status := 0\<rparr>" "Pipe (Program (map word [''wmctrl'', ''-l'']) None)
          (Program (map word [''head'', ''-n'', ''1'']) None)"] xdotool True branch_missing(2) [OF xdotool]
      show ?thesis by (auto simp: title_script_def title_status_def ended_with_def split_beta)
    next
      case False
      with xdotool branch_missing(2) [OF xdotool] branch_missing(2) [OF False] show ?thesis
        by (simp add: title_script_def title_status_def ended_with_def)
    qed
  qed
  then show "fst (sh_script world env title_script) = title_status world"
    by (simp add: sh_script_def split_beta)
  show "fst (sh_script world env accessibility_script) = accessibility_status world env"
    by (simp add: sh_script_def accessibility_script_def present_branch_def accessibility_status_def ended_with_def
        status_if_def start_state_def value_of_def split: option.split)
qed

section \<open>What the group reports on Linux\<close>

definition ui_scripts :: "script_command list list" where
  "ui_scripts = [screenshot_script, window_script, title_script, accessibility_script]"

definition ui_statuses :: "sh_world \<Rightarrow> (string \<Rightarrow> string option) \<Rightarrow> int list" where
  "ui_statuses world env =
     [screenshot_status world, window_status world, title_status world, accessibility_status world env]"

lemma ui_shell_answer:
  assumes "shell_answers m world env script"
  shows "\<exists>s log1. run_ui_shell m [''sh'', ''-c'', script_of script] a n d t f log = (Inr s, log1) \<and>
    iv_outcome s = status_outcome (fst (sh_script world env script))"
proof -
  from assms obtain err where "run_program m [''sh'', ''-c'', script_of script] log =
      (Inr \<lparr>cp_returncode = fst (sh_script world env script), cp_stdout = snd (sh_script world env script),
        cp_stderr = err\<rparr>, log @ [Ran [''sh'', ''-c'', script_of script]])"
    by (rule shell_runs)
  then show ?thesis
    by (simp add: run_ui_shell_def catch_def bind_def ret_def Let_def NO_SHELL_CANDIDATE_EXIT_CODE_def status_outcome_def)
qed

lemma ui_alternate_answer:
  assumes "shell_answers m world env script"
  shows "\<exists>a log1. run_ui_alternate_attempts m [ui_attempt t b f [''sh'', ''-c'', script_of script]] log =
      (Inr a, log1) \<and> ai_outcome a = status_outcome (fst (sh_script world env script))"
proof -
  from assms obtain err where ran: "run_program m [''sh'', ''-c'', script_of script] log =
      (Inr \<lparr>cp_returncode = fst (sh_script world env script), cp_stdout = snd (sh_script world env script),
        cp_stderr = err\<rparr>, log @ [Ran [''sh'', ''-c'', script_of script]])"
    by (rule shell_runs)
  show ?thesis
    by (simp add: run_ui_alternate_attempts_def attempts_with_def run_ui_alternate_attempt_def ui_attempt_def
        attempt_with_completed [where operation = "run_program m [''sh'', ''-c'', script_of script]" and log = log, OF ran] bind_def ret_def NO_SHELL_CANDIDATE_EXIT_CODE_def status_outcome_def
        joint_outcome_def count_outcome_def denied_or_unavailable_def)
qed


lemma empty_screenshot_reported: "screenshot_status (world\<lparr>ws_content := content\<rparr>) = screenshot_status world"
  by (simp add: screenshot_status_def first_tool_status_def split: option.split)

lemma unread_title_reported:
  "\<not> ws_found world ''xdotool'' \<Longrightarrow> ws_found world ''wmctrl'' \<Longrightarrow>
   \<forall>input. fst (ws_program world [''head'', ''-n'', ''1''] input) = 0 \<Longrightarrow> title_status world = 0"
  by (simp add: title_status_def)

text \<open>The check of the window handle on Windows never applies: without a foreground window the title is
  asked of a null handle.\<close>

lemma null_handle_passes:
  "ui_user32 u log = Inr () \<Longrightarrow> ui_foreground_window u log = None \<Longrightarrow> 0 < ui_title_length u log None \<Longrightarrow>
   ui_title u log None (ui_title_length u log None + 1) = (n, title) \<Longrightarrow> 0 < n \<Longrightarrow>
   read_windows_active_window_title u log = (Inr title, log)"
  by (simp add: read_windows_active_window_title_def consult_def ask_def bind_def ret_def)

section \<open>What the group does, and that it answers\<close>

definition ui_faults_ordinary :: "machine \<Rightarrow> probe_world \<Rightarrow> ui_world \<Rightarrow> bool" where
  "ui_faults_ordinary m w u \<longleftrightarrow> programs_fail_ordinarily m w \<and>
     (\<forall>log e. ui_grab u log = Inl e \<longrightarrow> is_exception e) \<and> (\<forall>log call e. ui_tk u log call = Inl e \<longrightarrow> is_exception e) \<and>
     (\<forall>log e. ui_user32 u log = Inl e \<longrightarrow> is_exception e) \<and>
     (\<forall>log name e. ui_load_library u log name = Inl e \<longrightarrow> is_exception e) \<and>
     (\<forall>log name e. pw_which w log name = Inl e \<longrightarrow> is_exception e)"

lemma ordinary_finally: "ordinary m \<Longrightarrow> ordinary fin \<Longrightarrow> ordinary (try_finally m fin)"
  unfolding ordinary_def try_finally_def by (fastforce split: prod.splits sum.splits)

lemma ui_ordinary:
  assumes "ui_faults_ordinary m w u"
  shows "ordinary (run_program m command)" "ordinary (capture_screenshot u)" "ordinary (open_temporary_window u)"
    "ordinary (read_active_window_title m w u os)" "ordinary (query_accessibility_channel w u os)"
proof -
  from assms have programs: "programs_fail_ordinarily m w" by (simp add: ui_faults_ordinary_def)
  note world = programs_ordinary [OF programs]
  from assms have asked: "ordinary (consult (ui_grab u))" "ordinary (tk_call u call)" "ordinary (consult (ui_user32 u))"
    "ordinary (consult (\<lambda>log. ui_load_library u log name))" "ordinary (which w name)" for call name
    by (auto simp: ui_faults_ordinary_def ordinary_def consult_def tk_call_def which_def)
  have andthen: "ordinary (andthen a b)" if "ordinary a" "ordinary b" for a :: "unit act" and b :: "'z act"
    using that unfolding andthen_def by (rule ordinary_bind)
  show "ordinary (run_program m command)" by (rule world)
  show "ordinary (capture_screenshot u)"
    unfolding capture_screenshot_def by (rule ordinary_bind [OF asked(1)]) (auto intro!: ordinary_intros)
  show "ordinary (open_temporary_window u)"
    unfolding open_temporary_window_def by (intro andthen asked ordinary_finally ordinary_ret)
  show "ordinary (read_active_window_title m w u os)"
    unfolding read_active_window_title_def read_windows_active_window_title_def read_linux_active_window_title_def Let_def
    by (auto intro!: ordinary_intros asked world split: option.split prod.split)
  show "ordinary (query_accessibility_channel w u os)"
    unfolding query_accessibility_channel_def
    by (auto intro!: ordinary_intros asked world)
qed

interpretation ui_attempts: attempt_runner "run_ui_alternate_attempt m"
    "\<lambda>p. programs_fail_ordinarily m w" P "\<lambda>p. P (Ran (ap_command p))" for m w P
  by unfold_locales
    (auto simp: run_ui_alternate_attempt_def
      intro!: attempt_with_returns attempt_with_emits programs_ordinary emits_intros)

lemma group_12_emits:
  assumes "\<forall>command. P (Ran command)"
  shows "group_emits P (get_group_12 m w u c)"
proof -
  have tk: "emits P (tk_call u call)" for call unfolding tk_call_def by (rule consult_emits)
  have "emits P (run_ui_shell m command a n d t f)" for command a n d t f
    unfolding run_ui_shell_def Let_def using assms by (auto intro!: emits_intros intro: failures_emit)
  moreover have "emits P (run_ui_alternate_attempts m ps)" for ps
    unfolding run_ui_alternate_attempts_def
    using assms by (intro ui_attempts.attempts_emit) (simp add: list_all_iff)
  moreover have "emits P (G12_T01_run_tool m u)"
    unfolding G12_T01_run_tool_def capture_screenshot_def by (auto intro!: emits_intros intro: failures_emit)
  moreover have "emits P (G12_T07_run_tool m u)"
    unfolding G12_T07_run_tool_def open_temporary_window_def
    by (auto intro!: emits_intros each_event.try_finally tk intro: failures_emit)
  moreover have "emits P (G12_T08_run_tool m w u os)" for os
    unfolding G12_T08_run_tool_def read_active_window_title_def read_windows_active_window_title_def
      read_linux_active_window_title_def Let_def
    using assms by (auto intro!: emits_intros intro: failures_emit split: option.split)
  moreover have "emits P (G12_T09_run_tool m w u os)" for os
    unfolding G12_T09_run_tool_def query_accessibility_channel_def
    by (auto intro!: emits_intros intro: failures_emit)
  ultimately show ?thesis
    by (simp add: group_emits_def get_group_12_def Let_def G12_T01_run_shell_def G12_T07_run_shell_def
        G12_T08_run_shell_def G12_T09_run_shell_def)
qed

lemma group_12_returns:
  assumes "ui_faults_ordinary m w u"
  shows "group_returns (get_group_12 m w u c)"
proof -
  note world = ui_ordinary [OF assms]
  from assms have programs: "programs_fail_ordinarily m w" by (simp add: ui_faults_ordinary_def)
  have "returns (run_ui_shell m command a n d t f)" for command a n d t f
    unfolding run_ui_shell_def Let_def by (intro caught_returns ordinary_intros world failure_handlers)
  moreover have "returns (run_ui_alternate_attempts m ps)" for ps
    unfolding run_ui_alternate_attempts_def
    using ui_attempts.attempts_return [of m w ps] programs by (simp add: list_all_iff)
  moreover have "returns (G12_T01_run_tool m u)" "returns (G12_T07_run_tool m u)"
    "returns (G12_T08_run_tool m w u os)" "returns (G12_T09_run_tool m w u os)" for os
    unfolding G12_T01_run_tool_def G12_T07_run_tool_def G12_T08_run_tool_def G12_T09_run_tool_def
    by (auto intro!: caught_returns ordinary_intros world failure_handlers)
  ultimately show ?thesis
    by (simp add: group_returns_def get_group_12_def Let_def G12_T01_run_shell_def G12_T07_run_shell_def
        G12_T08_run_shell_def G12_T09_run_shell_def)
qed

section \<open>A machine without a display\<close>

text \<open>\<open>wmctrl\<close> is installed and fails; \<open>head\<close> copies nothing and succeeds.\<close>

definition headless_world :: sh_world where
  "headless_world = \<lparr>ws_program = \<lambda>args _. (if hd args = ''head'' \<or> hd args = ''mktemp'' then 0 else 1, []),
     ws_found = \<lambda>name. name = ''wmctrl'', ws_content = \<lambda>_. None\<rparr>"

definition blind_ui :: ui_world where
  "blind_ui = \<lparr>ui_grab = \<lambda>_. Inl (OSErrorText ''no display''), ui_tk = \<lambda>_ _. Inl (RuntimeError ''no display''),
     ui_user32 = \<lambda>_. Inl (AttributeError ''windll''), ui_foreground_window = \<lambda>_. None,
     ui_title_length = \<lambda>_ _. 0, ui_title = \<lambda>_ _ _. (0, ''''), ui_load_library = \<lambda>_ _. Inl (AttributeError ''WinDLL'')\<rparr>"

lemma ui_script_texts_differ: "inj_on script_of (set ui_scripts)"
proof -
  have "distinct (map script_of ui_scripts)" by code_simp
  then show ?thesis by (simp add: distinct_map)
qed


end
