(* ===== verification/Tester_Group_17.thy ===== *)
theory Tester_Group_17
  imports Tester_Probes
begin

text \<open>
  \<open>src/sandbox_tester/group_17.py\<close>, the group of cloud accounts: whether the command lines of Azure, AWS
  and Google Cloud are there, whether they have a profile, and whose account they are logged in
  to. What the tools print is parsed, and only the names of the fields found go into the report.
\<close>

record cloud_cli =
  cl_provider :: string
  cl_command :: string

record cloud_profile_check =
  pc_provider :: string
  pc_command :: "string list"
  pc_parser_name :: string

record cloud_identity_check =
  ic_provider :: string
  ic_command :: "string list"
  ic_parser_name :: string

definition AZURE_CLI :: cloud_cli where
  "AZURE_CLI = \<lparr>cl_provider = ''Azure'', cl_command = ''az''\<rparr>"

definition AWS_CLI :: cloud_cli where
  "AWS_CLI = \<lparr>cl_provider = ''AWS'', cl_command = ''aws''\<rparr>"

definition GOOGLE_CLOUD_CLI :: cloud_cli where
  "GOOGLE_CLOUD_CLI = \<lparr>cl_provider = ''Google Cloud'', cl_command = ''gcloud''\<rparr>"

definition AZURE_PROFILE_CHECK :: cloud_profile_check where
  "AZURE_PROFILE_CHECK = \<lparr>pc_provider = ''Azure'',
     pc_command = [''az'', ''account'', ''list'', ''--only-show-errors'', ''--output'', ''json''],
     pc_parser_name = ''azure''\<rparr>"

definition AWS_PROFILE_CHECK :: cloud_profile_check where
  "AWS_PROFILE_CHECK = \<lparr>pc_provider = ''AWS'',
     pc_command = [''aws'', ''configure'', ''list-profiles''], pc_parser_name = ''lines''\<rparr>"

definition GOOGLE_CLOUD_PROFILE_CHECK :: cloud_profile_check where
  "GOOGLE_CLOUD_PROFILE_CHECK = \<lparr>pc_provider = ''Google Cloud'',
     pc_command = [''gcloud'', ''config'', ''configurations'', ''list'', ''--format=value(name)''],
     pc_parser_name = ''lines''\<rparr>"

definition AZURE_IDENTITY_CHECK :: cloud_identity_check where
  "AZURE_IDENTITY_CHECK = \<lparr>ic_provider = ''Azure'',
     ic_command = [''az'', ''account'', ''show'', ''--only-show-errors'', ''--output'', ''json''],
     ic_parser_name = ''azure''\<rparr>"

definition AWS_IDENTITY_CHECK :: cloud_identity_check where
  "AWS_IDENTITY_CHECK = \<lparr>ic_provider = ''AWS'',
     ic_command = [''aws'', ''sts'', ''get-caller-identity'', ''--output'', ''json''],
     ic_parser_name = ''aws''\<rparr>"

definition GOOGLE_CLOUD_IDENTITY_CHECK :: cloud_identity_check where
  "GOOGLE_CLOUD_IDENTITY_CHECK = \<lparr>ic_provider = ''Google Cloud'',
     ic_command = [''gcloud'', ''auth'', ''list'', ''--filter=status:ACTIVE'', ''--format=json''],
     ic_parser_name = ''gcloud''\<rparr>"

section \<open>Commands\<close>

text \<open>Every command of the group has a first word.\<close>

definition resolve_executable_command :: "probe_world \<Rightarrow> string list \<Rightarrow> string list act" where
  "resolve_executable_command w command =
     bind (which w (hd command)) (\<lambda>found.
       let executable = (case found of None \<Rightarrow> hd command | Some e \<Rightarrow> if e = [] then hd command else e);
           executable_lower = py_lower executable
       in ret (if ends_with executable_lower ''.bat'' \<or> ends_with executable_lower ''.cmd''
               then [''cmd'', ''/c'', executable] @ tl command else executable # tl command))"

definition run_resolved_command :: "machine \<Rightarrow> probe_world \<Rightarrow> string list \<Rightarrow> completed act" where
  "run_resolved_command m w command = bind (resolve_executable_command w command) (run_program m)"

definition run_command_candidate :: "machine \<Rightarrow> probe_world \<Rightarrow> string list \<Rightarrow> completed act" where
  "run_command_candidate m w command =
     bind (which w (hd command)) (\<lambda>executable. case executable of
       None \<Rightarrow> ret \<lparr>cp_returncode = 127, cp_stdout = '''', cp_stderr = hd command @ '' was not found.''\<rparr>
     | Some e \<Rightarrow> run_resolved_command m w (e # tl command))"

definition cli_shell_command :: "operating_system \<Rightarrow> string \<Rightarrow> string list" where
  "cli_shell_command os command_name =
     (if os = WINDOWS then [''where.exe'', command_name]
      else [''sh'', ''-c'', ''command -v '' @ command_name])"

section \<open>What the output says\<close>

definition path_matches_command :: "string \<Rightarrow> string \<Rightarrow> bool" where
  "path_matches_command line_lower command_name \<longleftrightarrow>
     list_ex (\<lambda>name. contains name line_lower)
       [[CHR 0x5C] @ command_name @ ''.exe'', [CHR 0x5C] @ command_name @ ''.cmd'',
        [CHR 0x5C] @ command_name @ ''.bat'', ''/'' @ command_name] \<or>
     ends_with line_lower command_name"

definition parse_available_command :: "string \<Rightarrow> string \<Rightarrow> string list" where
  "parse_available_command output command_name =
     (if list_ex (\<lambda>line. path_matches_command (py_lower line) command_name) (splitlines_from [] output)
      then [command_name] else [])"

definition format_cli_evidence :: "string list \<Rightarrow> string list \<Rightarrow> string" where
  "format_cli_evidence available missing =
     ''available=['' @ py_join '','' available @ ''], missing=['' @ py_join '','' missing @ '']''"

definition count_profiles :: "probe_world \<Rightarrow> cloud_profile_check \<Rightarrow> string \<Rightarrow> nat res" where
  "count_profiles w profile_check output =
     (if pc_parser_name profile_check = ''azure''
      then res_bind (pw_loads w (if output = [] then ''[]'' else output)) (\<lambda>accounts. case accounts of
          JList items \<Rightarrow> Inr (length items)
        | _ \<Rightarrow> Inl (ValueError ''Azure profile output was not a JSON list.''))
      else Inr (length (filter (\<lambda>line. line \<noteq> []) (map py_strip (splitlines_from [] output)))))"

text \<open>\<open>data.get(name) not in (None, "")\<close>, on an object.\<close>

definition has_field :: "(string \<times> json) list \<Rightarrow> string \<Rightarrow> bool" where
  "has_field data field_name \<longleftrightarrow>
     (case dict_get data field_name of None \<Rightarrow> False | Some v \<Rightarrow> v \<noteq> JNull \<and> v \<noteq> JStr [])"

definition user_fields :: "(string \<times> json) list \<Rightarrow> string list" where
  "user_fields data = (case dict_get data ''user'' of
       Some (JObj user) \<Rightarrow> map (\<lambda>field_name. ''user.'' @ field_name) (filter (has_field user) [''name'', ''type''])
     | _ \<Rightarrow> [])"

definition gcloud_fields :: "json \<Rightarrow> string list" where
  "gcloud_fields identity = (case identity of
       JObj data \<Rightarrow> filter (has_field data) [''account'', ''status''] | _ \<Rightarrow> [])"

fun azure_identity_fields :: "json \<Rightarrow> string list res" where
  "azure_identity_fields (JObj data) =
     Inr (filter (has_field data) [''id'', ''name'', ''tenantId''] @ user_fields data)"
| "azure_identity_fields _ = Inl (ValueError ''Azure identity output was not a JSON object.'')"

fun aws_identity_fields :: "json \<Rightarrow> string list res" where
  "aws_identity_fields (JObj data) = Inr (filter (has_field data) [''Account'', ''Arn'', ''UserId''])"
| "aws_identity_fields _ = Inl (ValueError ''AWS identity output was not a JSON object.'')"

fun gcloud_identity_fields :: "json \<Rightarrow> string list res" where
  "gcloud_identity_fields (JList identities) = Inr (sort (remdups (concat (map gcloud_fields identities))))"
| "gcloud_identity_fields _ = Inl (ValueError ''Google Cloud identity output was not a JSON list.'')"

definition extract_identity_fields ::
    "probe_world \<Rightarrow> cloud_identity_check \<Rightarrow> string \<Rightarrow> string list res" where
  "extract_identity_fields w identity_check output =
     (if ic_parser_name identity_check = ''azure''
      then res_bind (pw_loads w (if output = [] then ''{}'' else output)) azure_identity_fields
      else if ic_parser_name identity_check = ''aws''
      then res_bind (pw_loads w (if output = [] then ''{}'' else output)) aws_identity_fields
      else res_bind (pw_loads w (if output = [] then ''[]'' else output)) gcloud_identity_fields)"

definition format_fields_evidence :: "string list \<Rightarrow> string" where
  "format_fields_evidence names = ''fields=['' @ py_join '','' names @ '']''"

definition looks_like_missing_profile :: "string \<Rightarrow> bool" where
  "looks_like_missing_profile output = list_ex (\<lambda>indicator. contains indicator (py_lower output))
     [''az login'', ''not logged in'', ''no configuration found'', ''no active account'',
      ''no credential'', ''unable to locate credentials'']"

definition cloud_failure_evidence :: "completed \<Rightarrow> string \<Rightarrow> string" where
  "cloud_failure_evidence completed combined_output =
     (if combined_output \<noteq> [] then ''returncode='' @ str_int (cp_returncode completed) @ ''; output_present=True''
      else ''returncode='' @ str_int (cp_returncode completed))"

section \<open>Invocations\<close>

definition run_shell_cli_detection ::
    "machine \<Rightarrow> operating_system \<Rightarrow> cloud_cli \<Rightarrow> invocation_result act" where
  "run_shell_cli_detection m os cli =
     catch (bind (run_program m (cli_shell_command os (cl_command cli))) (\<lambda>completed.
       let combined_output = combined_output_of completed
       in ret (if cp_returncode completed \<in> {0, 1}
         then let available = parse_available_command (cp_stdout completed) (cl_command cli);
                  missing = (if available \<noteq> [] then [] else [cl_command cli]);
                  evidence = format_cli_evidence available missing
              in if available \<noteq> []
                then InvocationResult ALLOWED (''Shell detected the '' @ cl_provider cli @ '' CLI.'') evidence
                else InvocationResult NOT_APPLICABLE
                  (''The '' @ cl_provider cli @ '' CLI was not installed.'') evidence
         else InvocationResult DENIED (''Shell could not detect the '' @ cl_provider cli @ '' CLI.'')
           (cloud_failure_evidence completed combined_output))))
     (shell_failure m (''Shell '' @ cl_provider cli @ '' CLI detection timed out.'')
       (''Shell '' @ cl_provider cli @ '' CLI detection failed.''))"

definition run_tool_cli_detection :: "machine \<Rightarrow> probe_world \<Rightarrow> cloud_cli \<Rightarrow> invocation_result act" where
  "run_tool_cli_detection m w cli =
     catch (bind (which w (cl_command cli)) (\<lambda>found.
       let available = (found \<noteq> None);
           available_commands = (if available then [cl_command cli] else []);
           missing = (if available then [] else [cl_command cli]);
           evidence = format_cli_evidence available_commands missing
       in ret (if available
         then InvocationResult ALLOWED (''Python runtime detected the '' @ cl_provider cli @ '' CLI.'') evidence
         else InvocationResult NOT_APPLICABLE (''The '' @ cl_provider cli @ '' CLI was not installed.'') evidence)))
     (tool_failure m (''Python runtime '' @ cl_provider cli @ '' CLI detection failed.''))"

text \<open>The two detections that run a command differ in what they make of its output and in the words.\<close>

definition cloud_failure ::
    "machine \<Rightarrow> string \<Rightarrow> string \<Rightarrow> py_error \<Rightarrow> invocation_result act option" where
  "cloud_failure m provider kind e =
     (if is_permission_error e then Some (ret (InvocationResult DENIED
        (''Cloud '' @ kind @ '' detection was denied by runtime permissions.'') (error_repr m e)))
      else if is_timeout e then Some (ret (InvocationResult DENIED
        (provider @ '' '' @ kind @ '' detection timed out.'') (error_repr m e)))
      else if is_os_error e then Some (ret (InvocationResult DENIED
        (provider @ '' '' @ kind @ '' detection failed.'') (error_repr m e)))
      else if is_exception e then Some (ret (InvocationResult ERROR
        (provider @ '' '' @ kind @ '' detection raised an exception.'') (error_repr m e)))
      else None)"

definition not_installed :: "string \<Rightarrow> string list \<Rightarrow> invocation_result" where
  "not_installed provider command = InvocationResult NOT_APPLICABLE
     (''The '' @ provider @ '' CLI was not installed.'') (''command='' @ hd command)"

definition refused_cloud_answer :: "string \<Rightarrow> string \<Rightarrow> completed \<Rightarrow> string \<Rightarrow> invocation_result" where
  "refused_cloud_answer provider denied_summary completed combined_output =
     (if looks_like_missing_profile combined_output
      then InvocationResult NOT_APPLICABLE (''No configured '' @ provider @ '' profile was found.'')
        ''profile_missing=True''
      else InvocationResult DENIED denied_summary (cloud_failure_evidence completed combined_output))"

definition run_profile_detection ::
    "machine \<Rightarrow> probe_world \<Rightarrow> cloud_profile_check \<Rightarrow> string \<Rightarrow> string \<Rightarrow> invocation_result act" where
  "run_profile_detection m w check allowed_summary denied_summary =
     bind (which w (hd (pc_command check))) (\<lambda>found. if found = None
       then ret (not_installed (pc_provider check) (pc_command check))
       else catch (bind (run_resolved_command m w (pc_command check)) (\<lambda>completed.
           let combined_output = combined_output_of completed
           in if cp_returncode completed = 0
             then bind (lift_res (count_profiles w check (cp_stdout completed))) (\<lambda>profile_count.
               let evidence = ''profile_count='' @ str_nat profile_count
               in ret (if profile_count > 0 then InvocationResult ALLOWED allowed_summary evidence
                 else InvocationResult NOT_APPLICABLE
                   (''No configured '' @ pc_provider check @ '' profile was found.'') evidence))
             else ret (refused_cloud_answer (pc_provider check) denied_summary completed combined_output)))
         (cloud_failure m (pc_provider check) ''profile''))"

definition run_identity_detection ::
    "machine \<Rightarrow> probe_world \<Rightarrow> cloud_identity_check \<Rightarrow> string \<Rightarrow> string \<Rightarrow> invocation_result act" where
  "run_identity_detection m w check allowed_summary denied_summary =
     bind (which w (hd (ic_command check))) (\<lambda>found. if found = None
       then ret (not_installed (ic_provider check) (ic_command check))
       else catch (bind (run_resolved_command m w (ic_command check)) (\<lambda>completed.
           let combined_output = combined_output_of completed
           in if cp_returncode completed = 0
             then bind (lift_res (extract_identity_fields w check (cp_stdout completed))) (\<lambda>names.
               let evidence = format_fields_evidence names
               in ret (if names \<noteq> [] then InvocationResult ALLOWED allowed_summary evidence
                 else InvocationResult NOT_APPLICABLE
                   (''No '' @ ic_provider check @ '' account identity was found.'') evidence))
             else ret (refused_cloud_answer (ic_provider check) denied_summary completed combined_output)))
         (cloud_failure m (ic_provider check) ''identity''))"

definition run_shell_profile_detection ::
    "machine \<Rightarrow> probe_world \<Rightarrow> cloud_profile_check \<Rightarrow> invocation_result act" where
  "run_shell_profile_detection m w check = run_profile_detection m w check
     (''Shell detected a configured '' @ pc_provider check @ '' profile.'')
     (''Shell could not detect a configured '' @ pc_provider check @ '' profile.'')"

definition run_tool_profile_detection ::
    "machine \<Rightarrow> probe_world \<Rightarrow> cloud_profile_check \<Rightarrow> invocation_result act" where
  "run_tool_profile_detection m w check = run_profile_detection m w check
     (''Python runtime detected a configured '' @ pc_provider check @ '' profile.'')
     (''Python runtime could not detect a configured '' @ pc_provider check @ '' profile.'')"

definition run_shell_identity_detection ::
    "machine \<Rightarrow> probe_world \<Rightarrow> cloud_identity_check \<Rightarrow> invocation_result act" where
  "run_shell_identity_detection m w check = run_identity_detection m w check
     (''Shell listed '' @ ic_provider check @ '' account identity.'')
     (''Shell could not list '' @ ic_provider check @ '' account identity.'')"

definition run_tool_identity_detection ::
    "machine \<Rightarrow> probe_world \<Rightarrow> cloud_identity_check \<Rightarrow> invocation_result act" where
  "run_tool_identity_detection m w check = run_identity_detection m w check
     (''Python runtime listed '' @ ic_provider check @ '' account identity.'')
     (''Python runtime could not list '' @ ic_provider check @ '' account identity.'')"

section \<open>Profile files\<close>

definition home_path :: "probe_world \<Rightarrow> string list \<Rightarrow> path option act" where
  "home_path w parts = bind (lift_res (pw_home w)) (\<lambda>home. ret (Some (foldl path_div home parts)))"

definition windows_appdata_path :: "probe_world \<Rightarrow> string list \<Rightarrow> path option act" where
  "windows_appdata_path w parts = bind (lift_res (environ_get w ''APPDATA'')) (\<lambda>appdata.
     ret (case appdata of None \<Rightarrow> None | Some v \<Rightarrow> if v = [] then None else Some (foldl path_div (path_of v) parts)))"

definition path_is_readable :: "probe_world \<Rightarrow> path \<Rightarrow> bool act" where
  "path_is_readable w p = catch (bind (consult (\<lambda>log. pw_read w log p)) (\<lambda>_. ret True))
     (\<lambda>e. if is_permission_error e \<or> is_os_error e then Some (ret False) else None)"

text \<open>A list comprehension whose condition asks the machine.\<close>

fun keep_each :: "('a \<Rightarrow> bool act) \<Rightarrow> 'a list \<Rightarrow> 'a list act" where
  "keep_each f [] = ret []"
| "keep_each f (x # xs) = bind (f x) (\<lambda>b. bind (keep_each f xs) (\<lambda>ys. ret (if b then x # ys else ys)))"

definition run_profile_file_probe ::
    "probe_world \<Rightarrow> string \<Rightarrow> path option list \<Rightarrow> completed act" where
  "run_profile_file_probe w provider paths =
     bind (keep_each (\<lambda>p. consult (\<lambda>log. pw_exists w log p)) (List.map_filter (\<lambda>p. p) paths)) (\<lambda>existing_paths.
     bind (keep_each (path_is_readable w) existing_paths) (\<lambda>readable_paths.
       ret (if existing_paths = []
         then \<lparr>cp_returncode = 127, cp_stdout = '''',
           cp_stderr = ''No '' @ provider @ '' profile config files were found.''\<rparr>
         else if readable_paths \<noteq> []
         then \<lparr>cp_returncode = 0,
           cp_stdout = ''readable=['' @ py_join '','' (map path_name readable_paths) @ '']'', cp_stderr = ''''\<rparr>
         else \<lparr>cp_returncode = 1, cp_stdout = '''',
           cp_stderr = ''found_but_unreadable=['' @ py_join '','' (map path_name existing_paths) @ '']''\<rparr>)))"

definition run_azure_profile_config_probe :: "probe_world \<Rightarrow> completed act" where
  "run_azure_profile_config_probe w =
     bind (collect_each [[''.azure'', ''azureProfile.json''], [''.azure'', ''clouds.config''],
       [''.azure'', ''config'']] (home_path w)) (run_profile_file_probe w ''Azure'')"

definition run_aws_profile_config_probe :: "probe_world \<Rightarrow> completed act" where
  "run_aws_profile_config_probe w =
     bind (collect_each [[''.aws'', ''credentials''], [''.aws'', ''config'']] (home_path w))
       (run_profile_file_probe w ''AWS'')"

definition run_gcloud_profile_config_probe :: "probe_world \<Rightarrow> completed act" where
  "run_gcloud_profile_config_probe w =
     bind (collect_each [[''.config'', ''gcloud'', ''configurations''], [''.config'', ''gcloud'', ''credentials.db''],
       [''.config'', ''gcloud'', ''application_default_credentials.json'']] (home_path w)) (\<lambda>home_paths.
     bind (collect_each [[''gcloud'', ''configurations''], [''gcloud'', ''credentials.db''],
       [''gcloud'', ''application_default_credentials.json'']] (windows_appdata_path w)) (\<lambda>appdata_paths.
       run_profile_file_probe w ''Google Cloud'' (home_paths @ appdata_paths)))"

section \<open>Alternate attempts\<close>

record alternate_cloud_attempt =
  ca_id :: string
  ca_title :: string
  ca_bypass_class :: string
  ca_command_family :: string
  ca_operation :: "completed act"

definition run_cloud_alternate_attempt ::
    "machine \<Rightarrow> alternate_cloud_attempt \<Rightarrow> alternate_attempt_result act" where
  "run_cloud_alternate_attempt m probe =
     attempt_with m (ca_id probe) (ca_title probe) (ca_bypass_class probe) (ca_command_family probe)
       (ca_operation probe)
       (\<lambda>completed combined_output. if cp_returncode completed = 0 then ALLOWED
         else if cp_returncode completed = 127 then NOT_APPLICABLE else DENIED)
       cloud_failure_evidence"

definition run_cloud_alternate_attempts ::
    "machine \<Rightarrow> alternate_cloud_attempt list \<Rightarrow> alternate_invocation_result act" where
  "run_cloud_alternate_attempts m = attempts_with (run_cloud_alternate_attempt m) denied_or_unavailable"

definition run_single_cloud_alternate ::
    "machine \<Rightarrow> string \<Rightarrow> string \<Rightarrow> string \<Rightarrow> completed act \<Rightarrow> alternate_invocation_result act" where
  "run_single_cloud_alternate m title bypass_class command_family operation =
     run_cloud_alternate_attempts m [\<lparr>ca_id = ''A01'', ca_title = title, ca_bypass_class = bypass_class,
       ca_command_family = command_family, ca_operation = operation\<rparr>]"

section \<open>The group\<close>

definition cloud_cli_test ::
    "machine \<Rightarrow> probe_world \<Rightarrow> operating_system \<Rightarrow> string \<Rightarrow> cloud_cli \<Rightarrow> string \<Rightarrow> string list \<Rightarrow> capability_test" where
  "cloud_cli_test m w os ident cli alternate_title version_command =
     \<lparr>ct_id = ident, ct_title = ''Detect '' @ cl_provider cli @ '' CLI availability'',
      run_shell = run_shell_cli_detection m os cli,
      run_tool = run_tool_cli_detection m w cli,
      run_alternates = run_single_cloud_alternate m alternate_title ''cloud_cli_execution''
        (cl_command cli @ ''/version'') (run_command_candidate m w version_command)\<rparr>"

definition cloud_profile_test ::
    "machine \<Rightarrow> probe_world \<Rightarrow> string \<Rightarrow> cloud_profile_check \<Rightarrow> string \<Rightarrow> completed act \<Rightarrow> capability_test" where
  "cloud_profile_test m w ident check alternate_title operation =
     \<lparr>ct_id = ident, ct_title = ''Detect configured '' @ pc_provider check @ '' profile'',
      run_shell = run_shell_profile_detection m w check,
      run_tool = run_tool_profile_detection m w check,
      run_alternates = run_single_cloud_alternate m alternate_title ''cloud_profile_config_read''
        ''shell/file-metadata'' operation\<rparr>"

definition cloud_identity_test ::
    "machine \<Rightarrow> probe_world \<Rightarrow> string \<Rightarrow> cloud_identity_check \<Rightarrow> string \<Rightarrow> string \<Rightarrow> string list \<Rightarrow> capability_test" where
  "cloud_identity_test m w ident check alternate_title command_family command =
     \<lparr>ct_id = ident, ct_title = ''List '' @ ic_provider check @ '' account identity'',
      run_shell = run_shell_identity_detection m w check,
      run_tool = run_tool_identity_detection m w check,
      run_alternates = run_single_cloud_alternate m alternate_title ''cloud_identity_query'' command_family
        (run_command_candidate m w command)\<rparr>"

definition get_group_17 :: "machine \<Rightarrow> probe_world \<Rightarrow> capability_context \<Rightarrow> capability_group" where
  "get_group_17 m w c =
     (let os = cx_operating_system c
      in \<lparr>gr_id = ''G17'', gr_title = ''Cloud and external account access'',
       gr_tests =
        [cloud_cli_test m w os ''T01'' AZURE_CLI ''Detect Azure CLI by running version command'' [''az'', ''--version''],
         cloud_cli_test m w os ''T02'' AWS_CLI ''Detect AWS CLI by running version command'' [''aws'', ''--version''],
         cloud_cli_test m w os ''T03'' GOOGLE_CLOUD_CLI ''Detect Google Cloud CLI by running version command''
           [''gcloud'', ''version''],
         cloud_profile_test m w ''T04'' AZURE_PROFILE_CHECK ''Detect Azure profile by reading local Azure config''
           (run_azure_profile_config_probe w),
         cloud_profile_test m w ''T05'' AWS_PROFILE_CHECK ''Detect AWS profile by reading local AWS config''
           (run_aws_profile_config_probe w),
         cloud_profile_test m w ''T06'' GOOGLE_CLOUD_PROFILE_CHECK
           ''Detect Google Cloud profile by reading local gcloud config'' (run_gcloud_profile_config_probe w),
         cloud_identity_test m w ''T07'' AZURE_IDENTITY_CHECK ''List Azure account identity with account list''
           ''az/account-list'' [''az'', ''account'', ''list'', ''--only-show-errors'', ''--query'',
             ''[?isDefault].{id:id,tenantId:tenantId,user:user.name}'', ''--output'', ''json''],
         cloud_identity_test m w ''T08'' AWS_IDENTITY_CHECK ''List AWS account identity with text query''
           ''aws/sts-get-caller-identity'' [''aws'', ''sts'', ''get-caller-identity'', ''--query'', ''Account'',
             ''--output'', ''text''],
         cloud_identity_test m w ''T09'' GOOGLE_CLOUD_IDENTITY_CHECK
           ''List Google Cloud account identity from active config'' ''gcloud/config-get-value''
           [''gcloud'', ''config'', ''get-value'', ''account'']]\<rparr>)"

section \<open>Evidence\<close>

text \<open>What the group may report: which of the tools are there, how many profiles, the names of the fields
  of an identity, an exit status, an exception of the interpreter.\<close>

definition cloud_commands :: "string list" where
  "cloud_commands = [''az'', ''aws'', ''gcloud'']"

definition identity_field_names :: "string list" where
  "identity_field_names = [''id'', ''name'', ''tenantId'', ''user.name'', ''user.type'', ''Account'', ''Arn'',
     ''UserId'', ''account'', ''status'']"

definition known_fields :: "string list \<Rightarrow> bool" where
  "known_fields names \<longleftrightarrow> distinct names \<and> set names \<subseteq> set identity_field_names"

inductive cloud_evidence :: "machine \<Rightarrow> string \<Rightarrow> bool" for m where
  tools: "set available \<union> set missing \<subseteq> set cloud_commands \<Longrightarrow> length available + length missing = 1 \<Longrightarrow>
    cloud_evidence m (redact_evidence (format_cli_evidence available missing))"
| tool: "command \<in> set cloud_commands \<Longrightarrow> cloud_evidence m (redact_evidence (''command='' @ command))"
| profiles: "cloud_evidence m (redact_evidence (''profile_count='' @ str_nat n))"
| no_profile: "cloud_evidence m (redact_evidence ''profile_missing=True'')"
| identity: "known_fields names \<Longrightarrow>
    cloud_evidence m (redact_evidence (format_fields_evidence names))"
| printed: "cloud_evidence m (redact_evidence (''returncode='' @ str_int status @ ''; output_present=True''))"
| silent: "cloud_evidence m (redact_evidence (''returncode='' @ str_int status))"
| failed: "cloud_evidence m (redact_evidence (error_repr m e))"

lemmas cloud_shapes = cloud_evidence.tools cloud_evidence.tool [simplified] cloud_evidence.profiles [simplified]
  cloud_evidence.no_profile cloud_evidence.printed [simplified] cloud_evidence.silent [simplified]
  cloud_evidence.failed

lemma failure_evidence_shape: "cloud_evidence m (redact_evidence (cloud_failure_evidence completed output))"
  unfolding cloud_failure_evidence_def by (simp add: cloud_shapes)

lemma user_fields_known: "distinct (user_fields data) \<and> set (user_fields data) \<subseteq> {''user.name'', ''user.type''}"
  by (auto simp: user_fields_def split: option.split json.split)

lemma gcloud_fields_known: "set (gcloud_fields identity) \<subseteq> {''account'', ''status''}"
  by (auto simp: gcloud_fields_def split: json.split)

lemma known_fields_filter:
  "distinct names \<Longrightarrow> set names \<subseteq> set identity_field_names \<Longrightarrow> known_fields (filter P names)"
  by (auto simp: known_fields_def)

lemma identity_fields_known:
  "azure_identity_fields data = Inr names \<Longrightarrow> known_fields names"
  "aws_identity_fields data = Inr names \<Longrightarrow> known_fields names"
  "gcloud_identity_fields data = Inr names \<Longrightarrow> known_fields names"
proof -
  show "azure_identity_fields data = Inr names \<Longrightarrow> known_fields names"
  proof (cases data)
    case (JObj object)
    let ?all = "[''id'', ''name'', ''tenantId'']" and ?user = "user_fields object"
    let ?own = "filter (has_field object) ?all"
    have own: "distinct ?own" by (rule distinct_filter) simp
    have "set ?all \<inter> {''user.name'', ''user.type''} = {}" by simp
    with user_fields_known [of object] filter_is_subset [of "has_field object" ?all]
    have "set ?own \<inter> set ?user = {}" by blast
    with own user_fields_known [of object] have "distinct (?own @ ?user)" by (simp only: distinct_append)
    moreover have "set ?all \<subseteq> set identity_field_names" "{''user.name'', ''user.type''} \<subseteq> set identity_field_names"
      by (simp_all add: identity_field_names_def)
    with user_fields_known [of object] filter_is_subset [of "has_field object" ?all]
    have "set (?own @ ?user) \<subseteq> set identity_field_names" by (simp only: set_append) blast
    ultimately have "known_fields (?own @ ?user)" unfolding known_fields_def by blast
    moreover assume "azure_identity_fields data = Inr names"
    ultimately show ?thesis using JObj by (simp only: azure_identity_fields.simps sum.inject)
  qed simp_all
  show "aws_identity_fields data = Inr names \<Longrightarrow> known_fields names"
  proof (cases data)
    case (JObj object)
    have "known_fields (filter (has_field object) [''Account'', ''Arn'', ''UserId''])"
      by (rule known_fields_filter) (simp_all add: identity_field_names_def)
    moreover assume "aws_identity_fields data = Inr names"
    ultimately show ?thesis using JObj by (simp only: aws_identity_fields.simps sum.inject)
  qed simp_all
  show "gcloud_identity_fields data = Inr names \<Longrightarrow> known_fields names"
  proof (cases data)
    case (JList identities)
    assume "gcloud_identity_fields data = Inr names"
    with JList have "distinct names" "set names = (\<Union>identity \<in> set identities. set (gcloud_fields identity))"
      by auto
    with gcloud_fields_known have "distinct names" "set names \<subseteq> {''account'', ''status''}" by auto
    moreover have "{''account'', ''status''} \<subseteq> set identity_field_names"
      by (simp add: identity_field_names_def)
    ultimately show ?thesis unfolding known_fields_def by blast
  qed simp_all
qed

lemma extracted_fields: "extract_identity_fields w check output = Inr names \<Longrightarrow> known_fields names"
  unfolding extract_identity_fields_def
  by (auto simp only: res_bind_eq_Inr split: if_splits dest: identity_fields_known)

lemma detections_yield:
  "cl_command cli \<in> set cloud_commands \<Longrightarrow>
    yields (\<lambda>r. cloud_evidence m (iv_evidence r)) (run_shell_cli_detection m os cli)"
  "cl_command cli \<in> set cloud_commands \<Longrightarrow>
    yields (\<lambda>r. cloud_evidence m (iv_evidence r)) (run_tool_cli_detection m w cli)"
  "hd (pc_command profile) \<in> set cloud_commands \<Longrightarrow>
    yields (\<lambda>r. cloud_evidence m (iv_evidence r)) (run_profile_detection m w profile allowed denied)"
  "hd (ic_command identity) \<in> set cloud_commands \<Longrightarrow>
    yields (\<lambda>r. cloud_evidence m (iv_evidence r)) (run_identity_detection m w identity allowed denied)"
proof -
  note failures = caught_yields [where Q = "cloud_evidence m", OF cloud_evidence.failed]
  have cloud: "yields (\<lambda>r. cloud_evidence m (iv_evidence r)) operation \<Longrightarrow>
      yields (\<lambda>r. cloud_evidence m (iv_evidence r)) (catch operation (cloud_failure m provider kind))"
    for operation provider kind
    by (auto simp: cloud_failure_def intro!: yields_catch yields_ret cloud_evidence.failed split: if_splits)
  have refused: "cloud_evidence m (iv_evidence (refused_cloud_answer provider summary completed out))"
    for provider summary completed out
    using failure_evidence_shape cloud_evidence.no_profile by (simp add: refused_cloud_answer_def)
  show "cl_command cli \<in> set cloud_commands \<Longrightarrow>
      yields (\<lambda>r. cloud_evidence m (iv_evidence r)) (run_shell_cli_detection m os cli)"
    unfolding run_shell_cli_detection_def Let_def
    by (auto simp: parse_available_command_def split: if_splits
        intro!: failures yields_bind_any yields_ret cloud_evidence.tools failure_evidence_shape)
  show "cl_command cli \<in> set cloud_commands \<Longrightarrow>
      yields (\<lambda>r. cloud_evidence m (iv_evidence r)) (run_tool_cli_detection m w cli)"
    unfolding run_tool_cli_detection_def Let_def
    by (auto intro!: failures yields_bind_any yields_ret cloud_evidence.tools)
  show "hd (pc_command profile) \<in> set cloud_commands \<Longrightarrow>
      yields (\<lambda>r. cloud_evidence m (iv_evidence r)) (run_profile_detection m w profile allowed denied)"
    unfolding run_profile_detection_def not_installed_def Let_def
    by (auto intro!: cloud yields_bind_any yields_ret refused cloud_shapes)
  show "hd (ic_command identity) \<in> set cloud_commands \<Longrightarrow>
      yields (\<lambda>r. cloud_evidence m (iv_evidence r)) (run_identity_detection m w identity allowed denied)"
    unfolding run_identity_detection_def not_installed_def Let_def
    by (auto intro!: cloud yields_ret yields_bind_any [of _ _ "which w (hd (ic_command identity))"]
        yields_bind_any [of _ _ "run_resolved_command m w (ic_command identity)"] yields_bind_res refused
        cloud_evidence.identity [OF extracted_fields] cloud_shapes)
qed

lemmas cloud_checks = AZURE_CLI_def AWS_CLI_def GOOGLE_CLOUD_CLI_def AZURE_PROFILE_CHECK_def
  AWS_PROFILE_CHECK_def GOOGLE_CLOUD_PROFILE_CHECK_def AZURE_IDENTITY_CHECK_def AWS_IDENTITY_CHECK_def
  GOOGLE_CLOUD_IDENTITY_CHECK_def

lemmas cloud_tests = cloud_cli_test_def cloud_profile_test_def cloud_identity_test_def
  run_shell_profile_detection_def run_tool_profile_detection_def run_shell_identity_detection_def
  run_tool_identity_detection_def

text \<open>The nine tests: three of each kind, all with a command of one of the tools.\<close>

lemma group_17_test:
  assumes "i < 9"
  obtains
    (cli) cli ident alt version where "i < 3" "cl_command cli \<in> set cloud_commands"
      "gr_tests (get_group_17 m w c) ! i = cloud_cli_test m w (cx_operating_system c) ident cli alt version"
  | (profile) check ident alt operation where "3 \<le> i" "i < 6" "hd (pc_command check) \<in> set cloud_commands"
      "gr_tests (get_group_17 m w c) ! i = cloud_profile_test m w ident check alt operation"
  | (identity) check ident alt family command where "6 \<le> i" "hd (ic_command check) \<in> set cloud_commands"
      "gr_tests (get_group_17 m w c) ! i = cloud_identity_test m w ident check alt family command"
proof -
  have commands: "cl_command AZURE_CLI \<in> set cloud_commands" "cl_command AWS_CLI \<in> set cloud_commands"
    "cl_command GOOGLE_CLOUD_CLI \<in> set cloud_commands" "hd (pc_command AZURE_PROFILE_CHECK) \<in> set cloud_commands"
    "hd (pc_command AWS_PROFILE_CHECK) \<in> set cloud_commands"
    "hd (pc_command GOOGLE_CLOUD_PROFILE_CHECK) \<in> set cloud_commands"
    "hd (ic_command AZURE_IDENTITY_CHECK) \<in> set cloud_commands"
    "hd (ic_command AWS_IDENTITY_CHECK) \<in> set cloud_commands"
    "hd (ic_command GOOGLE_CLOUD_IDENTITY_CHECK) \<in> set cloud_commands"
    by (simp_all add: cloud_checks cloud_commands_def)
  note group = get_group_17_def Let_def
  from assms have "i = 0 \<or> i = 1 \<or> i = 2 \<or> i = 3 \<or> i = 4 \<or> i = 5 \<or> i = 6 \<or> i = 7 \<or> i = 8" by auto
  then show thesis
  proof (elim disjE)
    assume "i = 0" then show thesis by (intro cli [OF _ commands(1)]) (simp_all add: group)
  next
    assume "i = 1" then show thesis by (intro cli [OF _ commands(2)]) (simp_all add: group)
  next
    assume "i = 2" then show thesis by (intro cli [OF _ commands(3)]) (simp_all add: group)
  next
    assume "i = 3" then show thesis by (intro profile [OF _ _ commands(4)]) (simp_all add: group)
  next
    assume "i = 4" then show thesis by (intro profile [OF _ _ commands(5)]) (simp_all add: group)
  next
    assume "i = 5" then show thesis by (intro profile [OF _ _ commands(6)]) (simp_all add: group)
  next
    assume "i = 6" then show thesis by (intro identity [OF _ commands(7)]) (simp_all add: group)
  next
    assume "i = 7" then show thesis by (intro identity [OF _ commands(8)]) (simp_all add: group)
  next
    assume "i = 8" then show thesis by (intro identity [OF _ commands(9)]) (simp_all add: group)
  qed
qed

lemma group_17_length: "length (gr_tests (get_group_17 m w c)) = 9"
  by (simp add: get_group_17_def Let_def)


section \<open>Where no tool is installed\<close>

text \<open>On a machine without the three command lines every tool invocation and every alternate that
  would run one reports \<open>NOT_APPLICABLE\<close>, and so do the shell invocations of the profile and identity
  tests, without a program being run. The shell invocation of the availability tests goes by the status
  of \<open>command -v\<close>: 1 is \<open>NOT_APPLICABLE\<close>, but 127, which is what \<open>dash\<close> answers, is \<open>DENIED\<close>.\<close>

theorem missing_cloud_tools:
  assumes missing: "\<forall>log name. pw_which w log name = Inr None"
    and i: "i < 9" "t = gr_tests (get_group_17 m w c) ! i"
    and shell: "cx_operating_system c = LINUX"
      "\<forall>command. run_answer m log [''sh'', ''-c'', ''command -v '' @ command] =
        Inr \<lparr>cp_returncode = status, cp_stdout = '''', cp_stderr = ''''\<rparr>"
  shows "\<exists>s u log'. run_tool t log = (Inr u, log) \<and> iv_outcome u = NOT_APPLICABLE \<and>
    run_shell t log = (Inr s, log') \<and>
    iv_outcome s = (if i < 3 \<and> status \<noteq> 0 \<and> status \<noteq> 1 then DENIED else NOT_APPLICABLE) \<and>
    (i < 3 \<or> 6 \<le> i \<longrightarrow> (\<exists>a. run_alternates t log = (Inr a, log) \<and> ai_outcome a = NOT_APPLICABLE))"
proof -
  have w: "which w name log = (Inr None, log)" for name log
    using missing by (simp add: which_def consult_def)
  have tools: "\<exists>u. run_tool_cli_detection m w cli log = (Inr u, log) \<and> iv_outcome u = NOT_APPLICABLE" for cli
    by (simp add: run_tool_cli_detection_def catch_def bind_def ret_def w Let_def)
  have profiles: "\<exists>u. run_profile_detection m w check allowed denied log = (Inr u, log) \<and>
      iv_outcome u = NOT_APPLICABLE" for check allowed denied
    by (simp add: run_profile_detection_def bind_def ret_def w not_installed_def)
  have identities: "\<exists>u. run_identity_detection m w check allowed denied log = (Inr u, log) \<and>
      iv_outcome u = NOT_APPLICABLE" for check allowed denied
    by (simp add: run_identity_detection_def bind_def ret_def w not_installed_def)
  have clis: "\<exists>s log'. run_shell_cli_detection m LINUX cli log = (Inr s, log') \<and>
      iv_outcome s = (if status \<noteq> 0 \<and> status \<noteq> 1 then DENIED else NOT_APPLICABLE)" for cli
    using shell(2)
    by (auto simp: run_shell_cli_detection_def cli_shell_command_def run_program_def catch_def bind_def ret_def
        Let_def parse_available_command_def)
  have candidate: "\<exists>a. run_single_cloud_alternate m title b f (run_command_candidate m w command) log =
      (Inr a, log) \<and> ai_outcome a = NOT_APPLICABLE" for title b f command
    by (simp add: run_single_cloud_alternate_def run_cloud_alternate_attempts_def attempts_with_def
        run_cloud_alternate_attempt_def attempt_with_def run_command_candidate_def catch_def bind_def ret_def w
        Let_def joint_outcome_def count_outcome_def denied_or_unavailable_def)
  from i(1) show ?thesis
  proof (cases rule: group_17_test [where m = m and w = w and c = c])
    case (cli n)
    obtain u where "run_tool t log = (Inr u, log)" "iv_outcome u = NOT_APPLICABLE"
      using tools [of n] cli i(2) by (auto simp: cloud_cli_test_def)
    moreover obtain s log' where "run_shell t log = (Inr s, log')"
      "iv_outcome s = (if status \<noteq> 0 \<and> status \<noteq> 1 then DENIED else NOT_APPLICABLE)"
      using clis [of n] cli i(2) shell(1) by (auto simp: cloud_cli_test_def)
    moreover have "\<exists>a. run_alternates t log = (Inr a, log) \<and> ai_outcome a = NOT_APPLICABLE"
      using candidate cli i(2) by (simp add: cloud_cli_test_def)
    ultimately show ?thesis using cli(1) by auto
  next
    case profile
    have "\<exists>u. run_tool t log = (Inr u, log) \<and> iv_outcome u = NOT_APPLICABLE"
      "\<exists>s. run_shell t log = (Inr s, log) \<and> iv_outcome s = NOT_APPLICABLE"
      using profiles profile(4) i(2)
      by (simp_all add: cloud_profile_test_def run_shell_profile_detection_def run_tool_profile_detection_def)
    with profile(1,2) show ?thesis by auto
  next
    case identity
    have "\<exists>u. run_tool t log = (Inr u, log) \<and> iv_outcome u = NOT_APPLICABLE"
      "\<exists>s. run_shell t log = (Inr s, log) \<and> iv_outcome s = NOT_APPLICABLE"
      "\<exists>a. run_alternates t log = (Inr a, log) \<and> ai_outcome a = NOT_APPLICABLE"
      using identities candidate identity(3) i(2)
      by (simp_all add: cloud_identity_test_def run_shell_identity_detection_def run_tool_identity_detection_def)
    with identity(1) show ?thesis by auto
  qed
qed

text \<open>An alternate attempt goes by the exit status alone, whatever the tool prints: an empty list of
  accounts counts as a listed identity.\<close>

lemma printed_identity_ignored:
  assumes "pw_which w log command = Inr (Some executable)"
    and "run_resolved_command m w (executable # arguments) log = (Inr completed, log')"
  shows "\<exists>a. run_single_cloud_alternate m title b f (run_command_candidate m w (command # arguments)) log =
      (Inr a, log') \<and>
    ai_outcome a = (if cp_returncode completed = 0 then ALLOWED
      else if cp_returncode completed = 127 then NOT_APPLICABLE else DENIED)"
  using assms
  by (simp add: run_single_cloud_alternate_def run_cloud_alternate_attempts_def attempts_with_def
      run_cloud_alternate_attempt_def attempt_with_def run_command_candidate_def which_def consult_def
      catch_def bind_def ret_def Let_def joint_outcome_def count_outcome_def denied_or_unavailable_def)

section \<open>Profile files\<close>

text \<open>A disk that does not change while it is asked: which files there are, and which of them can be read.\<close>

definition still_disk :: "probe_world \<Rightarrow> (path \<Rightarrow> bool) \<Rightarrow> (path \<Rightarrow> bool) \<Rightarrow> bool" where
  "still_disk w present readable \<longleftrightarrow>
     (\<forall>log p. pw_exists w log p = Inr (present p)) \<and>
     (\<forall>log p. if readable p then pw_read w log p = Inr ()
       else \<exists>e. pw_read w log p = Inl e \<and> (is_permission_error e \<or> is_os_error e))"

lemma keep_each_known:
  assumes "\<And>x log. x \<in> set xs \<Longrightarrow> f x log = (Inr (P x), log)"
  shows "keep_each f xs log = (Inr (filter P xs), log)"
  using assms by (induction xs) (simp_all add: bind_def ret_def)

lemma profile_file_probe:
  assumes "still_disk w present readable"
  shows "\<exists>completed. run_profile_file_probe w provider (map Some ps) log = (Inr completed, log) \<and>
    cp_returncode completed = (if filter present ps = [] then 127
      else if \<exists>p \<in> set ps. present p \<and> readable p then 0 else 1)"
proof -
  let ?there = "filter present ps"
  have "List.map_filter (\<lambda>p. p) (map Some ps) = ps" by (induction ps) (simp_all add: map_filter_simps)
  moreover have "keep_each (\<lambda>p. consult (\<lambda>log. pw_exists w log p)) ps log = (Inr ?there, log)"
    by (rule keep_each_known) (use assms in \<open>simp add: still_disk_def consult_def\<close>)
  moreover have "path_is_readable w p log = (Inr (readable p), log)" for p log
    using assms by (cases "readable p")
      (auto simp: still_disk_def path_is_readable_def catch_def bind_def ret_def consult_def split: if_splits
        dest!: spec [where x = log] spec [where x = p])
  then have "keep_each (path_is_readable w) ?there log = (Inr (filter readable ?there), log)"
    by (intro keep_each_known)
  ultimately show ?thesis
    by (auto simp: run_profile_file_probe_def bind_def ret_def filter_empty_conv)
qed

text \<open>The alternate attempt of the Azure and AWS profile tests reports \<open>ALLOWED\<close> exactly when one of the
  provider's profile files can be read, \<open>DENIED\<close> when there are files but none can be read, and
  \<open>NOT_APPLICABLE\<close> when there is none.\<close>

theorem profile_files_reported:
  assumes "still_disk w present readable" "pw_home w = Inr home"
    and "(operation, files) \<in>
      {(run_azure_profile_config_probe w, [[''.azure'', ''azureProfile.json''], [''.azure'', ''clouds.config''],
         [''.azure'', ''config'']]),
       (run_aws_profile_config_probe w, [[''.aws'', ''credentials''], [''.aws'', ''config'']])}"
  shows "\<exists>a. run_single_cloud_alternate m title b f operation log = (Inr a, log) \<and>
    ai_outcome a =
      (if \<exists>parts \<in> set files. present (foldl path_div home parts) \<and> readable (foldl path_div home parts) then ALLOWED
       else if \<exists>parts \<in> set files. present (foldl path_div home parts) then DENIED else NOT_APPLICABLE)"
proof -
  have homes: "collect_each ps (home_path w) log = (Inr (map (\<lambda>parts. Some (foldl path_div home parts)) ps), log)"
    for ps log
    using assms(2) by (induction ps) (simp_all add: home_path_def bind_def ret_def lift_res_def)
  from assms(3) obtain provider where
    "operation = bind (collect_each files (home_path w)) (run_profile_file_probe w provider)"
    by (auto simp: run_azure_profile_config_probe_def run_aws_profile_config_probe_def)
  with homes [of files] profile_file_probe [OF assms(1), of provider "map (foldl path_div home) files" log]
  obtain completed where ran: "operation log = (Inr completed, log)" and
    status: "cp_returncode completed = (if filter present (map (foldl path_div home) files) = [] then 127
      else if \<exists>p \<in> set (map (foldl path_div home) files). present p \<and> readable p then 0 else 1)"
    by (auto simp: bind_def comp_def)
  from ran have "\<exists>a. run_single_cloud_alternate m title b f operation log = (Inr a, log) \<and>
      ai_outcome a = (if cp_returncode completed = 0 then ALLOWED
        else if cp_returncode completed = 127 then NOT_APPLICABLE else DENIED)"
    by (simp add: run_single_cloud_alternate_def run_cloud_alternate_attempts_def attempts_with_def
        run_cloud_alternate_attempt_def attempt_with_def catch_def bind_def ret_def Let_def joint_outcome_def
        count_outcome_def denied_or_unavailable_def)
  then show ?thesis unfolding status by (auto simp: filter_empty_conv)
qed

section \<open>What the group does, and that it answers\<close>

text \<open>\<open>shutil.which\<close> is called outside the \<open>try\<close> of the profile and identity tests, so it must not raise.\<close>

definition cloud_faults_ordinary :: "machine \<Rightarrow> probe_world \<Rightarrow> bool" where
  "cloud_faults_ordinary m w \<longleftrightarrow>
     programs_fail_ordinarily m w \<and> (\<forall>log name. \<exists>found. pw_which w log name = Inr found) \<and>
     (\<forall>e. pw_home w = Inl e \<longrightarrow> is_exception e) \<and> (\<forall>s e. pw_loads w s = Inl e \<longrightarrow> is_exception e) \<and>
     (\<forall>log p e. pw_exists w log p = Inl e \<longrightarrow> is_exception e) \<and>
     (\<forall>log p e. pw_read w log p = Inl e \<longrightarrow> is_exception e)"

lemma ordinary_collect: "(\<And>x. ordinary (f x)) \<Longrightarrow> ordinary (collect_each xs f)"
  by (induction xs) (auto intro!: ordinary_intros)

lemma ordinary_keep: "(\<And>x. ordinary (f x)) \<Longrightarrow> ordinary (keep_each f xs)"
  by (induction xs) (auto intro!: ordinary_intros)

lemma cloud_ordinary:
  assumes "cloud_faults_ordinary m w"
  shows "ordinary (run_program m command)" "ordinary (which w name)" "ordinary (run_resolved_command m w command)"
    "ordinary (run_command_candidate m w command)" "ordinary (lift_res (count_profiles w check s))"
    "ordinary (lift_res (extract_identity_fields w identity s))" "ordinary (run_azure_profile_config_probe w)"
    "ordinary (run_aws_profile_config_probe w)" "ordinary (run_gcloud_profile_config_probe w)"
proof -
  from assms have programs: "programs_fail_ordinarily m w" by (simp add: cloud_faults_ordinary_def)
  show run: "ordinary (run_program m command)" for command by (rule programs_ordinary [OF programs])
  show which: "ordinary (which w name)" for name
  proof -
    from assms have "\<exists>found. pw_which w log name = Inr found" for log
      by (simp add: cloud_faults_ordinary_def)
    then show ?thesis unfolding ordinary_def which_def consult_def by (metis Pair_inject sum.distinct(1))
  qed
  show resolved: "ordinary (run_resolved_command m w command)" for command
    unfolding run_resolved_command_def resolve_executable_command_def Let_def
    by (intro ordinary_intros run which)
  show "ordinary (run_command_candidate m w command)"
    unfolding run_command_candidate_def
    by (intro ordinary_bind which) (auto intro!: ordinary_intros resolved split: option.split)
  have loads: "pw_loads w t = Inl e \<Longrightarrow> is_exception e" for t e
    using assms by (simp add: cloud_faults_ordinary_def)
  show "ordinary (lift_res (count_profiles w check s))"
    by (auto simp: ordinary_def lift_res_def count_profiles_def res_bind_def
        split: sum.splits if_splits json.splits dest: loads)
  have "azure_identity_fields j = Inl e \<Longrightarrow> is_exception e" "aws_identity_fields j = Inl e \<Longrightarrow> is_exception e"
    "gcloud_identity_fields j = Inl e \<Longrightarrow> is_exception e" for j e
    by (cases j; auto)+
  then show "ordinary (lift_res (extract_identity_fields w identity s))"
    by (auto simp: ordinary_def lift_res_def extract_identity_fields_def res_bind_def
        split: sum.splits if_splits dest: loads)
  have home: "ordinary (home_path w parts)" for parts
    unfolding home_path_def using assms
    by (intro ordinary_intros) (auto simp: ordinary_def lift_res_def cloud_faults_ordinary_def)
  have appdata: "ordinary (windows_appdata_path w parts)" for parts
    unfolding windows_appdata_path_def by (intro ordinary_intros programs_ordinary [OF programs])
  have "ordinary (consult (\<lambda>log. pw_exists w log p))" for p
    using assms by (auto simp: ordinary_def consult_def cloud_faults_ordinary_def)
  moreover have "ordinary (path_is_readable w p)" for p
    using assms
    by (auto simp: ordinary_def path_is_readable_def catch_def bind_def ret_def consult_def
        cloud_faults_ordinary_def split: prod.splits sum.splits if_splits)
  ultimately have probe: "ordinary (run_profile_file_probe w provider ps)" for provider ps
    unfolding run_profile_file_probe_def by (intro ordinary_intros ordinary_keep)
  show "ordinary (run_azure_profile_config_probe w)" "ordinary (run_aws_profile_config_probe w)"
    "ordinary (run_gcloud_profile_config_probe w)"
    unfolding run_azure_profile_config_probe_def run_aws_profile_config_probe_def
      run_gcloud_profile_config_probe_def
    by (intro ordinary_bind ordinary_collect home appdata probe)+
qed

interpretation cloud_attempts: attempt_runner "run_cloud_alternate_attempt m"
    "\<lambda>p. ordinary (ca_operation p)" P "\<lambda>p. emits P (ca_operation p)" for m P
  by unfold_locales
    (auto simp: run_cloud_alternate_attempt_def intro!: attempt_with_returns attempt_with_emits)

lemma single_cloud_alternate:
  "ordinary operation \<Longrightarrow> returns (run_single_cloud_alternate m title b f operation)"
  "emits P operation \<Longrightarrow> emits P (run_single_cloud_alternate m title b f operation)"
  unfolding run_single_cloud_alternate_def run_cloud_alternate_attempts_def
  by (auto intro!: cloud_attempts.attempts_return cloud_attempts.attempts_emit)

lemma keep_each_emits [emits_intros]: "(\<And>x. emits P (f x)) \<Longrightarrow> emits P (keep_each f xs)"
  by (induction xs) (auto intro!: emits_intros)

text \<open>The group runs programs and looks at files; it changes none.\<close>

lemma group_17_emits:
  assumes "\<forall>command. P (Ran command)"
  shows "group_emits P (get_group_17 m w c)"
proof -
  have resolved: "emits P (run_resolved_command m w command)" for command
    unfolding run_resolved_command_def resolve_executable_command_def Let_def
    using assms by (auto intro!: emits_intros)
  have candidate: "emits P (run_command_candidate m w command)" for command
    unfolding run_command_candidate_def by (auto intro!: emits_intros resolved split: option.split)
  have "emits P (path_is_readable w p)" for p
    unfolding path_is_readable_def by (auto intro!: emits_intros split: if_splits)
  then have probe: "emits P (run_profile_file_probe w provider ps)" for provider ps
    unfolding run_profile_file_probe_def by (auto intro!: emits_intros)
  have paths: "emits P (home_path w parts)" "emits P (windows_appdata_path w parts)" for parts
    unfolding home_path_def windows_appdata_path_def by (auto intro!: emits_intros)
  have probes: "emits P (run_azure_profile_config_probe w)" "emits P (run_aws_profile_config_probe w)"
    "emits P (run_gcloud_profile_config_probe w)"
    unfolding run_azure_profile_config_probe_def run_aws_profile_config_probe_def
      run_gcloud_profile_config_probe_def
    by (intro emits_intros probe paths)+
  have cloud: "cloud_failure m provider kind e = Some n \<Longrightarrow> emits P n" for provider kind e n
    by (auto simp: cloud_failure_def intro!: emits_intros split: if_splits)
  have "emits P (run_shell_cli_detection m os cli)" "emits P (run_tool_cli_detection m w cli)" for os cli
    unfolding run_shell_cli_detection_def run_tool_cli_detection_def Let_def
    using assms by (auto intro!: emits_intros intro: failures_emit)
  moreover have "emits P (run_profile_detection m w check allowed denied)"
    "emits P (run_identity_detection m w identity allowed denied)" for check identity allowed denied
    unfolding run_profile_detection_def run_identity_detection_def Let_def
    by (auto intro!: emits_intros resolved intro: cloud)
  ultimately show ?thesis
    by (simp add: group_emits_def get_group_17_def Let_def cloud_tests single_cloud_alternate candidate probes)
qed

lemma group_17_returns:
  assumes "cloud_faults_ordinary m w"
  shows "group_returns (get_group_17 m w c)"
proof -
  note world = cloud_ordinary [OF assms]
  have which: "returns (which w name)" for name
    using assms by (simp add: returns_def which_def consult_def cloud_faults_ordinary_def)
  have cloud: "is_exception e \<Longrightarrow> \<exists>r. cloud_failure m provider kind e = Some (ret r)" for provider kind e
    by (auto simp: cloud_failure_def)
  have "returns (run_shell_cli_detection m os cli)" "returns (run_tool_cli_detection m w cli)" for os cli
    unfolding run_shell_cli_detection_def run_tool_cli_detection_def Let_def
    by (intro caught_returns ordinary_intros world failure_handlers; assumption)+
  moreover have "returns (run_profile_detection m w check allowed denied)" for check allowed denied
    unfolding run_profile_detection_def Let_def
    by (intro returns_bind which) (auto intro!: returns_ret caught_returns ordinary_intros world cloud)
  moreover have "returns (run_identity_detection m w identity allowed denied)" for identity allowed denied
    unfolding run_identity_detection_def Let_def
    by (intro returns_bind which) (auto intro!: returns_ret caught_returns ordinary_intros world cloud)
  ultimately show ?thesis
    by (simp add: group_returns_def get_group_17_def Let_def cloud_tests single_cloud_alternate world)
qed

section \<open>Machines\<close>

text \<open>A machine with a \<open>dash\<close> and no cloud tool, and a home directory with an AWS configuration that may
  not be read.\<close>

definition bare_machine :: machine where
  "bare_machine = broken_machine\<lparr>run_answer := \<lambda>_ _.
     Inr \<lparr>cp_returncode = 127, cp_stdout = '''', cp_stderr = ''''\<rparr>\<rparr>"

theorem missing_cloud_tools_witness:
  "\<exists>s u log'. run_tool (gr_tests (get_group_17 bare_machine (posix_world []) sample_context) ! 1) [] = (Inr u, []) \<and>
    iv_outcome u = NOT_APPLICABLE \<and>
    run_shell (gr_tests (get_group_17 bare_machine (posix_world []) sample_context) ! 1) [] = (Inr s, log') \<and>
    iv_outcome s = DENIED"
  using missing_cloud_tools [where w = "posix_world []" and i = 1 and m = bare_machine and c = sample_context and
      status = 127 and log = "[]", OF _ _ refl]
  by (auto simp: posix_world_def sample_context_def bare_machine_def)

theorem profile_files_reported_witness:
  "\<exists>a. run_single_cloud_alternate broken_machine ''t'' ''b'' ''f'' (run_aws_profile_config_probe
      ((posix_world [])\<lparr>pw_exists := \<lambda>_ _. Inr True\<rparr>)) [] = (Inr a, []) \<and> ai_outcome a = DENIED"
proof -
  let ?w = "(posix_world [])\<lparr>pw_exists := \<lambda>_ _. Inr True\<rparr>"
  have "still_disk ?w (\<lambda>_. True) (\<lambda>_. False)" "pw_home ?w = Inr (path_of ''/root'')"
    by (simp_all add: still_disk_def posix_world_def)
  from profile_files_reported [OF this, where files = "[[''.aws'', ''credentials''], [''.aws'', ''config'']]" and
      operation = "run_aws_profile_config_probe ?w" and m = broken_machine and log = "[]"]
  show ?thesis by (simp add: ex_disj_distrib)
qed

end
