(* ===== verification/Guest_Stream.thy ===== *)
theory Guest_Stream
  imports Host
begin

text \<open>
  The loop of \<open>_run_remote_command_and_stream\<close> in \<open>src/virtualbox_sandbox/guest_script_runner.py\<close>,
  which collects the output of a remote command and shows it while it arrives. A \<open>channel\<close> is
  the third-party SSH channel: what it answers to each query, as a function of the number of
  queries and pauses before (its clock). The loop need not end, so it is a partial function
  into \<open>option\<close>: \<open>None\<close> is "does not return".
\<close>

record channel =
  ch_recv_ready :: "nat \<Rightarrow> bool"
  ch_recv :: "nat \<Rightarrow> string"
  ch_recv_stderr_ready :: "nat \<Rightarrow> bool"
  ch_recv_stderr :: "nat \<Rightarrow> string"
  ch_exit_status_ready :: "nat \<Rightarrow> bool"
  ch_exit_status :: int

text \<open>The standard library's streams: how bytes are decoded, which text a stream can print and what it
  prints instead.\<close>

record console =
  co_decode :: "string \<Rightarrow> string"
  co_encodable :: "string \<Rightarrow> bool"
  co_replace :: "string \<Rightarrow> string"

datatype stream_name = Sys_Stdout | Sys_Stderr

record collected =
  stdout_chunks :: "string list"
  stderr_chunks :: "string list"
  written :: "(stream_name \<times> string) list"

definition write_stream_chunk :: "console \<Rightarrow> stream_name \<Rightarrow> string \<Rightarrow> collected \<Rightarrow> collected" where
  "write_stream_chunk co stream chunk c =
     (let text = co_decode co chunk
      in c\<lparr>written := written c @ [(stream, if co_encodable co text then text else co_replace co text)]\<rparr>)"

text \<open>An inner loop, with what it does to a chunk. \<open>t\<close> is the clock; every query advances it.\<close>

partial_function (option) drain ::
    "(nat \<Rightarrow> bool) \<Rightarrow> (nat \<Rightarrow> string) \<Rightarrow> (string \<Rightarrow> collected \<Rightarrow> collected) \<Rightarrow> nat \<Rightarrow> collected \<Rightarrow>
     (nat \<times> collected) option" where
  "drain ready recv store t c =
     (if ready t then drain ready recv store (t + 2) (store (recv (t + 1)) c) else Some (t + 1, c))"

definition store_stdout :: "console \<Rightarrow> string \<Rightarrow> collected \<Rightarrow> collected" where
  "store_stdout co chunk c =
     write_stream_chunk co Sys_Stdout chunk (c\<lparr>stdout_chunks := stdout_chunks c @ [chunk]\<rparr>)"

definition store_stderr :: "console \<Rightarrow> string \<Rightarrow> collected \<Rightarrow> collected" where
  "store_stderr co chunk c =
     write_stream_chunk co Sys_Stderr chunk (c\<lparr>stderr_chunks := stderr_chunks c @ [chunk]\<rparr>)"

definition drain_stdout :: "console \<Rightarrow> channel \<Rightarrow> nat \<Rightarrow> collected \<Rightarrow> (nat \<times> collected) option" where
  "drain_stdout co ch = drain (ch_recv_ready ch) (ch_recv ch) (store_stdout co)"

definition drain_stderr :: "console \<Rightarrow> channel \<Rightarrow> nat \<Rightarrow> collected \<Rightarrow> (nat \<times> collected) option" where
  "drain_stderr co ch = drain (ch_recv_stderr_ready ch) (ch_recv_stderr ch) (store_stderr co)"

text \<open>\<open>channel.exit_status_ready() and not channel.recv_ready() and not
  channel.recv_stderr_ready()\<close>, with the queries that are made, and the clock afterwards.\<close>

definition finished_at :: "channel \<Rightarrow> nat \<Rightarrow> bool \<times> nat" where
  "finished_at ch t =
     (if \<not> ch_exit_status_ready ch t then (False, t + 1)
      else if ch_recv_ready ch (t + 1) then (False, t + 2)
      else (\<not> ch_recv_stderr_ready ch (t + 2), t + 3))"

partial_function (option) stream_loop ::
    "console \<Rightarrow> channel \<Rightarrow> nat \<Rightarrow> collected \<Rightarrow> (nat \<times> collected) option" where
  "stream_loop co ch t c =
     Option.bind (drain_stdout co ch t c) (\<lambda>(t1, c1).
     Option.bind (drain_stderr co ch t1 c1) (\<lambda>(t2, c2).
       let (finished, t3) = finished_at ch t2;
           made_progress = (stdout_chunks c2 \<noteq> stdout_chunks c \<or> stderr_chunks c2 \<noteq> stderr_chunks c)
       in if finished then Some (t3, c2)
          else if made_progress then stream_loop co ch t3 c2
          else stream_loop co ch (t3 + 1) c2))"

definition decode_output :: "console \<Rightarrow> string list \<Rightarrow> string" where
  "decode_output co chunks = co_decode co (concat chunks)"

definition run_remote_command_and_stream ::
    "console \<Rightarrow> channel \<Rightarrow> (completed \<times> (stream_name \<times> string) list) option" where
  "run_remote_command_and_stream co ch =
     map_option (\<lambda>(t, c).
       (\<lparr>cp_returncode = ch_exit_status ch,
         cp_stdout = py_strip (decode_output co (stdout_chunks c)),
         cp_stderr = py_strip (decode_output co (stderr_chunks c))\<rparr>, written c))
       (stream_loop co ch 0 \<lparr>stdout_chunks = [], stderr_chunks = [], written = []\<rparr>)"

section \<open>The loop returns\<close>

text \<open>The documented behaviour of a channel whose command ends: from some time on the exit status is
  there and nothing arrives any more.\<close>

definition quiet_from :: "channel \<Rightarrow> nat \<Rightarrow> bool" where
  "quiet_from ch e \<longleftrightarrow>
     (\<forall>t \<ge> e. ch_exit_status_ready ch t \<and> \<not> ch_recv_ready ch t \<and> \<not> ch_recv_stderr_ready ch t)"

lemma drain_returns:
  "(\<And>t. e \<le> t \<Longrightarrow> \<not> ready t) \<Longrightarrow> \<exists>t' c'. drain ready recv store t c = Some (t', c') \<and> t < t'"
proof (induction "e - t" arbitrary: t c rule: less_induct)
  case less
  show ?case
  proof (cases "ready t")
    case True
    with less.prems have "t < e" by (meson not_le)
    with less.hyps [of "t + 2"] less.prems True show ?thesis
      by (subst drain.simps) fastforce
  next
    case False
    then show ?thesis by (subst drain.simps) simp
  qed
qed

lemma drain_stdout_returns:
  "quiet_from ch e \<Longrightarrow> \<exists>t' c'. drain_stdout co ch t c = Some (t', c') \<and> t < t'"
  unfolding drain_stdout_def by (rule drain_returns [of e]) (simp add: quiet_from_def)

lemma drain_stderr_returns:
  "quiet_from ch e \<Longrightarrow> \<exists>t' c'. drain_stderr co ch t c = Some (t', c') \<and> t < t'"
  unfolding drain_stderr_def by (rule drain_returns [of e]) (simp add: quiet_from_def)

lemma finished_at_later: "finished_at ch t = (f, t') \<Longrightarrow> t < t'"
  by (auto simp: finished_at_def split: if_splits)

lemma quiet_finished: "quiet_from ch e \<Longrightarrow> e \<le> t \<Longrightarrow> finished_at ch t = (True, t + 3)"
  by (simp add: finished_at_def quiet_from_def)

lemma stream_loop_returns: "quiet_from ch e \<Longrightarrow> \<exists>r. stream_loop co ch t c = Some r"
proof (induction "e - t" arbitrary: t c rule: less_induct)
  case less
  obtain t1 c1 where out: "drain_stdout co ch t c = Some (t1, c1)" "t < t1"
    using drain_stdout_returns [OF less.prems] by blast
  obtain t2 c2 where err: "drain_stderr co ch t1 c1 = Some (t2, c2)" "t1 < t2"
    using drain_stderr_returns [OF less.prems] by blast
  obtain f t3 where f: "finished_at ch t2 = (f, t3)" by (cases "finished_at ch t2")
  show ?case
  proof (cases f)
    case True
    with out err f show ?thesis by (subst stream_loop.simps) simp
  next
    case False
    with quiet_finished [OF less.prems, of t2] f have "t2 < e" by (cases "e \<le> t2") auto
    moreover have "t2 < t3" using f by (rule finished_at_later)
    ultimately have "e - t3 < e - t" "e - (t3 + 1) < e - t" using out err by simp_all
    with less.hyps less.prems have "\<exists>r. stream_loop co ch t3 c2 = Some r"
      "\<exists>r. stream_loop co ch (t3 + 1) c2 = Some r" by blast+
    with out err f False show ?thesis by (subst stream_loop.simps) simp
  qed
qed

section \<open>What it returns\<close>

text \<open>What was shown on a stream is what was collected from it, chunk by chunk.\<close>

definition shown :: "console \<Rightarrow> string \<Rightarrow> string" where
  "shown co chunk = (let text = co_decode co chunk
     in if co_encodable co text then text else co_replace co text)"

definition consistent :: "console \<Rightarrow> collected \<Rightarrow> bool" where
  "consistent co c \<longleftrightarrow>
     map snd (filter (\<lambda>(s, _). s = Sys_Stdout) (written c)) = map (shown co) (stdout_chunks c) \<and>
     map snd (filter (\<lambda>(s, _). s = Sys_Stderr) (written c)) = map (shown co) (stderr_chunks c)"

lemma store_consistent:
  "consistent co c \<Longrightarrow> consistent co (store_stdout co chunk c)"
  "consistent co c \<Longrightarrow> consistent co (store_stderr co chunk c)"
  by (simp_all add: consistent_def store_stdout_def store_stderr_def write_stream_chunk_def shown_def
      Let_def)

text \<open>An inner loop keeps what every stored chunk keeps, and ends at a query that found nothing.\<close>

lemma drain_keeps:
  assumes "drain ready recv store t c = Some r" and "\<And>chunk c. I c \<Longrightarrow> I (store chunk c)" and "I c"
  shows "I (snd r) \<and> \<not> ready (fst r - 1)"
proof -
  have "I c \<longrightarrow> (\<forall>chunk c. I c \<longrightarrow> I (store chunk c)) \<longrightarrow> I (snd r) \<and> \<not> ready (fst r - 1)"
  proof (rule drain.raw_induct [where P = "\<lambda>ready recv store t c r. I c \<longrightarrow>
      (\<forall>chunk c. I c \<longrightarrow> I (store chunk c)) \<longrightarrow> I (snd r) \<and> \<not> ready (fst r - 1)", OF _ assms(1)])
    fix f ready recv store t c and r :: "nat \<times> collected"
    assume IH: "\<And>ready recv store t c r. f ready recv store t c = Some r \<Longrightarrow>
        I c \<longrightarrow> (\<forall>chunk c. I c \<longrightarrow> I (store chunk c)) \<longrightarrow> I (snd r) \<and> \<not> ready (fst r - 1)"
      and eq: "(if ready t then f ready recv store (t + 2) (store (recv (t + 1)) c)
        else Some (t + 1, c)) = Some r"
    show "I c \<longrightarrow> (\<forall>chunk c. I c \<longrightarrow> I (store chunk c)) \<longrightarrow> I (snd r) \<and> \<not> ready (fst r - 1)"
    proof (cases "ready t")
      case True
      with eq have "f ready recv store (t + 2) (store (recv (t + 1)) c) = Some r" by simp
      from IH [OF this] show ?thesis by blast
    next
      case False
      with eq show ?thesis by auto
    qed
  qed
  with assms(2,3) show ?thesis by blast
qed

lemma stream_loop_keeps:
  assumes "stream_loop co ch t c = Some r" and "consistent co c"
  shows "consistent co (snd r) \<and> finished_at ch (fst r - 3) = (True, fst r)"
proof -
  have "consistent co c \<longrightarrow> consistent co (snd r) \<and> finished_at ch (fst r - 3) = (True, fst r)"
  proof (rule stream_loop.raw_induct [where P = "\<lambda>co ch t c r. consistent co c \<longrightarrow>
      consistent co (snd r) \<and> finished_at ch (fst r - 3) = (True, fst r)", OF _ assms(1)])
    fix f co ch t c and r :: "nat \<times> collected"
    assume IH: "\<And>co ch t c r. f co ch t c = Some r \<Longrightarrow> consistent co c \<longrightarrow>
        consistent co (snd r) \<and> finished_at ch (fst r - 3) = (True, fst r)"
      and eq: "Option.bind (drain_stdout co ch t c) (\<lambda>(t1, c1).
        Option.bind (drain_stderr co ch t1 c1) (\<lambda>(t2, c2).
          let (finished, t3) = finished_at ch t2;
              made_progress = (stdout_chunks c2 \<noteq> stdout_chunks c \<or> stderr_chunks c2 \<noteq> stderr_chunks c)
          in if finished then Some (t3, c2)
             else if made_progress then f co ch t3 c2 else f co ch (t3 + 1) c2)) = Some r"
    show "consistent co c \<longrightarrow> consistent co (snd r) \<and> finished_at ch (fst r - 3) = (True, fst r)"
    proof
      assume c: "consistent co c"
      from eq obtain t1 c1 t2 c2 where out: "drain_stdout co ch t c = Some (t1, c1)"
        and err: "drain_stderr co ch t1 c1 = Some (t2, c2)"
        by (auto simp: bind_eq_Some_conv)
      obtain fin t3 where fin: "finished_at ch t2 = (fin, t3)" by (cases "finished_at ch t2")
      have c1: "consistent co c1"
        using drain_keeps [OF out [unfolded drain_stdout_def], of "consistent co"]
          store_consistent(1) c by simp
      have c2: "consistent co c2"
        using drain_keeps [OF err [unfolded drain_stderr_def], of "consistent co"]
          store_consistent(2) c1 by simp
      show "consistent co (snd r) \<and> finished_at ch (fst r - 3) = (True, fst r)"
      proof (cases fin)
        case True
        with eq out err fin have "r = (t3, c2)" by simp
        moreover from True fin have "t3 = t2 + 3" by (auto simp: finished_at_def split: if_splits)
        ultimately show ?thesis using c2 fin True by simp
      next
        case False
        with eq out err fin have "f co ch t3 c2 = Some r \<or> f co ch (t3 + 1) c2 = Some r"
          by (auto split: if_splits)
        with IH c2 show ?thesis by blast
      qed
    qed
  qed
  with assms(2) show ?thesis by blast
qed


definition example_channel :: channel where
  "example_channel = \<lparr>ch_recv_ready = (\<lambda>t. t = 4), ch_recv = (\<lambda>t. ''done''),
     ch_recv_stderr_ready = (\<lambda>t. False), ch_recv_stderr = (\<lambda>t. ''''),
     ch_exit_status_ready = (\<lambda>t. 6 \<le> t), ch_exit_status = 3\<rparr>"

definition plain_console :: console where
  "plain_console = \<lparr>co_decode = id, co_encodable = (\<lambda>_. True), co_replace = id\<rparr>"


lemma example_output:
  "run_remote_command_and_stream plain_console example_channel =
     Some (\<lparr>cp_returncode = 3, cp_stdout = ''done'', cp_stderr = ''''\<rparr>, [(Sys_Stdout, ''done'')])"
  by (simp add: run_remote_command_and_stream_def stream_loop.simps drain_stdout_def drain_stderr_def
      drain.simps finished_at_def example_channel_def plain_console_def store_stdout_def
      store_stderr_def write_stream_chunk_def Let_def decode_output_def py_strip_def strip_by_def
      is_space_def code_def)

end
