(* ===== verification/Guest_Commands.thy ===== *)
theory Guest_Commands
  imports Shell_Words Posix_Path
begin

text \<open>
  The commands and paths of a virtual machine run: the pure functions of
  \<open>src/virtualbox_sandbox/guest_script_runner.py\<close> and \<open>guest_run_layout.py\<close>, shared by the
  QEMU and the VirtualBox sandbox. A command travels as one string over SSH and is read by the
  login shell of the guest; \<open>sh_command\<close> is the specification of that reading. The random
  hexadecimal names of \<open>uuid.uuid4()\<close> are arguments.
\<close>

section \<open>How a login shell reads a simple command\<close>

text \<open>A character of a word is unquoted (\<open>Lit\<close>), quoted (\<open>Quo\<close>), or part of an unquoted
  parameter expansion \<open>$NAME\<close> (\<open>Var\<close>). An unquoted vertical bar ends a command of a pipeline.
  Everything else a shell treats specially makes the reading answer \<open>None\<close>.\<close>

datatype sh_char = Lit char | Quo char | Var string

datatype sh_item = Item "sh_char list" | Pipe

datatype read_mode =
    Gap
  | Bare "sh_char list"
  | In_Single "sh_char list"
  | In_Double "sh_char list"
  | In_Name "sh_char list" string

definition is_name_char :: "char \<Rightarrow> bool" where
  "is_name_char c \<longleftrightarrow> is_upper c \<or> is_lower c \<or> is_digit c \<or> c = CHR ''_''"

definition add_item :: "sh_item \<Rightarrow> sh_item list option \<Rightarrow> sh_item list option" where
  "add_item t r = map_option (\<lambda>ts. t # ts) r"

fun sh_read :: "read_mode \<Rightarrow> string \<Rightarrow> sh_item list option" where
  "sh_read Gap [] = Some []"
| "sh_read (Bare w) [] = Some [Item w]"
| "sh_read (In_Single w) [] = None"
| "sh_read (In_Double w) [] = None"
| "sh_read (In_Name w n) [] = (if n = [] then None else Some [Item (w @ [Var n])])"
| "sh_read Gap (c # cs) =
     (if c = CHR '' '' then sh_read Gap cs
      else if c = CHR 0x27 then sh_read (In_Single []) cs
      else if c = CHR 0x22 then sh_read (In_Double []) cs
      else if c = CHR ''|'' then add_item Pipe (sh_read Gap cs)
      else if c = CHR ''$'' then sh_read (In_Name [] []) cs
      else if is_shell_safe c then sh_read (Bare [Lit c]) cs
      else None)"
| "sh_read (Bare w) (c # cs) =
     (if c = CHR '' '' then add_item (Item w) (sh_read Gap cs)
      else if c = CHR 0x27 then sh_read (In_Single w) cs
      else if c = CHR 0x22 then sh_read (In_Double w) cs
      else if c = CHR ''|'' then add_item (Item w) (add_item Pipe (sh_read Gap cs))
      else if c = CHR ''$'' then sh_read (In_Name w []) cs
      else if is_shell_safe c then sh_read (Bare (w @ [Lit c])) cs
      else None)"
| "sh_read (In_Single w) (c # cs) =
     (if c = CHR 0x27 then sh_read (Bare w) cs else sh_read (In_Single (w @ [Quo c])) cs)"
| "sh_read (In_Double w) (c # cs) =
     (if c = CHR 0x22 then sh_read (Bare w) cs
      else if c \<in> {CHR ''$'', CHR 0x60, CHR 0x5C} then None
      else sh_read (In_Double (w @ [Quo c])) cs)"
| "sh_read (In_Name w n) (c # cs) =
     (if is_name_char c then sh_read (In_Name w (n @ [c])) cs
      else if n = [] then None
      else if c = CHR '' '' then add_item (Item (w @ [Var n])) (sh_read Gap cs)
      else None)"

text \<open>After quote removal a word is text and parameters. A leading word of the form \<open>NAME=...\<close> with
  the name and the sign unquoted is an assignment to the environment of the command; a command
  word may hold no parameter, which the shell would split.\<close>

datatype sh_piece = Text char | Param string

fun piece_of :: "sh_char \<Rightarrow> sh_piece" where
  "piece_of (Lit c) = Text c"
| "piece_of (Quo c) = Text c"
| "piece_of (Var n) = Param n"

fun literal_of :: "sh_char \<Rightarrow> char option" where
  "literal_of (Lit c) = Some c"
| "literal_of (Quo c) = Some c"
| "literal_of (Var n) = None"

fun assignment_from :: "string \<Rightarrow> sh_char list \<Rightarrow> (string \<times> sh_piece list) option" where
  "assignment_from n (Lit c # w) =
     (if c = CHR ''='' \<and> n \<noteq> [] then Some (n, map piece_of w)
      else if is_name_char c \<and> (n = [] \<longrightarrow> \<not> is_digit c) then assignment_from (n @ [c]) w
      else None)"
| "assignment_from n w = None"

fun those_of :: "('a \<Rightarrow> 'b option) \<Rightarrow> 'a list \<Rightarrow> 'b list option" where
  "those_of f [] = Some []"
| "those_of f (x # xs) =
     (case f x of None \<Rightarrow> None | Some y \<Rightarrow> map_option (\<lambda>ys. y # ys) (those_of f xs))"

type_synonym simple_command = "(string \<times> sh_piece list) list \<times> string list"

fun item_word :: "sh_item \<Rightarrow> string option" where
  "item_word (Item w) = those_of literal_of w"
| "item_word Pipe = None"

fun simple_command_of :: "sh_item list \<Rightarrow> simple_command option" where
  "simple_command_of [] = Some ([], [])"
| "simple_command_of (Pipe # ts) = None"
| "simple_command_of (Item w # ts) =
     (case assignment_from [] w of
        Some a \<Rightarrow> map_option (\<lambda>(env, argv). (a # env, argv)) (simple_command_of ts)
      | None \<Rightarrow> map_option (Pair []) (those_of item_word (Item w # ts)))"

fun pipeline_of :: "sh_item list \<Rightarrow> sh_item list list" where
  "pipeline_of [] = [[]]"
| "pipeline_of (Pipe # ts) = [] # pipeline_of ts"
| "pipeline_of (t # ts) =
     (case pipeline_of ts of [] \<Rightarrow> [[t]] | p # ps \<Rightarrow> (t # p) # ps)"

definition sh_command :: "string \<Rightarrow> simple_command option" where
  "sh_command s = Option.bind (sh_read Gap s) simple_command_of"

definition sh_pipeline :: "string \<Rightarrow> simple_command list option" where
  "sh_pipeline s = Option.bind (sh_read Gap s) (\<lambda>ts. those_of simple_command_of (pipeline_of ts))"

section \<open>Reading quoted text\<close>

definition quoted :: "string \<Rightarrow> sh_char list" where
  "quoted s = (if s \<noteq> [] \<and> list_all is_shell_safe s then map Lit s else map Quo s)"

lemma safe_not_special [simp]:
  "is_shell_safe c \<Longrightarrow> c \<noteq> CHR '' '' \<and> c \<noteq> CHR 0x27 \<and> c \<noteq> CHR 0x22 \<and> c \<noteq> CHR ''|'' \<and> c \<noteq> CHR ''$''"
  by (auto simp: is_shell_safe_def is_upper_def is_lower_def is_digit_def code_def)

lemma name_char_safe: "is_name_char c \<Longrightarrow> is_shell_safe c \<and> c \<noteq> CHR ''=''"
  by (auto simp: is_name_char_def is_shell_safe_def is_upper_def is_lower_def is_digit_def code_def)

lemma read_safe:
  "list_all is_shell_safe s \<Longrightarrow> sh_read (Bare w) (s @ r) = sh_read (Bare (w @ map Lit s)) r"
  by (induction s arbitrary: w) simp_all

lemma read_single:
  "sh_read (In_Single w)
     (replace_char (CHR 0x27) [CHR 0x27, CHR 0x22, CHR 0x27, CHR 0x22, CHR 0x27] s @ CHR 0x27 # r)
   = sh_read (Bare (w @ map Quo s)) r"
  by (induction s arbitrary: w) (simp_all add: replace_char_def)

lemma read_quote: "sh_read (Bare w) (shell_quote s @ r) = sh_read (Bare (w @ quoted s)) r"
  using read_safe [of s w r] read_single [of w s r] by (simp add: shell_quote_def quoted_def)

lemma read_quote_gap: "sh_read Gap (shell_quote s @ r) = sh_read (Bare (quoted s)) r"
proof (cases "s \<noteq> [] \<and> list_all is_shell_safe s")
  case True
  then obtain c cs where "s = c # cs" by (cases s) auto
  with True show ?thesis
    using read_safe [of cs "[Lit c]" r] by (simp add: shell_quote_def quoted_def)
next
  case False
  then show ?thesis
    using read_single [of "[]" s r] by (auto simp: shell_quote_def quoted_def)
qed

lemma read_word_gap:
  "w \<noteq> [] \<Longrightarrow> list_all is_shell_safe w \<Longrightarrow> sh_read Gap (w @ r) = sh_read (Bare (map Lit w)) r"
  using read_quote_gap [of w r] by (simp add: shell_quote_def quoted_def)

lemma literal_quoted [simp]: "those_of literal_of (quoted s) = Some s"
proof -
  have "those_of literal_of (map Lit s) = Some s" and "those_of literal_of (map Quo s) = Some s"
    by (induction s) simp_all
  then show ?thesis by (simp add: quoted_def)
qed

lemma pieces_quoted [simp]: "map piece_of (quoted s) = map Text s"
  by (simp add: quoted_def)

lemma those_of_words [simp]: "those_of item_word (map (\<lambda>w. Item (quoted w)) ws) = Some ws"
  by (induction ws) simp_all

definition is_identifier :: "string \<Rightarrow> bool" where
  "is_identifier n \<longleftrightarrow> n \<noteq> [] \<and> list_all is_name_char n \<and> \<not> is_digit (hd n)"

lemma assignment_name:
  "list_all is_name_char n \<Longrightarrow> (m = [] \<longrightarrow> n \<noteq> [] \<and> \<not> is_digit (hd n)) \<Longrightarrow>
   assignment_from m (map Lit n @ Lit CHR ''='' # w) = Some (m @ n, map piece_of w)"
  by (induction n arbitrary: m) (auto dest: name_char_safe)

lemma assignment_identifier:
  "is_identifier n \<Longrightarrow>
   assignment_from [] (map Lit n @ Lit CHR ''='' # w) = Some (n, map piece_of w)"
  by (simp add: assignment_name is_identifier_def)

lemma equals_safe: "is_shell_safe CHR ''=''"
  by (simp add: is_shell_safe_def)

lemma read_assignment:
  assumes "is_identifier n"
  shows "sh_read Gap (n @ CHR ''='' # shell_quote v @ r) =
    sh_read (Bare (map Lit n @ Lit CHR ''='' # quoted v)) r"
proof -
  have "list_all is_shell_safe n"
    using assms name_char_safe by (auto simp: is_identifier_def list_all_iff)
  then have "sh_read Gap (n @ CHR ''='' # shell_quote v @ r) =
      sh_read (Bare (map Lit n)) (CHR ''='' # shell_quote v @ r)"
    using assms by (intro read_word_gap) (simp_all add: is_identifier_def)
  then show ?thesis by (simp add: equals_safe read_quote)
qed

section \<open>Paths\<close>

text \<open>\<open>posixpath.join\<close> of two parts.\<close>

definition posix_join :: "string \<Rightarrow> string \<Rightarrow> string" where
  "posix_join a b =
     (if starts_with b ''/'' then b
      else if a = [] \<or> last a = CHR ''/'' then a @ b
      else a @ ''/'' @ b)"

definition create_remote_script_path :: "string \<Rightarrow> string" where
  "create_remote_script_path u = posix_join ''/tmp'' (''sandbox-script-'' @ u @ ''.py'')"

definition create_remote_source_path :: "string \<Rightarrow> string" where
  "create_remote_source_path u = posix_join ''/tmp'' (''sandbox-source-'' @ u)"

definition create_remote_agent_path :: "string \<Rightarrow> string" where
  "create_remote_agent_path u = posix_join ''/tmp'' (''sandbox-agent-'' @ u)"

definition create_remote_venv_path :: "string \<Rightarrow> string" where
  "create_remote_venv_path u = posix_join ''/tmp'' (''sandbox-venv-'' @ u)"

definition join_remote_path :: "string \<Rightarrow> path \<Rightarrow> string" where
  "join_remote_path base_path relative_path =
     (if path_str relative_path = ''.'' then base_path
      else posix_join base_path (path_str relative_path))"

text \<open>The successive arguments of \<open>sftp.mkdir\<close> in \<open>_mkdir_remote_directory\<close>, given
  \<open>current_path\<close> and the parts still to go.\<close>

fun mkdir_paths :: "string \<Rightarrow> string list \<Rightarrow> string list" where
  "mkdir_paths current [] = []"
| "mkdir_paths current (part # parts) =
     (if part = [] then mkdir_paths ''/'' parts
      else let next_path = posix_join current part in next_path # mkdir_paths next_path parts)"

definition remote_directories :: "string \<Rightarrow> string list" where
  "remote_directories remote_path = mkdir_paths [] (split_on CHR ''/'' remote_path)"

section \<open>Commands\<close>

definition create_environment_prefix :: "(string, string) dict option \<Rightarrow> string" where
  "create_environment_prefix environment_variables =
     (case environment_variables of
        None \<Rightarrow> []
      | Some [] \<Rightarrow> []
      | Some env \<Rightarrow> py_join '' '' (map (\<lambda>(name, v). name @ ''='' @ shell_quote v) env) @ '' '')"

definition create_remote_python_command ::
    "string \<Rightarrow> string option \<Rightarrow> string \<Rightarrow> (string, string) dict option \<Rightarrow> string" where
  "create_remote_python_command script_path source_path python_executable environment_variables =
     (let quoted_script_path = shell_quote script_path;
          quoted_python = shell_quote python_executable;
          environment_prefix = create_environment_prefix environment_variables
      in case source_path of
           None \<Rightarrow> environment_prefix @ quoted_python @ '' '' @ quoted_script_path
         | Some source \<Rightarrow> environment_prefix @ ''PYTHONPATH='' @ shell_quote source @
             '':$PYTHONPATH '' @ quoted_python @ '' '' @ quoted_script_path)"

definition create_venv_command :: "string \<Rightarrow> string" where
  "create_venv_command venv_path = ''python3 -m venv '' @ shell_quote venv_path"

definition upgrade_pip_command :: "string \<Rightarrow> string" where
  "upgrade_pip_command python_executable =
     shell_quote python_executable @ '' -m pip install --upgrade pip''"

definition install_command :: "string \<Rightarrow> string list \<Rightarrow> string" where
  "install_command python_executable dependencies =
     shell_quote python_executable @ '' -m pip install '' @
     py_join '' '' (map shell_quote dependencies)"

text \<open>\<open>command.format(python=quoted)\<close> for replacement fields that are a plain name.\<close>

abbreviation single_brace :: string where
  "single_brace \<equiv> '' encountered in format string''"

fun format_python :: "string \<Rightarrow> string \<Rightarrow> string res" where
  "format_python python [] = Inr []"
| "format_python python (c # cs) =
     (if c = CHR ''{'' then
        (if starts_with cs ''{'' then res_bind (format_python python (tl cs)) (\<lambda>r. Inr (c # r))
         else if starts_with cs ''python}''
         then res_bind (format_python python (drop 7 cs)) (\<lambda>r. Inr (python @ r))
         else if CHR ''}'' \<in> set cs then Inl (KeyError (takeWhile (\<lambda>x. x \<noteq> CHR ''}'') cs))
         else if cs = [] then Inl (ValueError (''Single '' @ py_repr ''{'' @ single_brace))
         else Inl (ValueError (''expected '' @ py_repr ''}'' @ '' before end of string'')))
      else if c = CHR ''}'' then
        (if starts_with cs ''}'' then res_bind (format_python python (tl cs)) (\<lambda>r. Inr (c # r))
         else Inl (ValueError (''Single '' @ py_repr ''}'' @ single_brace)))
      else res_bind (format_python python cs) (\<lambda>r. Inr (c # r)))"

definition sudo_command :: "string \<Rightarrow> string \<Rightarrow> string" where
  "sudo_command password command =
     ''printf '' @ [CHR 0x27] @ ''%s'' @ [CHR 0x5C, CHR ''n'', CHR 0x27] @ '' '' @
     shell_quote password @ '' | sudo -S '' @ command"

section \<open>What the guest's shell runs\<close>

lemma environment_prefix_Nil [simp]:
  "create_environment_prefix None = []" "create_environment_prefix (Some []) = []"
  by (simp_all add: create_environment_prefix_def)

lemma environment_prefix_Cons [simp]:
  "create_environment_prefix (Some ((name, v) # env)) =
   name @ CHR ''='' # shell_quote v @ CHR '' '' # create_environment_prefix (Some env)"
  by (cases env) (simp_all add: create_environment_prefix_def py_join_Cons)

abbreviation assignment_item :: "string \<times> string \<Rightarrow> sh_item" where
  "assignment_item \<equiv> \<lambda>(name, v). Item (map Lit name @ Lit CHR ''='' # quoted v)"

lemma read_prefix:
  "list_all is_identifier (map fst env) \<Longrightarrow> sh_read Gap r = Some items \<Longrightarrow>
   sh_read Gap (create_environment_prefix (Some env) @ r) = Some (map assignment_item env @ items)"
  by (induction env) (auto simp: read_assignment add_item_def)

lemma command_assignments:
  "list_all is_identifier (map fst env) \<Longrightarrow> simple_command_of items = Some (as, argv) \<Longrightarrow>
   simple_command_of (map assignment_item env @ items) =
     Some (map (\<lambda>(name, v). (name, map Text v)) env @ as, argv)"
  by (induction env) (auto simp: assignment_identifier)

definition no_assignment :: "string \<Rightarrow> bool" where
  "no_assignment w \<longleftrightarrow> assignment_from [] (quoted w) = None"

lemma read_two_words:
  "sh_read Gap (shell_quote a @ '' '' @ shell_quote b) = Some [Item (quoted a), Item (quoted b)]"
  using read_quote_gap [of b "[]"] by (simp add: read_quote_gap add_item_def)

lemma command_two_words:
  "no_assignment a \<Longrightarrow> simple_command_of [Item (quoted a), Item (quoted b)] = Some ([], [a, b])"
  by (simp add: no_assignment_def)

lemma python_command_read:
  assumes "list_all is_identifier (map fst env)" and "no_assignment python"
  shows "sh_command (create_remote_python_command script source python (Some env)) =
    Some (map (\<lambda>(name, v). (name, map Text v)) env @
      (case source of None \<Rightarrow> []
       | Some s \<Rightarrow> [(''PYTHONPATH'', map Text s @ [Text CHR '':'', Param ''PYTHONPATH''])]),
      [python, script])"
proof (cases source)
  case None
  have "sh_read Gap (create_remote_python_command script source python (Some env)) =
      Some (map assignment_item env @ [Item (quoted python), Item (quoted script)])"
    using read_prefix [OF assms(1) read_two_words]
    by (simp add: None create_remote_python_command_def)
  with command_assignments [OF assms(1) command_two_words [OF assms(2)]] None
  show ?thesis by (simp add: sh_command_def)
next
  case (Some s)
  let ?w = "map Lit ''PYTHONPATH'' @ Lit CHR ''='' # quoted s @ [Lit CHR '':'', Var ''PYTHONPATH'']"
  have name: "is_identifier ''PYTHONPATH''" by code_simp
  have chars: "is_shell_safe CHR '':''" "list_all is_name_char ''PYTHONPATH''" "\<not> is_name_char CHR '' ''"
    by code_simp+
  have "sh_read Gap (''PYTHONPATH'' @ CHR ''='' # shell_quote s @ '':$PYTHONPATH '' @
      shell_quote python @ '' '' @ shell_quote script) =
      Some [Item ?w, Item (quoted python), Item (quoted script)]"
    using chars read_two_words [of python script]
    by (simp add: read_assignment [OF name, simplified] add_item_def)
  from read_prefix [OF assms(1) this]
  have "sh_read Gap (create_remote_python_command script source python (Some env)) =
      Some (map assignment_item env @ [Item ?w, Item (quoted python), Item (quoted script)])"
    by (simp add: Some create_remote_python_command_def)
  moreover have "simple_command_of [Item ?w, Item (quoted python), Item (quoted script)] =
      Some ([(''PYTHONPATH'', map Text s @ [Text CHR '':'', Param ''PYTHONPATH''])], [python, script])"
    using assignment_identifier [OF name, of "quoted s @ [Lit CHR '':'', Var ''PYTHONPATH'']"]
      command_two_words [OF assms(2), of script]
    by simp
  ultimately show ?thesis
    using command_assignments [OF assms(1)] Some by (simp add: sh_command_def)
qed

lemma read_bare_space: "sh_read (Bare w) (CHR '' '' # r) = add_item (Item w) (sh_read Gap r)"
  by simp

lemma read_quoted_words:
  "sh_read Gap (py_join '' '' (map shell_quote ws)) = Some (map (\<lambda>w. Item (quoted w)) ws)"
proof (induction ws)
  case Nil
  show ?case by simp
next
  case (Cons w ws)
  show ?case
  proof (cases "ws = []")
    case True
    then show ?thesis using read_quote_gap [of w "[]"] by simp
  next
    case False
    with Cons.IH show ?thesis by (simp add: py_join_Cons read_quote_gap add_item_def)
  qed
qed

text \<open>A word of safe characters is its own quotation, so commands that mix fixed words and quoted
  ones are read like a list of quoted words.\<close>

lemma command_of_words:
  assumes "no_assignment w"
  shows "simple_command_of (map (\<lambda>w. Item (quoted w)) (w # ws)) = Some ([], w # ws)"
proof -
  have "those_of item_word (map (\<lambda>w. Item (quoted w)) (w # ws)) = Some (w # ws)"
    by (rule those_of_words)
  with assms show ?thesis by (simp only: list.map simple_command_of.simps no_assignment_def) simp
qed

lemma command_words:
  assumes "s = py_join '' '' (map shell_quote (w # ws))" and "no_assignment w"
  shows "sh_command s = Some ([], w # ws)"
  using assms read_quoted_words [of "w # ws"] command_of_words [of w ws]
  by (simp add: sh_command_def del: list.map simple_command_of.simps)

lemma quote_safe: "w \<noteq> [] \<Longrightarrow> list_all is_shell_safe w \<Longrightarrow> shell_quote w = w"
  by (simp add: shell_quote_def)

lemma fixed_words:
  "shell_quote ''python3'' = ''python3''" "shell_quote ''-m'' = ''-m''"
  "shell_quote ''venv'' = ''venv''" "shell_quote ''pip'' = ''pip''"
  "shell_quote ''install'' = ''install''" "shell_quote ''--upgrade'' = ''--upgrade''"
  "shell_quote ''playwright'' = ''playwright''" "shell_quote ''chromium'' = ''chromium''"
  by code_simp+

lemma venv_command_read:
  "sh_command (create_venv_command venv) = Some ([], [''python3'', ''-m'', ''venv'', venv])"
  by (rule command_words) (simp_all add: create_venv_command_def fixed_words no_assignment_def, code_simp)

lemma upgrade_command_read:
  "no_assignment python \<Longrightarrow> sh_command (upgrade_pip_command python) =
     Some ([], [python, ''-m'', ''pip'', ''install'', ''--upgrade'', ''pip''])"
  by (rule command_words) (simp_all add: upgrade_pip_command_def fixed_words)

lemma install_command_read:
  "no_assignment python \<Longrightarrow> deps \<noteq> [] \<Longrightarrow> sh_command (install_command python deps) =
     Some ([], [python, ''-m'', ''pip'', ''install''] @ deps)"
  unfolding append_Cons
  by (rule command_words) (simp_all add: install_command_def fixed_words py_join_Cons)

lemma format_python_text:
  "list_all (\<lambda>c. c \<noteq> CHR ''{'' \<and> c \<noteq> CHR ''}'') s \<Longrightarrow> format_python python s = Inr s"
  by (induction s) simp_all

lemma format_python_field:
  "format_python python (''{python}'' @ s) = res_bind (format_python python s) (\<lambda>r. Inr (python @ r))"
  by (simp add: starts_with_def)

lemma sudo_read:
  assumes "sh_read Gap command = Some items" and "simple_command_of (Item (quoted ''sudo'') #
    Item (quoted ''-S'') # items) = Some simple" and "Pipe \<notin> set items"
  shows "sh_pipeline (sudo_command password command) =
    Some [([], [''printf'', [CHR ''%'', CHR ''s'', CHR 0x5C, CHR ''n''], password]), simple]"
proof -
  have "pipeline_of items = [items]"
    using assms(3) by (induction items rule: pipeline_of.induct) auto
  moreover have "shell_quote [CHR ''%'', CHR ''s'', CHR 0x5C, CHR ''n''] =
      [CHR 0x27, CHR ''%'', CHR ''s'', CHR 0x5C, CHR ''n'', CHR 0x27]"
    and "shell_quote ''printf'' = ''printf''" and "shell_quote ''sudo'' = ''sudo''"
    and "shell_quote ''-S'' = ''-S''"
    by code_simp+
  note q = this
  have "sh_read Gap (sudo_command password command) =
    Some ([Item (quoted ''printf''), Item (quoted [CHR ''%'', CHR ''s'', CHR 0x5C, CHR ''n'']),
      Item (quoted password), Pipe, Item (quoted ''sudo''), Item (quoted ''-S'')] @ items)"
  proof -
    have s: "sudo_command password command = shell_quote ''printf'' @ CHR '' '' #
        shell_quote [CHR ''%'', CHR ''s'', CHR 0x5C, CHR ''n''] @ CHR '' '' # shell_quote password @
        CHR '' '' # CHR ''|'' # CHR '' '' # shell_quote ''sudo'' @ CHR '' '' # shell_quote ''-S'' @
        CHR '' '' # command"
      by (simp add: sudo_command_def q)
    show ?thesis
      unfolding s by (simp only: read_quote_gap read_bare_space)
        (simp add: assms(1) add_item_def read_quote_gap del: append.simps)
  qed
  moreover have "no_assignment ''printf''" by code_simp
  then have "simple_command_of [Item (quoted ''printf''), Item (quoted [CHR ''%'', CHR ''s'',
      CHR 0x5C, CHR ''n'']), Item (quoted password)] =
      Some ([], [''printf'', [CHR ''%'', CHR ''s'', CHR 0x5C, CHR ''n''], password])"
    using command_of_words [of "''printf''" "[[CHR ''%'', CHR ''s'', CHR 0x5C, CHR ''n''], password]"]
    by simp
  ultimately show ?thesis
    using assms(2) by (simp add: sh_pipeline_def del: simple_command_of.simps)
qed

end
