(* ===== verification/Guest_World.thy ===== *)
theory Guest_World
  imports Host
begin

text \<open>
  The two machines of a virtual machine run, as the orchestrators under \<open>src/qemu_sandbox\<close> and
  \<open>src/virtualbox_sandbox\<close> meet them: the host (its disk, its programs, the process of the
  virtual machine) and the guest behind SSH. Both are outside the repository, so a \<open>vm_host\<close>
  answers every operation as a function of everything attempted before, as in the theory Host,
  and the properties are about the log. The definitions stand for \<open>pathlib\<close>, \<open>subprocess\<close>,
  \<open>os\<close> and \<open>paramiko\<close> calls and have no entry in the map.
\<close>

datatype vm_event =
    Dir_Made path
  | File_Written path file_content
  | Bytes_Written path string
  | File_Copied path path
  | File_Unlinked path
  | Program_Run "string list"
  | Process_Started "string list"
  | Process_Polled
  | Process_Terminated
  | Process_Waited
  | Process_Killed
  | Ssh_Tried
  | Ssh_Opened
  | Ssh_Closed
  | Sftp_Opened
  | Sftp_Closed
  | Remote_Dir string
  | Remote_File string file_content
  | Remote_Put path string
  | Remote_Read string
  | Remote_Run string
  | Slept
  | Message string

text \<open>One attempt to reach the SSH server: the banner the port sent or the exception of reading it,
  and what connecting answers.\<close>

record ssh_attempt =
  at_banner :: "string res"
  at_connect :: "unit res"

text \<open>A source tree on the host: the real directories and the files of a directory.\<close>

datatype source_tree = Tree "(string \<times> source_tree) list" "string list"

record vm_host =
  vm_fault :: "vm_event list \<Rightarrow> vm_event \<Rightarrow> py_error option"
  vm_run :: "vm_event list \<Rightarrow> vm_event \<Rightarrow> completed res"
  vm_read :: "vm_event list \<Rightarrow> string \<Rightarrow> string res"
  vm_exists :: "vm_event list \<Rightarrow> path \<Rightarrow> bool"
  vm_is_dir :: "vm_event list \<Rightarrow> path \<Rightarrow> bool"
  vm_resolve :: "vm_event list \<Rightarrow> path \<Rightarrow> path res"
  vm_tree :: "vm_event list \<Rightarrow> path \<Rightarrow> source_tree"
  vm_json :: "vm_event list \<Rightarrow> path \<Rightarrow> json res"
  vm_poll :: "vm_event list \<Rightarrow> int option"
  vm_uuid :: "vm_event list \<Rightarrow> string \<Rightarrow> string"
  vm_ssh :: "vm_event list \<Rightarrow> ssh_attempt list"
  vm_port :: "vm_event list \<Rightarrow> int res"
  vm_random :: "vm_event list \<Rightarrow> nat \<Rightarrow> nat"
  vm_error_text :: "py_error \<Rightarrow> string"
  vm_environ :: "string \<Rightarrow> string option"
  vm_which :: "string \<Rightarrow> string option"
  vm_clock :: "vm_event list \<Rightarrow> string"
  vm_expanduser :: "path \<Rightarrow> path res"
  vm_decode :: "string \<Rightarrow> string"
  vm_is_file :: "vm_event list \<Rightarrow> path \<Rightarrow> bool"
  vm_text :: "vm_event list \<Rightarrow> path \<Rightarrow> string res"
  vm_glob :: "vm_event list \<Rightarrow> path \<Rightarrow> string \<Rightarrow> path list"
  vm_mtime :: "vm_event list \<Rightarrow> path \<Rightarrow> int res"
  vm_polls :: "vm_event list \<Rightarrow> nat"

type_synonym 'a vm = "(vm_event list, 'a) py"

definition effect :: "vm_host \<Rightarrow> vm_event \<Rightarrow> unit vm" where
  "effect h e = (\<lambda>log. (case vm_fault h log e of None \<Rightarrow> Inr () | Some x \<Rightarrow> Inl x, log @ [e]))"

definition note_event :: "vm_event \<Rightarrow> unit vm" where
  "note_event e = (\<lambda>log. (Inr (), log @ [e]))"

definition message :: "string \<Rightarrow> unit vm" where
  "message line = (\<lambda>log. (Inr (), log @ [Message line]))"

definition pause :: "unit vm" where
  "pause = (\<lambda>log. (Inr (), log @ [Slept]))"

definition local_run :: "vm_host \<Rightarrow> string list \<Rightarrow> completed vm" where
  "local_run h command =
     (\<lambda>log. (vm_run h log (Program_Run command), log @ [Program_Run command]))"

definition remote_run :: "vm_host \<Rightarrow> string \<Rightarrow> completed vm" where
  "remote_run h command = (\<lambda>log. (vm_run h log (Remote_Run command), log @ [Remote_Run command]))"

definition remote_read :: "vm_host \<Rightarrow> string \<Rightarrow> string vm" where
  "remote_read h p = (\<lambda>log. (vm_read h log p, log @ [Remote_Read p]))"

definition vm_question :: "(vm_event list \<Rightarrow> 'a res) \<Rightarrow> 'a vm" where
  "vm_question q = (\<lambda>log. (q log, log))"

text \<open>\<open>process.poll()\<close> answers the exit code of a process that has ended.\<close>

definition poll :: "vm_host \<Rightarrow> int option vm" where
  "poll h = (\<lambda>log. (Inr (vm_poll h log), log @ [Process_Polled]))"

text \<open>\<open>with client.open_sftp() as sftp: body\<close>.\<close>

definition with_sftp :: "vm_host \<Rightarrow> 'a vm \<Rightarrow> 'a vm" where
  "with_sftp h body = andthen (effect h Sftp_Opened) (try_finally body (effect h Sftp_Closed))"

definition resolved :: "vm_host \<Rightarrow> path \<Rightarrow> path vm" where
  "resolved h p = vm_question (\<lambda>log. res_bind (vm_expanduser h p) (vm_resolve h log))"

section \<open>What is appended\<close>

lemma emits_effect [emits_intros]: "P e \<Longrightarrow> emits P (effect h e)"
  by (simp add: appends_def effect_def)

lemma emits_note_event [emits_intros]: "P e \<Longrightarrow> emits P (note_event e)"
  by (simp add: appends_def note_event_def)

lemma emits_message [emits_intros]: "P (Message line) \<Longrightarrow> emits P (message line)"
  by (simp add: appends_def message_def)

lemma emits_pause [emits_intros]: "P Slept \<Longrightarrow> emits P pause"
  by (simp add: appends_def pause_def)

lemma emits_local_run [emits_intros]: "P (Program_Run c) \<Longrightarrow> emits P (local_run h c)"
  by (simp add: appends_def local_run_def)

lemma emits_remote_run [emits_intros]: "P (Remote_Run c) \<Longrightarrow> emits P (remote_run h c)"
  by (simp add: appends_def remote_run_def)

lemma emits_remote_read [emits_intros]: "P (Remote_Read p) \<Longrightarrow> emits P (remote_read h p)"
  by (simp add: appends_def remote_read_def)

lemma emits_vm_question [emits_intros]: "emits P (vm_question q)"
  by (simp add: appends_def vm_question_def)

lemma emits_poll [emits_intros]: "P Process_Polled \<Longrightarrow> emits P (poll h)"
  by (simp add: appends_def poll_def)

lemma emits_resolved [emits_intros]: "emits P (resolved h p)"
  by (simp add: resolved_def emits_vm_question)

lemmas [emits_intros] = each_event.try_finally

lemma emits_with_sftp [emits_intros]:
  "P Sftp_Opened \<Longrightarrow> P Sftp_Closed \<Longrightarrow> emits P body \<Longrightarrow> emits P (with_sftp h body)"
  by (simp add: with_sftp_def emits_intros)

section \<open>Successful operations\<close>

lemma vm_success:
  "effect h e log = (Inr u, log') \<longleftrightarrow> vm_fault h log e = None \<and> log' = log @ [e]"
  "note_event e log = (Inr u, log') \<longleftrightarrow> log' = log @ [e]"
  "message line log = (Inr u, log') \<longleftrightarrow> log' = log @ [Message line]"
  "pause log = (Inr u, log') \<longleftrightarrow> log' = log @ [Slept]"
  "local_run h command log = (Inr c, log') \<longleftrightarrow>
     vm_run h log (Program_Run command) = Inr c \<and> log' = log @ [Program_Run command]"
  "remote_run h remote log = (Inr c, log') \<longleftrightarrow>
     vm_run h log (Remote_Run remote) = Inr c \<and> log' = log @ [Remote_Run remote]"
  "remote_read h p log = (Inr s, log') \<longleftrightarrow> vm_read h log p = Inr s \<and> log' = log @ [Remote_Read p]"
  "vm_question q log = (Inr a, log') \<longleftrightarrow> q log = Inr a \<and> log' = log"
  "poll h log = (Inr status, log') \<longleftrightarrow> status = vm_poll h log \<and> log' = log @ [Process_Polled]"
  by (auto simp: effect_def note_event_def message_def pause_def local_run_def remote_run_def remote_read_def
      vm_question_def poll_def split: option.splits)

text \<open>Hosts and guests on which nothing fails.\<close>

definition agreeable :: "vm_host \<Rightarrow> bool" where
  "agreeable h \<longleftrightarrow> (\<forall>log e. vm_fault h log e = None) \<and>
     (\<forall>log e. \<exists>c. vm_run h log e = Inr c \<and> cp_returncode c = 0) \<and>
     (\<forall>log p. vm_exists h log p \<and> vm_is_dir h log p) \<and>
     (\<forall>p. \<exists>q. vm_expanduser h p = Inr q) \<and> (\<forall>log p. \<exists>q. vm_resolve h log p = Inr q) \<and>
     (\<forall>log p. \<exists>s. vm_read h log p = Inr s)"

lemma agreeable_returns [returns_intros]:
  "agreeable h \<Longrightarrow> returns (effect h e)"
  "agreeable h \<Longrightarrow> returns (local_run h command)"
  "agreeable h \<Longrightarrow> returns (remote_run h remote)"
  "agreeable h \<Longrightarrow> returns (remote_read h name)"
  "agreeable h \<Longrightarrow> returns (resolved h p)"
  "returns (note_event e)"
  "returns (message line)"
  "returns pause"
  "returns (poll h)"
proof -
  assume h: "agreeable h"
  then show "returns (effect h e)"
    by (simp add: returns_def effect_def agreeable_def)
  from h have run: "\<exists>c. vm_run h log e = Inr c" for log e
    unfolding agreeable_def by blast
  then show "returns (local_run h command)" and "returns (remote_run h remote)"
    by (simp_all add: returns_def local_run_def remote_run_def)
  from h show "returns (remote_read h name)"
    by (simp add: returns_def remote_read_def agreeable_def)
  show "returns (resolved h p)"
    unfolding returns_def resolved_def vm_question_def
  proof
    fix log
    from h obtain q where "vm_expanduser h p = Inr q" unfolding agreeable_def by blast
    moreover from h obtain r where "vm_resolve h log q = Inr r" unfolding agreeable_def by blast
    ultimately show "\<exists>a log'. (res_bind (vm_expanduser h p) (vm_resolve h log), log) = (Inr a, log')"
      by simp
  qed
qed (simp_all add: returns_def note_event_def message_def pause_def poll_def)

lemma returns_try_finally [returns_intros]:
  "returns m \<Longrightarrow> returns fin \<Longrightarrow> returns (try_finally m fin)"
  unfolding returns_def try_finally_Inr by (metis old.unit.exhaust)

lemma returns_with_sftp [returns_intros]:
  "agreeable h \<Longrightarrow> returns body \<Longrightarrow> returns (with_sftp h body)"
  by (simp add: with_sftp_def returns_intros)

lemma returns_handled: "returns m \<Longrightarrow> returns (catch m handler)"
  unfolding returns_def catch_def by (metis (mono_tags, lifting) case_prod_conv old.sum.simps(6))

end
