(* ===== verification/Guest_Runner.thy ===== *)
theory Guest_Runner
  imports Guest_Commands Guest_World
begin

text \<open>
  The part of a virtual machine run that happens in the guest: \<open>GuestScriptRunner\<close> of
  \<open>src/virtualbox_sandbox/guest_script_runner.py\<close>, which uploads an agent, prepares its virtual
  environment and runs it, and \<open>create_sandbox_tester_run_layout\<close> of \<open>guest_run_layout.py\<close>. The
  SSH client is the guest behind a \<open>vm_host\<close>. A command's output is collected by
  \<open>_run_remote_command_and_stream\<close>, whose polling loop is the subject of the theory Guest_Stream;
  here the command has ended and \<open>remote_run\<close> is what was collected.
\<close>

record python_agent_profile =
  ag_name :: string
  ag_source_directory :: path
  ag_package_directory_name :: string
  ag_dependencies :: "string list"
  ag_entry_script :: string
  ag_exclude_patterns :: "string list"
  ag_post_install_commands :: "string list"
  ag_environment_variables :: "(string, string) dict"

datatype artifact = Text_Artifact string | Bytes_Artifact string

record guest_script_result =
  gs_script_path :: string
  gs_source_path :: "string option"
  gs_command :: string
  gs_exit_code :: int
  gs_stdout :: string
  gs_stderr :: string
  gs_artifacts :: "(string, artifact) dict"

record guest_run_layout =
  gl_run_directory :: string
  gl_allowed_directory :: string
  gl_denied_directory :: string
  gl_output_directory :: string
  gl_config_path :: string
  gl_config_json :: file_content

section \<open>Directories and files\<close>

text \<open>\<open>try: sftp.mkdir(path) except OSError: pass\<close> for every directory on the way.\<close>

definition mkdir_remote_directory :: "vm_host \<Rightarrow> string \<Rightarrow> unit vm" where
  "mkdir_remote_directory h remote_path =
     for_each (remote_directories remote_path) (\<lambda>current_path.
       catch (effect h (Remote_Dir current_path))
         (\<lambda>e. if is_os_error e then Some (ret ()) else None))"

text \<open>\<open>fnmatch\<close> on a POSIX host, for the patterns without a bracket.\<close>

fun fnmatch :: "string \<Rightarrow> string \<Rightarrow> bool" where
  "fnmatch s [] = (s = [])"
| "fnmatch [] (p # ps) = (p = CHR ''*'' \<and> fnmatch [] ps)"
| "fnmatch (c # cs) (p # ps) =
     (if p = CHR ''*'' then fnmatch (c # cs) ps \<or> fnmatch cs (p # ps)
      else (p = CHR ''?'' \<or> p = c) \<and> fnmatch cs ps)"

definition is_excluded :: "string \<Rightarrow> string list \<Rightarrow> bool" where
  "is_excluded name exclude_patterns \<longleftrightarrow> list_ex (fnmatch name) exclude_patterns"

text \<open>\<open>os.walk\<close> from the top, with the excluded directory names removed before it descends: the
  directories relative to the source and the files in each.\<close>

definition relative_child :: "path \<Rightarrow> string \<Rightarrow> path" where
  "relative_child p w = \<lparr>path_root = path_root p, path_parts = path_parts p @ [w]\<rparr>"

fun walk_tree :: "string list \<Rightarrow> path \<Rightarrow> source_tree \<Rightarrow> (path \<times> string list) list" where
  "walk_tree excluded relative_root (Tree directories files) =
     (relative_root, files) #
     concat (map (\<lambda>(name, t).
       if is_excluded name excluded then [] else walk_tree excluded (relative_child relative_root name) t)
       directories)"

definition write_remote_directory ::
    "vm_host \<Rightarrow> path \<Rightarrow> source_tree \<Rightarrow> string \<Rightarrow> string list \<Rightarrow> unit vm" where
  "write_remote_directory h source_directory tree remote_source_path exclude_patterns =
     for_each (walk_tree exclude_patterns (path_of ''.'') tree) (\<lambda>(relative_root, file_names).
       let remote_root = join_remote_path remote_source_path relative_root
       in andthen (mkdir_remote_directory h remote_root)
         (for_each (filter (\<lambda>n. \<not> is_excluded n exclude_patterns) file_names) (\<lambda>file_name.
           effect h (Remote_Put (relative_child (path_join source_directory relative_root) file_name)
             (posix_join remote_root file_name)))))"

definition write_remote_source_directory ::
    "vm_host \<Rightarrow> path option \<Rightarrow> string list \<Rightarrow> string option vm" where
  "write_remote_source_directory h source_directory exclude_patterns =
     (case source_directory of
        None \<Rightarrow> ret None
      | Some directory \<Rightarrow>
          bind (resolved h directory) (\<lambda>source.
          bind (ask (\<lambda>log. vm_exists h log source)) (\<lambda>exists.
          if \<not> exists then raise (FileNotFoundError
            (''Source directory does not exist: '' @ path_str source))
          else
          bind (ask (\<lambda>log. vm_is_dir h log source)) (\<lambda>is_dir.
          if \<not> is_dir then raise (ValueError
            (''Source directory path is not a directory: '' @ path_str source))
          else
          bind (ask (\<lambda>log. create_remote_source_path (vm_uuid h log ''source''))) (\<lambda>remote_source_path.
          bind (ask (\<lambda>log. vm_tree h log source)) (\<lambda>tree.
          andthen
            (with_sftp h (andthen (mkdir_remote_directory h remote_source_path)
              (write_remote_directory h source tree remote_source_path exclude_patterns)))
            (ret (Some remote_source_path))))))))"

definition write_remote_agent_source :: "vm_host \<Rightarrow> python_agent_profile \<Rightarrow> string vm" where
  "write_remote_agent_source h profile =
     bind (resolved h (ag_source_directory profile)) (\<lambda>source.
     bind (ask (\<lambda>log. vm_exists h log source)) (\<lambda>exists.
     if \<not> exists then raise (FileNotFoundError
       (''Agent source directory does not exist: '' @ path_str source))
     else
     bind (ask (\<lambda>log. vm_is_dir h log source)) (\<lambda>is_dir.
     if \<not> is_dir then raise (ValueError
       (''Agent source directory path is not a directory: '' @ path_str source))
     else
     bind (ask (\<lambda>log. create_remote_agent_path (vm_uuid h log ''agent''))) (\<lambda>remote_source_parent.
     bind (ask (\<lambda>log. vm_tree h log source)) (\<lambda>tree.
     let remote_package_path = posix_join remote_source_parent (ag_package_directory_name profile)
     in andthen
       (with_sftp h (andthen (mkdir_remote_directory h remote_package_path)
         (write_remote_directory h source tree remote_package_path (ag_exclude_patterns profile))))
       (ret remote_source_parent))))))"

definition write_remote_script :: "vm_host \<Rightarrow> string \<Rightarrow> string \<Rightarrow> unit vm" where
  "write_remote_script h script_path script_content =
     with_sftp h (effect h (Remote_File script_path (Plain_Text script_content)))"

section \<open>Running commands\<close>

definition remote_failure :: "string \<Rightarrow> string \<Rightarrow> completed \<Rightarrow> py_error" where
  "remote_failure what command c = RuntimeError (what @ '' failed with exit code '' @
     str_int (cp_returncode c) @ '': '' @ command @ [CHR 0x0A] @ ''stdout:'' @ [CHR 0x0A] @
     cp_stdout c @ [CHR 0x0A] @ ''stderr:'' @ [CHR 0x0A] @ cp_stderr c)"

definition run_remote_command :: "vm_host \<Rightarrow> string \<Rightarrow> unit vm" where
  "run_remote_command h command =
     bind (remote_run h command) (\<lambda>completed.
       if cp_returncode completed \<noteq> 0 then raise (remote_failure ''Remote command'' command completed)
       else ret ())"

definition create_virtual_environment :: "vm_host \<Rightarrow> string \<Rightarrow> unit vm" where
  "create_virtual_environment h venv_path = run_remote_command h (create_venv_command venv_path)"

definition install_dependencies :: "vm_host \<Rightarrow> string \<Rightarrow> string list \<Rightarrow> unit vm" where
  "install_dependencies h python_executable dependencies =
     andthen (run_remote_command h (upgrade_pip_command python_executable))
       (if dependencies = [] then ret ()
        else run_remote_command h (install_command python_executable dependencies))"

definition run_post_install_commands :: "vm_host \<Rightarrow> string \<Rightarrow> string list \<Rightarrow> unit vm" where
  "run_post_install_commands h python_executable commands =
     for_each commands (\<lambda>command.
       bind (lift_res (format_python (shell_quote python_executable) command)) (\<lambda>resolved_command.
         run_remote_command h resolved_command))"

definition execute_remote_script ::
    "vm_host \<Rightarrow> string \<Rightarrow> string option \<Rightarrow> string \<Rightarrow> (string, string) dict option \<Rightarrow>
     guest_script_result vm" where
  "execute_remote_script h script_path source_path python_executable environment_variables =
     (let command = create_remote_python_command script_path source_path python_executable
            environment_variables
      in bind (remote_run h command) (\<lambda>completed.
           ret \<lparr>gs_script_path = script_path,
                gs_source_path = source_path,
                gs_command = command,
                gs_exit_code = cp_returncode completed,
                gs_stdout = cp_stdout completed,
                gs_stderr = cp_stderr completed,
                gs_artifacts = []\<rparr>))"

definition run_python_script ::
    "vm_host \<Rightarrow> string \<Rightarrow> path option \<Rightarrow> guest_script_result vm" where
  "run_python_script h script_content source_directory =
     bind (ask (\<lambda>log. create_remote_script_path (vm_uuid h log ''script''))) (\<lambda>script_path.
     bind (write_remote_source_directory h source_directory []) (\<lambda>source_path.
     andthen (write_remote_script h script_path script_content)
       (execute_remote_script h script_path source_path ''python3'' None)))"

definition run_python_agent ::
    "vm_host \<Rightarrow> python_agent_profile \<Rightarrow> (string, string) dict option \<Rightarrow> guest_script_result vm" where
  "run_python_agent h profile environment_variables =
     bind (ask (\<lambda>log. create_remote_script_path (vm_uuid h log ''script''))) (\<lambda>script_path.
     bind (ask (\<lambda>log. create_remote_venv_path (vm_uuid h log ''venv''))) (\<lambda>venv_path.
     let python_executable = posix_join (posix_join venv_path ''bin'') ''python''
     in bind (write_remote_agent_source h profile) (\<lambda>source_path.
        andthen (write_remote_script h script_path (ag_entry_script profile))
        (andthen (create_virtual_environment h venv_path)
        (andthen (install_dependencies h python_executable (ag_dependencies profile))
        (andthen (run_post_install_commands h python_executable (ag_post_install_commands profile))
          (execute_remote_script h script_path (Some source_path) python_executable
            environment_variables)))))))"

section \<open>Agents\<close>

text \<open>\<open>agents/sandbox_tester.py\<close> and \<open>agent_profiles.py\<close>. The repository root, which the source takes
  from the place of its own file, is an argument.\<close>

definition ENTRY_SCRIPT :: string where
  "ENTRY_SCRIPT = py_join [CHR 0x0A]
    ['''',
     ''import os'',
     '''',
     ''from sandbox_tester.cli import main'',
     '''',
     ''config_path = os.environ['' @ [CHR 0x22] @ ''SANDBOX_TESTER_CONFIG_PATH'' @ [CHR 0x22] @ '']'',
     ''arguments = ['' @ [CHR 0x22] @ ''--config'' @ [CHR 0x22] @ '', config_path]'',
     ''if os.environ.get('' @ [CHR 0x22] @ ''SANDBOX_TESTER_VERBOSE'' @ [CHR 0x22] @ '') == '' @
       [CHR 0x22] @ ''1'' @ [CHR 0x22] @ '':'',
     ''    arguments.append('' @ [CHR 0x22] @ ''--verbose'' @ [CHR 0x22] @ '')'',
     ''if os.environ.get('' @ [CHR 0x22] @ ''SANDBOX_TESTER_SERIALIZE_EVIDENCE'' @ [CHR 0x22] @ '') == '' @
       [CHR 0x22] @ ''1'' @ [CHR 0x22] @ '':'',
     ''    arguments.append('' @ [CHR 0x22] @ ''--serialize-evidence'' @ [CHR 0x22] @ '')'',
     ''raise SystemExit(main(arguments))'',
     '''']"

definition sandbox_tester_profile :: "path \<Rightarrow> python_agent_profile" where
  "sandbox_tester_profile repository_root = \<lparr>
     ag_name = ''sandbox_tester'',
     ag_source_directory = path_div (path_div repository_root ''src'') ''sandbox_tester'',
     ag_package_directory_name = ''sandbox_tester'',
     ag_dependencies = [''openai'', ''paramiko'', ''pillow'', ''playwright'', ''pymysql''],
     ag_entry_script = ENTRY_SCRIPT,
     ag_exclude_patterns = [''__pycache__'', ''*.pyc''],
     ag_post_install_commands = [''{python} -m playwright install chromium''],
     ag_environment_variables = [(''OPENAI_API_KEY'', ''[local]'')]\<rparr>"

definition SUPPORTED_AGENT_NAMES :: "string list" where
  "SUPPORTED_AGENT_NAMES = [''sandbox_tester'']"

definition get_python_agent_profile :: "path \<Rightarrow> string \<Rightarrow> python_agent_profile res" where
  "get_python_agent_profile repository_root agent_name =
     (if agent_name = ''sandbox_tester'' then Inr (sandbox_tester_profile repository_root)
      else Inl (ValueError (''Unsupported Python agent: '' @ agent_name)))"

section \<open>What an agent run sends to the guest\<close>

fun commands_of :: "vm_event list \<Rightarrow> string list" where
  "commands_of [] = []"
| "commands_of (Remote_Run c # log) = c # commands_of log"
| "commands_of (e # log) = commands_of log"

lemma commands_of_append [simp]: "commands_of (xs @ ys) = commands_of xs @ commands_of ys"
  by (induction xs rule: commands_of.induct) simp_all

fun is_command :: "vm_event \<Rightarrow> bool" where
  "is_command (Remote_Run c) = True"
| "is_command e = False"

abbreviation silent :: "'a vm \<Rightarrow> bool" where
  "silent \<equiv> emits (\<lambda>e. \<not> is_command e)"

lemma commands_of_silent: "list_all (\<lambda>e. \<not> is_command e) log \<Longrightarrow> commands_of log = []"
  by (induction log rule: commands_of.induct) simp_all

lemma silent_commands: "silent m \<Longrightarrow> m log = (r, log') \<Longrightarrow> commands_of log' = commands_of log"
  by (auto elim!: appendsD simp: commands_of_silent)

lemma mkdir_silent: "silent (mkdir_remote_directory h p)"
  unfolding mkdir_remote_directory_def
  by (auto intro!: each_event.for_each each_event.catch emits_effect each_event.ret split: if_splits)

lemma upload_silent: "silent (write_remote_directory h source tree remote excluded)"
  unfolding write_remote_directory_def
  by (auto intro!: each_event.for_each each_event.andthen mkdir_silent emits_effect simp: Let_def
      split: prod.split)

lemma agent_source_silent: "silent (write_remote_agent_source h profile)"
  unfolding write_remote_agent_source_def Let_def
  by (auto intro!: emits_intros mkdir_silent upload_silent)

lemma script_silent: "silent (write_remote_script h script_path script_content)"
  unfolding write_remote_script_def by (auto intro!: emits_intros)

lemma run_remote_command_Inr:
  "run_remote_command h c log = (Inr u, log') \<longleftrightarrow>
   (\<exists>r. vm_run h log (Remote_Run c) = Inr r \<and> cp_returncode r = 0 \<and> log' = log @ [Remote_Run c])"
  by (auto simp: run_remote_command_def bind_Inr vm_success ret_Inr raise_Inr split: if_splits)

lemma venv_python:
  "posix_join (posix_join (create_remote_venv_path u) ''bin'') ''python'' =
   (if u \<noteq> [] \<and> last u = CHR ''/'' then ''/tmp/sandbox-venv-'' @ u @ ''bin/python''
    else ''/tmp/sandbox-venv-'' @ u @ ''/bin/python'')"
  by (simp add: create_remote_venv_path_def posix_join_def starts_with_def)

lemma absolute_no_assignment: "no_assignment (CHR ''/'' # w)"
  by (simp add: no_assignment_def quoted_def is_name_char_def is_upper_def is_lower_def is_digit_def
      code_def)

lemma venv_python_no_assignment:
  "no_assignment (posix_join (posix_join (create_remote_venv_path u) ''bin'') ''python'')"
  by (simp add: venv_python absolute_no_assignment)

lemma playwright_command:
  "format_python python ''{python} -m playwright install chromium'' =
     Inr (python @ '' -m playwright install chromium'')"
  using format_python_field [of python "'' -m playwright install chromium''"]
    format_python_text [of "'' -m playwright install chromium''" python]
  by simp

lemma playwright_read:
  "no_assignment python \<Longrightarrow>
   sh_command (shell_quote python @ '' -m playwright install chromium'') =
     Some ([], [python, ''-m'', ''playwright'', ''install'', ''chromium''])"
  by (rule command_words) (simp_all add: fixed_words)

definition argument_texts :: "(string, string) dict \<Rightarrow> (string \<times> sh_piece list) list" where
  "argument_texts env = map (\<lambda>(name, v). (name, map Text v)) env"

lemma venv_Inr:
  "create_virtual_environment h venv log = (Inr u, log') \<Longrightarrow>
   log' = log @ [Remote_Run (create_venv_command venv)]"
  by (auto simp: create_virtual_environment_def run_remote_command_Inr)

lemma install_Inr:
  "install_dependencies h python deps log = (Inr u, log') \<Longrightarrow> deps \<noteq> [] \<Longrightarrow>
   log' = log @ [Remote_Run (upgrade_pip_command python), Remote_Run (install_command python deps)]"
  by (auto simp: install_dependencies_def run_remote_command_Inr andthen_Inr)

lemma browser_Inr:
  "run_post_install_commands h python [''{python} -m playwright install chromium''] log = (Inr u, log') \<Longrightarrow>
   log' = log @ [Remote_Run (shell_quote python @ '' -m playwright install chromium'')]"
  by (auto simp: run_post_install_commands_def run_remote_command_Inr andthen_Inr bind_Inr lift_res_Inr
      ret_Inr playwright_command simp del: format_python.simps)

lemma execute_Inr:
  "execute_remote_script h script source python env log = (Inr r, log') \<Longrightarrow>
   log' = log @ [Remote_Run (create_remote_python_command script source python env)] \<and>
   gs_source_path r = source \<and> gs_script_path r = script"
  by (auto simp: execute_remote_script_def Let_def bind_Inr vm_success ret_Inr)

lemma profile_lists:
  "ag_dependencies (sandbox_tester_profile root) =
     [''openai'', ''paramiko'', ''pillow'', ''playwright'', ''pymysql'']"
  "ag_post_install_commands (sandbox_tester_profile root) =
     [''{python} -m playwright install chromium'']"
  by (simp_all add: sandbox_tester_profile_def)

text \<open>C8. What the guest's login shell runs during a successful run of the \<open>sandbox_tester\<close> agent,
  whatever the environment values, the random names and the answers of the guest are: the virtual
  environment is created, \<open>pip\<close> is upgraded, the five dependencies and the browser are installed,
  and then the script is run by the Python of that environment, with exactly the given variables
  and the uploaded directory in front of the guest's \<open>PYTHONPATH\<close>. No value is split, expanded or
  read as a command of its own.\<close>

theorem agent_commands_read:
  assumes "list_all is_identifier (map fst env)"
    and "run_python_agent h (sandbox_tester_profile root) (Some env) log = (Inr r, log')"
  shows "\<exists>u python source cs.
    python = posix_join (posix_join (create_remote_venv_path u) ''bin'') ''python'' \<and>
    gs_source_path r = Some source \<and>
    commands_of log' = commands_of log @ cs \<and>
    map sh_command cs = map Some
      [([], [''python3'', ''-m'', ''venv'', create_remote_venv_path u]),
       ([], [python, ''-m'', ''pip'', ''install'', ''--upgrade'', ''pip'']),
       ([], [python, ''-m'', ''pip'', ''install'', ''openai'', ''paramiko'', ''pillow'',
             ''playwright'', ''pymysql'']),
       ([], [python, ''-m'', ''playwright'', ''install'', ''chromium'']),
       (argument_texts env @
          [(''PYTHONPATH'', map Text source @ [Text CHR '':'', Param ''PYTHONPATH''])],
        [python, gs_script_path r])]"
proof -
  let ?p = "sandbox_tester_profile root"
  let ?u = "vm_uuid h log ''venv''"
  let ?script = "create_remote_script_path (vm_uuid h log ''script'')"
  let ?python = "posix_join (posix_join (create_remote_venv_path ?u) ''bin'') ''python''"
  let ?install = "install_command ?python [''openai'', ''paramiko'', ''pillow'', ''playwright'', ''pymysql'']"
  let ?browser = "shell_quote ?python @ '' -m playwright install chromium''"
  from assms(2) obtain source log1 log2 where
    upload: "write_remote_agent_source h ?p log = (Inr source, log1)"
    and script: "write_remote_script h ?script (ag_entry_script ?p) log1 = (Inr (), log2)"
    and rest: "andthen (create_virtual_environment h (create_remote_venv_path ?u))
      (andthen (install_dependencies h ?python (ag_dependencies ?p))
      (andthen (run_post_install_commands h ?python (ag_post_install_commands ?p))
        (execute_remote_script h ?script (Some source) ?python (Some env)))) log2 = (Inr r, log')"
    by (auto simp: run_python_agent_def Let_def bind_Inr andthen_Inr ask_def)
  let ?main = "create_remote_python_command ?script (Some source) ?python (Some env)"
  from rest have log': "log' = log2 @ map Remote_Run [create_venv_command (create_remote_venv_path ?u),
      upgrade_pip_command ?python, ?install, ?browser, ?main]"
    and r: "gs_source_path r = Some source" "gs_script_path r = ?script"
    by (auto simp: andthen_Inr profile_lists dest!: venv_Inr install_Inr browser_Inr execute_Inr)
  have "commands_of log2 = commands_of log"
    using silent_commands [OF agent_source_silent upload] silent_commands [OF script_silent script]
    by simp
  with log' have "commands_of log' = commands_of log @ [create_venv_command (create_remote_venv_path ?u),
      upgrade_pip_command ?python, ?install, ?browser, ?main]"
    by simp
  moreover have "sh_command ?main = Some (argument_texts env @
      [(''PYTHONPATH'', map Text source @ [Text CHR '':'', Param ''PYTHONPATH''])], [?python, ?script])"
    using python_command_read [OF assms(1) venv_python_no_assignment]
    by (simp add: argument_texts_def)
  ultimately show ?thesis
    using r venv_command_read upgrade_command_read [OF venv_python_no_assignment]
      install_command_read [OF venv_python_no_assignment] playwright_read [OF venv_python_no_assignment]
    by (intro exI [of _ ?u] exI [of _ ?python] exI [of _ source] exI conjI) auto
qed

section \<open>Agent runs return\<close>

lemma returns_ask_if: "(\<And>log. Q (q log)) \<Longrightarrow> (\<And>a. Q a \<Longrightarrow> returns (f a)) \<Longrightarrow> returns (bind (ask q) f)"
  by (auto simp: returns_def bind_Inr ask_def)

lemma agreeable_run:
  "agreeable h \<Longrightarrow> returns (run_remote_command h c)"
  unfolding returns_def run_remote_command_Inr agreeable_def by blast

lemma mkdir_returns [returns_intros]: "agreeable h \<Longrightarrow> returns (mkdir_remote_directory h p)"
  unfolding mkdir_remote_directory_def
  by (intro returns_for_each returns_handled agreeable_returns)

lemma upload_returns [returns_intros]:
  "agreeable h \<Longrightarrow> returns (write_remote_directory h source tree remote excluded)"
  unfolding write_remote_directory_def Let_def
  by (auto intro!: returns_intros split: prod.split)

lemma agent_source_returns:
  assumes "agreeable h"
  shows "returns (write_remote_agent_source h profile)"
  unfolding write_remote_agent_source_def Let_def
proof (rule returns_bind)
  show "returns (resolved h (ag_source_directory profile))"
    using assms by (rule agreeable_returns)
next
  fix source
  from assms have exists: "vm_exists h log source" and is_dir: "vm_is_dir h log source" for log
    by (simp_all add: agreeable_def)
  show "returns (bind (ask (\<lambda>log. vm_exists h log source)) (\<lambda>exists.
    if \<not> exists then raise (FileNotFoundError
      (''Agent source directory does not exist: '' @ path_str source))
    else bind (ask (\<lambda>log. vm_is_dir h log source)) (\<lambda>is_dir.
    if \<not> is_dir then raise (ValueError
      (''Agent source directory path is not a directory: '' @ path_str source))
    else bind (ask (\<lambda>log. create_remote_agent_path (vm_uuid h log ''agent''))) (\<lambda>remote_source_parent.
    bind (ask (\<lambda>log. vm_tree h log source)) (\<lambda>tree.
    andthen
      (with_sftp h (andthen
        (mkdir_remote_directory h (posix_join remote_source_parent (ag_package_directory_name profile)))
        (write_remote_directory h source tree
          (posix_join remote_source_parent (ag_package_directory_name profile))
          (ag_exclude_patterns profile))))
      (ret remote_source_parent))))))"
    by (rule returns_ask_if [where Q = "\<lambda>b. b"], rule exists, simp,
        rule returns_ask_if [where Q = "\<lambda>b. b"], rule is_dir, simp)
      (intro returns_intros assms)
qed

lemma browser_returns:
  assumes "agreeable h"
  shows "returns (run_post_install_commands h python [''{python} -m playwright install chromium''])"
  unfolding run_post_install_commands_def for_each.simps
  using assms
  by (intro returns_andthen returns_bind_lift [OF playwright_command] returns_ret agreeable_run)

lemma install_returns: "agreeable h \<Longrightarrow> returns (install_dependencies h python deps)"
  unfolding install_dependencies_def by (auto intro!: returns_andthen returns_ret agreeable_run)

lemma agent_returns:
  assumes h: "agreeable h"
  shows "returns (run_python_agent h (sandbox_tester_profile root) env)"
  unfolding run_python_agent_def Let_def write_remote_script_def create_virtual_environment_def
    execute_remote_script_def profile_lists
  by (intro returns_bind returns_ask agent_source_returns returns_andthen returns_with_sftp
      agreeable_returns returns_ret agreeable_run browser_returns install_returns h)

definition agreeable_host :: vm_host where
  "agreeable_host = \<lparr>
     vm_fault = (\<lambda>_ _. None),
     vm_run = (\<lambda>_ _. Inr \<lparr>cp_returncode = 0, cp_stdout = '''', cp_stderr = ''''\<rparr>),
     vm_read = (\<lambda>_ _. Inr ''content''),
     vm_exists = (\<lambda>_ _. True),
     vm_is_dir = (\<lambda>_ _. True),
     vm_resolve = (\<lambda>_ p. Inr p),
     vm_tree = (\<lambda>_ _. Tree [(''sub dir'', Tree [] [''b.py''])] [''a.py'', ''a.pyc'']),
     vm_json = (\<lambda>_ _. Inl (FileNotFoundError '''')),
     vm_poll = (\<lambda>_. None),
     vm_uuid = (\<lambda>_ _. ''0f''),
     vm_ssh = (\<lambda>_. [\<lparr>at_banner = Inr ''SSH-2.0'', at_connect = Inr ()\<rparr>]),
     vm_port = (\<lambda>_. Inr 40022),
     vm_random = (\<lambda>_ n. n),
     vm_error_text = (\<lambda>_. ''error''),
     vm_environ = (\<lambda>_. None),
     vm_which = Some,
     vm_clock = (\<lambda>_. ''now''),
     vm_expanduser = Inr,
     vm_decode = id,
     vm_is_file = (\<lambda>_ _. True),
     vm_text = (\<lambda>_ _. Inr ''print(1)''),
     vm_glob = (\<lambda>_ _ _. []),
     vm_mtime = (\<lambda>_ _. Inr 0),
     vm_polls = (\<lambda>_. 1)\<rparr>"

lemma agreeable_host: "agreeable agreeable_host"
  by (simp add: agreeable_def agreeable_host_def)

theorem agent_commands_read_witness:
  "\<exists>r log' cs. run_python_agent agreeable_host (sandbox_tester_profile (path_of ''/repository''))
      (Some [(''OPENAI_API_KEY'', ''a b; $(c)'')]) [] = (Inr r, log') \<and>
    commands_of log' = cs \<and> length cs = 5 \<and>
    fst (the (sh_command (last cs))) ! 0 = (''OPENAI_API_KEY'', map Text ''a b; $(c)'')"
proof -
  let ?env = "[(''OPENAI_API_KEY'', ''a b; $(c)'')]"
  obtain r log' where run: "run_python_agent agreeable_host
      (sandbox_tester_profile (path_of ''/repository'')) (Some ?env) [] = (Inr r, log')"
    using agent_returns [OF agreeable_host] unfolding returns_def by blast
  have env: "list_all is_identifier (map fst ?env)" by code_simp
  obtain python source cs where cs: "commands_of log' = cs"
    and reads: "length cs = 5" "sh_command (cs ! 4) = Some (argument_texts ?env @
      [(''PYTHONPATH'', map Text source @ [Text CHR '':'', Param ''PYTHONPATH''])], [python, gs_script_path r])"
    using agent_commands_read [OF env run] by (auto dest!: map_eq_Cons_D)
  moreover from reads(1) have "last cs = cs ! 4" by (cases cs) (auto simp: last_conv_nth)
  ultimately show ?thesis
    using run by (auto simp: argument_texts_def)
qed

section \<open>What is uploaded\<close>

text \<open>Every file of a tree as the list of its path components, in the order of the walk.\<close>

fun tree_files :: "source_tree \<Rightarrow> string list list" where
  "tree_files (Tree directories files) =
     map (\<lambda>f. [f]) files @ concat (map (\<lambda>(name, t). map ((#) name) (tree_files t)) directories)"

fun puts_of :: "vm_event list \<Rightarrow> (path \<times> string) list" where
  "puts_of [] = []"
| "puts_of (Remote_Put p r # log) = (p, r) # puts_of log"
| "puts_of (e # log) = puts_of log"

lemma puts_of_append [simp]: "puts_of (xs @ ys) = puts_of xs @ puts_of ys"
  by (induction xs rule: puts_of.induct) simp_all

definition clean :: "string \<Rightarrow> bool" where
  "clean w \<longleftrightarrow> w \<noteq> [] \<and> w \<noteq> ''.'' \<and> CHR ''/'' \<notin> set w"

definition rooted :: "string list \<Rightarrow> string" where
  "rooted ws = ''/'' @ py_join ''/'' ws"

fun tree_clean :: "source_tree \<Rightarrow> bool" where
  "tree_clean (Tree directories files) \<longleftrightarrow> list_all clean files \<and>
     list_all (\<lambda>(name, t). clean name \<and> tree_clean t) directories"

abbreviation kept :: "string list \<Rightarrow> string list \<Rightarrow> bool" where
  "kept excluded \<equiv> list_all (\<lambda>w. \<not> is_excluded w excluded)"

abbreviation relative :: "string list \<Rightarrow> path" where
  "relative ws \<equiv> \<lparr>path_root = '''', path_parts = ws\<rparr>"

lemma filter_kept_Cons:
  "filter (kept excluded) (map ((#) w) xs) =
   (if is_excluded w excluded then [] else map ((#) w) (filter (kept excluded) xs))"
  by (induction xs) auto

lemma walk_tree_files:
  "concat (map (\<lambda>(r, fs). map (\<lambda>f. path_parts r @ [f]) (filter (\<lambda>n. \<not> is_excluded n excluded) fs))
     (walk_tree excluded p t)) = map ((@) (path_parts p)) (filter (kept excluded) (tree_files t))"
proof (induction excluded p t rule: walk_tree.induct)
  case (1 excluded p ds fs)
  have files: "map (\<lambda>f. path_parts p @ [f]) (filter (\<lambda>n. \<not> is_excluded n excluded) fs) =
      map ((@) (path_parts p)) (filter (kept excluded) (map (\<lambda>f. [f]) fs))"
    by (induction fs) auto
  let ?files = "\<lambda>(r, fs). map (\<lambda>f. path_parts r @ [f]) (filter (\<lambda>n. \<not> is_excluded n excluded) fs)"
  have dirs: "concat (map ?files
      (concat (map (\<lambda>(name, t). if is_excluded name excluded then []
        else walk_tree excluded (relative_child p name) t) ds'))) =
    map ((@) (path_parts p)) (filter (kept excluded)
      (concat (map (\<lambda>(name, t). map ((#) name) (tree_files t)) ds')))"
    if "set ds' \<subseteq> set ds" for ds'
    using that
  proof (induction ds')
    case Nil
    show ?case by simp
  next
    case (Cons d ds')
    obtain name t where d: "d = (name, t)" by (cases d)
    with Cons.prems have mem: "(name, t) \<in> set ds" by auto
    have t: "\<not> is_excluded name excluded \<Longrightarrow>
      concat (map ?files (walk_tree excluded (relative_child p name) t)) =
      map ((@) (path_parts p)) (map ((#) name) (filter (kept excluded) (tree_files t)))"
      using "1.IH" [OF mem refl] by (simp add: relative_child_def)
    from Cons have rest: "concat (map ?files (concat (map (\<lambda>(name, t).
        if is_excluded name excluded then [] else walk_tree excluded (relative_child p name) t) ds'))) =
      map ((@) (path_parts p)) (filter (kept excluded)
        (concat (map (\<lambda>(name, t). map ((#) name) (tree_files t)) ds')))"
      by simp
    show ?case
      by (cases "is_excluded name excluded") (simp_all only: d list.map prod.case concat.simps
        map_append concat_append filter_append filter_kept_Cons rest t if_True if_False simp_thms
        append.simps)
  qed
  from files dirs [of ds] show ?case by simp
qed

lemma walk_tree_clean:
  "tree_clean t \<Longrightarrow> (r, fs) \<in> set (walk_tree excluded (relative ws) t) \<Longrightarrow> list_all clean ws \<Longrightarrow>
   \<exists>ps. r = relative ps \<and> list_all clean ps \<and> list_all clean fs"
proof (induction excluded "relative ws" t arbitrary: ws rule: walk_tree.induct)
  case (1 excluded ds fs' ws)
  show ?case
  proof (cases "(r, fs) = (relative ws, fs')")
    case True
    with "1.prems" show ?thesis by auto
  next
    case False
    with "1.prems"(2) obtain name t where d: "(name, t) \<in> set ds" "\<not> is_excluded name excluded"
      and mem: "(r, fs) \<in> set (walk_tree excluded (relative_child (relative ws) name) t)"
      by (auto split: if_splits)
    have child: "relative_child (relative ws) name = relative (ws @ [name])"
      by (simp add: relative_child_def)
    from d "1.prems"(1) have "clean name" "tree_clean t" by (auto simp: list_all_iff)
    with "1.hyps" [OF d(1) refl d(2) child] mem child "1.prems"(3) show ?thesis by simp
  qed
qed

lemma py_join_append:
  "xs \<noteq> [] \<Longrightarrow> ys \<noteq> [] \<Longrightarrow> py_join sep (xs @ ys) = py_join sep xs @ sep @ py_join sep ys"
proof (induction xs)
  case Nil
  then show ?case by simp
next
  case (Cons x xs)
  then show ?case by (cases "xs = []") (simp_all add: py_join_Cons)
qed

lemma clean_join_ends:
  "ws \<noteq> [] \<Longrightarrow> list_all clean ws \<Longrightarrow> last (py_join ''/'' ws) \<noteq> CHR ''/'' \<and> py_join ''/'' ws \<noteq> [] \<and>
   hd (py_join ''/'' ws) \<noteq> CHR ''/''"
proof (induction ws)
  case Nil
  then show ?case by simp
next
  case (Cons w ws)
  then have w: "w \<noteq> []" "CHR ''/'' \<notin> set w" by (simp_all add: clean_def)
  then have "last w \<noteq> CHR ''/''" "hd w \<noteq> CHR ''/''" by (metis last_in_set, metis hd_in_set)
  with Cons w show ?case by (cases "ws = []") (auto simp: py_join_Cons)
qed

lemma starts_with_slash: "s \<noteq> [] \<Longrightarrow> hd s \<noteq> CHR ''/'' \<Longrightarrow> \<not> starts_with s ''/''"
  by (cases s) (auto simp: starts_with_def)

lemma join_rooted:
  assumes "ws \<noteq> []" and "list_all clean ws" and "ps \<noteq> []" and "list_all clean ps"
  shows "posix_join (rooted ws) (py_join ''/'' ps) = rooted (ws @ ps)"
  using assms clean_join_ends [of ws] clean_join_ends [of ps] starts_with_slash [of "py_join ''/'' ps"]
  by (simp add: posix_join_def rooted_def py_join_append)

lemma join_rooted_file:
  "ws \<noteq> [] \<Longrightarrow> list_all clean ws \<Longrightarrow> clean f \<Longrightarrow> posix_join (rooted ws) f = rooted (ws @ [f])"
  using join_rooted [of ws "[f]"] by simp

lemma join_remote_rooted:
  assumes "ws \<noteq> []" and "list_all clean ws" and "list_all clean ps"
  shows "join_remote_path (rooted ws) (relative ps) = rooted (ws @ ps)"
proof (cases "ps = []")
  case True
  then show ?thesis by (simp add: join_remote_path_def path_str_def)
next
  case False
  moreover have "py_join ''/'' ps \<noteq> ''.''"
  proof (cases "tl ps = []")
    case True
    with False assms(3) show ?thesis by (cases ps) (auto simp: clean_def)
  next
    case more: False
    with False obtain p q r where "ps = p # q # r" by (cases ps; cases "tl ps") auto
    then show ?thesis using assms(3) by (cases p) (auto simp: clean_def)
  qed
  ultimately show ?thesis
    using join_rooted [OF assms(1,2) False assms(3)] by (simp add: join_remote_path_def path_str_def)
qed

lemma mkdir_paths_rooted:
  "list_all clean vs \<Longrightarrow> ws \<noteq> [] \<Longrightarrow> list_all clean ws \<Longrightarrow>
   mkdir_paths (rooted ws) vs = map (\<lambda>i. rooted (ws @ take (Suc i) vs)) [0..<length vs]"
proof (induction vs arbitrary: ws)
  case Nil
  show ?case by simp
next
  case (Cons v vs)
  from Cons.prems have "posix_join (rooted ws) v = rooted (ws @ [v])"
    by (simp add: join_rooted_file)
  moreover have "mkdir_paths (rooted (ws @ [v])) vs =
      map (\<lambda>i. rooted ((ws @ [v]) @ take (Suc i) vs)) [0..<length vs]"
    using Cons.prems by (intro Cons.IH) simp_all
  moreover have "map (\<lambda>i. rooted (ws @ take (Suc i) (v # vs))) [0..<length (v # vs)] =
      rooted (ws @ [v]) # map (\<lambda>i. rooted (ws @ v # take (Suc i) vs)) [0..<length vs]"
    by (simp only: length_Cons upt_conv_Cons zero_less_Suc list.map map_Suc_upt [symmetric] map_map o_def)
      simp
  ultimately show ?case
    using Cons.prems by (simp add: clean_def Let_def)
qed

text \<open>The directories that are made for a path, from the top down.\<close>

lemma remote_directories_rooted:
  assumes "ws \<noteq> []" and "list_all clean ws"
  shows "remote_directories (rooted ws) = map (\<lambda>i. rooted (take (Suc i) ws)) [0..<length ws]"
proof -
  obtain w vs where ws: "ws = w # vs" using assms(1) by (cases ws) auto
  have "split_on CHR ''/'' (rooted ws) = [] # ws"
    using split_on_py_join [of ws "CHR ''/''"] assms
    by (auto simp: rooted_def list_all_iff clean_def)
  moreover have "posix_join ''/'' w = rooted [w]"
    using assms ws by (cases w) (auto simp: posix_join_def rooted_def starts_with_def clean_def)
  ultimately have "remote_directories (rooted ws) = rooted [w] # mkdir_paths (rooted [w]) vs"
    using assms ws by (simp add: remote_directories_def clean_def Let_def)
  also have "mkdir_paths (rooted [w]) vs = map (\<lambda>i. rooted ([w] @ take (Suc i) vs)) [0..<length vs]"
    using assms ws by (intro mkdir_paths_rooted) simp_all
  also have "rooted [w] # map (\<lambda>i. rooted ([w] @ take (Suc i) vs)) [0..<length vs] =
      map (\<lambda>i. rooted (take (Suc i) ws)) [0..<length ws]"
    by (simp only: ws length_Cons upt_conv_Cons zero_less_Suc list.map map_Suc_upt [symmetric] map_map o_def)
      simp
  finally show ?thesis .
qed

lemma remote_directories_last:
  "ws \<noteq> [] \<Longrightarrow> list_all clean ws \<Longrightarrow> rooted ws \<in> set (remote_directories (rooted ws))"
  by (force simp: remote_directories_rooted intro: image_eqI [of _ _ "length ws - 1"])

lemma for_each_log:
  "(\<And>x log log'. x \<in> set xs \<Longrightarrow> f x log = (Inr (), log') \<Longrightarrow> log' = log @ g x) \<Longrightarrow>
   for_each xs f log = (Inr u, log') \<Longrightarrow> log' = log @ concat (map g xs)"
proof (induction xs arbitrary: log)
  case Nil
  then show ?case by (simp add: ret_Inr)
next
  case (Cons x xs)
  from Cons.prems(2) obtain log1 where x: "f x log = (Inr (), log1)"
    and xs: "for_each xs f log1 = (Inr u, log')"
    by (auto simp: andthen_Inr)
  from Cons.prems(1) [OF _ x] have "log1 = log @ g x" by simp
  moreover have "log' = log1 @ concat (map g xs)"
    using Cons.prems(1) by (intro Cons.IH xs) simp
  ultimately show ?case by simp
qed

lemma mkdir_Inr:
  assumes "mkdir_remote_directory h p log = (Inr u, log')"
  shows "log' = log @ map Remote_Dir (remote_directories p)"
proof -
  have "log' = log @ concat (map (\<lambda>p. [Remote_Dir p]) (remote_directories p))"
    using assms unfolding mkdir_remote_directory_def
    by (rule for_each_log [rotated])
      (auto simp: catch_def effect_def ret_def split: option.splits if_splits)
  then show ?thesis by simp
qed

text \<open>Every file is put or written into a directory made before: \<open>ds\<close> are the directories made so
  far.\<close>

definition parent_of :: "string \<Rightarrow> string" where
  "parent_of r = rev (tl (dropWhile (\<lambda>c. c \<noteq> CHR ''/'') (rev r)))"

fun prepared_from :: "string list \<Rightarrow> vm_event list \<Rightarrow> bool" where
  "prepared_from ds [] = True"
| "prepared_from ds (Remote_Dir d # log) = prepared_from (d # ds) log"
| "prepared_from ds (Remote_Put p r # log) = (parent_of r \<in> set ds \<and> prepared_from ds log)"
| "prepared_from ds (Remote_File r c # log) = (parent_of r \<in> set ds \<and> prepared_from ds log)"
| "prepared_from ds (e # log) = prepared_from ds log"

lemma prepared_mono: "prepared_from ds log \<Longrightarrow> set ds \<subseteq> set es \<Longrightarrow> prepared_from es log"
proof (induction ds log arbitrary: es rule: prepared_from.induct)
  case (2 ds d log)
  then show ?case by (simp add: subset_insertI2 insert_mono)
qed auto

lemma prepared_append:
  "prepared_from ds xs \<Longrightarrow> prepared_from ds ys \<Longrightarrow> prepared_from ds (xs @ ys)"
proof (induction ds xs rule: prepared_from.induct)
  case (2 ds d log)
  then show ?case using prepared_mono [of ds ys "d # ds"] by auto
qed simp_all

interpretation prepared: log_property "prepared_from ds" for ds
  by unfold_locales (simp_all add: prepared_append)

lemma prepared_dirs: "prepared_from ds (map Remote_Dir es @ log) = prepared_from (rev es @ ds) log"
  by (induction es arbitrary: ds) simp_all

lemma parent_of_rooted:
  assumes "ws \<noteq> []" and "clean f"
  shows "parent_of (rooted (ws @ [f])) = rooted ws"
proof -
  have "rooted (ws @ [f]) = rooted ws @ CHR ''/'' # f"
    using assms by (simp add: rooted_def py_join_append)
  moreover have "dropWhile (\<lambda>c. c \<noteq> CHR ''/'') (rev f @ CHR ''/'' # r) = CHR ''/'' # r" for r
    using assms(2) by (subst dropWhile_append2) (auto simp: clean_def)
  ultimately show ?thesis by (simp add: parent_of_def)
qed

lemma upload_one:
  assumes "ws \<noteq> []" and "list_all clean ws" and "list_all clean fs"
  shows "prepared_from ds (map Remote_Dir (remote_directories (rooted ws)) @
    map (\<lambda>f. Remote_Put (a f) (rooted (ws @ [f]))) fs)"
proof -
  have "list_all clean gs \<Longrightarrow> rooted ws \<in> set es \<Longrightarrow>
      prepared_from es (map (\<lambda>f. Remote_Put (a f) (rooted (ws @ [f]))) gs)" for gs es
    using assms(1) by (induction gs) (simp_all add: parent_of_rooted)
  then show ?thesis
    using assms remote_directories_last [OF assms(1,2)] by (simp add: prepared_dirs)
qed

lemma puts_of_map:
  "puts_of (map (\<lambda>x. Remote_Put (a x) (b x)) xs) = map (\<lambda>x. (a x, b x)) xs"
  "puts_of (map Remote_Dir ds) = []"
  by (induction xs, simp_all, induction ds, simp_all)

definition beneath :: "path \<Rightarrow> string list \<Rightarrow> path" where
  "beneath p ws = p\<lparr>path_parts := path_parts p @ ws\<rparr>"

lemma upload_log:
  assumes "ws \<noteq> []" and "list_all clean ws" and "tree_clean tree"
    and "write_remote_directory h source tree (rooted ws) excluded log = (Inr u, log')"
  shows "\<exists>new. log' = log @ new \<and> prepared_from [] new \<and>
    puts_of new = map (\<lambda>fs. (beneath source fs, rooted (ws @ fs)))
      (filter (kept excluded) (tree_files tree))"
proof -
  let ?keep = "filter (\<lambda>n. \<not> is_excluded n excluded)"
  let ?dir = "\<lambda>(r, fs). map Remote_Dir (remote_directories (rooted (ws @ path_parts r))) @
    map (\<lambda>f. Remote_Put (beneath source (path_parts r @ [f])) (rooted (ws @ path_parts r @ [f]))) (?keep fs)"
  let ?walk = "walk_tree excluded (relative []) tree"
  have clean: "\<exists>ps. r = relative ps \<and> list_all clean ps \<and> list_all clean fs"
    if "(r, fs) \<in> set ?walk" for r fs
    using walk_tree_clean [OF assms(3) that] by simp
  have root: "path_of ''.'' = relative []"
    by (simp add: path_of_def starts_with_def)
  from assms(4) have log': "log' = log @ concat (map ?dir ?walk)"
    unfolding write_remote_directory_def root
  proof (rule for_each_log [rotated])
    fix x log log'
    assume x: "x \<in> set ?walk"
    obtain r fs where rfs: "x = (r, fs)" by (cases x)
    with clean x obtain ps where ps: "r = relative ps" "list_all clean ps" "list_all clean fs" by blast
    assume "(case x of (relative_root, file_names) \<Rightarrow>
       let remote_root = join_remote_path (rooted ws) relative_root
       in andthen (mkdir_remote_directory h remote_root)
         (for_each (?keep file_names) (\<lambda>file_name.
           effect h (Remote_Put (relative_child (path_join source relative_root) file_name)
             (posix_join remote_root file_name))))) log = (Inr (), log')"
    then obtain log1 where mk: "mkdir_remote_directory h (rooted (ws @ ps)) log = (Inr (), log1)"
      and put: "for_each (?keep fs) (\<lambda>f. effect h (Remote_Put (relative_child (path_join source r) f)
        (posix_join (rooted (ws @ ps)) f))) log1 = (Inr (), log')"
      by (auto simp: rfs ps(1) join_remote_rooted [OF assms(1,2) ps(2)] Let_def andthen_Inr)
    from put have "log' = log1 @ concat (map (\<lambda>f. [Remote_Put (relative_child (path_join source r) f)
        (posix_join (rooted (ws @ ps)) f)]) (?keep fs))"
      by (rule for_each_log [rotated]) (simp add: vm_success)
    moreover have "relative_child (path_join source r) f = beneath source (ps @ [f])" for f
      by (simp add: ps(1) relative_child_def path_join_def is_absolute_def beneath_def)
    moreover have "posix_join (rooted (ws @ ps)) f = rooted (ws @ ps @ [f])" if "f \<in> set fs" for f
      using that ps assms join_rooted_file [of "ws @ ps" f] by (auto simp: list_all_iff)
    ultimately show "log' = log @ ?dir x"
      using mkdir_Inr [OF mk] by (simp add: rfs ps(1))
  qed
  have "prepared_from [] (concat (map ?dir xs)) \<and> puts_of (concat (map ?dir xs)) =
      map (\<lambda>fs. (beneath source fs, rooted (ws @ fs)))
        (concat (map (\<lambda>(r, fs). map (\<lambda>f. path_parts r @ [f]) (?keep fs)) xs))"
    if "set xs \<subseteq> set ?walk" for xs
    using that
  proof (induction xs)
    case Nil
    show ?case by simp
  next
    case (Cons x xs)
    obtain r fs where rfs: "x = (r, fs)" by (cases x)
    with clean Cons.prems obtain ps where ps: "r = relative ps" "list_all clean ps" "list_all clean fs"
      by auto
    with assms have "prepared_from [] (?dir x)"
      using upload_one [of "ws @ ps" "?keep fs" "[]" "\<lambda>f. beneath source (ps @ [f])"]
      by (auto simp: rfs list_all_iff)
    moreover have rest: "prepared_from [] (concat (map ?dir xs))" "puts_of (concat (map ?dir xs)) =
      map (\<lambda>fs. (beneath source fs, rooted (ws @ fs)))
        (concat (map (\<lambda>(r, fs). map (\<lambda>f. path_parts r @ [f]) (?keep fs)) xs))"
      using Cons by simp_all
    ultimately have "prepared_from [] (?dir x @ concat (map ?dir xs))"
      by (intro prepared_append)
    moreover have "puts_of (?dir x) = map (\<lambda>fs. (beneath source fs, rooted (ws @ fs)))
        (map (\<lambda>f. path_parts r @ [f]) (?keep fs))"
      by (simp add: rfs puts_of_map o_def)
    ultimately show ?case
      using rest(2) by (simp only: list.map concat.simps puts_of_append map_append rfs prod.case)
  qed
  from this [OF subset_refl] log' walk_tree_files [of excluded "relative []" tree]
  show ?thesis by auto
qed

lemma effect_log: "effect h e log = (r, log') \<Longrightarrow> log' = log @ [e]"
  by (simp add: effect_def)

lemma with_sftp_Inr:
  "with_sftp h body log = (Inr a, log') \<Longrightarrow>
   \<exists>log1. body (log @ [Sftp_Opened]) = (Inr a, log1) \<and> log' = log1 @ [Sftp_Closed]"
  by (auto simp: with_sftp_def andthen_Inr try_finally_Inr vm_success)

text \<open>The upload of an agent's source tree: a successful upload puts exactly the files of which no
  path component matches an exclusion pattern, each once, in the order of the walk, beneath the
  package directory of a fresh directory, and no file before its directory has been made.\<close>

theorem agent_source_uploaded:
  assumes "write_remote_agent_source h profile log = (Inr parent, log')"
    and "res_bind (vm_expanduser h (ag_source_directory profile)) (vm_resolve h log) = Inr source"
    and "tree_clean (vm_tree h log source)" and "clean (ag_package_directory_name profile)"
    and "CHR ''/'' \<notin> set (vm_uuid h log ''agent'')"
  shows "\<exists>new. log' = log @ new \<and> prepared_from [] new \<and>
    puts_of new = map (\<lambda>fs. (beneath source fs,
        parent @ ''/'' @ py_join ''/'' (ag_package_directory_name profile # fs)))
      (filter (kept (ag_exclude_patterns profile)) (tree_files (vm_tree h log source)))"
proof -
  let ?package = "ag_package_directory_name profile"
  let ?ws = "[''tmp'', ''sandbox-agent-'' @ vm_uuid h log ''agent'']"
  let ?excluded = "ag_exclude_patterns profile"
  have parent: "create_remote_agent_path (vm_uuid h log ''agent'') = rooted ?ws"
    by (simp add: create_remote_agent_path_def rooted_def posix_join_def starts_with_def)
  have clean: "list_all clean (?ws @ [?package])" using assms(4,5) by (simp add: clean_def)
  then have package: "posix_join (rooted ?ws) ?package = rooted (?ws @ [?package])"
    by (intro join_rooted_file) simp_all
  have "with_sftp h (andthen (mkdir_remote_directory h (rooted (?ws @ [?package])))
      (write_remote_directory h source (vm_tree h log source) (rooted (?ws @ [?package])) ?excluded))
      log = (Inr (), log')" and p: "parent = rooted ?ws"
    using assms(1) unfolding write_remote_agent_source_def package [symmetric] parent [symmetric]
    by (auto simp: bind_Inr andthen_Inr resolved_def vm_success assms(2) ask_def ret_Inr raise_Inr
        Let_def split: if_splits)
  from with_sftp_Inr [OF this(1)] obtain log1 log2 where
    mk: "mkdir_remote_directory h (rooted (?ws @ [?package])) (log @ [Sftp_Opened]) = (Inr (), log1)"
    and up: "write_remote_directory h source (vm_tree h log source) (rooted (?ws @ [?package]))
        ?excluded log1 = (Inr (), log2)"
    and log': "log' = log2 @ [Sftp_Closed]"
    unfolding andthen_Inr by auto
  obtain new where new: "log2 = log1 @ new" "prepared_from [] new"
    "puts_of new = map (\<lambda>fs. (beneath source fs, rooted ((?ws @ [?package]) @ fs)))
      (filter (kept ?excluded) (tree_files (vm_tree h log source)))"
    using upload_log [OF _ clean assms(3) up] by auto
  let ?made = "map Remote_Dir (remote_directories (rooted (?ws @ [?package])))"
  have "log' = log @ (Sftp_Opened # ?made) @ new @ [Sftp_Closed]"
    using log' new(1) mkdir_Inr [OF mk] by simp
  moreover have "prepared_from [] (Sftp_Opened # ?made)"
    using prepared_dirs [of "[]" _ "[]"] by simp
  with new(2) have "prepared_from [] ((Sftp_Opened # ?made) @ new @ [Sftp_Closed])"
    by (intro prepared.concat_closed) simp_all
  moreover have "rooted ((?ws @ [?package]) @ fs) =
      parent @ ''/'' @ py_join ''/'' (?package # fs)" for fs
    unfolding p rooted_def using py_join_append [of ?ws "?package # fs" "''/''"] by simp
  with new(3) have "puts_of ((Sftp_Opened # ?made) @ new @ [Sftp_Closed]) =
      map (\<lambda>fs. (beneath source fs, parent @ ''/'' @ py_join ''/'' (?package # fs)))
        (filter (kept ?excluded) (tree_files (vm_tree h log source)))"
    by (simp only: append_Cons puts_of.simps puts_of_append puts_of_map) simp
  ultimately show ?thesis by blast
qed

theorem agent_source_uploaded_witness:
  "\<exists>parent log'. write_remote_agent_source agreeable_host
      (sandbox_tester_profile (path_of ''/repository'')) [] = (Inr parent, log') \<and>
    puts_of log' = [(path_of ''/repository/src/sandbox_tester/a.py'', parent @ ''/sandbox_tester/a.py''),
      (path_of ''/repository/src/sandbox_tester/sub dir/b.py'', parent @ ''/sandbox_tester/sub dir/b.py'')]"
proof -
  let ?p = "sandbox_tester_profile (path_of ''/repository'')"
  let ?source = "path_of ''/repository/src/sandbox_tester''"
  obtain parent log' where run: "write_remote_agent_source agreeable_host ?p [] = (Inr parent, log')"
    using agent_source_returns [OF agreeable_host] unfolding returns_def by blast
  have source: "res_bind (vm_expanduser agreeable_host (ag_source_directory ?p))
      (vm_resolve agreeable_host []) = Inr ?source"
    by (simp add: agreeable_host_def sandbox_tester_profile_def path_div_def path_join_def path_of_def
        is_absolute_def starts_with_def)
  have tree: "vm_tree agreeable_host [] ?source = Tree [(''sub dir'', Tree [] [''b.py''])] [''a.py'', ''a.pyc'']"
    and uuid: "CHR ''/'' \<notin> set (vm_uuid agreeable_host [] ''agent'')"
    by (simp_all add: agreeable_host_def)
  have clean: "tree_clean (vm_tree agreeable_host [] ?source)" "clean (ag_package_directory_name ?p)"
    unfolding tree by (simp_all add: clean_def sandbox_tester_profile_def)
  have kept: "filter (kept (ag_exclude_patterns ?p)) (tree_files (vm_tree agreeable_host [] ?source)) =
      [[''a.py''], [''sub dir'', ''b.py'']]"
    unfolding tree by (simp add: sandbox_tester_profile_def is_excluded_def)
  show ?thesis
    using run agent_source_uploaded [OF run source clean uuid, unfolded kept]
    by (auto simp: beneath_def path_of_def starts_with_def sandbox_tester_profile_def)
qed

end
