(* ===== verification/Guest_Credentials.thy ===== *)
theory Guest_Credentials
  imports Guest_Runner
begin

text \<open>
  The guest credentials both sandboxes keep in their base directory: \<open>credentials.py\<close> of
  \<open>src/qemu_sandbox\<close>, of which the one of \<open>src/virtualbox_sandbox\<close> is a copy.
\<close>

record guest_credentials =
  gc_user :: string
  gc_password :: string

text \<open>\<open>random n\<close> is the \<open>n\<close>-th answer of the random source, reduced to the alphabet.\<close>

definition PASSWORD_ALPHABET :: string where
  "PASSWORD_ALPHABET =
     ''abcdefghijklmnopqrstuvwxyz'' @ ''ABCDEFGHIJKLMNOPQRSTUVWXYZ'' @ ''0123456789''"

definition generate_password :: "(nat \<Rightarrow> nat) \<Rightarrow> string" where
  "generate_password random =
     map (\<lambda>n. PASSWORD_ALPHABET ! (random n mod length PASSWORD_ALPHABET)) [0..<32]"

definition credentials_data :: "guest_credentials \<Rightarrow> json" where
  "credentials_data credentials =
     JObj [(''guest_user'', JStr (gc_user credentials)),
           (''guest_password'', JStr (gc_password credentials))]"

definition write_guest_credentials :: "vm_host \<Rightarrow> path \<Rightarrow> guest_credentials \<Rightarrow> unit vm" where
  "write_guest_credentials h p credentials =
     andthen (effect h (Dir_Made (path_parent p)))
       (effect h (File_Written p (Json_Text (credentials_data credentials))))"

definition credentials_from :: "json \<Rightarrow> guest_credentials res" where
  "credentials_from data =
     res_bind (json_index data ''guest_user'') (\<lambda>user.
     res_bind (json_index data ''guest_password'') (\<lambda>password.
       Inr \<lparr>gc_user = json_str user, gc_password = json_str password\<rparr>))"

definition read_guest_credentials :: "vm_host \<Rightarrow> path \<Rightarrow> guest_credentials vm" where
  "read_guest_credentials h p =
     bind (vm_question (\<lambda>log. vm_json h log p)) (\<lambda>data. lift_res (credentials_from data))"

definition load_or_create_guest_credentials ::
    "vm_host \<Rightarrow> path \<Rightarrow> string \<Rightarrow> guest_credentials vm" where
  "load_or_create_guest_credentials h base_directory guest_user =
     (let credentials_path = path_div base_directory ''credentials.json''
      in bind (ask (\<lambda>log. vm_exists h log credentials_path)) (\<lambda>exists.
         if exists then read_guest_credentials h credentials_path
         else bind (ask (\<lambda>log. generate_password (vm_random h log))) (\<lambda>password.
           let credentials = \<lparr>gc_user = guest_user, gc_password = password\<rparr>
           in andthen (write_guest_credentials h credentials_path credentials) (ret credentials))))"

section \<open>Credentials survive\<close>

definition is_password_char :: "char \<Rightarrow> bool" where
  "is_password_char c \<longleftrightarrow> is_lower c \<or> is_upper c \<or> is_digit c"

lemma alphabet: "list_all is_password_char PASSWORD_ALPHABET" "PASSWORD_ALPHABET \<noteq> []"
  by code_simp+

lemma generated_password:
  "length (generate_password random) = 32" "list_all is_password_char (generate_password random)"
proof -
  have "is_password_char (PASSWORD_ALPHABET ! (k mod length PASSWORD_ALPHABET))" for k
    using alphabet by (simp add: list_all_length)
  then show "list_all is_password_char (generate_password random)"
    by (simp add: generate_password_def list_all_iff)
qed (simp add: generate_password_def)

text \<open>C30. The first run with a base directory creates credentials - the user asked for and a password
  of 32 letters and digits - and writes them; every later run that finds that file works with the
  same credentials, whatever user it asks for, and writes nothing.\<close>

theorem credentials_survive:
  assumes "load_or_create_guest_credentials h base user log = (Inr c, log')"
    and "\<not> vm_exists h log (path_div base ''credentials.json'')"
    and "vm_exists h' later (path_div base ''credentials.json'')"
    and "vm_json h' later (path_div base ''credentials.json'') = Inr (credentials_data c)"
  shows "File_Written (path_div base ''credentials.json'') (Json_Text (credentials_data c)) \<in> set log' \<and>
    gc_user c = user \<and> length (gc_password c) = 32 \<and> list_all is_password_char (gc_password c) \<and>
    load_or_create_guest_credentials h' base other later = (Inr c, later)"
proof -
  have "credentials_from (credentials_data c) = Inr c"
    by (simp add: credentials_from_def credentials_data_def json_index_def)
  with assms(3,4) have "load_or_create_guest_credentials h' base other later = (Inr c, later)"
    by (simp add: load_or_create_guest_credentials_def read_guest_credentials_def Let_def bind_def ask_def
        vm_question_def lift_res_def)
  with assms(1,2) show ?thesis
    by (auto simp: load_or_create_guest_credentials_def write_guest_credentials_def Let_def bind_Inr
        ask_def andthen_Inr ret_Inr vm_success generated_password)
qed

theorem credentials_survive_witness:
  "\<exists>c log'. load_or_create_guest_credentials (agreeable_host\<lparr>vm_exists := \<lambda>_ _. False\<rparr>)
      (path_of ''/base'') ''sandbox'' [] = (Inr c, log') \<and>
    load_or_create_guest_credentials (agreeable_host\<lparr>vm_json := \<lambda>_ _. Inr (credentials_data c)\<rparr>)
      (path_of ''/base'') ''other'' [] = (Inr c, [])"
proof -
  let ?h = "agreeable_host\<lparr>vm_exists := \<lambda>_ _. False\<rparr>"
  obtain c log' where first: "load_or_create_guest_credentials ?h (path_of ''/base'') ''sandbox'' [] =
      (Inr c, log')"
    by (simp add: load_or_create_guest_credentials_def write_guest_credentials_def Let_def bind_def
        ask_def andthen_def ret_def effect_def agreeable_host_def)
  let ?h' = "agreeable_host\<lparr>vm_json := \<lambda>_ _. Inr (credentials_data c)\<rparr>"
  have "\<not> vm_exists ?h [] p" "vm_exists ?h' [] p" "vm_json ?h' [] p = Inr (credentials_data c)" for p
    by (simp_all add: agreeable_host_def)
  with credentials_survive [OF first, of ?h' "[]"] first show ?thesis by blast
qed

end
