(* ===== verification/Qemu_Machine.thy ===== *)
theory Qemu_Machine
  imports Guest_Credentials
begin

text \<open>
  The machine of a QEMU run: \<open>src/qemu_sandbox/models.py\<close> and
  \<open>qemu_machine_factory.py\<close>. The process of the machine is the one process of the log, so a
  \<open>Popen\<close> object is only present or not.
\<close>

datatype qemu_run_status = STARTED | BASE_IMAGE_MISSING | QEMU_MISSING

record qemu_configuration =
  qc_base_directory :: path
  qc_base_image_path :: path
  qc_kernel_path :: "path option"
  qc_initrd_path :: "path option"
  qc_kernel_append :: "string option"
  qc_qemu_path :: path
  qc_guest_credentials :: guest_credentials
  qc_machine :: string
  qc_accelerator :: string
  qc_cpu :: string
  qc_memory_megabytes :: int
  qc_cpu_count :: int

record qemu_run_result =
  qr_status :: qemu_run_status
  qr_base_image_path :: path
  qr_qemu_path :: "path option"
  qr_run_directory :: "path option"
  qr_run_disk_path :: "path option"
  qr_ssh_host :: "string option"
  qr_ssh_port :: "int option"
  qr_process :: bool
  qr_command :: "string list option"

definition new_qemu_run_result :: "qemu_run_status \<Rightarrow> path \<Rightarrow> qemu_run_result" where
  "new_qemu_run_result status base_image_path = \<lparr>
     qr_status = status, qr_base_image_path = base_image_path, qr_qemu_path = None,
     qr_run_directory = None, qr_run_disk_path = None, qr_ssh_host = None, qr_ssh_port = None,
     qr_process = False, qr_command = None\<rparr>"

section \<open>The executable and its accelerator\<close>

definition find_qemu :: "vm_host \<Rightarrow> path \<Rightarrow> path option vm" where
  "find_qemu h configured_path =
     bind (resolved h configured_path) (\<lambda>resolved_path.
     bind (ask (\<lambda>log. path_str configured_path \<noteq> [] \<and> vm_exists h log resolved_path)) (\<lambda>found.
     if found then ret (Some resolved_path)
     else
     let environment_value = vm_environ h ''QEMU_SYSTEM_X86_64'';
         fallback = bind (ask (\<lambda>log. vm_exists h log
             (path_of ([CHR ''C'', CHR '':'', CHR 0x5C] @ ''Program Files'' @ [CHR 0x5C] @ ''qemu'' @
               [CHR 0x5C] @ ''qemu-system-x86_64.exe'')))) (\<lambda>found.
           if found then ret (Some (path_of ([CHR ''C'', CHR '':'', CHR 0x5C] @ ''Program Files'' @
               [CHR 0x5C] @ ''qemu'' @ [CHR 0x5C] @ ''qemu-system-x86_64.exe'')))
           else ret (map_option path_of (vm_which h ''qemu-system-x86_64'')))
     in case environment_value of
          None \<Rightarrow> fallback
        | Some [] \<Rightarrow> fallback
        | Some text \<Rightarrow>
            bind (resolved h (path_of text)) (\<lambda>environment_path.
            bind (ask (\<lambda>log. vm_exists h log environment_path)) (\<lambda>found.
            if found then ret (Some environment_path) else fallback))))"

definition accelerators_in :: "string \<Rightarrow> string list" where
  "accelerators_in stdout =
     map py_strip (filter (\<lambda>line. py_strip line \<noteq> [] \<and> \<not> starts_with line ''Accelerators'')
       (splitlines_from [] stdout))"

definition get_supported_accelerators :: "vm_host \<Rightarrow> path \<Rightarrow> string list vm" where
  "get_supported_accelerators h qemu_path =
     bind (local_run h [path_str qemu_path, ''-accel'', ''help'']) (\<lambda>completed.
       if cp_returncode completed \<noteq> 0 then ret []
       else ret (accelerators_in (cp_stdout completed)))"

definition resolve_accelerator :: "vm_host \<Rightarrow> path \<Rightarrow> string \<Rightarrow> string vm" where
  "resolve_accelerator h qemu_path configured_accelerator =
     (if configured_accelerator \<noteq> ''auto'' then ret configured_accelerator
      else bind (get_supported_accelerators h qemu_path) (\<lambda>supported_accelerators.
        if ''whpx'' \<in> set supported_accelerators then ret ''whpx'' else ret ''tcg''))"

section \<open>The command\<close>

definition host_forward :: "int \<Rightarrow> string" where
  "host_forward ssh_port = ''tcp:127.0.0.1:'' @ str_int ssh_port @ ''-:22''"

definition build_pc_qemu_command ::
    "qemu_configuration \<Rightarrow> path \<Rightarrow> path \<Rightarrow> int \<Rightarrow> string list" where
  "build_pc_qemu_command c qemu_path run_disk_path ssh_port =
     [path_str qemu_path,
      ''-machine'', qc_machine c @ '',accel='' @ qc_accelerator c,
      ''-cpu'', qc_cpu c,
      ''-m'', str_int (qc_memory_megabytes c),
      ''-smp'', str_int (qc_cpu_count c),
      ''-drive'', ''file='' @ path_str run_disk_path @ '',format=qcow2,if=virtio'',
      ''-netdev'', ''user,id=net0,hostfwd='' @ host_forward ssh_port,
      ''-device'', ''virtio-net-pci,netdev=net0'',
      ''-display'', ''none'']"

definition build_microvm_qemu_command ::
    "qemu_configuration \<Rightarrow> path \<Rightarrow> path \<Rightarrow> int \<Rightarrow> string list res" where
  "build_microvm_qemu_command c qemu_path run_disk_path ssh_port =
     (case qc_kernel_path c of
        None \<Rightarrow> Inl (ValueError ''--kernel is required for QEMU microvm mode.'')
      | Some kernel_path \<Rightarrow>
     (case qc_initrd_path c of
        None \<Rightarrow> Inl (ValueError ''--initrd is required for QEMU microvm mode.'')
      | Some initrd_path \<Rightarrow>
     (case qc_kernel_append c of
        None \<Rightarrow> Inl (ValueError ''--kernel-append is required for QEMU microvm mode.'')
      | Some kernel_append \<Rightarrow>
          Inr [path_str qemu_path,
            ''-M'', ''microvm,accel='' @ qc_accelerator c,
            ''-cpu'', qc_cpu c,
            ''-m'', str_int (qc_memory_megabytes c),
            ''-smp'', str_int (qc_cpu_count c),
            ''-kernel'', path_str kernel_path,
            ''-initrd'', path_str initrd_path,
            ''-append'', kernel_append,
            ''-nodefaults'',
            ''-no-user-config'',
            ''-display'', ''none'',
            ''-serial'', ''file:'' @ path_str (path_div (path_parent run_disk_path) ''serial.log''),
            ''-no-reboot'',
            ''-drive'', ''id=root,file='' @ path_str run_disk_path @ '',format=qcow2,if=none'',
            ''-device'', ''virtio-blk-device,drive=root'',
            ''-netdev'', ''user,id=net0,hostfwd='' @ host_forward ssh_port,
            ''-device'', ''virtio-net-device,netdev=net0''])))"

definition build_qemu_command ::
    "qemu_configuration \<Rightarrow> path \<Rightarrow> path \<Rightarrow> int \<Rightarrow> string list res" where
  "build_qemu_command c qemu_path run_disk_path ssh_port =
     (if qc_machine c = ''microvm'' then build_microvm_qemu_command c qemu_path run_disk_path ssh_port
      else Inr (build_pc_qemu_command c qemu_path run_disk_path ssh_port))"

section \<open>Starting and stopping\<close>

definition qemu_run_directory :: "qemu_configuration \<Rightarrow> string \<Rightarrow> path" where
  "qemu_run_directory c timestamp =
     path_div (path_div (qc_base_directory c) ''runs'') (''run-'' @ timestamp)"

definition start_qemu :: "vm_host \<Rightarrow> qemu_configuration \<Rightarrow> path \<Rightarrow> qemu_run_result vm" where
  "start_qemu h c qemu_path =
     bind (ask (\<lambda>log. qemu_run_directory c (vm_clock h log))) (\<lambda>run_directory.
     andthen (effect h (Dir_Made run_directory))
     (let run_disk_path = path_div run_directory ''ubuntu-24.04-sandbox-run.qcow2''
      in andthen (effect h (File_Copied (qc_base_image_path c) run_disk_path))
        (bind (vm_question (vm_port h)) (\<lambda>ssh_port.
         bind (lift_res (build_qemu_command c qemu_path run_disk_path ssh_port)) (\<lambda>command.
         andthen (effect h (Process_Started command))
         (andthen pause
         (bind (poll h) (\<lambda>exit_code.
           case exit_code of
             Some n \<Rightarrow> raise (RuntimeError (''QEMU exited immediately with exit code '' @
               str_int n @ ''.''))
           | None \<Rightarrow> ret \<lparr>
               qr_status = STARTED,
               qr_base_image_path = qc_base_image_path c,
               qr_qemu_path = Some qemu_path,
               qr_run_directory = Some run_directory,
               qr_run_disk_path = Some run_disk_path,
               qr_ssh_host = Some ''127.0.0.1'',
               qr_ssh_port = Some ssh_port,
               qr_process = True,
               qr_command = Some command\<rparr>))))))))"

definition create_qemu_run :: "vm_host \<Rightarrow> qemu_configuration \<Rightarrow> qemu_run_result vm" where
  "create_qemu_run h c =
     bind (find_qemu h (qc_qemu_path c)) (\<lambda>found. case found of
       None \<Rightarrow> ret (new_qemu_run_result QEMU_MISSING (qc_base_image_path c))
     | Some qemu_path \<Rightarrow>
         bind (ask (\<lambda>log. vm_exists h log (qc_base_image_path c))) (\<lambda>exists.
         if \<not> exists then ret ((new_qemu_run_result BASE_IMAGE_MISSING (qc_base_image_path c))
           \<lparr>qr_qemu_path := Some qemu_path\<rparr>)
         else bind (resolve_accelerator h qemu_path (qc_accelerator c)) (\<lambda>accelerator.
           start_qemu h (c\<lparr>qc_accelerator := accelerator\<rparr>) qemu_path)))"

definition stop_qemu_run :: "vm_host \<Rightarrow> qemu_run_result \<Rightarrow> unit vm" where
  "stop_qemu_run h result =
     (if \<not> qr_process result then ret ()
      else bind (poll h) (\<lambda>exit_code. case exit_code of
        Some _ \<Rightarrow> ret ()
      | None \<Rightarrow>
          andthen (effect h Process_Terminated)
            (catch (effect h Process_Waited) (\<lambda>e.
               if is_timeout e
               then Some (andthen (effect h Process_Killed) (effect h Process_Waited)) else None))))"

definition remove_run_disk :: "vm_host \<Rightarrow> qemu_run_result \<Rightarrow> unit vm" where
  "remove_run_disk h result =
     (case (qr_run_directory result, qr_run_disk_path result) of
        (Some run_directory, Some run_disk_path) \<Rightarrow>
          bind (vm_question (\<lambda>log. vm_resolve h log run_directory)) (\<lambda>resolved_run_directory.
          bind (vm_question (\<lambda>log. vm_resolve h log run_disk_path)) (\<lambda>resolved_run_disk_path.
          if \<not> in_parents resolved_run_directory resolved_run_disk_path
          then raise (RuntimeError (''Refusing to remove QEMU run disk outside the run directory: '' @
            path_str resolved_run_disk_path))
          else bind (ask (\<lambda>log. vm_exists h log resolved_run_disk_path)) (\<lambda>exists.
            if exists then effect h (File_Unlinked resolved_run_disk_path) else ret ())))
      | _ \<Rightarrow> ret ())"

definition stop_and_remove_qemu_run :: "vm_host \<Rightarrow> qemu_run_result \<Rightarrow> unit vm" where
  "stop_and_remove_qemu_run h result = andthen (stop_qemu_run h result) (remove_run_disk h result)"

end
