(* ===== verification/Guest_Layout.thy ===== *)
theory Guest_Layout
  imports Guest_Runner Tester_Models
begin

text \<open>
  \<open>src/virtualbox_sandbox/guest_run_layout.py\<close>: the directories, fixtures and configuration that
  are made in a guest before Sandbox Tester runs there. The property relates the two programs that
  meet in the guest: the configuration is one the tester accepts, and what the tester is told
  exists has been made.
\<close>

definition build_runtime_user_directory :: "string \<Rightarrow> string" where
  "build_runtime_user_directory username = posix_join ''/home'' username"

definition guest_config :: "string \<Rightarrow> string \<Rightarrow> string \<Rightarrow> string \<Rightarrow> string \<Rightarrow> (string \<times> json) list" where
  "guest_config run_directory allowed_directory denied_directory output_directory username =
     [(''working_directory'', JStr run_directory),
      (''allowed_directory'', JStr allowed_directory),
      (''denied_directory'', JStr denied_directory),
      (''runtime_user_directory'', JStr (build_runtime_user_directory username)),
      (''runtime_temp_directory'', JStr ''/tmp''),
      (''mounted_shared_directory'', JNull),
      (''operating_system'', JStr ''Linux''),
      (''allowed_domain'', JStr ''example.com''),
      (''denied_domain'', JStr ''example.net''),
      (''allowed_local_address'', JNull),
      (''denied_local_address'', JNull),
      (''allowed_localnet_address'', JNull),
      (''denied_localnet_address'', JNull),
      (''allowed_intranet_target'', JNull),
      (''denied_intranet_target'', JStr ''192.168.86.28''),
      (''allowed_database_address'', JNull),
      (''denied_database_address'', JNull),
      (''container_runtime_socket'', JNull),
      (''local_dev_server_url'', JNull),
      (''local_model_server_url'', JNull),
      (''metadata_endpoint_url'', JNull),
      (''dns_exfiltration_domain'', JStr ''c2FuZGJveC10ZXN0ZXI.example.com''),
      (''http_exfiltration_domain'', JStr ''example.com''),
      (''http_exfiltration_header'', JStr ''exfiltration=example''),
      (''websocket_exfiltration_url'', JStr ''wss://echo.websocket.org''),
      (''smtp_exfiltration_url'', JNull),
      (''ssh_agent_socket'', JNull),
      (''browser_debugging_url'', JNull),
      (''browser_executable'', JNull),
      (''existing_browser_profile'', JNull),
      (''allowed_git_repository'', JNull),
      (''denied_git_repository'', JNull),
      (''git_remote_url'', JStr ''https://github.com/SomeNewKid/ScratchpadOne.git''),
      (''allow_camera_capture'', JBool True),
      (''allow_microphone_capture'', JBool True),
      (''output_directory'', JStr output_directory)]"

definition build_config_json :: "string \<Rightarrow> string \<Rightarrow> string \<Rightarrow> string \<Rightarrow> string \<Rightarrow> file_content" where
  "build_config_json run_directory allowed_directory denied_directory output_directory username =
     Json_Text (JObj (guest_config run_directory allowed_directory denied_directory output_directory
       username))"

definition write_remote_text :: "vm_host \<Rightarrow> string \<Rightarrow> file_content \<Rightarrow> unit vm" where
  "write_remote_text h remote_path content = effect h (Remote_File remote_path content)"

definition run_layout :: "string \<Rightarrow> string \<Rightarrow> guest_run_layout" where
  "run_layout u username =
     (let run_directory = posix_join ''/tmp/sandbox-tester'' (''run-'' @ u);
          allowed_directory = posix_join run_directory ''allowed'';
          denied_directory = posix_join run_directory ''denied'';
          output_directory = posix_join run_directory ''output'';
          config_path = posix_join run_directory ''config.json''
      in \<lparr>gl_run_directory = run_directory,
          gl_allowed_directory = allowed_directory,
          gl_denied_directory = denied_directory,
          gl_output_directory = output_directory,
          gl_config_path = config_path,
          gl_config_json = build_config_json run_directory allowed_directory denied_directory
            output_directory username\<rparr>)"

definition create_sandbox_tester_run_layout :: "vm_host \<Rightarrow> string \<Rightarrow> guest_run_layout vm" where
  "create_sandbox_tester_run_layout h username =
     bind (ask (\<lambda>log. run_layout (vm_uuid h log ''run'') username)) (\<lambda>layout.
     let allowed_child_directory = posix_join (gl_allowed_directory layout) ''allowed'';
         denied_child_directory = posix_join (gl_denied_directory layout) ''denied''
     in andthen
       (with_sftp h (steps
         [mkdir_remote_directory h (gl_allowed_directory layout),
          mkdir_remote_directory h allowed_child_directory,
          mkdir_remote_directory h (gl_denied_directory layout),
          mkdir_remote_directory h denied_child_directory,
          mkdir_remote_directory h (gl_output_directory layout),
          write_remote_text h (posix_join allowed_child_directory ''allowed.txt'')
            (Plain_Text ''This is a test file for the allowed directory.''),
          write_remote_text h (posix_join denied_child_directory ''denied.txt'')
            (Plain_Text ''This is a test file for the denied directory.''),
          write_remote_text h (gl_config_path layout) (gl_config_json layout)]))
       (ret layout))"

section \<open>The configuration\<close>

lemma guest_keys_distinct: "distinct (map fst (guest_config r a d output username))"
proof -
  have "map fst (guest_config r a d output username) = map fst (guest_config [] [] [] [] [])"
    by (simp add: guest_config_def)
  also have "distinct \<dots>"
    unfolding guest_config_def list.map fst_conv by code_simp
  finally show ?thesis .
qed

lemmas guest_lookup =
  lookup_all [OF guest_keys_distinct guest_config_def, unfolded list.pred_inject prod.case]

lemma guest_no_arguments: "dict_get (guest_config r a d output username) ''browser_chromium_arguments'' = None"
  by (simp add: guest_config_def)

lemma guest_config_context:
  "\<exists>c. from_json_data (JObj (guest_config r a d output username)) = Inr c \<and>
    cx_working_directory c = path_of r \<and>
    cx_allowed_directory c = path_of a \<and>
    cx_denied_directory c = path_of d \<and>
    cx_output_directory c = Some (path_of output) \<and>
    cx_runtime_user_directory c = path_of (build_runtime_user_directory username) \<and>
    cx_operating_system c = LINUX \<and>
    cx_browser_chromium_arguments c = []"
  by (simp add: from_json_data_def json_get_def json_index_def json_get_default_def guest_lookup
      guest_no_arguments operating_system_of_def string_tuple_def)

section \<open>The layout\<close>

text \<open>The files a log writes on the guest.\<close>

fun files_of :: "vm_event list \<Rightarrow> (string \<times> file_content) list" where
  "files_of [] = []"
| "files_of (Remote_File p c # log) = (p, c) # files_of log"
| "files_of (e # log) = files_of log"

lemma files_of_append [simp]: "files_of (xs @ ys) = files_of xs @ files_of ys"
  by (induction xs rule: files_of.induct) simp_all

lemma files_of_dirs [simp]: "files_of (map Remote_Dir ds) = []"
  by (induction ds) simp_all

lemma layout_paths:
  assumes "CHR ''/'' \<notin> set u"
  shows "gl_run_directory (run_layout u name) = rooted [''tmp'', ''sandbox-tester'', ''run-'' @ u]"
    and "gl_allowed_directory (run_layout u name) = rooted [''tmp'', ''sandbox-tester'', ''run-'' @ u, ''allowed'']"
    and "gl_denied_directory (run_layout u name) = rooted [''tmp'', ''sandbox-tester'', ''run-'' @ u, ''denied'']"
    and "gl_output_directory (run_layout u name) = rooted [''tmp'', ''sandbox-tester'', ''run-'' @ u, ''output'']"
    and "gl_config_path (run_layout u name) = rooted [''tmp'', ''sandbox-tester'', ''run-'' @ u, ''config.json'']"
proof -
  let ?ws = "[''tmp'', ''sandbox-tester'', ''run-'' @ u]"
  have clean: "list_all clean ?ws" using assms by (simp add: clean_def)
  have "posix_join (rooted [''tmp'', ''sandbox-tester'']) (''run-'' @ u) = rooted ?ws"
    using assms join_rooted_file [of "[''tmp'', ''sandbox-tester'']" "''run-'' @ u"]
    by (simp add: clean_def)
  then show run: "gl_run_directory (run_layout u name) = rooted ?ws"
    by (simp add: run_layout_def rooted_def Let_def)
  have child: "posix_join (rooted ?ws) f = rooted (?ws @ [f])" if "clean f" for f
    by (rule join_rooted_file [OF _ clean that]) simp
  have parts: "gl_allowed_directory (run_layout u name) = posix_join (gl_run_directory (run_layout u name)) ''allowed''"
    "gl_denied_directory (run_layout u name) = posix_join (gl_run_directory (run_layout u name)) ''denied''"
    "gl_output_directory (run_layout u name) = posix_join (gl_run_directory (run_layout u name)) ''output''"
    "gl_config_path (run_layout u name) = posix_join (gl_run_directory (run_layout u name)) ''config.json''"
    by (simp_all add: run_layout_def Let_def)
  show "gl_allowed_directory (run_layout u name) = rooted [''tmp'', ''sandbox-tester'', ''run-'' @ u, ''allowed'']"
    and "gl_denied_directory (run_layout u name) = rooted [''tmp'', ''sandbox-tester'', ''run-'' @ u, ''denied'']"
    and "gl_output_directory (run_layout u name) = rooted [''tmp'', ''sandbox-tester'', ''run-'' @ u, ''output'']"
    and "gl_config_path (run_layout u name) = rooted [''tmp'', ''sandbox-tester'', ''run-'' @ u, ''config.json'']"
    unfolding parts run
    using child [of "''allowed''"] child [of "''denied''"] child [of "''output''"]
      child [of "''config.json''"]
    by (simp_all add: clean_def)
qed

lemma config_of_layout:
  "gl_config_json (run_layout u name) = Json_Text (JObj (guest_config
     (gl_run_directory (run_layout u name)) (gl_allowed_directory (run_layout u name))
     (gl_denied_directory (run_layout u name)) (gl_output_directory (run_layout u name)) name))"
  by (simp add: run_layout_def Let_def build_config_json_def)

lemma prepared_here:
  "rooted ws \<in> set ds \<Longrightarrow> ws \<noteq> [] \<Longrightarrow> clean f \<Longrightarrow> parent_of (rooted (ws @ [f])) \<in> set ds"
  by (simp add: parent_of_rooted)

text \<open>C7. The layout and the configuration agree: a successful run of the function writes exactly the
  two fixtures and the configuration, every one into a directory made before; the configuration is
  one that Sandbox Tester accepts, and the context it reads names the directories that hold the
  fixtures, the output directory that was made and a Linux system.\<close>

theorem layout_matches_configuration:
  assumes "create_sandbox_tester_run_layout h username log = (Inr layout, log')"
    and "CHR ''/'' \<notin> set (vm_uuid h log ''run'')"
  shows "\<exists>new data c. log' = log @ new \<and> prepared_from [] new \<and>
    gl_config_json layout = Json_Text data \<and> from_json_data data = Inr c \<and>
    files_of new =
      [(gl_allowed_directory layout @ ''/allowed/allowed.txt'',
          Plain_Text ''This is a test file for the allowed directory.''),
       (gl_denied_directory layout @ ''/denied/denied.txt'',
          Plain_Text ''This is a test file for the denied directory.''),
       (gl_config_path layout, gl_config_json layout)] \<and>
    cx_allowed_directory c = path_of (gl_allowed_directory layout) \<and>
    cx_denied_directory c = path_of (gl_denied_directory layout) \<and>
    cx_output_directory c = Some (path_of (gl_output_directory layout)) \<and>
    Remote_Dir (gl_output_directory layout) \<in> set new \<and>
    cx_operating_system c = LINUX"
proof -
  define u where "u = vm_uuid h log ''run''"
  define l where "l = run_layout u username"
  let ?run = "[''tmp'', ''sandbox-tester'', ''run-'' @ u]"
  note paths = layout_paths [OF assms(2), folded u_def, of username, folded l_def]
  have clean: "list_all clean ?run" using assms(2) by (simp add: clean_def u_def)
  have child: "posix_join (rooted (?run @ [a])) b = rooted (?run @ [a, b])" if "clean a" "clean b" for a b
    using join_rooted_file [of "?run @ [a]" b] clean that by simp
  have grandchild: "posix_join (rooted (?run @ [a, b])) f = rooted (?run @ [a, b, f])"
    if "clean a" "clean b" "clean f" for a b f
    using join_rooted_file [of "?run @ [a, b]" f] clean that by simp
  let ?mk = "\<lambda>ws. map Remote_Dir (remote_directories (rooted (?run @ ws)))"
  let ?allowed = "Remote_File (rooted (?run @ [''allowed'', ''allowed'', ''allowed.txt'']))
    (Plain_Text ''This is a test file for the allowed directory.'')"
  let ?denied = "Remote_File (rooted (?run @ [''denied'', ''denied'', ''denied.txt'']))
    (Plain_Text ''This is a test file for the denied directory.'')"
  let ?config = "Remote_File (rooted (?run @ [''config.json''])) (gl_config_json l)"
  let ?dirs = "?mk [''allowed''] @ ?mk [''allowed'', ''allowed''] @ ?mk [''denied''] @
    ?mk [''denied'', ''denied''] @ ?mk [''output'']"
  let ?new = "Sftp_Opened # ?dirs @ [?allowed, ?denied, ?config, Sftp_Closed]"
  have names: "clean ''allowed''" "clean ''denied''" "clean ''allowed.txt''" "clean ''denied.txt''"
    by code_simp+
  have layout: "layout = l" and log': "log' = log @ ?new"
    using assms(1) child [of "''allowed''" "''allowed''"] child [of "''denied''" "''denied''"]
      grandchild [of "''allowed''" "''allowed''" "''allowed.txt''"]
      grandchild [of "''denied''" "''denied''" "''denied.txt''"] names
    by (auto simp: create_sandbox_tester_run_layout_def bind_Inr ask_def andthen_Inr ret_Inr Let_def
        u_def [symmetric] l_def [symmetric] paths write_remote_text_def vm_success
        dest!: with_sftp_Inr mkdir_Inr)
  have made: "rooted (?run @ ws) \<in> set (remote_directories (rooted (?run @ ws)))"
    if "list_all clean ws" for ws
    using clean that by (intro remote_directories_last) simp_all
  have parents: "parent_of (rooted (?run @ [a, b, f])) = rooted (?run @ [a, b])"
    "parent_of (rooted (?run @ [f])) = rooted ?run" if "clean f" for a b f
    using that parent_of_rooted [of "?run @ [a, b]" f] parent_of_rooted [of ?run f] by simp_all
  have run_made: "rooted ?run \<in> set (remote_directories (rooted (?run @ [''allowed''])))"
    using clean names by (simp add: remote_directories_rooted)
  have "prepared_from ds [?allowed, ?denied, ?config, Sftp_Closed]"
    if "rooted (?run @ [''allowed'', ''allowed'']) \<in> set ds"
      "rooted (?run @ [''denied'', ''denied'']) \<in> set ds" "rooted ?run \<in> set ds" for ds
    using that parents names by (simp add: clean_def)
  from this [of "rev (concat (map (\<lambda>ws. remote_directories (rooted (?run @ ws)))
      [[''allowed''], [''allowed'', ''allowed''], [''denied''], [''denied'', ''denied''], [''output'']]))"]
  have "prepared_from [] (?dirs @ [?allowed, ?denied, ?config, Sftp_Closed])"
    using made [of "[''allowed'', ''allowed'']"] made [of "[''denied'', ''denied'']"] run_made names
    by (simp add: prepared_dirs)
  then have "prepared_from [] ?new" by simp
  moreover have "files_of ?new = [(gl_allowed_directory l @ ''/allowed/allowed.txt'',
          Plain_Text ''This is a test file for the allowed directory.''),
       (gl_denied_directory l @ ''/denied/denied.txt'',
          Plain_Text ''This is a test file for the denied directory.''),
       (gl_config_path l, gl_config_json l)]"
    by (simp add: paths) (simp add: rooted_def)
  moreover have "Remote_Dir (gl_output_directory l) \<in> set ?new"
    using made [of "[''output'']"] by (simp add: paths clean_def)
  moreover obtain c where "from_json_data (JObj (guest_config (gl_run_directory l) (gl_allowed_directory l)
      (gl_denied_directory l) (gl_output_directory l) username)) = Inr c"
    "cx_allowed_directory c = path_of (gl_allowed_directory l)"
    "cx_denied_directory c = path_of (gl_denied_directory l)"
    "cx_output_directory c = Some (path_of (gl_output_directory l))"
    "cx_operating_system c = LINUX"
    using guest_config_context by metis
  ultimately show ?thesis
    unfolding layout using log' config_of_layout [of u username, folded l_def] by blast
qed

theorem layout_matches_configuration_witness:
  "\<exists>layout log'. create_sandbox_tester_run_layout agreeable_host ''sandbox'' [] = (Inr layout, log') \<and>
    (''/tmp/sandbox-tester/run-0f/allowed/allowed/allowed.txt'',
      Plain_Text ''This is a test file for the allowed directory.'') \<in> set (files_of log')"
proof -
  have "returns (create_sandbox_tester_run_layout agreeable_host ''sandbox'')"
    unfolding create_sandbox_tester_run_layout_def Let_def write_remote_text_def
    by (intro returns_bind returns_ask returns_andthen returns_with_sftp returns_steps returns_ret
        agreeable_host) (simp add: mkdir_returns agreeable_returns agreeable_host)
  then obtain layout log' where
    run: "create_sandbox_tester_run_layout agreeable_host ''sandbox'' [] = (Inr layout, log')"
    unfolding returns_def by blast
  then have layout: "layout = run_layout ''0f'' ''sandbox''"
    by (auto simp: create_sandbox_tester_run_layout_def bind_Inr ask_def andthen_Inr ret_Inr Let_def
        agreeable_host_def)
  have uuid: "CHR ''/'' \<notin> set (vm_uuid agreeable_host [] ''run'')"
    by (simp add: agreeable_host_def)
  show ?thesis
    using run layout_matches_configuration [OF run uuid] layout_paths [of "''0f''" "''sandbox''"]
    by (auto simp: layout rooted_def)
qed

end
