(* ===== verification/Guest_Session.thy ===== *)
theory Guest_Session
  imports Guest_Layout Guest_Credentials Monitor
begin

text \<open>
  What a QEMU and a VirtualBox run do alike once the machine is up: reach the SSH server, run a
  command with \<open>sudo\<close>, read the screenshots of the tester and save the results. The two packages
  hold copies of this code; the definitions are translated from \<open>src/qemu_sandbox\<close>. The attempts
  to reach the server before the deadline are what the guest answers, as a list, because the
  deadline bounds their number; the client of an opened connection is the guest itself.
\<close>

section \<open>Reaching the guest\<close>

fun is_not_ready :: "py_error \<Rightarrow> bool" where
  "is_not_ready (SshNotReadyError _) = True"
| "is_not_ready (SSHException _) = True"
| "is_not_ready e = is_os_error e"

fun is_authentication_error :: "py_error \<Rightarrow> bool" where
  "is_authentication_error (AuthenticationException _) = True"
| "is_authentication_error _ = False"

text \<open>\<open>_wait_for_ssh_banner\<close> and \<open>_connect_ssh\<close> for one attempt.\<close>

definition wait_for_ssh_banner :: "vm_host \<Rightarrow> ssh_attempt \<Rightarrow> unit vm" where
  "wait_for_ssh_banner h a =
     andthen (note_event Ssh_Tried)
       (bind (lift_res (at_banner a)) (\<lambda>banner.
          if \<not> starts_with banner ''SSH-''
          then raise (SshNotReadyError (''Port is open but did not return an SSH banner: b'' @
            py_repr banner))
          else ret ()))"

definition connect_ssh :: "vm_host \<Rightarrow> ssh_attempt \<Rightarrow> unit vm" where
  "connect_ssh h a = andthen (lift_res (at_connect a)) (note_event Ssh_Opened)"

text \<open>\<open>while time.monotonic() < deadline\<close>: \<open>reach\<close> is the body of the \<open>try\<close>; a refused login is the
  exception \<open>refused\<close> where the code distinguishes it, and one more failed attempt where it does
  not.\<close>

fun ssh_loop ::
    "vm_host \<Rightarrow> (ssh_attempt \<Rightarrow> unit vm) \<Rightarrow> py_error option \<Rightarrow> (string \<Rightarrow> py_error) \<Rightarrow>
     ssh_attempt list \<Rightarrow> string \<Rightarrow> unit vm" where
  "ssh_loop h reach refused timed_out [] last_error = raise (timed_out last_error)"
| "ssh_loop h reach refused timed_out (a # as) last_error =
     catch (reach a) (\<lambda>e.
       if is_authentication_error e \<and> refused \<noteq> None then Some (raise (the refused))
       else if is_authentication_error e \<or> is_not_ready e
       then Some (andthen pause (ssh_loop h reach refused timed_out as (vm_error_text h e)))
       else None)"

definition reach_guest :: "vm_host \<Rightarrow> ssh_attempt \<Rightarrow> unit vm" where
  "reach_guest h a = andthen (wait_for_ssh_banner h a) (connect_ssh h a)"

definition client_close :: "vm_host \<Rightarrow> unit vm" where
  "client_close h = effect h Ssh_Closed"

definition run_sudo_command :: "vm_host \<Rightarrow> string \<Rightarrow> string \<Rightarrow> bool \<Rightarrow> unit vm" where
  "run_sudo_command h password command check =
     bind (remote_run h (sudo_command password command)) (\<lambda>completed.
       if \<not> check \<or> cp_returncode completed = 0 then ret ()
       else raise (remote_failure ''Remote sudo command'' command
         (completed\<lparr>cp_stdout := py_strip (cp_stdout completed),
                    cp_stderr := py_strip (cp_stderr completed)\<rparr>)))"

section \<open>Artifacts and results\<close>

definition basename :: "string \<Rightarrow> string" where
  "basename p = rev (takeWhile (\<lambda>c. c \<noteq> CHR ''/'') (rev p))"

fun read_screenshot_artifacts ::
    "vm_host \<Rightarrow> string list \<Rightarrow> (string, artifact) dict \<Rightarrow> (string, artifact) dict vm" where
  "read_screenshot_artifacts h [] artifacts = ret artifacts"
| "read_screenshot_artifacts h (p # ps) artifacts =
     bind (catch (bind (remote_read h p) (\<lambda>b. ret (Some b)))
        (\<lambda>e. if is_os_error e then Some (ret None) else None)) (\<lambda>screenshot_bytes.
       case screenshot_bytes of
         None \<Rightarrow> read_screenshot_artifacts h ps artifacts
       | Some b \<Rightarrow> read_screenshot_artifacts h ps
           (dict_set (basename p) (Bytes_Artifact b) artifacts))"

definition update_dict :: "('k, 'v) dict \<Rightarrow> ('k, 'v) dict \<Rightarrow> ('k, 'v) dict" where
  "update_dict d other = fold (\<lambda>(k, v). dict_set k v) other d"

definition write_text :: "vm_host \<Rightarrow> path \<Rightarrow> string \<Rightarrow> unit vm" where
  "write_text h p text = effect h (File_Written p (Plain_Text (text @ [CHR 0x0A])))"

definition write_artifacts :: "vm_host \<Rightarrow> path \<Rightarrow> (string, artifact) dict \<Rightarrow> unit vm" where
  "write_artifacts h run_directory artifacts =
     for_each artifacts (\<lambda>(file_name, content).
       let p = path_div run_directory file_name
       in case content of
            Bytes_Artifact b \<Rightarrow> effect h (Bytes_Written p b)
          | Text_Artifact t \<Rightarrow> write_text h p t)"

section \<open>Quiet operations\<close>

text \<open>A quiet event neither runs a program of the host nor touches a process of it, and removes no
  file.\<close>

fun quiet :: "vm_event \<Rightarrow> bool" where
  "quiet (Process_Started c) = False"
| "quiet Process_Terminated = False"
| "quiet Process_Polled = False"
| "quiet Process_Waited = False"
| "quiet Process_Killed = False"
| "quiet (File_Unlinked p) = False"
| "quiet (Program_Run c) = False"
| "quiet e = True"

lemmas event_intros = emits_intros each_event.catch each_event.for_each each_event.steps

lemma mkdir_quiet: "emits quiet (mkdir_remote_directory h p)"
  unfolding mkdir_remote_directory_def
  by (auto intro!: event_intros split: if_splits)

lemma upload_quiet: "emits quiet (write_remote_directory h source tree remote excluded)"
  unfolding write_remote_directory_def Let_def
  by (auto intro!: event_intros mkdir_quiet split: prod.split)

lemma agent_source_quiet: "emits quiet (write_remote_agent_source h profile)"
  unfolding write_remote_agent_source_def Let_def
  by (auto intro!: event_intros mkdir_quiet upload_quiet)

lemma command_quiet: "emits quiet (run_remote_command h c)"
  unfolding run_remote_command_def by (auto intro!: event_intros)

lemma agent_quiet: "emits quiet (run_python_agent h profile env)"
  unfolding run_python_agent_def Let_def write_remote_script_def create_virtual_environment_def
    install_dependencies_def run_post_install_commands_def execute_remote_script_def
  by (auto intro!: event_intros command_quiet agent_source_quiet)

lemma layout_quiet: "emits quiet (create_sandbox_tester_run_layout h username)"
  unfolding create_sandbox_tester_run_layout_def Let_def write_remote_text_def
  by (auto intro!: event_intros mkdir_quiet)

lemma reach_quiet: "emits quiet (reach_guest h a)"
  unfolding reach_guest_def wait_for_ssh_banner_def connect_ssh_def by (auto intro!: event_intros)

lemma ssh_loop_emits:
  assumes "\<And>a. emits P (reach a)" and "P Slept"
  shows "emits P (ssh_loop h reach refused timed_out as last_error)"
proof (induction as arbitrary: last_error)
  case Nil
  show ?case by (simp add: each_event.raise)
next
  case (Cons a as)
  then show ?case
    using assms unfolding ssh_loop.simps
    by (auto intro!: event_intros split: if_splits)
qed

lemma sudo_quiet: "emits quiet (run_sudo_command h password command check)"
  unfolding run_sudo_command_def by (auto intro!: event_intros)

lemma screenshots_quiet: "emits quiet (read_screenshot_artifacts h ps artifacts)"
proof (induction ps arbitrary: artifacts)
  case Nil
  show ?case by (simp add: each_event.ret)
next
  case (Cons p ps)
  have "emits quiet (catch (bind (remote_read h p) (\<lambda>b. ret (Some b)))
      (\<lambda>e. if is_os_error e then Some (ret None) else None))"
    by (auto intro!: event_intros split: if_splits)
  with Cons.IH show ?case
    by (auto intro!: event_intros split: option.split)
qed

lemma credentials_quiet: "emits quiet (load_or_create_guest_credentials h d user)"
  unfolding load_or_create_guest_credentials_def read_guest_credentials_def
    write_guest_credentials_def Let_def
  by (auto intro!: event_intros)

lemma write_artifacts_quiet: "emits quiet (write_artifacts h d artifacts)"
  unfolding write_artifacts_def write_text_def Let_def
  by (auto intro!: event_intros split: artifact.split prod.split)

end
