(* ===== verification/Qemu_Run.thy ===== *)
theory Qemu_Run
  imports Qemu_Machine Guest_Session
begin

text \<open>
  A QEMU run from the command line to the exit code: \<open>src/qemu_sandbox/virtual_machine_setup.py\<close>,
  \<open>run_results.py\<close> and \<open>cli.py\<close>. The parsed arguments are the input; \<open>argparse\<close> is not
  modelled.
\<close>

section \<open>Reaching the guest\<close>

definition wait_for_ssh :: "vm_host \<Rightarrow> guest_credentials \<Rightarrow> unit vm" where
  "wait_for_ssh h credentials =
     bind (ask (vm_ssh h)) (\<lambda>attempts.
       ssh_loop h (reach_guest h)
         (Some (RuntimeError (''SSH is reachable, but authentication failed for user '' @
           [CHR 0x27] @ gc_user credentials @ [CHR 0x27] @ ''.'')))
         (\<lambda>last_error. RuntimeError (''Timed out waiting for SSH on QEMU VM: '' @ last_error))
         attempts ''None'')"

section \<open>Setup\<close>

record qemu_setup =
  qs_ssh_host :: string
  qs_ssh_port :: int
  qs_credentials :: guest_credentials
  qs_agent_name :: "string option"
  qs_agent_verbose :: bool
  qs_agent_serialize_evidence :: bool

definition resolve_openai_environment_variables :: "vm_host \<Rightarrow> (string, string) dict" where
  "resolve_openai_environment_variables h =
     (case vm_environ h ''OPENAI_API_KEY'' of
        None \<Rightarrow> [] | Some v \<Rightarrow> dict_set ''OPENAI_API_KEY'' v [])"

text \<open>The environment and the layout the object remembers.\<close>

definition prepare_agent_environment ::
    "vm_host \<Rightarrow> qemu_setup \<Rightarrow> ((string, string) dict \<times> guest_run_layout option) vm" where
  "prepare_agent_environment h s =
     (let environment_variables = resolve_openai_environment_variables h
      in if qs_agent_name s \<noteq> Some ''sandbox_tester'' then ret (environment_variables, None)
         else bind (create_sandbox_tester_run_layout h (gc_user (qs_credentials s))) (\<lambda>layout.
           let with_config = dict_set ''SANDBOX_TESTER_CONFIG_PATH'' (gl_config_path layout)
                 environment_variables;
               with_verbose = (if qs_agent_verbose s
                 then dict_set ''SANDBOX_TESTER_VERBOSE'' ''1'' with_config else with_config);
               with_evidence = (if qs_agent_serialize_evidence s
                 then dict_set ''SANDBOX_TESTER_SERIALIZE_EVIDENCE'' ''1'' with_verbose
                 else with_verbose)
           in ret (with_evidence, Some layout)))"

definition download_agent_artifacts ::
    "vm_host \<Rightarrow> string option \<Rightarrow> guest_run_layout option \<Rightarrow> guest_script_result \<Rightarrow>
     guest_script_result vm" where
  "download_agent_artifacts h agent_name remembered result =
     (case remembered of
        None \<Rightarrow> ret result
      | Some layout \<Rightarrow>
     if agent_name \<noteq> Some ''sandbox_tester'' then ret result
     else
     let output = gl_output_directory layout;
         report_path = output @ ''/report.json'';
         screenshot_paths = [output @ ''/browser_screenshot.png'',
           output @ ''/playwright_shell_screenshot.png'', output @ ''/playwright_tool_screenshot.png'']
     in bind (with_sftp h
         (bind (catch
            (bind (remote_read h report_path) (\<lambda>report_bytes.
             bind (remote_read h (gl_config_path layout)) (\<lambda>config_bytes.
               ret (Some (report_bytes, config_bytes)))))
            (\<lambda>e. if is_os_error e
              then Some (if gs_exit_code result = 0
                then raise (FileNotFoundError (''Sandbox Tester completed successfully, but guest '' @
                  ''artifacts were not found below '' @ report_path @ ''.''))
                else ret None)
              else None)) (\<lambda>read. case read of
            None \<Rightarrow> ret None
          | Some (report_bytes, config_bytes) \<Rightarrow>
              bind (read_screenshot_artifacts h screenshot_paths []) (\<lambda>screenshots.
                ret (Some (report_bytes, config_bytes, screenshots)))))) (\<lambda>downloaded.
         case downloaded of
           None \<Rightarrow> ret result
         | Some (report_bytes, config_bytes, screenshots) \<Rightarrow>
             ret (result\<lparr>gs_artifacts := update_dict
               (dict_set ''config.json'' (Text_Artifact (vm_decode h config_bytes))
                 (dict_set ''report.json'' (Text_Artifact (vm_decode h report_bytes))
                   (gs_artifacts result))) screenshots\<rparr>)))"

definition setup_guest :: "vm_host \<Rightarrow> path \<Rightarrow> qemu_setup \<Rightarrow> guest_script_result vm" where
  "setup_guest h repository_root s =
     andthen (message (''Waiting for SSH on disposable QEMU VM at '' @ qs_ssh_host s @ '':'' @
       str_int (qs_ssh_port s) @ ''.''))
     (andthen (wait_for_ssh h (qs_credentials s))
       (try_finally
         (case qs_agent_name s of
            None \<Rightarrow> raise (ValueError ''QEMU sandbox currently requires --agent.'')
          | Some agent_name \<Rightarrow>
              bind (lift_res (get_python_agent_profile repository_root agent_name)) (\<lambda>profile.
              bind (prepare_agent_environment h s) (\<lambda>(environment_variables, layout).
              bind (run_python_agent h profile (Some environment_variables)) (\<lambda>result.
                download_agent_artifacts h (Some agent_name) layout result))))
         (client_close h)))"

definition shutdown :: "vm_host \<Rightarrow> qemu_setup \<Rightarrow> unit vm" where
  "shutdown h s =
     andthen (wait_for_ssh h (qs_credentials s))
       (try_finally (run_sudo_command h (gc_password (qs_credentials s)) ''shutdown now'' False)
         (client_close h))"

section \<open>Results\<close>

definition create_metadata_data :: "string \<Rightarrow> qemu_run_result \<Rightarrow> json" where
  "create_metadata_data now r =
     (let str_or_None = (\<lambda>p. case p of None \<Rightarrow> JStr ''None'' | Some q \<Rightarrow> JStr (path_str q))
      in JObj [(''timestamp_utc'', JStr now),
         (''base_image_path'', JStr (path_str (qr_base_image_path r))),
         (''qemu_path'', str_or_None (qr_qemu_path r)),
         (''run_disk_path'', str_or_None (qr_run_disk_path r)),
         (''ssh_host'', json_opt_str (qr_ssh_host r)),
         (''ssh_port'', case qr_ssh_port r of None \<Rightarrow> JNull | Some n \<Rightarrow> JInt n),
         (''command'', case qr_command r of None \<Rightarrow> JNull | Some c \<Rightarrow> JList (map JStr c))])"

definition save_run_results ::
    "vm_host \<Rightarrow> path \<Rightarrow> qemu_run_result \<Rightarrow> guest_script_result \<Rightarrow> unit vm" where
  "save_run_results h run_directory run_result script_result =
     steps
       [effect h (Dir_Made run_directory),
        write_text h (path_div run_directory ''stdout.txt'') (gs_stdout script_result),
        write_text h (path_div run_directory ''stderr.txt'') (gs_stderr script_result),
        write_artifacts h run_directory (gs_artifacts script_result),
        bind (ask (vm_clock h)) (\<lambda>now. effect h (File_Written (path_div run_directory ''run-metadata.json'')
          (Json_Text (create_metadata_data now run_result))))]"

section \<open>The command line\<close>

record qemu_arguments =
  qa_base_directory :: path
  qa_base_image :: "path option"
  qa_kernel :: "path option"
  qa_initrd :: "path option"
  qa_kernel_append :: "string option"
  qa_qemu :: path
  qa_machine :: string
  qa_accelerator :: string
  qa_cpu :: string
  qa_memory_mb :: int
  qa_cpus :: int
  qa_guest_user :: string
  qa_keep_vm :: bool
  qa_agent :: string
  qa_verbose :: bool
  qa_serialize_evidence :: bool

definition default_qemu_arguments :: qemu_arguments where
  "default_qemu_arguments = \<lparr>
     qa_base_directory = path_of ''.qemu_sandbox'',
     qa_base_image = None,
     qa_kernel = None,
     qa_initrd = None,
     qa_kernel_append = None,
     qa_qemu = path_of ''qemu-system-x86_64'',
     qa_machine = ''q35'',
     qa_accelerator = ''auto'',
     qa_cpu = ''qemu64'',
     qa_memory_mb = 4096,
     qa_cpus = 2,
     qa_guest_user = ''sandbox'',
     qa_keep_vm = False,
     qa_agent = ''sandbox_tester'',
     qa_verbose = False,
     qa_serialize_evidence = False\<rparr>"

definition resolve_asset_path :: "vm_host \<Rightarrow> path \<Rightarrow> path option \<Rightarrow> path \<Rightarrow> path vm" where
  "resolve_asset_path h base_directory configured_path default_relative_path =
     (case configured_path of
        Some p \<Rightarrow> resolved h p
      | None \<Rightarrow> vm_question (\<lambda>log. vm_resolve h log (path_join base_directory default_relative_path)))"

definition resolve_kernel_append :: "string option \<Rightarrow> string" where
  "resolve_kernel_append configured_kernel_append =
     (case configured_kernel_append of
        Some text \<Rightarrow> text
      | None \<Rightarrow> ''earlyprintk=ttyS0 console=ttyS0 '' @
          ''root=UUID=37d79bb1-1898-41f4-8dd5-8d76bd6102b7 '' @ ''rw rootwait reboot=t'')"

definition configuration_from_arguments :: "vm_host \<Rightarrow> qemu_arguments \<Rightarrow> qemu_configuration vm" where
  "configuration_from_arguments h a =
     bind (vm_question (\<lambda>log. vm_resolve h log (qa_base_directory a))) (\<lambda>base_directory.
     bind (resolve_asset_path h base_directory (qa_base_image a)
       (path_of ''ubuntu-24.04-sandbox-base-16g.compact.qcow2'')) (\<lambda>base_image_path.
     bind (resolve_asset_path h base_directory (qa_kernel a) (path_of ''kernel/vmlinuz'')) (\<lambda>kernel_path.
     bind (resolve_asset_path h base_directory (qa_initrd a) (path_of ''kernel/initrd.img'')) (\<lambda>initrd_path.
     bind (load_or_create_guest_credentials h base_directory (qa_guest_user a)) (\<lambda>credentials.
       ret \<lparr>qc_base_directory = base_directory,
            qc_base_image_path = base_image_path,
            qc_kernel_path = Some kernel_path,
            qc_initrd_path = Some initrd_path,
            qc_kernel_append = Some (resolve_kernel_append (qa_kernel_append a)),
            qc_qemu_path = qa_qemu a,
            qc_guest_credentials = credentials,
            qc_machine = qa_machine a,
            qc_accelerator = qa_accelerator a,
            qc_cpu = qa_cpu a,
            qc_memory_megabytes = qa_memory_mb a,
            qc_cpu_count = qa_cpus a\<rparr>)))))"

definition print_result :: "qemu_run_result \<Rightarrow> unit vm" where
  "print_result r =
     (case qr_status r of
        QEMU_MISSING \<Rightarrow> message ''qemu-system-x86_64 was not found.''
      | BASE_IMAGE_MISSING \<Rightarrow>
          message (''Base QEMU image was not found: '' @ path_str (qr_base_image_path r))
      | STARTED \<Rightarrow> message (''Started disposable QEMU VM using disk: '' @
          (case qr_run_disk_path r of None \<Rightarrow> ''None'' | Some p \<Rightarrow> path_str p)))"

text \<open>The two branches of the \<open>finally\<close> block.\<close>

definition leave_run :: "vm_host \<Rightarrow> qemu_setup \<Rightarrow> qemu_run_result \<Rightarrow> bool \<Rightarrow> int \<Rightarrow> unit vm" where
  "leave_run h s result keep_vm ssh_port =
     (if keep_vm then message (''Kept disposable QEMU VM on port '' @ str_int ssh_port @ ''.'')
      else andthen (try_finally (shutdown h s) (stop_and_remove_qemu_run h result))
        (message ''Stopped and removed disposable QEMU VM.''))"

definition run_agent :: "vm_host \<Rightarrow> path \<Rightarrow> qemu_setup \<Rightarrow> qemu_run_result \<Rightarrow> path \<Rightarrow> unit vm" where
  "run_agent h repository_root s result run_directory =
     bind (setup_guest h repository_root s) (\<lambda>setup_result.
     andthen (save_run_results h run_directory result setup_result)
       (steps ([message (''Remote Python probe completed with exit code '' @
           str_int (gs_exit_code setup_result) @ ''.''),
         message (''Run results saved to: '' @ path_str run_directory),
         message (''Remote stdout saved to: '' @ path_str (path_div run_directory ''stdout.txt''))] @
         (if gs_stderr setup_result \<noteq> []
          then [message (''Remote stderr saved to: '' @ path_str (path_div run_directory ''stderr.txt''))]
          else []))))"

definition setup_run_if_started ::
    "vm_host \<Rightarrow> path \<Rightarrow> qemu_run_result \<Rightarrow> qemu_configuration \<Rightarrow> qemu_arguments \<Rightarrow> unit vm" where
  "setup_run_if_started h repository_root result c a =
     (case qr_run_directory result of
        None \<Rightarrow> raise (RuntimeError ''QEMU run result did not include a run directory.'')
      | Some run_directory \<Rightarrow>
     (case (qr_ssh_host result, qr_ssh_port result) of
        (Some ssh_host, Some ssh_port) \<Rightarrow>
          let s = \<lparr>qs_ssh_host = ssh_host, qs_ssh_port = ssh_port,
                qs_credentials = qc_guest_credentials c, qs_agent_name = Some (qa_agent a),
                qs_agent_verbose = qa_verbose a,
                qs_agent_serialize_evidence = qa_serialize_evidence a\<rparr>
          in try_finally (run_agent h repository_root s result run_directory)
               (leave_run h s result (qa_keep_vm a) ssh_port)
      | _ \<Rightarrow> raise (RuntimeError ''QEMU run result did not include SSH connection details.'')))"

definition exit_code_from_result :: "qemu_run_result \<Rightarrow> int" where
  "exit_code_from_result r = (if qr_status r = STARTED then 0 else 1)"

definition qemu_main :: "vm_host \<Rightarrow> path \<Rightarrow> qemu_arguments \<Rightarrow> int vm" where
  "qemu_main h repository_root a =
     bind (configuration_from_arguments h a) (\<lambda>c.
     bind (create_qemu_run h c) (\<lambda>result.
     andthen (print_result result)
     (if qr_status result \<noteq> STARTED then ret (exit_code_from_result result)
      else andthen (setup_run_if_started h repository_root result c a)
        (ret (exit_code_from_result result)))))"

section \<open>The machine is not left running\<close>

text \<open>\<open>machine_left h log\<close>: at the end of the log a machine that was started has neither been asked to
  terminate nor been seen to have ended.\<close>

fun machine_step :: "vm_host \<Rightarrow> vm_event list \<Rightarrow> bool \<Rightarrow> vm_event \<Rightarrow> bool" where
  "machine_step h past running (Process_Started c) = (vm_fault h past (Process_Started c) = None)"
| "machine_step h past running Process_Terminated = False"
| "machine_step h past running Process_Polled = (running \<and> vm_poll h past = None)"
| "machine_step h past running e = running"

fun inert :: "vm_event \<Rightarrow> bool" where
  "inert (Process_Started c) = False"
| "inert Process_Terminated = False"
| "inert Process_Polled = False"
| "inert (File_Unlinked p) = False"
| "inert e = True"

definition neutral :: "vm_event \<Rightarrow> bool" where
  "neutral e \<longleftrightarrow> inert e \<or> (\<exists>p. e = File_Unlinked p)"

lemma neutral_step: "neutral e \<Longrightarrow> machine_step h past running e = running"
  by (cases e) (simp_all add: neutral_def)

interpretation machine: monitor "machine_step h" "\<lambda>running. running" neutral for h
  by unfold_locales (rule neutral_step)

abbreviation machine_left :: "vm_host \<Rightarrow> vm_event list \<Rightarrow> bool" where
  "machine_left h log \<equiv> monitor_state (machine_step h) False log"

lemmas triple_inert = machine.triple_neutral [where initial = False]
lemmas inert_intros = event_intros

lemma inert_neutral: "emits inert m \<Longrightarrow> emits neutral m"
  by (erule emits_mono) (simp add: neutral_def)

lemma quiet_inert: "emits quiet m \<Longrightarrow> emits inert m"
  by (erule emits_mono) (case_tac e; simp)

lemma wait_quiet: "emits quiet (wait_for_ssh h credentials)"
  unfolding wait_for_ssh_def by (auto intro!: event_intros ssh_loop_emits reach_quiet)

lemma download_quiet: "emits quiet (download_agent_artifacts h agent layout result)"
  unfolding download_agent_artifacts_def Let_def
  by (auto intro!: event_intros screenshots_quiet split: option.split prod.split if_splits)

lemma environment_quiet: "emits quiet (prepare_agent_environment h s)"
  unfolding prepare_agent_environment_def Let_def by (auto intro!: event_intros layout_quiet)

lemma setup_quiet: "emits quiet (setup_guest h root s)"
  unfolding setup_guest_def client_close_def
  by (auto intro!: event_intros wait_quiet environment_quiet agent_quiet download_quiet
      split: option.split prod.split)

lemma shutdown_inert: "emits inert (shutdown h s)"
  unfolding shutdown_def client_close_def
  by (rule quiet_inert) (auto intro!: event_intros wait_quiet sudo_quiet)

lemma save_quiet: "emits quiet (save_run_results h d result script_result)"
  unfolding save_run_results_def by (auto intro!: event_intros write_artifacts_quiet simp: write_text_def)

lemma run_agent_inert: "emits inert (run_agent h root s result d)"
  unfolding run_agent_def by (rule quiet_inert) (auto intro!: event_intros setup_quiet save_quiet)

lemma configuration_inert: "emits inert (configuration_from_arguments h a)"
  unfolding configuration_from_arguments_def resolve_asset_path_def
  by (rule quiet_inert) (auto intro!: event_intros credentials_quiet split: option.split)

lemma find_inert: "emits inert (find_qemu h p)"
  unfolding find_qemu_def Let_def by (auto intro!: inert_intros split: option.split list.split)

lemma accelerator_inert: "emits inert (resolve_accelerator h p accelerator)"
  unfolding resolve_accelerator_def get_supported_accelerators_def by (auto intro!: inert_intros)

lemma remove_disk_neutral: "emits neutral (remove_run_disk h result)"
  unfolding remove_run_disk_def by (auto intro!: inert_intros simp: neutral_def split: option.split)

lemma print_inert: "emits inert (print_result result)"
  unfolding print_result_def by (auto intro!: inert_intros split: qemu_run_status.split)

text \<open>\<open>settled\<close>: no machine is left running.\<close>

abbreviation settled :: "vm_host \<Rightarrow> vm_event list \<Rightarrow> bool" where
  "settled h log \<equiv> \<not> machine_left h log"

lemma keeps_settled: "emits inert m \<Longrightarrow> triple (settled h) m (\<lambda>_. settled h) (\<lambda>_. settled h)"
  by (rule triple_inert [OF inert_neutral, where P = Not])

lemma stop_settles:
  "triple (\<lambda>log. machine_left h log \<longrightarrow> qr_process result) (stop_qemu_run h result)
     (\<lambda>_. settled h) (\<lambda>_. settled h)"
proof (cases "qr_process result")
  case False
  then show ?thesis by (simp add: stop_qemu_run_def triple_def ret_def)
next
  case True
  have wait: "emits inert (catch (effect h Process_Waited) (\<lambda>e. if is_timeout e
      then Some (andthen (effect h Process_Killed) (effect h Process_Waited)) else None))"
    by (auto intro!: inert_intros split: if_splits)
  have "triple (\<lambda>_. True) (effect h Process_Terminated) (\<lambda>_. settled h) (\<lambda>_. settled h)"
    by (simp add: triple_def effect_def split: option.split)
  then have terminate: "triple (\<lambda>_. True) (andthen (effect h Process_Terminated)
      (catch (effect h Process_Waited) (\<lambda>e. if is_timeout e
        then Some (andthen (effect h Process_Killed) (effect h Process_Waited)) else None)))
      (\<lambda>_. settled h) (\<lambda>_. settled h)"
    by (rule triple_andthen) (rule keeps_settled [OF wait])
  have poll: "triple (\<lambda>_. True) (poll h) (\<lambda>exit_code log. exit_code \<noteq> None \<longrightarrow> settled h log)
      (\<lambda>_. settled h)"
    by (simp add: triple_def poll_def)
  have "triple (\<lambda>_. True) (bind (poll h) (\<lambda>exit_code. case exit_code of Some _ \<Rightarrow> ret ()
      | None \<Rightarrow> andthen (effect h Process_Terminated)
          (catch (effect h Process_Waited) (\<lambda>e. if is_timeout e
            then Some (andthen (effect h Process_Killed) (effect h Process_Waited)) else None))))
      (\<lambda>_. settled h) (\<lambda>_. settled h)"
  proof (rule triple_bind [OF poll])
    fix exit_code :: "int option"
    show "triple (\<lambda>log. exit_code \<noteq> None \<longrightarrow> settled h log) (case exit_code of Some _ \<Rightarrow> ret ()
      | None \<Rightarrow> andthen (effect h Process_Terminated)
          (catch (effect h Process_Waited) (\<lambda>e. if is_timeout e
            then Some (andthen (effect h Process_Killed) (effect h Process_Waited)) else None)))
      (\<lambda>_. settled h) (\<lambda>_. settled h)"
      by (cases exit_code) (simp_all add: terminate triple_ret)
  qed
  then have "triple (\<lambda>_. True) (stop_qemu_run h result) (\<lambda>_. settled h) (\<lambda>_. settled h)"
    using True by (simp add: stop_qemu_run_def)
  then show ?thesis by (rule triple_weaken) simp_all
qed

definition started_fully :: "qemu_run_result \<Rightarrow> bool" where
  "started_fully r \<longleftrightarrow> qr_status r = STARTED \<and> qr_process r \<and> qr_run_directory r \<noteq> None \<and>
     qr_ssh_host r \<noteq> None \<and> qr_ssh_port r \<noteq> None"

lemma start_settles:
  "triple (settled h) (start_qemu h c qemu_path)
     (\<lambda>r log. machine_left h log \<longrightarrow> started_fully r) (\<lambda>_. settled h)"
proof -
  have started: "triple (settled h) (effect h (Process_Started command)) (\<lambda>_ _. True) (\<lambda>_. settled h)"
    for command
    by (simp add: triple_def effect_def split: option.split)
  have ask: "triple (\<lambda>_. True) (bind (poll h) (\<lambda>exit_code. case exit_code of
      Some n \<Rightarrow> raise (RuntimeError (''QEMU exited immediately with exit code '' @ str_int n @ ''.''))
    | None \<Rightarrow> ret r)) (\<lambda>r log. machine_left h log \<longrightarrow> started_fully r) (\<lambda>_. settled h)"
    if "started_fully r" for r
    using that by (simp add: triple_def bind_def poll_def raise_def ret_def split: option.split)
  have slept: "triple (\<lambda>_. True) pause (\<lambda>_ _. True) (\<lambda>_. settled h)"
    by (simp add: triple_def pause_def)
  have poll: "triple (\<lambda>_. True) (andthen pause (bind (poll h) (\<lambda>exit_code. case exit_code of
      Some n \<Rightarrow> raise (RuntimeError (''QEMU exited immediately with exit code '' @ str_int n @ ''.''))
    | None \<Rightarrow> ret r))) (\<lambda>r log. machine_left h log \<longrightarrow> started_fully r) (\<lambda>_. settled h)"
    if "started_fully r" for r
    by (rule triple_andthen [OF slept ask [OF that]])
  show ?thesis
    unfolding start_qemu_def Let_def
    by (intro triple_bind [OF keeps_settled] triple_andthen [OF keeps_settled]
        triple_andthen [OF started] poll inert_intros) (simp_all add: started_fully_def)
qed

lemma create_settles:
  "triple (settled h) (create_qemu_run h c)
     (\<lambda>r log. machine_left h log \<longrightarrow> started_fully r) (\<lambda>_. settled h)"
  unfolding create_qemu_run_def
proof (rule triple_bind [OF keeps_settled [OF find_inert]])
  fix found :: "path option"
  show "triple (settled h) (case found of
       None \<Rightarrow> ret (new_qemu_run_result QEMU_MISSING (qc_base_image_path c))
     | Some qemu_path \<Rightarrow>
         bind (ask (\<lambda>log. vm_exists h log (qc_base_image_path c))) (\<lambda>exists.
         if \<not> exists then ret ((new_qemu_run_result BASE_IMAGE_MISSING (qc_base_image_path c))
           \<lparr>qr_qemu_path := Some qemu_path\<rparr>)
         else bind (resolve_accelerator h qemu_path (qc_accelerator c)) (\<lambda>accelerator.
           start_qemu h (c\<lparr>qc_accelerator := accelerator\<rparr>) qemu_path)))
     (\<lambda>r log. machine_left h log \<longrightarrow> started_fully r) (\<lambda>_. settled h)"
    by (auto intro!: triple_ret triple_bind [OF keeps_settled] accelerator_inert each_event.ask
        start_settles split: option.split)
qed

lemma leave_settles:
  "triple (\<lambda>log. machine_left h log \<longrightarrow> qr_process result) (leave_run h s result False port)
     (\<lambda>_. settled h) (\<lambda>_. settled h)"
proof -
  let ?P = "\<lambda>log. machine_left h log \<longrightarrow> qr_process result"
  have shutdown: "triple ?P (shutdown h s) (\<lambda>_. ?P) (\<lambda>_. ?P)"
    by (rule triple_inert [OF inert_neutral [OF shutdown_inert], where P = "\<lambda>b. b \<longrightarrow> qr_process result"])
  have stop: "triple ?P (stop_and_remove_qemu_run h result) (\<lambda>_. settled h) (\<lambda>_. settled h)"
    unfolding stop_and_remove_qemu_run_def
    by (rule triple_andthen [OF stop_settles triple_inert [OF remove_disk_neutral, where P = Not]])
  have "triple ?P (try_finally (shutdown h s) (stop_and_remove_qemu_run h result))
      (\<lambda>_. settled h) (\<lambda>_. settled h)"
    by (rule triple_finally [OF shutdown stop stop])
  then show ?thesis
    unfolding leave_run_def by (auto intro!: triple_andthen keeps_settled inert_intros)
qed

text \<open>C5. However a QEMU run without \<open>--keep-vm\<close> ends - with an exit code, with an exception of the
  setup, of the upload, of the tester's commands, of saving the results or of the shutdown - the
  machine that was started has been seen to have ended or has been asked to terminate, whatever
  the host and the guest answer.\<close>

theorem qemu_machine_not_left:
  assumes "\<not> qa_keep_vm a" and "settled h log"
  shows "settled h (snd (qemu_main h root a log))"
proof -
  have inner: "triple (\<lambda>log. machine_left h log \<longrightarrow> started_fully result)
      (if qr_status result \<noteq> STARTED then ret (exit_code_from_result result)
       else andthen (setup_run_if_started h root result c a) (ret (exit_code_from_result result)))
      (\<lambda>_. settled h) (\<lambda>_. settled h)" for result c
  proof (cases "started_fully result")
    case False
    have "triple (settled h) (setup_run_if_started h root result c a)
        (\<lambda>_. settled h) (\<lambda>_. settled h)"
      unfolding setup_run_if_started_def Let_def using assms(1)
      by (auto intro!: triple_raise triple_finally [OF keeps_settled [OF run_agent_inert]]
          triple_weaken [OF leave_settles] split: option.split)
    with False show ?thesis by (auto intro!: triple_ret triple_andthen)
  next
    case True
    have leave: "triple (\<lambda>_. True) (leave_run h s result False port) (\<lambda>_. settled h) (\<lambda>_. settled h)"
      for s port
      by (rule triple_weaken [OF leave_settles]) (use True in \<open>simp_all add: started_fully_def\<close>)
    have "triple (\<lambda>_. True) (setup_run_if_started h root result c a) (\<lambda>_. settled h) (\<lambda>_. settled h)"
      unfolding setup_run_if_started_def Let_def using assms(1) True
      by (auto simp: started_fully_def intro!: triple_finally [OF triple_any leave leave])
    then have "triple (\<lambda>_. True) (andthen (setup_run_if_started h root result c a)
        (ret (exit_code_from_result result))) (\<lambda>_. settled h) (\<lambda>_. settled h)"
      by (auto intro!: triple_andthen triple_ret)
    with True show ?thesis
      by (auto simp: started_fully_def intro: triple_weaken)
  qed
  have print: "triple (\<lambda>log. machine_left h log \<longrightarrow> started_fully result) (print_result result)
      (\<lambda>_ log. machine_left h log \<longrightarrow> started_fully result) (\<lambda>_. settled h)" for result
    by (cases "qr_status result") (simp_all add: triple_def print_result_def message_def)
  have "triple (settled h) (qemu_main h root a) (\<lambda>_. settled h) (\<lambda>_. settled h)"
    unfolding qemu_main_def
    by (rule triple_bind [OF keeps_settled [OF configuration_inert]], rule triple_bind [OF create_settles],
        rule triple_andthen [OF print inner])
  with assms(2) show ?thesis
    unfolding triple_def by (cases "qemu_main h root a log") (auto split: sum.splits)
qed

theorem qemu_machine_not_left_witness:
  "settled agreeable_host (snd (qemu_main agreeable_host (path_of ''/repository'') default_qemu_arguments []))"
  by (rule qemu_machine_not_left) (simp_all add: default_qemu_arguments_def monitor_Nil)

section \<open>What is removed\<close>

text \<open>A removed file resolves strictly inside what the run directory of this invocation resolves to.\<close>

fun unlinks_inside :: "vm_host \<Rightarrow> path \<Rightarrow> vm_event \<Rightarrow> bool" where
  "unlinks_inside h base (File_Unlinked p) = (\<exists>l l' b timestamp d.
     vm_resolve h l base = Inr b \<and>
     vm_resolve h l' (path_div (path_div b ''runs'') (''run-'' @ timestamp)) = Inr d \<and>
     in_parents d p)"
| "unlinks_inside h base e = True"

lemma inert_unlinks: "emits inert m \<Longrightarrow> emits (unlinks_inside h base) m"
  by (erule emits_mono) (case_tac e; simp)

lemma configuration_base:
  "configuration_from_arguments h a log = (Inr c, log') \<Longrightarrow>
   \<exists>l. vm_resolve h l (qa_base_directory a) = Inr (qc_base_directory c)"
  by (auto simp: configuration_from_arguments_def bind_Inr vm_success ret_Inr)

lemma start_directory:
  "start_qemu h c qemu_path log = (Inr r, log') \<Longrightarrow>
   \<exists>timestamp. qr_run_directory r = Some (qemu_run_directory c timestamp)"
  by (auto simp: start_qemu_def Let_def bind_Inr andthen_Inr ask_def ret_Inr raise_Inr vm_success
      lift_res_Inr split: option.splits)

lemma create_directory:
  assumes "create_qemu_run h c log = (Inr r, log')"
  shows "qr_run_directory r = None \<or> (\<exists>timestamp. qr_run_directory r = Some (qemu_run_directory c timestamp))"
proof -
  have "qemu_run_directory (c\<lparr>qc_accelerator := x\<rparr>) timestamp = qemu_run_directory c timestamp"
    for x timestamp
    by (simp add: qemu_run_directory_def)
  with assms show ?thesis
    by (auto simp: create_qemu_run_def bind_Inr ret_Inr ask_def new_qemu_run_result_def
        split: option.splits if_splits dest!: start_directory) blast
qed

lemma start_unlinks: "emits (unlinks_inside h base) (start_qemu h c qemu_path)"
  unfolding start_qemu_def Let_def by (auto intro!: inert_intros split: option.split)

lemma create_unlinks: "emits (unlinks_inside h base) (create_qemu_run h c)"
  unfolding create_qemu_run_def
  by (auto intro!: inert_intros start_unlinks inert_unlinks [OF find_inert]
      inert_unlinks [OF accelerator_inert] split: option.split)

lemma stop_unlinks: "emits (unlinks_inside h base) (stop_qemu_run h result)"
  unfolding stop_qemu_run_def by (auto intro!: inert_intros split: option.split if_splits)

lemma remove_unlinks:
  assumes "vm_resolve h l base = Inr b"
    and "\<forall>d. qr_run_directory result = Some d \<longrightarrow>
      (\<exists>timestamp. d = path_div (path_div b ''runs'') (''run-'' @ timestamp))"
  shows "emits (unlinks_inside h base) (remove_run_disk h result)"
proof (cases "(qr_run_directory result, qr_run_disk_path result)")
  case (Pair run disk)
  show ?thesis
  proof (cases "\<exists>d p. run = Some d \<and> disk = Some p")
    case True
    then obtain d p where dp: "run = Some d" "disk = Some p" by blast
    with Pair assms(2) obtain timestamp where
      d: "d = path_div (path_div b ''runs'') (''run-'' @ timestamp)" by auto
    have inside: "unlinks_inside h base (File_Unlinked q)"
      if "vm_resolve h l' d = Inr r" "in_parents r q" for l' r q
      using assms(1) that d unfolding unlinks_inside.simps by blast
    show ?thesis
      unfolding appends_def remove_run_disk_def using Pair dp
      by (auto simp: bind_def vm_question_def raise_def ask_def effect_def ret_def
          simp del: unlinks_inside.simps split: sum.split intro: inside)
  next
    case False
    with Pair show ?thesis
      by (auto simp: remove_run_disk_def each_event.ret split: option.split)
  qed
qed

lemma leave_unlinks:
  assumes "vm_resolve h l base = Inr b"
    and "\<forall>d. qr_run_directory result = Some d \<longrightarrow>
      (\<exists>timestamp. d = path_div (path_div b ''runs'') (''run-'' @ timestamp))"
  shows "emits (unlinks_inside h base) (leave_run h s result keep_vm port)"
  unfolding leave_run_def stop_and_remove_qemu_run_def
  by (auto intro!: inert_intros each_event.try_finally inert_unlinks [OF shutdown_inert] stop_unlinks
      remove_unlinks [OF assms])


text \<open>A failing start leaves the copied disk behind: the exception leaves the program before any
  clean-up is in place.\<close>

lemma failed_start_keeps_disk:
  assumes "configuration_from_arguments h a [] = (Inr c, log1)"
    and "create_qemu_run h c log1 = (Inl e, log2)"
  shows "qemu_main h root a [] = (Inl e, log2) \<and> list_all (\<lambda>x. \<forall>p. x \<noteq> File_Unlinked p) log2"
proof
  show "qemu_main h root a [] = (Inl e, log2)"
    using assms by (simp add: qemu_main_def bind_def)
  let ?P = "\<lambda>x. \<forall>p. x \<noteq> File_Unlinked p"
  have "emits ?P (start_qemu h c' q)" for c' q
    unfolding start_qemu_def Let_def by (auto intro!: inert_intros split: option.split)
  then have "emits ?P (create_qemu_run h c)"
    unfolding create_qemu_run_def
    by (auto intro!: inert_intros emits_mono [OF find_inert] emits_mono [OF accelerator_inert]
        split: option.split)
  with assms(2) obtain new2 where "log2 = log1 @ new2" "list_all ?P new2"
    by (auto elim: appendsD)
  moreover obtain new1 where "log1 = [] @ new1" "list_all inert new1"
    using configuration_inert assms(1) by (rule appendsD)
  moreover have "list_all ?P new1"
    using calculation(4) by (rule list.pred_mono_strong) auto
  ultimately show "list_all ?P log2" by simp
qed

text \<open>The names the agent's environment defines are identifiers, so the commands of the agent are read
  as \<open>agent_commands_read\<close> says.\<close>

lemma environment_identifiers:
  assumes "prepare_agent_environment h s log = (Inr (env, layout), log')"
  shows "list_all is_identifier (map fst env)"
proof -
  have names: "is_identifier ''OPENAI_API_KEY''" "is_identifier ''SANDBOX_TESTER_CONFIG_PATH''"
    "is_identifier ''SANDBOX_TESTER_VERBOSE''" "is_identifier ''SANDBOX_TESTER_SERIALIZE_EVIDENCE''"
    by code_simp+
  from assms show ?thesis
    by (auto simp: prepare_agent_environment_def resolve_openai_environment_variables_def Let_def
        bind_Inr ret_Inr names split: if_splits option.splits)
qed

end
