(* ===== verification/Vbox_Machine.thy ===== *)
theory Vbox_Machine
  imports Guest_Session
begin

text \<open>
  The machines of a VirtualBox run: \<open>src/virtualbox_sandbox/models.py\<close> and
  \<open>virtual_machine_factory.py\<close>. VirtualBox itself is behind \<open>VBoxManage\<close>, a program the host
  runs; the theory Vbox_Registry says what it is documented to do.
\<close>

datatype virtual_machine_state = NOT_CREATED | RUNNING | STOPPED | OTHER

datatype vm_clone_status = BASE_CREATED | BASE_RUNNING | CLONE_STARTED | ISO_MISSING | NOT_READY

datatype base_finalization_status = FINALIZED | MISSING | BASE_NOT_READY

record virtual_machine =
  vb_name :: string
  vb_uuid :: string

record virtual_box_configuration =
  vc_vm_name :: string
  vc_iso_path :: "path option"
  vc_base_directory :: path
  vc_disk_size_megabytes :: int
  vc_memory_megabytes :: int
  vc_cpu_count :: int
  vc_guest_credentials :: guest_credentials
  vc_hostname :: string

record vm_clone_result =
  cr_status :: vm_clone_status
  cr_base_vm_name :: string
  cr_run_vm_name :: "string option"
  cr_run_directory :: "path option"
  cr_ssh_host :: "string option"
  cr_ssh_port :: "int option"

record base_finalization_result =
  fr_status :: base_finalization_status
  fr_base_vm_name :: string
  fr_ssh_host :: "string option"
  fr_ssh_port :: "int option"

definition new_vm_clone_result :: "vm_clone_status \<Rightarrow> string \<Rightarrow> vm_clone_result" where
  "new_vm_clone_result status base_vm_name = \<lparr>
     cr_status = status, cr_base_vm_name = base_vm_name, cr_run_vm_name = None,
     cr_run_directory = None, cr_ssh_host = None, cr_ssh_port = None\<rparr>"

definition new_base_finalization_result ::
    "base_finalization_status \<Rightarrow> string \<Rightarrow> base_finalization_result" where
  "new_base_finalization_result status base_vm_name = \<lparr>
     fr_status = status, fr_base_vm_name = base_vm_name, fr_ssh_host = None, fr_ssh_port = None\<rparr>"

section \<open>VBoxManage\<close>

definition WINDOWS_VBOXMANAGE_PATH :: path where
  "WINDOWS_VBOXMANAGE_PATH = path_of (py_join [CHR 0x5C]
     [''C:'', ''Program Files'', ''Oracle'', ''VirtualBox'', ''VBoxManage.exe''])"

definition find_vboxmanage :: "vm_host \<Rightarrow> path vm" where
  "find_vboxmanage h = ask (\<lambda>log.
     let fallback = (if vm_exists h log WINDOWS_VBOXMANAGE_PATH then WINDOWS_VBOXMANAGE_PATH
           else path_of ''VBoxManage'')
     in case vm_environ h ''VBOXMANAGE'' of
          None \<Rightarrow> fallback
        | Some [] \<Rightarrow> fallback
        | Some text \<Rightarrow> if vm_exists h log (path_of text) then path_of text else fallback)"

definition vboxmanage_failure :: "string list \<Rightarrow> completed \<Rightarrow> py_error" where
  "vboxmanage_failure command result =
     RuntimeError (''VBoxManage command failed with exit code '' @ str_int (cp_returncode result) @
       '': '' @ py_join '' '' command @ [CHR 0x0A] @ cp_stderr result)"

definition run_vboxmanage :: "vm_host \<Rightarrow> path \<Rightarrow> string list \<Rightarrow> completed vm" where
  "run_vboxmanage h vboxmanage_path arguments =
     (let command = path_str vboxmanage_path # arguments
      in bind (local_run h command) (\<lambda>result.
         if cp_returncode result \<noteq> 0 then raise (vboxmanage_failure command result) else ret result))"

definition manage :: "vm_host \<Rightarrow> path \<Rightarrow> string list \<Rightarrow> unit vm" where
  "manage h vboxmanage_path arguments =
     bind (run_vboxmanage h vboxmanage_path arguments) (\<lambda>_. ret ())"

section \<open>The state of a machine\<close>

text \<open>The pattern of a line of \<open>VBoxManage list\<close>: the name is matched greedily, so the last place
  where the rest of the line is a closing quote and a UUID in braces ends it.\<close>

definition is_uuid_part :: "string \<Rightarrow> bool" where
  "is_uuid_part rest \<longleftrightarrow>
     starts_with rest (CHR 0x22 # '' {'') \<and>
     (let uuid = drop 3 rest
      in uuid \<noteq> [] \<and> last uuid = CHR ''}'' \<and> butlast uuid \<noteq> [] \<and> CHR ''}'' \<notin> set (butlast uuid))"

fun last_split :: "(string \<Rightarrow> bool) \<Rightarrow> string \<Rightarrow> string \<Rightarrow> (string \<times> string) option" where
  "last_split P before [] = (if P [] then Some (before, []) else None)"
| "last_split P before (c # cs) =
     (case last_split P (before @ [c]) cs of
        Some found \<Rightarrow> Some found
      | None \<Rightarrow> if P (c # cs) then Some (before, c # cs) else None)"

definition match_vm_line :: "string \<Rightarrow> virtual_machine option" where
  "match_vm_line line =
     (case line of
        [] \<Rightarrow> None
      | c # cs \<Rightarrow>
          if c \<noteq> CHR 0x22 then None
          else map_option (\<lambda>(name, rest). \<lparr>vb_name = name, vb_uuid = butlast (drop 3 rest)\<rparr>)
            (last_split is_uuid_part [] cs))"

definition virtual_machines_in :: "string \<Rightarrow> virtual_machine list" where
  "virtual_machines_in stdout = List.map_filter match_vm_line (splitlines_from [] stdout)"

definition list_virtual_machines :: "vm_host \<Rightarrow> path \<Rightarrow> string \<Rightarrow> virtual_machine list vm" where
  "list_virtual_machines h vboxmanage_path list_kind =
     bind (run_vboxmanage h vboxmanage_path [''list'', list_kind]) (\<lambda>result.
       ret (virtual_machines_in (cp_stdout result)))"

definition removesuffix_quote :: "string \<Rightarrow> string" where
  "removesuffix_quote s = (if s \<noteq> [] \<and> last s = CHR 0x22 then butlast s else s)"

definition get_machine_readable_value :: "string \<Rightarrow> string \<Rightarrow> string option" where
  "get_machine_readable_value text key =
     (let prefix = key @ ''='' @ [CHR 0x22]
      in map_option (\<lambda>line. removesuffix_quote (drop (length prefix) line))
        (find (\<lambda>line. starts_with line prefix) (splitlines_from [] text)))"

definition get_virtual_machine_state :: "vm_host \<Rightarrow> path \<Rightarrow> string \<Rightarrow> virtual_machine_state vm" where
  "get_virtual_machine_state h vboxmanage_path vm_name =
     bind (list_virtual_machines h vboxmanage_path ''vms'') (\<lambda>virtual_machines.
     if vm_name \<notin> set (map vb_name virtual_machines) then ret NOT_CREATED
     else
     bind (list_virtual_machines h vboxmanage_path ''runningvms'') (\<lambda>running_virtual_machines.
     if vm_name \<in> set (map vb_name running_virtual_machines) then ret RUNNING
     else
     bind (run_vboxmanage h vboxmanage_path [''showvminfo'', vm_name, ''--machinereadable'']) (\<lambda>info.
     if get_machine_readable_value (cp_stdout info) ''VMState'' = Some ''poweroff''
     then ret STOPPED else ret OTHER)))"

section \<open>The installer image\<close>

definition existing_path_or_none :: "vm_host \<Rightarrow> path \<Rightarrow> path option vm" where
  "existing_path_or_none h p =
     bind (resolved h p) (\<lambda>resolved_path.
       ask (\<lambda>log. if vm_exists h log resolved_path then Some resolved_path else None))"

text \<open>\<open>max(candidates, key=...)\<close>: the first of the newest.\<close>

fun newest_of :: "path \<Rightarrow> int \<Rightarrow> (path \<times> int) list \<Rightarrow> path" where
  "newest_of p t [] = p"
| "newest_of p t ((q, u) # rest) = (if u > t then newest_of q u rest else newest_of p t rest)"

definition find_downloaded_ubuntu_iso :: "vm_host \<Rightarrow> path option vm" where
  "find_downloaded_ubuntu_iso h =
     bind (lift_res (vm_expanduser h (path_of ''~''))) (\<lambda>home.
     let downloads_directory = path_div home ''Downloads''
     in bind (ask (\<lambda>log. vm_exists h log downloads_directory)) (\<lambda>exists.
        if \<not> exists then ret None
        else bind (ask (\<lambda>log. concat (map (vm_glob h log downloads_directory)
               [''ubuntu-24.04*-live-server-amd64.iso'', ''ubuntu-*-live-server-amd64.iso''])))
           (\<lambda>candidates. case candidates of
              [] \<Rightarrow> ret None
            | _ # _ \<Rightarrow>
                bind (collect_each candidates (\<lambda>p. vm_question (\<lambda>log. vm_mtime h log p))) (\<lambda>times.
                  ret (Some (newest_of (hd candidates) (hd times)
                    (zip (tl candidates) (tl times))))))))"

definition resolve_iso_path :: "vm_host \<Rightarrow> path option \<Rightarrow> path option vm" where
  "resolve_iso_path h configured_path =
     (case configured_path of
        Some p \<Rightarrow> existing_path_or_none h p
      | None \<Rightarrow>
          (case vm_environ h ''SANDBOX_TESTER_ISO'' of
             None \<Rightarrow> find_downloaded_ubuntu_iso h
           | Some [] \<Rightarrow> find_downloaded_ubuntu_iso h
           | Some text \<Rightarrow>
               bind (existing_path_or_none h (path_of text)) (\<lambda>found. case found of
                 Some p \<Rightarrow> ret (Some p)
               | None \<Rightarrow> find_downloaded_ubuntu_iso h)))"

section \<open>The base machine\<close>

definition ENABLE_OPENSSH_COMMAND :: string where
  "ENABLE_OPENSSH_COMMAND = ''apt-get update && '' @ ''apt-get install -y openssh-server python3 && '' @
     ''systemctl enable ssh && '' @ ''systemctl start ssh''"

definition create_base_commands :: "virtual_box_configuration \<Rightarrow> path \<Rightarrow> string list list" where
  "create_base_commands c iso_path =
     (let disk_path = path_div (vc_base_directory c) (vc_vm_name c @ ''.vdi'');
          credentials = vc_guest_credentials c
      in [[''createvm'',
           ''--name='' @ vc_vm_name c,
           ''--platform-architecture=x86'',
           ''--ostype=Ubuntu24_LTS_64'',
           ''--basefolder='' @ path_str (vc_base_directory c),
           ''--register''],
          [''modifyvm'',
           vc_vm_name c,
           ''--memory='' @ str_int (vc_memory_megabytes c),
           ''--cpus='' @ str_int (vc_cpu_count c),
           ''--nic1=nat'',
           ''--graphicscontroller=vmsvga'',
           ''--vram=32'',
           ''--audio-enabled=off'',
           ''--clipboard-mode=disabled'',
           ''--drag-and-drop=disabled''],
          [''createmedium'',
           ''disk'',
           ''--filename='' @ path_str disk_path,
           ''--size='' @ str_int (vc_disk_size_megabytes c),
           ''--format=VDI''],
          [''storagectl'',
           vc_vm_name c,
           ''--name=SATA Controller'',
           ''--add=sata'',
           ''--controller=IntelAhci''],
          [''storageattach'',
           vc_vm_name c,
           ''--storagectl=SATA Controller'',
           ''--port=0'',
           ''--device=0'',
           ''--type=hdd'',
           ''--medium='' @ path_str disk_path],
          [''unattended'',
           ''install'',
           vc_vm_name c,
           ''--iso='' @ path_str iso_path,
           ''--user='' @ gc_user credentials,
           ''--user-password='' @ gc_password credentials,
           ''--admin-password='' @ gc_password credentials,
           ''--full-user-name='' @ gc_user credentials,
           ''--locale=en_US'',
           ''--country=US'',
           ''--time-zone=UTC'',
           ''--hostname='' @ vc_hostname c,
           ''--package-selection-adjustment=minimal'',
           ''--no-install-additions'',
           ''--post-install-command='' @ ENABLE_OPENSSH_COMMAND,
           ''--start-vm=headless'']])"

definition create_base_virtual_machine ::
    "vm_host \<Rightarrow> path \<Rightarrow> virtual_box_configuration \<Rightarrow> path \<Rightarrow> unit vm" where
  "create_base_virtual_machine h vboxmanage_path c iso_path =
     andthen (effect h (Dir_Made (vc_base_directory c)))
       (for_each (create_base_commands c iso_path) (manage h vboxmanage_path))"

definition create_missing_base_vm ::
    "vm_host \<Rightarrow> path \<Rightarrow> virtual_box_configuration \<Rightarrow> vm_clone_result vm" where
  "create_missing_base_vm h vboxmanage_path c =
     bind (resolve_iso_path h (vc_iso_path c)) (\<lambda>found. case found of
       None \<Rightarrow> ret (new_vm_clone_result ISO_MISSING (vc_vm_name c))
     | Some iso_path \<Rightarrow>
         andthen (create_base_virtual_machine h vboxmanage_path c iso_path)
           (ret (new_vm_clone_result BASE_CREATED (vc_vm_name c))))"

section \<open>The disposable clone\<close>

definition run_vm_name_of :: "string \<Rightarrow> string" where
  "run_vm_name_of timestamp = ''Sandbox Tester Run'' @ '' '' @ timestamp"

definition nat_rule :: "string \<Rightarrow> int \<Rightarrow> string" where
  "nat_rule name ssh_port = name @ '',tcp,127.0.0.1,'' @ str_int ssh_port @ '',,22''"

definition clone_and_start_run_vm ::
    "vm_host \<Rightarrow> path \<Rightarrow> virtual_box_configuration \<Rightarrow> (string \<times> path \<times> int) vm" where
  "clone_and_start_run_vm h vboxmanage_path c =
     bind (ask (vm_clock h)) (\<lambda>timestamp.
     let run_vm_name = run_vm_name_of timestamp;
         run_directory = path_div (path_div (vc_base_directory c) ''runs'') (''run-'' @ timestamp)
     in bind (vm_question (vm_port h)) (\<lambda>ssh_port.
        andthen (effect h (Dir_Made run_directory))
        (andthen (manage h vboxmanage_path
           [''clonevm'',
            vc_vm_name c,
            ''--name='' @ run_vm_name,
            ''--basefolder='' @ path_str run_directory,
            ''--mode=machine'',
            ''--register''])
        (andthen (manage h vboxmanage_path
           [''modifyvm'', run_vm_name, ''--nat-pf1='' @ nat_rule ''sandbox-ssh'' ssh_port])
        (andthen (manage h vboxmanage_path [''startvm'', ''--type=headless'', run_vm_name])
           (ret (run_vm_name, run_directory, ssh_port)))))))"

definition create_vm_clone :: "vm_host \<Rightarrow> virtual_box_configuration \<Rightarrow> vm_clone_result vm" where
  "create_vm_clone h c =
     bind (find_vboxmanage h) (\<lambda>vboxmanage_path.
     bind (get_virtual_machine_state h vboxmanage_path (vc_vm_name c)) (\<lambda>state.
       case state of
         NOT_CREATED \<Rightarrow> create_missing_base_vm h vboxmanage_path c
       | RUNNING \<Rightarrow> ret (new_vm_clone_result BASE_RUNNING (vc_vm_name c))
       | STOPPED \<Rightarrow>
           bind (clone_and_start_run_vm h vboxmanage_path c) (\<lambda>(run_vm_name, run_directory, ssh_port).
             ret \<lparr>cr_status = CLONE_STARTED,
                  cr_base_vm_name = vc_vm_name c,
                  cr_run_vm_name = Some run_vm_name,
                  cr_run_directory = Some run_directory,
                  cr_ssh_host = Some ''127.0.0.1'',
                  cr_ssh_port = Some ssh_port\<rparr>)
       | OTHER \<Rightarrow> ret (new_vm_clone_result NOT_READY (vc_vm_name c))))"

text \<open>\<open>while time.monotonic() < deadline\<close>: the number of polls before the deadline is the host's, as
  the loop sleeps a second after each.\<close>

fun poll_until_stopped :: "vm_host \<Rightarrow> path \<Rightarrow> string \<Rightarrow> nat \<Rightarrow> unit vm" where
  "poll_until_stopped h vboxmanage_path vm_name 0 =
     raise (RuntimeError (''VM did not stop within 180 seconds: '' @ vm_name))"
| "poll_until_stopped h vboxmanage_path vm_name (Suc n) =
     bind (get_virtual_machine_state h vboxmanage_path vm_name) (\<lambda>state.
       if state \<noteq> RUNNING then ret ()
       else andthen pause (poll_until_stopped h vboxmanage_path vm_name n))"

definition wait_for_virtual_machine_to_stop :: "vm_host \<Rightarrow> path \<Rightarrow> string \<Rightarrow> unit vm" where
  "wait_for_virtual_machine_to_stop h vboxmanage_path vm_name =
     bind (ask (vm_polls h)) (poll_until_stopped h vboxmanage_path vm_name)"

definition stop_and_remove_vm_clone :: "vm_host \<Rightarrow> string \<Rightarrow> unit vm" where
  "stop_and_remove_vm_clone h vm_name =
     bind (find_vboxmanage h) (\<lambda>vboxmanage_path.
     bind (get_virtual_machine_state h vboxmanage_path vm_name) (\<lambda>state.
     if state = NOT_CREATED then ret ()
     else andthen
       (if state = RUNNING
        then andthen (manage h vboxmanage_path [''controlvm'', vm_name, ''poweroff''])
          (wait_for_virtual_machine_to_stop h vboxmanage_path vm_name)
        else ret ())
       (manage h vboxmanage_path [''unregistervm'', vm_name, ''--delete''])))"

section \<open>Finalizing the base machine\<close>

definition FINALIZE_BASE_PACKAGES :: "string list" where
  "FINALIZE_BASE_PACKAGES =
     [''python3-pip'', ''python3-venv'', ''xvfb'', ''fonts-noto-color-emoji'', ''fonts-unifont'',
      ''libfontconfig1'', ''libfreetype6'', ''xfonts-cyrillic'', ''xfonts-scalable'',
      ''fonts-liberation'', ''fonts-ipafont-gothic'', ''fonts-wqy-zenhei'', ''fonts-tlwg-loma-otf'',
      ''fonts-freefont-ttf'', ''libasound2t64'', ''libatk-bridge2.0-0t64'', ''libatk1.0-0t64'',
      ''libatspi2.0-0t64'', ''libcairo2'', ''libcups2t64'', ''libdbus-1-3'', ''libdrm2'', ''libgbm1'',
      ''libglib2.0-0t64'', ''libnspr4'', ''libnss3'', ''libpango-1.0-0'', ''libx11-6'', ''libxcb1'',
      ''libxcomposite1'', ''libxdamage1'', ''libxext6'', ''libxfixes3'', ''libxkbcommon0'',
      ''libxrandr2'']"

text \<open>\<open>except RuntimeError\<close> also catches the subclass of the readiness error.\<close>

fun is_runtime_error :: "py_error \<Rightarrow> bool" where
  "is_runtime_error (RuntimeError _) = True"
| "is_runtime_error (SshNotReadyError _) = True"
| "is_runtime_error _ = False"

definition remove_base_vm_nat_forward :: "vm_host \<Rightarrow> path \<Rightarrow> string \<Rightarrow> unit vm" where
  "remove_base_vm_nat_forward h vboxmanage_path vm_name =
     bind (get_virtual_machine_state h vboxmanage_path vm_name) (\<lambda>state.
     if state = NOT_CREATED then ret ()
     else
       let command = (if state = RUNNING
             then [''controlvm'', vm_name, ''natpf1delete'', ''sandbox-base-ssh'']
             else [''modifyvm'', vm_name, ''--nat-pf1'', ''delete'', ''sandbox-base-ssh''])
       in catch (manage h vboxmanage_path command)
            (\<lambda>e. if is_runtime_error e then Some (ret ()) else None))"

definition add_stopped_vm_nat_forward :: "vm_host \<Rightarrow> path \<Rightarrow> string \<Rightarrow> int \<Rightarrow> unit vm" where
  "add_stopped_vm_nat_forward h vboxmanage_path vm_name ssh_port =
     andthen (remove_base_vm_nat_forward h vboxmanage_path vm_name)
       (manage h vboxmanage_path
         [''modifyvm'', vm_name, ''--nat-pf1='' @ nat_rule ''sandbox-base-ssh'' ssh_port])"

definition add_running_vm_nat_forward :: "vm_host \<Rightarrow> path \<Rightarrow> string \<Rightarrow> int \<Rightarrow> unit vm" where
  "add_running_vm_nat_forward h vboxmanage_path vm_name ssh_port =
     andthen (remove_base_vm_nat_forward h vboxmanage_path vm_name)
       (manage h vboxmanage_path
         [''controlvm'', vm_name, ''natpf1'', nat_rule ''sandbox-base-ssh'' ssh_port])"

text \<open>The banner is read byte by byte, up to a line feed or 255 bytes.\<close>

definition read_ssh_banner :: "vm_host \<Rightarrow> string \<Rightarrow> string" where
  "read_ssh_banner h stream =
     (let received = take 255 stream;
          line = takeWhile (\<lambda>c. c \<noteq> CHR 0x0A) received
      in py_strip (vm_decode h (if length line < length received then line @ [CHR 0x0A] else line)))"

definition reach_base :: "vm_host \<Rightarrow> ssh_attempt \<Rightarrow> unit vm" where
  "reach_base h a =
     andthen
       (andthen (note_event Ssh_Tried)
         (bind (lift_res (at_banner a)) (\<lambda>stream.
            let banner = read_ssh_banner h stream
            in if \<not> starts_with banner ''SSH-''
               then raise (SshNotReadyError (''Port was reachable but did not speak SSH: '' @ banner))
               else ret ())))
       (connect_ssh h a)"

definition wait_for_base_ssh :: "vm_host \<Rightarrow> virtual_box_configuration \<Rightarrow> unit vm" where
  "wait_for_base_ssh h c =
     bind (ask (vm_ssh h)) (\<lambda>attempts.
       ssh_loop h (reach_base h) None
         (\<lambda>last_error. RuntimeError (''Timed out waiting for SSH on base VM '' @ [CHR 0x27] @
           vc_vm_name c @ [CHR 0x27] @ '': '' @ last_error))
         attempts ''None'')"

definition install_base_vm_packages :: "vm_host \<Rightarrow> virtual_box_configuration \<Rightarrow> unit vm" where
  "install_base_vm_packages h c =
     (let password = gc_password (vc_guest_credentials c);
          packages = py_join '' '' (map shell_quote FINALIZE_BASE_PACKAGES)
      in andthen (wait_for_base_ssh h c)
        (try_finally
          (steps
            [run_sudo_command h password ''apt-get update'' True,
             run_sudo_command h password
               (''env DEBIAN_FRONTEND=noninteractive apt-get install -y '' @ packages) True,
             run_sudo_command h password ''shutdown now'' True])
          (client_close h)))"

definition finalize_base_vm :: "vm_host \<Rightarrow> virtual_box_configuration \<Rightarrow> base_finalization_result vm" where
  "finalize_base_vm h c =
     bind (find_vboxmanage h) (\<lambda>vboxmanage_path.
     bind (get_virtual_machine_state h vboxmanage_path (vc_vm_name c)) (\<lambda>state.
     if state = NOT_CREATED then ret (new_base_finalization_result MISSING (vc_vm_name c))
     else if state = OTHER then ret (new_base_finalization_result BASE_NOT_READY (vc_vm_name c))
     else
     bind (vm_question (vm_port h)) (\<lambda>ssh_port.
     andthen
       (if state = STOPPED
        then andthen (add_stopped_vm_nat_forward h vboxmanage_path (vc_vm_name c) ssh_port)
          (manage h vboxmanage_path [''startvm'', ''--type=headless'', vc_vm_name c])
        else add_running_vm_nat_forward h vboxmanage_path (vc_vm_name c) ssh_port)
     (andthen
       (try_finally
         (andthen (install_base_vm_packages h c)
           (wait_for_virtual_machine_to_stop h vboxmanage_path (vc_vm_name c)))
         (remove_base_vm_nat_forward h vboxmanage_path (vc_vm_name c)))
       (ret \<lparr>fr_status = FINALIZED,
             fr_base_vm_name = vc_vm_name c,
             fr_ssh_host = Some ''127.0.0.1'',
             fr_ssh_port = Some ssh_port\<rparr>)))))"

end
