(* ===== verification/Vbox_Registry.thy ===== *)
theory Vbox_Registry
  imports Vbox_Machine
begin

text \<open>
  What VirtualBox is documented to do, as far as the sandbox relies on it: \<open>VBoxManage\<close> keeps a
  registry of machines with their NAT rules, refuses a command the state of a machine forbids, and
  lists the registry. The power state of a machine also changes by itself, while no command of
  \<open>VBoxManage\<close> runs. The lemmas of this theory say what the operations of the theory Vbox_Machine
  do to the registry.
\<close>

section \<open>The registry\<close>

text \<open>A registry maps the name of a machine to the names of its NAT rules; the power states are the
  ones \<open>showvminfo\<close> prints.\<close>

type_synonym registry = "(string, string list) dict"

datatype vbox_command =
    Clone string string
  | Create string
  | Install string
  | Start string
  | Power_Off string
  | Unregister string
  | Add_Rule bool string string
  | Delete_Rule bool string string
  | Other_Command

definition rule_name :: "string \<Rightarrow> string" where
  "rule_name rule = takeWhile (\<lambda>c. c \<noteq> CHR '','') rule"

definition read_clone :: "string \<Rightarrow> string list \<Rightarrow> vbox_command" where
  "read_clone n rest = (case rest of a # _ \<Rightarrow> Clone n (drop 7 a) | [] \<Rightarrow> Other_Command)"

definition read_modify :: "string \<Rightarrow> string list \<Rightarrow> vbox_command" where
  "read_modify n rest =
     (case rest of
        [a] \<Rightarrow> if starts_with a ''--nat-pf1='' then Add_Rule False n (rule_name (drop 10 a))
               else Other_Command
      | [a, b, r] \<Rightarrow> if a = ''--nat-pf1'' \<and> b = ''delete'' then Delete_Rule False n r else Other_Command
      | _ \<Rightarrow> Other_Command)"

definition read_control :: "string \<Rightarrow> string list \<Rightarrow> vbox_command" where
  "read_control n rest =
     (case rest of
        [a] \<Rightarrow> if a = ''poweroff'' then Power_Off n else Other_Command
      | [a, r] \<Rightarrow> if a = ''natpf1'' then Add_Rule True n (rule_name r)
                  else if a = ''natpf1delete'' then Delete_Rule True n r else Other_Command
      | _ \<Rightarrow> Other_Command)"

definition read_command :: "string list \<Rightarrow> vbox_command" where
  "read_command arguments =
     (case arguments of
        sub # n # rest \<Rightarrow>
          if sub = ''clonevm'' then read_clone n rest
          else if sub = ''createvm'' then Create (drop 7 n)
          else if sub = ''unattended'' then Install (hd rest)
          else if sub = ''startvm'' then Start (hd rest)
          else if sub = ''controlvm'' then read_control n rest
          else if sub = ''modifyvm'' then read_modify n rest
          else if sub = ''unregistervm'' then Unregister n
          else Other_Command
      | _ \<Rightarrow> Other_Command)"

type_synonym power = "string \<Rightarrow> string"

definition rules_of :: "registry \<Rightarrow> string \<Rightarrow> string list" where
  "rules_of r n = (case dict_get r n of None \<Rightarrow> [] | Some rules \<Rightarrow> rules)"

definition registered :: "registry \<Rightarrow> string \<Rightarrow> bool" where
  "registered r n \<longleftrightarrow> n \<in> set (map fst r)"

definition is_running :: "power \<Rightarrow> string \<Rightarrow> bool" where
  "is_running p n \<longleftrightarrow> p n = ''running''"

fun vbox_accepts :: "registry \<Rightarrow> power \<Rightarrow> vbox_command \<Rightarrow> bool" where
  "vbox_accepts r p (Clone b n) = (registered r b \<and> \<not> is_running p b \<and> \<not> registered r n)"
| "vbox_accepts r p (Create n) = (\<not> registered r n)"
| "vbox_accepts r p (Install n) = (registered r n \<and> \<not> is_running p n)"
| "vbox_accepts r p (Start n) = (registered r n \<and> \<not> is_running p n)"
| "vbox_accepts r p (Power_Off n) = (registered r n \<and> is_running p n)"
| "vbox_accepts r p (Unregister n) = (registered r n \<and> \<not> is_running p n)"
| "vbox_accepts r p (Add_Rule live n rule) =
     (registered r n \<and> is_running p n = live \<and> rule \<notin> set (rules_of r n))"
| "vbox_accepts r p (Delete_Rule live n rule) =
     (registered r n \<and> is_running p n = live \<and> rule \<in> set (rules_of r n))"
| "vbox_accepts r p Other_Command = True"

fun vbox_apply :: "registry \<Rightarrow> vbox_command \<Rightarrow> registry" where
  "vbox_apply r (Clone b n) = dict_set n (rules_of r b) r"
| "vbox_apply r (Create n) = dict_set n [] r"
| "vbox_apply r (Unregister n) = dict_pop n r"
| "vbox_apply r (Add_Rule live n rule) = dict_set n (rules_of r n @ [rule]) r"
| "vbox_apply r (Delete_Rule live n rule) = dict_set n (filter (\<lambda>x. x \<noteq> rule) (rules_of r n)) r"
| "vbox_apply r _ = r"

fun next_power :: "power \<Rightarrow> vbox_command \<Rightarrow> power" where
  "next_power p (Clone b n) = p(n := ''poweroff'')"
| "next_power p (Create n) = p(n := ''poweroff'')"
| "next_power p (Install n) = p(n := ''running'')"
| "next_power p (Start n) = p(n := ''running'')"
| "next_power p (Power_Off n) = p(n := ''poweroff'')"
| "next_power p _ = p"

text \<open>The machines change their power state by themselves, at an event that is not a command:
  \<open>vx_drift\<close>. VirtualBox gives every machine a UUID and prints other properties of it before and
  after its state.\<close>

record virtual_box =
  vx_drift :: "vm_event list \<Rightarrow> vm_event \<Rightarrow> power \<Rightarrow> power"
  vx_uuid :: "string \<Rightarrow> string"
  vx_before :: "vm_event list \<Rightarrow> string \<Rightarrow> string list"
  vx_after :: "vm_event list \<Rightarrow> string \<Rightarrow> string list"

type_synonym machines = "registry \<times> power"

definition vbox_do :: "machines \<Rightarrow> vbox_command \<Rightarrow> machines" where
  "vbox_do m cmd = (case m of (r, p) \<Rightarrow>
     if vbox_accepts r p cmd then (vbox_apply r cmd, next_power p cmd) else (r, p))"

fun vbox_step :: "virtual_box \<Rightarrow> vm_event list \<Rightarrow> machines \<Rightarrow> vm_event \<Rightarrow> machines" where
  "vbox_step b past m (Program_Run (v # arguments)) = vbox_do m (read_command arguments)"
| "vbox_step b past (r, p) e = (r, vx_drift b past e p)"

definition machines :: "virtual_box \<Rightarrow> machines \<Rightarrow> vm_event list \<Rightarrow> machines" where
  "machines b initial log = monitor_state (vbox_step b) initial log"

section \<open>What it prints\<close>

definition vm_line :: "virtual_box \<Rightarrow> string \<Rightarrow> string" where
  "vm_line b n = CHR 0x22 # n @ CHR 0x22 # '' {'' @ vx_uuid b n @ ''}''"

definition print_lines :: "string list \<Rightarrow> string" where
  "print_lines ls = concat (map (\<lambda>l. l @ [CHR 0x0A]) ls)"

definition state_line :: "power \<Rightarrow> string \<Rightarrow> string" where
  "state_line p n = ''VMState='' @ CHR 0x22 # p n @ [CHR 0x22]"

definition vbox_output :: "virtual_box \<Rightarrow> vm_event list \<Rightarrow> machines \<Rightarrow> string list \<Rightarrow> string option" where
  "vbox_output b log m arguments = (case m of (r, p) \<Rightarrow>
     if arguments = [''list'', ''vms''] then Some (print_lines (map (vm_line b) (map fst r)))
     else if arguments = [''list'', ''runningvms'']
     then Some (print_lines (map (vm_line b) (filter (is_running p) (map fst r))))
     else (case arguments of
         [sub, n, a] \<Rightarrow> if sub = ''showvminfo'' \<and> registered r n
           then Some (print_lines (vx_before b log n @ state_line p n # vx_after b log n))
           else None
       | _ \<Rightarrow> None))"

definition one_line :: "string \<Rightarrow> bool" where
  "one_line s \<longleftrightarrow> list_all (\<lambda>c. \<not> is_line_end c) s"

definition is_uuid :: "string \<Rightarrow> bool" where
  "is_uuid u \<longleftrightarrow> u \<noteq> [] \<and> list_all (\<lambda>c. is_digit c \<or> is_lower c \<or> c = CHR ''-'') u"

definition prints_well :: "virtual_box \<Rightarrow> bool" where
  "prints_well b \<longleftrightarrow> (\<forall>n. is_uuid (vx_uuid b n)) \<and>
     (\<forall>log n. list_all (\<lambda>l. one_line l \<and> \<not> starts_with l (''VMState='' @ [CHR 0x22])) (vx_before b log n) \<and>
        list_all one_line (vx_after b log n)) \<and>
     (\<forall>past e p n. one_line (p n) \<longrightarrow> one_line (vx_drift b past e p n))"

text \<open>The host runs this VirtualBox: a command it accepts returns 0, one it refuses does not, and the
  queries print the registry.\<close>

definition runs_virtual_box :: "vm_host \<Rightarrow> virtual_box \<Rightarrow> machines \<Rightarrow> bool" where
  "runs_virtual_box h b initial \<longleftrightarrow>
     (\<forall>log v arguments. \<exists>c. vm_run h log (Program_Run (v # arguments)) = Inr c \<and>
       (cp_returncode c = 0 \<longleftrightarrow>
          vbox_accepts (fst (machines b initial log)) (snd (machines b initial log)) (read_command arguments)) \<and>
       (case vbox_output b log (machines b initial log) arguments of
          None \<Rightarrow> True | Some text \<Rightarrow> cp_stdout c = text))"

section \<open>The listings are read back\<close>

lemma splitlines_line:
  "one_line l \<Longrightarrow> splitlines_from acc (l @ CHR 0x0A # rest) = (acc @ l) # splitlines_from [] rest"
proof (induction l arbitrary: acc)
  case Nil
  show ?case by (cases rest) (simp_all add: is_line_end_def code_def)
next
  case (Cons c l)
  then have c: "\<not> is_line_end c" and l: "one_line l" by (simp_all add: one_line_def)
  from c have "code c \<noteq> 13" by (auto simp: is_line_end_def)
  with c Cons.IH [OF l] show ?case by (cases l) simp_all
qed

lemma splitlines_print: "list_all one_line ls \<Longrightarrow> splitlines_from [] (print_lines ls) = ls"
  by (induction ls) (simp_all add: print_lines_def splitlines_line)

lemma last_split_None:
  "(\<And>x. P x \<Longrightarrow> \<exists>y. x = d # y) \<Longrightarrow> d \<notin> set s \<Longrightarrow> last_split P before s = None"
  by (induction s arbitrary: before) fastforce+

lemma last_split_append:
  assumes "\<And>x. P x \<Longrightarrow> \<exists>y. x = d # y" and "P (d # t)" and "d \<notin> set t"
  shows "last_split P before (s @ d # t) = Some (before @ s, d # t)"
proof (induction s arbitrary: before)
  case Nil
  have "last_split P (before @ [d]) t = None" by (rule last_split_None [OF assms(1,3)])
  with assms(2) show ?case by simp
qed simp

lemma uuid_not: "is_uuid u \<Longrightarrow> CHR 0x22 \<notin> set u \<and> CHR ''}'' \<notin> set u \<and> one_line u"
proof -
  assume u: "is_uuid u"
  have other: "\<not> is_line_end c \<and> c \<noteq> CHR 0x22 \<and> c \<noteq> CHR ''}''"
    if "is_digit c \<or> is_lower c \<or> c = CHR ''-''" for c
  proof -
    have "48 \<le> code c \<and> code c \<le> 122 \<or> c = CHR ''-''"
      using that by (auto simp: is_digit_def is_lower_def)
    then show ?thesis
      using that by (auto simp: is_line_end_def is_digit_def is_lower_def code_def)
  qed
  from u have "list_all (\<lambda>c. is_digit c \<or> is_lower c \<or> c = CHR ''-'') u" by (simp add: is_uuid_def)
  then have "list_all (\<lambda>c. \<not> is_line_end c \<and> c \<noteq> CHR 0x22 \<and> c \<noteq> CHR ''}'') u"
    by (rule list.pred_mono_strong) (erule other)
  then show ?thesis by (auto simp: one_line_def list_all_iff)
qed

lemma is_uuid_part_quote: "is_uuid_part x \<Longrightarrow> \<exists>y. x = CHR 0x22 # y"
  by (auto simp: is_uuid_part_def starts_with_iff)

lemma is_uuid_part_printed: "is_uuid u \<Longrightarrow> is_uuid_part (CHR 0x22 # '' {'' @ u @ ''}'')"
  using uuid_not [of u] by (auto simp: is_uuid_part_def starts_with_def butlast_append is_uuid_def)

lemma match_vm_line_read:
  assumes "is_uuid (vx_uuid b n)"
  shows "match_vm_line (vm_line b n) = Some \<lparr>vb_name = n, vb_uuid = vx_uuid b n\<rparr>"
proof -
  have "last_split is_uuid_part [] (n @ CHR 0x22 # ('' {'' @ vx_uuid b n @ ''}'')) =
      Some ([] @ n, CHR 0x22 # ('' {'' @ vx_uuid b n @ ''}''))"
    by (rule last_split_append [OF is_uuid_part_quote])
      (use is_uuid_part_printed [OF assms] uuid_not [OF assms] in simp_all)
  then show ?thesis
    by (simp add: match_vm_line_def vm_line_def butlast_append)
qed

text \<open>Whatever names the machines have - quotes, braces, spaces and what looks like a UUID
  included, line ends excepted - the lines \<open>VBoxManage list\<close> prints are read back as exactly these
  machines, in this order.\<close>

lemma listing_read_back:
  assumes "prints_well b" and "list_all one_line names"
  shows "virtual_machines_in (print_lines (map (vm_line b) names)) =
    map (\<lambda>n. \<lparr>vb_name = n, vb_uuid = vx_uuid b n\<rparr>) names"
proof -
  have uuid: "is_uuid (vx_uuid b n)" for n using assms(1) by (simp add: prints_well_def)
  have "one_line (vm_line b n)" if "one_line n" for n
    using uuid_not [OF uuid] that by (simp add: vm_line_def one_line_def is_line_end_def code_def)
  with assms(2) have "list_all one_line (map (vm_line b) names)"
    by (simp add: list_all_iff)
  then show ?thesis
    unfolding virtual_machines_in_def splitlines_print
    by (induction names) (simp_all add: List.map_filter_def match_vm_line_read [OF uuid] splitlines_print)
qed

lemma listing_names:
  "prints_well b \<Longrightarrow> list_all one_line names \<Longrightarrow>
   map vb_name (virtual_machines_in (print_lines (map (vm_line b) names))) = names"
  by (simp add: listing_read_back comp_def)

lemma find_skip: "list_all (\<lambda>x. \<not> P x) xs \<Longrightarrow> find P (xs @ ys) = find P ys"
  by (induction xs) simp_all

lemma state_line_read:
  assumes "prints_well b" and "one_line (p n)"
  shows "get_machine_readable_value
    (print_lines (vx_before b log n @ state_line p n # vx_after b log n)) ''VMState'' = Some (p n)"
proof -
  have before: "list_all (\<lambda>l. one_line l \<and> \<not> starts_with l (''VMState='' @ [CHR 0x22])) (vx_before b log n)"
    and after: "list_all one_line (vx_after b log n)"
    using assms(1) by (simp_all add: prints_well_def)
  have "one_line (state_line p n)"
    using assms(2) by (simp add: state_line_def one_line_def is_line_end_def code_def)
  with before after have "list_all one_line (vx_before b log n @ state_line p n # vx_after b log n)"
    by (auto simp: list_all_iff)
  from splitlines_print [OF this] before show ?thesis
    by (simp add: get_machine_readable_value_def Let_def find_skip list_all_iff state_line_def
        removesuffix_quote_def starts_with_def)
qed

section \<open>What the operations do to the registry\<close>

text \<open>The host runs a VirtualBox that prints well; the states it knows at the start are words, and the
  loop that waits for a machine to stop looks at least once.\<close>

definition virtual_box_host :: "vm_host \<Rightarrow> virtual_box \<Rightarrow> machines \<Rightarrow> bool" where
  "virtual_box_host h b initial \<longleftrightarrow>
     runs_virtual_box h b initial \<and> prints_well b \<and> (\<forall>n. one_line (snd initial n)) \<and>
     (\<forall>log. 0 < vm_polls h log)"

definition state_in :: "machines \<Rightarrow> string \<Rightarrow> virtual_machine_state" where
  "state_in m n =
     (if \<not> registered (fst m) n then NOT_CREATED
      else if is_running (snd m) n then RUNNING
      else if snd m n = ''poweroff'' then STOPPED
      else OTHER)"

abbreviation named :: "registry \<Rightarrow> bool" where
  "named r \<equiv> list_all one_line (map fst r)"

lemma machines_Nil [simp]: "machines b initial [] = initial"
  by (simp add: machines_def)

lemma machines_snoc [simp]: "machines b initial (log @ [e]) = vbox_step b log (machines b initial log) e"
  by (simp add: machines_def)

lemma next_power_one_line: "\<forall>n. one_line (p n) \<Longrightarrow> \<forall>n. one_line (next_power p cmd n)"
  by (cases cmd) (simp_all add: one_line_def is_line_end_def code_def)

lemma step_one_line:
  assumes "prints_well b" and "\<forall>n. one_line (snd m n)"
  shows "\<forall>n. one_line (snd (vbox_step b past m e) n)"
proof -
  obtain r p where m: "m = (r, p)" by (cases m)
  have drift: "\<forall>n. one_line (vx_drift b past e p n)"
    using assms m by (simp add: prints_well_def)
  show ?thesis
    using m drift assms(2) next_power_one_line [of p]
    by (cases "(b, past, m, e)" rule: vbox_step.cases) (auto simp: vbox_do_def)
qed

lemma machines_one_line: "virtual_box_host h b initial \<Longrightarrow> \<forall>n. one_line (snd (machines b initial log) n)"
  by (induction log rule: rev_induct) (simp_all add: virtual_box_host_def step_one_line)

lemma run_vboxmanage_triple:
  assumes "virtual_box_host h b initial"
  shows "triple (\<lambda>log. machines b initial log = (r, p)) (run_vboxmanage h v arguments)
    (\<lambda>c log. vbox_accepts r p (read_command arguments) \<and>
       machines b initial log = (vbox_apply r (read_command arguments), next_power p (read_command arguments)) \<and>
       (\<exists>before. \<forall>text. vbox_output b before (r, p) arguments = Some text \<longrightarrow> cp_stdout c = text))
    (\<lambda>e log. \<not> vbox_accepts r p (read_command arguments) \<and> is_runtime_error e \<and>
       machines b initial log = (r, p))"
  unfolding triple_def
proof (intro allI impI)
  fix log
  assume log: "machines b initial log = (r, p)"
  let ?cmd = "read_command arguments" and ?log' = "log @ [Program_Run (path_str v # arguments)]"
  from assms log obtain c where run: "vm_run h log (Program_Run (path_str v # arguments)) = Inr c"
    and rc: "cp_returncode c = 0 \<longleftrightarrow> vbox_accepts r p ?cmd"
    and printed: "\<forall>text. vbox_output b log (r, p) arguments = Some text \<longrightarrow> cp_stdout c = text"
    by (fastforce simp: virtual_box_host_def runs_virtual_box_def split: option.splits)
  have after: "machines b initial ?log' = (if vbox_accepts r p ?cmd
      then (vbox_apply r ?cmd, next_power p ?cmd) else (r, p))"
    by (simp add: log vbox_do_def)
  show "case run_vboxmanage h v arguments log of
      (Inr c, log) \<Rightarrow> vbox_accepts r p ?cmd \<and>
        machines b initial log = (vbox_apply r ?cmd, next_power p ?cmd) \<and>
        (\<exists>before. \<forall>text. vbox_output b before (r, p) arguments = Some text \<longrightarrow> cp_stdout c = text)
    | (Inl e, log) \<Rightarrow> \<not> vbox_accepts r p ?cmd \<and> is_runtime_error e \<and> machines b initial log = (r, p)"
    using rc printed after
    by (auto simp: run_vboxmanage_def Let_def bind_def local_run_def run raise_def ret_def
        vboxmanage_failure_def)
qed

lemma manage_triple:
  assumes "virtual_box_host h b initial"
  shows "triple (\<lambda>log. machines b initial log = (r, p)) (manage h v arguments)
    (\<lambda>_ log. vbox_accepts r p (read_command arguments) \<and>
       machines b initial log = (vbox_apply r (read_command arguments), next_power p (read_command arguments)))
    (\<lambda>e log. \<not> vbox_accepts r p (read_command arguments) \<and> is_runtime_error e \<and>
       machines b initial log = (r, p))"
  unfolding manage_def
  by (rule triple_bind [OF run_vboxmanage_triple [OF assms]]) (auto intro!: triple_ret)

lemma accepted_triple:
  assumes "virtual_box_host h b initial" and "vbox_accepts r p (read_command arguments)"
  shows "triple (\<lambda>log. machines b initial log = (r, p)) (manage h v arguments)
    (\<lambda>_ log. machines b initial log = (vbox_apply r (read_command arguments), next_power p (read_command arguments)))
    (\<lambda>_ _. False)"
  by (rule triple_weaken [OF manage_triple [OF assms(1)]]) (use assms(2) in auto)

text \<open>A query leaves the machines as they are and is never refused.\<close>

lemma query_triple:
  assumes "virtual_box_host h b initial" and "read_command arguments = Other_Command"
    and "\<And>before. vbox_output b before (r, p) arguments = Some (text before)"
  shows "triple (\<lambda>log. machines b initial log = (r, p)) (run_vboxmanage h v arguments)
    (\<lambda>c log. machines b initial log = (r, p) \<and> (\<exists>before. cp_stdout c = text before)) (\<lambda>_ _. False)"
  by (rule triple_weaken [OF run_vboxmanage_triple [OF assms(1)]]) (use assms(2,3) in auto)

lemma list_triple:
  assumes "virtual_box_host h b initial" and "named r"
    and "kind = ''vms'' \<and> names = map fst r \<or>
      kind = ''runningvms'' \<and> names = filter (is_running p) (map fst r)"
  shows "triple (\<lambda>log. machines b initial log = (r, p)) (list_virtual_machines h v kind)
    (\<lambda>ms log. machines b initial log = (r, p) \<and> map vb_name ms = names) (\<lambda>_ _. False)"
proof -
  have "list_all one_line names"
    using assms(2,3) by (auto simp: list_all_iff)
  then have names: "map vb_name (virtual_machines_in (print_lines (map (vm_line b) names))) = names"
    using assms(1) listing_names by (simp add: virtual_box_host_def)
  have query: "triple (\<lambda>log. machines b initial log = (r, p)) (run_vboxmanage h v [''list'', kind])
      (\<lambda>c log. machines b initial log = (r, p) \<and>
         (\<exists>before :: vm_event list. cp_stdout c = print_lines (map (vm_line b) names))) (\<lambda>_ _. False)"
    by (rule query_triple [OF assms(1)]) (use assms(3) in \<open>auto simp: read_command_def vbox_output_def\<close>)
  show ?thesis
    unfolding list_virtual_machines_def
    by (rule triple_bind [OF query]) (auto intro!: triple_ret simp: names)
qed

lemma state_triple:
  assumes "virtual_box_host h b initial" and "named r"
  shows "triple (\<lambda>log. machines b initial log = (r, p)) (get_virtual_machine_state h v n)
    (\<lambda>state log. machines b initial log = (r, p) \<and> state = state_in (r, p) n) (\<lambda>_ _. False)"
proof -
  let ?at = "\<lambda>log. machines b initial log = (r, p)"
  have vms: "triple ?at (list_virtual_machines h v ''vms'')
      (\<lambda>ms log. ?at log \<and> map vb_name ms = map fst r) (\<lambda>_ _. False)"
    by (rule list_triple [OF assms]) simp
  have running: "triple ?at (list_virtual_machines h v ''runningvms'')
      (\<lambda>ms log. ?at log \<and> map vb_name ms = filter (is_running p) (map fst r)) (\<lambda>_ _. False)"
    by (rule list_triple [OF assms]) simp
  have info: "triple ?at (run_vboxmanage h v [''showvminfo'', n, ''--machinereadable''])
      (\<lambda>c log. ?at log \<and> (\<exists>before. cp_stdout c =
         print_lines (vx_before b before n @ state_line p n # vx_after b before n))) (\<lambda>_ _. False)"
    if "registered r n"
    by (rule query_triple [OF assms(1)]) (use that in \<open>simp_all add: read_command_def vbox_output_def\<close>)
  have read: "get_machine_readable_value (cp_stdout c) ''VMState'' = Some (p n)"
    if "?at log" "\<exists>before. cp_stdout c = print_lines (vx_before b before n @ state_line p n # vx_after b before n)"
    for c :: completed and log
  proof -
    have "one_line (p n)" using machines_one_line [OF assms(1), of log] that(1) by simp
    with that(2) state_line_read show ?thesis
      using assms(1) by (auto simp: virtual_box_host_def)
  qed
  have ask: "triple ?at (bind (run_vboxmanage h v [''showvminfo'', n, ''--machinereadable'']) (\<lambda>info.
       if get_machine_readable_value (cp_stdout info) ''VMState'' = Some ''poweroff''
       then ret STOPPED else ret OTHER))
      (\<lambda>state log. ?at log \<and> state = state_in (r, p) n) (\<lambda>_ _. False)"
    if "registered r n" "\<not> is_running p n"
    by (rule triple_bind [OF info [OF that(1)]])
      (use that in \<open>auto simp: triple_def ret_def state_in_def dest: read\<close>)
  have second: "triple ?at (bind (list_virtual_machines h v ''runningvms'') (\<lambda>ms.
       if n \<in> set (map vb_name ms) then ret RUNNING
       else bind (run_vboxmanage h v [''showvminfo'', n, ''--machinereadable'']) (\<lambda>info.
         if get_machine_readable_value (cp_stdout info) ''VMState'' = Some ''poweroff''
         then ret STOPPED else ret OTHER)))
      (\<lambda>state log. ?at log \<and> state = state_in (r, p) n) (\<lambda>_ _. False)"
    if known: "registered r n"
  proof (rule triple_bind_where [OF running], goal_cases)
    case (1 ms)
    then have "n \<in> set (map vb_name ms) \<longleftrightarrow> is_running p n"
      using known by (simp add: registered_def del: set_map)
    then show ?case
      using known ask by (auto simp: state_in_def intro!: triple_ret simp del: set_map)
  qed
  show ?thesis
    unfolding get_virtual_machine_state_def
  proof (rule triple_bind_where [OF vms], goal_cases)
    case (1 ms)
    then have "n \<in> set (map vb_name ms) \<longleftrightarrow> registered r n"
      by (simp add: registered_def del: set_map)
    then show ?case
      using second by (auto simp: state_in_def intro!: triple_ret simp del: set_map)
  qed
qed

lemma rule_name_nat: "CHR '','' \<notin> set name \<Longrightarrow> rule_name (nat_rule name port) = name"
  unfolding rule_name_def nat_rule_def by (subst takeWhile_append2) auto

lemma command_reads:
  "read_command [''controlvm'', n, ''poweroff''] = Power_Off n"
  "read_command [''unregistervm'', n, ''--delete''] = Unregister n"
  "read_command [''startvm'', ''--type=headless'', n] = Start n"
  "read_command [''clonevm'', n, ''--name='' @ m, folder, mode, flag] = Clone n m"
  "read_command [''controlvm'', n, ''natpf1delete'', ''sandbox-base-ssh''] = Delete_Rule True n ''sandbox-base-ssh''"
  "read_command [''modifyvm'', n, ''--nat-pf1'', ''delete'', ''sandbox-base-ssh''] =
     Delete_Rule False n ''sandbox-base-ssh''"
  "read_command [''modifyvm'', n, ''--nat-pf1='' @ nat_rule ''sandbox-ssh'' port] = Add_Rule False n ''sandbox-ssh''"
  "read_command [''modifyvm'', n, ''--nat-pf1='' @ nat_rule ''sandbox-base-ssh'' port] =
     Add_Rule False n ''sandbox-base-ssh''"
  "read_command [''controlvm'', n, ''natpf1'', nat_rule ''sandbox-base-ssh'' port] =
     Add_Rule True n ''sandbox-base-ssh''"
  by (simp_all add: read_command_def read_clone_def read_control_def read_modify_def rule_name_nat
      starts_with_def)

lemmas command_simps = command_reads [simplified]

interpretation vbox: monitor "vbox_step b" fst quiet for b
proof (unfold_locales)
  fix e past m
  assume "quiet e"
  then show "fst (vbox_step b past m e) = fst m"
    by (cases "(b, past, m, e)" rule: vbox_step.cases) auto
qed

lemma quiet_triple:
  assumes "emits quiet m"
  shows "triple (\<lambda>log. P (fst (machines b initial log))) m
    (\<lambda>_ log. P (fst (machines b initial log))) (\<lambda>_ log. P (fst (machines b initial log)))"
  unfolding machines_def by (rule vbox.triple_neutral [OF assms])

lemma triple_ask: "(\<And>log. P log \<Longrightarrow> R (q log) log) \<Longrightarrow> triple P (ask q) R E"
  by (simp add: triple_def ask_def)

lemma triple_vboxmanage:
  "(\<And>v. triple P (f v) Q E) \<Longrightarrow> triple P (bind (find_vboxmanage h) f) Q E"
  unfolding find_vboxmanage_def by (rule triple_bind [OF triple_ask [where R = "\<lambda>_. P"]]) auto

lemma triple_state:
  assumes "virtual_box_host h b initial" and "named r"
    and "triple (\<lambda>log. machines b initial log = (r, p)) (f (state_in (r, p) n)) Q E"
  shows "triple (\<lambda>log. machines b initial log = (r, p)) (bind (get_virtual_machine_state h v n) f) Q E"
  by (rule triple_bind_where [OF triple_weaken [OF state_triple [OF assms(1,2)]]]) (use assms(3) in auto)

lemma wait_triple:
  assumes "virtual_box_host h b initial" and "named r" and "\<not> is_running p n"
  shows "triple (\<lambda>log. machines b initial log = (r, p)) (wait_for_virtual_machine_to_stop h v n)
    (\<lambda>_ log. machines b initial log = (r, p)) (\<lambda>_ _. False)"
  unfolding wait_for_virtual_machine_to_stop_def
proof (rule triple_bind_where [where R = "\<lambda>k. 0 < k"])
  show "triple (\<lambda>log. machines b initial log = (r, p)) (ask (vm_polls h))
      (\<lambda>k log. machines b initial log = (r, p) \<and> 0 < k) (\<lambda>_ _. False)"
    by (rule triple_ask) (use assms(1) in \<open>simp add: virtual_box_host_def\<close>)
  fix k :: nat
  assume "0 < k"
  then obtain j where k: "k = Suc j" by (cases k) auto
  show "triple (\<lambda>log. machines b initial log = (r, p)) (poll_until_stopped h v n k)
      (\<lambda>_ log. machines b initial log = (r, p)) (\<lambda>_ _. False)"
    unfolding k poll_until_stopped.simps
    by (rule triple_state [OF assms(1,2)]) (use assms(3) in \<open>auto simp: state_in_def intro!: triple_ret\<close>)
qed

text \<open>Removing a clone: its name is gone from the registry, and nothing else changes.\<close>

lemma stop_and_remove_triple:
  assumes "virtual_box_host h b initial" and "named r"
  shows "triple (\<lambda>log. machines b initial log = (r, p)) (stop_and_remove_vm_clone h n)
    (\<lambda>_ log. fst (machines b initial log) = dict_pop n r) (\<lambda>_ _. False)"
  unfolding stop_and_remove_vm_clone_def
proof (intro triple_vboxmanage triple_state [OF assms])
  fix v
  show "triple (\<lambda>log. machines b initial log = (r, p))
      (if state_in (r, p) n = NOT_CREATED then ret ()
       else andthen (if state_in (r, p) n = RUNNING
           then andthen (manage h v [''controlvm'', n, ''poweroff''])
             (wait_for_virtual_machine_to_stop h v n)
           else ret ())
         (manage h v [''unregistervm'', n, ''--delete'']))
      (\<lambda>_ log. fst (machines b initial log) = dict_pop n r) (\<lambda>_ _. False)"
  proof (cases "registered r n")
    case False
    then show ?thesis
      by (auto simp: state_in_def registered_def delete_id intro!: triple_ret)
  next
    case True
    have unregister: "triple (\<lambda>log. machines b initial log = (r, q))
        (manage h v [''unregistervm'', n, ''--delete''])
        (\<lambda>_ log. fst (machines b initial log) = dict_pop n r) (\<lambda>_ _. False)"
      if "\<not> is_running q n" for q
      by (rule triple_weaken [OF accepted_triple [OF assms(1)]])
        (use True that in \<open>auto simp: command_reads\<close>)
    show ?thesis
    proof (cases "is_running p n")
      case False
      with unregister show ?thesis
        using True by (auto simp: state_in_def triple_andthen monad_simps)
    next
      case running: True
      let ?off = "p(n := ''poweroff'')"
      have off: "\<not> is_running ?off n" by (simp add: is_running_def)
      have power: "triple (\<lambda>log. machines b initial log = (r, p)) (manage h v [''controlvm'', n, ''poweroff''])
          (\<lambda>_ log. machines b initial log = (r, ?off)) (\<lambda>_ _. False)"
        by (rule triple_weaken [OF accepted_triple [OF assms(1)]])
          (use True running in \<open>auto simp: command_reads\<close>)
      have "triple (\<lambda>log. machines b initial log = (r, p))
          (andthen (andthen (manage h v [''controlvm'', n, ''poweroff''])
             (wait_for_virtual_machine_to_stop h v n))
           (manage h v [''unregistervm'', n, ''--delete'']))
          (\<lambda>_ log. fst (machines b initial log) = dict_pop n r) (\<lambda>_ _. False)"
        by (rule triple_andthen [OF triple_andthen [OF power wait_triple [OF assms off]] unregister [OF off]])
      then show ?thesis
        using True running by (simp add: state_in_def)
    qed
  qed
qed

lemma dict_fresh:
  "\<not> registered r n \<Longrightarrow> dict_set n x r = r @ [(n, x)]"
  "\<not> registered r n \<Longrightarrow> dict_set n y (r @ [(n, x)]) = r @ [(n, y)]"
  "\<not> registered r n \<Longrightarrow> dict_pop n (r @ [(n, x)]) = r"
  "\<not> registered r n \<Longrightarrow> rules_of (r @ [(n, x)]) n = x"
  "registered (r @ [(n, x)]) n"
  by (induction r) (auto simp: registered_def rules_of_def AList.delete_eq split: option.splits)

lemma dict_back:
  "registered r n \<Longrightarrow> dict_set n (rules_of r n) r = r"
  "dict_set n y (dict_set n x r) = dict_set n y r"
  by (induction r) (auto simp: registered_def rules_of_def)

lemma dict_set_rules [simp]:
  "rules_of (dict_set n x r) n = x" "registered (dict_set n x r) m \<longleftrightarrow> m = n \<or> registered r m"
  by (auto simp: rules_of_def registered_def dom_update)

lemma named_set [simp]: "registered r n \<Longrightarrow> map fst (dict_set n x r) = map fst r"
  by (induction r) (auto simp: registered_def)

text \<open>Starting a clone: it is the one machine added, or nothing has changed.\<close>

definition clone_added :: "vm_host \<Rightarrow> registry \<Rightarrow> registry \<Rightarrow> string \<Rightarrow> bool" where
  "clone_added h i r n \<longleftrightarrow> \<not> registered i n \<and> (\<exists>rules. r = i @ [(n, rules)]) \<and>
     (\<exists>log. n = run_vm_name_of (vm_clock h log))"

lemma triple_fst_fixed:
  "(\<And>p. triple (\<lambda>log. machines b initial log = (r, p)) m Q E) \<Longrightarrow>
   triple (\<lambda>log. fst (machines b initial log) = r) m Q E"
  unfolding triple_def by (metis prod.collapse)

lemma clone_and_start_triple:
  assumes host: "virtual_box_host h b initial"
    and base: "registered i (vc_vm_name c)" and rule: "''sandbox-ssh'' \<notin> set (rules_of i (vc_vm_name c))"
  shows "triple (\<lambda>log. fst (machines b initial log) = i) (clone_and_start_run_vm h v c)
    (\<lambda>started log. clone_added h i (fst (machines b initial log)) (fst started))
    (\<lambda>_ log. fst (machines b initial log) = i)"
  unfolding clone_and_start_run_vm_def Let_def
proof (rule triple_bind_where [where S = "\<lambda>log. fst (machines b initial log) = i"
      and R = "\<lambda>timestamp. \<exists>log. timestamp = vm_clock h log"])
  show "triple (\<lambda>log. fst (machines b initial log) = i) (ask (vm_clock h))
      (\<lambda>timestamp log. fst (machines b initial log) = i \<and> (\<exists>log. timestamp = vm_clock h log))
      (\<lambda>_ log. fst (machines b initial log) = i)"
    by (rule triple_ask) blast
next
  fix timestamp
  assume timestamp: "\<exists>log. timestamp = vm_clock h log"
  let ?n = "run_vm_name_of timestamp"
  let ?d = "path_div (path_div (vc_base_directory c) ''runs'') (''run-'' @ timestamp)"
  let ?I = "\<lambda>log. fst (machines b initial log) = i"
  have quiet: "triple ?I m (\<lambda>_. ?I) (\<lambda>_. ?I)" if "emits quiet m" for m :: "'z vm"
    by (rule quiet_triple [OF that])
  have clone: "triple ?I (manage h v [''clonevm'', vc_vm_name c, ''--name='' @ ?n,
        ''--basefolder='' @ path_str ?d, ''--mode=machine'', ''--register''])
      (\<lambda>_ log. \<exists>p. (\<not> registered i ?n \<and> \<not> is_running p ?n) \<and>
         machines b initial log = (i @ [(?n, rules_of i (vc_vm_name c))], p)) (\<lambda>_. ?I)"
    by (rule triple_fst_fixed, rule triple_weaken [OF manage_triple [OF host]])
      (auto simp: command_simps dict_fresh is_running_def)
  have rest: "triple (\<lambda>log. \<exists>p. (\<not> registered i ?n \<and> \<not> is_running p ?n) \<and>
         machines b initial log = (i @ [(?n, rules_of i (vc_vm_name c))], p))
      (andthen (manage h v [''modifyvm'', ?n, ''--nat-pf1='' @ nat_rule ''sandbox-ssh'' port])
        (andthen (manage h v [''startvm'', ''--type=headless'', ?n]) (ret (?n, ?d, port))))
      (\<lambda>started log. clone_added h i (fst (machines b initial log)) (fst started)) (\<lambda>_. ?I)" for port
    unfolding triple_def
  proof (intro allI impI, elim exE conjE)
    fix log p
    assume fresh: "\<not> registered i ?n" and off: "\<not> is_running p ?n"
      and log: "machines b initial log = (i @ [(?n, rules_of i (vc_vm_name c))], p)"
    let ?r = "i @ [(?n, rules_of i (vc_vm_name c) @ [''sandbox-ssh''])]"
    have modify: "triple (\<lambda>log. machines b initial log = (i @ [(?n, rules_of i (vc_vm_name c))], p))
        (manage h v [''modifyvm'', ?n, ''--nat-pf1='' @ nat_rule ''sandbox-ssh'' port])
        (\<lambda>_ log. machines b initial log = (?r, p)) (\<lambda>_. ?I)"
      by (rule triple_weaken [OF accepted_triple [OF host]])
        (use rule off fresh in \<open>auto simp: command_simps dict_fresh\<close>)
    have start: "triple (\<lambda>log. machines b initial log = (?r, p))
        (manage h v [''startvm'', ''--type=headless'', ?n])
        (\<lambda>_ log. fst (machines b initial log) = ?r) (\<lambda>_. ?I)"
      by (rule triple_weaken [OF accepted_triple [OF host]])
        (use off in \<open>auto simp: command_simps dict_fresh\<close>)
    have "triple (\<lambda>log. machines b initial log = (i @ [(?n, rules_of i (vc_vm_name c))], p))
        (andthen (manage h v [''modifyvm'', ?n, ''--nat-pf1='' @ nat_rule ''sandbox-ssh'' port])
          (andthen (manage h v [''startvm'', ''--type=headless'', ?n]) (ret (?n, ?d, port))))
        (\<lambda>started log. clone_added h i (fst (machines b initial log)) (fst started)) (\<lambda>_. ?I)"
      by (rule triple_andthen [OF modify triple_andthen [OF start triple_ret]])
        (use fresh timestamp in \<open>auto simp: clone_added_def\<close>)
    then show "case andthen (manage h v [''modifyvm'', ?n, ''--nat-pf1='' @ nat_rule ''sandbox-ssh'' port])
          (andthen (manage h v [''startvm'', ''--type=headless'', ?n]) (ret (?n, ?d, port))) log of
        (Inr started, log) \<Rightarrow> clone_added h i (fst (machines b initial log)) (fst started)
      | (Inl e, log) \<Rightarrow> ?I log"
      by (rule triple_run) (rule log)
  qed
  show "triple ?I (bind (vm_question (vm_port h)) (\<lambda>port.
      andthen (effect h (Dir_Made ?d))
      (andthen (manage h v [''clonevm'', vc_vm_name c, ''--name='' @ ?n,
        ''--basefolder='' @ path_str ?d, ''--mode=machine'', ''--register''])
      (andthen (manage h v [''modifyvm'', ?n, ''--nat-pf1='' @ nat_rule ''sandbox-ssh'' port])
      (andthen (manage h v [''startvm'', ''--type=headless'', ?n]) (ret (?n, ?d, port)))))))
      (\<lambda>started log. clone_added h i (fst (machines b initial log)) (fst started)) (\<lambda>_. ?I)"
  proof (rule triple_bind [OF quiet])
    show "emits quiet (vm_question (vm_port h))" by (rule emits_vm_question)
    fix port
    have made: "triple ?I (effect h (Dir_Made ?d)) (\<lambda>_. ?I) (\<lambda>_. ?I)"
      by (rule quiet) (simp add: emits_effect)
    show "triple ?I (andthen (effect h (Dir_Made ?d))
        (andthen (manage h v [''clonevm'', vc_vm_name c, ''--name='' @ ?n,
          ''--basefolder='' @ path_str ?d, ''--mode=machine'', ''--register''])
        (andthen (manage h v [''modifyvm'', ?n, ''--nat-pf1='' @ nat_rule ''sandbox-ssh'' port])
        (andthen (manage h v [''startvm'', ''--type=headless'', ?n]) (ret (?n, ?d, port))))))
        (\<lambda>started log. clone_added h i (fst (machines b initial log)) (fst started)) (\<lambda>_. ?I)"
      by (rule triple_andthen [OF made triple_andthen [OF clone rest]])
  qed
qed

definition clone_started :: "vm_host \<Rightarrow> registry \<Rightarrow> registry \<Rightarrow> vm_clone_result \<Rightarrow> bool" where
  "clone_started h i r result \<longleftrightarrow>
     (if cr_status result = CLONE_STARTED
      then \<exists>n d port. cr_run_vm_name result = Some n \<and> cr_run_directory result = Some d \<and>
        cr_ssh_host result = Some ''127.0.0.1'' \<and> cr_ssh_port result = Some port \<and> clone_added h i r n
      else r = i)"

lemma create_vm_clone_triple:
  assumes host: "virtual_box_host h b initial" and named: "named i"
    and base: "registered i (vc_vm_name c)" and rule: "''sandbox-ssh'' \<notin> set (rules_of i (vc_vm_name c))"
  shows "triple (\<lambda>log. fst (machines b initial log) = i) (create_vm_clone h c)
    (\<lambda>result log. clone_started h i (fst (machines b initial log)) result)
    (\<lambda>_ log. fst (machines b initial log) = i)"
  unfolding create_vm_clone_def
proof (intro triple_vboxmanage triple_fst_fixed)
  fix v p
  let ?I = "\<lambda>log. fst (machines b initial log) = i"
  let ?post = "\<lambda>result log. clone_started h i (fst (machines b initial log)) result"
  have clone: "triple (\<lambda>log. machines b initial log = (i, p)) (clone_and_start_run_vm h v c)
      (\<lambda>started log. clone_added h i (fst (machines b initial log)) (fst started)) (\<lambda>_. ?I)"
    by (rule triple_weaken [OF clone_and_start_triple [OF host base rule]]) auto
  have start: "triple (\<lambda>log. machines b initial log = (i, p))
      (bind (clone_and_start_run_vm h v c) (\<lambda>(run_vm_name, run_directory, ssh_port).
         ret \<lparr>cr_status = CLONE_STARTED, cr_base_vm_name = vc_vm_name c,
           cr_run_vm_name = Some run_vm_name, cr_run_directory = Some run_directory,
           cr_ssh_host = Some ''127.0.0.1'', cr_ssh_port = Some ssh_port\<rparr>)) ?post (\<lambda>_. ?I)"
    by (rule triple_bind [OF clone])
      (auto intro!: triple_ret simp: clone_started_def)
  show "triple (\<lambda>log. machines b initial log = (i, p))
      (bind (get_virtual_machine_state h v (vc_vm_name c)) (\<lambda>state. case state of
         NOT_CREATED \<Rightarrow> create_missing_base_vm h v c
       | RUNNING \<Rightarrow> ret (new_vm_clone_result BASE_RUNNING (vc_vm_name c))
       | STOPPED \<Rightarrow>
           bind (clone_and_start_run_vm h v c) (\<lambda>(run_vm_name, run_directory, ssh_port).
             ret \<lparr>cr_status = CLONE_STARTED, cr_base_vm_name = vc_vm_name c,
               cr_run_vm_name = Some run_vm_name, cr_run_directory = Some run_directory,
               cr_ssh_host = Some ''127.0.0.1'', cr_ssh_port = Some ssh_port\<rparr>)
       | OTHER \<Rightarrow> ret (new_vm_clone_result NOT_READY (vc_vm_name c)))) ?post (\<lambda>_. ?I)"
    by (rule triple_state [OF host named])
      (use base start in \<open>auto simp: state_in_def clone_started_def new_vm_clone_result_def
        intro!: triple_ret\<close>)
qed

text \<open>The temporary NAT rule of the base machine.\<close>

definition with_rule :: "registry \<Rightarrow> string \<Rightarrow> registry" where
  "with_rule r n = dict_set n (rules_of r n @ [''sandbox-base-ssh'']) r"

lemma with_rule:
  assumes "registered r n"
  shows "registered (with_rule r n) n" "map fst (with_rule r n) = map fst r"
    "rules_of (with_rule r n) n = rules_of r n @ [''sandbox-base-ssh'']"
    "dict_set n (rules_of r n) (with_rule r n) = r"
  using assms by (simp_all add: with_rule_def dict_back)

lemma filter_absent: "x \<notin> set xs \<Longrightarrow> filter (\<lambda>y. y \<noteq> x) xs = xs"
  by (induction xs) auto

text \<open>The rule is removed whether the machine runs or not; a rule that is not there makes
  \<open>VBoxManage\<close> refuse, which is ignored.\<close>

lemma remove_forward_triple:
  assumes host: "virtual_box_host h b initial" and named: "named r" and known: "registered r n"
  shows "triple (\<lambda>log. machines b initial log = (r, p)) (remove_base_vm_nat_forward h v n)
    (\<lambda>_ log. machines b initial log =
       (if ''sandbox-base-ssh'' \<in> set (rules_of r n)
        then dict_set n (filter (\<lambda>x. x \<noteq> ''sandbox-base-ssh'') (rules_of r n)) r else r, p))
    (\<lambda>_ _. False)"
proof -
  let ?r = "if ''sandbox-base-ssh'' \<in> set (rules_of r n)
    then dict_set n (filter (\<lambda>x. x \<noteq> ''sandbox-base-ssh'') (rules_of r n)) r else r"
  have delete: "triple (\<lambda>log. machines b initial log = (r, p))
      (catch (manage h v command) (\<lambda>e. if is_runtime_error e then Some (ret ()) else None))
      (\<lambda>_ log. machines b initial log = (?r, p)) (\<lambda>_ _. False)"
    if "read_command command = Delete_Rule (is_running p n) n ''sandbox-base-ssh''" for command
    using manage_triple [OF host, of r p v command] known that
    by (fastforce simp: triple_def catch_def ret_def split: sum.splits)
  have "state_in (r, p) n \<noteq> NOT_CREATED" "state_in (r, p) n = RUNNING \<longleftrightarrow> is_running p n"
    using known by (simp_all add: state_in_def)
  then show ?thesis
    unfolding remove_base_vm_nat_forward_def Let_def
    by (intro triple_state [OF host named]) (use delete in \<open>simp add: command_simps\<close>)
qed

lemma add_forward_triple:
  assumes host: "virtual_box_host h b initial" and named: "named r" and known: "registered r n"
    and absent: "''sandbox-base-ssh'' \<notin> set (rules_of r n)"
    and add: "add = (if is_running p n then add_running_vm_nat_forward h v n port
      else add_stopped_vm_nat_forward h v n port)"
  shows "triple (\<lambda>log. machines b initial log = (r, p)) add
    (\<lambda>_ log. machines b initial log = (with_rule r n, p)) (\<lambda>_ _. False)"
proof -
  have removed: "triple (\<lambda>log. machines b initial log = (r, p)) (remove_base_vm_nat_forward h v n)
      (\<lambda>_ log. machines b initial log = (r, p)) (\<lambda>_ _. False)"
    using remove_forward_triple [OF host named known] absent by simp
  have "triple (\<lambda>log. machines b initial log = (r, p)) (manage h v command)
      (\<lambda>_ log. machines b initial log = (with_rule r n, p)) (\<lambda>_ _. False)"
    if "read_command command = Add_Rule (is_running p n) n ''sandbox-base-ssh''" for command
    by (rule triple_weaken [OF accepted_triple [OF host]])
      (use that known absent in \<open>auto simp: with_rule_def\<close>)
  then show ?thesis
    unfolding add add_running_vm_nat_forward_def add_stopped_vm_nat_forward_def
    by (auto simp: command_simps intro!: triple_andthen [OF removed])
qed

lemma install_quiet: "emits quiet (install_base_vm_packages h c)"
  unfolding install_base_vm_packages_def wait_for_base_ssh_def reach_base_def Let_def client_close_def
    connect_ssh_def
  by (auto intro!: event_intros ssh_loop_emits sudo_quiet)

lemma poll_keeps:
  assumes "virtual_box_host h b initial" and "named r"
  shows "triple (\<lambda>log. fst (machines b initial log) = r) (poll_until_stopped h v n k)
    (\<lambda>_ log. fst (machines b initial log) = r) (\<lambda>_ log. fst (machines b initial log) = r)"
proof (induction k)
  case 0
  show ?case by (simp add: triple_raise)
next
  case (Suc k)
  have pause: "triple (\<lambda>log. fst (machines b initial log) = r) pause
      (\<lambda>_ log. fst (machines b initial log) = r) (\<lambda>_ log. fst (machines b initial log) = r)"
    by (rule quiet_triple [where P = "\<lambda>x. x = r"]) (simp add: emits_pause)
  have next_poll: "triple (\<lambda>log. machines b initial log = (r, p))
      (andthen pause (poll_until_stopped h v n k))
      (\<lambda>_ log. fst (machines b initial log) = r) (\<lambda>_ log. fst (machines b initial log) = r)" for p
    by (rule triple_weaken [OF triple_andthen [OF pause Suc.IH]]) auto
  show ?case
    unfolding poll_until_stopped.simps
    by (intro triple_fst_fixed triple_state [OF assms]) (auto intro!: triple_ret next_poll)
qed

lemma wait_keeps:
  assumes "virtual_box_host h b initial" and "named r"
  shows "triple (\<lambda>log. fst (machines b initial log) = r) (wait_for_virtual_machine_to_stop h v n)
    (\<lambda>_ log. fst (machines b initial log) = r) (\<lambda>_ log. fst (machines b initial log) = r)"
  unfolding wait_for_virtual_machine_to_stop_def
  by (rule triple_bind [OF triple_ask poll_keeps [OF assms]])

text \<open>Finalizing the base machine, whatever happens in the guest and however it ends: the machines and
  their NAT rules are what they were.\<close>

lemma finalize_triple:
  assumes host: "virtual_box_host h b initial" and named: "named i"
    and base: "registered i (vc_vm_name c)"
    and absent: "''sandbox-base-ssh'' \<notin> set (rules_of i (vc_vm_name c))"
  shows "triple (\<lambda>log. fst (machines b initial log) = i) (finalize_base_vm h c)
    (\<lambda>_ log. fst (machines b initial log) = i) (\<lambda>_ log. fst (machines b initial log) = i)"
proof -
  let ?n = "vc_vm_name c"
  let ?I = "\<lambda>log. fst (machines b initial log) = i"
  let ?F = "\<lambda>log. fst (machines b initial log) = with_rule i ?n"
  have forwarded: "named (with_rule i ?n)" "registered (with_rule i ?n) ?n"
    using named base by (simp_all only: with_rule)
  have remove: "triple ?F (remove_base_vm_nat_forward h v ?n) (\<lambda>_. ?I) (\<lambda>_. ?I)" for v
    by (rule triple_fst_fixed, rule triple_weaken [OF remove_forward_triple [OF host forwarded]])
      (use base absent in \<open>auto simp: with_rule filter_absent\<close>)
  have install: "triple ?F (install_base_vm_packages h c) (\<lambda>_. ?F) (\<lambda>_. ?F)"
    by (rule quiet_triple [OF install_quiet])
  have work: "triple ?F (try_finally
      (andthen (install_base_vm_packages h c) (wait_for_virtual_machine_to_stop h v ?n))
      (remove_base_vm_nat_forward h v ?n)) (\<lambda>_. ?I) (\<lambda>_. ?I)" for v
    by (rule triple_finally [OF triple_andthen [OF install wait_keeps [OF host forwarded(1)]] remove remove])
  have start: "triple (\<lambda>log. machines b initial log = (i, p))
      (if state_in (i, p) ?n = STOPPED
       then andthen (add_stopped_vm_nat_forward h v ?n port)
         (manage h v [''startvm'', ''--type=headless'', ?n])
       else add_running_vm_nat_forward h v ?n port) (\<lambda>_. ?F) (\<lambda>_. ?I)"
    if "state_in (i, p) ?n = STOPPED \<or> state_in (i, p) ?n = RUNNING" for v port p
  proof (cases "is_running p ?n")
    case True
    then have "state_in (i, p) ?n = RUNNING" using base by (simp add: state_in_def)
    then show ?thesis
      by (auto intro!: triple_weaken [OF add_forward_triple [OF host named base absent]] simp: True)
  next
    case False
    have add: "triple (\<lambda>log. machines b initial log = (i, p)) (add_stopped_vm_nat_forward h v ?n port)
        (\<lambda>_ log. machines b initial log = (with_rule i ?n, p)) (\<lambda>_. ?I)"
      by (rule triple_weaken [OF add_forward_triple [OF host named base absent]]) (auto simp: False)
    have "triple (\<lambda>log. machines b initial log = (with_rule i ?n, p))
        (manage h v [''startvm'', ''--type=headless'', ?n]) (\<lambda>_. ?F) (\<lambda>_. ?I)"
      by (rule triple_weaken [OF accepted_triple [OF host]])
        (use forwarded False in \<open>auto simp: command_simps\<close>)
    from triple_andthen [OF add this] show ?thesis
      using False base that by (auto simp: state_in_def)
  qed
  have port: "triple (\<lambda>log. machines b initial log = (i, p)) (vm_question (vm_port h))
      (\<lambda>_ log. machines b initial log = (i, p)) (\<lambda>_. ?I)" for p
    by (simp add: triple_def vm_question_def split: sum.split)
  show ?thesis
    unfolding finalize_base_vm_def
  proof (intro triple_vboxmanage triple_fst_fixed triple_state [OF host named], goal_cases)
    case (1 v p)
    then show ?case
    proof (cases "state_in (i, p) ?n = STOPPED \<or> state_in (i, p) ?n = RUNNING")
      case True
      have "triple (\<lambda>log. machines b initial log = (i, p)) (bind (vm_question (vm_port h)) (\<lambda>ssh_port.
          andthen (if state_in (i, p) ?n = STOPPED
              then andthen (add_stopped_vm_nat_forward h v ?n ssh_port)
                (manage h v [''startvm'', ''--type=headless'', ?n])
              else add_running_vm_nat_forward h v ?n ssh_port)
            (andthen (try_finally
              (andthen (install_base_vm_packages h c) (wait_for_virtual_machine_to_stop h v ?n))
              (remove_base_vm_nat_forward h v ?n)) (ret (r ssh_port))))) (\<lambda>_. ?I) (\<lambda>_. ?I)"
        for r :: "int \<Rightarrow> base_finalization_result"
        by (rule triple_bind [OF port triple_andthen [OF start [OF True] triple_andthen [OF work triple_ret]]])
      with True show ?thesis by auto
    next
      case False
      then have "state_in (i, p) ?n = NOT_CREATED \<or> state_in (i, p) ?n = OTHER"
        by (cases "state_in (i, p) ?n") auto
      then show ?thesis by (auto intro!: triple_ret)
    qed
  qed
qed


end
