(* ===== verification/Vbox_Run.thy ===== *)
theory Vbox_Run
  imports Vbox_Registry
begin

text \<open>
  A VirtualBox run from the command line to the exit code: \<open>virtual_machine_setup.py\<close>,
  \<open>run_results.py\<close> and \<open>cli.py\<close> of \<open>src/virtualbox_sandbox\<close>. The namespace \<open>argparse\<close> builds is
  the input; what \<open>_validate_arguments\<close> refuses of it is modelled.
\<close>

section \<open>Setup\<close>

record vbox_setup =
  vs_vm_name :: string
  vs_ssh_host :: string
  vs_ssh_port :: int
  vs_username :: string
  vs_password :: string
  vs_script_path :: "path option"
  vs_source_directory :: "path option"
  vs_agent_name :: "string option"
  vs_agent_verbose :: bool
  vs_agent_serialize_evidence :: bool
  vs_local_run_directory :: "path option"

definition wait_for_ssh :: "vm_host \<Rightarrow> vbox_setup \<Rightarrow> unit vm" where
  "wait_for_ssh h s =
     bind (ask (vm_ssh h)) (\<lambda>attempts.
       ssh_loop h (reach_guest h)
         (Some (RuntimeError (''SSH is reachable, but authentication failed for user '' @
           [CHR 0x27] @ vs_username s @ [CHR 0x27] @ ''. The base VM may have '' @
           ''been created with different credentials than the local '' @
           ''VirtualBox sandbox credential file.'')))
         (\<lambda>last_error. RuntimeError (''Timed out waiting for SSH on disposable VM '' @
           [CHR 0x27] @ vs_vm_name s @ [CHR 0x27] @ '': '' @ last_error))
         attempts ''None'')"

definition HELLO_WORLD_SCRIPT :: string where
  "HELLO_WORLD_SCRIPT = py_join [CHR 0x0A]
    [''import json'',
     ''import platform'',
     '''',
     ''message = {'',
     ''    '' @ [CHR 0x22] @ ''message'' @ [CHR 0x22] @ '': '' @ [CHR 0x22] @ ''hello from vm'' @
       [CHR 0x22] @ '','',
     ''    '' @ [CHR 0x22] @ ''python'' @ [CHR 0x22] @ '': platform.python_version(),'',
     ''}'',
     ''print(json.dumps(message))'',
     '''']"

definition load_script_content :: "vm_host \<Rightarrow> path option \<Rightarrow> string vm" where
  "load_script_content h script_path =
     (case script_path of
        None \<Rightarrow> ret HELLO_WORLD_SCRIPT
      | Some p \<Rightarrow>
          bind (resolved h p) (\<lambda>resolved_path.
          bind (ask (\<lambda>log. vm_exists h log resolved_path)) (\<lambda>exists.
          if \<not> exists then raise (FileNotFoundError
            (''Script file does not exist: '' @ path_str resolved_path))
          else
          bind (ask (\<lambda>log. vm_is_file h log resolved_path)) (\<lambda>is_file.
          if \<not> is_file then raise (ValueError
            (''Script path is not a file: '' @ path_str resolved_path))
          else vm_question (\<lambda>log. vm_text h log resolved_path)))))"

text \<open>\<open>[local]\<close> stands for the value of the variable on the host; without one it is left out.\<close>

fun resolve_variables_into ::
    "vm_host \<Rightarrow> (string, string) dict \<Rightarrow> (string, string) dict \<Rightarrow> (string, string) dict" where
  "resolve_variables_into h env [] = env"
| "resolve_variables_into h env ((name, v) # rest) =
     (if v = ''[local]''
      then (case vm_environ h name of
              None \<Rightarrow> resolve_variables_into h env rest
            | Some local_value \<Rightarrow> resolve_variables_into h (dict_set name local_value env) rest)
      else resolve_variables_into h (dict_set name v env) rest)"

definition resolve_profile_environment_variables ::
    "vm_host \<Rightarrow> python_agent_profile \<Rightarrow> (string, string) dict" where
  "resolve_profile_environment_variables h profile =
     resolve_variables_into h [] (ag_environment_variables profile)"

definition write_local_config :: "vm_host \<Rightarrow> vbox_setup \<Rightarrow> guest_run_layout \<Rightarrow> unit vm" where
  "write_local_config h s layout =
     (case vs_local_run_directory s of
        None \<Rightarrow> ret ()
      | Some d \<Rightarrow>
          andthen (effect h (Dir_Made d))
            (effect h (File_Written (path_div d ''config.json'') (gl_config_json layout))))"

text \<open>The environment and the layout the object remembers.\<close>

definition prepare_agent_environment ::
    "vm_host \<Rightarrow> vbox_setup \<Rightarrow> python_agent_profile \<Rightarrow>
     ((string, string) dict option \<times> guest_run_layout option) vm" where
  "prepare_agent_environment h s profile =
     (let environment_variables = resolve_profile_environment_variables h profile
      in if vs_agent_name s \<noteq> Some ''sandbox_tester''
         then ret (if environment_variables = [] then None else Some environment_variables, None)
         else
         bind (create_sandbox_tester_run_layout h (vs_username s)) (\<lambda>layout.
         andthen (write_local_config h s layout)
         (let with_config = dict_set ''SANDBOX_TESTER_CONFIG_PATH'' (gl_config_path layout)
                environment_variables;
              with_verbose = (if vs_agent_verbose s
                then dict_set ''SANDBOX_TESTER_VERBOSE'' ''1'' with_config else with_config);
              with_evidence = (if vs_agent_serialize_evidence s
                then dict_set ''SANDBOX_TESTER_SERIALIZE_EVIDENCE'' ''1'' with_verbose
                else with_verbose)
          in ret (Some with_evidence, Some layout))))"

definition download_agent_artifacts ::
    "vm_host \<Rightarrow> vbox_setup \<Rightarrow> guest_run_layout option \<Rightarrow> guest_script_result \<Rightarrow>
     guest_script_result vm" where
  "download_agent_artifacts h s remembered result =
     (case remembered of
        None \<Rightarrow> ret result
      | Some layout \<Rightarrow>
     if vs_agent_name s \<noteq> Some ''sandbox_tester'' then ret result
     else
     let output = gl_output_directory layout;
         report_path = output @ ''/report.json'';
         screenshot_paths = [output @ ''/browser_screenshot.png'',
           output @ ''/playwright_shell_screenshot.png'', output @ ''/playwright_tool_screenshot.png'']
     in bind (with_sftp h
         (bind (catch
            (bind (remote_read h report_path) (\<lambda>report_bytes. ret (Some report_bytes)))
            (\<lambda>e. if is_os_error e
              then Some (if gs_exit_code result = 0
                then raise (FileNotFoundError (''Sandbox Tester completed successfully, but no guest '' @
                  ''report was found at '' @ report_path @ ''.''))
                else ret None)
              else None)) (\<lambda>read. case read of
            None \<Rightarrow> ret None
          | Some report_bytes \<Rightarrow>
              bind (read_screenshot_artifacts h screenshot_paths []) (\<lambda>screenshots.
                ret (Some (report_bytes, screenshots)))))) (\<lambda>downloaded.
         case downloaded of
           None \<Rightarrow> ret result
         | Some (report_bytes, screenshots) \<Rightarrow>
             ret (result\<lparr>gs_artifacts := update_dict
               (dict_set ''report.json'' (Text_Artifact (vm_decode h report_bytes))
                 (gs_artifacts result)) screenshots\<rparr>)))"

definition setup_guest :: "vm_host \<Rightarrow> path \<Rightarrow> vbox_setup \<Rightarrow> guest_script_result vm" where
  "setup_guest h repository_root s =
     andthen (message (''Waiting for SSH on disposable run VM '' @ [CHR 0x27] @ vs_vm_name s @
       [CHR 0x27] @ '' at '' @ vs_ssh_host s @ '':'' @ str_int (vs_ssh_port s) @ ''.''))
     (andthen (wait_for_ssh h s)
       (try_finally
         (case vs_agent_name s of
            Some agent_name \<Rightarrow>
              bind (lift_res (get_python_agent_profile repository_root agent_name)) (\<lambda>profile.
              bind (prepare_agent_environment h s profile) (\<lambda>(environment_variables, layout).
              bind (run_python_agent h profile environment_variables) (\<lambda>result.
                download_agent_artifacts h s layout result)))
          | None \<Rightarrow>
              bind (load_script_content h (vs_script_path s)) (\<lambda>script_content.
                run_python_script h script_content (vs_source_directory s)))
         (client_close h)))"

section \<open>Results\<close>

definition create_metadata_data :: "string \<Rightarrow> vm_clone_result \<Rightarrow> json" where
  "create_metadata_data now r = JObj
     [(''timestamp_utc'', JStr now),
      (''base_vm_name'', JStr (cr_base_vm_name r)),
      (''run_vm_name'', json_opt_str (cr_run_vm_name r)),
      (''ssh_host'', json_opt_str (cr_ssh_host r)),
      (''ssh_port'', case cr_ssh_port r of None \<Rightarrow> JNull | Some n \<Rightarrow> JInt n)]"

definition save_run_results ::
    "vm_host \<Rightarrow> path \<Rightarrow> vm_clone_result \<Rightarrow> guest_script_result \<Rightarrow> unit vm" where
  "save_run_results h run_directory clone_result script_result =
     steps
       [effect h (Dir_Made run_directory),
        write_text h (path_div run_directory ''stdout.txt'') (gs_stdout script_result),
        write_text h (path_div run_directory ''stderr.txt'') (gs_stderr script_result),
        write_artifacts h run_directory (gs_artifacts script_result),
        bind (ask (vm_clock h)) (\<lambda>now. effect h (File_Written (path_div run_directory ''run-metadata.json'')
          (Json_Text (create_metadata_data now clone_result))))]"

section \<open>The command line\<close>

record vbox_arguments =
  va_vm_name :: string
  va_iso :: "path option"
  va_base_directory :: path
  va_disk_size_mb :: int
  va_memory_mb :: int
  va_cpus :: int
  va_guest_user :: string
  va_hostname :: string
  va_keep_vm :: bool
  va_script :: "path option"
  va_source_directory :: "path option"
  va_agent :: "string option"
  va_verbose :: bool
  va_serialize_evidence :: bool
  va_finalize_base :: bool

definition default_vbox_arguments :: vbox_arguments where
  "default_vbox_arguments = \<lparr>
     va_vm_name = ''Sandbox Tester Base'',
     va_iso = None,
     va_base_directory = path_of ''.virtualbox_sandbox'',
     va_disk_size_mb = 16384,
     va_memory_mb = 4096,
     va_cpus = 2,
     va_guest_user = ''sandbox'',
     va_hostname = ''sandbox-tester-base.local'',
     va_keep_vm = False,
     va_script = None,
     va_source_directory = None,
     va_agent = None,
     va_verbose = False,
     va_serialize_evidence = False,
     va_finalize_base = False\<rparr>"

text \<open>\<open>parser.error\<close> prints the message and exits with code 2.\<close>

definition parser_error :: "string \<Rightarrow> unit vm" where
  "parser_error text = andthen (message text) (raise (SystemExit 2))"

definition validate_arguments :: "vbox_arguments \<Rightarrow> unit vm" where
  "validate_arguments a =
     (if va_finalize_base a then
        (if va_agent a \<noteq> None \<or> va_script a \<noteq> None \<or> va_source_directory a \<noteq> None \<or> va_keep_vm a \<or>
            va_verbose a \<or> va_serialize_evidence a
         then parser_error (''--finalize-base cannot be combined with --agent, --script, '' @
           ''--source-directory, --keep-vm, --verbose, or --serialize-evidence.'')
         else ret ())
      else if va_serialize_evidence a \<and> va_agent a \<noteq> Some ''sandbox_tester''
      then parser_error ''--serialize-evidence requires --agent sandbox_tester.''
      else if va_agent a = None then ret ()
      else if va_script a \<noteq> None \<or> va_source_directory a \<noteq> None
      then parser_error ''--agent cannot be combined with --script or --source-directory.''
      else ret ())"

definition configuration_from_arguments ::
    "vm_host \<Rightarrow> vbox_arguments \<Rightarrow> virtual_box_configuration vm" where
  "configuration_from_arguments h a =
     bind (vm_question (\<lambda>log. vm_resolve h log (va_base_directory a))) (\<lambda>base_directory.
     bind (load_or_create_guest_credentials h base_directory (va_guest_user a)) (\<lambda>credentials.
       ret \<lparr>vc_vm_name = va_vm_name a,
            vc_iso_path = va_iso a,
            vc_base_directory = base_directory,
            vc_disk_size_megabytes = va_disk_size_mb a,
            vc_memory_megabytes = va_memory_mb a,
            vc_cpu_count = va_cpus a,
            vc_guest_credentials = credentials,
            vc_hostname = va_hostname a\<rparr>))"

definition in_apostrophes :: "string \<Rightarrow> string" where
  "in_apostrophes s = [CHR 0x27] @ s @ [CHR 0x27]"

definition str_of_name :: "string option \<Rightarrow> string" where
  "str_of_name name = (case name of None \<Rightarrow> ''None'' | Some n \<Rightarrow> n)"

definition print_result :: "vm_clone_result \<Rightarrow> unit vm" where
  "print_result r =
     (let base = in_apostrophes (cr_base_vm_name r)
      in message (case cr_status r of
        BASE_CREATED \<Rightarrow> ''Base VM '' @ base @ '' has been created and Ubuntu '' @
          ''installation has been started. Wait for the installation to complete, '' @
          ''then shut down the base VM and run this command again.''
      | BASE_RUNNING \<Rightarrow> ''Base VM '' @ base @ '' is running. If Ubuntu is still '' @
          ''installing, wait for installation to complete. Once installation '' @
          ''is complete, shut down the base VM and run this command again.''
      | CLONE_STARTED \<Rightarrow> ''Started disposable run VM '' @
          in_apostrophes (str_of_name (cr_run_vm_name r)) @ ''. Configuring the clone now.''
      | ISO_MISSING \<Rightarrow> ''Base VM does not exist, and no installer ISO was found. '' @
          ''Pass --iso or set SANDBOX_TESTER_ISO.''
      | NOT_READY \<Rightarrow> ''Base VM '' @ base @ '' exists but is not ready to clone. '' @
          ''Open VirtualBox, shut it down cleanly, and run this command again.''))"

definition print_base_finalization_result :: "base_finalization_result \<Rightarrow> unit vm" where
  "print_base_finalization_result r =
     (let base = in_apostrophes (fr_base_vm_name r)
      in message (case fr_status r of
        FINALIZED \<Rightarrow> ''Base VM '' @ base @ '' was finalized and shut down. '' @
          ''Temporary SSH port forwarding was removed.''
      | MISSING \<Rightarrow> ''Base VM '' @ base @ '' does not exist. Run without '' @
          ''--finalize-base first to create and install it.''
      | BASE_NOT_READY \<Rightarrow> ''Base VM '' @ base @ '' exists but is not ready to finalize. '' @
          ''Open VirtualBox, shut it down cleanly or inspect its state, then run this command again.''))"

definition exit_code_from_result :: "vm_clone_result \<Rightarrow> int" where
  "exit_code_from_result r =
     (case cr_status r of ISO_MISSING \<Rightarrow> 2 | NOT_READY \<Rightarrow> 1 | _ \<Rightarrow> 0)"

definition exit_code_from_base_finalization_result :: "base_finalization_result \<Rightarrow> int" where
  "exit_code_from_base_finalization_result r = (if fr_status r = FINALIZED then 0 else 1)"

text \<open>The body of the \<open>try\<close> block and its \<open>finally\<close> block.\<close>

definition run_guest ::
    "vm_host \<Rightarrow> path \<Rightarrow> vbox_setup \<Rightarrow> vm_clone_result \<Rightarrow> path \<Rightarrow> unit vm" where
  "run_guest h repository_root s result run_directory =
     bind (setup_guest h repository_root s) (\<lambda>setup_result.
     andthen (save_run_results h run_directory result setup_result)
       (steps ([message (''Remote Python probe completed with exit code '' @
           str_int (gs_exit_code setup_result) @ ''.''),
         message (''Run results saved to: '' @ path_str run_directory),
         message (''Remote stdout saved to: '' @ path_str (path_div run_directory ''stdout.txt''))] @
         (if gs_stderr setup_result \<noteq> []
          then [message (''Remote stderr saved to: '' @ path_str (path_div run_directory ''stderr.txt''))]
          else []))))"

definition leave_clone :: "vm_host \<Rightarrow> bool \<Rightarrow> string \<Rightarrow> unit vm" where
  "leave_clone h keep_vm run_vm_name =
     (if keep_vm then message (''Kept disposable run VM '' @ in_apostrophes run_vm_name @ ''.'')
      else andthen (stop_and_remove_vm_clone h run_vm_name)
        (message (''Stopped and removed disposable run VM '' @ in_apostrophes run_vm_name @ ''.'')))"

definition setup_clone_if_started ::
    "vm_host \<Rightarrow> path \<Rightarrow> vm_clone_result \<Rightarrow> virtual_box_configuration \<Rightarrow> vbox_arguments \<Rightarrow> unit vm" where
  "setup_clone_if_started h repository_root result c a =
     (if cr_status result \<noteq> CLONE_STARTED then ret ()
      else
     (case cr_run_vm_name result of
        None \<Rightarrow> raise (RuntimeError ''VM clone result did not include a run VM name.'')
      | Some run_vm_name \<Rightarrow>
     (case (cr_ssh_host result, cr_ssh_port result) of
        (Some ssh_host, Some ssh_port) \<Rightarrow>
          (case cr_run_directory result of
             None \<Rightarrow> raise (RuntimeError ''VM clone result did not include a run directory.'')
           | Some run_directory \<Rightarrow>
               let s = \<lparr>vs_vm_name = run_vm_name,
                     vs_ssh_host = ssh_host,
                     vs_ssh_port = ssh_port,
                     vs_username = gc_user (vc_guest_credentials c),
                     vs_password = gc_password (vc_guest_credentials c),
                     vs_script_path = va_script a,
                     vs_source_directory = va_source_directory a,
                     vs_agent_name = va_agent a,
                     vs_agent_verbose = va_verbose a,
                     vs_agent_serialize_evidence = va_serialize_evidence a,
                     vs_local_run_directory = Some run_directory\<rparr>
               in try_finally (run_guest h repository_root s result run_directory)
                    (leave_clone h (va_keep_vm a) run_vm_name))
      | _ \<Rightarrow> raise (RuntimeError ''VM clone result did not include SSH connection details.''))))"

definition vbox_main :: "vm_host \<Rightarrow> path \<Rightarrow> vbox_arguments \<Rightarrow> int vm" where
  "vbox_main h repository_root a =
     andthen (validate_arguments a)
     (bind (configuration_from_arguments h a) (\<lambda>c.
      if va_finalize_base a
      then bind (finalize_base_vm h c) (\<lambda>result.
        andthen (print_base_finalization_result result)
          (ret (exit_code_from_base_finalization_result result)))
      else bind (create_vm_clone h c) (\<lambda>result.
        andthen (print_result result)
        (andthen (setup_clone_if_started h repository_root result c a)
          (ret (exit_code_from_result result))))))"

section \<open>VirtualBox is left as it was found\<close>

lemma wait_for_ssh_quiet: "emits quiet (wait_for_ssh h s)"
  unfolding wait_for_ssh_def by (auto intro!: event_intros ssh_loop_emits reach_quiet)

lemma prepare_quiet: "emits quiet (prepare_agent_environment h s profile)"
  unfolding prepare_agent_environment_def write_local_config_def Let_def
  by (auto intro!: event_intros layout_quiet split: option.split)

lemma download_artifacts_quiet: "emits quiet (download_agent_artifacts h s layout result)"
  unfolding download_agent_artifacts_def Let_def
  by (auto intro!: event_intros screenshots_quiet split: option.split prod.split if_splits)

lemma source_quiet: "emits quiet (write_remote_source_directory h d patterns)"
  unfolding write_remote_source_directory_def
  by (auto intro!: event_intros mkdir_quiet upload_quiet split: option.split)

lemma script_quiet: "emits quiet (run_python_script h script_content d)"
  unfolding run_python_script_def write_remote_script_def execute_remote_script_def Let_def
  by (auto intro!: event_intros source_quiet)

lemma load_script_quiet: "emits quiet (load_script_content h p)"
  unfolding load_script_content_def by (auto intro!: event_intros split: option.split)

lemma setup_guest_quiet: "emits quiet (setup_guest h root s)"
  unfolding setup_guest_def client_close_def
  by (auto intro!: event_intros wait_for_ssh_quiet prepare_quiet agent_quiet download_artifacts_quiet
      script_quiet load_script_quiet split: option.split prod.split)

lemma run_guest_quiet: "emits quiet (run_guest h root s result d)"
  unfolding run_guest_def save_run_results_def write_text_def
  by (auto intro!: event_intros setup_guest_quiet write_artifacts_quiet)

lemma validate_quiet: "emits quiet (validate_arguments a)"
  unfolding validate_arguments_def parser_error_def by (auto intro!: event_intros)

lemma configuration_quiet: "emits quiet (configuration_from_arguments h a)"
  unfolding configuration_from_arguments_def by (auto intro!: event_intros credentials_quiet)

lemma configuration_name:
  "configuration_from_arguments h a log = (Inr c, log') \<Longrightarrow> vc_vm_name c = va_vm_name a"
  by (auto simp: configuration_from_arguments_def bind_Inr ret_Inr)

text \<open>\<open>registry_is b initial r\<close>: the machines registered and their NAT rules are \<open>r\<close>.\<close>

abbreviation registry_is :: "virtual_box \<Rightarrow> machines \<Rightarrow> registry \<Rightarrow> vm_event list \<Rightarrow> bool" where
  "registry_is b initial r log \<equiv> fst (machines b initial log) = r"

lemma keeps_registry:
  "emits quiet m \<Longrightarrow>
   triple (registry_is b initial r) m (\<lambda>_. registry_is b initial r) (\<lambda>_. registry_is b initial r)"
  by (rule quiet_triple [where P = "\<lambda>x. x = r"])

lemma leave_clone_triple:
  assumes host: "virtual_box_host h b initial" and named: "named i"
    and clock: "\<forall>log. one_line (vm_clock h log)" and added: "clone_added h i r n"
  shows "triple (registry_is b initial r) (leave_clone h False n)
    (\<lambda>_. registry_is b initial i) (\<lambda>_. registry_is b initial i)"
proof -
  have "one_line (run_vm_name_of timestamp)" if "one_line timestamp" for timestamp
    using that by (simp add: run_vm_name_of_def one_line_def is_line_end_def code_def)
  with added clock named have named': "named r"
    by (auto simp: clone_added_def)
  from added have "dict_pop n r = i" by (auto simp: clone_added_def dict_fresh)
  then have remove: "triple (registry_is b initial r) (stop_and_remove_vm_clone h n)
      (\<lambda>_. registry_is b initial i) (\<lambda>_. registry_is b initial i)"
    by (intro triple_fst_fixed triple_weaken [OF stop_and_remove_triple [OF host named']]) auto
  show ?thesis
    unfolding leave_clone_def
    by simp (rule triple_andthen [OF remove keeps_registry], simp add: emits_message)
qed

lemma setup_clone_triple:
  assumes host: "virtual_box_host h b initial" and named: "named i"
    and clock: "\<forall>log. one_line (vm_clock h log)" and started: "clone_started h i r result"
    and keep: "\<not> va_keep_vm a"
  shows "triple (registry_is b initial r) (setup_clone_if_started h root result c a)
    (\<lambda>_. registry_is b initial i) (\<lambda>_. registry_is b initial i)"
proof (cases "cr_status result = CLONE_STARTED")
  case False
  with started show ?thesis
    by (auto simp: setup_clone_if_started_def clone_started_def intro!: triple_ret)
next
  case True
  with started obtain n d port where result: "cr_run_vm_name result = Some n"
    "cr_run_directory result = Some d" "cr_ssh_host result = Some ''127.0.0.1''"
    "cr_ssh_port result = Some port" and added: "clone_added h i r n"
    by (auto simp: clone_started_def)
  note leave = leave_clone_triple [OF host named clock added]
  have "triple (registry_is b initial r)
      (try_finally (run_guest h root s result d) (leave_clone h False n))
      (\<lambda>_. registry_is b initial i) (\<lambda>_. registry_is b initial i)" for s
    by (rule triple_finally [OF keeps_registry [OF run_guest_quiet] leave leave])
  with True result keep show ?thesis
    by (simp add: setup_clone_if_started_def)
qed


text \<open>A host that runs a given VirtualBox and a guest whose SSH server never answers.\<close>

definition with_virtual_box :: "vm_host \<Rightarrow> virtual_box \<Rightarrow> machines \<Rightarrow> vm_host" where
  "with_virtual_box h b initial = h\<lparr>vm_run := \<lambda>log e. (case e of
     Program_Run (v # arguments) \<Rightarrow>
       (case machines b initial log of (r, p) \<Rightarrow>
         Inr \<lparr>cp_returncode = (if vbox_accepts r p (read_command arguments) then 0 else 1),
              cp_stdout = (case vbox_output b log (r, p) arguments of None \<Rightarrow> [] | Some text \<Rightarrow> text),
              cp_stderr = []\<rparr>)
   | _ \<Rightarrow> vm_run h log e)\<rparr>"

definition plain_virtual_box :: virtual_box where
  "plain_virtual_box = \<lparr>
     vx_drift = (\<lambda>_ _ p. p),
     vx_uuid = (\<lambda>_. ''0f-1''),
     vx_before = (\<lambda>_ n. [''ostype=Ubuntu24_LTS_64'']),
     vx_after = (\<lambda>_ _. [''natnet1=nat''])\<rparr>"

definition base_machine :: machines where
  "base_machine = ([(''Sandbox Tester Base'', [])], \<lambda>_. ''poweroff'')"

definition silent_host :: vm_host where
  "silent_host = agreeable_host\<lparr>vm_exists := \<lambda>_ _. False, vm_ssh := \<lambda>_. []\<rparr>"

lemma with_virtual_box: "runs_virtual_box (with_virtual_box h b initial) b initial"
  unfolding runs_virtual_box_def
  by (auto simp: with_virtual_box_def split: prod.split option.split)

lemma plain_prints_well: "prints_well plain_virtual_box"
  by (auto simp: prints_well_def plain_virtual_box_def is_uuid_def one_line_def is_line_end_def code_def
      is_digit_def is_lower_def starts_with_def)

lemma plain_host:
  "virtual_box_host (with_virtual_box silent_host plain_virtual_box base_machine) plain_virtual_box base_machine"
proof -
  have "one_line (snd base_machine n)" for n
    by (simp add: base_machine_def one_line_def is_line_end_def code_def)
  then show ?thesis
    unfolding virtual_box_host_def
    by (simp add: with_virtual_box plain_prints_well) (simp add: with_virtual_box_def silent_host_def
        agreeable_host_def)
qed


section \<open>A clone that could not be started\<close>

fun unregisters :: "vm_event \<Rightarrow> bool" where
  "unregisters (Program_Run (v # sub # rest)) = (sub = ''unregistervm'')"
| "unregisters e = False"

lemma quiet_unregisters: "emits quiet m \<Longrightarrow> emits (\<lambda>e. \<not> unregisters e) m"
  by (erule emits_mono) (case_tac e rule: unregisters.cases; simp)

lemma manage_unregisters:
  "sub \<noteq> ''unregistervm'' \<Longrightarrow> emits (\<lambda>e. \<not> unregisters e) (run_vboxmanage h v (sub # rest))"
  "sub \<noteq> ''unregistervm'' \<Longrightarrow> emits (\<lambda>e. \<not> unregisters e) (manage h v (sub # rest))"
proof -
  show run: "emits (\<lambda>e. \<not> unregisters e) (run_vboxmanage h v (sub # rest))" if "sub \<noteq> ''unregistervm''"
    unfolding run_vboxmanage_def Let_def using that by (auto intro!: event_intros)
  show "emits (\<lambda>e. \<not> unregisters e) (manage h v (sub # rest))" if "sub \<noteq> ''unregistervm''"
    unfolding manage_def using run [OF that] by (auto intro!: event_intros)
qed

lemma create_never_unregisters: "emits (\<lambda>e. \<not> unregisters e) (create_vm_clone h c)"
proof -
  have iso: "emits quiet (resolve_iso_path h p)" for p
    unfolding resolve_iso_path_def existing_path_or_none_def find_downloaded_ubuntu_iso_def Let_def
    by (auto intro!: event_intros split: option.split list.split)
  have base: "emits (\<lambda>e. \<not> unregisters e) (create_base_virtual_machine h v c p)" for v p
    unfolding create_base_virtual_machine_def create_base_commands_def Let_def
    by (auto intro!: event_intros manage_unregisters)
  have "emits (\<lambda>e. \<not> unregisters e) (create_missing_base_vm h v c)" for v
    unfolding create_missing_base_vm_def
    by (auto intro!: event_intros quiet_unregisters [OF iso] base split: option.split)
  moreover have "emits (\<lambda>e. \<not> unregisters e) (get_virtual_machine_state h v n)" for v n
    unfolding get_virtual_machine_state_def list_virtual_machines_def
    by (auto intro!: event_intros manage_unregisters)
  moreover have "emits (\<lambda>e. \<not> unregisters e) (clone_and_start_run_vm h v c)" for v
    unfolding clone_and_start_run_vm_def Let_def by (auto intro!: event_intros manage_unregisters)
  ultimately show ?thesis
    unfolding create_vm_clone_def find_vboxmanage_def
    by (auto intro!: event_intros split: virtual_machine_state.split prod.split)
qed

text \<open>When the clone exists and setting its forward or starting it fails, the exception leaves the
  program before the clean-up is in place: the clone stays registered.\<close>

lemma failed_start_keeps_clone:
  assumes "validate_arguments a [] = (Inr (), log0)" and "\<not> va_finalize_base a"
    and "configuration_from_arguments h a log0 = (Inr c, log1)"
    and "create_vm_clone h c log1 = (Inl e, log2)"
  shows "vbox_main h root a [] = (Inl e, log2) \<and> list_all (\<lambda>e. \<not> unregisters e) log2"
proof
  show "vbox_main h root a [] = (Inl e, log2)"
    using assms by (simp add: vbox_main_def bind_def andthen_def)
  obtain new where "log2 = log1 @ new" "list_all (\<lambda>e. \<not> unregisters e) new"
    using create_never_unregisters assms(4) by (rule appendsD)
  moreover obtain new1 where "log1 = log0 @ new1" "list_all (\<lambda>e. \<not> unregisters e) new1"
    using quiet_unregisters [OF configuration_quiet] assms(3) by (rule appendsD)
  moreover obtain new0 where "log0 = [] @ new0" "list_all (\<lambda>e. \<not> unregisters e) new0"
    using quiet_unregisters [OF validate_quiet] assms(1) by (rule appendsD)
  ultimately show "list_all (\<lambda>e. \<not> unregisters e) log2" by simp
qed


end
