(* ===== verification/Vbox_Diagnostic.thy ===== *)
theory Vbox_Diagnostic
  imports Json Host
begin

text \<open>
  \<open>src/virtualbox_sandbox/diagnostic.py\<close>: a program that prints what the Python it runs in knows of itself,
  with the values of sensitive environment variables left out. What the interpreter and \<open>pip\<close>
  answer is a parameter; the state is the list of the documents printed.
\<close>

record python_runtime =
  dr_environ :: "(string \<times> string) list"
  dr_executable :: string
  dr_implementation :: string
  dr_search_path :: "string list"
  dr_platform :: "string \<Rightarrow> json"
  dr_prefix :: "string \<Rightarrow> string"
  dr_user_base :: json
  dr_user_site :: json
  dr_site_packages :: "json option"
  dr_config_vars :: json
  dr_version :: string
  dr_version_info :: "json list"
  dr_run :: "string list \<Rightarrow> completed res"
  dr_loads :: "string \<Rightarrow> json res"

definition SENSITIVE_ENVIRONMENT_TERMS :: "string list" where
  "SENSITIVE_ENVIRONMENT_TERMS = [''api_key'', ''apikey'', ''credential'', ''password'', ''secret'', ''token'']"

definition redact_environment_value :: "string \<Rightarrow> string \<Rightarrow> string" where
  "redact_environment_value key value =
     (let lower_key = py_lower key
      in if list_ex (\<lambda>term. contains term lower_key) SENSITIVE_ENVIRONMENT_TERMS then ''<redacted>'' else value)"

text \<open>The names of an environment are distinct, so the items are sorted by them.\<close>

definition get_environment :: "python_runtime \<Rightarrow> json" where
  "get_environment rt = JObj (map (\<lambda>(key, value). (key, JStr (redact_environment_value key value)))
     (sort_key fst (dr_environ rt)))"

definition get_installed_packages :: "python_runtime \<Rightarrow> json res" where
  "get_installed_packages rt =
     res_bind (dr_run rt [dr_executable rt, ''-m'', ''pip'', ''list'', ''--format=json'']) (\<lambda>result.
       if cp_returncode result \<noteq> 0 then Inr (JObj [(''error'', JStr (py_strip (cp_stderr result)))])
       else dr_loads rt (cp_stdout result))"

definition get_site_data :: "python_runtime \<Rightarrow> json" where
  "get_site_data rt = JObj ([(''user_base'', dr_user_base rt), (''user_site'', dr_user_site rt)] @
     (case dr_site_packages rt of None \<Rightarrow> [] | Some packages \<Rightarrow> [(''site_packages'', packages)]))"

definition answers_by_name :: "('a \<Rightarrow> json) \<Rightarrow> (string \<Rightarrow> 'a) \<Rightarrow> string list \<Rightarrow> json" where
  "answers_by_name f g names = JObj (map (\<lambda>name. (name, f (g name))) names)"

definition create_diagnostics :: "python_runtime \<Rightarrow> json res" where
  "create_diagnostics rt =
     res_bind (get_installed_packages rt) (\<lambda>installed_packages. Inr (JObj
       [(''environment'', get_environment rt),
        (''executable'', JStr (dr_executable rt)),
        (''implementation'', JStr (dr_implementation rt)),
        (''installed_packages'', installed_packages),
        (''path'', JList (map JStr (dr_search_path rt))),
        (''platform'', answers_by_name id (dr_platform rt)
          [''architecture'', ''machine'', ''platform'', ''processor'', ''release'', ''system'', ''version'']),
        (''prefix'', answers_by_name JStr (dr_prefix rt) [''base_prefix'', ''base_exec_prefix'', ''exec_prefix'', ''prefix'']),
        (''site'', get_site_data rt),
        (''sysconfig'', dr_config_vars rt),
        (''version'', JStr (dr_version rt)),
        (''version_info'', JList (dr_version_info rt))]))"

definition diagnostic_main :: "python_runtime \<Rightarrow> (json list, int) py" where
  "diagnostic_main rt = bind (lift_res (create_diagnostics rt)) (\<lambda>diagnostics.
     andthen (\<lambda>printed. (Inr (), printed @ [diagnostics])) (ret 0))"

section \<open>Secrets\<close>

definition is_sensitive :: "string \<Rightarrow> bool" where
  "is_sensitive key \<longleftrightarrow> (\<exists>term \<in> set SENSITIVE_ENVIRONMENT_TERMS. contains term (py_lower key))"

lemma redact_environment_value_if:
  "redact_environment_value key v = (if is_sensitive key then ''<redacted>'' else v)"
  by (simp add: redact_environment_value_def is_sensitive_def list_ex_iff)

text \<open>Environments with the same names in the same order, of which the values agree except for the
  sensitive ones.\<close>

definition same_but_secrets :: "(string \<times> string) list \<Rightarrow> (string \<times> string) list \<Rightarrow> bool" where
  "same_but_secrets = list_all2 (\<lambda>(k, v) (k', v'). k' = k \<and> (is_sensitive k \<or> v' = v))"

lemma same_but_secrets_insort:
  "same_but_secrets xs ys \<Longrightarrow> fst x = fst y \<Longrightarrow> is_sensitive (fst x) \<or> snd y = snd x \<Longrightarrow>
   same_but_secrets (insort_key fst x xs) (insort_key fst y ys)"
  unfolding same_but_secrets_def
  by (induction rule: list_all2_induct) (auto split: prod.splits)

lemma same_but_secrets_sort: "same_but_secrets xs ys \<Longrightarrow> same_but_secrets (sort_key fst xs) (sort_key fst ys)"
proof (induction xs arbitrary: ys)
  case Nil
  then show ?case by (simp add: same_but_secrets_def)
next
  case (Cons x xs)
  then obtain y ys' where ys: "ys = y # ys'" "same_but_secrets xs ys'" "fst x = fst y"
    "is_sensitive (fst x) \<or> snd y = snd x"
    by (auto simp: same_but_secrets_def list_all2_Cons1)
  with Cons.IH show ?case by (simp add: same_but_secrets_insort)
qed

lemma printed_environment_same:
  assumes "same_but_secrets xs ys"
  shows "map (\<lambda>(k, v). (k, JStr (redact_environment_value k v))) xs =
    map (\<lambda>(k, v). (k, JStr (redact_environment_value k v))) ys"
  using assms unfolding same_but_secrets_def
  by (induction rule: list_all2_induct) (auto simp: redact_environment_value_if)

text \<open>C39. What is printed, and whether anything is printed, does not depend on the value of an environment
  variable whose name holds one of the six terms in any case.\<close>

theorem diagnostics_hide_secrets:
  assumes "same_but_secrets (dr_environ rt) environ"
  shows "diagnostic_main (rt\<lparr>dr_environ := environ\<rparr>) printed = diagnostic_main rt printed"
proof -
  from assms have "get_environment (rt\<lparr>dr_environ := environ\<rparr>) = get_environment rt"
    by (simp add: get_environment_def printed_environment_same [OF same_but_secrets_sort])
  moreover have "get_installed_packages (rt\<lparr>dr_environ := environ\<rparr>) = get_installed_packages rt"
    "get_site_data (rt\<lparr>dr_environ := environ\<rparr>) = get_site_data rt"
    by (simp_all add: get_installed_packages_def get_site_data_def cong: if_cong)
  ultimately show ?thesis by (simp add: diagnostic_main_def create_diagnostics_def)
qed

definition plain_python :: python_runtime where
  "plain_python = \<lparr>dr_environ = [(''HOME'', ''/root''), (''Groq_Api_Key'', ''k1'')], dr_executable = ''python'',
     dr_implementation = ''CPython'', dr_search_path = [], dr_platform = \<lambda>_. JNull, dr_prefix = \<lambda>_. ''/usr'',
     dr_user_base = JNull, dr_user_site = JNull, dr_site_packages = None, dr_config_vars = JObj [],
     dr_version = ''3.13'', dr_version_info = [], dr_run = \<lambda>_. Inl (TimeoutExpired ''pip''),
     dr_loads = \<lambda>_. Inr JNull\<rparr>"

lemma py_lower_key: "is_sensitive ''Groq_Api_Key''"
  by code_simp

theorem diagnostics_hide_secrets_witness:
  "diagnostic_main (plain_python\<lparr>dr_environ := [(''HOME'', ''/root''), (''Groq_Api_Key'', ''k2'')]\<rparr>) [] =
   diagnostic_main plain_python []"
  by (rule diagnostics_hide_secrets) (simp add: plain_python_def same_but_secrets_def py_lower_key)

text \<open>The list knows fewer words than the one Sandbox Tester redacts its evidence with: a key, an
  authorization or a private key is printed.\<close>

lemma printed_secrets:
  "list_all (\<lambda>name. redact_environment_value name v = v)
     [''AWS_ACCESS_KEY_ID'', ''SSH_PRIVATE_KEY'', ''HTTP_AUTHORIZATION'', ''PGPASS'']"
proof -
  have "list_all (\<lambda>name. \<not> is_sensitive name)
      [''AWS_ACCESS_KEY_ID'', ''SSH_PRIVATE_KEY'', ''HTTP_AUTHORIZATION'', ''PGPASS'']"
    by code_simp
  then show ?thesis by (simp add: redact_environment_value_if)
qed

text \<open>A \<open>pip\<close> that cannot be started, or does not end, leaves nothing printed at all.\<close>

lemma pip_failure_loses_diagnostics:
  "dr_run rt [dr_executable rt, ''-m'', ''pip'', ''list'', ''--format=json''] = Inl e \<Longrightarrow>
   diagnostic_main rt printed = (Inl e, printed)"
  by (simp add: diagnostic_main_def create_diagnostics_def get_installed_packages_def lift_res_def bind_def)

end
