(* ===== verification/Spec2Isabelle.thy ===== *)
theory Spec2Isabelle
  imports Hardening Tester_In_Container Local_Sandbox Write_Policy Tester_Group_04 Tester_Group_05 Tester_Group_12
    Tester_Group_17 Tester_Group_22 Guest_Stream Qemu_Run Vbox_Run Vbox_Diagnostic
begin

text \<open>
  A model of the Docker, QEMU, VirtualBox and local sandboxes and of the core of Sandbox Tester, with the
  properties that make them correct. Source paths are relative to \<open>src/\<close> of the repository.

  \<^bold>\<open>The program.\<close> \<open>src/docker_sandbox\<close> runs an agent in a hardened container. Its command line
  (\<open>cli.py\<close>) builds a configuration from a profile (\<open>profiles.py\<close>), makes sure the image exists
  (\<open>container_factory.py\<close>), runs the container (\<open>sandbox_container.py\<close>), saves what it said
  (\<open>run_results.py\<close>) and removes it. Inside the container \<open>landlock_runner.py\<close> restricts the
  process and starts the tester in it, and \<open>dockerfile/runtime_sitecustomize.py\<close>, loaded by the
  interpreter, wraps the Python functions a profile denies. \<open>src/sandbox_tester\<close> is the agent that
  probes the sandbox: it reads the configuration the container runner wrote, runs groups of
  capability tests, tells reporters what happens and writes a report. \<open>src/qemu_sandbox\<close> and
  \<open>src/virtualbox_sandbox\<close> run the same agent in a disposable virtual machine: they start a copy of
  a base machine, reach its SSH server, prepare directories and a configuration in it, upload and
  run the agent, download its report, and stop and remove the machine. \<open>src/local_sandbox\<close> runs the
  agent where it stands, in two test directories it makes and removes.

  \<^bold>\<open>How effects are modelled.\<close> Effectful code is a function from a state to a result and a state
  (type \<open>py\<close> of \<open>Prelude\<close>), where a result is an exception or a value. The world outside the
  repository - disk, links, the \<open>docker\<close> command, the kernel, the probed machine - is a parameter
  that answers each operation as a function of everything that happened before, so it may fail
  anywhere and change its mind. The state is the log of the operations, and properties speak
  about the log (or about the disk a log leaves, \<open>disk_after\<close>) for every world. The recursions are
  structural or on a measure, and the operations are total, so that a claim that something
  returns is proved as such. A loop that ends at a deadline runs over what the world answers
  before it: a list of attempts to reach the SSH server (\<open>vm_ssh\<close>), a number of polls
  (\<open>vm_polls\<close>). The one loop that may run forever, the polling of a remote command, is a
  \<open>partial_function\<close> into options (\<open>Guest_Stream\<close>).

  \<^bold>\<open>Shared ground.\<close>
  \<^item> \<open>Prelude\<close>: exceptions, results, strings, dictionaries, the state-and-exception functions and
    the calculus \<open>triple\<close> for them.
  \<^item> \<open>Posix_Path\<close>, \<open>Json\<close>, \<open>Ip_Address\<close>, \<open>Url\<close>, \<open>Shell_Words\<close>, \<open>Regex\<close>: the parts of Python's library,
    and of a POSIX shell, that the code relies on: paths, parsed documents, \<open>ipaddress\<close> (on
    words of 32 and 128 bits), \<open>urlparse\<close>, the words of a shell line, \<open>re\<close> as a backtracking matcher.
  \<^item> \<open>Host\<close>, \<open>Tester_World\<close> and \<open>Guest_World\<close>: the worlds of the container runner, of the tester, and of a
    virtual machine run (a host and a guest). The locale \<open>log_property\<close> (\<open>Host\<close>) says which properties
    of a log go through every way operations are composed; it is interpreted on the events of a
    log and on the guarded removals of a run.
  \<^item> \<open>Monitor\<close>: properties of the order of events, as a state that reads the log from the left. The
    locale \<open>monitor\<close> says which events keep what is viewed of the state; it is interpreted on the
    process of a QEMU run and on the registry of VirtualBox.

  \<^bold>\<open>The Docker sandbox.\<close>
  \<^item> \<open>Docker_Models\<close> (\<open>models.py\<close>): the dataclasses. \<open>Profiles\<close> (\<open>profiles.py\<close>): the eighteen profiles
    and the table of the supported names; their order by strictness is computed once
    (\<open>sorted_hardening_chain\<close>).
  \<^item> \<open>Gateway\<close>, \<open>Environment\<close>, \<open>Container_Options\<close>, \<open>Container_Run\<close> (\<open>sandbox_container.py\<close>, in the order of
    the file): the egress gateway and its Squid configuration; the container's environment; the
    options, the script and the documents of a run; the run with its fixtures and cleanup. The
    locale \<open>run_fixture\<close> is what the three preparations of read-only material promise to the run.
  \<^item> \<open>Docker_Cli\<close> (\<open>cli.py\<close>, \<open>container_factory.py\<close>, \<open>run_results.py\<close>): from parsed arguments to the exit code.
  \<^item> \<open>Landlock\<close> (\<open>landlock_runner.py\<close>): policy parsing to 64-bit rights and the system calls over an
    arbitrary kernel. \<open>Runtime_Guards\<close> (\<open>runtime_sitecustomize.py\<close>): import finders, script check,
    socket, hardware and spawn guards.
  \<^item> \<open>Supported\<close> and \<open>Hardening\<close>: what holds of every supported profile when it meets the runner, the
    bootstrapper and the guards, and that a stricter profile keeps what a laxer one restricts.

  \<^bold>\<open>Sandbox Tester.\<close>
  \<^item> \<open>Redaction\<close> (\<open>redaction.py\<close>): the patterns as regular expressions. The lemmas describe the words
    of each pattern, and from them what a substitution removes and leaves.
  \<^item> \<open>Tester_Models\<close> (\<open>models.py\<close> and the context of \<open>testing.py\<close>), \<open>Tester_Directories\<close> (removal of the test
    directories).
  \<^item> \<open>Reporting\<close> (\<open>reporter.py\<close>, \<open>run_group\<close>): the protocol of a reporter is a record of operations. The
    locale \<open>reporter_contract\<close> says which events a reporter adds, \<open>status_keeper\<close> that it keeps the
    protocol in a file; both are interpreted on the reporters of the code.
  \<^item> \<open>Tester_Runner\<close> (\<open>manager.py\<close>, \<open>runner.py\<close>, \<open>utilities.py\<close>, \<open>cli.py\<close>): \<open>so_far\<close> is the invariant that a
    property of the disk held at every moment of a run, \<open>adds_lines\<close> the refinement between the
    status file and the report.
  \<^item> \<open>Tester_Group_08\<close> (\<open>group_08.py\<close>), \<open>Tester_Group_22\<close> (\<open>group_22.py\<close>): two groups of probes in full. The
    shell scripts of the second have a meaning, \<open>sh_run\<close>, in a world of files and programs.
  \<^item> \<open>Tester_Probes\<close>: what the other groups share. Each has a copy of the code that runs a list of attempts, with
    its own classification of what programs answer; \<open>attempts_with\<close> is that code with the differences as
    arguments, and the locale \<open>attempt_runner\<close>, interpreted on every runner, is what the run of one attempt
    promises. \<open>yields\<close> speaks of what an operation returns whatever the machine answers. \<open>Shell_Script\<close> is the
    part of the shell language the probes write: the text of a script and its run, so that a lemma on
    the run is one on the text the code sends.
  \<^item> \<open>Tester_Files\<close>: the files of a probe, as operations that a \<open>file_world\<close> answers, and a world that is a disk with a
    policy (\<open>governed\<close>): a tree of files, what an operation or one of nine programs makes of it, and what is refused.
    \<open>Tester_Group_03\<close> (\<open>group_03.py\<close>, writing and changing files) in full, with what it touches; \<open>Write_Policy\<close>:
    what its tests report of such a disk (\<open>test_reports\<close>). The locale \<open>policy_disk\<close> holds the laws of the
    disk as rules that compute an invocation, \<open>test_directory\<close> extends it by a directory of which the policy
    says one thing; the first is interpreted on \<open>policy_world\<close>, the second used for both directories.
  \<^item> \<open>Tester_Group_04\<close> (\<open>group_04.py\<close>, disk space), \<open>Tester_Group_05\<close> (\<open>group_05.py\<close>, environment and
    credentials), \<open>Tester_Group_12\<close> (\<open>group_12.py\<close>, user interface) and \<open>Tester_Group_17\<close> (\<open>group_17.py\<close>, cloud accounts): which outcome each probe reports, from the status its
    script ends with (\<open>ui_statuses\<close>, \<open>credentials_in\<close>), and which evidence it can report at all
    (\<open>counts_only\<close>, \<open>cloud_evidence\<close>). A lemma \<open>group_N_emits\<close> says what a group does to the machine,
    \<open>group_N_returns\<close> that its invocations answer.
  \<^item> \<open>Tester_In_Container\<close>: the two programs together: the configuration one writes and the other
    reads, and what the probes of a guarded interpreter report.

  \<^item> \<open>Local_Sandbox\<close> (\<open>local_sandbox/cli.py\<close>, the rest of \<open>testing.py\<close>): a run of the tester inside a run of
    its launcher. \<open>under\<close> is the tester's action on the tester's part of the log, with every printed
    line going through the two streams of \<open>_TeeTextIO\<close>; \<open>triple_local_main\<close> is how a run ends.

  \<^bold>\<open>The virtual machine sandboxes.\<close>
  \<^item> \<open>Guest_Commands\<close>, \<open>Guest_Runner\<close>, \<open>Guest_Stream\<close> (\<open>virtualbox_sandbox/guest_script_runner.py\<close>, which both
    sandboxes use): the commands sent to the guest and how its login shell reads them, the upload
    of a source tree, the run of an agent or of a script, and the loop that streams its output.
  \<^item> \<open>Guest_Layout\<close> (\<open>guest_run_layout.py\<close>): the directories, fixtures and configuration of a run in the
    guest, and that Sandbox Tester reads the configuration as it was meant.
  \<^item> \<open>Guest_Credentials\<close>, \<open>Guest_Session\<close>: what both packages hold a copy of - credentials, the attempts to
    reach SSH, \<open>sudo\<close>, artifacts and results - with the operations that touch no machine (\<open>quiet\<close>).
  \<^item> \<open>Qemu_Machine\<close> (\<open>qemu_machine_factory.py\<close>) and \<open>Qemu_Run\<close> (\<open>virtual_machine_setup.py\<close>, \<open>run_results.py\<close>,
    \<open>cli.py\<close>): the machine process from its command to its end, and a run from arguments to exit
    code. The monitor \<open>machine_left\<close> knows whether a started machine still runs.
  \<^item> \<open>Vbox_Machine\<close> (\<open>virtual_machine_factory.py\<close>), \<open>Vbox_Run\<close> (\<open>virtual_machine_setup.py\<close>, \<open>run_results.py\<close>,
    \<open>cli.py\<close>): the state of a machine from the listings of \<open>VBoxManage\<close>, the base machine, the clone,
    the port forwards, and a run. \<open>Vbox_Registry\<close> is the specification they meet: a registry of
    machines and NAT rules, the commands that change it, what the state of a machine forbids, and
    what the listings print; machines change their power state by themselves between commands.
    A host that runs such a VirtualBox is the hypothesis \<open>virtual_box_host\<close>, instantiated by
    \<open>with_virtual_box\<close>.
  \<^item> \<open>Vbox_Diagnostic\<close> (\<open>diagnostic.py\<close>): what a Python tells of itself, without the values of sensitive
    variables. The answers of the interpreter are the record \<open>python_runtime\<close>.

  \<^bold>\<open>Not modelled.\<close> The other test groups (\<open>group_01.py\<close> to \<open>group_30.py\<close>), which probe files, sockets,
  browsers and devices; \<open>argparse\<close> (the parsed
  arguments are the input); the Dockerfile and the shell scripts of the images; Windows paths;
  characters above the 8-bit range; floating-point numbers in JSON and its textual form (where
  one part writes a document and another reads it, they exchange the parsed value); the
  texts of exceptions raised by the standard library, of which only the kind matters;
  writes to a terminal or an open text file that fail.
\<close>

end
